(* ===== verification/Prelude.thy ===== *)
theory Prelude
  imports Main "HOL-Library.Word" "HOL-Library.AList"
begin

text \<open>
  Shared vocabulary of the development: results that are either an error or a value and their
  sequencing, positional notation (digits of a number, big-endian byte strings), the JavaScript
  string helpers the sources use, the insertion-ordered \<^verbatim>\<open>Map\<close> of the language with its interface as
  a locale, and the locale of systems with an invariant.
\<close>

section \<open>Results\<close>

named_theorems result_simps \<open>rewrite rules for results and their sequencing\<close>

type_synonym byte = "8 word"
type_synonym bytes = "byte list"

definition bindR :: "'err + 'x \<Rightarrow> ('x \<Rightarrow> 'err + 'y) \<Rightarrow> 'err + 'y" where
  "bindR m f = (case m of Inl e \<Rightarrow> Inl e | Inr x \<Rightarrow> f x)"

lemma bindR_simps [simp]:
  "bindR (Inl e) f = Inl e"
  "bindR (Inr x) f = f x"
  by (simp_all add: bindR_def)

lemma bindR_Inr_iff [result_simps]: "bindR r k = Inr v \<longleftrightarrow> (\<exists>u. r = Inr u \<and> k u = Inr v)"
  by (cases r) auto

lemma bindR_Inl_iff [result_simps]:
  "bindR m f = Inl e \<longleftrightarrow> m = Inl e \<or> (\<exists>x. m = Inr x \<and> f x = Inl e)"
  by (cases m) auto

lemma bindR_cong [fundef_cong]:
  "m = m' \<Longrightarrow> (\<And>x. m' = Inr x \<Longrightarrow> f x = g x) \<Longrightarrow> bindR m f = bindR m' g"
  by (cases m') auto

lemma bindR_assoc: "bindR (bindR m f) g = bindR m (\<lambda>x. bindR (f x) g)"
  by (cases m) auto

definition guardR :: "bool \<Rightarrow> 'e \<Rightarrow> 'e + unit" where
  "guardR ok e = (if ok then Inr () else Inl e)"

lemma guardR_iff [result_simps]:
  "guardR ok e = Inr u \<longleftrightarrow> ok"
  "guardR ok e = Inl e' \<longleftrightarrow> \<not> ok \<and> e' = e"
  by (auto simp: guardR_def)

text \<open>A callback mapped over an array stops at the first exception.\<close>

primrec mapR :: "('x \<Rightarrow> 'err + 'y) \<Rightarrow> 'x list \<Rightarrow> 'err + 'y list" where
  "mapR f [] = Inr []"
| "mapR f (x # xs) = bindR (f x) (\<lambda>y. bindR (mapR f xs) (\<lambda>ys. Inr (y # ys)))"

lemma mapR_cong [fundef_cong]:
  "xs = ys \<Longrightarrow> (\<And>x. x \<in> set ys \<Longrightarrow> f x = g x) \<Longrightarrow> mapR f xs = mapR g ys"
  by (induction ys arbitrary: xs) auto

lemma mapR_Inr_iff [result_simps]:
  "mapR f xs = Inr ys \<longleftrightarrow> list_all2 (\<lambda>x y. f x = Inr y) xs ys"
  by (induction xs arbitrary: ys) (auto simp: result_simps list_all2_Cons1)

lemma mapR_length: "mapR f xs = Inr ys \<Longrightarrow> length ys = length xs"
  by (auto simp: result_simps dest: list_all2_lengthD)

lemma mapR_all_Inr: "(\<And>x. x \<in> set xs \<Longrightarrow> f x = Inr (g x)) \<Longrightarrow> mapR f xs = Inr (map g xs)"
  by (induction xs) auto

section \<open>Positional notation\<close>

function radix_digits :: "nat \<Rightarrow> nat \<Rightarrow> nat list" where
  "radix_digits b n =
     (if b < 2 \<or> n < b then [n] else radix_digits b (n div b) @ [n mod b])"
  by pat_completeness auto
termination by (relation "measure snd") auto

declare radix_digits.simps [simp del]

definition radix_val :: "nat \<Rightarrow> nat list \<Rightarrow> nat" where
  "radix_val b ds = foldl (\<lambda>a d. a * b + d) 0 ds"

lemma radix_val_Nil [simp]: "radix_val b [] = 0"
  by (simp add: radix_val_def)

lemma radix_val_snoc [simp]: "radix_val b (ds @ [d]) = radix_val b ds * b + d"
  by (simp add: radix_val_def)

lemma radix_val_Cons: "radix_val b (d # ds) = d * b ^ length ds + radix_val b ds"
proof (induction ds rule: rev_induct)
  case Nil
  show ?case by (simp add: radix_val_def)
next
  case (snoc x xs)
  have "radix_val b (d # xs @ [x]) = radix_val b (d # xs) * b + x"
    using radix_val_snoc [of b "d # xs" x] by simp
  then show ?case by (simp add: snoc.IH algebra_simps)
qed

lemma radix_val_digits [simp]: "radix_val b (radix_digits b n) = n"
proof (induction b n rule: radix_digits.induct)
  case (1 b n)
  show ?case
  proof (cases "b < 2 \<or> n < b")
    case True
    then show ?thesis by (subst radix_digits.simps) (simp add: radix_val_def)
  next
    case False
    with 1 show ?thesis by (subst radix_digits.simps) simp
  qed
qed

lemma radix_digits_less: "2 \<le> b \<Longrightarrow> d \<in> set (radix_digits b n) \<Longrightarrow> d < b"
proof (induction b n rule: radix_digits.induct)
  case (1 b n)
  show ?case
  proof (cases "n < b")
    case True
    with 1(3) show ?thesis by (subst (asm) radix_digits.simps) simp
  next
    case False
    have "radix_digits b n = radix_digits b (n div b) @ [n mod b]"
      using False 1(2) by (subst radix_digits.simps) simp
    with 1 False show ?thesis by auto
  qed
qed

lemma radix_digits_nonempty [simp]: "radix_digits b n \<noteq> []"
  by (subst radix_digits.simps) simp

lemma radix_digits_length:
  assumes "n < b ^ w" and "0 < w" and "2 \<le> b"
  shows "length (radix_digits b n) \<le> w"
  using assms
proof (induction w arbitrary: n)
  case 0
  then show ?case by simp
next
  case (Suc w)
  show ?case
  proof (cases "n < b")
    case True
    then show ?thesis by (subst radix_digits.simps) simp
  next
    case False
    with Suc.prems have "n div b < b ^ w" and "0 < w"
      by (auto simp: less_mult_imp_div_less mult.commute intro!: gr0I)
    with Suc.IH [of "n div b"] Suc.prems(3) False show ?thesis
      by (subst radix_digits.simps) simp
  qed
qed

text \<open>A digit string has no leading zero, except for the number zero itself.\<close>

lemma radix_digits_hd: "2 \<le> b \<Longrightarrow> 0 < n \<Longrightarrow> 0 < hd (radix_digits b n)"
proof (induction b n rule: radix_digits.induct)
  case (1 b n)
  show ?case
  proof (cases "n < b")
    case True
    with 1 show ?thesis by (subst radix_digits.simps) simp
  next
    case False
    with 1 have "0 < hd (radix_digits b (n div b))"
      by (simp add: div_greater_zero_iff)
    with False 1(2) show ?thesis
      by (subst radix_digits.simps) (simp add: hd_append)
  qed
qed

lemma radix_val_bound:
  "(\<And>d. d \<in> set ds \<Longrightarrow> d < b) \<Longrightarrow> 0 < b \<Longrightarrow> radix_val b ds < b ^ length ds"
proof (induction ds)
  case Nil
  then show ?case by simp
next
  case (Cons d ds)
  then have "radix_val b ds < b ^ length ds" and "d < b" by auto
  moreover have "(d + 1) * b ^ length ds \<le> b * b ^ length ds"
    using \<open>d < b\<close> by (intro mult_right_mono) auto
  ultimately show ?case by (simp add: radix_val_Cons algebra_simps)
qed

lemma radix_val_append:
  "radix_val b (xs @ ys) = radix_val b xs * b ^ length ys + radix_val b ys"
  by (induction xs) (simp_all add: radix_val_Cons algebra_simps power_add)

lemma radix_val_zeros [simp]: "radix_val b (replicate k 0) = 0"
  by (induction k) (simp_all add: radix_val_Cons)

text \<open>Digit strings of the same length are determined by their value.\<close>

lemma radix_val_inj:
  assumes "length xs = length ys" and "radix_val b xs = radix_val b ys"
    and "\<And>d. d \<in> set xs \<Longrightarrow> d < b" and "\<And>d. d \<in> set ys \<Longrightarrow> d < b"
  shows "xs = ys"
  using assms
proof (induction xs ys rule: list_induct2)
  case Nil
  then show ?case by simp
next
  case (Cons x xs y ys)
  then have b: "0 < b" by fastforce
  have "radix_val b xs < b ^ length xs" "radix_val b ys < b ^ length ys"
    using Cons.prems b by (auto intro!: radix_val_bound)
  moreover have "x * b ^ length xs + radix_val b xs = y * b ^ length xs + radix_val b ys"
    using Cons.prems(1) Cons.hyps by (simp add: radix_val_Cons)
  ultimately have "x = y \<and> radix_val b xs = radix_val b ys"
    using Cons.hyps b
    by (metis add_left_cancel add.commute div_mult_self1 div_less add_0 zero_less_power
        less_numeral_extra(3))
  with Cons show ?case by auto
qed

lemma radix_val_pos: "ds \<noteq> [] \<Longrightarrow> 0 < hd ds \<Longrightarrow> 0 < b \<Longrightarrow> 0 < radix_val b ds"
  by (cases ds) (simp_all add: radix_val_Cons)

text \<open>A digit string with no leading zero is the one the number is written with.\<close>

lemma radix_digits_canonical:
  assumes "2 \<le> b" and "\<forall>d \<in> set ds. d < b" and "ds \<noteq> []" and "0 < hd ds \<or> length ds = 1"
  shows "radix_digits b (radix_val b ds) = ds"
  using assms
proof (induction ds rule: rev_induct)
  case Nil
  then show ?case by simp
next
  case (snoc d ds)
  show ?case
  proof (cases "ds = []")
    case True
    with snoc show ?thesis by (subst radix_digits.simps) (simp add: radix_val_Cons)
  next
    case False
    with snoc have hd: "0 < hd ds" by (auto simp: hd_append)
    with False snoc.prems have "0 < radix_val b ds" by (intro radix_val_pos) auto
    moreover have "d < b" using snoc.prems by simp
    moreover have "b \<le> radix_val b ds * b + d"
      using calculation by (cases "radix_val b ds") auto
    moreover have "radix_digits b (radix_val b ds) = ds" using snoc False hd by auto
    ultimately show ?thesis
      using snoc.prems(1) by (subst radix_digits.simps) simp
  qed
qed

lemma radix_digits_shift:
  assumes "2 \<le> b" and "0 < n"
  shows "radix_digits b (n * b ^ k) = radix_digits b n @ replicate k 0"
proof -
  have "radix_val b (radix_digits b n @ replicate k 0) = n * b ^ k"
    by (simp add: radix_val_append)
  moreover have "radix_digits b (radix_val b (radix_digits b n @ replicate k 0))
      = radix_digits b n @ replicate k 0"
    using assms radix_digits_hd [of b n] radix_digits_less [of b _ n]
    by (intro radix_digits_canonical) (auto simp: hd_append)
  ultimately show ?thesis by simp
qed

section \<open>Byte strings\<close>

definition be_nat :: "bytes \<Rightarrow> nat" where
  "be_nat bs = radix_val 256 (map unat bs)"

primrec nat_be :: "nat \<Rightarrow> nat \<Rightarrow> bytes" where
  "nat_be 0 n = []"
| "nat_be (Suc w) n = nat_be w (n div 256) @ [of_nat (n mod 256)]"

text \<open>The shortest big-endian byte string of a number: one zero byte for zero.\<close>

definition nat_bytes :: "nat \<Rightarrow> bytes" where
  "nat_bytes n = map of_nat (radix_digits 256 n)"

lemma unat_byte_less [simp]: "unat (x :: byte) < 256"
  using unsigned_less [of x] by simp

lemma unat_of_nat_byte: "n < 256 \<Longrightarrow> unat (of_nat n :: byte) = n"
  by (simp add: unat_of_nat)

lemma be_nat_Nil [simp]: "be_nat [] = 0"
  by (simp add: be_nat_def)

lemma be_nat_append: "be_nat (xs @ ys) = be_nat xs * 256 ^ length ys + be_nat ys"
  by (simp add: be_nat_def radix_val_append)

lemma be_nat_zeros [simp]: "be_nat (replicate k 0) = 0"
  by (simp add: be_nat_def)

lemma be_nat_snoc [simp]: "be_nat (xs @ [x]) = be_nat xs * 256 + unat x"
  by (simp add: be_nat_def)

lemma be_nat_bound: "be_nat bs < 256 ^ length bs"
proof -
  have "radix_val 256 (map unat bs) < 256 ^ length (map unat bs)"
    by (rule radix_val_bound) auto
  then show ?thesis by (simp add: be_nat_def)
qed

lemma length_nat_be [simp]: "length (nat_be w n) = w"
  by (induction w arbitrary: n) simp_all

lemma be_nat_nat_be: "be_nat (nat_be w n) = n mod 256 ^ w"
proof (induction w arbitrary: n)
  case 0
  then show ?case by simp
next
  case (Suc w)
  have "n mod 256 ^ Suc w = 256 * (n div 256 mod 256 ^ w) + n mod 256"
    by (simp add: mod_mult2_eq)
  then show ?case by (simp add: Suc.IH unat_of_nat mult.commute)
qed

lemma map_unat_inj: "map unat xs = map unat (ys :: bytes) \<Longrightarrow> xs = ys"
  by (metis inj_map_eq_map inj_on_def word_unat_eq_iff)

lemma be_nat_inj: "length xs = length ys \<Longrightarrow> be_nat xs = be_nat ys \<Longrightarrow> xs = ys"
  unfolding be_nat_def
  by (rule map_unat_inj, rule radix_val_inj [where b = 256]) auto

lemma nat_be_be_nat: "nat_be (length bs) (be_nat bs) = bs"
  by (rule be_nat_inj) (simp_all add: be_nat_nat_be be_nat_bound)

lemma map_unat_nat_bytes: "map unat (nat_bytes n) = radix_digits 256 n"
proof -
  have "unat (of_nat d :: byte) = d" if "d \<in> set (radix_digits 256 n)" for d
    using radix_digits_less [OF _ that] by (simp add: unat_of_nat_byte)
  then show ?thesis by (simp add: nat_bytes_def map_idI)
qed

lemma be_nat_nat_bytes [simp]: "be_nat (nat_bytes n) = n"
  by (simp add: be_nat_def map_unat_nat_bytes)

lemma nat_bytes_length: "n < 256 ^ w \<Longrightarrow> 0 < w \<Longrightarrow> length (nat_bytes n) \<le> w"
  by (simp add: nat_bytes_def radix_digits_length)

lemma pad_left_nat_be:
  "length bs \<le> w \<Longrightarrow> replicate (w - length bs) 0 @ bs = nat_be w (be_nat bs)"
  by (rule be_nat_inj)
     (simp_all add: be_nat_append be_nat_nat_be order_less_le_trans [OF be_nat_bound])

section \<open>Computations over a state that may throw\<close>

text \<open>
  A method that mutates its receiver and may throw: the receiver's new state is kept on both
  outcomes, as a \<^verbatim>\<open>catch\<close> block of the caller sees it.
\<close>

type_synonym ('s, 'e, 'a) action = "'s \<Rightarrow> ('e + 'a) \<times> 's"

definition returnS :: "'a \<Rightarrow> ('s, 'e, 'a) action" where
  "returnS x s = (Inr x, s)"

definition throwS :: "'e \<Rightarrow> ('s, 'e, 'a) action" where
  "throwS e s = (Inl e, s)"

definition bindS :: "('s, 'e, 'a) action \<Rightarrow> ('a \<Rightarrow> ('s, 'e, 'b) action) \<Rightarrow> ('s, 'e, 'b) action" where
  "bindS m f s = (case m s of (Inl e, s') \<Rightarrow> (Inl e, s') | (Inr x, s') \<Rightarrow> f x s')"

definition liftS :: "'e + 'a \<Rightarrow> ('s, 'e, 'a) action" where
  "liftS r s = (r, s)"

lemma action_simps [simp]:
  "returnS x s = (Inr x, s)"
  "throwS e s = (Inl e, s)"
  "liftS r s = (r, s)"
  by (simp_all add: returnS_def throwS_def liftS_def)

lemma bindS_Inr: "m s = (Inr x, s') \<Longrightarrow> bindS m f s = f x s'"
  by (simp add: bindS_def)

lemma bindS_Inl: "m s = (Inl e, s') \<Longrightarrow> bindS m f s = (Inl e, s')"
  by (simp add: bindS_def)

lemma bindS_cases:
  assumes "bindS m f s = (r, s')"
  obtains (throw) e where "m s = (Inl e, s')" "r = Inl e"
  | (ok) x s1 where "m s = (Inr x, s1)" "f x s1 = (r, s')"
  using assms by (auto simp: bindS_def split: prod.splits sum.splits)

lemma bindS_cong [fundef_cong]:
  "s = s' \<Longrightarrow> m s' = m' s' \<Longrightarrow> (\<And>x t. m' s' = (Inr x, t) \<Longrightarrow> f x t = g x t)
    \<Longrightarrow> bindS m f s = bindS m' g s'"
  by (auto simp: bindS_def split: prod.splits sum.splits)

text \<open>
  A relation between the state before and after, such as one that says which part of the state only
  grows, holds for a composed action when it holds for its parts, whatever they return or throw.
\<close>

definition always :: "('s \<Rightarrow> 's \<Rightarrow> bool) \<Rightarrow> ('s, 'e, 'a) action \<Rightarrow> bool" where
  "always rel m \<longleftrightarrow> (\<forall>s. rel s (snd (m s)))"

lemma alwaysD: "always rel m \<Longrightarrow> m s = (r, s') \<Longrightarrow> rel s s'"
  by (metis always_def snd_conv)

locale action_relation =
  fixes rel :: "'s \<Rightarrow> 's \<Rightarrow> bool"
  assumes rel_refl: "rel s s"
    and rel_trans: "rel s t \<Longrightarrow> rel t u \<Longrightarrow> rel s u"
begin

lemma always_same: "(\<And>s. snd (m s) = s) \<Longrightarrow> always rel m"
  by (simp add: always_def rel_refl)

lemma always_basic: "always rel (returnS x)" "always rel (throwS e)" "always rel (liftS r)"
  by (simp_all add: always_def rel_refl)

lemma always_bind: "always rel m \<Longrightarrow> (\<And>x. always rel (f x)) \<Longrightarrow> always rel (bindS m f)"
  unfolding always_def bindS_def
  by (auto split: prod.splits sum.splits) (metis rel_trans snd_conv)+

end

section \<open>The Map of the language\<close>

text \<open>
  A JavaScript \<^verbatim>\<open>Map\<close> iterates over its keys in insertion order: overwriting an entry keeps its
  place and a deleted key that is inserted again goes to the end. The interface below is what its
  clients rely on; association lists with the library's \<^const>\<open>AList.update\<close> and
  \<^const>\<open>AList.delete\<close> provide it.
\<close>

locale js_map =
  fixes get :: "'m \<Rightarrow> 'k \<Rightarrow> 'v option"
    and put :: "'k \<Rightarrow> 'v \<Rightarrow> 'm \<Rightarrow> 'm"
    and del :: "'k \<Rightarrow> 'm \<Rightarrow> 'm"
    and keys :: "'m \<Rightarrow> 'k list"
    and ok :: "'m \<Rightarrow> bool"
  assumes get_put: "get (put k v m) k' = (if k = k' then Some v else get m k')"
    and get_del: "get (del k m) k' = (if k = k' then None else get m k')"
    and keys_get: "k \<in> set (keys m) \<longleftrightarrow> get m k \<noteq> None"
    and keys_distinct: "ok m \<Longrightarrow> distinct (keys m)"
    and ok_put: "ok m \<Longrightarrow> ok (put k v m)"
    and ok_del: "ok m \<Longrightarrow> ok (del k m)"
    and keys_put: "keys (put k v m) = (if get m k = None then keys m @ [k] else keys m)"
    and keys_del: "keys (del k m) = filter (\<lambda>k'. k' \<noteq> k) (keys m)"
begin

lemma get_fold_del:
  "get (fold del ks m) k = (if k \<in> set ks then None else get m k)"
  by (induction ks arbitrary: m) (auto simp: get_del)

lemma get_fold_put:
  "get (fold (\<lambda>k. put k v) ks m) k = (if k \<in> set ks then Some v else get m k)"
  by (induction ks arbitrary: m) (auto simp: get_put)

lemma ok_fold_del: "ok m \<Longrightarrow> ok (fold del ks m)"
  by (induction ks arbitrary: m) (auto intro: ok_del)

lemma ok_fold_put: "ok m \<Longrightarrow> ok (fold (\<lambda>k. put k v) ks m)"
  by (induction ks arbitrary: m) (auto intro: ok_put)

lemma keys_fold_del: "keys (fold del ks m) = filter (\<lambda>k. k \<notin> set ks) (keys m)"
  by (induction ks arbitrary: m) (auto simp: keys_del intro!: filter_cong)

lemma keys_fold_put:
  "distinct ks \<Longrightarrow> (\<And>k. k \<in> set ks \<Longrightarrow> get m k = None)
    \<Longrightarrow> keys (fold (\<lambda>k. put k v) ks m) = keys m @ ks"
proof (induction ks arbitrary: m)
  case Nil
  then show ?case by simp
next
  case (Cons a ks)
  have "get (put a v m) k = None" if "k \<in> set ks" for k
    using Cons.prems that by (auto simp: get_put)
  with Cons have "keys (fold (\<lambda>k. put k v) ks (put a v m)) = keys (put a v m) @ ks" by simp
  also have "keys (put a v m) = keys m @ [a]" using Cons.prems by (simp add: keys_put)
  finally show ?case by simp
qed

lemma size_del_le: "length (keys (del k m)) \<le> length (keys m)"
  by (simp add: keys_del)

lemma size_del_less: "get m k \<noteq> None \<Longrightarrow> length (keys (del k m)) < length (keys m)"
  using keys_get [of k m] by (auto simp: keys_del intro!: length_filter_less)

lemma empty_when_all_deleted: "set (keys m) \<subseteq> set ks \<Longrightarrow> keys (fold del ks m) = []"
  by (auto simp: keys_fold_del filter_empty_conv)

end

type_synonym ('k, 'v) jsmap = "('k \<times> 'v) list"

abbreviation (input) jm_get :: "('k, 'v) jsmap \<Rightarrow> 'k \<Rightarrow> 'v option" where
  "jm_get m k \<equiv> map_of m k"

abbreviation (input) jm_keys :: "('k, 'v) jsmap \<Rightarrow> 'k list" where
  "jm_keys m \<equiv> map fst m"

abbreviation (input) jm_ok :: "('k, 'v) jsmap \<Rightarrow> bool" where
  "jm_ok m \<equiv> distinct (map fst m)"

lemma keys_update:
  "map fst (AList.update k v m) = (if map_of m k = None then map fst m @ [k] else map fst m)"
  by (induction m) auto

lemma keys_delete: "map fst (AList.delete k m) = filter (\<lambda>k'. k' \<noteq> k) (map fst m)"
  by (induction m) auto

interpretation jm: js_map jm_get AList.update AList.delete jm_keys jm_ok
proof
  show "jm_get (AList.update k v m) k' = (if k = k' then Some v else jm_get m k')"
    for k :: 'k and v :: 'v and m k'
    by (simp add: update_conv)
  show "jm_get (AList.delete k m) k' = (if k = k' then None else jm_get m k')"
    for k :: 'k and m :: "('k, 'v) jsmap" and k'
    by (simp add: delete_conv)
  show "k \<in> set (jm_keys m) \<longleftrightarrow> jm_get m k \<noteq> None" for k :: 'k and m :: "('k, 'v) jsmap"
    by (simp add: map_of_eq_None_iff)
qed (auto simp: keys_update keys_delete distinct_update distinct_delete)

section \<open>Systems with an invariant\<close>

text \<open>
  A component is a state and an operation per event. An invariant that every operation keeps
  holds after any sequence of events.
\<close>

locale invariant_system =
  fixes step :: "'s \<Rightarrow> 'e \<Rightarrow> 's"
    and inv :: "'s \<Rightarrow> bool"
  assumes step_inv: "inv s \<Longrightarrow> inv (step s e)"
begin

lemma run_inv: "inv s \<Longrightarrow> inv (foldl step s es)"
  by (induction es arbitrary: s) (auto intro: step_inv)

lemma run_from: "inv s \<Longrightarrow> (\<And>t. inv t \<Longrightarrow> P t) \<Longrightarrow> P (foldl step s es)"
  using run_inv by blast

end

end
