(* ===== verification/JsText.thy ===== *)
theory JsText
  imports Prelude
begin

text \<open>
  The string operations of the language the sources use. A JavaScript string is a list of
  characters (\<^typ>\<open>string\<close>), so the model covers texts whose code units are below 256; case
  conversion acts on the ASCII letters. Digits in any radix up to 36, hexadecimal text of byte
  strings, padding, slicing, splitting and joining.
\<close>

section \<open>Characters\<close>

definition char_code :: "char \<Rightarrow> nat" where
  "char_code c = of_char c"

definition digit_char :: "nat \<Rightarrow> char" where
  "digit_char d = char_of (if d < 10 then 48 + d else 87 + d)"

definition digit_val :: "char \<Rightarrow> nat option" where
  "digit_val c =
     (let n = char_code c in
      if 48 \<le> n \<and> n \<le> 57 then Some (n - 48)
      else if 97 \<le> n \<and> n \<le> 122 then Some (n - 87)
      else if 65 \<le> n \<and> n \<le> 90 then Some (n - 55)
      else None)"

definition is_digit_of :: "nat \<Rightarrow> char \<Rightarrow> bool" where
  "is_digit_of b c = (case digit_val c of None \<Rightarrow> False | Some d \<Rightarrow> d < b)"

abbreviation is_hex_char :: "char \<Rightarrow> bool" where "is_hex_char \<equiv> is_digit_of 16"
abbreviation is_dec_char :: "char \<Rightarrow> bool" where "is_dec_char \<equiv> is_digit_of 10"

definition lower_char :: "char \<Rightarrow> char" where
  "lower_char c = (let n = char_code c in if 65 \<le> n \<and> n \<le> 90 then char_of (n + 32) else c)"

definition upper_char :: "char \<Rightarrow> char" where
  "upper_char c = (let n = char_code c in if 97 \<le> n \<and> n \<le> 122 then char_of (n - 32) else c)"

definition toLowerCase :: "string \<Rightarrow> string" where
  "toLowerCase s = map lower_char s"

definition toUpperCase :: "string \<Rightarrow> string" where
  "toUpperCase s = map upper_char s"

lemma char_code_less: "char_code c < 256"
  by (simp add: char_code_def)

lemma char_code_char_of [simp]: "n < 256 \<Longrightarrow> char_code (char_of n) = n"
  by (simp add: char_code_def)

lemma char_of_char_code [simp]: "char_of (char_code c) = c"
  by (simp add: char_code_def)

lemma char_code_eqD: "char_code c = n \<Longrightarrow> c = char_of n"
  by (auto simp: char_code_def)

lemma digit_val_digit_char [simp]: "d < 36 \<Longrightarrow> digit_val (digit_char d) = Some d"
  by (auto simp: digit_val_def digit_char_def Let_def)

lemma digit_val_less: "digit_val c = Some d \<Longrightarrow> d < 36"
  by (auto simp: digit_val_def Let_def split: if_splits)

lemma lower_char_digit: "digit_val c = Some d \<Longrightarrow> lower_char c = digit_char d"
  by (auto simp: digit_val_def lower_char_def digit_char_def Let_def split: if_splits)

lemma digit_val_upper: "digit_val c = Some d \<Longrightarrow> digit_val (upper_char c) = Some d"
  by (auto simp: digit_val_def upper_char_def Let_def split: if_splits)

lemma lower_char_upper_char: "lower_char (upper_char c) = lower_char c"
  using char_code_less [of c] by (auto simp: lower_char_def upper_char_def Let_def)

lemma lower_char_lower_char [simp]: "lower_char (lower_char c) = lower_char c"
  using char_code_less [of c] by (auto simp: lower_char_def Let_def)

lemma upper_or_lower: "upper_char c = c \<or> lower_char c = c"
  by (auto simp: lower_char_def upper_char_def Let_def)

text \<open>The sixteen hexadecimal digits, for evaluation by \<^theory_text>\<open>simp\<close>.\<close>

lemma digit_char_hex [simp]:
  "digit_char 0 = CHR ''0''" "digit_char 1 = CHR ''1''" "digit_char (Suc 0) = CHR ''1''"
  "digit_char 2 = CHR ''2''" "digit_char 3 = CHR ''3''" "digit_char 4 = CHR ''4''"
  "digit_char 5 = CHR ''5''" "digit_char 6 = CHR ''6''" "digit_char 7 = CHR ''7''"
  "digit_char 8 = CHR ''8''" "digit_char 9 = CHR ''9''" "digit_char 10 = CHR ''a''"
  "digit_char 11 = CHR ''b''" "digit_char 12 = CHR ''c''" "digit_char 13 = CHR ''d''"
  "digit_char 14 = CHR ''e''" "digit_char 15 = CHR ''f''"
  by code_simp+

lemma is_digit_ofE:
  assumes "is_digit_of b c"
  obtains d where "digit_val c = Some d" "d < b" "d < 36"
  using assms by (auto simp: is_digit_of_def split: option.splits dest: digit_val_less)

lemma is_digit_of_digit_char [simp]: "d < b \<Longrightarrow> b \<le> 36 \<Longrightarrow> is_digit_of b (digit_char d)"
  by (simp add: is_digit_of_def)

lemma digit_val_zero [simp]: "digit_val (CHR ''0'') = Some 0"
  by (simp add: digit_val_def char_code_def)

lemma is_digit_of_Some: "is_digit_of b c \<longleftrightarrow> (\<exists>d. digit_val c = Some d \<and> d < b)"
  by (simp add: is_digit_of_def split: option.splits)

lemma is_digit_of_lower [simp]: "is_digit_of b c \<Longrightarrow> is_digit_of b (lower_char c)"
  using digit_val_less by (force simp: is_digit_of_Some lower_char_digit)

lemma is_digit_of_upper [simp]: "is_digit_of b c \<Longrightarrow> is_digit_of b (upper_char c)"
  by (auto simp: is_digit_of_Some digit_val_upper)

section \<open>Numbers in a radix\<close>

definition radix_str :: "nat \<Rightarrow> nat \<Rightarrow> string" where
  "radix_str b n = map digit_char (radix_digits b n)"

abbreviation dec_str :: "nat \<Rightarrow> string" where "dec_str \<equiv> radix_str 10"
abbreviation hex_str :: "nat \<Rightarrow> string" where "hex_str \<equiv> radix_str 16"

text \<open>\<^verbatim>\<open>(i).toString(b)\<close> of an integral number or a bigint.\<close>

definition int_str :: "nat \<Rightarrow> int \<Rightarrow> string" where
  "int_str b i = (if i < 0 then ''-'' @ radix_str b (nat (- i)) else radix_str b (nat i))"

definition digits_val :: "nat \<Rightarrow> string \<Rightarrow> nat" where
  "digits_val b s = radix_val b (map (\<lambda>c. the (digit_val c)) s)"

lemma radix_str_digits:
  "2 \<le> b \<Longrightarrow> b \<le> 36 \<Longrightarrow> c \<in> set (radix_str b n) \<Longrightarrow> is_digit_of b c"
  using radix_digits_less by (auto simp: radix_str_def)

lemma radix_str_nonempty [simp]: "radix_str b n \<noteq> []"
  by (simp add: radix_str_def)

lemma digits_val_radix_str [simp]:
  assumes "2 \<le> b" and "b \<le> 36"
  shows "digits_val b (radix_str b n) = n"
proof -
  have "the (digit_val (digit_char d)) = d" if "d \<in> set (radix_digits b n)" for d
    using radix_digits_less [OF assms(1) that] assms(2) by simp
  then have "map (\<lambda>c. the (digit_val c)) (radix_str b n) = radix_digits b n"
    by (simp add: radix_str_def map_idI)
  then show ?thesis by (simp add: digits_val_def)
qed

lemma length_radix_str: "n < b ^ w \<Longrightarrow> 0 < w \<Longrightarrow> 2 \<le> b \<Longrightarrow> length (radix_str b n) \<le> w"
  by (simp add: radix_str_def radix_digits_length)

lemma digits_val_append:
  "digits_val b (xs @ ys) = digits_val b xs * b ^ length ys + digits_val b ys"
  by (simp add: digits_val_def radix_val_append)

lemma digits_val_zeros [simp]: "digits_val b (replicate k (CHR ''0'')) = 0"
  by (simp add: digits_val_def)

lemma digits_val_lower: "list_all (is_digit_of b) s \<Longrightarrow> digits_val b (toLowerCase s) = digits_val b s"
  by (simp add: digits_val_def toLowerCase_def comp_def list_all_iff cong: map_cong)
     (rule arg_cong [where f = "radix_val b"], auto elim!: is_digit_ofE simp: lower_char_digit)

lemma digits_val_bound: "list_all (is_digit_of b) s \<Longrightarrow> 0 < b \<Longrightarrow> digits_val b s < b ^ length s"
  unfolding digits_val_def
  using radix_val_bound [of "map (\<lambda>c. the (digit_val c)) s" b]
  by (force simp: list_all_iff is_digit_of_Some)

section \<open>Hexadecimal text of byte strings\<close>

definition byte_hex :: "byte \<Rightarrow> string" where
  "byte_hex x = [digit_char (unat x div 16), digit_char (unat x mod 16)]"

definition hex_of_bytes :: "bytes \<Rightarrow> string" where
  "hex_of_bytes bs = concat (map byte_hex bs)"

fun bytes_of_hex :: "string \<Rightarrow> bytes" where
  "bytes_of_hex (a # b # s) =
     of_nat (the (digit_val a) * 16 + the (digit_val b)) # bytes_of_hex s"
| "bytes_of_hex _ = []"

lemma length_hex_of_bytes [simp]: "length (hex_of_bytes bs) = 2 * length bs"
  by (induction bs) (simp_all add: hex_of_bytes_def byte_hex_def)

lemma byte_nibbles_less: "unat (x :: byte) div 16 < 16" "unat (x :: byte) mod 16 < 16"
  using unat_byte_less [of x] by (simp_all add: less_mult_imp_div_less)

lemma hex_of_bytes_hex: "list_all is_hex_char (hex_of_bytes bs)"
  using byte_nibbles_less
  by (induction bs) (simp_all add: hex_of_bytes_def byte_hex_def)

lemma bytes_of_hex_of_bytes [simp]: "bytes_of_hex (hex_of_bytes bs) = bs"
proof (induction bs)
  case Nil
  then show ?case by (simp add: hex_of_bytes_def)
next
  case (Cons x bs)
  have "unat x div 16 < 36" "unat x mod 16 < 36"
    using byte_nibbles_less [of x] by simp_all
  moreover have "unat x div 16 * 16 + unat x mod 16 = unat x" by simp
  ultimately show ?case
    using Cons by (simp add: hex_of_bytes_def byte_hex_def)
qed

lemma digits_val_hex_of_bytes [simp]: "digits_val 16 (hex_of_bytes bs) = be_nat bs"
proof (induction bs rule: rev_induct)
  case Nil
  then show ?case by (simp add: hex_of_bytes_def digits_val_def)
next
  case (snoc x bs)
  have "unat x div 16 < 36" "unat x mod 16 < 36"
    using byte_nibbles_less [of x] by simp_all
  then have "digits_val 16 (byte_hex x) = unat x"
    by (simp add: byte_hex_def digits_val_def radix_val_Cons)
  then show ?case
    using snoc by (simp add: hex_of_bytes_def digits_val_append byte_hex_def)
qed

lemma hex_of_bytes_lower: "toLowerCase (hex_of_bytes bs) = hex_of_bytes bs"
proof -
  have "lower_char (digit_char d) = digit_char d" if "d < 16" for d
    using that by (intro lower_char_digit) simp
  then show ?thesis
    using byte_nibbles_less
    by (induction bs) (simp_all add: hex_of_bytes_def byte_hex_def toLowerCase_def)
qed

lemma hex_of_bytes_of_hex:
  "list_all is_hex_char h \<Longrightarrow> even (length h) \<Longrightarrow> hex_of_bytes (bytes_of_hex h) = toLowerCase h"
proof (induction h rule: bytes_of_hex.induct)
  case (1 a b s)
  obtain x y where xy: "digit_val a = Some x" "x < 16" "digit_val b = Some y" "y < 16"
    using 1(2) by (auto simp: is_digit_of_Some)
  then have "unat (of_nat (x * 16 + y) :: byte) = x * 16 + y" by (intro unat_of_nat_byte) simp
  then have "byte_hex (of_nat (x * 16 + y)) = [digit_char x, digit_char y]"
    using xy by (simp add: byte_hex_def del: of_nat_add of_nat_mult)
  with 1 xy show ?case
    by (simp add: hex_of_bytes_def toLowerCase_def lower_char_digit del: of_nat_add of_nat_mult)
qed (simp_all add: hex_of_bytes_def toLowerCase_def)

lemma length_bytes_of_hex: "length (bytes_of_hex h) = length h div 2"
  by (induction h rule: bytes_of_hex.induct) simp_all

lemma be_nat_bytes_of_hex:
  assumes "list_all is_hex_char h" "even (length h)"
  shows "be_nat (bytes_of_hex h) = digits_val 16 h"
proof -
  have "be_nat (bytes_of_hex h) = digits_val 16 (toLowerCase h)"
    using hex_of_bytes_of_hex [OF assms] digits_val_hex_of_bytes [of "bytes_of_hex h"] by simp
  with digits_val_lower [OF assms(1)] show ?thesis by simp
qed

section \<open>Padding and parts of strings\<close>

definition pad_text :: "nat \<Rightarrow> string \<Rightarrow> string" where
  "pad_text k fill = take k (concat (replicate k fill))"

definition padStart :: "nat \<Rightarrow> string \<Rightarrow> string \<Rightarrow> string" where
  "padStart n fill s =
     (if fill = [] \<or> n \<le> length s then s else pad_text (n - length s) fill @ s)"

definition padEnd :: "nat \<Rightarrow> string \<Rightarrow> string \<Rightarrow> string" where
  "padEnd n fill s =
     (if fill = [] \<or> n \<le> length s then s else s @ pad_text (n - length s) fill)"

definition startsWith :: "string \<Rightarrow> string \<Rightarrow> bool" where
  "startsWith s p = (take (length p) s = p)"

definition endsWith :: "string \<Rightarrow> string \<Rightarrow> bool" where
  "endsWith s p = (length p \<le> length s \<and> drop (length s - length p) s = p)"

text \<open>\<^verbatim>\<open>s.slice(0, -n)\<close> and \<^verbatim>\<open>s.slice(-n)\<close> for a positive \<^verbatim>\<open>n\<close>.\<close>

definition slice_but_last :: "nat \<Rightarrow> string \<Rightarrow> string" where
  "slice_but_last n s = take (length s - n) s"

definition slice_last :: "nat \<Rightarrow> string \<Rightarrow> string" where
  "slice_last n s = drop (length s - n) s"

lemma concat_replicate_single [simp]: "concat (replicate k [c]) = replicate k c"
  by (induction k) simp_all

lemma pad_text_single [simp]: "pad_text k [c] = replicate k c"
  by (simp add: pad_text_def)

lemma length_pad_text: "fill \<noteq> [] \<Longrightarrow> length (pad_text k fill) = k"
proof -
  assume "fill \<noteq> []"
  then have "k \<le> k * length fill" by (cases fill) simp_all
  then show ?thesis by (simp add: pad_text_def length_concat sum_list_replicate)
qed

lemma length_padStart: "fill \<noteq> [] \<Longrightarrow> length (padStart n fill s) = max n (length s)"
  by (simp add: padStart_def length_pad_text max_def)

lemma length_padEnd: "fill \<noteq> [] \<Longrightarrow> length (padEnd n fill s) = max n (length s)"
  by (simp add: padEnd_def length_pad_text max_def)

lemma digits_val_padStart [simp]: "digits_val b (padStart n ''0'' s) = digits_val b s"
  by (simp add: padStart_def digits_val_append)

lemma padStart_zeros_digits:
  "list_all (is_digit_of b) s \<Longrightarrow> 0 < b \<Longrightarrow> list_all (is_digit_of b) (padStart n ''0'' s)"
proof -
  assume s: "list_all (is_digit_of b) s" and b: "0 < b"
  have "is_digit_of b (CHR ''0'')"
    using b by (simp add: is_digit_of_def)
  with s show ?thesis by (simp add: padStart_def list_all_iff)
qed

lemma startsWith_append [simp]: "startsWith (p @ s) p"
  by (simp add: startsWith_def)

lemma startsWithE: "startsWith s p \<Longrightarrow> (\<And>t. s = p @ t \<Longrightarrow> thesis) \<Longrightarrow> thesis"
  by (metis append_take_drop_id startsWith_def)

section \<open>Searching, splitting and joining\<close>

fun find_sub :: "string \<Rightarrow> string \<Rightarrow> (string \<times> string) option" where
  "find_sub sep [] = (if sep = [] then Some ([], []) else None)"
| "find_sub sep (c # s) =
     (if startsWith (c # s) sep then Some ([], drop (length sep) (c # s))
      else map_option (\<lambda>(a, b). (c # a, b)) (find_sub sep s))"

lemma find_sub_Some: "find_sub sep s = Some (a, b) \<Longrightarrow> s = a @ sep @ b"
proof (induction sep s arbitrary: a rule: find_sub.induct)
  case (2 sep c s)
  then show ?case by (auto split: if_splits elim: startsWithE)
qed (auto split: if_splits)

definition includes_sub :: "string \<Rightarrow> string \<Rightarrow> bool" where
  "includes_sub s p = (find_sub p s \<noteq> None)"

text \<open>\<^verbatim>\<open>s.split(sep)\<close> for a separator that is not empty.\<close>

function split_on :: "string \<Rightarrow> string \<Rightarrow> string list" where
  "split_on sep s =
     (if sep = [] then map (\<lambda>c. [c]) s
      else case find_sub sep s of None \<Rightarrow> [s] | Some (a, b) \<Rightarrow> a # split_on sep b)"
  by pat_completeness auto
termination
  by (relation "measure (\<lambda>(sep, s). length s)") (auto dest: find_sub_Some)

declare split_on.simps [simp del]

fun join_with :: "string \<Rightarrow> string list \<Rightarrow> string" where
  "join_with sep [] = []"
| "join_with sep [s] = s"
| "join_with sep (s # t # ts) = s @ sep @ join_with sep (t # ts)"

lemma split_on_nonempty: "sep \<noteq> [] \<Longrightarrow> split_on sep s \<noteq> []"
  by (subst split_on.simps) (auto split: option.splits)

lemma join_split: "sep \<noteq> [] \<Longrightarrow> join_with sep (split_on sep s) = s"
proof (induction sep s rule: split_on.induct)
  case (1 sep s)
  show ?case
  proof (cases "find_sub sep s")
    case None
    then show ?thesis using 1 by (subst split_on.simps) simp
  next
    case (Some p)
    obtain a b where p: "p = (a, b)" by (cases p)
    have "join_with sep (split_on sep b) = b" using 1 Some p by blast
    moreover obtain t ts where "split_on sep b = t # ts"
      using split_on_nonempty [of sep b] 1(2) by (cases "split_on sep b") auto
    ultimately show ?thesis
      using Some p 1(2) find_sub_Some [of sep s a b]
      by (subst split_on.simps) simp
  qed
qed

text \<open>White space of the language, among the characters of the model.\<close>

definition is_space :: "char \<Rightarrow> bool" where
  "is_space c = (c \<in> set [CHR 0x09, CHR 0x0A, CHR 0x0B, CHR 0x0C, CHR 0x0D, CHR 0x20, CHR 0xA0])"

definition trimStart :: "string \<Rightarrow> string" where
  "trimStart s = dropWhile is_space s"

definition trim :: "string \<Rightarrow> string" where
  "trim s = rev (dropWhile is_space (rev (dropWhile is_space s)))"

section \<open>UTF-8\<close>

text \<open>The encoding of \<^verbatim>\<open>TextEncoder\<close>: one byte below 128, two bytes for the other characters here.\<close>

definition utf8_char :: "char \<Rightarrow> bytes" where
  "utf8_char c =
     (let n = char_code c in
      if n < 128 then [of_nat n] else [of_nat (192 + n div 64), of_nat (128 + n mod 64)])"

definition utf8_encode :: "string \<Rightarrow> bytes" where
  "utf8_encode s = concat (map utf8_char s)"

text \<open>A decoder that refuses what the encoder does not produce.\<close>

fun utf8_decode :: "bytes \<Rightarrow> string option" where
  "utf8_decode [] = Some []"
| "utf8_decode (b # bs) =
     (if unat b < 128 then map_option (\<lambda>s. char_of (unat b) # s) (utf8_decode bs)
      else case bs of
          [] \<Rightarrow> None
        | c # cs \<Rightarrow>
            if 194 \<le> unat b \<and> unat b < 196 \<and> 128 \<le> unat c \<and> unat c < 192
            then map_option (\<lambda>s. char_of ((unat b - 192) * 64 + (unat c - 128)) # s) (utf8_decode cs)
            else None)"

lemma utf8_decode_encode [simp]: "utf8_decode (utf8_encode s) = Some s"
proof (induction s)
  case Nil
  then show ?case by (simp add: utf8_encode_def)
next
  case (Cons c s)
  have less: "char_code c < 256" by (rule char_code_less)
  show ?case
  proof (cases "char_code c < 128")
    case True
    then show ?thesis
      using Cons by (simp add: utf8_encode_def utf8_char_def unat_of_nat_byte)
  next
    case False
    define n where "n = char_code c"
    have n: "128 \<le> n" "n < 256" using False less by (simp_all add: n_def)
    have d: "2 \<le> n div 64" "n div 64 < 4" using n by (simp_all add: less_mult_imp_div_less)
    have u: "unat (of_nat (192 + n div 64) :: byte) = 192 + n div 64"
      "unat (of_nat (128 + n mod 64) :: byte) = 128 + n mod 64"
      using d mod_less_divisor [of 64 n] by (simp_all only: unat_of_nat_byte)
    have e: "utf8_encode (c # s) = of_nat (192 + n div 64) # of_nat (128 + n mod 64) # utf8_encode s"
      using False by (simp add: utf8_encode_def utf8_char_def n_def Let_def)
    have v: "n div 64 * 64 + n mod 64 = n" by simp
    show ?thesis
      unfolding e using Cons d u v by (simp add: n_def del: of_nat_add)
  qed
qed

end
