(* ===== verification/JsValue.thy ===== *)
theory JsValue
  imports JsText Complex_Main
begin

text \<open>
  The values of the language the sources accept as \<^verbatim>\<open>any\<close> or \<^verbatim>\<open>unknown\<close>: the primitive types, byte
  arrays, arrays, plain objects, the result arrays of the ABI decoder and error objects.
\<close>

section \<open>Errors\<close>

text \<open>
  The \<^verbatim>\<open>code\<close> property of an error of \<^verbatim>\<open>@ethersproject/logger\<close>, or the class of the errors that have
  none. The decoder annotates the errors it keeps as values with the coder they belong to.
\<close>

datatype err_code =
    BUFFER_OVERRUN
  | INVALID_ARGUMENT
  | NUMERIC_FAULT
  | UNSUPPORTED_OPERATION
  | MISSING_ARGUMENT
  | UNEXPECTED_ARGUMENT
  | ErrClass string

record js_error =
  ecode :: err_code
  emsg :: string
  eann :: "(string \<times> string option \<times> string) option"

definition mk_err :: "err_code \<Rightarrow> string \<Rightarrow> js_error" where
  "mk_err c m = \<lparr>ecode = c, emsg = m, eann = None\<rparr>"

lemma mk_err_sel [simp]: "ecode (mk_err c m) = c" "emsg (mk_err c m) = m"
  by (simp_all add: mk_err_def)

section \<open>Values\<close>

text \<open>
  A number is integral, a finite non-integral value, an infinity or NaN. \<^verbatim>\<open>JBN\<close> is a BigNumber object
  of \<^verbatim>\<open>@ethersproject/bignumber\<close>, identified with the integer it stands for.
\<close>

datatype jsnum = NInt int | NFrac rat | NInf bool | NNaN

datatype jsval =
    JUndef
  | JNull
  | JBool bool
  | JNum jsnum
  | JBig int
  | JBN int
  | JStr string
  | JBytes bytes
  | JArr "jsval list"
  | JObj "(string \<times> jsval) list"
  | JResult "jsval list" "(string \<times> jsval) list"
  | JErr js_error
  | JFun

definition MAX_SAFE_INTEGER :: int where "MAX_SAFE_INTEGER = 9007199254740991"
definition MIN_SAFE_INTEGER :: int where "MIN_SAFE_INTEGER = - 9007199254740991"

definition isNullish :: "jsval \<Rightarrow> bool" where
  "isNullish v = (v = JUndef \<or> v = JNull)"

definition js_truthy :: "jsval \<Rightarrow> bool" where
  "js_truthy v = (case v of
      JUndef \<Rightarrow> False | JNull \<Rightarrow> False | JBool b \<Rightarrow> b
    | JNum n \<Rightarrow> n \<noteq> NInt 0 \<and> n \<noteq> NNaN
    | JBig i \<Rightarrow> i \<noteq> 0
    | JStr s \<Rightarrow> s \<noteq> []
    | _ \<Rightarrow> True)"

datatype js_type = TUndefined | TObject | TBoolean | TNumber | TBigint | TString | TFunction

definition typeof :: "jsval \<Rightarrow> js_type" where
  "typeof v = (case v of
      JUndef \<Rightarrow> TUndefined | JNull \<Rightarrow> TObject | JBool b \<Rightarrow> TBoolean | JNum n \<Rightarrow> TNumber
    | JBig i \<Rightarrow> TBigint | JStr s \<Rightarrow> TString | JFun \<Rightarrow> TFunction | _ \<Rightarrow> TObject)"

text \<open>\<^verbatim>\<open>Array.isArray\<close>: the decoder's result arrays are arrays too.\<close>

definition isArray :: "jsval \<Rightarrow> bool" where
  "isArray v = (case v of JArr _ \<Rightarrow> True | JResult _ _ \<Rightarrow> True | _ \<Rightarrow> False)"

definition js_elems :: "jsval \<Rightarrow> jsval list option" where
  "js_elems v = (case v of JArr vs \<Rightarrow> Some vs | JResult vs _ \<Rightarrow> Some vs | _ \<Rightarrow> None)"

text \<open>Property access on a plain object: \<^verbatim>\<open>undefined\<close> where the key is missing.\<close>

definition obj_get :: "(string \<times> jsval) list \<Rightarrow> string \<Rightarrow> jsval" where
  "obj_get kvs k = (case map_of kvs k of None \<Rightarrow> JUndef | Some v \<Rightarrow> v)"

text \<open>
  Names every object, and every array, has a non-null property for through its prototype. A lookup of
  one of them in an empty object or array does not give \<^verbatim>\<open>undefined\<close>.
\<close>

definition objectProtoNames :: "string list" where
  "objectProtoNames =
     [''constructor'', ''__defineGetter__'', ''__defineSetter__'', ''hasOwnProperty'',
      ''__lookupGetter__'', ''__lookupSetter__'', ''isPrototypeOf'', ''propertyIsEnumerable'',
      ''toString'', ''valueOf'', ''__proto__'', ''toLocaleString'']"

definition arrayProtoNames :: "string list" where
  "arrayProtoNames = objectProtoNames @
     [''length'', ''at'', ''concat'', ''copyWithin'', ''fill'', ''find'', ''findIndex'',
      ''findLast'', ''findLastIndex'', ''lastIndexOf'', ''pop'', ''push'', ''reverse'', ''shift'',
      ''unshift'', ''slice'', ''sort'', ''splice'', ''includes'', ''indexOf'', ''join'', ''keys'',
      ''entries'', ''values'', ''forEach'', ''filter'', ''flat'', ''flatMap'', ''map'', ''every'',
      ''some'', ''reduce'', ''reduceRight'', ''toReversed'', ''toSorted'', ''toSpliced'', ''with'']"

lemma isNullish_simps [simp]:
  "isNullish JUndef" "isNullish JNull" "\<not> isNullish (JBool b)" "\<not> isNullish (JNum n)"
  "\<not> isNullish (JBig i)" "\<not> isNullish (JBN i)" "\<not> isNullish (JStr s)" "\<not> isNullish (JBytes bs)"
  "\<not> isNullish (JArr vs)" "\<not> isNullish (JObj kvs)" "\<not> isNullish (JResult vs ns)"
  "\<not> isNullish (JErr e)"
  by (simp_all add: isNullish_def)

end
