(* ===== verification/Externals.thy ===== *)
theory Externals
  imports JsValue
begin

text \<open>
  The functions of other packages the sources call. They are parameters of the model, the fields of
  one record that the definitions take as their first argument; what the code relies on is the
  documented behaviour of each, stated by the predicates below as hypotheses of the theorems that
  need it. The last section gives functions that satisfy every one of them.
\<close>

section \<open>The schema values of zod\<close>

text \<open>
  The part of the zod builder interface the validator uses: objects whose fields are optional unless
  listed as required, tuples, arrays with bounds, unions, refinements of \<^verbatim>\<open>z.any()\<close> by a format
  predicate, and the primitive types by name.
\<close>

datatype zod =
    ZObject "(string \<times> zod) list" "string list"
  | ZTuple "zod list"
  | ZArray zod "nat option" "nat option"
  | ZUnion "zod list"
  | ZRefine "jsval \<Rightarrow> js_error + bool" string
  | ZPrim string
  | ZDataAny

datatype zod_issue =
    ZTooBig int
  | ZTooSmall int
  | ZCustom jsval string
  | ZOther string

type_synonym zod_issues = "(string list \<times> zod_issue) list"

section \<open>The record of external functions\<close>

record lib =
  big_from :: "jsval \<Rightarrow> js_error + int"
  big_arrayify :: "int \<Rightarrow> js_error + bytes"
  big_mask :: "int \<Rightarrow> nat \<Rightarrow> int"
  big_toTwos :: "int \<Rightarrow> nat \<Rightarrow> int"
  big_fromTwos :: "int \<Rightarrow> nat \<Rightarrow> int"
  big_toNumber :: "int \<Rightarrow> js_error + int"
  big_toHexString :: "int \<Rightarrow> string"
  arrayify :: "jsval \<Rightarrow> js_error + bytes"
  hexlify :: "bytes \<Rightarrow> string"
  hexZeroPad :: "string \<Rightarrow> nat \<Rightarrow> js_error + string"
  concat_bytes :: "bytes list \<Rightarrow> bytes"
  hexConcat :: "bytes list \<Rightarrow> string"
  checkArgumentCount :: "nat \<Rightarrow> nat \<Rightarrow> string \<Rightarrow> js_error + unit"
  utf8ToBytes :: "string \<Rightarrow> bytes"
  utf8ToBytes_other :: "jsval \<Rightarrow> js_error + bytes"
  bytesToUtf8 :: "bytes \<Rightarrow> js_error + string"
  bytesToUtf8_lossy :: "bytes \<Rightarrow> string"
  shake256 :: "bytes \<Rightarrow> nat \<Rightarrow> bytes"
  keccak256 :: "bytes \<Rightarrow> bytes"
  crypto_bytesToHex :: "bytes \<Rightarrow> string"
  safeParse :: "zod \<Rightarrow> jsval \<Rightarrow> js_error + zod_issues"
  zod_has :: "string \<Rightarrow> bool"
  num_toString :: "jsnum \<Rightarrow> nat \<Rightarrow> string"
  num_parse :: "string \<Rightarrow> jsnum"

text \<open>
  \<^verbatim>\<open>utf8ToBytes_other\<close> is \<^verbatim>\<open>utf8ToBytes\<close> on a value that is not a string; \<^verbatim>\<open>zod_has\<close> tells whether the zod namespace has a function of a name. The last two fields are the runtime's text of a number that is not integral, or too large to be
  written without an exponent, and its number for a numeral that is not a safe integer.
\<close>

section \<open>Documented behaviour\<close>

text \<open>
  \<^verbatim>\<open>@ethersproject/bignumber\<close>: conversion from numbers, bigints, BigNumbers, 0x-strings and byte arrays;
  the shortest big-endian bytes of a natural number; \<^verbatim>\<open>mask\<close> keeps the low bits of a natural number;
  two's complement in a given width; \<^verbatim>\<open>toNumber\<close> throws a numeric fault outside the safe range.
\<close>

definition bignum_ok :: "lib \<Rightarrow> bool" where
  "bignum_ok L \<longleftrightarrow>
     (\<forall>n. big_from L (JBN n) = Inr n) \<and>
     (\<forall>n. big_from L (JBig n) = Inr n) \<and>
     (\<forall>n. \<bar>n\<bar> < MAX_SAFE_INTEGER \<longrightarrow> big_from L (JNum (NInt n)) = Inr n) \<and>
     (\<forall>s. s \<noteq> [] \<and> list_all is_hex_char s \<longrightarrow>
        big_from L (JStr (''0x'' @ s)) = Inr (int (digits_val 16 s))) \<and>
     (\<forall>bs. big_from L (JBytes bs) = Inr (int (be_nat bs))) \<and>
     (\<forall>n. big_arrayify L (int n) = Inr (nat_bytes n)) \<and>
     (\<forall>n w. big_mask L (int n) w = int n mod 2 ^ w) \<and>
     (\<forall>n w. - (2 ^ w) \<le> n \<and> n < 2 ^ w \<longrightarrow>
        big_toTwos L n w = (if n < 0 then 2 ^ w + n else n)) \<and>
     (\<forall>n w. 0 < w \<and> 0 \<le> n \<and> n < 2 ^ w \<longrightarrow>
        big_fromTwos L n w = (if 2 ^ (w - 1) \<le> n then n - 2 ^ w else n)) \<and>
     (\<forall>n. \<bar>n\<bar> \<le> MAX_SAFE_INTEGER \<longrightarrow> big_toNumber L n = Inr n) \<and>
     (\<forall>n. MAX_SAFE_INTEGER < \<bar>n\<bar> \<longrightarrow>
        (\<exists>e. big_toNumber L n = Inl e \<and> ecode e = NUMERIC_FAULT))"

text \<open>
  \<^verbatim>\<open>@ethersproject/bytes\<close>: \<^verbatim>\<open>arrayify\<close> of byte arrays, of their 0x-text and of the empty array;
  \<^verbatim>\<open>hexlify\<close>, \<^verbatim>\<open>concat\<close> and \<^verbatim>\<open>hexConcat\<close>; the zero-padded text of a number. \<^verbatim>\<open>@ethersproject/logger\<close>:
  the argument count check passes exactly when the counts agree.
\<close>

definition ethers_bytes_ok :: "lib \<Rightarrow> bool" where
  "ethers_bytes_ok L \<longleftrightarrow>
     (\<forall>bs. arrayify L (JBytes bs) = Inr bs) \<and>
     (\<forall>bs. arrayify L (JStr (''0x'' @ hex_of_bytes bs)) = Inr bs) \<and>
     arrayify L (JArr []) = Inr [] \<and>
     (\<forall>bs. hexlify L bs = ''0x'' @ hex_of_bytes bs) \<and>
     (\<forall>n w. n < 256 ^ w \<and> 0 < w \<longrightarrow>
        hexZeroPad L (big_toHexString L (int n)) w = Inr (''0x'' @ hex_of_bytes (nat_be w n))) \<and>
     (\<forall>bss. concat_bytes L bss = concat bss) \<and>
     (\<forall>bss. hexConcat L bss = ''0x'' @ hex_of_bytes (concat bss)) \<and>
     (\<forall>n m t. checkArgumentCount L n m t = Inr () \<longleftrightarrow> n = m) \<and>
     (\<forall>n m t e. checkArgumentCount L n m t = Inl e \<longrightarrow> ecode e \<noteq> BUFFER_OVERRUN)"

text \<open>
  \<^verbatim>\<open>@theqrl/qrl-cryptography\<close>: \<^verbatim>\<open>utf8ToBytes\<close> is UTF-8, decoding (with or without
  the \<^verbatim>\<open>fatal\<close> option) an encoded text gives the text back, the hash functions return
  as many bytes as asked for, and \<^verbatim>\<open>bytesToHex\<close> is lower-case text with no prefix.
\<close>

definition crypto_ok :: "lib \<Rightarrow> bool" where
  "crypto_ok L \<longleftrightarrow>
     (\<forall>s. utf8ToBytes L s = utf8_encode s) \<and>
     (\<forall>s. bytesToUtf8 L (utf8_encode s) = Inr s) \<and>
     (\<forall>s. bytesToUtf8_lossy L (utf8_encode s) = s) \<and>
     (\<forall>bs n. length (shake256 L bs n) = n) \<and>
     (\<forall>bs. length (keccak256 L bs) = 32) \<and>
     (\<forall>bs. crypto_bytesToHex L bs = hex_of_bytes bs)"

text \<open>
  zod: which values a schema accepts. A refinement accepts what its predicate accepts, reports a custom
  issue where it refuses and lets an exception of the predicate through; a tuple accepts an array of
  its length whose elements its schemas accept, and prefixes the paths of the issues of an element
  with its index; an array schema checks the bounds it was given and every element.
\<close>

definition zod_ok :: "lib \<Rightarrow> bool" where
  "zod_ok L \<longleftrightarrow>
     (\<forall>p f v. safeParse L (ZRefine p f) v =
        map_sum id (\<lambda>ok. if ok then [] else [([], ZCustom v f)]) (p v)) \<and>
     (\<forall>zs v. safeParse L (ZTuple zs) v = Inr [] \<longleftrightarrow>
        (\<exists>vs. js_elems v = Some vs \<and> list_all2 (\<lambda>z x. safeParse L z x = Inr []) zs vs)) \<and>
     (\<forall>z v. safeParse L (ZTuple [z]) (JArr [v]) =
        map_sum id (map (\<lambda>(path, i). (''0'' # path, i))) (safeParse L z v)) \<and>
     (\<forall>z lo hi v. safeParse L (ZArray z lo hi) v = Inr [] \<longleftrightarrow>
        (\<exists>vs. js_elems v = Some vs \<and> list_all (\<lambda>x. safeParse L z x = Inr []) vs \<and>
           (case lo of None \<Rightarrow> True | Some n \<Rightarrow> n \<le> length vs) \<and>
           (case hi of None \<Rightarrow> True | Some n \<Rightarrow> length vs \<le> n)))"

text \<open>
  An object schema accepts an object whose fields its schemas accept, the optional ones where they are
  there; the primitive schemas accept the values of their type, and \<^verbatim>\<open>NaN\<close> is no number.
\<close>

definition zod_objects_ok :: "lib \<Rightarrow> bool" where
  "zod_objects_ok L \<longleftrightarrow>
     (\<forall>fs req kvs. safeParse L (ZObject fs req) (JObj kvs) = Inr [] \<longleftrightarrow>
        (\<forall>(k, z) \<in> set fs. safeParse L z (obj_get kvs k) = Inr [] \<or>
           k \<notin> set req \<and> obj_get kvs k = JUndef)) \<and>
     (\<forall>v. safeParse L (ZPrim ''string'') v = Inr [] \<longleftrightarrow> typeof v = TString) \<and>
     (\<forall>v. safeParse L (ZPrim ''number'') v = Inr [] \<longleftrightarrow> typeof v = TNumber \<and> v \<noteq> JNum NNaN) \<and>
     (\<forall>kvs. safeParse L ZDataAny (JObj kvs) = Inr []) \<and>
     zod_has L ''string'' \<and> zod_has L ''number''"

lemma bignum_okD:
  assumes "bignum_ok L"
  shows "big_from L (JBN n) = Inr n"
    and "big_from L (JBig n) = Inr n"
    and "\<bar>n\<bar> < MAX_SAFE_INTEGER \<Longrightarrow> big_from L (JNum (NInt n)) = Inr n"
    and "s \<noteq> [] \<Longrightarrow> list_all is_hex_char s \<Longrightarrow>
      big_from L (JStr (''0x'' @ s)) = Inr (int (digits_val 16 s))"
    and "big_from L (JBytes bs) = Inr (int (be_nat bs))"
    and "big_arrayify L (int k) = Inr (nat_bytes k)"
    and "big_mask L (int k) w = int k mod 2 ^ w"
    and "- (2 ^ w) \<le> n \<Longrightarrow> n < 2 ^ w \<Longrightarrow> big_toTwos L n w = (if n < 0 then 2 ^ w + n else n)"
    and "0 < w \<Longrightarrow> 0 \<le> n \<Longrightarrow> n < 2 ^ w \<Longrightarrow>
      big_fromTwos L n w = (if 2 ^ (w - 1) \<le> n then n - 2 ^ w else n)"
    and "\<bar>n\<bar> \<le> MAX_SAFE_INTEGER \<Longrightarrow> big_toNumber L n = Inr n"
  using assms by (simp_all add: bignum_ok_def)

lemma ethers_bytes_okD:
  assumes "ethers_bytes_ok L"
  shows "arrayify L (JBytes bs) = Inr bs"
    and "arrayify L (JStr (''0x'' @ hex_of_bytes bs)) = Inr bs"
    and "arrayify L (JArr []) = Inr []"
    and "hexlify L bs = ''0x'' @ hex_of_bytes bs"
    and "n < 256 ^ w \<Longrightarrow> 0 < w \<Longrightarrow>
      hexZeroPad L (big_toHexString L (int n)) w = Inr (''0x'' @ hex_of_bytes (nat_be w n))"
    and "concat_bytes L bss = concat bss"
    and "hexConcat L bss = ''0x'' @ hex_of_bytes (concat bss)"
    and "checkArgumentCount L n m t = Inr () \<longleftrightarrow> n = m"
    and "checkArgumentCount L n m t = Inl e \<Longrightarrow> ecode e \<noteq> BUFFER_OVERRUN"
  using assms by (simp_all add: ethers_bytes_ok_def)

lemma crypto_okD:
  assumes "crypto_ok L"
  shows "utf8ToBytes L s = utf8_encode s"
    and "bytesToUtf8 L (utf8_encode s) = Inr s"
    and "bytesToUtf8_lossy L (utf8_encode s) = s"
    and "length (shake256 L bs n) = n"
    and "length (keccak256 L bs) = 32"
    and "crypto_bytesToHex L bs = hex_of_bytes bs"
  using assms by (simp_all add: crypto_ok_def)

section \<open>Functions with this behaviour\<close>

definition ref_big_from :: "jsval \<Rightarrow> js_error + int" where
  "ref_big_from v = (case v of
      JBN n \<Rightarrow> Inr n
    | JBig n \<Rightarrow> Inr n
    | JNum (NInt n) \<Rightarrow> if \<bar>n\<bar> < MAX_SAFE_INTEGER then Inr n else Inl (mk_err NUMERIC_FAULT ''overflow'')
    | JBytes bs \<Rightarrow> Inr (int (be_nat bs))
    | JStr s \<Rightarrow>
        if startsWith s ''0x'' \<and> drop 2 s \<noteq> [] \<and> list_all is_hex_char (drop 2 s)
        then Inr (int (digits_val 16 (drop 2 s)))
        else Inl (mk_err INVALID_ARGUMENT ''invalid BigNumber string'')
    | _ \<Rightarrow> Inl (mk_err INVALID_ARGUMENT ''invalid BigNumber value''))"

definition ref_arrayify :: "jsval \<Rightarrow> js_error + bytes" where
  "ref_arrayify v = (case v of
      JBytes bs \<Rightarrow> Inr bs
    | JStr s \<Rightarrow>
        if startsWith s ''0x'' \<and> list_all is_hex_char (drop 2 s) \<and> even (length s)
        then Inr (bytes_of_hex (drop 2 s))
        else Inl (mk_err INVALID_ARGUMENT ''invalid arrayify value'')
    | JArr [] \<Rightarrow> Inr []
    | _ \<Rightarrow> Inl (mk_err INVALID_ARGUMENT ''invalid arrayify value''))"

definition ref_hexZeroPad :: "string \<Rightarrow> nat \<Rightarrow> js_error + string" where
  "ref_hexZeroPad s w =
     (if length s \<le> 2 * w + 2
      then Inr (''0x'' @ replicate (2 * w + 2 - length s) (CHR ''0'') @ drop 2 s)
      else Inl (mk_err INVALID_ARGUMENT ''value out of range''))"

text \<open>The issues of the elements of an array, each under its index.\<close>

fun at_index :: "nat \<Rightarrow> (js_error + zod_issues) list \<Rightarrow> js_error + zod_issues" where
  "at_index i [] = Inr []"
| "at_index i (r # rs) = bindR r (\<lambda>is. bindR (at_index (Suc i) rs) (\<lambda>is'.
     Inr (map (\<lambda>(path, x). (dec_str i # path, x)) is @ is')))"

function ref_safeParse :: "zod \<Rightarrow> jsval \<Rightarrow> js_error + zod_issues" where
  "ref_safeParse (ZRefine p f) v = map_sum id (\<lambda>ok. if ok then [] else [([], ZCustom v f)]) (p v)"
| "ref_safeParse (ZTuple zs) v = (case js_elems v of
      Some vs \<Rightarrow>
        if length vs < length zs then Inr [([], ZTooSmall (int (length zs)))]
        else if length zs < length vs then Inr [([], ZTooBig (int (length zs)))]
        else at_index 0 (map (\<lambda>(z, x). ref_safeParse z x) (zip zs vs))
    | _ \<Rightarrow> Inr [([], ZOther ''Expected array'')])"
| "ref_safeParse (ZArray z lo hi) v = (case js_elems v of
      Some vs \<Rightarrow> bindR (at_index 0 (map (\<lambda>x. ref_safeParse z x) vs)) (\<lambda>is. Inr (
        (case lo of None \<Rightarrow> [] | Some n \<Rightarrow> if n \<le> length vs then [] else [([], ZTooSmall (int n))]) @
        (case hi of None \<Rightarrow> [] | Some n \<Rightarrow> if length vs \<le> n then [] else [([], ZTooBig (int n))]) @
        is))
    | _ \<Rightarrow> Inr [([], ZOther ''Expected array'')])"
| "ref_safeParse (ZUnion zs) v =
     (if \<exists>z \<in> set zs. ref_safeParse z v = Inr [] then Inr [] else Inr [([], ZOther ''Invalid input'')])"
| "ref_safeParse (ZObject fs req) v =
     (case v of
        JObj kvs \<Rightarrow>
          if \<exists>(k, z) \<in> set fs. ref_safeParse z (obj_get kvs k) \<noteq> Inr [] \<and>
            (k \<in> set req \<or> obj_get kvs k \<noteq> JUndef)
          then Inr [([], ZOther ''Invalid input'')] else Inr []
      | _ \<Rightarrow> if typeof v = TObject \<and> v \<noteq> JNull then Inr [] else Inr [([], ZOther ''Expected object'')])"
| "ref_safeParse (ZPrim t) v =
     (if (t = ''string'' \<longrightarrow> typeof v = TString) \<and>
         (t = ''number'' \<longrightarrow> typeof v = TNumber \<and> v \<noteq> JNum NNaN)
      then Inr [] else Inr [([], ZOther ''Invalid input'')])"
| "ref_safeParse ZDataAny v =
     (if typeof v = TObject \<and> v \<noteq> JNull then Inr [] else Inr [([], ZOther ''Expected object'')])"
  by pat_completeness auto
termination
  by (relation "measure (\<lambda>(z, v). size z)")
     (auto dest!: set_zip_leftD simp: less_Suc_eq_le size_list_estimation')

definition lib_ref :: lib where
  "lib_ref =
     \<lparr>big_from = ref_big_from,
      big_arrayify = (\<lambda>n. if n < 0 then Inl (mk_err INVALID_ARGUMENT ''invalid arrayify value'')
                          else Inr (nat_bytes (nat n))),
      big_mask = (\<lambda>n w. n mod 2 ^ w),
      big_toTwos = (\<lambda>n w. if n < 0 then 2 ^ w + n else n),
      big_fromTwos = (\<lambda>n w. if 2 ^ (w - 1) \<le> n then n - 2 ^ w else n),
      big_toNumber = (\<lambda>n. if \<bar>n\<bar> \<le> MAX_SAFE_INTEGER then Inr n
                          else Inl (mk_err NUMERIC_FAULT ''overflow'')),
      big_toHexString = (\<lambda>n. ''0x'' @ hex_of_bytes (nat_bytes (nat n))),
      arrayify = ref_arrayify,
      hexlify = (\<lambda>bs. ''0x'' @ hex_of_bytes bs),
      hexZeroPad = ref_hexZeroPad,
      concat_bytes = concat,
      hexConcat = (\<lambda>bss. ''0x'' @ hex_of_bytes (concat bss)),
      checkArgumentCount = (\<lambda>n m t.
        if n < m then Inl (mk_err MISSING_ARGUMENT t)
        else if m < n then Inl (mk_err UNEXPECTED_ARGUMENT t) else Inr ()),
      utf8ToBytes = utf8_encode,
      utf8ToBytes_other = (\<lambda>v. Inl (mk_err (ErrClass ''TypeError'') ''string expected'')),
      bytesToUtf8 = (\<lambda>bs. case utf8_decode bs of Some s \<Rightarrow> Inr s
        | None \<Rightarrow> Inl (mk_err (ErrClass ''TypeError'') ''The encoded data was not valid'')),
      bytesToUtf8_lossy = (\<lambda>bs. case utf8_decode bs of Some s \<Rightarrow> s | None \<Rightarrow> []),
      shake256 = (\<lambda>bs n. map (\<lambda>i. of_nat (31 * i + be_nat bs)) [0..<n]),
      keccak256 = (\<lambda>bs. map (\<lambda>i. of_nat (17 * i + be_nat bs)) [0..<32]),
      crypto_bytesToHex = hex_of_bytes,
      safeParse = ref_safeParse,
      zod_has = (\<lambda>t. t \<in> set [''string'', ''number'', ''boolean'', ''bigint'', ''array'', ''null'', ''any'']),
      num_toString = (\<lambda>n b. ''NaN''), num_parse = (\<lambda>s. NNaN)\<rparr>"

lemma digits_val_hex_pad:
  assumes "n < 256 ^ w" and "0 < w"
  shows "replicate (2 * w - 2 * length (nat_bytes n)) (CHR ''0'') @ hex_of_bytes (nat_bytes n)
    = hex_of_bytes (nat_be w n)"
proof -
  have hex_of_bytes_append: "hex_of_bytes (xs @ ys) = hex_of_bytes xs @ hex_of_bytes ys" for xs ys
    by (simp add: hex_of_bytes_def)
  have "replicate (2 * k) (CHR ''0'') = hex_of_bytes (replicate k 0)" for k
    by (induction k) (simp_all add: hex_of_bytes_def byte_hex_def)
  moreover have "length (nat_bytes n) \<le> w" using assms by (rule nat_bytes_length)
  moreover from this have "nat_be w n = replicate (w - length (nat_bytes n)) 0 @ nat_bytes n"
    by (simp add: pad_left_nat_be)
  moreover have "2 * w - 2 * length (nat_bytes n) = 2 * (w - length (nat_bytes n))" by simp
  ultimately show ?thesis by (simp only: hex_of_bytes_append)
qed

lemma lib_ref_bignum: "bignum_ok lib_ref"
  by (simp add: bignum_ok_def lib_ref_def ref_big_from_def startsWith_def)

lemma lib_ref_bytes: "ethers_bytes_ok lib_ref"
  unfolding ethers_bytes_ok_def
proof (intro conjI allI impI)
  fix n w :: nat
  assume nw: "n < 256 ^ w \<and> 0 < w"
  then have "length (nat_bytes n) \<le> w" by (simp add: nat_bytes_length)
  then show "hexZeroPad lib_ref (big_toHexString lib_ref (int n)) w
      = Inr (''0x'' @ hex_of_bytes (nat_be w n))"
    using nw digits_val_hex_pad [of n w] by (simp add: lib_ref_def ref_hexZeroPad_def)
qed (auto simp: lib_ref_def ref_arrayify_def startsWith_def hex_of_bytes_hex split: if_splits)

lemma lib_ref_crypto: "crypto_ok lib_ref"
  by (simp add: crypto_ok_def lib_ref_def)

lemma at_index_Nil: "at_index i rs = Inr [] \<longleftrightarrow> list_all (\<lambda>r. r = Inr []) rs"
  by (induction i rs rule: at_index.induct) (auto simp: result_simps)

lemma lib_ref_zod: "zod_ok lib_ref"
  unfolding zod_ok_def
proof (intro conjI allI)
  fix zs v
  show "safeParse lib_ref (ZTuple zs) v = Inr [] \<longleftrightarrow>
      (\<exists>vs. js_elems v = Some vs \<and> list_all2 (\<lambda>z x. safeParse lib_ref z x = Inr []) zs vs)"
    by (auto simp: lib_ref_def at_index_Nil list_all2_iff list_all_iff split: option.splits if_splits)
next
  fix z v
  show "safeParse lib_ref (ZTuple [z]) (JArr [v]) =
      map_sum id (map (\<lambda>(path, i). (''0'' # path, i))) (safeParse lib_ref z v)"
    by (cases "ref_safeParse z v")
       (simp_all add: lib_ref_def js_elems_def radix_str_def radix_digits.simps)
qed (auto simp: lib_ref_def at_index_Nil list_all_iff result_simps split: option.splits if_splits)

lemma lib_ref_zod_objects: "zod_objects_ok lib_ref"
  by (auto simp: zod_objects_ok_def lib_ref_def typeof_def)

end
