(* ===== verification/ValText.thy ===== *)
theory ValText
  imports Externals
begin

text \<open>
  \<^verbatim>\<open>web3-validator\<close>: the checks on texts (\<^verbatim>\<open>validation/string.ts\<close>, \<^verbatim>\<open>validation/object.ts\<close>,
  \<^verbatim>\<open>validation/boolean.ts\<close>) and on QRL addresses with their SHAKE256 checksum
  (\<^verbatim>\<open>validation/address.ts\<close>).
\<close>

section \<open>Hexadecimal texts\<close>

definition isString :: "jsval \<Rightarrow> bool" where
  "isString v = (typeof v = TString)"

text \<open>The rest of a text after \<^verbatim>\<open>0x\<close> or \<^verbatim>\<open>0X\<close>.\<close>

fun strip0x :: "string \<Rightarrow> string option" where
  "strip0x (z # x # t) = (if z = CHR ''0'' \<and> lower_char x = CHR ''x'' then Some t else None)"
| "strip0x _ = None"

text \<open>\<^verbatim>\<open>/^((-)?0x[0-9a-f]+|(0x))$/i\<close>\<close>

definition hex_strict_text :: "string \<Rightarrow> bool" where
  "hex_strict_text s =
     (case strip0x s of
        Some h \<Rightarrow> list_all is_hex_char h
      | None \<Rightarrow>
          (case s of
             c # t \<Rightarrow> c = CHR ''-'' \<and>
               (case strip0x t of Some h \<Rightarrow> h \<noteq> [] \<and> list_all is_hex_char h | None \<Rightarrow> False)
           | [] \<Rightarrow> False))"

definition isHexStrict :: "jsval \<Rightarrow> bool" where
  "isHexStrict v = (case v of JStr s \<Rightarrow> hex_strict_text s | _ \<Rightarrow> False)"

text \<open>\<^verbatim>\<open>/^0x[0-9A-Fa-f]*$/\<close>, with an optional length in bytes.\<close>

definition isHexString :: "jsval \<Rightarrow> nat option \<Rightarrow> bool" where
  "isHexString v len = (case v of
      JStr s \<Rightarrow>
        startsWith s ''0x'' \<and> list_all is_hex_char (drop 2 s) \<and>
        (case len of Some n \<Rightarrow> 0 < n \<longrightarrow> length s = 2 + 2 * n | None \<Rightarrow> True)
    | _ \<Rightarrow> False)"

text \<open>\<^verbatim>\<open>/^((-0x|0x|-)?[0-9a-f]+|(0x))$/i\<close>\<close>

definition hex_text :: "string \<Rightarrow> bool" where
  "hex_text s =
     (hex_strict_text s \<or>
      (let t = (if startsWith s ''-'' then tl s else s) in t \<noteq> [] \<and> list_all is_hex_char t))"

definition isHex :: "jsval \<Rightarrow> bool" where
  "isHex v = (case v of JNum _ \<Rightarrow> True | JBig _ \<Rightarrow> True | JStr s \<Rightarrow> hex_text s | _ \<Rightarrow> False)"

definition isHexString8Bytes :: "string \<Rightarrow> bool \<Rightarrow> bool" where
  "isHexString8Bytes s prefixed =
     (if prefixed then isHexStrict (JStr s) \<and> length s = 18
      else isHex (JStr s) \<and> length s = 16)"

definition isHexString32Bytes :: "string \<Rightarrow> bool \<Rightarrow> bool" where
  "isHexString32Bytes s prefixed =
     (if prefixed then isHexStrict (JStr s) \<and> length s = 66
      else isHex (JStr s) \<and> length s = 64)"

definition isHexPrefixed :: "jsval \<Rightarrow> js_error + bool" where
  "isHexPrefixed v = (case v of
      JStr s \<Rightarrow> Inr (startsWith s ''0x'')
    | _ \<Rightarrow> Inl (mk_err (ErrClass ''Error'') ''[isHexPrefixed] input must be type string''))"

text \<open>The entries whose value is not \<^verbatim>\<open>undefined\<close> are checked in order; the first bad one is reported.\<close>

fun validateNoLeadingZeroes :: "(string \<times> bytes option) list \<Rightarrow> js_error + unit" where
  "validateNoLeadingZeroes [] = Inr ()"
| "validateNoLeadingZeroes ((k, v) # kvs) =
     (case v of
        Some (b # bs) \<Rightarrow>
          if b = 0
          then Inl (mk_err (ErrClass ''Error'') (k @ '' cannot have leading zeroes, received: ''))
          else validateNoLeadingZeroes kvs
      | _ \<Rightarrow> validateNoLeadingZeroes kvs)"

lemma lower_x [simp]: "lower_char (CHR ''x'') = CHR ''x''"
  by code_simp

lemma strip0x_0x [simp]: "strip0x (CHR ''0'' # CHR ''x'' # t) = Some t"
  by simp

lemma strip0x_Some: "strip0x s = Some h \<Longrightarrow>
    \<exists>x. s = CHR ''0'' # x # h \<and> lower_char x = CHR ''x''"
  by (induction s rule: strip0x.induct) (auto split: if_splits)

lemma strip0x_minus [simp]: "strip0x (CHR ''-'' # t) = None"
  by (cases t) auto

lemma hex_strict_0x [simp]:
  "hex_strict_text (CHR ''0'' # CHR ''x'' # h) = list_all is_hex_char h"
  by (simp add: hex_strict_text_def)

lemma hex_strict_minus [simp]:
  "hex_strict_text (CHR ''-'' # t) =
     (case strip0x t of Some h \<Rightarrow> h \<noteq> [] \<and> list_all is_hex_char h | None \<Rightarrow> False)"
  by (simp add: hex_strict_text_def)

lemma isHexStrict_isHex: "isHexStrict v \<Longrightarrow> isHex v"
  by (cases v) (simp_all add: isHexStrict_def isHex_def hex_text_def)

lemma isHexString_isHexStrict: "isHexString v len \<Longrightarrow> isHexStrict v"
  by (auto simp: isHexString_def isHexStrict_def elim!: startsWithE split: jsval.splits)

lemma validateNoLeadingZeroes_iff:
  "validateNoLeadingZeroes kvs = Inr () \<longleftrightarrow>
     list_all (\<lambda>p. case snd p of Some (b # bs) \<Rightarrow> b \<noteq> 0 | _ \<Rightarrow> True) kvs"
  by (induction kvs rule: validateNoLeadingZeroes.induct)
     (auto split: option.split list.split)

section \<open>Objects and booleans\<close>

definition isObject :: "jsval \<Rightarrow> bool" where
  "isObject v =
     (typeof v = TObject \<and> \<not> isNullish v \<and> \<not> isArray v \<and> (\<forall>bs. v \<noteq> JBytes bs))"

definition isBoolean :: "jsval \<Rightarrow> bool" where
  "isBoolean v = (case v of
      JBool _ \<Rightarrow> True
    | JStr s \<Rightarrow>
        if \<not> hex_strict_text s then s = ''1'' \<or> s = ''0'' else s = ''0x1'' \<or> s = ''0x0''
    | JNum n \<Rightarrow> n = NInt 1 \<or> n = NInt 0
    | _ \<Rightarrow> False)"

section \<open>Addresses\<close>

definition QRL_ADDRESS_HEX_LENGTH :: nat where "QRL_ADDRESS_HEX_LENGTH = 128"
definition QRL_CHECKSUM_BITS :: nat where "QRL_CHECKSUM_BITS = 512"

text \<open>\<^verbatim>\<open>/^Q[0-9a-f]{128}$/i\<close>\<close>

fun qrl_address_regex :: "string \<Rightarrow> bool" where
  "qrl_address_regex [] = False"
| "qrl_address_regex (c # body) =
     (lower_char c = CHR ''q'' \<and> length body = 128 \<and> list_all is_hex_char body)"

text \<open>One step of the checksum loop: a letter is raised when its hash nibble is at least 8.\<close>

definition checksum_char :: "char \<Rightarrow> char \<Rightarrow> char" where
  "checksum_char c h =
     (if char_code (CHR ''a'') \<le> char_code c \<and> char_code c \<le> char_code (CHR ''f'') \<and>
         8 \<le> the (digit_val h)
      then upper_char c else c)"

definition checksum_hash :: "lib \<Rightarrow> string \<Rightarrow> string" where
  "checksum_hash L lowerBody =
     crypto_bytesToHex L (shake256 L (utf8ToBytes L lowerBody) (QRL_CHECKSUM_BITS div 8))"

definition checksum_body :: "lib \<Rightarrow> string \<Rightarrow> string" where
  "checksum_body L lowerBody =
     map2 checksum_char lowerBody (take QRL_ADDRESS_HEX_LENGTH (checksum_hash L lowerBody))"

definition toChecksumAddress :: "lib \<Rightarrow> string \<Rightarrow> js_error + string" where
  "toChecksumAddress L data =
     (if \<not> qrl_address_regex data
      then Inl (mk_err (ErrClass ''Error'') ''invalid qrl address'')
      else Inr (CHR ''Q'' # checksum_body L (toLowerCase (tl data))))"

definition checkAddressCheckSum :: "lib \<Rightarrow> string \<Rightarrow> bool" where
  "checkAddressCheckSum L data =
     (if \<not> qrl_address_regex data then False
      else let body = tl data in
        if body = toLowerCase body \<or> body = toUpperCase body then True
        else Inr data = toChecksumAddress L data)"

definition isAddressString :: "lib \<Rightarrow> jsval \<Rightarrow> bool \<Rightarrow> bool" where
  "isAddressString L v checkChecksum = (case v of
      JStr s \<Rightarrow>
        if \<not> qrl_address_regex s then False
        else if checkChecksum then checkAddressCheckSum L s else True
    | _ \<Rightarrow> False)"

lemma lower_checksum_char: "lower_char (checksum_char c h) = lower_char c"
  by (simp add: checksum_char_def lower_char_upper_char)

lemma checksum_char_hex: "is_hex_char c \<Longrightarrow> is_hex_char (checksum_char c h)"
  by (simp add: checksum_char_def)

lemma length_checksum_body:
  assumes "crypto_ok L" and "length b = 128"
  shows "length (checksum_body L b) = 128"
  using assms by (simp add: checksum_body_def checksum_hash_def crypto_okD
      QRL_CHECKSUM_BITS_def QRL_ADDRESS_HEX_LENGTH_def)

lemma map_lower_map2:
  "length xs \<le> length ys \<Longrightarrow>
    map (lower_char \<circ> (\<lambda>(x, y). checksum_char x y)) (zip xs ys) = map lower_char xs"
  by (induction xs ys rule: list_induct2') (simp_all add: lower_checksum_char)

lemma lower_checksum_body:
  assumes "crypto_ok L" and "length b = 128"
  shows "toLowerCase (checksum_body L b) = toLowerCase b"
  using assms
  by (simp add: checksum_body_def checksum_hash_def toLowerCase_def crypto_okD
      QRL_CHECKSUM_BITS_def QRL_ADDRESS_HEX_LENGTH_def map_lower_map2)

lemma hex_checksum_body:
  "list_all is_hex_char b \<Longrightarrow> list_all is_hex_char (checksum_body L b)"
  by (auto simp: checksum_body_def list_all_iff checksum_char_hex dest!: set_zip_leftD)

lemma toLowerCase_idem [simp]: "toLowerCase (toLowerCase s) = toLowerCase s"
  by (simp add: toLowerCase_def)

lemma length_toLowerCase [simp]: "length (toLowerCase s) = length s"
  by (simp add: toLowerCase_def)

lemma toLowerCase_hex: "list_all is_hex_char s \<Longrightarrow> list_all is_hex_char (toLowerCase s)"
  by (simp add: toLowerCase_def list_all_iff)

lemma qrl_address_regexE:
  assumes "qrl_address_regex s"
  obtains c body where "s = c # body" "lower_char c = CHR ''q''" "length body = 128"
    "list_all is_hex_char body"
  using assms by (cases s) auto

lemma lower_Q [simp]: "lower_char (CHR ''Q'') = CHR ''q''"
  by code_simp

text \<open>The checksum address of an address is an address with the same digits.\<close>

lemma toChecksumAddress_ok:
  assumes "crypto_ok L" and "qrl_address_regex s"
  shows "\<exists>b. toChecksumAddress L s = Inr (CHR ''Q'' # b) \<and> qrl_address_regex (CHR ''Q'' # b)
    \<and> toLowerCase b = toLowerCase (tl s) \<and> b = checksum_body L (toLowerCase (tl s))"
proof -
  obtain c body where s: "s = c # body" "length body = 128" "list_all is_hex_char body"
    using assms(2) by (rule qrl_address_regexE) auto
  then show ?thesis
    using assms by (simp add: toChecksumAddress_def length_checksum_body lower_checksum_body
        hex_checksum_body toLowerCase_hex)
qed

lemma isAddressString_checksum:
  assumes "crypto_ok L" and "toChecksumAddress L s = Inr t"
  shows "isAddressString L (JStr t) True"
proof -
  have "qrl_address_regex s" using assms(2) by (auto simp: toChecksumAddress_def split: if_splits)
  with assms obtain b where b: "t = CHR ''Q'' # b" "qrl_address_regex t"
      "toLowerCase b = toLowerCase (tl s)" "b = checksum_body L (toLowerCase (tl s))"
    using toChecksumAddress_ok [of L s] by auto
  then have "toChecksumAddress L t = Inr t" by (simp add: toChecksumAddress_def)
  with b(2) show ?thesis by (simp add: isAddressString_def checkAddressCheckSum_def)
qed

end
