(* ===== verification/ValUtils.thy ===== *)
theory ValUtils
  imports ValText
begin

text \<open>
  \<^verbatim>\<open>web3-validator/src/utils.ts\<close>: conversions between numbers, hexadecimal texts and byte arrays, and
  the parser of ABI base types. \<^verbatim>\<open>BigInt(value)\<close> of the language comes first.
\<close>

section \<open>BigInt\<close>

definition err_class :: "string \<Rightarrow> string \<Rightarrow> js_error" where
  "err_class c m = mk_err (ErrClass c) m"

lemma ecode_err_class [simp]: "ecode (err_class c m) = ErrClass c"
  by (simp add: err_class_def)

definition digits_opt :: "nat \<Rightarrow> string \<Rightarrow> int option" where
  "digits_opt b s =
     (if s \<noteq> [] \<and> list_all (is_digit_of b) s then Some (int (digits_val b s)) else None)"

text \<open>
  The text of a bigint: white space around it is ignored and nothing but white space is 0; a prefix
  \<^verbatim>\<open>0x\<close>, \<^verbatim>\<open>0o\<close> or \<^verbatim>\<open>0b\<close> gives the radix and then allows no sign; a decimal text may have a sign.
\<close>

definition js_BigInt_str :: "string \<Rightarrow> int option" where
  "js_BigInt_str s =
     (let t = trim s in
      if t = [] then Some 0
      else if startsWith (toLowerCase t) ''0x'' then digits_opt 16 (drop 2 t)
      else if startsWith (toLowerCase t) ''0o'' then digits_opt 8 (drop 2 t)
      else if startsWith (toLowerCase t) ''0b'' then digits_opt 2 (drop 2 t)
      else if startsWith t ''-'' then map_option uminus (digits_opt 10 (tl t))
      else if startsWith t ''+'' then digits_opt 10 (tl t)
      else digits_opt 10 t)"

text \<open>
  An object is converted by way of its text: an array is the texts of its elements joined by commas, a
  BigNumber is its decimal text, and the text of any other object is no number.
\<close>

fun object_BigInt :: "jsval \<Rightarrow> int option" where
  "object_BigInt (JArr vs) = (case vs of [] \<Rightarrow> Some 0 | [v] \<Rightarrow> object_BigInt v | _ \<Rightarrow> None)"
| "object_BigInt (JResult vs ns) = (case vs of [] \<Rightarrow> Some 0 | [v] \<Rightarrow> object_BigInt v | _ \<Rightarrow> None)"
| "object_BigInt (JBytes bs) = (case bs of [] \<Rightarrow> Some 0 | [b] \<Rightarrow> Some (int (unat b)) | _ \<Rightarrow> None)"
| "object_BigInt (JBN n) = Some n"
| "object_BigInt (JBig n) = Some n"
| "object_BigInt (JNum (NInt n)) = (if \<bar>n\<bar> < 10 ^ 21 then Some n else None)"
| "object_BigInt (JStr s) = js_BigInt_str s"
| "object_BigInt JUndef = Some 0"
| "object_BigInt JNull = Some 0"
| "object_BigInt _ = None"

definition js_BigInt :: "jsval \<Rightarrow> js_error + int" where
  "js_BigInt v = (case v of
      JBig i \<Rightarrow> Inr i
    | JNum (NInt i) \<Rightarrow> Inr i
    | JNum _ \<Rightarrow> Inl (err_class ''RangeError'' ''not an integer'')
    | JBool b \<Rightarrow> Inr (if b then 1 else 0)
    | JStr s \<Rightarrow>
        (case js_BigInt_str s of Some i \<Rightarrow> Inr i
         | None \<Rightarrow> Inl (err_class ''SyntaxError'' ''Cannot convert to a BigInt''))
    | JUndef \<Rightarrow> Inl (err_class ''TypeError'' ''Cannot convert to a BigInt'')
    | JNull \<Rightarrow> Inl (err_class ''TypeError'' ''Cannot convert to a BigInt'')
    | _ \<Rightarrow>
        (case object_BigInt v of Some i \<Rightarrow> Inr i
         | None \<Rightarrow> Inl (err_class ''SyntaxError'' ''Cannot convert to a BigInt'')))"

lemma hex_char_not_space: "is_digit_of b c \<Longrightarrow> \<not> is_space c"
  by (auto simp: is_digit_of_def digit_val_def char_code_def is_space_def split: option.splits)

lemma trim_digits:
  assumes "s \<noteq> []" and "\<not> is_space (hd s)" and "\<not> is_space (last s)"
  shows "trim s = s"
proof -
  have "dropWhile is_space s = s" using assms(1,2) by (cases s) auto
  moreover have "dropWhile is_space (rev s) = rev s"
    using assms(1,3) by (cases s rule: rev_cases) auto
  ultimately show ?thesis by (simp add: trim_def)
qed

lemma startsWith_lower_0x: "lower_char x = CHR ''x'' \<Longrightarrow> startsWith (toLowerCase (CHR ''0'' # x # h)) ''0x''"
proof -
  have "lower_char (CHR ''0'') = CHR ''0''" by code_simp
  then show "lower_char x = CHR ''x'' \<Longrightarrow> ?thesis"
    by (simp add: startsWith_def toLowerCase_def)
qed

text \<open>A 0x-text with at least one digit converts to its value; \<^verbatim>\<open>0x\<close> alone is a syntax error.\<close>

lemma js_BigInt_str_hex:
  assumes "lower_char x = CHR ''x''" and "list_all is_hex_char h"
  shows "js_BigInt_str (CHR ''0'' # x # h) =
    (if h = [] then None else Some (int (digits_val 16 h)))"
proof -
  have "\<not> is_space x"
    using assms(1) by (auto simp: is_space_def lower_char_def Let_def char_code_def split: if_splits)
  moreover have "\<not> is_space (last h)" if "h \<noteq> []"
  proof -
    have "is_hex_char (last h)" using assms(2) that by (simp add: list_all_iff)
    then show ?thesis by (rule hex_char_not_space)
  qed
  moreover have "\<not> is_space (CHR ''0'')" by code_simp
  ultimately have "trim (CHR ''0'' # x # h) = CHR ''0'' # x # h"
    by (intro trim_digits) auto
  then show ?thesis
    using assms startsWith_lower_0x [OF assms(1), of h]
    by (simp add: js_BigInt_str_def digits_opt_def)
qed

section \<open>Numbers and hexadecimal texts\<close>

definition codePointToInt :: "nat \<Rightarrow> js_error + nat" where
  "codePointToInt cp =
     (if 48 \<le> cp \<and> cp \<le> 57 then Inr (cp - 48)
      else if 65 \<le> cp \<and> cp \<le> 70 then Inr (cp - 55)
      else if 97 \<le> cp \<and> cp \<le> 102 then Inr (cp - 87)
      else Inl (err_class ''Error'' ''Invalid code point''))"

definition hexToNumber :: "string \<Rightarrow> js_error + jsval" where
  "hexToNumber s =
     (if \<not> isHexStrict (JStr s) then Inl (err_class ''Error'' ''Invalid hex string'')
      else let negative = startsWith s ''-''; hexValue = (if negative then tl s else s) in
        case js_BigInt_str hexValue of
          None \<Rightarrow> Inl (err_class ''SyntaxError'' ''Cannot convert to a BigInt'')
        | Some num \<Rightarrow>
            if num > MAX_SAFE_INTEGER then Inr (JBig (if negative then - num else num))
            else if num < MIN_SAFE_INTEGER then Inr (JBig num)
            else Inr (JNum (NInt (if negative then - num else num))))"

definition val_addressToHex :: "lib \<Rightarrow> jsval \<Rightarrow> js_error + string" where
  "val_addressToHex L v =
     (if \<not> isAddressString L v True then Inl (err_class ''Error'' ''Invalid address string'')
      else case v of
          JStr s \<Rightarrow>
            (case toLowerCase s of
               c # t \<Rightarrow> Inr (if lower_char c = CHR ''q'' then ''0x'' @ t else c # t)
             | [] \<Rightarrow> Inr [])
        | _ \<Rightarrow> Inl (err_class ''Error'' ''Invalid address string''))"

definition signed_hex :: "int \<Rightarrow> string" where
  "signed_hex i = (if i < 0 then ''-0x'' @ hex_str (nat (- i)) else ''0x'' @ hex_str (nat i))"

definition strip_zeros :: "string \<Rightarrow> string" where
  "strip_zeros s = dropWhile (\<lambda>c. c = CHR ''0'') s"

definition numberToHex :: "lib \<Rightarrow> jsval \<Rightarrow> js_error + string" where
  "numberToHex L v = (case v of
      JNum (NInt i) \<Rightarrow> Inr (signed_hex i)
    | JBig i \<Rightarrow> Inr (signed_hex i)
    | JNum (NFrac q) \<Rightarrow>
        if q < 0 then Inr (''-0x'' @ tl (num_toString L (NFrac q) 16))
        else Inr (''0x'' @ num_toString L (NFrac q) 16)
    | JNum (NInf pos) \<Rightarrow>
        if pos then Inr (''0x'' @ num_toString L (NInf pos) 16)
        else Inr (''-0x'' @ tl (num_toString L (NInf pos) 16))
    | JStr s \<Rightarrow>
        if isHexStrict (JStr s) then
          let negative = startsWith s ''-''; hex = (if negative then tl s else s);
              hexValue = drop 2 hex in
          Inr ((if negative then ''-'' else []) @ ''0x'' @ toLowerCase (strip_zeros hexValue))
        else map_sum id signed_hex (js_BigInt (JStr s))
    | _ \<Rightarrow> Inl (err_class ''InvalidNumberError'' ''Invalid value given''))"

definition val_padLeft :: "lib \<Rightarrow> jsval \<Rightarrow> nat \<Rightarrow> string \<Rightarrow> js_error + string" where
  "val_padLeft L v n sign = (case v of
      JStr s \<Rightarrow>
        if \<not> isHexStrict v then Inr (padStart n sign s)
        else if startsWith s ''-'' then Inr (''-0x'' @ padStart n sign (drop 3 s))
        else Inr (''0x'' @ padStart n sign (drop 2 s))
    | _ \<Rightarrow> bindR (numberToHex L v) (\<lambda>hex.
        if startsWith hex ''-'' then Inr (''-0x'' @ padStart n sign (drop 3 hex))
        else Inr (''0x'' @ padStart n sign (drop 2 hex))))"

section \<open>Byte arrays\<close>

definition uint8ArrayToHexString :: "bytes \<Rightarrow> string" where
  "uint8ArrayToHexString bs =
     ''0x'' @ concat (map (\<lambda>e. let hex = hex_str (unat e) in
       if length hex = 1 then ''0'' @ hex else hex) bs)"

definition hexToUint8Array :: "string \<Rightarrow> js_error + bytes" where
  "hexToUint8Array hex =
     (let value = (if startsWith (toLowerCase hex) ''0x'' then drop 2 hex else hex) in
      if length value mod 2 \<noteq> 0
      then Inl (err_class ''InvalidBytesError'' (''hex string has odd length: '' @ hex))
      else if \<not> list_all is_hex_char value
      then Inl (err_class ''InvalidBytesError'' (''Invalid hex string: '' @ hex))
      else Inr (bytes_of_hex value))"

lemma hex_str_byte:
  "(let hex = hex_str (unat (e :: byte)) in if length hex = 1 then ''0'' @ hex else hex) = byte_hex e"
proof (cases "unat e < 16")
  case True
  then have "radix_digits 16 (unat e) = [unat e]" by (subst radix_digits.simps) simp
  with True show ?thesis by (simp add: radix_str_def byte_hex_def)
next
  case False
  then have "radix_digits 16 (unat e) = [unat e div 16, unat e mod 16]"
    using byte_nibbles_less(1) [of e]
    by (subst radix_digits.simps, subst radix_digits.simps) simp
  then show ?thesis by (simp add: radix_str_def byte_hex_def)
qed

lemma uint8ArrayToHexString_eq: "uint8ArrayToHexString bs = ''0x'' @ hex_of_bytes bs"
  unfolding uint8ArrayToHexString_def hex_of_bytes_def hex_str_byte by (rule refl)

lemma toLowerCase_append [simp]: "toLowerCase (xs @ ys) = toLowerCase xs @ toLowerCase ys"
  by (simp add: toLowerCase_def)

lemma toLowerCase_0x [simp]: "toLowerCase ''0x'' = ''0x''"
  by code_simp

lemma hexToUint8Array_0x:
  "hexToUint8Array (''0x'' @ h) =
     (if odd (length h) then Inl (err_class ''InvalidBytesError'' (''hex string has odd length: 0x'' @ h))
      else if \<not> list_all is_hex_char h
      then Inl (err_class ''InvalidBytesError'' (''Invalid hex string: 0x'' @ h))
      else Inr (bytes_of_hex h))"
proof -
  have "startsWith (toLowerCase (''0x'' @ h)) ''0x''"
    by (simp only: toLowerCase_append toLowerCase_0x startsWith_append)
  then show ?thesis by (simp add: hexToUint8Array_def odd_iff_mod_2_eq_one)
qed

text \<open>Writing a byte array as text and reading it back.\<close>

lemma hexToUint8Array_roundtrip: "hexToUint8Array (uint8ArrayToHexString bs) = Inr bs"
  unfolding uint8ArrayToHexString_eq
  by (simp only: hexToUint8Array_0x length_hex_of_bytes hex_of_bytes_hex bytes_of_hex_of_bytes) simp

text \<open>
  Reading back the text of a byte array gives the byte array.
\<close>

theorem hex_bytes_roundtrip: "hexToUint8Array (uint8ArrayToHexString bs) = Inr bs"
  by (rule hexToUint8Array_roundtrip)

section \<open>ABI base types\<close>

definition VALID_QRL_BASE_TYPES :: "string list" where
  "VALID_QRL_BASE_TYPES =
     [''bool'', ''int'', ''uint'', ''bytes'', ''string'', ''address'', ''tuple'']"

text \<open>\<^verbatim>\<open>parseInt(s, 10)\<close>: leading white space, a sign, then the longest run of digits; \<^verbatim>\<open>NaN\<close> if none.\<close>

definition parseInt10 :: "string \<Rightarrow> int option" where
  "parseInt10 s =
     (let t = trimStart s; neg = startsWith t ''-'';
          u = (if neg \<or> startsWith t ''+'' then tl t else t);
          ds = takeWhile is_dec_char u in
      if ds = [] then None
      else Some (if neg then - int (digits_val 10 ds) else int (digits_val 10 ds)))"

text \<open>\<^verbatim>\<open>baseTypeSize\<close>: \<^verbatim>\<open>undefined\<close>, \<^verbatim>\<open>NaN\<close> or a number.\<close>

datatype type_size = NoSize | NaNSize | Size int

record base_type_info =
  baseType :: "string option"
  baseTypeSize :: type_size
  arraySizes :: "int list"
  bt_isArray :: bool

definition size_of_parse :: "int option \<Rightarrow> type_size" where
  "size_of_parse p = (case p of None \<Rightarrow> NaNSize | Some n \<Rightarrow> Size n)"

text \<open>The sizes in brackets, left to right; an empty pair is a dynamic dimension, -1.\<close>

function array_sizes :: "string \<Rightarrow> int list" where
  "array_sizes [] = []"
| "array_sizes (c # s) =
     (if c = CHR ''['' then
        (case dropWhile is_dec_char s of
           d # r \<Rightarrow>
             if d = CHR '']'' then
               (let ds = takeWhile is_dec_char s in
                (if ds = [] then - 1 else int (digits_val 10 ds)) # array_sizes r)
             else array_sizes s
         | [] \<Rightarrow> array_sizes s)
      else array_sizes s)"
  by pat_completeness auto
termination
proof (relation "measure length", goal_cases)
  case (2 c s)
  then show ?case by simp
next
  case (3 c s d r)
  then have "length (d # r) \<le> length s" by (metis length_dropWhile_le)
  then show ?case by simp
qed auto

definition before_bracket :: "string \<Rightarrow> string" where
  "before_bracket s = takeWhile (\<lambda>c. c \<noteq> CHR ''['') s"

definition parseBaseType :: "string \<Rightarrow> base_type_info" where
  "parseBaseType type =
     (let stripped0 = (case find_sub '' '' type of None \<Rightarrow> type | Some (a, b) \<Rightarrow> a @ b);
          hasBracket = (CHR ''['' \<in> set type);
          stripped =
            (if hasBracket then before_bracket stripped0 else stripped0);
          sizes = (if hasBracket then array_sizes type else []);
          isArr = (sizes \<noteq> []);
          mk = (\<lambda>bt sz. \<lparr>baseType = Some bt, baseTypeSize = sz, arraySizes = sizes, bt_isArray = isArr\<rparr>) in
      if stripped \<in> set VALID_QRL_BASE_TYPES then mk stripped NoSize
      else if startsWith stripped ''int'' then mk ''int'' (size_of_parse (parseInt10 (drop 3 stripped)))
      else if startsWith stripped ''uint'' then mk ''uint'' (size_of_parse (parseInt10 (drop 4 stripped)))
      else if startsWith stripped ''bytes'' then mk ''bytes'' (size_of_parse (parseInt10 (drop 5 stripped)))
      else \<lparr>baseType = None, baseTypeSize = NoSize, arraySizes = sizes, bt_isArray = False\<rparr>)"

text \<open>A size that is a number other than 0 is truthy.\<close>

definition truthy_size :: "type_size \<Rightarrow> int option" where
  "truthy_size z = (case z of Size n \<Rightarrow> if n = 0 then None else Some n | _ \<Rightarrow> None)"

definition isValidQRLBaseType :: "string \<Rightarrow> bool" where
  "isValidQRLBaseType type =
     (let info = parseBaseType type in
      case baseType info of
        None \<Rightarrow> False
      | Some bt \<Rightarrow>
          if bt = type then True
          else (case truthy_size (baseTypeSize info) of
              None \<Rightarrow> True
            | Some n \<Rightarrow>
                if (bt = ''int'' \<or> bt = ''uint'') \<and> \<not> (n \<le> 512 \<and> n mod 8 = 0) then False
                else if bt = ''bytes'' \<and> \<not> (1 \<le> n \<and> n \<le> 64) then False
                else True))"

end
