(* ===== verification/ValFormats.thy ===== *)
theory ValFormats
  imports ValUtils
begin

text \<open>
  \<^verbatim>\<open>web3-validator\<close>: the predicates behind the named formats (\<^verbatim>\<open>validation/numbers.ts\<close>, \<^verbatim>\<open>bytes.ts\<close>,
  \<^verbatim>\<open>block.ts\<close>, \<^verbatim>\<open>bloom.ts\<close>, \<^verbatim>\<open>topic.ts\<close>, \<^verbatim>\<open>filter.ts\<close>, \<^verbatim>\<open>qrl_typed_data.ts\<close>) and the table of formats
  (\<^verbatim>\<open>formats.ts\<close>). A predicate that can throw returns a result.
\<close>

section \<open>Numbers\<close>

datatype num_option = OptAbi string | OptBits int

definition isBigInt :: "jsval \<Rightarrow> bool" where
  "isBigInt v = (typeof v = TBigint)"

definition is_numeric :: "jsval \<Rightarrow> bool" where
  "is_numeric v = (typeof v = TNumber \<or> typeof v = TString \<or> typeof v = TBigint)"

text \<open>
  The value the bounds are compared with: \<^verbatim>\<open>BigInt(hexToNumber(value))\<close> of a strict hexadecimal text,
  \<^verbatim>\<open>BigInt(value)\<close> of anything else.
\<close>

definition value_to_check :: "jsval \<Rightarrow> js_error + int" where
  "value_to_check v = (case v of
      JStr s \<Rightarrow> if isHexStrict v then bindR (hexToNumber s) js_BigInt else js_BigInt v
    | _ \<Rightarrow> js_BigInt v)"

definition in_range :: "js_error + int \<Rightarrow> int \<Rightarrow> int \<Rightarrow> bool" where
  "in_range r lo hi = (case r of Inr n \<Rightarrow> lo \<le> n \<and> n \<le> hi | Inl _ \<Rightarrow> False)"

text \<open>\<^verbatim>\<open>BigInt(2) ** BigInt(n)\<close> throws for a negative exponent.\<close>

definition big_pow2 :: "int \<Rightarrow> js_error + int" where
  "big_pow2 n =
     (if n < 0 then Inl (err_class ''RangeError'' ''Exponent must be non-negative'')
      else Inr (2 ^ nat n))"

definition size_or_512 :: "int option \<Rightarrow> int" where
  "size_or_512 z = (case z of Some n \<Rightarrow> n | None \<Rightarrow> 512)"

definition isUInt :: "jsval \<Rightarrow> num_option \<Rightarrow> js_error + bool" where
  "isUInt v opt =
     (if \<not> is_numeric v \<or> v = JStr [] then Inr False
      else
        let size = (case opt of
            OptAbi t \<Rightarrow> truthy_size (baseTypeSize (parseBaseType t))
          | OptBits n \<Rightarrow> if n = 0 then None else Some n)
        in bindR (big_pow2 (size_or_512 size)) (\<lambda>p.
          Inr (in_range (value_to_check v) 0 (p - 1))))"

definition above_safe :: "jsval \<Rightarrow> bool" where
  "above_safe v = (case v of
      JNum (NInt i) \<Rightarrow> i > MAX_SAFE_INTEGER
    | JNum (NFrac q) \<Rightarrow> q > of_int MAX_SAFE_INTEGER
    | JNum (NInf pos) \<Rightarrow> pos
    | _ \<Rightarrow> False)"

definition isInt :: "jsval \<Rightarrow> num_option \<Rightarrow> js_error + bool" where
  "isInt v opt =
     (if \<not> is_numeric v then Inr False
      else if above_safe v then Inr False
      else case opt of
          OptAbi t \<Rightarrow>
            (let info = parseBaseType t in
             if baseType info \<noteq> Some ''int'' then Inr False
             else bindR (big_pow2 (size_or_512 (truthy_size (baseTypeSize info)) - 1)) (\<lambda>p.
               Inr (in_range (value_to_check v) (- p) (p - 1))))
        | OptBits n \<Rightarrow>
            bindR (big_pow2 (size_or_512 (if n = 0 then None else Some n) - 1)) (\<lambda>p.
              Inr (in_range (value_to_check v) (- p) (p - 1))))"

definition decimal_text :: "string \<Rightarrow> bool" where
  "decimal_text s =
     (s \<noteq> [] \<and> list_all (\<lambda>c. is_dec_char c \<or> c = CHR ''.'') s \<and>
      length (filter (\<lambda>c. c = CHR ''.'') s) \<le> 1)"

definition isNumber :: "jsval \<Rightarrow> js_error + bool" where
  "isNumber v = bindR (isInt v (OptAbi ''int'')) (\<lambda>ok. Inr (
     if ok then True
     else case v of JStr s \<Rightarrow> decimal_text s | JNum _ \<Rightarrow> True | _ \<Rightarrow> False))"

lemma value_to_check_hex:
  assumes "lower_char x = CHR ''x''" and "h \<noteq> []" and "list_all is_hex_char h"
  shows "value_to_check (JStr (CHR ''0'' # x # h)) = Inr (int (digits_val 16 h))"
proof -
  have "hex_strict_text (CHR ''0'' # x # h)"
    using assms by (simp add: hex_strict_text_def)
  then show ?thesis
    using assms by (simp add: value_to_check_def isHexStrict_def hexToNumber_def startsWith_def
        js_BigInt_str_hex js_BigInt_def MIN_SAFE_INTEGER_def)
qed

text \<open>The formats \<^verbatim>\<open>uint8\<close>, \<^verbatim>\<open>int8\<close>, ...: the value of the number decides.\<close>

lemma isUInt_bits:
  assumes "is_numeric v" and "v \<noteq> JStr []" and "0 < w" and "value_to_check v = Inr n"
  shows "isUInt v (OptBits (int w)) = Inr (0 \<le> n \<and> n < 2 ^ w)"
  using assms by (auto simp: isUInt_def size_or_512_def big_pow2_def in_range_def)

lemma isInt_bits:
  assumes "is_numeric v" and "\<not> above_safe v" and "0 < w" and "value_to_check v = Inr n"
  shows "isInt v (OptBits (int w)) = Inr (- (2 ^ (w - 1)) \<le> n \<and> n < 2 ^ (w - 1))"
proof -
  have "nat (int w - 1) = w - 1" by simp
  with assms show ?thesis by (auto simp: isInt_def size_or_512_def big_pow2_def in_range_def)
qed

lemma parse_int: "parseBaseType ''int'' =
    \<lparr>baseType = Some ''int'', baseTypeSize = NoSize, arraySizes = [], bt_isArray = False\<rparr>"
  and parse_uint: "parseBaseType ''uint'' =
    \<lparr>baseType = Some ''uint'', baseTypeSize = NoSize, arraySizes = [], bt_isArray = False\<rparr>"
  and parse_bytes: "parseBaseType ''bytes'' =
    \<lparr>baseType = Some ''bytes'', baseTypeSize = NoSize, arraySizes = [], bt_isArray = False\<rparr>"
  by (simp_all add: parseBaseType_def VALID_QRL_BASE_TYPES_def startsWith_def)

text \<open>With the default option the predicates never throw.\<close>

lemma isInt_default:
  "isInt v (OptAbi ''int'') =
     Inr (is_numeric v \<and> \<not> above_safe v \<and> in_range (value_to_check v) (- (2 ^ 511)) (2 ^ 511 - 1))"
  by (simp add: isInt_def parse_int truthy_size_def size_or_512_def big_pow2_def)

lemma isUInt_default:
  "isUInt v (OptAbi ''uint'') =
     Inr (is_numeric v \<and> v \<noteq> JStr [] \<and> in_range (value_to_check v) 0 (2 ^ 512 - 1))"
  by (simp add: isUInt_def parse_uint truthy_size_def size_or_512_def big_pow2_def)

section \<open>Bytes\<close>

definition isUint8Array :: "jsval \<Rightarrow> bool" where
  "isUint8Array v = (case v of JBytes _ \<Rightarrow> True | _ \<Rightarrow> False)"

definition byte_elem :: "jsval \<Rightarrow> bool" where
  "byte_elem v = (case v of JNum (NInt i) \<Rightarrow> 0 \<le> i \<and> i \<le> 255 | _ \<Rightarrow> False)"

definition byte_of_elem :: "jsval \<Rightarrow> byte" where
  "byte_of_elem v = (case v of JNum (NInt i) \<Rightarrow> of_int i | _ \<Rightarrow> 0)"

definition bytes_size_ok :: "num_option \<Rightarrow> bytes \<Rightarrow> bool" where
  "bytes_size_ok opt bs = (case opt of
      OptAbi t \<Rightarrow>
        (case truthy_size (baseTypeSize (parseBaseType t)) of
           Some n \<Rightarrow> int (length bs) = n | None \<Rightarrow> True)
    | OptBits n \<Rightarrow> n \<noteq> 0 \<longrightarrow> int (length bs) = n)"

definition isBytes :: "jsval \<Rightarrow> num_option \<Rightarrow> js_error + bool" where
  "isBytes v opt = (case v of
      JStr s \<Rightarrow>
        if isHexStrict v \<and> startsWith s ''-'' then Inr False
        else if \<not> isHexStrict v then Inr False
        else if length s mod 2 \<noteq> 0 then Inr False
        else bindR (hexToUint8Array s) (\<lambda>bs. Inr (bytes_size_ok opt bs))
    | JBytes bs \<Rightarrow> Inr (bytes_size_ok opt bs)
    | _ \<Rightarrow>
        (case js_elems v of
           Some vs \<Rightarrow>
             if \<exists>d \<in> set vs. \<not> byte_elem d then Inr False
             else Inr (bytes_size_ok opt (map byte_of_elem vs))
         | None \<Rightarrow> Inr False))"

lemma strip0x_length: "strip0x s = Some h \<Longrightarrow> length s = length h + 2"
  by (auto dest!: strip0x_Some)

lemma hexToUint8Array_strip:
  assumes "strip0x s = Some h" and "list_all is_hex_char h" and "even (length h)"
  shows "hexToUint8Array s = Inr (bytes_of_hex h)"
proof -
  obtain x where s: "s = CHR ''0'' # x # h" "lower_char x = CHR ''x''"
    using strip0x_Some [OF assms(1)] by blast
  then have "startsWith (toLowerCase s) ''0x''" by (simp add: startsWith_lower_0x)
  with s assms show ?thesis by (simp add: hexToUint8Array_def even_iff_mod_2_eq_zero)
qed

text \<open>A text is accepted as bytes exactly when it is the 0x-text of a whole number of bytes.\<close>

lemma isBytes_text:
  "isBytes (JStr s) (OptAbi ''bytes'') =
     Inr (\<exists>h. strip0x s = Some h \<and> list_all is_hex_char h \<and> even (length h))"
proof (cases "strip0x s")
  case None
  then show ?thesis
    by (cases s) (auto simp: isBytes_def isHexStrict_def hex_strict_text_def startsWith_def)
next
  case (Some h)
  then obtain x where s: "s = CHR ''0'' # x # h" by (blast dest: strip0x_Some)
  then have "isHexStrict (JStr s) = list_all is_hex_char h" "\<not> startsWith s ''-''"
    using Some by (simp_all add: isHexStrict_def hex_strict_text_def startsWith_def)
  moreover have "even (length s) = even (length h)"
    by (simp add: strip0x_length [OF Some])
  ultimately show ?thesis
    using Some hexToUint8Array_strip [OF Some]
    by (auto simp: isBytes_def bytes_size_ok_def parse_bytes truthy_size_def
        simp flip: even_iff_mod_2_eq_zero)
qed

section \<open>Blocks\<close>

definition block_tags :: "string list" where
  "block_tags = [''earliest'', ''latest'', ''pending'', ''safe'', ''finalized'']"

definition isBlockNumber :: "jsval \<Rightarrow> js_error + bool" where
  "isBlockNumber v = isUInt v (OptAbi ''uint'')"

definition isBlockTag :: "jsval \<Rightarrow> bool" where
  "isBlockTag v = (case v of JStr s \<Rightarrow> s \<in> set block_tags | _ \<Rightarrow> False)"

definition isBlockNumberOrTag :: "jsval \<Rightarrow> js_error + bool" where
  "isBlockNumberOrTag v = (if isBlockTag v then Inr True else isBlockNumber v)"

section \<open>Bloom filters and topics\<close>

text \<open>\<^verbatim>\<open>/^(0x)?[0-9a-f]{n}$/i\<close> and then the same expression in one letter case only.\<close>

definition unprefixed :: "string \<Rightarrow> string" where
  "unprefixed s = (if startsWith s ''0x'' then drop 2 s else s)"

definition one_case_hex :: "nat \<Rightarrow> string \<Rightarrow> bool" where
  "one_case_hex n s =
     (let h = unprefixed s in
      length h = n \<and> list_all is_hex_char h \<and>
      (list_all (\<lambda>c. lower_char c = c) h \<or> list_all (\<lambda>c. upper_char c = c) h))"

definition isBloom :: "jsval \<Rightarrow> bool" where
  "isBloom v = (case v of JStr s \<Rightarrow> one_case_hex 512 s | _ \<Rightarrow> False)"

definition isTopic :: "jsval \<Rightarrow> bool" where
  "isTopic v = (case v of JStr s \<Rightarrow> one_case_hex 128 s | _ \<Rightarrow> False)"

definition bloom_bitpos :: "string \<Rightarrow> nat \<Rightarrow> nat" where
  "bloom_bitpos hash i =
     (digits_val 16 (take 2 (drop i hash)) * 256 + digits_val 16 (take 2 (drop (i + 2) hash))) mod 2048"

definition bloom_code :: "string \<Rightarrow> nat \<Rightarrow> js_error + nat" where
  "bloom_code bloom bitpos =
     codePointToInt (char_code (bloom ! (length bloom - 1 - bitpos div 4)))"

fun isInBloom_loop :: "string \<Rightarrow> string \<Rightarrow> nat list \<Rightarrow> js_error + bool" where
  "isInBloom_loop bloom hash [] = Inr True"
| "isInBloom_loop bloom hash (i # is) =
     bindR (bloom_code bloom (bloom_bitpos hash i)) (\<lambda>code.
       let offset = 2 ^ (bloom_bitpos hash i mod 4) in
       if and code offset \<noteq> offset then Inr False else isInBloom_loop bloom hash is)"

definition isInBloom :: "lib \<Rightarrow> string \<Rightarrow> jsval \<Rightarrow> js_error + bool" where
  "isInBloom L bloom v =
     (if (case v of JStr _ \<Rightarrow> \<not> isHexStrict v | _ \<Rightarrow> False) then Inr False
      else if \<not> isBloom (JStr bloom) then Inr False
      else bindR
        (case v of JStr s \<Rightarrow> hexToUint8Array s | JBytes bs \<Rightarrow> Inr bs
         | _ \<Rightarrow> Inl (err_class ''Error'' ''bytes expected''))
        (\<lambda>bs. let hash = drop 2 (uint8ArrayToHexString (keccak256 L bs)) in
          isInBloom_loop bloom hash [0, 4, 8]))"

definition isUserQRLAddressInBloom :: "lib \<Rightarrow> string \<Rightarrow> jsval \<Rightarrow> js_error + bool" where
  "isUserQRLAddressInBloom L bloom a =
     (if \<not> isBloom (JStr bloom) then Inr False
      else if \<not> isAddressString L a True then Inr False
      else bindR (val_addressToHex L a) (\<lambda>h.
        bindR (val_padLeft L (JStr h) 128 ''0'') (\<lambda>p. isInBloom L bloom (JStr p))))"

definition isContractAddressInBloom :: "lib \<Rightarrow> string \<Rightarrow> jsval \<Rightarrow> js_error + bool" where
  "isContractAddressInBloom L bloom a =
     (if \<not> isBloom (JStr bloom) then Inr False
      else if \<not> isAddressString L a True then Inr False
      else bindR (val_addressToHex L a) (\<lambda>h. isInBloom L bloom (JStr h)))"

definition isTopicInBloom :: "lib \<Rightarrow> string \<Rightarrow> jsval \<Rightarrow> js_error + bool" where
  "isTopicInBloom L bloom topic =
     (if \<not> isBloom (JStr bloom) then Inr False
      else if \<not> isTopic topic then Inr False
      else isInBloom L bloom topic)"

text \<open>The bit a hash selects, in the filter read as a number of 2048 bits.\<close>

definition bloom_number :: "string \<Rightarrow> nat" where
  "bloom_number bloom = digits_val 16 (unprefixed bloom)"

definition bloom_bits :: "bytes \<Rightarrow> nat list" where
  "bloom_bits hash =
     map (\<lambda>i. (unat (hash ! i) * 256 + unat (hash ! (i + 1))) mod 2048) [0, 2, 4]"

lemma codePointToInt_hex:
  assumes "is_hex_char c"
  shows "codePointToInt (char_code c) = Inr (the (digit_val c))"
  using assms by (auto simp: is_digit_of_Some digit_val_def codePointToInt_def Let_def split: if_splits)

lemma digits_val_nibble:
  assumes "list_all is_hex_char h" and "k < length h"
  shows "digits_val 16 h div 16 ^ k mod 16 = the (digit_val (h ! (length h - 1 - k)))"
proof -
  define j where "j = length h - 1 - k"
  have j: "j < length h" "length h - Suc j = k" using assms(2) by (auto simp: j_def)
  have "h = take j h @ h ! j # drop (Suc j) h" using j by (simp add: id_take_nth_drop)
  then have "digits_val 16 h = digits_val 16 (take j h @ [h ! j] @ drop (Suc j) h)" by simp
  also have "\<dots> = digits_val 16 (take j h) * 16 ^ Suc k + the (digit_val (h ! j)) * 16 ^ k
      + digits_val 16 (drop (Suc j) h)"
    using j by (simp add: digits_val_def radix_val_append radix_val_Cons)
  finally have v: "digits_val 16 h
      = (digits_val 16 (take j h) * 16 + the (digit_val (h ! j))) * 16 ^ k
        + digits_val 16 (drop (Suc j) h)"
    by (simp add: algebra_simps)
  have "list_all is_hex_char (drop (Suc j) h)"
    using assms(1) by (metis append_take_drop_id list_all_append)
  then have "digits_val 16 (drop (Suc j) h) < 16 ^ k"
    using digits_val_bound [of 16 "drop (Suc j) h"] j by simp
  then have "digits_val 16 h div 16 ^ k = digits_val 16 (take j h) * 16 + the (digit_val (h ! j))"
    using v by simp
  moreover have "the (digit_val (h ! j)) < 16"
    using assms(1) j by (auto simp: list_all_length is_digit_of_Some)
  ultimately show ?thesis by (simp add: j_def)
qed

lemma bit_nibble: "bit (n :: nat) p \<longleftrightarrow> bit (n div 16 ^ (p div 4) mod 16) (p mod 4)"
proof -
  have "n div 16 ^ (p div 4) mod 16 = take_bit 4 (drop_bit (4 * (p div 4)) n)"
    unfolding take_bit_eq_mod drop_bit_eq_div power_mult by simp
  moreover have "bit (take_bit 4 (drop_bit (4 * (p div 4)) n)) (p mod 4) = bit n p"
    by (simp add: bit_take_bit_iff bit_drop_bit_eq del: mult_div_mod_eq)
  ultimately show ?thesis by metis
qed

lemma and_offset_iff: "and code (2 ^ k) = (2 ^ k :: nat) \<longleftrightarrow> bit code k"
proof
  assume a: "and code (2 ^ k) = 2 ^ k"
  have "bit (2 ^ k :: nat) k" by (simp add: bit_exp_iff)
  with a have "bit (and code (2 ^ k)) k" by simp
  then show "bit code k" by (simp add: bit_and_iff)
next
  assume b: "bit code k"
  show "and code (2 ^ k) = 2 ^ k"
    by (rule bit_eqI) (auto simp: bit_and_iff bit_exp_iff b)
qed

lemma hex_of_bytes_byte:
  "i < length bs \<Longrightarrow> digits_val 16 (take 2 (drop (2 * i) (hex_of_bytes bs))) = unat (bs ! i)"
proof (induction bs arbitrary: i)
  case Nil
  then show ?case by simp
next
  case (Cons b bs)
  have "digits_val 16 (byte_hex b) = unat b"
    using digits_val_hex_of_bytes [of "[b]"] by (simp add: hex_of_bytes_def be_nat_def radix_val_Cons)
  with Cons show ?case
    by (cases i) (simp_all add: hex_of_bytes_def byte_hex_def)
qed

lemma bloom_code_bit:
  assumes "isBloom (JStr bloom)" and "p < 2048"
  shows "\<exists>code. bloom_code bloom p = Inr code \<and>
    (bit code (p mod 4) \<longleftrightarrow> bit (bloom_number bloom) p)"
proof -
  define h where "h = unprefixed bloom"
  have h: "length h = 512" "list_all is_hex_char h"
    using assms(1) by (simp_all add: isBloom_def one_case_hex_def h_def Let_def)
  have p: "p div 4 < 512" using assms(2) by simp
  have b: "bloom = h \<or> bloom = ''0x'' @ h"
    by (auto simp: h_def unprefixed_def elim!: startsWithE)
  then have "bloom ! (length bloom - 1 - p div 4) = h ! (511 - p div 4)"
    using h(1) p by (auto simp: nth_append)
  moreover have "is_hex_char (h ! (511 - p div 4))"
    using h by (simp add: list_all_length)
  ultimately have "bloom_code bloom p = Inr (the (digit_val (h ! (511 - p div 4))))"
    by (simp add: bloom_code_def codePointToInt_hex)
  moreover have "the (digit_val (h ! (511 - p div 4))) = digits_val 16 h div 16 ^ (p div 4) mod 16"
    using digits_val_nibble [of h "p div 4"] h p by simp
  ultimately show ?thesis
    using bit_nibble [of "digits_val 16 h" p] by (simp add: bloom_number_def h_def)
qed

lemma isInBloom_loop_bits:
  assumes "isBloom (JStr bloom)"
  shows "isInBloom_loop bloom hash is =
    Inr (\<forall>i \<in> set is. bit (bloom_number bloom) (bloom_bitpos hash i))"
proof (induction "is")
  case (Cons i "is")
  have "bloom_bitpos hash i < 2048" by (simp add: bloom_bitpos_def)
  from bloom_code_bit [OF assms this] Cons show ?case
    by (auto simp: Let_def and_offset_iff)
qed simp

text \<open>Membership tests three bits of the filter, chosen by the first six bytes of the hash.\<close>

lemma isInBloom_bits:
  assumes "crypto_ok L" and "isBloom (JStr bloom)"
  shows "isInBloom L bloom (JBytes bs) =
    Inr (\<forall>p \<in> set (bloom_bits (keccak256 L bs)). bit (bloom_number bloom) p)"
proof -
  define hb where "hb = keccak256 L bs"
  have len: "length hb = 32" using assms(1) by (simp add: hb_def crypto_okD)
  have "bloom_bitpos (hex_of_bytes hb) (2 * i) = (unat (hb ! i) * 256 + unat (hb ! (i + 1))) mod 2048"
    if "i < 31" for i
    using that len hex_of_bytes_byte [of i hb] hex_of_bytes_byte [of "i + 1" hb]
    by (simp add: bloom_bitpos_def)
  from this [of 0] this [of 2] this [of 4]
  have "map (bloom_bitpos (hex_of_bytes hb)) [0, 4, 8] = bloom_bits hb"
    by (simp add: bloom_bits_def)
  then have "(\<forall>i \<in> set [0, 4, 8]. P (bloom_bitpos (hex_of_bytes hb) i)) \<longleftrightarrow>
      (\<forall>p \<in> set (bloom_bits hb). P p)" for P
    by (metis (no_types, lifting) image_iff list.set_map)
  with assms show ?thesis
    unfolding isInBloom_def uint8ArrayToHexString_eq
    by (simp add: isInBloom_loop_bits hb_def Let_def del: isInBloom_loop.simps)
qed

section \<open>Filters and typed data\<close>

text \<open>The enumerable keys of a value and its properties.\<close>

definition js_keys :: "jsval \<Rightarrow> string list" where
  "js_keys v = (case v of
      JObj kvs \<Rightarrow> map fst kvs
    | JArr vs \<Rightarrow> map dec_str [0..<length vs]
    | JResult vs ns \<Rightarrow> map dec_str [0..<length vs] @ map fst ns
    | JBytes bs \<Rightarrow> map dec_str [0..<length bs]
    | JBN _ \<Rightarrow> [''_hex'', ''_isBigNumber'']
    | JErr _ \<Rightarrow> [''code'']
    | _ \<Rightarrow> [])"

definition js_prop :: "jsval \<Rightarrow> string \<Rightarrow> jsval" where
  "js_prop v k = (case v of
      JObj kvs \<Rightarrow> obj_get kvs k | JResult vs ns \<Rightarrow> obj_get ns k | _ \<Rightarrow> JUndef)"

text \<open>
  \<^verbatim>\<open>xs.every(p)\<close> on a value that need not be an array: byte arrays have the method too, everything else
  is a \<^verbatim>\<open>TypeError\<close>. The callbacks here do not throw.
\<close>

definition js_every :: "(jsval \<Rightarrow> bool) \<Rightarrow> jsval \<Rightarrow> js_error + bool" where
  "js_every p v = (case v of
      JArr vs \<Rightarrow> Inr (list_all p vs)
    | JResult vs ns \<Rightarrow> Inr (list_all p vs)
    | JBytes bs \<Rightarrow> Inr (list_all (\<lambda>b. p (JNum (NInt (int (unat b))))) bs)
    | _ \<Rightarrow> Inl (err_class ''TypeError'' ''every is not a function''))"

definition filterProperties :: "string list" where
  "filterProperties = [''fromBlock'', ''toBlock'', ''address'', ''topics'', ''blockHash'']"

definition filter_block_ok :: "jsval \<Rightarrow> js_error + bool" where
  "filter_block_ok b = (if isNullish b then Inr True else isBlockNumberOrTag b)"

definition filter_address_ok :: "lib \<Rightarrow> jsval \<Rightarrow> bool" where
  "filter_address_ok L a =
     (isNullish a \<or>
      (case js_elems a of Some vs \<Rightarrow> list_all (\<lambda>x. isAddressString L x True) vs
       | None \<Rightarrow> isAddressString L a True))"

definition filter_topic_ok :: "jsval \<Rightarrow> bool" where
  "filter_topic_ok t =
     (isNullish t \<or> (case js_elems t of Some vs \<Rightarrow> list_all isTopic vs | None \<Rightarrow> isTopic t))"

definition isFilterObject :: "lib \<Rightarrow> jsval \<Rightarrow> js_error + bool" where
  "isFilterObject L v =
     (if isNullish v \<or> typeof v \<noteq> TObject then Inr False
      else if \<not> list_all (\<lambda>k. k \<in> set filterProperties) (js_keys v) then Inr False
      else bindR (filter_block_ok (js_prop v ''fromBlock'')) (\<lambda>f.
        if \<not> f then Inr False
        else bindR (filter_block_ok (js_prop v ''toBlock'')) (\<lambda>t.
          if \<not> t then Inr False
          else if \<not> filter_address_ok L (js_prop v ''address'') then Inr False
          else if isNullish (js_prop v ''topics'') then Inr True
          else js_every filter_topic_ok (js_prop v ''topics''))))"

definition isPlainObject :: "jsval \<Rightarrow> bool" where
  "isPlainObject v = (\<not> isNullish v \<and> typeof v = TObject \<and> \<not> isArray v)"

definition nonempty_text :: "jsval \<Rightarrow> bool" where
  "nonempty_text v = (case v of JStr s \<Rightarrow> s \<noteq> [] | _ \<Rightarrow> False)"

definition typed_members_ok :: "jsval \<Rightarrow> bool" where
  "typed_members_ok ms = (case js_elems ms of
      None \<Rightarrow> False
    | Some xs \<Rightarrow> list_all (\<lambda>m. isPlainObject m \<and> nonempty_text (js_prop m ''name'') \<and>
                             nonempty_text (js_prop m ''type'')) xs)"

definition isQRLTypedData :: "jsval \<Rightarrow> bool" where
  "isQRLTypedData v =
     (isPlainObject v \<and>
      (let types = js_prop v ''types''; primaryType = js_prop v ''primaryType'' in
       isPlainObject types \<and>
       isArray (js_prop types ''QRLTypedDataDomain'') \<and>
       (case types of JObj kvs \<Rightarrow> list_all (\<lambda>p. typed_members_ok (snd p)) kvs | _ \<Rightarrow> True) \<and>
       (case primaryType of JStr s \<Rightarrow> s \<noteq> [] \<and> isArray (js_prop types s) | _ \<Rightarrow> False) \<and>
       isPlainObject (js_prop v ''domain'') \<and>
       isPlainObject (js_prop v ''message'')))"

section \<open>The table of formats\<close>

type_synonym format_pred = "jsval \<Rightarrow> js_error + bool"

definition base_formats :: "lib \<Rightarrow> (string \<times> format_pred) list" where
  "base_formats L =
     [(''address'', \<lambda>v. Inr (isAddressString L v True)),
      (''bloom'', \<lambda>v. Inr (isBloom v)),
      (''blockNumber'', isBlockNumber),
      (''blockTag'', \<lambda>v. Inr (isBlockTag v)),
      (''blockNumberOrTag'', isBlockNumberOrTag),
      (''bool'', \<lambda>v. Inr (isBoolean v)),
      (''bytes'', \<lambda>v. isBytes v (OptAbi ''bytes'')),
      (''qrlTypedData'', \<lambda>v. Inr (isQRLTypedData v)),
      (''filter'', isFilterObject L),
      (''hex'', \<lambda>v. Inr (isHexStrict v)),
      (''uint'', \<lambda>v. isUInt v (OptAbi ''uint'')),
      (''int'', \<lambda>v. isInt v (OptAbi ''int'')),
      (''number'', isNumber),
      (''string'', \<lambda>v. Inr (isString v))]"

definition sized_formats :: "(string \<times> format_pred) list" where
  "sized_formats =
     concat (map (\<lambda>k. let n = 8 * k in
       [(''int'' @ dec_str n, \<lambda>v. isInt v (OptBits (int n))),
        (''uint'' @ dec_str n, \<lambda>v. isUInt v (OptBits (int n)))]) [1..<65]) @
     map (\<lambda>n. (''bytes'' @ dec_str n, \<lambda>v. isBytes v (OptBits (int n)))) [1..<65] @
     [(''bytes256'', \<lambda>v. isBytes v (OptAbi ''bytes''))]"

definition formats :: "lib \<Rightarrow> string \<Rightarrow> format_pred option" where
  "formats L name = map_of (base_formats L @ sized_formats) name"

lemma formats_base:
  "formats L ''address'' = Some (\<lambda>v. Inr (isAddressString L v True))"
  "formats L ''hex'' = Some (\<lambda>v. Inr (isHexStrict v))"
  "formats L ''bytes'' = Some (\<lambda>v. isBytes v (OptAbi ''bytes''))"
  "formats L ''int'' = Some (\<lambda>v. isInt v (OptAbi ''int''))"
  "formats L ''uint'' = Some (\<lambda>v. isUInt v (OptAbi ''uint''))"
  "formats L ''number'' = Some isNumber"
  "formats L ''string'' = Some (\<lambda>v. Inr (isString v))"
  "formats L ''bool'' = Some (\<lambda>v. Inr (isBoolean v))"
  "formats L ''blockNumberOrTag'' = Some isBlockNumberOrTag"
  "formats L ''filter'' = Some (isFilterObject L)"
  by (simp_all add: formats_def base_formats_def)

end
