(* ===== verification/ValSchema.thy ===== *)
theory ValSchema
  imports ValFormats
begin

text \<open>
  \<^verbatim>\<open>web3-validator\<close>: from an ABI-like schema to a JSON schema (\<^verbatim>\<open>abiSchemaToJsonSchema\<close> of \<^verbatim>\<open>utils.ts\<close>),
  from a JSON schema to a zod schema and from zod's issues to the library's errors (\<^verbatim>\<open>validator.ts\<close>),
  and the entry point \<^verbatim>\<open>validate\<close> (\<^verbatim>\<open>web3_validator.ts\<close>) every other package calls on its arguments.
\<close>

section \<open>Texts of values\<close>

definition num_text :: "lib \<Rightarrow> jsnum \<Rightarrow> string" where
  "num_text L n = (case n of
      NInt i \<Rightarrow> if \<bar>i\<bar> < 10 ^ 21 then int_str 10 i else num_toString L n 10
    | NFrac q \<Rightarrow> num_toString L n 10
    | NInf pos \<Rightarrow> if pos then ''Infinity'' else ''-Infinity''
    | NNaN \<Rightarrow> ''NaN'')"

definition json_escape :: "char \<Rightarrow> string" where
  "json_escape c =
     (if c = CHR 0x22 then [CHR 0x5C, CHR 0x22]
      else if c = CHR 0x5C then [CHR 0x5C, CHR 0x5C]
      else if c = CHR 0x08 then [CHR 0x5C, CHR ''b'']
      else if c = CHR 0x0C then [CHR 0x5C, CHR ''f'']
      else if c = CHR 0x0A then [CHR 0x5C, CHR ''n'']
      else if c = CHR 0x0D then [CHR 0x5C, CHR ''r'']
      else if c = CHR 0x09 then [CHR 0x5C, CHR ''t'']
      else if char_code c < 32 then [CHR 0x5C, CHR ''u''] @ padStart 4 ''0'' (hex_str (char_code c))
      else [c])"

definition json_quote :: "string \<Rightarrow> string" where
  "json_quote s = [CHR 0x22] @ concat (map json_escape s) @ [CHR 0x22]"

text \<open>
  \<^verbatim>\<open>JSON.stringify\<close>: \<^verbatim>\<open>undefined\<close> and functions have no text, are left out of objects and written as
  \<^verbatim>\<open>null\<close> in arrays; a bigint anywhere in the value is a \<^verbatim>\<open>TypeError\<close>.
\<close>

fun js_json :: "lib \<Rightarrow> jsval \<Rightarrow> js_error + string option" where
  "js_json L JUndef = Inr None"
| "js_json L JFun = Inr None"
| "js_json L JNull = Inr (Some ''null'')"
| "js_json L (JBool b) = Inr (Some (if b then ''true'' else ''false''))"
| "js_json L (JNum n) = Inr (Some (case n of
     NInf _ \<Rightarrow> ''null'' | NNaN \<Rightarrow> ''null'' | _ \<Rightarrow> num_text L n))"
| "js_json L (JBig i) = Inl (err_class ''TypeError'' ''Do not know how to serialize a BigInt'')"
| "js_json L (JBN n) = Inr (Some (''{'' @ json_quote ''type'' @ '':'' @ json_quote ''BigNumber'' @ '','' @
     json_quote ''hex'' @ '':'' @ json_quote (big_toHexString L n) @ ''}''))"
| "js_json L (JStr s) = Inr (Some (json_quote s))"
| "js_json L (JBytes bs) = Inr (Some (''{'' @ join_with '',''
     (map (\<lambda>(i, b). json_quote (dec_str i) @ '':'' @ dec_str (unat b)) (enumerate 0 bs)) @ ''}''))"
| "js_json L (JArr vs) = bindR (mapR (js_json L) vs) (\<lambda>ts.
     Inr (Some (''['' @ join_with '','' (map (\<lambda>t. case t of None \<Rightarrow> ''null'' | Some u \<Rightarrow> u) ts) @ '']'')))"
| "js_json L (JObj kvs) = bindR (mapR (\<lambda>(k, v). bindR (js_json L v) (\<lambda>t. Inr (k, t))) kvs) (\<lambda>ts.
     Inr (Some (''{'' @ join_with '','' (concat (map (\<lambda>(k, t). case t of
       None \<Rightarrow> [] | Some u \<Rightarrow> [json_quote k @ '':'' @ u]) ts)) @ ''}'')))"
| "js_json L (JResult vs ns) = bindR (mapR (js_json L) vs) (\<lambda>ts.
     Inr (Some (''['' @ join_with '','' (map (\<lambda>t. case t of None \<Rightarrow> ''null'' | Some u \<Rightarrow> u) ts) @ '']'')))"
| "js_json L (JErr e) = Inr (Some ''{}'')"

text \<open>What a template text shows of a value: objects as JSON, anything else by \<^verbatim>\<open>String\<close>.\<close>

definition shown :: "lib \<Rightarrow> jsval \<Rightarrow> js_error + string" where
  "shown L v =
     (if typeof v = TObject then
        bindR (js_json L v) (\<lambda>t. Inr (case t of None \<Rightarrow> ''undefined'' | Some u \<Rightarrow> u))
      else Inr (case v of
          JBool b \<Rightarrow> if b then ''true'' else ''false''
        | JNum n \<Rightarrow> num_text L n
        | JBig i \<Rightarrow> int_str 10 i
        | JStr s \<Rightarrow> s
        | JFun \<Rightarrow> ''function''
        | _ \<Rightarrow> ''undefined''))"

section \<open>JSON schemas\<close>

datatype 'a schema_items = ItemOne 'a | ItemList "'a list"

datatype schema_required = ReqNone | ReqFlag bool | ReqList "string list"

datatype json_schema = JSchema
  (sch_id: "string option") (sch_type: "string option") (sch_format: "string option")
  (sch_required: schema_required) (sch_items: "json_schema schema_items option")
  (sch_minItems: "int option") (sch_maxItems: "int option")
  (sch_properties: "(string \<times> json_schema) list option") (sch_oneOf: "json_schema list option")

definition sch_array :: "json_schema schema_items \<Rightarrow> int option \<Rightarrow> json_schema" where
  "sch_array items n = JSchema None (Some ''array'') None ReqNone (Some items) n n None None"

definition sch_eth :: "string option \<times> bool \<Rightarrow> json_schema" where
  "sch_eth fr = JSchema None None (fst fr) (if snd fr then ReqFlag True else ReqNone)
     None None None None None"

fun with_id :: "string \<Rightarrow> json_schema \<Rightarrow> json_schema" where
  "with_id i (JSchema _ t f r it mn mx p one) = JSchema (Some i) t f r it mn mx p one"

section \<open>ABI schemas\<close>

datatype abi_schema =
    AbiParam string string "abi_schema list option"
  | AbiShort string
  | AbiList "abi_schema list"

definition extraTypes :: "string list" where
  "extraTypes = [''hex'', ''number'', ''blockNumber'', ''blockNumberOrTag'', ''filter'', ''bloom'',
     ''qrlTypedData'']"

definition validator_error :: "string list \<Rightarrow> js_error" where
  "validator_error ms = err_class ''Web3ValidatorError''
     (''Web3 validator found '' @ dec_str (length ms) @ '' error[s]:'' @ [CHR 0x0A] @
      join_with [CHR 0x0A] (map (\<lambda>m. if m = [] then ''unspecified error'' else m) ms))"

definition assertSupportedSize :: "string \<Rightarrow> string option \<Rightarrow> type_size \<Rightarrow> js_error + unit" where
  "assertSupportedSize type bt sz = (case sz of
      Size n \<Rightarrow>
        if (bt = Some ''int'' \<or> bt = Some ''uint'') \<and> (n \<le> 0 \<or> 512 < n \<or> n mod 8 \<noteq> 0)
        then Inl (validator_error [''Eth data type \"'' @ type @ ''\" is not valid: unsupported '' @
          the bt @ '' size''])
        else if bt = Some ''bytes'' \<and> (n \<le> 0 \<or> 64 < n)
        then Inl (validator_error
          [''Eth data type \"'' @ type @ ''\" is not valid: unsupported bytes size''])
        else Inr ()
    | _ \<Rightarrow> Inr ())"

definition size_text :: "type_size \<Rightarrow> string" where
  "size_text z = (case z of NoSize \<Rightarrow> [] | NaNSize \<Rightarrow> ''NaN'' | Size n \<Rightarrow> int_str 10 n)"

text \<open>The format name of a type, and whether it is required.\<close>

definition convertEthType :: "string \<Rightarrow> bool \<Rightarrow> js_error + (string option \<times> bool)" where
  "convertEthType type typePropertyPresent =
     (if typePropertyPresent
      then Inl (validator_error [''Either \"eth\" or \"type\" can be presented in schema''])
      else let info = parseBaseType type in
        bindR (assertSupportedSize type (baseType info) (baseTypeSize info)) (\<lambda>_.
          case baseType info of
            None \<Rightarrow>
              if type \<notin> set extraTypes
              then Inl (validator_error [''Eth data type \"'' @ type @ ''\" is not valid''])
              else if type \<noteq> [] then Inr (Some type, True) else Inr (None, False)
          | Some bt \<Rightarrow>
              if bt = ''tuple''
              then Inl (err_class ''Error'' ''\"tuple\" type is not implemented directly.'')
              else Inr (Some (bt @ size_text (baseTypeSize info)), True)))"

fun wrap_arrays :: "int list \<Rightarrow> json_schema \<Rightarrow> json_schema" where
  "wrap_arrays [] s = s"
| "wrap_arrays (n # ns) s =
     wrap_arrays ns (sch_array (ItemOne s) (if 0 \<le> n then Some n else None))"

text \<open>
  The schema of one entry, given its type, its name and the schema of its components (used for tuples
  only).
\<close>

definition entry_schema ::
  "string \<Rightarrow> string \<Rightarrow> js_error + json_schema \<Rightarrow> js_error + json_schema" where
  "entry_schema abiType abiName tupleSchema =
     (let info = parseBaseType abiType in
      bindR
        (if baseType info = Some ''tuple'' then
           map_sum id (\<lambda>s. if bt_isArray info then s else with_id abiName s) tupleSchema
         else if bt_isArray info then
           map_sum id sch_eth (convertEthType (the (baseType info)) False)
         else map_sum id (\<lambda>fr. with_id abiName (sch_eth fr)) (convertEthType abiType False))
        (\<lambda>elementSchema.
          if \<not> bt_isArray info then Inr elementSchema
          else Inr (with_id abiName (wrap_arrays (arraySizes info) elementSchema))))"

definition level_name :: "string \<Rightarrow> nat \<Rightarrow> string" where
  "level_name level i = level @ ''/'' @ dec_str i"

definition items_schema :: "json_schema list \<Rightarrow> json_schema" where
  "items_schema ss = sch_array (ItemList ss) (Some (int (length ss)))"

function entry_list :: "string \<Rightarrow> nat \<Rightarrow> abi_schema list \<Rightarrow> js_error + json_schema list"
  and entry_one :: "string \<Rightarrow> nat \<Rightarrow> abi_schema \<Rightarrow> js_error + json_schema" where
  "entry_list level i [] = Inr []"
| "entry_list level i (a # as) =
     bindR (entry_one level i a) (\<lambda>s. bindR (entry_list level (Suc i) as) (\<lambda>ss. Inr (s # ss)))"
| "entry_one level i (AbiParam type name comps) =
     (let abiName = (if name = [] then level_name level i else name) in
      entry_schema type abiName (case comps of
          None \<Rightarrow> Inl (err_class ''TypeError'' ''Cannot read properties of undefined'')
        | Some cs \<Rightarrow> map_sum id items_schema (entry_list abiName 0 cs)))"
| "entry_one level i (AbiShort type) =
     entry_schema type (level_name level i) (Inr (items_schema []))"
| "entry_one level i (AbiList abi) =
     (case abi of
        AbiShort t # AbiList cs # rest \<Rightarrow>
          if startsWith t ''tuple''
          then entry_schema t (level_name level i)
            (map_sum id items_schema (entry_list (level_name level i) 0 cs))
          else entry_schema ''tuple'' (level_name level i)
            (map_sum id items_schema (entry_list (level_name level i) 0 abi))
      | _ \<Rightarrow> entry_schema ''tuple'' (level_name level i)
          (map_sum id items_schema (entry_list (level_name level i) 0 abi)))"
  by pat_completeness auto
termination
  by (relation "measure (\<lambda>x. case x of Inl (l, i, as) \<Rightarrow> size_list size as | Inr (l, i, a) \<Rightarrow> size a)")
     auto

definition abiSchemaToJsonSchema :: "abi_schema list \<Rightarrow> string \<Rightarrow> js_error + json_schema" where
  "abiSchemaToJsonSchema abis level = map_sum id items_schema (entry_list level 0 abis)"

definition qrlAbiToJsonSchema :: "abi_schema list \<Rightarrow> js_error + json_schema" where
  "qrlAbiToJsonSchema abis = abiSchemaToJsonSchema abis ''/0''"

section \<open>zod schemas\<close>

definition format_check :: "lib \<Rightarrow> string \<Rightarrow> format_pred" where
  "format_check L f = (case formats L f of
      Some p \<Rightarrow> p
    | None \<Rightarrow> (\<lambda>v. Inl (err_class ''TypeError'' ''check is not a function'')))"

fun convertToZod :: "lib \<Rightarrow> json_schema \<Rightarrow> zod" where
  "convertToZod L (JSchema i t f req items mn mx props one) =
     (if (t = None \<or> t = Some [] \<or> t = Some ''object'') \<and> props \<noteq> None then
        ZObject (map (\<lambda>(n, s). (n, convertToZod L s)) (the props))
          (case req of ReqList rs \<Rightarrow> rs | _ \<Rightarrow> [])
      else if t = Some ''array'' \<and> items \<noteq> None then
        (case the items of
           ItemOne s \<Rightarrow> ZArray (convertToZod L s) (map_option nat mn) (map_option nat mx)
         | ItemList ss \<Rightarrow>
             if ss \<noteq> [] then ZTuple (map (\<lambda>s. convertToZod L s) ss)
             else ZArray ZDataAny (map_option nat mn) (map_option nat mx))
      else if one \<noteq> None then ZUnion (map (\<lambda>s. convertToZod L s) (the one))
      else if f \<noteq> None \<and> f \<noteq> Some [] then ZRefine (format_check L (the f)) (the f)
      else if t \<noteq> None \<and> t \<noteq> Some [] \<and> t \<noteq> Some ''object'' \<and> zod_has L (the t) then ZPrim (the t)
      else ZDataAny)"

section \<open>Errors\<close>

record val_error =
  vkeyword :: string
  vinstancePath :: string
  vschemaPath :: string
  vmessage :: string

definition convert_error :: "lib \<Rightarrow> string list \<times> zod_issue \<Rightarrow> js_error + val_error" where
  "convert_error L zi =
     (let instancePath = join_with ''/'' (fst zi);
          field = (if fst zi = [] then ''undefined'' else last (fst zi));
          mk = (\<lambda>keyword schemaPath message.
            \<lparr>vkeyword = keyword,
             vinstancePath = (if instancePath \<noteq> [] then ''/'' @ instancePath else []),
             vschemaPath = (if schemaPath \<noteq> [] then ''#'' @ schemaPath else ''#''),
             vmessage = message\<rparr>) in
      case snd zi of
        ZTooBig n \<Rightarrow> Inr (mk ''maxItems'' (instancePath @ ''/maxItems'')
          (''must NOT have more than '' @ int_str 10 n @ '' items''))
      | ZTooSmall n \<Rightarrow> Inr (mk ''minItems'' (instancePath @ ''/minItems'')
          (''must NOT have fewer than '' @ int_str 10 n @ '' items''))
      | ZCustom v fmt \<Rightarrow>
          if v = JUndef
          then Inr (mk field instancePath (''value at \"/'' @ instancePath @ ''\" is required''))
          else bindR (shown L v) (\<lambda>t. Inr (mk field instancePath
            (''value \"'' @ t @ ''\" at \"/'' @ instancePath @ ''\" must pass \"'' @ fmt @
             ''\" validation'')))
      | ZOther m \<Rightarrow> Inr (mk field instancePath m))"

definition convertErrors :: "lib \<Rightarrow> zod_issues \<Rightarrow> js_error + val_error list" where
  "convertErrors L issues = mapR (convert_error L) issues"

section \<open>Validation\<close>

text \<open>
  The result is \<^verbatim>\<open>undefined\<close> (\<^const>\<open>None\<close>) when the data passes and, in silent mode, the list of
  errors when it does not; otherwise the errors are thrown as one \<^verbatim>\<open>Web3ValidatorError\<close>.
\<close>

definition Validator_validate ::
  "lib \<Rightarrow> json_schema \<Rightarrow> jsval \<Rightarrow> bool \<Rightarrow> js_error + val_error list option" where
  "Validator_validate L schema data silent =
     bindR (safeParse L (convertToZod L schema) data) (\<lambda>issues.
       if issues = [] then Inr None
       else bindR (convertErrors L issues) (\<lambda>errs.
         if silent then Inr (Some errs) else Inl (validator_error (map vmessage errs))))"

definition validateJSONSchema ::
  "lib \<Rightarrow> json_schema \<Rightarrow> jsval \<Rightarrow> bool \<Rightarrow> js_error + val_error list option" where
  "validateJSONSchema L schema data silent = Validator_validate L schema data silent"

definition validate ::
  "lib \<Rightarrow> abi_schema list \<Rightarrow> jsval list \<Rightarrow> bool \<Rightarrow> js_error + val_error list option" where
  "validate L schema data silent =
     bindR (qrlAbiToJsonSchema schema) (\<lambda>js.
       if sch_items js = Some (ItemList []) \<and> data = [] then Inr None
       else if sch_items js = Some (ItemList []) \<and> data \<noteq> []
       then Inl (validator_error [''empty schema against data can not be validated''])
       else Validator_validate L js (JArr data) silent)"

text \<open>\<^verbatim>\<open>validator.validate([type], [value])\<close>, the form the other packages use.\<close>

definition validate1 :: "lib \<Rightarrow> string \<Rightarrow> jsval \<Rightarrow> js_error + unit" where
  "validate1 L type v = bindR (validate L [AbiShort type] [v] False) (\<lambda>_. Inr ())"

section \<open>What validation of one value decides\<close>

definition simple_format :: "string \<Rightarrow> bool" where
  "simple_format t =
     (t \<in> set [''address'', ''bool'', ''bytes'', ''hex'', ''int'', ''number'', ''string'', ''uint'',
        ''blockNumber'', ''blockNumberOrTag'', ''bloom'', ''filter'', ''qrlTypedData''])"

lemma entry_schema_simple:
  assumes "simple_format t"
  shows "entry_schema t n tup = Inr (with_id n (sch_eth (Some t, True)))"
  using assms
  by (auto simp: simple_format_def entry_schema_def convertEthType_def parseBaseType_def
      VALID_QRL_BASE_TYPES_def extraTypes_def startsWith_def assertSupportedSize_def size_text_def
      parseInt10_def)

lemma qrlAbiToJsonSchema_simple:
  assumes "simple_format t"
  shows "qrlAbiToJsonSchema [AbiShort t] =
    Inr (items_schema [with_id (level_name ''/0'' 0) (sch_eth (Some t, True))])"
  using assms by (simp add: qrlAbiToJsonSchema_def abiSchemaToJsonSchema_def entry_schema_simple)

lemma zod_okD:
  assumes "zod_ok L"
  shows "safeParse L (ZRefine p f) v =
      map_sum id (\<lambda>ok. if ok then [] else [([], ZCustom v f)]) (p v)"
    and "safeParse L (ZTuple [z]) (JArr [v]) =
      map_sum id (map (\<lambda>(path, i). (''0'' # path, i))) (safeParse L z v)"
    and "safeParse L (ZTuple zs) v = Inr [] \<longleftrightarrow>
      (\<exists>vs. js_elems v = Some vs \<and> list_all2 (\<lambda>z x. safeParse L z x = Inr []) zs vs)"
    and "safeParse L (ZArray z lo hi) v = Inr [] \<longleftrightarrow>
      (\<exists>vs. js_elems v = Some vs \<and> list_all (\<lambda>x. safeParse L z x = Inr []) vs \<and>
         (case lo of None \<Rightarrow> True | Some n \<Rightarrow> n \<le> length vs) \<and>
         (case hi of None \<Rightarrow> True | Some n \<Rightarrow> length vs \<le> n))"
  using assms unfolding zod_ok_def by blast+

lemma convertToZod_eth [simp]:
  "t \<noteq> [] \<Longrightarrow> convertToZod L (with_id i (sch_eth (Some t, True))) = ZRefine (format_check L t) t"
  by (simp add: sch_eth_def)

lemma convertToZod_items [simp]:
  "ss \<noteq> [] \<Longrightarrow> convertToZod L (items_schema ss) = ZTuple (map (convertToZod L) ss)"
  by (simp add: items_schema_def sch_array_def)

text \<open>
  The text of the error for a value a format refuses, or the exception raised while the text is put
  together.
\<close>

definition refusal :: "lib \<Rightarrow> string \<Rightarrow> jsval \<Rightarrow> js_error" where
  "refusal L t v =
     (if v = JUndef then validator_error [''value at \"/0\" is required'']
      else case shown L v of
          Inl e \<Rightarrow> e
        | Inr s \<Rightarrow> validator_error
            [''value \"'' @ s @ ''\" at \"/0\" must pass \"'' @ t @ ''\" validation''])"

lemma convertErrors_refusal:
  "bindR (convertErrors L [([''0''], ZCustom v t)]) (\<lambda>errs. Inl (validator_error (map vmessage errs)))
    = Inl (refusal L t v)"
  by (cases "shown L v") (auto simp: convertErrors_def convert_error_def refusal_def Let_def)

lemma validate1_format:
  assumes "zod_ok L" and "simple_format t" and "formats L t = Some p"
  shows "validate1 L t v =
    (case p v of Inl e \<Rightarrow> Inl e | Inr ok \<Rightarrow> if ok then Inr () else Inl (refusal L t v))"
proof -
  have t: "t \<noteq> []" using assms(2) by (auto simp: simple_format_def)
  have "validate1 L t v = bindR (safeParse L (ZTuple [ZRefine p t]) (JArr [v]))
      (\<lambda>issues. if issues = [] then Inr ()
        else bindR (convertErrors L issues) (\<lambda>errs. Inl (validator_error (map vmessage errs))))"
    using assms(2,3) t
    by (auto simp: validate1_def validate_def qrlAbiToJsonSchema_simple Validator_validate_def
        items_schema_def sch_array_def format_check_def bindR_def split: sum.splits)
  then show ?thesis
    using assms(1)
    by (cases "p v") (simp_all add: zod_okD convertErrors_refusal)
qed

text \<open>The instances the conversions use: a value passes exactly when its predicate accepts it.\<close>

lemma simple_formats [simp]:
  "simple_format ''address''" "simple_format ''bool''" "simple_format ''bytes''"
  "simple_format ''hex''" "simple_format ''int''" "simple_format ''number''"
  "simple_format ''string''" "simple_format ''uint''" "simple_format ''blockNumberOrTag''"
  "simple_format ''filter''"
  by (simp_all add: simple_format_def)

lemma validate1_hex:
  "zod_ok L \<Longrightarrow> validate1 L ''hex'' v = (if isHexStrict v then Inr () else Inl (refusal L ''hex'' v))"
  by (simp add: validate1_format formats_base)

lemma validate1_address:
  "zod_ok L \<Longrightarrow> validate1 L ''address'' v =
    (if isAddressString L v True then Inr () else Inl (refusal L ''address'' v))"
  by (simp add: validate1_format formats_base)

lemma validate1_int:
  "zod_ok L \<Longrightarrow> validate1 L ''int'' v =
    (if isInt v (OptAbi ''int'') = Inr True then Inr () else Inl (refusal L ''int'' v))"
  by (simp add: validate1_format formats_base isInt_default)

lemma validate1_string:
  "zod_ok L \<Longrightarrow> validate1 L ''string'' v = (if isString v then Inr () else Inl (refusal L ''string'' v))"
  by (simp add: validate1_format formats_base)

lemma isBytes_default_total: "\<exists>b. isBytes v (OptAbi ''bytes'') = Inr b"
proof (cases v)
  case (JStr s)
  then show ?thesis by (simp add: isBytes_text)
qed (auto simp: isBytes_def split: option.splits)

lemma validate1_bytes:
  "zod_ok L \<Longrightarrow> validate1 L ''bytes'' v =
    (if isBytes v (OptAbi ''bytes'') = Inr True then Inr () else Inl (refusal L ''bytes'' v))"
  using isBytes_default_total [of v]
  by (auto simp: validate1_format formats_base split: sum.splits)

lemma isNumber_total: "\<exists>b. isNumber v = Inr b"
  by (simp add: isNumber_def isInt_default)

lemma validate1_number:
  "zod_ok L \<Longrightarrow> validate1 L ''number'' v =
    (if isNumber v = Inr True then Inr () else Inl (refusal L ''number'' v))"
  using isNumber_total [of v]
  by (auto simp: validate1_format formats_base split: sum.splits)

end
