(* ===== verification/Converters.thy ===== *)
theory Converters
  imports ValSchema
begin

text \<open>
  \<^verbatim>\<open>web3-utils\<close>: the conversions between bytes, texts, addresses, numbers and units
  (\<^verbatim>\<open>converters.ts\<close>) and the padding and two's complement functions
  (\<^verbatim>\<open>string_manipulation.ts\<close>). Each begins with the validator's check of its argument.
\<close>

section \<open>Bytes\<close>

definition bytesToUint8Array :: "lib \<Rightarrow> jsval \<Rightarrow> js_error + bytes" where
  "bytesToUint8Array L v = bindR (validate1 L ''bytes'' v) (\<lambda>_. case v of
      JBytes bs \<Rightarrow> Inr bs
    | JStr s \<Rightarrow> hexToUint8Array s
    | _ \<Rightarrow>
        (case js_elems v of
           Some vs \<Rightarrow> Inr (map byte_of_elem vs)
         | None \<Rightarrow> Inl (err_class ''InvalidBytesError'' ''can not parse as byte data'')))"

definition bytesToHex :: "lib \<Rightarrow> jsval \<Rightarrow> js_error + string" where
  "bytesToHex L v = map_sum id uint8ArrayToHexString (bytesToUint8Array L v)"

definition hexToBytes :: "lib \<Rightarrow> jsval \<Rightarrow> js_error + bytes" where
  "hexToBytes L v = (case v of
      JStr s \<Rightarrow>
        if toLowerCase (take 2 s) \<noteq> ''0x'' then bytesToUint8Array L (JStr (''0x'' @ s))
        else bytesToUint8Array L v
    | _ \<Rightarrow> bytesToUint8Array L v)"

section \<open>Addresses\<close>

definition ADDRESS_HEX_CHARS :: nat where "ADDRESS_HEX_CHARS = 128"

definition invalid_address :: js_error where
  "invalid_address = err_class ''InvalidAddressError'' ''invalid QRL address''"

definition strip_0x_i :: "string \<Rightarrow> string" where
  "strip_0x_i s = (case strip0x s of Some h \<Rightarrow> h | None \<Rightarrow> s)"

definition hexToAddress :: "lib \<Rightarrow> jsval \<Rightarrow> js_error + string" where
  "hexToAddress L v = bindR (validate1 L ''hex'' v) (\<lambda>_. case v of
      JStr s \<Rightarrow>
        (let hex = strip_0x_i (toLowerCase s) in
         if length hex > ADDRESS_HEX_CHARS then Inl invalid_address
         else Inr (CHR ''Q'' # padStart ADDRESS_HEX_CHARS ''0'' hex))
    | _ \<Rightarrow> Inl (err_class ''TypeError'' ''toLowerCase is not a function''))"

definition addressToHex :: "lib \<Rightarrow> jsval \<Rightarrow> js_error + string" where
  "addressToHex L v = bindR (validate1 L ''address'' v) (\<lambda>_. val_addressToHex L v)"

definition addressToBytes :: "lib \<Rightarrow> jsval \<Rightarrow> js_error + bytes" where
  "addressToBytes L v = bindR (addressToHex L v) (\<lambda>h. bytesToUint8Array L (JStr h))"

definition util_toChecksumAddress :: "lib \<Rightarrow> jsval \<Rightarrow> js_error + string" where
  "util_toChecksumAddress L v =
     (if \<not> isAddressString L v False then Inl invalid_address
      else case v of JStr s \<Rightarrow> toChecksumAddress L s | _ \<Rightarrow> Inl invalid_address)"

section \<open>Numbers\<close>

definition util_hexToNumber :: "lib \<Rightarrow> jsval \<Rightarrow> js_error + jsval" where
  "util_hexToNumber L v = bindR (validate1 L ''hex'' v) (\<lambda>_. case v of
      JStr s \<Rightarrow> hexToNumber s
    | _ \<Rightarrow> Inl (err_class ''Error'' ''Invalid hex string''))"

definition util_numberToHex :: "lib \<Rightarrow> jsval \<Rightarrow> bool \<Rightarrow> js_error + string" where
  "util_numberToHex L v hexstrict =
     bindR (if typeof v \<noteq> TBigint then validate1 L ''int'' v else Inr ()) (\<lambda>_.
     bindR (numberToHex L v) (\<lambda>u.
       Inr (if hexstrict then
              if \<not> startsWith u ''-'' \<and> length u mod 2 = 1 then ''0x0'' @ drop 2 u
              else if length u mod 2 = 0 \<and> startsWith u ''-'' then ''-0x0'' @ drop 3 u
              else u
            else u)))"

definition number_toString :: "lib \<Rightarrow> jsval \<Rightarrow> string" where
  "number_toString L v = (case v of JNum n \<Rightarrow> num_text L n | JBig i \<Rightarrow> int_str 10 i | _ \<Rightarrow> [])"

definition hexToNumberString :: "lib \<Rightarrow> jsval \<Rightarrow> js_error + string" where
  "hexToNumberString L v = map_sum id (number_toString L) (util_hexToNumber L v)"

definition invalid_number :: js_error where
  "invalid_number = err_class ''InvalidNumberError'' ''can not parse as valid number''"

definition big_to_number :: "int \<Rightarrow> jsval" where
  "big_to_number i =
     (if MIN_SAFE_INTEGER \<le> i \<and> i \<le> MAX_SAFE_INTEGER then JNum (NInt i) else JBig i)"

definition toNumber :: "lib \<Rightarrow> jsval \<Rightarrow> js_error + jsval" where
  "toNumber L v = (case v of
      JNum n \<Rightarrow> Inr v
    | JBig i \<Rightarrow> Inr (big_to_number i)
    | _ \<Rightarrow>
        if isHexStrict v then util_hexToNumber L v
        else case js_BigInt v of Inr i \<Rightarrow> Inr (big_to_number i) | Inl _ \<Rightarrow> Inl invalid_number)"

definition toBigInt :: "jsval \<Rightarrow> js_error + int" where
  "toBigInt v = (case v of
      JNum n \<Rightarrow> js_BigInt v
    | JBig i \<Rightarrow> Inr i
    | JStr s \<Rightarrow> if isHex v then js_BigInt v else Inl invalid_number
    | _ \<Rightarrow> Inl invalid_number)"

section \<open>Texts\<close>

definition strip_null :: "string \<Rightarrow> string" where
  "strip_null s =
     (let t = (if s \<noteq> [] \<and> hd s = CHR 0x00 then tl s else s) in
      if t \<noteq> [] \<and> last t = CHR 0x00 then butlast t else t)"

definition utf8ToHex :: "lib \<Rightarrow> jsval \<Rightarrow> js_error + string" where
  "utf8ToHex L v = bindR (validate1 L ''string'' v) (\<lambda>_. case v of
      JStr s \<Rightarrow> bytesToHex L (JBytes (utf8_encode (strip_null s)))
    | _ \<Rightarrow> Inl (err_class ''TypeError'' ''replace is not a function''))"

definition hexToUtf8 :: "lib \<Rightarrow> jsval \<Rightarrow> js_error + string" where
  "hexToUtf8 L v = map_sum id (bytesToUtf8_lossy L) (hexToBytes L v)"

definition toUtf8 :: "lib \<Rightarrow> jsval \<Rightarrow> js_error + string" where
  "toUtf8 L v = (case v of
      JStr s \<Rightarrow> hexToUtf8 L v
    | _ \<Rightarrow> bindR (validate1 L ''bytes'' v) (\<lambda>_.
        Inr (bytesToUtf8_lossy L (case v of JBytes bs \<Rightarrow> bs | _ \<Rightarrow>
          (case js_elems v of Some vs \<Rightarrow> map byte_of_elem vs | None \<Rightarrow> [])))))"

definition asciiToHex :: "lib \<Rightarrow> jsval \<Rightarrow> js_error + string" where
  "asciiToHex L v = bindR (validate1 L ''string'' v) (\<lambda>_. case v of
      JStr s \<Rightarrow> Inr (''0x'' @ concat (map (\<lambda>c. let h = hex_str (char_code c) in
        if length h mod 2 \<noteq> 0 then ''0'' @ h else h) s))
    | _ \<Rightarrow> Inl (err_class ''TypeError'' ''charCodeAt is not a function''))"

text \<open>\<^verbatim>\<open>toHex\<close>: the text, or with \<^verbatim>\<open>returnType\<close> the name of the type it took the value for.\<close>

definition toHex :: "lib \<Rightarrow> jsval \<Rightarrow> bool \<Rightarrow> js_error + string" where
  "toHex L v returnType = (case v of
      JBool b \<Rightarrow> Inr (if returnType then ''bool'' else if b then ''0x01'' else ''0x00'')
    | JNum n \<Rightarrow>
        if returnType then
          Inr (if (case n of NInt i \<Rightarrow> i < 0 | NFrac q \<Rightarrow> q < 0 | NInf pos \<Rightarrow> \<not> pos | NNaN \<Rightarrow> False)
               then ''int512'' else ''uint512'')
        else util_numberToHex L v False
    | JBig i \<Rightarrow> if returnType then Inr ''bigint'' else util_numberToHex L v False
    | JStr s \<Rightarrow>
        if startsWith s ''-0x'' \<or> startsWith s ''-0X'' then
          (if returnType then Inr ''int512'' else util_numberToHex L v False)
        else if isHexStrict v then Inr (if returnType then ''bytes'' else s)
        else bindR (if isHex v then isInt v (OptAbi ''int'') else Inr True) (\<lambda>int.
          if isHex v \<and> \<not> int then Inr (if returnType then ''bytes'' else ''0x'' @ s)
          else if isAddressString L v True then
            (if returnType then Inr ''address'' else addressToHex L v)
          else if returnType then Inr ''string'' else utf8ToHex L v)
    | _ \<Rightarrow>
        if typeof v = TObject \<and> v \<noteq> JNull then
          (if returnType then Inr ''string''
           else bindR (js_json L v) (\<lambda>t. utf8ToHex L (case t of Some u \<Rightarrow> JStr u | None \<Rightarrow> JUndef)))
        else Inl (err_class ''HexProcessingError'' ''can not be converted to hex''))"

section \<open>Units\<close>

definition qrlUnitMap :: "(string \<times> int) list" where
  "qrlUnitMap =
     [(''noquanta'', 0), (''planck'', 1), (''kplanck'', 10 ^ 3), (''Kplanck'', 10 ^ 3),
      (''mplanck'', 10 ^ 6), (''Mplanck'', 10 ^ 6), (''shor'', 10 ^ 9), (''nano'', 10 ^ 9),
      (''kshor'', 10 ^ 12), (''Kshor'', 10 ^ 12), (''micro'', 10 ^ 12), (''mshor'', 10 ^ 15),
      (''Mshor'', 10 ^ 15), (''milli'', 10 ^ 15), (''quanta'', 10 ^ 18), (''kquanta'', 10 ^ 21),
      (''grand'', 10 ^ 21), (''mquanta'', 10 ^ 24), (''gquanta'', 10 ^ 27), (''tquanta'', 10 ^ 30)]"

text \<open>A missing unit and a denomination of 0 are both refused.\<close>

definition unit_denomination :: "string \<Rightarrow> js_error + int" where
  "unit_denomination unit = (case map_of qrlUnitMap unit of
      None \<Rightarrow> Inl (err_class ''InvalidUnitError'' ''invalid unit'')
    | Some d \<Rightarrow> if d = 0 then Inl (err_class ''InvalidUnitError'' ''invalid unit'') else Inr d)"

definition denomination_zeros :: "int \<Rightarrow> nat" where
  "denomination_zeros d = length (int_str 10 d) - 1"

definition trim_zeros_right :: "string \<Rightarrow> string" where
  "trim_zeros_right s = rev (dropWhile (\<lambda>c. c = CHR ''0'') (rev s))"

definition shift_point :: "nat \<Rightarrow> string \<Rightarrow> string" where
  "shift_point zeros value =
     (if zeros = 0 then value
      else let padded = padStart zeros ''0'' value;
               integer = slice_but_last zeros padded;
               fraction = trim_zeros_right (slice_last zeros padded) in
        if integer = [] then ''0.'' @ fraction
        else if fraction = [] then integer
        else integer @ ''.'' @ fraction)"

definition fromPlanck :: "lib \<Rightarrow> jsval \<Rightarrow> string \<Rightarrow> js_error + string" where
  "fromPlanck L number unit =
     bindR (unit_denomination unit) (\<lambda>d.
     bindR (toNumber L number) (\<lambda>n.
       Inr (shift_point (denomination_zeros d) (number_toString L n))))"

definition unit_number_text :: "lib \<Rightarrow> jsval \<Rightarrow> js_error + string" where
  "unit_number_text L number = (case number of
      JStr s \<Rightarrow> if isHexStrict number then map_sum id (number_toString L) (toNumber L number) else Inr s
    | _ \<Rightarrow> map_sum id (number_toString L) (toNumber L number))"

definition toPlanck :: "lib \<Rightarrow> jsval \<Rightarrow> string \<Rightarrow> js_error + string" where
  "toPlanck L number unit =
     bindR (validate1 L ''number'' number) (\<lambda>_.
     bindR (unit_denomination unit) (\<lambda>d.
     bindR (unit_number_text L number) (\<lambda>t.
       let parts = split_on ''.'' t @ [[]]; integer = parts ! 0; fraction = parts ! 1 in
       bindR (js_BigInt (JStr (integer @ fraction))) (\<lambda>value.
         let updated = int_str 10 (value * d);
             decimals = min (length fraction) (denomination_zeros d) in
         Inr (if decimals = 0 then updated
              else slice_but_last decimals (padStart decimals ''0'' updated))))))"

section \<open>Padding and two's complement\<close>

definition util_padLeft :: "lib \<Rightarrow> jsval \<Rightarrow> nat \<Rightarrow> string \<Rightarrow> js_error + string" where
  "util_padLeft L v n sign = (case v of
      JStr s \<Rightarrow> if \<not> isHexStrict v then Inr (padStart n sign s) else val_padLeft L v n sign
    | _ \<Rightarrow> bindR (validate1 L ''int'' v) (\<lambda>_. val_padLeft L v n sign))"

definition padRight :: "lib \<Rightarrow> jsval \<Rightarrow> nat \<Rightarrow> string \<Rightarrow> js_error + string" where
  "padRight L v n sign =
     (if (case v of JStr _ \<Rightarrow> \<not> isHexStrict v | _ \<Rightarrow> False)
      then (case v of JStr s \<Rightarrow> Inr (padEnd n sign s) | _ \<Rightarrow> Inr [])
      else bindR (validate1 L ''int'' v) (\<lambda>_.
        bindR (case v of JStr s \<Rightarrow> Inr s | _ \<Rightarrow> util_numberToHex L v False) (\<lambda>hexString.
          let prefixLength = (if startsWith hexString ''-'' then 3 else 2) in
          Inr (padEnd (n + prefixLength) sign hexString))))"

text \<open>The comparisons are on a number or a bigint, both by value.\<close>

definition num_value :: "jsval \<Rightarrow> int" where
  "num_value v = (case v of JNum (NInt i) \<Rightarrow> i | JBig i \<Rightarrow> i | _ \<Rightarrow> 0)"

definition toTwosComplement :: "lib \<Rightarrow> jsval \<Rightarrow> nat \<Rightarrow> js_error + string" where
  "toTwosComplement L v nibbleWidth =
     bindR (validate1 L ''int'' v) (\<lambda>_.
     bindR (toNumber L v) (\<lambda>val.
       if num_value val \<ge> 0 then
         bindR (toHex L val False) (\<lambda>h. util_padLeft L (JStr h) nibbleWidth ''0'')
       else let largestBit = 2 ^ (nibbleWidth * 4) in
         if - num_value val \<ge> largestBit
         then Inl (err_class ''NibbleWidthError'' ''value greater than the nibble width'')
         else bindR (util_numberToHex L (JBig (num_value val + largestBit)) False) (\<lambda>h.
           util_padLeft L (JStr h) nibbleWidth ''0'')))"

section \<open>Hexadecimal texts of numbers\<close>

lemma hex_str_hex: "list_all is_hex_char (hex_str n)"
  by (simp add: list_all_iff radix_str_digits)

lemma isHexStrict_signed_hex: "isHexStrict (JStr (signed_hex i))"
  by (simp add: isHexStrict_def signed_hex_def hex_str_hex)

lemma hexToNumber_signed_hex: "hexToNumber (signed_hex i) = Inr (big_to_number i)"
proof (cases "i < 0")
  case True
  have "hexToNumber (signed_hex i) =
      Inr (if - i > MAX_SAFE_INTEGER then JBig i else JNum (NInt i))"
    using True isHexStrict_signed_hex [of i] hex_str_hex [of "nat (- i)"]
    by (simp add: hexToNumber_def signed_hex_def startsWith_def js_BigInt_str_hex MIN_SAFE_INTEGER_def)
  then show ?thesis
    using True by (simp add: big_to_number_def MAX_SAFE_INTEGER_def MIN_SAFE_INTEGER_def)
next
  case False
  then show ?thesis
    using isHexStrict_signed_hex [of i] hex_str_hex [of "nat i"]
    by (simp add: hexToNumber_def signed_hex_def startsWith_def js_BigInt_str_hex
        MIN_SAFE_INTEGER_def big_to_number_def)
qed

text \<open>A number as text and back: an integer outside the safe range comes back as a bigint.\<close>

lemma toNumber_signed_hex:
  "zod_ok L \<Longrightarrow> toNumber L (JStr (signed_hex i)) = Inr (big_to_number i)"
  by (simp add: toNumber_def isHexStrict_signed_hex util_hexToNumber_def validate1_hex
      hexToNumber_signed_hex)

lemma num_value_big_to_number [simp]: "num_value (big_to_number i) = i"
  by (simp add: num_value_def big_to_number_def)

lemma util_numberToHex_big [simp]: "util_numberToHex L (JBig i) False = Inr (signed_hex i)"
  by (simp add: util_numberToHex_def typeof_def numberToHex_def)

lemma value_to_check_int:
  "value_to_check (JNum (NInt i)) = Inr i" "value_to_check (JBig i) = Inr i"
  by (simp_all add: value_to_check_def js_BigInt_def)

lemma isInt_small:
  assumes "\<bar>i\<bar> \<le> MAX_SAFE_INTEGER"
  shows "isInt (JNum (NInt i)) (OptAbi ''int'') = Inr True"
proof -
  have "- (2 ^ 511) \<le> i" "i \<le> 2 ^ 511 - 1"
    using assms by (simp_all add: MAX_SAFE_INTEGER_def)
  then show ?thesis
    using assms by (simp add: isInt_default is_numeric_def typeof_def above_safe_def
        value_to_check_int in_range_def)
qed

lemma toHex_number:
  assumes "zod_ok L"
  shows "toHex L (big_to_number i) False = Inr (signed_hex i)"
proof (cases "MIN_SAFE_INTEGER \<le> i \<and> i \<le> MAX_SAFE_INTEGER")
  case True
  then have "\<bar>i\<bar> \<le> MAX_SAFE_INTEGER" by (auto simp: MIN_SAFE_INTEGER_def MAX_SAFE_INTEGER_def)
  then have "validate1 L ''int'' (JNum (NInt i)) = Inr ()"
    using assms by (simp add: validate1_int isInt_small)
  with True show ?thesis
    by (simp add: toHex_def big_to_number_def util_numberToHex_def numberToHex_def)
next
  case False
  then show ?thesis by (auto simp: toHex_def big_to_number_def)
qed

section \<open>Two's complement\<close>

lemma padLeft_signed_hex:
  "0 \<le> i \<Longrightarrow> util_padLeft L (JStr (signed_hex i)) w ''0'' =
    Inr (''0x'' @ padStart w ''0'' (hex_str (nat i)))"
  using isHexStrict_signed_hex [of i]
  by (simp add: util_padLeft_def val_padLeft_def signed_hex_def startsWith_def)

lemma toTwosComplement_value:
  assumes "zod_ok L" and "isInt v (OptAbi ''int'') = Inr True" and "toNumber L v = Inr (big_to_number i)"
    and "- (2 ^ (4 * w)) < i" and "i < 2 ^ (4 * w)" and "0 < w"
  shows "\<exists>h. toTwosComplement L v w = Inr (''0x'' @ h) \<and> length h = w \<and>
    list_all is_hex_char h \<and> int (digits_val 16 h) = i mod 2 ^ (4 * w)"
proof -
  define m where "m = (if 0 \<le> i then i else i + 2 ^ (w * 4))"
  have m: "0 \<le> m" "m < 2 ^ (w * 4)"
    using assms(4,5) by (simp_all add: m_def mult.commute)
  have "m mod 2 ^ (w * 4) = i mod 2 ^ (w * 4)" by (simp add: m_def)
  with m have mod: "m = i mod 2 ^ (4 * w)" by (simp add: mult.commute)
  let ?h = "padStart w ''0'' (hex_str (nat m))"
  have val: "validate1 L ''int'' v = Inr ()" using assms(1,2) by (simp add: validate1_int)
  have "toTwosComplement L v w = Inr (''0x'' @ ?h)"
  proof (cases "0 \<le> i")
    case True
    then show ?thesis
      using assms(1,3) val by (simp add: toTwosComplement_def toHex_number padLeft_signed_hex m_def)
  next
    case False
    moreover from this have "- i < 2 ^ (w * 4)" using assms(4) by (simp add: mult.commute)
    ultimately show ?thesis
      using assms(1,3) val m(1)
      by (simp add: toTwosComplement_def padLeft_signed_hex m_def Let_def)
  qed
  moreover have "length ?h = w"
  proof -
    have "nat m < 16 ^ w" using m(1,2) by (simp add: nat_less_iff power_mult mult.commute [of w])
    then have "length (hex_str (nat m)) \<le> w" using assms(6) by (intro length_radix_str) auto
    then show ?thesis by (simp add: length_padStart)
  qed
  moreover have "list_all is_hex_char ?h" by (intro padStart_zeros_digits hex_str_hex) simp
  moreover have "int (digits_val 16 ?h) = i mod 2 ^ (4 * w)" using m mod by simp
  ultimately show ?thesis by blast
qed

section \<open>Addresses\<close>

lemma toLowerCase_hex_id: "toLowerCase (''0x'' @ hex_of_bytes bs) = ''0x'' @ hex_of_bytes bs"
  by (simp only: toLowerCase_append toLowerCase_0x hex_of_bytes_lower)

lemma hexToAddress_bytes:
  assumes "zod_ok L" and "length bs \<le> 64"
  shows "hexToAddress L (JStr (''0x'' @ hex_of_bytes bs)) =
    Inr (CHR ''Q'' # hex_of_bytes (replicate (64 - length bs) 0 @ bs))"
proof -
  have "hex_of_bytes (replicate k 0 @ bs) = replicate (2 * k) (CHR ''0'') @ hex_of_bytes bs" for k
    by (induction k) (simp_all add: hex_of_bytes_def byte_hex_def)
  moreover have "validate1 L ''hex'' (JStr (''0x'' @ hex_of_bytes bs)) = Inr ()"
    using assms(1) hex_of_bytes_hex [of bs] by (simp add: validate1_hex isHexStrict_def)
  moreover have "strip_0x_i (toLowerCase (''0x'' @ hex_of_bytes bs)) = hex_of_bytes bs"
    unfolding toLowerCase_hex_id by (simp add: strip_0x_i_def)
  moreover have "length (hex_of_bytes bs) \<le> 128" using assms(2) by simp
  moreover have "2 * (64 - length bs) = 128 - length (hex_of_bytes bs)" by simp
  ultimately show ?thesis
    using assms(2) unfolding hexToAddress_def ADDRESS_HEX_CHARS_def padStart_def pad_text_single
    by (simp add: Let_def del: length_hex_of_bytes)
qed

lemma isAddressString_lower:
  assumes "qrl_address_regex s" and "tl s = toLowerCase (tl s)"
  shows "isAddressString L (JStr s) True"
  using assms by (simp add: isAddressString_def checkAddressCheckSum_def)

lemma lower_q [simp]: "lower_char (CHR ''q'') = CHR ''q''"
  by code_simp

lemma val_addressToHex_ok:
  assumes "isAddressString L (JStr s) True"
  shows "val_addressToHex L (JStr s) = Inr (''0x'' @ toLowerCase (tl s))"
proof -
  have "qrl_address_regex s" using assms by (simp add: isAddressString_def split: if_splits)
  then obtain c b where "s = c # b" "lower_char c = CHR ''q''" by (elim qrl_address_regexE)
  with assms show ?thesis
    by (auto simp: val_addressToHex_def toLowerCase_def)
qed

lemma addressToHex_ok:
  assumes "zod_ok L" and "isAddressString L (JStr s) True"
  shows "addressToHex L (JStr s) = Inr (''0x'' @ toLowerCase (tl s))"
  using assms by (simp add: addressToHex_def validate1_address val_addressToHex_ok)

lemma bytes_address_regex: "length bs = 64 \<Longrightarrow> qrl_address_regex (CHR ''Q'' # hex_of_bytes bs)"
  by (simp add: hex_of_bytes_hex)

text \<open>The address of 64 bytes, its checksum form and the bytes again.\<close>

lemma checksum_address_of_bytes:
  assumes "crypto_ok L" and "length bs = 64"
  obtains c where "toChecksumAddress L (CHR ''Q'' # hex_of_bytes bs) = Inr (CHR ''Q'' # c)"
    and "isAddressString L (JStr (CHR ''Q'' # c)) True" and "toLowerCase c = hex_of_bytes bs"
proof -
  have r: "qrl_address_regex (CHR ''Q'' # hex_of_bytes bs)"
    using assms(2) by (rule bytes_address_regex)
  from toChecksumAddress_ok [OF assms(1) this] obtain c
    where c: "toChecksumAddress L (CHR ''Q'' # hex_of_bytes bs) = Inr (CHR ''Q'' # c)"
      "toLowerCase c = toLowerCase (hex_of_bytes bs)" by auto
  moreover have "isAddressString L (JStr (CHR ''Q'' # c)) True"
    using assms(1) c(1) by (rule isAddressString_checksum)
  ultimately show thesis using that hex_of_bytes_lower [of bs] by simp
qed

lemma addressToHex_checksum:
  assumes "zod_ok L" and "isAddressString L (JStr (CHR ''Q'' # c)) True"
    and "toLowerCase c = hex_of_bytes bs"
  shows "addressToHex L (JStr (CHR ''Q'' # c)) = Inr (''0x'' @ hex_of_bytes bs)"
  using assms by (simp add: addressToHex_ok)

end
