(* ===== verification/Units.thy ===== *)
theory Units
  imports Converters
begin

text \<open>
  The conversions between planck and the other units (\<^verbatim>\<open>fromPlanck\<close> and \<^verbatim>\<open>toPlanck\<close> of
  \<^verbatim>\<open>web3-utils/src/converters.ts\<close>): decimal texts, powers of ten, and what moving the decimal point
  does to the amount.
\<close>

section \<open>Decimal texts\<close>

definition dec_text :: "string \<Rightarrow> bool" where
  "dec_text s = list_all is_dec_char s"

lemma dec_text_append [simp]: "dec_text (xs @ ys) \<longleftrightarrow> dec_text xs \<and> dec_text ys"
  by (simp add: dec_text_def)

lemma dec_text_Cons [simp]: "dec_text (c # s) \<longleftrightarrow> is_dec_char c \<and> dec_text s"
  and dec_text_Nil [simp]: "dec_text []"
  by (simp_all add: dec_text_def)

lemma dec_text_dec_str [simp]: "dec_text (dec_str n)"
  by (simp add: dec_text_def list_all_iff radix_str_digits)

lemma dec_char_code: "is_dec_char c \<Longrightarrow> 48 \<le> char_code c \<and> char_code c \<le> 57"
  by (auto simp: is_digit_of_def digit_val_def Let_def split: if_splits)

lemma dec_char_lower: "is_dec_char c \<Longrightarrow> lower_char c = c"
  using dec_char_code [of c] by (simp add: lower_char_def)

lemma dec_char_simps [simp]:
  "is_dec_char (CHR ''0'')" "\<not> is_dec_char (CHR ''-'')" "\<not> is_dec_char (CHR ''+'')"
  "\<not> is_dec_char (CHR ''.'')" "\<not> is_dec_char (CHR ''x'')" "\<not> is_dec_char (CHR ''o'')"
  "\<not> is_dec_char (CHR ''b'')"
  by (simp_all add: is_digit_of_def digit_val_def char_code_def)

lemma dec_text_no_prefix:
  assumes "dec_text s" and "\<not> is_dec_char c"
  shows "\<not> startsWith (toLowerCase s) [CHR ''0'', c]" "\<not> startsWith s [c]"
proof -
  show "\<not> startsWith (toLowerCase s) [CHR ''0'', c]"
  proof (cases s)
    case (Cons a t)
    with assms show ?thesis
      by (cases t) (auto simp: startsWith_def toLowerCase_def dec_char_lower)
  qed (simp add: startsWith_def toLowerCase_def)
  show "\<not> startsWith s [c]" using assms by (cases s) (auto simp: startsWith_def)
qed

lemma trim_dec_text: "dec_text s \<Longrightarrow> trim s = s"
proof (cases "s = []")
  case False
  assume "dec_text s"
  then have "is_dec_char (hd s)" "is_dec_char (last s)"
    using False by (auto simp: dec_text_def list_all_iff)
  with False show ?thesis by (intro trim_digits) (auto dest: hex_char_not_space)
qed (simp add: trim_def)

lemma js_BigInt_str_dec:
  "dec_text s \<Longrightarrow> js_BigInt_str s = Some (if s = [] then 0 else int (digits_val 10 s))"
  by (simp add: js_BigInt_str_def trim_dec_text dec_text_no_prefix digits_opt_def)
     (simp add: dec_text_def)

lemma js_BigInt_dec:
  "dec_text s \<Longrightarrow> js_BigInt (JStr s) = Inr (int (digits_val 10 s))"
  by (simp add: js_BigInt_def js_BigInt_str_dec digits_val_def)

lemma strip0x_second: "strip0x s = Some h \<Longrightarrow> 1 < length s \<and> lower_char (s ! 1) = CHR ''x''"
  by (auto dest!: strip0x_Some)

lemma decimal_not_hex:
  assumes "decimal_text s"
  shows "\<not> isHexStrict (JStr s)"
proof -
  have chars: "\<forall>c \<in> set s. is_dec_char c \<or> c = CHR ''.''"
    using assms by (simp add: decimal_text_def list_all_iff)
  have dot: "lower_char (CHR ''.'') = CHR ''.''" by code_simp
  have "strip0x s = None"
  proof (rule ccontr)
    assume "strip0x s \<noteq> None"
    then obtain h where "strip0x s = Some h" by blast
    from strip0x_second [OF this] have l: "1 < length s" "lower_char (s ! 1) = CHR ''x''" by auto
    then have "s ! 1 \<in> set s" by simp
    with chars have "is_dec_char (s ! 1) \<or> s ! 1 = CHR ''.''" by blast
    then show False
    proof
      assume d: "is_dec_char (s ! 1)"
      with l(2) have "s ! 1 = CHR ''x''" by (simp add: dec_char_lower)
      with d show False by simp
    next
      assume "s ! 1 = CHR ''.''"
      with l(2) dot show False by simp
    qed
  qed
  moreover have "s = c # t \<Longrightarrow> c \<noteq> CHR ''-''" for c t using chars by auto
  ultimately show ?thesis
    by (auto simp: isHexStrict_def hex_strict_text_def split: list.split)
qed

lemma decimal_text_parts:
  assumes "dec_text i" and "dec_text f" and "i \<noteq> []"
  shows "decimal_text (i @ ''.'' @ f)" "decimal_text i"
proof -
  have "filter (\<lambda>c. c = CHR ''.'') s = []" if "dec_text s" for s
    using that by (auto simp: dec_text_def list_all_iff filter_empty_conv)
  moreover have "list_all (\<lambda>c. is_dec_char c \<or> c = CHR ''.'') s" if "dec_text s" for s
    using that by (auto simp: dec_text_def list_all_iff)
  ultimately show "decimal_text (i @ ''.'' @ f)" "decimal_text i"
    using assms by (simp_all add: decimal_text_def)
qed

lemma isNumber_decimal: "decimal_text s \<Longrightarrow> isNumber (JStr s) = Inr True"
  by (simp add: isNumber_def isInt_default)

lemma find_sub_char:
  "c \<notin> set a \<Longrightarrow> find_sub [c] (a @ c # b) = Some (a, b)"
  by (induction a) (auto simp: startsWith_def)

lemma find_sub_char_None: "c \<notin> set a \<Longrightarrow> find_sub [c] a = None"
  by (induction a) (auto simp: startsWith_def)

lemma split_dec:
  assumes "dec_text i" and "dec_text f"
  shows "split_on ''.'' (i @ ''.'' @ f) = [i, f]" "split_on ''.'' i = [i]"
proof -
  have "CHR ''.'' \<notin> set s" if "dec_text s" for s
    using that by (auto simp: dec_text_def list_all_iff)
  with assms show "split_on ''.'' (i @ ''.'' @ f) = [i, f]" "split_on ''.'' i = [i]"
    by (simp_all add: split_on.simps [of "''.''"] find_sub_char find_sub_char_None)
qed

section \<open>Powers of ten\<close>

lemma dec_str_shift: "0 < n \<Longrightarrow> dec_str (n * 10 ^ k) = dec_str n @ replicate k (CHR ''0'')"
  by (simp add: radix_str_def radix_digits_shift)

lemma dec_str_1: "dec_str 1 = ''1''"
  by (simp add: radix_str_def radix_digits.simps)

lemma denomination_zeros_pow [simp]: "denomination_zeros (10 ^ k) = k"
proof -
  have "int_str 10 (10 ^ k) = dec_str (1 * 10 ^ k)" by (simp add: int_str_def nat_power_eq)
  also have "\<dots> = dec_str 1 @ replicate k (CHR ''0'')" by (rule dec_str_shift) simp
  finally show ?thesis unfolding denomination_zeros_def dec_str_1 by simp
qed

lemma int_str_nat [simp]: "int_str b (int n) = radix_str b n"
  by (simp add: int_str_def)

text \<open>
  \<^verbatim>\<open>toPlanck\<close> of a decimal text with no more fraction digits than the unit has zeros is exact, for
  every amount but zero.
\<close>

lemma toPlanck_decimal:
  assumes "zod_ok L" and "unit_denomination u = Inr (10 ^ k)"
    and "dec_text i" and "dec_text f" and "i \<noteq> []" and "length f \<le> k"
    and "0 < digits_val 10 (i @ f)"
  shows "toPlanck L (JStr (i @ ''.'' @ f)) u =
    Inr (dec_str (digits_val 10 (i @ f) * 10 ^ (k - length f)))"
proof -
  define n where "n = digits_val 10 (i @ f)"
  have t: "decimal_text (i @ ''.'' @ f)" using assms(3-5) by (rule decimal_text_parts)
  have val: "validate1 L ''number'' (JStr (i @ ''.'' @ f)) = Inr ()"
    using assms(1) isNumber_decimal [OF t] by (simp add: validate1_number)
  have utext: "unit_number_text L (JStr (i @ ''.'' @ f)) = Inr (i @ ''.'' @ f)"
    using decimal_not_hex [OF t] by (simp add: unit_number_text_def)
  have "10 ^ k = 10 ^ (k - length f) * (10::nat) ^ length f"
    using assms(6) by (simp flip: power_add)
  then have e: "n * 10 ^ k = n * 10 ^ (k - length f) * 10 ^ length f" by simp
  have "int_str 10 (int n * 10 ^ k) = dec_str (n * 10 ^ k)"
    using int_str_nat [of 10 "n * 10 ^ k"] by simp
  also have "\<dots> = dec_str (n * 10 ^ (k - length f)) @ replicate (length f) (CHR ''0'')"
    unfolding e using assms(7) by (intro dec_str_shift) (simp add: n_def)
  finally have "int_str 10 (int n * 10 ^ k) =
    dec_str (n * 10 ^ (k - length f)) @ replicate (length f) (CHR ''0'')" .
  moreover have "js_BigInt (JStr (i @ f)) = Inr (int n)"
    using assms(3,4) by (simp add: js_BigInt_dec n_def)
  ultimately show ?thesis
    using assms(2,6) val utext split_dec [OF assms(3,4)]
    by (cases "f = []") (simp_all add: toPlanck_def padStart_def slice_but_last_def Let_def n_def)
qed

lemma toPlanck_integer:
  assumes "zod_ok L" and "unit_denomination u = Inr (10 ^ k)" and "dec_text i" and "i \<noteq> []"
  shows "toPlanck L (JStr i) u = Inr (dec_str (digits_val 10 i * 10 ^ k))"
proof -
  have t: "decimal_text i" using decimal_text_parts(2) [OF assms(3,3,4)] .
  have val: "validate1 L ''number'' (JStr i) = Inr ()"
    using assms(1) isNumber_decimal [OF t] by (simp add: validate1_number)
  have utext: "unit_number_text L (JStr i) = Inr i"
    using decimal_not_hex [OF t] by (simp add: unit_number_text_def)
  have "int (digits_val 10 i) * 10 ^ k = int (digits_val 10 i * 10 ^ k)" by simp
  then show ?thesis
    using assms(2,3) val utext split_dec(2) [OF assms(3,3)] int_str_nat [of 10 "digits_val 10 i * 10 ^ k"]
    by (simp add: toPlanck_def js_BigInt_dec Let_def)
qed

section \<open>Moving the decimal point\<close>

lemma trim_zeros_right_split:
  "\<exists>j. s = trim_zeros_right s @ replicate j (CHR ''0'')"
proof -
  let ?z = "takeWhile (\<lambda>c. c = CHR ''0'') (rev s)"
  have "?z = replicate (length ?z) (CHR ''0'')"
    by (intro replicate_eqI) (auto dest: set_takeWhileD)
  moreover have "rev s = ?z @ dropWhile (\<lambda>c. c = CHR ''0'') (rev s)" by simp
  ultimately show ?thesis
    unfolding trim_zeros_right_def by (metis rev_append rev_replicate rev_rev_ident)
qed

text \<open>
  The result of \<^verbatim>\<open>fromPlanck\<close> is a decimal text whose digits are the amount, with as many digits after
  the point as the unit has zeros, less the trailing zeros.
\<close>

lemma shift_point_parts:
  assumes "0 < k" and "dec_text v"
  obtains i f where "shift_point k v = i @ ''.'' @ f \<or> (f = [] \<and> shift_point k v = i)"
    and "dec_text i" and "dec_text f" and "i \<noteq> []" and "length f \<le> k"
    and "digits_val 10 (i @ f) * 10 ^ (k - length f) = digits_val 10 v"
proof -
  define padded where "padded = padStart k ''0'' v"
  define integer where "integer = slice_but_last k padded"
  define raw where "raw = slice_last k padded"
  define f where "f = trim_zeros_right raw"
  obtain j where raw: "raw = f @ replicate j (CHR ''0'')"
    unfolding f_def using trim_zeros_right_split by blast
  have len: "k \<le> length padded" by (simp add: padded_def length_padStart)
  then have "length raw = k" by (simp add: raw_def slice_last_def)
  then have j: "j = k - length f" "length f \<le> k" using raw by auto
  have padded: "padded = integer @ raw"
    by (simp add: integer_def raw_def slice_but_last_def slice_last_def)
  have dec: "dec_text padded"
    using assms(2) padStart_zeros_digits [of 10 v k] by (simp add: padded_def dec_text_def)
  have "digits_val 10 v = digits_val 10 padded" by (simp add: padded_def)
  also have "\<dots> = digits_val 10 (integer @ f) * 10 ^ j"
    by (simp add: padded raw digits_val_append [of 10 "integer @ f" "replicate j (CHR ''0'')", simplified])
  finally have val: "digits_val 10 (integer @ f) * 10 ^ (k - length f) = digits_val 10 v"
    using j by simp
  have sp: "shift_point k v =
      (if integer = [] then ''0.'' @ f else if f = [] then integer else integer @ ''.'' @ f)"
    using assms(1) by (simp add: shift_point_def padded_def integer_def raw_def f_def Let_def)
  have decs: "dec_text integer" "dec_text f"
    using dec by (simp_all add: padded raw)
  show thesis
  proof (cases "integer = []")
    case True
    have "digits_val 10 (''0'' @ f) = digits_val 10 f"
      by (simp add: digits_val_def radix_val_Cons)
    with True show thesis
      using that [of "''0''" f] sp decs j val by simp
  next
    case False
    with that [of integer f] sp decs j val show thesis by simp
  qed
qed

text \<open>From planck to a unit and back: the amount, unless it is zero.\<close>

lemma toPlanck_fromPlanck:
  assumes "zod_ok L" and "unit_denomination u = Inr (10 ^ k)" and "0 < k" and "0 < n"
  shows "\<exists>t. fromPlanck L (JBig (int n)) u = Inr t \<and> toPlanck L (JStr t) u = Inr (dec_str n)"
proof -
  have num: "number_toString L (big_to_number (int n)) = dec_str n"
    by (simp add: number_toString_def big_to_number_def num_text_def MAX_SAFE_INTEGER_def)
  then have from_n: "fromPlanck L (JBig (int n)) u = Inr (shift_point k (dec_str n))"
    using assms(2) by (simp add: fromPlanck_def toNumber_def)
  obtain i f where p: "shift_point k (dec_str n) = i @ ''.'' @ f \<or>
      (f = [] \<and> shift_point k (dec_str n) = i)" "dec_text i" "dec_text f" "i \<noteq> []" "length f \<le> k"
      "digits_val 10 (i @ f) * 10 ^ (k - length f) = digits_val 10 (dec_str n)"
    using shift_point_parts [OF assms(3) dec_text_dec_str] by blast
  have pos: "0 < digits_val 10 (i @ f)" using p(6) assms(4) by (auto intro: gr0I)
  from p(1) have "toPlanck L (JStr (shift_point k (dec_str n))) u = Inr (dec_str n)"
  proof
    assume "shift_point k (dec_str n) = i @ ''.'' @ f"
    with toPlanck_decimal [OF assms(1,2) p(2,3,4,5) pos] p(6) show ?thesis by simp
  next
    assume "f = [] \<and> shift_point k (dec_str n) = i"
    with toPlanck_integer [OF assms(1,2) p(2,4)] p(6) show ?thesis by simp
  qed
  with from_n show ?thesis by blast
qed

end
