(* ===== verification/UtilProps.thy ===== *)
theory UtilProps
  imports Units
begin

text \<open>
  The properties of the validator and of the converters as a whole: which values a type with array
  dimensions accepts, what validation of one value decides, the membership test of bloom filters, and
  the round trips of addresses, numbers and units.
\<close>

section \<open>Nested arrays\<close>

text \<open>
  Nested arrays with the given sizes, innermost first, -1 for any size, whose elements satisfy a
  predicate.
\<close>

definition sized_array :: "int \<Rightarrow> (jsval \<Rightarrow> bool) \<Rightarrow> jsval \<Rightarrow> bool" where
  "sized_array n P v = (case js_elems v of
      None \<Rightarrow> False
    | Some vs \<Rightarrow> (0 \<le> n \<longrightarrow> int (length vs) = n) \<and> list_all P vs)"

fun nested_array :: "int list \<Rightarrow> (jsval \<Rightarrow> bool) \<Rightarrow> jsval \<Rightarrow> bool" where
  "nested_array [] P = P"
| "nested_array (n # ns) P = nested_array ns (sized_array n P)"

definition accepts :: "lib \<Rightarrow> json_schema \<Rightarrow> jsval \<Rightarrow> bool" where
  "accepts L s v \<longleftrightarrow> safeParse L (convertToZod L s) v = Inr []"

lemma accepts_array:
  assumes "zod_ok L"
  shows "accepts L (sch_array (ItemOne s) (if 0 \<le> n then Some n else None)) = sized_array n (accepts L s)"
proof
  fix v
  have acc: "accepts L s = (\<lambda>x. safeParse L (convertToZod L s) x = Inr [])"
    by (simp add: accepts_def fun_eq_iff)
  have "accepts L (sch_array (ItemOne s) (if 0 \<le> n then Some n else None)) v \<longleftrightarrow>
      (\<exists>vs. js_elems v = Some vs \<and> list_all (accepts L s) vs \<and> (0 \<le> n \<longrightarrow> int (length vs) = n))"
    unfolding acc using zod_okD(4) [OF assms]
    by (auto simp: accepts_def sch_array_def nat_le_iff le_nat_iff)
  then show "accepts L (sch_array (ItemOne s) (if 0 \<le> n then Some n else None)) v
      = sized_array n (accepts L s) v"
    by (auto simp: sized_array_def split: option.splits)
qed

lemma accepts_wrap_arrays:
  assumes "zod_ok L"
  shows "accepts L (wrap_arrays ns s) = nested_array ns (accepts L s)"
  by (induction ns s rule: wrap_arrays.induct) (simp_all add: accepts_array [OF assms])

lemma convertToZod_with_id [simp]: "convertToZod L (with_id i s) = convertToZod L s"
  by (cases s) simp

lemma accepts_with_id [simp]: "accepts L (with_id i s) = accepts L s"
  by (simp add: accepts_def fun_eq_iff)

lemma accepts_format:
  "zod_ok L \<Longrightarrow> f \<noteq> [] \<Longrightarrow> accepts L (sch_eth (Some f, r)) v \<longleftrightarrow> format_check L f v = Inr True"
  by (cases "format_check L f v") (auto simp: accepts_def sch_eth_def zod_okD)

lemma convertErrors_nonempty:
  "issues \<noteq> [] \<Longrightarrow> bindR (convertErrors L issues) (\<lambda>errs. Inl (e errs)) \<noteq> Inr x"
  by (cases "convertErrors L issues") auto

lemma validate1_accepts:
  assumes "zod_ok L" and "entry_schema t ''/0/0'' (Inr (items_schema [])) = Inr s"
  shows "validate1 L t v = Inr () \<longleftrightarrow> accepts L s v"
proof -
  have lvl: "level_name ''/0'' 0 = ''/0/0''" by (simp add: level_name_def radix_str_def radix_digits.simps)
  have items: "sch_items (items_schema [s]) \<noteq> Some (ItemList [])"
    by (simp add: items_schema_def sch_array_def)
  have "validate1 L t v = Inr () \<longleftrightarrow> Validator_validate L (items_schema [s]) (JArr [v]) False = Inr None"
    using assms(2) lvl items
    by (auto simp: validate1_def validate_def qrlAbiToJsonSchema_def abiSchemaToJsonSchema_def
        Validator_validate_def bindR_def split: sum.splits if_splits)
  also have "\<dots> \<longleftrightarrow> safeParse L (ZTuple [convertToZod L s]) (JArr [v]) = Inr []"
    using convertErrors_nonempty
    by (cases "safeParse L (ZTuple [convertToZod L s]) (JArr [v])")
       (auto simp: Validator_validate_def bindR_def split: sum.splits)
  also have "\<dots> \<longleftrightarrow> accepts L s v"
    using assms(1) by (simp add: zod_okD(3) accepts_def js_elems_def)
  finally show ?thesis .
qed

text \<open>
  C40: Validating one value against an elementary type with array dimensions succeeds exactly when the value
  is an array nested as the dimensions say, with the leftmost size innermost, every size that is given
  is met, and every element passes the format of the element type.
\<close>

theorem validate_array_type:
  assumes "zod_ok L" and "bt_isArray (parseBaseType t)" and "baseType (parseBaseType t) = Some b"
    and "b \<noteq> ''tuple''" and "convertEthType b False = Inr (Some f, r)" and "f \<noteq> []"
  shows "validate1 L t v = Inr () \<longleftrightarrow>
    nested_array (arraySizes (parseBaseType t)) (\<lambda>x. format_check L f x = Inr True) v"
proof -
  let ?s = "with_id ''/0/0'' (wrap_arrays (arraySizes (parseBaseType t)) (sch_eth (Some f, r)))"
  have "entry_schema t ''/0/0'' (Inr (items_schema [])) = Inr ?s"
    using assms(2-5) by (simp add: entry_schema_def Let_def)
  moreover have "accepts L (sch_eth (Some f, r)) = (\<lambda>x. format_check L f x = Inr True)"
    using assms(1,6) by (simp add: fun_eq_iff accepts_format)
  ultimately show ?thesis
    using assms(1) by (simp add: validate1_accepts accepts_wrap_arrays)
qed

lemma bool_2_sizes: "array_sizes ''bool[2][]'' = [2, - 1]"
  by (simp add: is_digit_of_def digit_val_def char_code_def digits_val_def radix_val_def)

lemma parse_bool_2: "parseBaseType ''bool[2][]'' =
    \<lparr>baseType = Some ''bool'', baseTypeSize = NoSize, arraySizes = [2, - 1], bt_isArray = True\<rparr>"
  by (simp add: parseBaseType_def VALID_QRL_BASE_TYPES_def bool_2_sizes before_bracket_def
      startsWith_def del: array_sizes.simps)

lemma convert_bool: "convertEthType ''bool'' False = Inr (Some ''bool'', True)"
  by (simp add: convertEthType_def extraTypes_def parseBaseType_def VALID_QRL_BASE_TYPES_def
      assertSupportedSize_def size_text_def startsWith_def)

theorem validate_array_type_witness:
  "(validate1 lib_ref ''bool[2][]'' (JArr [JArr [JBool True, JBool False]]) = Inr () \<longleftrightarrow>
    nested_array [2, - 1] (\<lambda>x. format_check lib_ref ''bool'' x = Inr True)
      (JArr [JArr [JBool True, JBool False]])) \<and>
   nested_array [2, - 1] (\<lambda>x. format_check lib_ref ''bool'' x = Inr True)
      (JArr [JArr [JBool True, JBool False]])"
proof
  show "validate1 lib_ref ''bool[2][]'' (JArr [JArr [JBool True, JBool False]]) = Inr () \<longleftrightarrow>
    nested_array [2, - 1] (\<lambda>x. format_check lib_ref ''bool'' x = Inr True)
      (JArr [JArr [JBool True, JBool False]])"
    using validate_array_type [OF lib_ref_zod, of "''bool[2][]''" "''bool''" "''bool''" True]
    by (simp add: parse_bool_2 convert_bool)
  show "nested_array [2, - 1] (\<lambda>x. format_check lib_ref ''bool'' x = Inr True)
      (JArr [JArr [JBool True, JBool False]])"
    by (simp add: sized_array_def js_elems_def format_check_def formats_base isBoolean_def)
qed

section \<open>One value\<close>

text \<open>
  Validating one value against a plain format succeeds where the predicate of the format accepts it,
  throws the validation error that names the value, its place and the format where it refuses, and
  lets an exception of the predicate through.
\<close>

theorem validate_one_value:
  assumes "zod_ok L" and "simple_format t" and "formats L t = Some p"
  shows "validate1 L t v =
    (case p v of Inl e \<Rightarrow> Inl e | Inr ok \<Rightarrow> if ok then Inr () else Inl (refusal L t v))"
  using assms by (rule validate1_format)

theorem validate_one_value_witness:
  "validate1 lib_ref ''string'' (JBool True) = Inl (refusal lib_ref ''string'' (JBool True)) \<and>
   validate1 lib_ref ''string'' (JStr ''a'') = Inr ()"
  using validate_one_value [OF lib_ref_zod, of "''string''" "\<lambda>v. Inr (isString v)"]
  by (simp add: formats_base isString_def typeof_def)
section \<open>Ranges of integers\<close>

text \<open>
  A hexadecimal text is an unsigned integer of \<^verbatim>\<open>w\<close> bits exactly when the number it writes is less than
  \<^verbatim>\<open>2 ** w\<close>, and a signed one exactly when it is less than \<^verbatim>\<open>2 ** (w - 1)\<close>, for every width: no digit
  of a long text is lost in the comparison.
\<close>

theorem hex_integer_ranges:
  assumes "h \<noteq> []" and "list_all is_hex_char h" and "0 < w"
  shows "isUInt (JStr (''0x'' @ h)) (OptBits (int w)) = Inr (digits_val 16 h < 2 ^ w) \<and>
    isInt (JStr (''0x'' @ h)) (OptBits (int w)) = Inr (digits_val 16 h < 2 ^ (w - 1))"
proof -
  have v: "value_to_check (JStr (''0x'' @ h)) = Inr (int (digits_val 16 h))"
    using assms value_to_check_hex [of "CHR ''x''" h] by simp
  have lt: "int (digits_val 16 h) < 2 ^ k \<longleftrightarrow> digits_val 16 h < 2 ^ k" for k
    by (metis of_nat_less_iff of_nat_numeral of_nat_power)
  have ge: "- (2 ^ k) \<le> int (digits_val 16 h)" for k
    by (rule order_trans [of _ 0]) simp_all
  have "isUInt (JStr (''0x'' @ h)) (OptBits (int w)) = Inr (digits_val 16 h < 2 ^ w)"
    using assms v by (subst isUInt_bits [where n = "int (digits_val 16 h)"])
      (simp_all add: is_numeric_def typeof_def lt)
  moreover have "isInt (JStr (''0x'' @ h)) (OptBits (int w)) = Inr (digits_val 16 h < 2 ^ (w - 1))"
    using assms v by (subst isInt_bits [where n = "int (digits_val 16 h)"])
      (simp_all add: is_numeric_def typeof_def above_safe_def lt ge)
  ultimately show ?thesis ..
qed

theorem hex_integer_ranges_witness:
  "isUInt (JStr ''0xff'') (OptBits 8) = Inr True \<and> isInt (JStr ''0xff'') (OptBits 8) = Inr False"
proof -
  have h: "list_all is_hex_char ''ff''" "digits_val 16 ''ff'' = 255" by code_simp+
  show ?thesis using hex_integer_ranges [of "''ff''" 8] h by simp
qed

section \<open>Bloom filters\<close>

text \<open>
  A value is found in a bloom filter exactly when the three bits its hash selects (11 bits of each of the
  first three pairs of bytes) are set in the number the filter's text writes.
\<close>

theorem bloom_membership:
  assumes "crypto_ok L" and "isBloom (JStr bloom)"
  shows "isInBloom L bloom (JBytes bs) =
    Inr (\<forall>p \<in> set (bloom_bits (keccak256 L bs)). bit (bloom_number bloom) p)"
  using assms by (rule isInBloom_bits)

theorem bloom_membership_witness:
  "isInBloom lib_ref (replicate 512 (CHR ''0'')) (JBytes [1]) = Inr False"
proof -
  let ?b = "replicate 512 (CHR ''0'')"
  have not_prefixed: "\<not> startsWith (replicate n (CHR ''0'')) ''0x''" for n
    by (cases n; cases "n - 1") (auto simp: startsWith_def take_Cons')
  then have un: "unprefixed ?b = ?b" by (simp add: unprefixed_def del: replicate.simps)
  have "lower_char (CHR ''0'') = CHR ''0''" by (simp add: lower_char_def char_code_def)
  with un have bloom: "isBloom (JStr ?b)"
    by (simp add: isBloom_def one_case_hex_def list_all_iff is_digit_of_def
        del: replicate.simps)
  have zero: "bloom_number ?b = 0"
    using un by (simp add: bloom_number_def del: replicate.simps)
  have "set (bloom_bits bs) \<noteq> {}" for bs by (simp add: bloom_bits_def)
  then show ?thesis
    using bloom_membership [OF lib_ref_crypto bloom, of "[1]"] zero
    by (auto simp del: replicate.simps)
qed

section \<open>Addresses\<close>

text \<open>
  The checksum of an address is an address the validator accepts with its checksum, differs from the
  address it was computed from in the case of its letters only, and is its own checksum.
\<close>

theorem checksum_address:
  assumes "crypto_ok L" and "toChecksumAddress L s = Inr t"
  shows "isAddressString L (JStr t) True \<and> toChecksumAddress L t = Inr t \<and>
    toLowerCase (tl t) = toLowerCase (tl s)"
proof -
  have "isAddressString L (JStr t) True" using assms by (rule isAddressString_checksum)
  have "qrl_address_regex s"
    using assms(2) by (auto simp: toChecksumAddress_def split: if_splits)
  with assms obtain b where b: "t = CHR ''Q'' # b" "qrl_address_regex t"
      "toLowerCase b = toLowerCase (tl s)" "b = checksum_body L (toLowerCase (tl s))"
    using toChecksumAddress_ok [of L s] by auto
  then have "toChecksumAddress L t = Inr t" by (simp add: toChecksumAddress_def)
  moreover have "toLowerCase (tl t) = toLowerCase (tl s)" using b by simp
  ultimately show ?thesis using \<open>isAddressString L (JStr t) True\<close> by simp
qed

theorem checksum_address_witness:
  "\<exists>t. toChecksumAddress lib_ref (CHR ''Q'' # replicate 128 (CHR ''0'')) = Inr t \<and>
     isAddressString lib_ref (JStr t) True"
proof -
  have "qrl_address_regex (CHR ''Q'' # replicate 128 (CHR ''0''))" by code_simp
  then obtain t where "toChecksumAddress lib_ref (CHR ''Q'' # replicate 128 (CHR ''0'')) = Inr t"
    using toChecksumAddress_ok [OF lib_ref_crypto] by blast
  then show ?thesis using checksum_address [OF lib_ref_crypto] by blast
qed

text \<open>
  The 64 bytes of an address survive the way from their hexadecimal text to the \<^verbatim>\<open>Q\<close> form, to the
  checksummed form and back.
\<close>

theorem address_roundtrip:
  assumes "zod_ok L" and "crypto_ok L" and "length bs = 64"
  shows "\<exists>a t. hexToAddress L (JStr (''0x'' @ hex_of_bytes bs)) = Inr a \<and>
    toChecksumAddress L a = Inr t \<and> addressToHex L (JStr t) = Inr (''0x'' @ hex_of_bytes bs)"
proof -
  obtain c where c: "toChecksumAddress L (CHR ''Q'' # hex_of_bytes bs) = Inr (CHR ''Q'' # c)"
    "isAddressString L (JStr (CHR ''Q'' # c)) True" "toLowerCase c = hex_of_bytes bs"
    using assms(2,3) by (rule checksum_address_of_bytes)
  with assms hexToAddress_bytes [of L bs] addressToHex_checksum [of L c bs] show ?thesis by simp
qed

theorem address_roundtrip_witness:
  "\<exists>a t. hexToAddress lib_ref (JStr (''0x'' @ hex_of_bytes (replicate 64 255))) = Inr a \<and>
    toChecksumAddress lib_ref a = Inr t \<and>
    addressToHex lib_ref (JStr t) = Inr (''0x'' @ hex_of_bytes (replicate 64 255))"
  by (rule address_roundtrip [OF lib_ref_zod lib_ref_crypto]) simp

section \<open>Numbers\<close>

text \<open>
  Every integer, negative ones included, survives \<^verbatim>\<open>numberToHex\<close> and \<^verbatim>\<open>hexToNumber\<close>, and the text in
  between is a strict hexadecimal text.
\<close>

theorem number_hex_roundtrip:
  "\<exists>h. numberToHex L (JBig i) = Inr h \<and> isHexStrict (JStr h) \<and> hexToNumber h = Inr (big_to_number i)"
  by (simp add: numberToHex_def isHexStrict_signed_hex hexToNumber_signed_hex)

text \<open>
  \<^verbatim>\<open>toTwosComplement\<close> of an integer greater than \<^verbatim>\<open>-(2 ** (4 * w))\<close> and less than \<^verbatim>\<open>2 ** (4 * w)\<close> is a
  text of exactly \<^verbatim>\<open>w\<close> hexadecimal digits that writes the integer modulo \<^verbatim>\<open>2 ** (4 * w)\<close>.
\<close>

theorem twos_complement:
  assumes "zod_ok L" and "isInt v (OptAbi ''int'') = Inr True" and "toNumber L v = Inr (big_to_number i)"
    and "- (2 ^ (4 * w)) < i" and "i < 2 ^ (4 * w)" and "0 < w"
  shows "\<exists>h. toTwosComplement L v w = Inr (''0x'' @ h) \<and> length h = w \<and>
    list_all is_hex_char h \<and> int (digits_val 16 h) = i mod 2 ^ (4 * w)"
  using assms by (rule toTwosComplement_value)

theorem twos_complement_witness:
  "\<exists>h. toTwosComplement lib_ref (JNum (NInt (- 1))) 4 = Inr (''0x'' @ h) \<and> length h = 4 \<and>
    list_all is_hex_char h \<and> int (digits_val 16 h) = 65535"
proof -
  have "isInt (JNum (NInt (- 1))) (OptAbi ''int'') = Inr True"
    by (rule isInt_small) (simp add: MAX_SAFE_INTEGER_def)
  moreover have "toNumber lib_ref (JNum (NInt (- 1))) = Inr (big_to_number (- 1))"
    by (simp add: toNumber_def big_to_number_def MIN_SAFE_INTEGER_def MAX_SAFE_INTEGER_def)
  ultimately show ?thesis using twos_complement [OF lib_ref_zod, of _ "- 1" 4] by simp
qed

section \<open>Units\<close>

text \<open>
  An amount in the smallest unit, written in a larger one by \<^verbatim>\<open>fromPlanck\<close> and read back by \<^verbatim>\<open>toPlanck\<close>
  in the same unit, is the same amount: no digit is lost and none invented, for every unit whose size
  is a power of ten greater than one and every positive amount.
\<close>

theorem units_roundtrip:
  assumes "zod_ok L" and "unit_denomination u = Inr (10 ^ k)" and "0 < k" and "0 < n"
  shows "\<exists>t. fromPlanck L (JBig (int n)) u = Inr t \<and> toPlanck L (JStr t) u = Inr (dec_str n)"
  using assms by (rule toPlanck_fromPlanck)

theorem units_roundtrip_witness:
  "\<exists>t. fromPlanck lib_ref (JBig 1234567890123456789) ''quanta'' = Inr t \<and>
     toPlanck lib_ref (JStr t) ''quanta'' = Inr (dec_str 1234567890123456789)"
proof -
  have "unit_denomination ''quanta'' = Inr (10 ^ 18)"
    by (simp add: unit_denomination_def qrlUnitMap_def)
  from units_roundtrip [OF lib_ref_zod this, of 1234567890123456789] show ?thesis by simp
qed

end
