(* ===== verification/AbiCoder.thy ===== *)
theory AbiCoder
  imports Converters
begin

text \<open>
  \<^verbatim>\<open>packages/abi\<close>: the writer and the reader of 64-byte words (\<^verbatim>\<open>coders/abstract-coder.ts\<close>), the coders,
  and the packing and unpacking of lists of values into heads and tails (\<^verbatim>\<open>coders/array.ts\<close>). A writer
  or reader is mutated by its methods, so they are actions over its state.
\<close>

section \<open>Writer\<close>

record writer =
  wr_wordSize :: nat
  wr_data :: "bytes list"
  wr_length :: nat
  wr_padding :: bytes

definition new_writer :: "nat \<Rightarrow> writer" where
  "new_writer ws = (let n = (if ws = 0 then 64 else ws) in
     \<lparr>wr_wordSize = n, wr_data = [], wr_length = 0, wr_padding = replicate n 0\<rparr>)"

definition writer_hex :: "lib \<Rightarrow> writer \<Rightarrow> string" where
  "writer_hex L w = hexConcat L (wr_data w)"

definition writeData :: "bytes \<Rightarrow> (writer, js_error, nat) action" where
  "writeData bs w =
     (Inr (length bs), w\<lparr>wr_data := wr_data w @ [bs], wr_length := wr_length w + length bs\<rparr>)"

definition appendWriter :: "lib \<Rightarrow> writer \<Rightarrow> (writer, js_error, nat) action" where
  "appendWriter L other = writeData (concat_bytes L (wr_data other))"

definition writeBytes :: "lib \<Rightarrow> jsval \<Rightarrow> (writer, js_error, nat) action" where
  "writeBytes L v = bindS (liftS (arrayify L v)) (\<lambda>bs w.
     let paddingOffset = length bs mod wr_wordSize w in
     writeData (if paddingOffset \<noteq> 0
                then concat_bytes L [bs, drop paddingOffset (wr_padding w)] else bs) w)"

definition getValue :: "lib \<Rightarrow> writer \<Rightarrow> jsval \<Rightarrow> js_error + bytes" where
  "getValue L w v =
     bindR (big_from L v) (\<lambda>n.
     bindR (big_arrayify L n) (\<lambda>bs.
       if length bs > wr_wordSize w then Inl (mk_err BUFFER_OVERRUN ''value out-of-bounds'')
       else if length bs mod wr_wordSize w \<noteq> 0
       then Inr (concat_bytes L [drop (length bs mod wr_wordSize w) (wr_padding w), bs])
       else Inr bs))"

definition writeValue :: "lib \<Rightarrow> jsval \<Rightarrow> (writer, js_error, nat) action" where
  "writeValue L v w = bindS (liftS (getValue L w v)) writeData w"

text \<open>
  The closure \<^verbatim>\<open>writeUpdatableValue\<close> returns is the index of the slot it fills; calling it is
  \<^verbatim>\<open>updateValue\<close>.
\<close>

definition writeUpdatableValue :: "writer \<Rightarrow> nat \<times> writer" where
  "writeUpdatableValue w =
     (length (wr_data w),
      w\<lparr>wr_data := wr_data w @ [wr_padding w], wr_length := wr_length w + wr_wordSize w\<rparr>)"

definition updateValue :: "lib \<Rightarrow> nat \<Rightarrow> jsval \<Rightarrow> writer \<Rightarrow> js_error + writer" where
  "updateValue L slot v w =
     bindR (getValue L w v) (\<lambda>bs. Inr (w\<lparr>wr_data := (wr_data w)[slot := bs]\<rparr>))"

section \<open>Reader\<close>

record reader =
  rd_wordSize :: nat
  rd_allowLoose :: bool
  rd_data :: bytes
  rd_coerceFunc :: "(string \<Rightarrow> jsval \<Rightarrow> js_error + jsval) option"
  rd_offset :: nat

definition new_reader ::
  "bytes \<Rightarrow> nat \<Rightarrow> (string \<Rightarrow> jsval \<Rightarrow> js_error + jsval) option \<Rightarrow> bool \<Rightarrow> reader" where
  "new_reader bs ws cf loose =
     \<lparr>rd_wordSize = (if ws = 0 then 64 else ws), rd_allowLoose = loose, rd_data = bs,
      rd_coerceFunc = cf, rd_offset = 0\<rparr>"

text \<open>\<^verbatim>\<open>^u?int([0-9]+)$\<close>: the number of bits in the name of a number type.\<close>

definition int_name_bits :: "string \<Rightarrow> nat option" where
  "int_name_bits name =
     (let t = (if startsWith name ''u'' then tl name else name); ds = drop 3 t in
      if startsWith t ''int'' \<and> ds \<noteq> [] \<and> list_all is_dec_char ds
      then Some (digits_val 10 ds) else None)"

definition default_coerce :: "lib \<Rightarrow> string \<Rightarrow> jsval \<Rightarrow> js_error + jsval" where
  "default_coerce L name v =
     (case int_name_bits name of
        Some n \<Rightarrow>
          if n \<le> 48 then
            (case v of
               JBN i \<Rightarrow> map_sum id (\<lambda>k. JNum (NInt k)) (big_toNumber L i)
             | _ \<Rightarrow> Inl (mk_err (ErrClass ''TypeError'') ''toNumber is not a function''))
          else Inr v
      | None \<Rightarrow> Inr v)"

definition coerce :: "lib \<Rightarrow> string \<Rightarrow> jsval \<Rightarrow> (reader, js_error, jsval) action" where
  "coerce L name v r =
     ((case rd_coerceFunc r of Some f \<Rightarrow> f name v | None \<Rightarrow> default_coerce L name v), r)"

definition alignedLength :: "nat \<Rightarrow> nat \<Rightarrow> nat" where
  "alignedLength ws len = (len + ws - 1) div ws * ws"

definition peekBytes :: "nat \<Rightarrow> bool \<Rightarrow> (reader, js_error, bytes) action" where
  "peekBytes len loose r =
     (let aligned = alignedLength (rd_wordSize r) len in
      if rd_offset r + aligned > length (rd_data r) then
        if rd_allowLoose r \<and> loose \<and> rd_offset r + len \<le> length (rd_data r)
        then (Inr (take len (drop (rd_offset r) (rd_data r))), r)
        else (Inl (mk_err BUFFER_OVERRUN ''data out-of-bounds''), r)
      else (Inr (take aligned (drop (rd_offset r) (rd_data r))), r))"

definition subReader :: "reader \<Rightarrow> nat \<Rightarrow> reader" where
  "subReader r offset =
     new_reader (drop (rd_offset r + offset) (rd_data r)) (rd_wordSize r) (rd_coerceFunc r)
       (rd_allowLoose r)"

definition readBytes :: "nat \<Rightarrow> bool \<Rightarrow> (reader, js_error, bytes) action" where
  "readBytes len loose = bindS (peekBytes len loose) (\<lambda>bs r.
     (Inr (take len bs), r\<lparr>rd_offset := rd_offset r + length bs\<rparr>))"

definition readValue :: "lib \<Rightarrow> (reader, js_error, int) action" where
  "readValue L r = bindS (readBytes (rd_wordSize r) False) (\<lambda>bs. liftS (big_from L (JBytes bs))) r"

text \<open>\<^verbatim>\<open>readValue().toNumber()\<close>; what is read is never negative.\<close>

definition readNumber :: "lib \<Rightarrow> (reader, js_error, nat) action" where
  "readNumber L = bindS (readValue L) (\<lambda>n. liftS (map_sum id nat (big_toNumber L n)))"

section \<open>Coders\<close>

datatype coder =
    NumberCoder nat bool string
  | AddressCoder string
  | BooleanCoder string
  | BytesCoder string
  | FixedBytesCoder nat string
  | StringCoder string
  | NullCoder string
  | ArrayCoder coder int string
  | TupleCoder "coder list" string
  | AnonymousCoder coder

fun coder_name :: "coder \<Rightarrow> string" where
  "coder_name (NumberCoder sz sg _) = (if sg then ''int'' else ''uint'') @ dec_str (sz * 8)"
| "coder_name (AddressCoder _) = ''address''"
| "coder_name (BooleanCoder _) = ''bool''"
| "coder_name (BytesCoder _) = ''bytes''"
| "coder_name (FixedBytesCoder sz _) = ''bytes'' @ dec_str sz"
| "coder_name (StringCoder _) = ''string''"
| "coder_name (NullCoder _) = ''null''"
| "coder_name (ArrayCoder _ _ _) = ''array''"
| "coder_name (TupleCoder _ _) = ''tuple''"
| "coder_name (AnonymousCoder c) = coder_name c"

fun coder_type :: "coder \<Rightarrow> string" where
  "coder_type (NullCoder _) = []"
| "coder_type (ArrayCoder c n _) =
     coder_type c @ ''['' @ (if 0 \<le> n then dec_str (nat n) else []) @ '']''"
| "coder_type (TupleCoder cs _) = ''tuple('' @ join_with '','' (map (\<lambda>c. coder_type c) cs) @ '')''"
| "coder_type (AnonymousCoder c) = coder_type c"
| "coder_type c = coder_name c"

text \<open>The anonymous wrapper has no name; an empty name is as good as none.\<close>

fun localName :: "coder \<Rightarrow> string option" where
  "localName (NumberCoder _ _ nm) = Some nm"
| "localName (AddressCoder nm) = Some nm"
| "localName (BooleanCoder nm) = Some nm"
| "localName (BytesCoder nm) = Some nm"
| "localName (FixedBytesCoder _ nm) = Some nm"
| "localName (StringCoder nm) = Some nm"
| "localName (NullCoder nm) = Some nm"
| "localName (ArrayCoder _ _ nm) = Some nm"
| "localName (TupleCoder _ nm) = Some nm"
| "localName (AnonymousCoder _) = None"

definition name_text :: "coder \<Rightarrow> string" where
  "name_text c = (case localName c of Some nm \<Rightarrow> nm | None \<Rightarrow> [])"

fun dynamic :: "coder \<Rightarrow> bool" where
  "dynamic (BytesCoder _) = True"
| "dynamic (StringCoder _) = True"
| "dynamic (ArrayCoder c n _) = (n = - 1 \<or> dynamic c)"
| "dynamic (TupleCoder cs _) = (\<exists>c \<in> set cs. dynamic c)"
| "dynamic (AnonymousCoder c) = dynamic c"
| "dynamic _ = False"

fun coder_rank :: "coder \<Rightarrow> nat" where
  "coder_rank (ArrayCoder c _ _) = coder_rank c + 2"
| "coder_rank (TupleCoder cs _) = Suc (sum_list (map (\<lambda>c. coder_rank c) cs))"
| "coder_rank (AnonymousCoder c) = Suc (coder_rank c)"
| "coder_rank _ = 0"

lemma coder_rank_mem: "c \<in> set cs \<Longrightarrow> coder_rank c \<le> sum_list (map coder_rank cs)"
  by (simp add: member_le_sum_list)

definition arg_error :: "string \<Rightarrow> js_error" where
  "arg_error m = mk_err INVALID_ARGUMENT m"

lemma ecode_arg_error [simp]: "ecode (arg_error m) = INVALID_ARGUMENT"
  by (simp add: arg_error_def)

section \<open>Packing\<close>

text \<open>
  The values of an object in the order of the coders. The names seen so far are the keys of a plain
  object, so the names every object inherits count as seen.
\<close>

fun named_values :: "string list \<Rightarrow> jsval \<Rightarrow> coder list \<Rightarrow> js_error + jsval list" where
  "named_values seen v [] = Inr []"
| "named_values seen v (c # cs) =
     (let name = name_text c in
      if name = [] then Inl (arg_error ''cannot encode object for signature with missing names'')
      else if name \<in> set seen
      then Inl (arg_error ''cannot encode object for signature with duplicate names'')
      else bindR (named_values (name # seen) v cs) (\<lambda>vs. Inr (js_prop v name # vs)))"

definition pack_values :: "coder list \<Rightarrow> jsval \<Rightarrow> js_error + jsval list" where
  "pack_values cs v =
     bindR
       (case js_elems v of
          Some vs \<Rightarrow> Inr vs
        | None \<Rightarrow>
            if js_truthy v \<and> typeof v = TObject then named_values objectProtoNames v cs
            else Inl (arg_error ''invalid tuple value''))
       (\<lambda>vs. if length cs \<noteq> length vs then Inl (arg_error ''types/value length mismatch'')
             else Inr vs)"

record pack_state =
  staticWriter :: writer
  dynamicWriter :: writer
  updateFuncs :: "(nat \<times> nat) list"

definition pack_step ::
  "(coder \<Rightarrow> jsval \<Rightarrow> (writer, js_error, nat) action) \<Rightarrow> coder \<Rightarrow> jsval \<Rightarrow> pack_state
    \<Rightarrow> js_error + pack_state" where
  "pack_step enc c v p =
     (if dynamic c then
        let dynamicOffset = wr_length (dynamicWriter p) in
        (case enc c v (dynamicWriter p) of
           (Inl e, _) \<Rightarrow> Inl e
         | (Inr _, dw) \<Rightarrow>
             let (slot, sw) = writeUpdatableValue (staticWriter p) in
             Inr (p\<lparr>staticWriter := sw, dynamicWriter := dw,
                    updateFuncs := updateFuncs p @ [(slot, dynamicOffset)]\<rparr>))
      else
        (case enc c v (staticWriter p) of
           (Inl e, _) \<Rightarrow> Inl e
         | (Inr _, sw) \<Rightarrow> Inr (p\<lparr>staticWriter := sw\<rparr>)))"

fun pack_loop ::
  "(coder \<Rightarrow> jsval \<Rightarrow> (writer, js_error, nat) action) \<Rightarrow> coder list \<Rightarrow> jsval list \<Rightarrow> pack_state
    \<Rightarrow> js_error + pack_state" where
  "pack_loop enc (c # cs) (v # vs) p = bindR (pack_step enc c v p) (pack_loop enc cs vs)"
| "pack_loop enc _ _ p = Inr p"

fun backfill :: "lib \<Rightarrow> (nat \<times> nat) list \<Rightarrow> writer \<Rightarrow> js_error + writer" where
  "backfill L [] w = Inr w"
| "backfill L ((slot, dynamicOffset) # us) w =
     bindR (updateValue L slot (JNum (NInt (int (wr_length w + dynamicOffset)))) w) (backfill L us)"

definition pack ::
  "lib \<Rightarrow> (coder \<Rightarrow> jsval \<Rightarrow> (writer, js_error, nat) action) \<Rightarrow> coder list \<Rightarrow> jsval
    \<Rightarrow> (writer, js_error, nat) action" where
  "pack L enc cs v w =
     (let empty = new_writer (wr_wordSize w) in
      case bindR (pack_values cs v) (\<lambda>vs.
             bindR (pack_loop enc cs vs
                \<lparr>staticWriter = empty, dynamicWriter = empty, updateFuncs = []\<rparr>) (\<lambda>p.
             bindR (backfill L (updateFuncs p) (staticWriter p)) (\<lambda>sw. Inr (sw, dynamicWriter p)))) of
        Inl e \<Rightarrow> (Inl e, w)
      | Inr (sw, dw) \<Rightarrow>
          bindS (appendWriter L sw) (\<lambda>n. bindS (appendWriter L dw) (\<lambda>m. returnS (n + m))) w)"

lemma pack_loop_cong:
  assumes "\<And>c v w. c \<in> set cs \<Longrightarrow> enc c v w = enc' c v w"
  shows "pack_loop enc cs vs p = pack_loop enc' cs vs p"
  using assms
proof (induction enc' cs vs p rule: pack_loop.induct)
  case (1 enc' c cs v vs p)
  then have "pack_step enc c v p = pack_step enc' c v p" by (simp add: pack_step_def)
  with 1 show ?case by (auto intro: bindR_cong)
qed auto

lemma pack_cong [fundef_cong]:
  assumes "L = L'" and "cs = cs'" and "v = v'" and "w = w'"
    and "\<And>c v w. c \<in> set cs' \<Longrightarrow> enc c v w = enc' c v w"
  shows "pack L enc cs v w = pack L' enc' cs' v' w'"
  using assms pack_loop_cong [of cs' enc enc'] by (simp add: pack_def)

section \<open>Encoding\<close>

definition max_uint512 :: int where "max_uint512 = 2 ^ 512 - 1"

definition number_word :: "lib \<Rightarrow> nat \<Rightarrow> nat \<Rightarrow> bool \<Rightarrow> int \<Rightarrow> js_error + int" where
  "number_word L ws sz sg v =
     (let maxUintValue = big_mask L max_uint512 (ws * 8);
          bounds = (if sg then big_mask L maxUintValue (sz * 8 - 1)
                    else big_mask L maxUintValue (sz * 8));
          bad = (if sg then v > bounds \<or> v < (bounds + 1) * (- 1) else v < 0 \<or> v > bounds);
          u = big_mask L (big_toTwos L v (sz * 8)) (sz * 8) in
      if bad then Inl (arg_error ''value out-of-bounds'')
      else Inr (if sg then big_toTwos L (big_fromTwos L u (sz * 8)) (8 * ws) else u))"

definition encode_bytes :: "lib \<Rightarrow> jsval \<Rightarrow> (writer, js_error, nat) action" where
  "encode_bytes L v = bindS (liftS (arrayify L v)) (\<lambda>bs.
     bindS (writeValue L (JNum (NInt (int (length bs))))) (\<lambda>n.
     bindS (writeBytes L (JBytes bs)) (\<lambda>m. returnS (n + m))))"

definition string_bytes :: "lib \<Rightarrow> jsval \<Rightarrow> js_error + bytes" where
  "string_bytes L v = (case v of JStr s \<Rightarrow> Inr (utf8ToBytes L s) | _ \<Rightarrow> utf8ToBytes_other L v)"

definition array_count :: "lib \<Rightarrow> int \<Rightarrow> nat \<Rightarrow> (writer, js_error, int) action" where
  "array_count L len n =
     (if len = - 1
      then bindS (writeValue L (JNum (NInt (int n)))) (\<lambda>_. returnS (int n))
      else returnS len)"

definition NumberCoder_encode :: "lib \<Rightarrow> nat \<Rightarrow> bool \<Rightarrow> jsval \<Rightarrow> (writer, js_error, nat) action" where
  [simp]: "NumberCoder_encode L sz sg v w =
     bindS (liftS (bindR (big_from L v) (number_word L (wr_wordSize w) sz sg)))
       (\<lambda>n. writeValue L (JBN n)) w"

definition AddressCoder_encode :: "lib \<Rightarrow> jsval \<Rightarrow> (writer, js_error, nat) action" where
  [simp]: "AddressCoder_encode L v w =
     (case addressToHex L v of
        Inl e \<Rightarrow> (Inl (arg_error (emsg e)), w)
      | Inr hex \<Rightarrow>
          if length hex \<noteq> 130 then (Inl (arg_error ''invalid 64-byte address''), w)
          else writeValue L (JStr hex) w)"

definition BooleanCoder_encode :: "lib \<Rightarrow> jsval \<Rightarrow> (writer, js_error, nat) action" where
  [simp]: "BooleanCoder_encode L v w = writeValue L (JNum (NInt (if js_truthy v then 1 else 0))) w"

definition FixedBytesCoder_encode :: "lib \<Rightarrow> nat \<Rightarrow> jsval \<Rightarrow> (writer, js_error, nat) action" where
  [simp]: "FixedBytesCoder_encode L sz v w =
     bindS (liftS (arrayify L v)) (\<lambda>bs.
       if length bs \<noteq> sz then throwS (arg_error ''incorrect data length'')
       else writeBytes L (JBytes bs)) w"

definition StringCoder_encode :: "lib \<Rightarrow> jsval \<Rightarrow> (writer, js_error, nat) action" where
  [simp]: "StringCoder_encode L v w =
     bindS (liftS (string_bytes L v)) (\<lambda>bs. encode_bytes L (JBytes bs)) w"

definition NullCoder_encode :: "lib \<Rightarrow> jsval \<Rightarrow> (writer, js_error, nat) action" where
  [simp]: "NullCoder_encode L v w =
     (if \<not> isNullish v then (Inl (arg_error ''not null''), w) else writeBytes L (JArr []) w)"

function encode :: "lib \<Rightarrow> coder \<Rightarrow> jsval \<Rightarrow> (writer, js_error, nat) action" where
  "encode L (NumberCoder sz sg nm) v w = NumberCoder_encode L sz sg v w"
| "encode L (AddressCoder nm) v w = AddressCoder_encode L v w"
| "encode L (BooleanCoder nm) v w = BooleanCoder_encode L v w"
| "encode L (BytesCoder nm) v w = encode_bytes L v w"
| "encode L (FixedBytesCoder sz nm) v w = FixedBytesCoder_encode L sz v w"
| "encode L (StringCoder nm) v w = StringCoder_encode L v w"
| "encode L (NullCoder nm) v w = NullCoder_encode L v w"
| "encode L (ArrayCoder c len nm) v w =
     (case js_elems v of
        None \<Rightarrow> (Inl (arg_error ''expected array value''), w)
      | Some vs \<Rightarrow>
          bindS (array_count L len (length vs)) (\<lambda>count.
          bindS (liftS (checkArgumentCount L (length vs) (nat count)
              (''coder array'' @ (if nm \<noteq> [] then '' '' @ nm else [])))) (\<lambda>_.
          pack L (encode L) (replicate (length vs) c) v)) w)"
| "encode L (TupleCoder cs nm) v w = pack L (encode L) cs v w"
| "encode L (AnonymousCoder c) v w = encode L c v w"
  by pat_completeness auto
termination
  by (relation "measure (\<lambda>(L, c, v, w). coder_rank c)") (auto simp: less_Suc_eq_le coder_rank_mem)

section \<open>Unpacking\<close>

definition annotate :: "coder \<Rightarrow> js_error \<Rightarrow> js_error" where
  "annotate c e = e\<lparr>eann := Some (coder_name c, localName c, coder_type c)\<rparr>"

text \<open>
  One value: an error other than a buffer overrun becomes the value, with the coder it belongs to. A
  dynamic value is read through a reader of its own, so only its pointer moves the reader; a static
  one that fails leaves the reader where the failure left it.
\<close>

definition keep_error :: "coder \<Rightarrow> js_error + jsval \<Rightarrow> js_error + jsval" where
  "keep_error c r = (case r of
      Inr v \<Rightarrow> Inr v
    | Inl e \<Rightarrow> if ecode e = BUFFER_OVERRUN then Inl e else Inr (JErr (annotate c e)))"

definition unpack_one ::
  "lib \<Rightarrow> (coder \<Rightarrow> (reader, js_error, jsval) action) \<Rightarrow> reader \<Rightarrow> coder
    \<Rightarrow> (reader, js_error, jsval) action" where
  "unpack_one L dec baseReader c =
     (if dynamic c then
        bindS (readNumber L) (\<lambda>offset r.
          (keep_error c (fst (dec c (subReader baseReader offset))), r))
      else (\<lambda>r. let (res, r') = dec c r in (keep_error c res, r')))"

fun unpack_loop ::
  "lib \<Rightarrow> (coder \<Rightarrow> (reader, js_error, jsval) action) \<Rightarrow> reader \<Rightarrow> coder list
    \<Rightarrow> (reader, js_error, jsval list) action" where
  "unpack_loop L dec baseReader [] r = (Inr [], r)"
| "unpack_loop L dec baseReader (c # cs) r =
     bindS (unpack_one L dec baseReader c) (\<lambda>v.
     bindS (unpack_loop L dec baseReader cs) (\<lambda>vs.
       returnS (if isNullish v then vs else v # vs))) r"

text \<open>
  The named properties of the result: for the names that occur once and are not inherited by every
  object, unless the array has such a property already. Looking at a name whose value is an error
  throws it.
\<close>

definition unique_name :: "coder list \<Rightarrow> string \<Rightarrow> bool" where
  "unique_name cs nm =
     (nm \<noteq> [] \<and> nm \<notin> set objectProtoNames \<and> count_list (map name_text cs) nm = 1)"

definition property_name :: "string \<Rightarrow> string" where
  "property_name nm = (if nm = ''length'' then ''_length'' else nm)"

fun named_props ::
  "coder list \<Rightarrow> jsval list \<Rightarrow> nat \<Rightarrow> coder list \<Rightarrow> (string \<times> jsval) list
    \<Rightarrow> js_error + (string \<times> jsval) list" where
  "named_props all vals i [] ns = Inr ns"
| "named_props all vals i (c # cs) ns =
     (let nm = property_name (name_text c);
          v = (if i < length vals then vals ! i else JUndef) in
      if \<not> unique_name all (name_text c) then named_props all vals (Suc i) cs ns
      else case map_of ns nm of
          Some (JErr e) \<Rightarrow> Inl e
        | old \<Rightarrow>
            if nm \<in> set arrayProtoNames \<or> nm \<in> set (map dec_str [0..<length vals]) \<or>
               (case old of Some u \<Rightarrow> \<not> isNullish u | None \<Rightarrow> False)
            then named_props all vals (Suc i) cs ns
            else named_props all vals (Suc i) cs (AList.update nm v ns))"

definition assemble :: "coder list \<Rightarrow> jsval list \<Rightarrow> js_error + jsval" where
  "assemble cs vals = map_sum id (JResult vals) (named_props cs vals 0 cs [])"

definition unpack ::
  "lib \<Rightarrow> (coder \<Rightarrow> (reader, js_error, jsval) action) \<Rightarrow> coder list
    \<Rightarrow> (reader, js_error, jsval) action" where
  "unpack L dec cs r =
     bindS (unpack_loop L dec (subReader r 0) cs) (\<lambda>vals. liftS (assemble cs vals)) r"

lemma unpack_loop_cong:
  assumes "\<And>c r. c \<in> set cs \<Longrightarrow> dec c r = dec' c r"
  shows "unpack_loop L dec b cs r = unpack_loop L dec' b cs r"
  using assms
proof (induction cs arbitrary: r)
  case (Cons c cs)
  then have "unpack_one L dec b c = unpack_one L dec' b c"
    by (auto simp: unpack_one_def fun_eq_iff intro: bindS_cong)
  with Cons show ?case by (auto intro: bindS_cong)
qed simp

lemma unpack_cong [fundef_cong]:
  assumes "L = L'" and "cs = cs'" and "r = r'"
    and "\<And>c r. c \<in> set cs' \<Longrightarrow> dec c r = dec' c r"
  shows "unpack L dec cs r = unpack L' dec' cs' r'"
  using assms unpack_loop_cong [of cs' dec dec'] by (simp add: unpack_def bindS_def)

section \<open>Decoding\<close>

definition decode_bytes :: "lib \<Rightarrow> (reader, js_error, bytes) action" where
  "decode_bytes L = bindS (readNumber L) (\<lambda>n. readBytes n True)"

definition decode_address :: "lib \<Rightarrow> int \<Rightarrow> js_error + jsval" where
  "decode_address L n =
     bindR (hexZeroPad L (big_toHexString L n) 64) (\<lambda>h.
     bindR (hexToAddress L (JStr h)) (\<lambda>a.
     map_sum id JStr (util_toChecksumAddress L (JStr a))))"

definition read_count :: "lib \<Rightarrow> int \<Rightarrow> (reader, js_error, nat) action" where
  "read_count L len =
     (if len = - 1 then
        bindS (readNumber L) (\<lambda>count r.
          if count * rd_wordSize r > length (rd_data r)
          then (Inl (mk_err BUFFER_OVERRUN ''insufficient data length''), r)
          else (Inr count, r))
      else returnS (nat len))"

definition NumberCoder_decode ::
  "lib \<Rightarrow> nat \<Rightarrow> bool \<Rightarrow> string \<Rightarrow> (reader, js_error, jsval) action" where
  [simp]: "NumberCoder_decode L sz sg nm r =
     bindS (readValue L) (\<lambda>n.
       let u = big_mask L n (sz * 8) in
       coerce L (coder_name (NumberCoder sz sg nm))
         (JBN (if sg then big_fromTwos L u (sz * 8) else u))) r"

definition AddressCoder_decode :: "lib \<Rightarrow> (reader, js_error, jsval) action" where
  [simp]: "AddressCoder_decode L r = bindS (readValue L) (\<lambda>n. liftS (decode_address L n)) r"

definition BooleanCoder_decode :: "lib \<Rightarrow> (reader, js_error, jsval) action" where
  [simp]: "BooleanCoder_decode L r =
     bindS (readValue L) (\<lambda>n. coerce L ''bool'' (JBool (n \<noteq> 0))) r"

definition BytesCoder_decode :: "lib \<Rightarrow> (reader, js_error, jsval) action" where
  [simp]: "BytesCoder_decode L r =
     bindS (decode_bytes L) (\<lambda>bs. coerce L ''bytes'' (JStr (hexlify L bs))) r"

definition FixedBytesCoder_decode :: "lib \<Rightarrow> nat \<Rightarrow> string \<Rightarrow> (reader, js_error, jsval) action" where
  [simp]: "FixedBytesCoder_decode L sz nm r =
     bindS (readBytes sz False) (\<lambda>bs.
       coerce L (coder_name (FixedBytesCoder sz nm)) (JStr (hexlify L bs))) r"

definition StringCoder_decode :: "lib \<Rightarrow> (reader, js_error, jsval) action" where
  [simp]: "StringCoder_decode L r =
     bindS (decode_bytes L) (\<lambda>bs. liftS (map_sum id JStr (bytesToUtf8 L bs))) r"

definition NullCoder_decode :: "lib \<Rightarrow> (reader, js_error, jsval) action" where
  [simp]: "NullCoder_decode L r = bindS (readBytes 0 False) (\<lambda>_. coerce L ''null'' JNull) r"

function decode :: "lib \<Rightarrow> coder \<Rightarrow> (reader, js_error, jsval) action" where
  "decode L (NumberCoder sz sg nm) r = NumberCoder_decode L sz sg nm r"
| "decode L (AddressCoder nm) r = AddressCoder_decode L r"
| "decode L (BooleanCoder nm) r = BooleanCoder_decode L r"
| "decode L (BytesCoder nm) r = BytesCoder_decode L r"
| "decode L (FixedBytesCoder sz nm) r = FixedBytesCoder_decode L sz nm r"
| "decode L (StringCoder nm) r = StringCoder_decode L r"
| "decode L (NullCoder nm) r = NullCoder_decode L r"
| "decode L (ArrayCoder c len nm) r =
     bindS (read_count L len) (\<lambda>count.
     bindS (unpack L (decode L) (replicate count (AnonymousCoder c))) (\<lambda>v. coerce L ''array'' v)) r"
| "decode L (TupleCoder cs nm) r = bindS (unpack L (decode L) cs) (\<lambda>v. coerce L ''tuple'' v) r"
| "decode L (AnonymousCoder c) r = decode L c r"
  by pat_completeness auto
termination
  by (relation "measure (\<lambda>(L, c, r). coder_rank c)") (auto simp: less_Suc_eq_le coder_rank_mem)

section \<open>Default values and errors in results\<close>

fun defaultValue :: "lib \<Rightarrow> coder \<Rightarrow> js_error + jsval" where
  "defaultValue L (NumberCoder _ _ _) = Inr (JNum (NInt 0))"
| "defaultValue L (AddressCoder _) = Inr (JStr (CHR ''Q'' # replicate 128 (CHR ''0'')))"
| "defaultValue L (BooleanCoder _) = Inr (JBool False)"
| "defaultValue L (BytesCoder _) = Inr (JStr ''0x'')"
| "defaultValue L (FixedBytesCoder sz _) = Inr (JStr (hexlify L (replicate sz 0)))"
| "defaultValue L (StringCoder _) = Inr (JStr [])"
| "defaultValue L (NullCoder _) = Inr JNull"
| "defaultValue L (ArrayCoder c len _) =
     bindR (defaultValue L c) (\<lambda>v. Inr (JArr (replicate (nat len) v)))"
| "defaultValue L (TupleCoder cs _) = bindR (mapR (\<lambda>c. defaultValue L c) cs) (assemble cs)"
| "defaultValue L (AnonymousCoder c) = defaultValue L c"

text \<open>\<^verbatim>\<open>checkResultErrors\<close>: the paths at which reading the result throws, in the order of the keys.\<close>

definition index_keys :: "'a list \<Rightarrow> string list" where
  "index_keys vs = map dec_str [0..<length vs]"

lemma size_jsval_elem:
  "v \<in> set vs \<Longrightarrow> size v < Suc (size_list size vs)"
  "(k, v) \<in> set ns \<Longrightarrow> size v < Suc (size_list (size_prod (\<lambda>_. 0) size) ns)"
proof -
  show "v \<in> set vs \<Longrightarrow> size v < Suc (size_list size vs)"
    by (simp add: less_Suc_eq_le size_list_estimation')
  assume "(k, v) \<in> set ns"
  then have "size_prod (\<lambda>_. 0) size (k, v) \<le> size_list (size_prod (\<lambda>_. 0) size) ns"
    by (rule size_list_estimation') simp
  then show "size v < Suc (size_list (size_prod (\<lambda>_. 0) size) ns)" by simp
qed

function result_errors :: "string list \<Rightarrow> jsval \<Rightarrow> (string list \<times> js_error) list" where
  "result_errors path (JResult vs ns) =
     concat (map (\<lambda>(k, v). (case v of JErr e \<Rightarrow> [(path @ [k], e)]
                             | _ \<Rightarrow> result_errors (path @ [k]) v))
       (zip (index_keys vs) vs @ ns))"
| "result_errors path (JArr vs) =
     concat (map (\<lambda>(k, v). result_errors (path @ [k]) v) (zip (index_keys vs) vs))"
| "result_errors path JUndef = []"
| "result_errors path JNull = []"
| "result_errors path (JBool _) = []"
| "result_errors path (JNum _) = []"
| "result_errors path (JBig _) = []"
| "result_errors path (JBN _) = []"
| "result_errors path (JStr _) = []"
| "result_errors path (JBytes _) = []"
| "result_errors path (JObj _) = []"
| "result_errors path (JErr _) = []"
| "result_errors path JFun = []"
  by pat_completeness auto

termination
proof (relation "measure (\<lambda>(path, v). size v)", goal_cases)
  case 1
  then show ?case by simp
qed (auto dest!: set_zip_rightD dest: size_jsval_elem)

definition checkResultErrors :: "jsval \<Rightarrow> (string list \<times> js_error) list" where
  "checkResultErrors v = result_errors [] v"

end
