(* ===== verification/AbiSpec.thy ===== *)
theory AbiSpec
  imports AbiCoder
begin

text \<open>
  The byte string an ABI value stands for, by the head and tail construction, and the value a decoder
  returns for it; the writer of \<^verbatim>\<open>packages/abi\<close> produces exactly this string and the reader recovers
  the value from it wherever it is embedded in a longer one.
\<close>

section \<open>The specification\<close>

fun head_size :: "coder \<Rightarrow> nat" where
  "head_size (FixedBytesCoder sz _) = alignedLength 64 sz"
| "head_size (NullCoder _) = 0"
| "head_size (ArrayCoder c n _) = (if n = - 1 \<or> dynamic c then 64 else nat n * head_size c)"
| "head_size (TupleCoder cs _) =
     (if \<exists>c \<in> set cs. dynamic c then 64 else sum_list (map (\<lambda>c. head_size c) cs))"
| "head_size (AnonymousCoder c) = head_size c"
| "head_size _ = 64"

definition num_of :: "lib \<Rightarrow> jsval \<Rightarrow> int" where
  "num_of L v = (case big_from L v of Inr n \<Rightarrow> n | Inl _ \<Rightarrow> 0)"

definition bytes_of :: "lib \<Rightarrow> jsval \<Rightarrow> bytes" where
  "bytes_of L v = (case arrayify L v of Inr bs \<Rightarrow> bs | Inl _ \<Rightarrow> [])"

definition vals_of :: "coder list \<Rightarrow> jsval \<Rightarrow> jsval list" where
  "vals_of cs v = (case pack_values cs v of Inr vs \<Rightarrow> vs | Inl _ \<Rightarrow> [])"

definition elems_of :: "jsval \<Rightarrow> jsval list" where
  "elems_of v = (case js_elems v of Some vs \<Rightarrow> vs | None \<Rightarrow> [])"

definition str_of :: "jsval \<Rightarrow> string" where
  "str_of v = (case v of JStr s \<Rightarrow> s | _ \<Rightarrow> [])"

definition pad_right :: "bytes \<Rightarrow> bytes" where
  "pad_right bs = bs @ replicate (alignedLength 64 (length bs) - length bs) 0"

definition sized_bytes :: "bytes \<Rightarrow> bytes" where
  "sized_bytes bs = nat_be 64 (length bs) @ pad_right bs"

text \<open>The heads carry the static values and the offsets of the dynamic ones, which follow as tails.\<close>

fun enc_heads :: "(coder \<Rightarrow> jsval \<Rightarrow> bytes) \<Rightarrow> nat \<Rightarrow> coder list \<Rightarrow> jsval list \<Rightarrow> bytes" where
  "enc_heads enc off (c # cs) (v # vs) =
     (if dynamic c then nat_be 64 off @ enc_heads enc (off + length (enc c v)) cs vs
      else enc c v @ enc_heads enc off cs vs)"
| "enc_heads enc off _ _ = []"

fun enc_tails :: "(coder \<Rightarrow> jsval \<Rightarrow> bytes) \<Rightarrow> coder list \<Rightarrow> jsval list \<Rightarrow> bytes" where
  "enc_tails enc (c # cs) (v # vs) = (if dynamic c then enc c v else []) @ enc_tails enc cs vs"
| "enc_tails enc _ _ = []"

definition heads_size :: "coder list \<Rightarrow> nat" where
  "heads_size cs = sum_list (map head_size cs)"

definition enc_tuple :: "(coder \<Rightarrow> jsval \<Rightarrow> bytes) \<Rightarrow> coder list \<Rightarrow> jsval list \<Rightarrow> bytes" where
  "enc_tuple enc cs vs = enc_heads enc (heads_size cs) cs vs @ enc_tails enc cs vs"

lemma enc_heads_cong:
  assumes "\<And>c v. c \<in> set cs \<Longrightarrow> enc c v = enc' c v"
  shows "enc_heads enc off cs vs = enc_heads enc' off cs vs"
  using assms by (induction enc' off cs vs rule: enc_heads.induct) auto

lemma enc_tails_cong:
  assumes "\<And>c v. c \<in> set cs \<Longrightarrow> enc c v = enc' c v"
  shows "enc_tails enc cs vs = enc_tails enc' cs vs"
  using assms by (induction enc' cs vs rule: enc_tails.induct) auto

lemma enc_tuple_cong [fundef_cong]:
  assumes "cs = cs'" and "vs = vs'" and "\<And>c v. c \<in> set cs' \<Longrightarrow> enc c v = enc' c v"
  shows "enc_tuple enc cs vs = enc_tuple enc' cs' vs'"
  using assms enc_heads_cong [of cs' enc enc'] enc_tails_cong [of cs' enc enc']
  by (simp add: enc_tuple_def)

function abi_bytes :: "lib \<Rightarrow> coder \<Rightarrow> jsval \<Rightarrow> bytes" where
  "abi_bytes L (NumberCoder sz sg nm) v = nat_be 64 (nat (num_of L v mod 2 ^ 512))"
| "abi_bytes L (AddressCoder nm) v = nat_be 64 (digits_val 16 (tl (str_of v)))"
| "abi_bytes L (BooleanCoder nm) v = nat_be 64 (if js_truthy v then 1 else 0)"
| "abi_bytes L (BytesCoder nm) v = sized_bytes (bytes_of L v)"
| "abi_bytes L (FixedBytesCoder sz nm) v = pad_right (bytes_of L v)"
| "abi_bytes L (StringCoder nm) v = sized_bytes (utf8_encode (str_of v))"
| "abi_bytes L (NullCoder nm) v = []"
| "abi_bytes L (ArrayCoder c n nm) v =
     (if n = - 1 then nat_be 64 (length (elems_of v)) else []) @
     enc_tuple (abi_bytes L) (replicate (length (elems_of v)) c) (elems_of v)"
| "abi_bytes L (TupleCoder cs nm) v = enc_tuple (abi_bytes L) cs (vals_of cs v)"
| "abi_bytes L (AnonymousCoder c) v = abi_bytes L c v"
  by pat_completeness auto
termination
  by (relation "measure (\<lambda>(L, c, v). coder_rank c)") (auto simp: less_Suc_eq_le coder_rank_mem)

text \<open>The values a coder accepts.\<close>

definition num_in_range :: "nat \<Rightarrow> bool \<Rightarrow> int \<Rightarrow> bool" where
  "num_in_range sz sg n =
     (if sg then - (2 ^ (sz * 8 - 1)) \<le> n \<and> n < 2 ^ (sz * 8 - 1) else 0 \<le> n \<and> n < 2 ^ (sz * 8))"

function abi_ok :: "lib \<Rightarrow> coder \<Rightarrow> jsval \<Rightarrow> bool" where
  "abi_ok L (NumberCoder sz sg nm) v =
     (case big_from L v of Inr n \<Rightarrow> num_in_range sz sg n | Inl _ \<Rightarrow> False)"
| "abi_ok L (AddressCoder nm) v = isAddressString L v True"
| "abi_ok L (BooleanCoder nm) v = True"
| "abi_ok L (BytesCoder nm) v = (case arrayify L v of Inr _ \<Rightarrow> True | Inl _ \<Rightarrow> False)"
| "abi_ok L (FixedBytesCoder sz nm) v =
     (case arrayify L v of Inr bs \<Rightarrow> length bs = sz | Inl _ \<Rightarrow> False)"
| "abi_ok L (StringCoder nm) v = isString v"
| "abi_ok L (NullCoder nm) v = isNullish v"
| "abi_ok L (ArrayCoder c n nm) v =
     (isArray v \<and> (n = - 1 \<or> n = int (length (elems_of v))) \<and>
      list_all (\<lambda>x. abi_ok L c x) (elems_of v))"
| "abi_ok L (TupleCoder cs nm) v =
     (case pack_values cs v of
        Inr vs \<Rightarrow> list_all (\<lambda>(c, x). abi_ok L c x) (zip cs vs)
      | Inl _ \<Rightarrow> False)"
| "abi_ok L (AnonymousCoder c) v = abi_ok L c v"
  by pat_completeness auto
termination
  by (relation "measure (\<lambda>(L, c, v). coder_rank c)")
     (auto simp: less_Suc_eq_le coder_rank_mem dest!: set_zip_leftD)

text \<open>
  The coders a type can give: number and bytes sizes of 1 to 64 bytes, array lengths of -1 (dynamic) or
  more, and no dynamic array of elements that take no room, whose length could not be told from the
  data.
\<close>

fun wf_coder :: "coder \<Rightarrow> bool" where
  "wf_coder (NumberCoder sz _ _) = (0 < sz \<and> sz \<le> 64)"
| "wf_coder (FixedBytesCoder sz _) = (0 < sz \<and> sz \<le> 64)"
| "wf_coder (ArrayCoder c n _) = (wf_coder c \<and> - 1 \<le> n \<and> (n = - 1 \<longrightarrow> 0 < head_size c))"
| "wf_coder (TupleCoder cs _) = list_all (\<lambda>c. wf_coder c) cs"
| "wf_coder (AnonymousCoder c) = wf_coder c"
| "wf_coder _ = True"

text \<open>The decoded value.\<close>

definition assembled :: "coder list \<Rightarrow> jsval list \<Rightarrow> jsval" where
  "assembled cs vals =
     (case assemble cs (filter (\<lambda>v. \<not> isNullish v) vals) of Inr v \<Rightarrow> v | Inl _ \<Rightarrow> JUndef)"

function abi_value :: "lib \<Rightarrow> coder \<Rightarrow> jsval \<Rightarrow> jsval" where
  "abi_value L (NumberCoder sz sg nm) v =
     (if sz \<le> 6 then JNum (NInt (num_of L v)) else JBN (num_of L v))"
| "abi_value L (AddressCoder nm) v =
     JStr (CHR ''Q'' # checksum_body L (toLowerCase (tl (str_of v))))"
| "abi_value L (BooleanCoder nm) v = JBool (js_truthy v)"
| "abi_value L (BytesCoder nm) v = JStr (''0x'' @ hex_of_bytes (bytes_of L v))"
| "abi_value L (FixedBytesCoder sz nm) v = JStr (''0x'' @ hex_of_bytes (bytes_of L v))"
| "abi_value L (StringCoder nm) v = JStr (str_of v)"
| "abi_value L (NullCoder nm) v = JNull"
| "abi_value L (ArrayCoder c n nm) v =
     assembled (replicate (length (elems_of v)) (AnonymousCoder c))
       (map (\<lambda>x. abi_value L c x) (elems_of v))"
| "abi_value L (TupleCoder cs nm) v =
     assembled cs (map (\<lambda>(c, x). abi_value L c x) (zip cs (vals_of cs v)))"
| "abi_value L (AnonymousCoder c) v = abi_value L c v"
  by pat_completeness auto
termination
  by (relation "measure (\<lambda>(L, c, v). coder_rank c)")
     (auto simp: less_Suc_eq_le coder_rank_mem dest!: set_zip_leftD)

section \<open>Sizes\<close>

lemma alignedLength_64: "0 < n \<Longrightarrow> n \<le> 64 \<Longrightarrow> alignedLength 64 n = 64"
proof -
  assume n: "0 < n" "n \<le> 64"
  then have "(n + 64 - 1) div 64 = 1" by (simp add: div_nat_eqI)
  then show ?thesis by (simp add: alignedLength_def)
qed

lemma alignedLength_ge: "n \<le> alignedLength 64 n"
proof -
  have "n + 63 = (n + 63) div 64 * 64 + (n + 63) mod 64" by simp
  moreover have "(n + 63) mod 64 < 64" by simp
  ultimately show ?thesis unfolding alignedLength_def by linarith
qed

lemma alignedLength_dvd: "64 dvd alignedLength 64 n"
  by (simp add: alignedLength_def)

lemma length_pad_right [simp]: "length (pad_right bs) = alignedLength 64 (length bs)"
  by (simp add: pad_right_def alignedLength_ge)

lemma alignedLength_0 [simp]: "alignedLength 64 0 = 0"
  by (simp add: alignedLength_def)

lemma dvd_sum_list: "(\<And>x. x \<in> set xs \<Longrightarrow> d dvd x) \<Longrightarrow> d dvd sum_list (xs :: nat list)"
  by (induction xs) auto

lemma head_size_dvd: "64 dvd head_size c"
  by (induction c rule: head_size.induct) (auto simp: alignedLength_dvd intro!: dvd_sum_list)

lemma head_size_pos: "0 < head_size c \<Longrightarrow> 64 \<le> head_size c"
  using head_size_dvd [of c] by (auto elim!: dvdE)

lemma dynamic_head_size: "dynamic c \<Longrightarrow> head_size c = 64"
  by (induction c rule: head_size.induct) auto

lemma pack_values_length: "pack_values cs v = Inr vs \<Longrightarrow> length vs = length cs"
  by (auto simp: pack_values_def result_simps split: if_splits)

lemma vals_of_length: "pack_values cs v = Inr vs \<Longrightarrow> vals_of cs v = vs \<and> length vs = length cs"
  by (simp add: vals_of_def pack_values_length)

lemma length_enc_heads:
  assumes "length cs = length vs"
    and "\<And>c v. (c, v) \<in> set (zip cs vs) \<Longrightarrow> \<not> dynamic c \<Longrightarrow> length (enc c v) = head_size c"
  shows "length (enc_heads enc off cs vs) = heads_size cs"
  using assms
proof (induction cs vs arbitrary: off rule: list_induct2)
  case Nil
  then show ?case by (simp add: heads_size_def)
next
  case (Cons c cs v vs)
  then have "length (enc_heads enc off' cs vs) = heads_size cs" for off' by simp
  with Cons.prems show ?case by (simp add: heads_size_def dynamic_head_size)
qed

lemma enc_tails_static: "(\<And>c. c \<in> set cs \<Longrightarrow> \<not> dynamic c) \<Longrightarrow> enc_tails enc cs vs = []"
  by (induction enc cs vs rule: enc_tails.induct) auto

lemma heads_size_replicate [simp]: "heads_size (replicate n c) = n * head_size c"
  by (induction n) (simp_all add: heads_size_def)

lemma length_enc_tuple_static:
  assumes "length cs = length vs" and "\<And>c. c \<in> set cs \<Longrightarrow> \<not> dynamic c"
    and "\<And>c v. (c, v) \<in> set (zip cs vs) \<Longrightarrow> length (enc c v) = head_size c"
  shows "length (enc_tuple enc cs vs) = heads_size cs"
  using assms by (simp add: enc_tuple_def enc_tails_static length_enc_heads)

lemma zip_replicate_elem: "(c', x) \<in> set (zip (replicate (length xs) c) xs) \<Longrightarrow> c' = c \<and> x \<in> set xs"
  by (auto dest: set_zip_leftD set_zip_rightD)

lemma elems_of_array: "isArray v \<Longrightarrow> js_elems v = Some (elems_of v)"
  by (auto simp: isArray_def js_elems_def elems_of_def split: jsval.splits)

lemma length_abi_bytes_static:
  "wf_coder c \<Longrightarrow> abi_ok L c v \<Longrightarrow> \<not> dynamic c \<Longrightarrow> length (abi_bytes L c v) = head_size c"
proof (induction L c v rule: abi_bytes.induct)
  case (5 L sz nm v)
  then show ?case by (auto simp: bytes_of_def split: sum.splits)
next
  case (8 L c n nm v)
  then have n: "n = int (length (elems_of v))" by auto
  have elem: "length (abi_bytes L c x) = head_size c" if "x \<in> set (elems_of v)" for x
  proof -
    have "c \<in> set (replicate (length (elems_of v)) c)" using that by (cases "elems_of v") auto
    with 8 that show ?thesis by (simp add: list_all_iff)
  qed
  have "length (enc_tuple (abi_bytes L) (replicate (length (elems_of v)) c) (elems_of v))
      = heads_size (replicate (length (elems_of v)) c)"
    using 8(4) by (intro length_enc_tuple_static) (auto simp: elem dest!: zip_replicate_elem)
  with 8(4) n show ?case by simp
next
  case (9 L cs nm v)
  then obtain vs where vs: "pack_values cs v = Inr vs" "list_all (\<lambda>(c, x). abi_ok L c x) (zip cs vs)"
    by (auto split: sum.splits)
  have "length (abi_bytes L c x) = head_size c" if "(c, x) \<in> set (zip cs vs)" for c x
    using 9 vs(2) that set_zip_leftD [OF that] by (auto simp: list_all_iff)
  then have "length (enc_tuple (abi_bytes L) cs vs) = heads_size cs"
    using 9(4) vs by (intro length_enc_tuple_static) (auto simp: pack_values_length)
  with 9(4) vs show ?case by (simp add: vals_of_length heads_size_def)
qed auto

end
