(* ===== verification/AbiEncode.thy ===== *)
theory AbiEncode
  imports AbiSpec
begin

text \<open>
  The encoder implements the specification: on every value a coder accepts, \<^verbatim>\<open>encode\<close> appends the bytes
  \<^verbatim>\<open>AbiSpec\<close> gives for it, whatever the writer held before. (The number it returns is not always the
  number of bytes: the array coder leaves out the word of its length. Nothing uses it.)
\<close>

section \<open>What a writing action does\<close>

definition writer_ok :: "writer \<Rightarrow> bool" where
  "writer_ok w \<longleftrightarrow> wr_wordSize w = 64 \<and> wr_padding w = replicate 64 0 \<and>
     wr_length w = length (concat (wr_data w))"

definition extended :: "writer \<Rightarrow> bytes list \<Rightarrow> writer" where
  "extended w X = w\<lparr>wr_data := wr_data w @ X, wr_length := wr_length w + length (concat X)\<rparr>"

definition writes :: "(writer, js_error, nat) action \<Rightarrow> bytes \<Rightarrow> bool" where
  "writes m bs \<longleftrightarrow>
     (\<forall>w. writer_ok w \<longrightarrow> (\<exists>X k. concat X = bs \<and> m w = (Inr k, extended w X)))"

lemma extended_ok [simp]: "writer_ok w \<Longrightarrow> writer_ok (extended w X)"
  by (simp add: writer_ok_def extended_def)

lemma extended_sel [simp]:
  "wr_data (extended w X) = wr_data w @ X"
  "wr_length (extended w X) = wr_length w + length (concat X)"
  "wr_wordSize (extended w X) = wr_wordSize w"
  by (simp_all add: extended_def)

lemma extended_extended: "extended (extended w X) Y = extended w (X @ Y)"
  by (simp add: extended_def)

lemma new_writer_ok: "writer_ok (new_writer 64)"
  by (simp add: writer_ok_def new_writer_def)

lemma writesD:
  assumes "writes m bs" and "writer_ok w"
  obtains X k where "concat X = bs" and "m w = (Inr k, extended w X)"
  using assms unfolding writes_def by blast

lemma bindS_lift_Inr [simp]: "bindS (liftS (Inr x)) f = f x" "bindS (returnS x) f = f x"
  by (simp_all add: bindS_def fun_eq_iff)

lemma writes_seq:
  assumes "writes m xs" and "writes k ys"
  shows "writes (bindS m (\<lambda>n. bindS k (\<lambda>j. returnS (n + j)))) (xs @ ys)"
  unfolding writes_def
proof (intro allI impI)
  fix w
  assume w: "writer_ok w"
  obtain X i where X: "concat X = xs" "m w = (Inr i, extended w X)"
    using assms(1) w by (rule writesD)
  obtain Y j where Y: "concat Y = ys" "k (extended w X) = (Inr j, extended (extended w X) Y)"
    using assms(2) extended_ok [OF w] by (rule writesD)
  show "\<exists>Z i. concat Z = xs @ ys \<and>
      bindS m (\<lambda>n. bindS k (\<lambda>j. returnS (n + j))) w = (Inr i, extended w Z)"
    using X Y by (intro exI [of _ "X @ Y"]) (simp add: bindS_def extended_extended)
qed

lemma writes_then:
  assumes "writes m xs" and "writes k ys"
  shows "writes (bindS m (\<lambda>_. k)) (xs @ ys)"
  unfolding writes_def
proof (intro allI impI)
  fix w
  assume w: "writer_ok w"
  obtain X i where X: "concat X = xs" "m w = (Inr i, extended w X)"
    using assms(1) w by (rule writesD)
  obtain Y j where Y: "concat Y = ys" "k (extended w X) = (Inr j, extended (extended w X) Y)"
    using assms(2) extended_ok [OF w] by (rule writesD)
  show "\<exists>Z i. concat Z = xs @ ys \<and> bindS m (\<lambda>_. k) w = (Inr i, extended w Z)"
    using X Y by (intro exI [of _ "X @ Y"]) (simp add: bindS_def extended_extended)
qed

lemma bindS_return: "bindS (bindS m (\<lambda>_. returnS x)) f = bindS m (\<lambda>_. f x)"
  by (auto simp: bindS_def fun_eq_iff split: prod.splits sum.splits)

lemma writeData_writes: "writes (writeData bs) bs"
  unfolding writes_def writeData_def extended_def
  by (intro allI impI exI [of _ "[bs]"] exI [of _ "length bs"]) simp

section \<open>Words and byte strings\<close>

lemma nat_bytes_nonempty [simp]: "nat_bytes n \<noteq> []"
  by (simp add: nat_bytes_def)

lemma getValue_word:
  assumes "bignum_ok L" and "ethers_bytes_ok L"
    and "wr_wordSize w = 64" and "wr_padding w = replicate 64 0"
    and "big_from L v = Inr (int n)" and "n < 2 ^ 512"
  shows "getValue L w v = Inr (nat_be 64 n)"
proof -
  let ?bs = "nat_bytes n"
  have "n < 256 ^ 64" using assms(6) by simp
  then have len: "length ?bs \<le> 64" by (rule nat_bytes_length) simp
  have pad: "replicate (64 - length ?bs) 0 @ ?bs = nat_be 64 n"
    using pad_left_nat_be [OF len] by simp
  show ?thesis
  proof (cases "length ?bs = 64")
    case True
    with pad assms(1,3-5) show ?thesis by (simp add: getValue_def bignum_okD)
  next
    case False
    moreover have "0 < length ?bs" by simp
    ultimately have "length ?bs mod 64 = length ?bs" "length ?bs \<noteq> 0" using len by simp_all
    with pad assms(1-5) len show ?thesis
      by (simp add: getValue_def bignum_okD ethers_bytes_okD)
  qed
qed

lemma writeValue_writes:
  assumes "bignum_ok L" and "ethers_bytes_ok L" and "big_from L v = Inr (int n)" and "n < 2 ^ 512"
  shows "writes (writeValue L v) (nat_be 64 n)"
  using writeData_writes [of "nat_be 64 n"] getValue_word [OF assms(1,2) _ _ assms(3,4)]
  by (simp add: writes_def writeValue_def writer_ok_def)

lemma writeNumber_writes:
  assumes "bignum_ok L" and "ethers_bytes_ok L" and "int n < MAX_SAFE_INTEGER"
  shows "writes (writeValue L (JNum (NInt (int n)))) (nat_be 64 n)"
proof -
  have "n < 2 ^ 512" using assms(3) by (simp add: MAX_SAFE_INTEGER_def)
  moreover have "\<bar>int n\<bar> < MAX_SAFE_INTEGER" using assms(3) by simp
  ultimately show ?thesis using assms(1,2) by (intro writeValue_writes) (simp_all add: bignum_okD)
qed

lemma pad_amount: "n mod 64 \<noteq> 0 \<Longrightarrow> alignedLength 64 n - n = 64 - n mod 64"
  "n mod 64 = 0 \<Longrightarrow> alignedLength 64 n = n"
proof -
  define q r where "q = n div 64" and "r = n mod 64"
  have n: "n = 64 * q + r" and r: "r < 64" by (simp_all add: q_def r_def)
  have "n + 64 - 1 = (r + 63) + q * 64" using n by linarith
  moreover have "((r + 63) + q * 64) div 64 = q + (r + 63) div 64" by (rule div_mult_self1) simp
  ultimately have al: "alignedLength 64 n = (q + (r + 63) div 64) * 64"
    by (simp only: alignedLength_def)
  {
    assume "n mod 64 \<noteq> 0"
    then have "(r + 63) div 64 = 1" using r by (intro div_nat_eqI) (simp_all add: r_def)
    then have "alignedLength 64 n = 64 * q + 64" using al by simp
    with n have "alignedLength 64 n - n = 64 - r" by simp
    then show "alignedLength 64 n - n = 64 - n mod 64" by (simp only: r_def)
  next
    assume "n mod 64 = 0"
    then have "r = 0" by (simp only: r_def)
    with al n show "alignedLength 64 n = n" by simp
  }
qed

lemma writeBytes_writes:
  assumes "ethers_bytes_ok L" and "arrayify L v = Inr bs"
  shows "writes (writeBytes L v) (pad_right bs)"
proof -
  have "writeBytes L v w = writeData (pad_right bs) w" if "writer_ok w" for w
    using assms that pad_amount [of "length bs"]
    by (cases "length bs mod 64 = 0")
       (simp_all add: writeBytes_def ethers_bytes_okD writer_ok_def pad_right_def)
  then show ?thesis using writeData_writes [of "pad_right bs"] by (simp add: writes_def)
qed

lemma encode_bytes_writes:
  assumes "bignum_ok L" and "ethers_bytes_ok L" and "arrayify L v = Inr bs"
    and "int (length bs) < MAX_SAFE_INTEGER"
  shows "writes (encode_bytes L v) (sized_bytes bs)"
  using writes_seq [OF writeNumber_writes [OF assms(1,2,4)]
      writeBytes_writes [OF assms(2) ethers_bytes_okD(1) [OF assms(2), of bs]]] assms(3)
  by (simp add: encode_bytes_def sized_bytes_def)

section \<open>Offsets\<close>

text \<open>Filling slots of a chunk list with the words of a base plus their offsets.\<close>

definition fill :: "(nat \<times> nat) list \<Rightarrow> nat \<Rightarrow> bytes list \<Rightarrow> bytes list" where
  "fill us base ds = fold (\<lambda>(slot, off) ds. ds[slot := nat_be 64 (base + off)]) us ds"

lemma fill_Nil [simp]: "fill [] base ds = ds"
  by (simp add: fill_def)

lemma fill_Cons [simp]:
  "fill ((slot, off) # us) base ds = fill us base (ds[slot := nat_be 64 (base + off)])"
  by (simp add: fill_def)

lemma backfill_fill:
  assumes "bignum_ok L" and "ethers_bytes_ok L" and "wr_wordSize w = 64"
    and "wr_padding w = replicate 64 0"
    and "\<forall>(slot, off) \<in> set us. int (wr_length w + off) < MAX_SAFE_INTEGER"
  shows "backfill L us w = Inr (w\<lparr>wr_data := fill us (wr_length w) (wr_data w)\<rparr>)"
  using assms(3-5)
proof (induction us arbitrary: w)
  case Nil
  then show ?case by simp
next
  case (Cons u us)
  obtain slot off where u: "u = (slot, off)" by (cases u)
  have safe: "int (wr_length w + off) < MAX_SAFE_INTEGER" using Cons.prems(3) u by auto
  then have "wr_length w + off < 2 ^ 512" by (simp add: MAX_SAFE_INTEGER_def)
  then have "getValue L w (JNum (NInt (int (wr_length w + off)))) =
      Inr (nat_be 64 (wr_length w + off))"
    using Cons.prems(1,2) safe assms(1,2)
    by (simp add: getValue_word [OF assms(1,2)] bignum_okD)
  then have "updateValue L slot (JNum (NInt (int (wr_length w + off)))) w =
      Inr (w\<lparr>wr_data := (wr_data w)[slot := nat_be 64 (wr_length w + off)]\<rparr>)"
    by (simp add: updateValue_def)
  moreover have "backfill L us (w\<lparr>wr_data := (wr_data w)[slot := nat_be 64 (wr_length w + off)]\<rparr>) =
      Inr (w\<lparr>wr_data := fill us (wr_length w) ((wr_data w)[slot := nat_be 64 (wr_length w + off)])\<rparr>)"
    using Cons.IH [of "w\<lparr>wr_data := (wr_data w)[slot := nat_be 64 (wr_length w + off)]\<rparr>"]
      Cons.prems u by simp
  ultimately show ?case by (simp add: u)
qed

lemma length_enc_heads_off:
  "length (enc_heads e off cs vs) = length (enc_heads e off' cs vs)"
proof -
  have "length (enc_heads e o' cs vs) =
      sum_list (map (\<lambda>(c, v). if dynamic c then 64 else length (e c v)) (zip cs vs))" for o'
    by (induction e o' cs vs rule: enc_heads.induct) auto
  then show ?thesis by simp
qed

text \<open>
  One pass over the values: the chunks and slots the loop adds, and what they become once the slots are
  filled in.
\<close>

lemma pack_loop_writes:
  assumes "length cs = length vs"
    and "\<And>c v. (c, v) \<in> set (zip cs vs) \<Longrightarrow> writes (enc c v) (e c v)"
    and "writer_ok sw" and "writer_ok dw"
  shows "\<exists>D U T. pack_loop enc cs vs \<lparr>staticWriter = sw, dynamicWriter = dw, updateFuncs = us\<rparr> =
      Inr \<lparr>staticWriter = extended sw D, dynamicWriter = extended dw T, updateFuncs = us @ U\<rparr> \<and>
    concat T = enc_tails e cs vs \<and>
    (\<forall>(slot, off) \<in> set U. off \<le> wr_length dw + length (enc_tails e cs vs)) \<and>
    (\<forall>base ds. length ds = length (wr_data sw) \<longrightarrow>
      (\<exists>E. fill U base (ds @ D) = ds @ E \<and> concat E = enc_heads e (base + wr_length dw) cs vs)) \<and>
    length (concat D) = length (enc_heads e 0 cs vs)"
  using assms
proof (induction cs vs arbitrary: sw dw us rule: list_induct2)
  case Nil
  have "extended w [] = w" for w by (simp add: extended_def)
  then show ?case by (intro exI [of _ "[]"]) simp
next
  case (Cons c cs v vs)
  have w: "writes (enc c v) (e c v)"
    and ws: "\<And>c v. (c, v) \<in> set (zip cs vs) \<Longrightarrow> writes (enc c v) (e c v)"
    using Cons.prems(1) by auto
  have len: "length (enc_heads e off cs vs) = length (enc_heads e 0 cs vs)" for off
    by (rule length_enc_heads_off)
  show ?case
  proof (cases "dynamic c")
    case True
    obtain X k where X: "concat X = e c v" "enc c v dw = (Inr k, extended dw X)"
      using w Cons.prems(3) by (rule writesD)
    define sw1 where "sw1 = extended sw [replicate 64 0]"
    have upd: "writeUpdatableValue sw = (length (wr_data sw), sw1)"
      using Cons.prems(2) by (simp add: writeUpdatableValue_def sw1_def extended_def writer_ok_def)
    have ok: "writer_ok sw1" "writer_ok (extended dw X)"
      using Cons.prems by (simp_all add: sw1_def)
    obtain D U T where IH:
      "pack_loop enc cs vs \<lparr>staticWriter = sw1, dynamicWriter = extended dw X,
          updateFuncs = us @ [(length (wr_data sw), wr_length dw)]\<rparr> =
        Inr \<lparr>staticWriter = extended sw1 D, dynamicWriter = extended (extended dw X) T,
             updateFuncs = (us @ [(length (wr_data sw), wr_length dw)]) @ U\<rparr>"
      "concat T = enc_tails e cs vs"
      "\<forall>(slot, off) \<in> set U. off \<le> wr_length (extended dw X) + length (enc_tails e cs vs)"
      "\<And>base ds. length ds = length (wr_data sw1) \<Longrightarrow>
        \<exists>E. fill U base (ds @ D) = ds @ E \<and>
            concat E = enc_heads e (base + wr_length (extended dw X)) cs vs"
      "length (concat D) = length (enc_heads e 0 cs vs)"
      using Cons.IH [OF ws ok, of "us @ [(length (wr_data sw), wr_length dw)]"] by blast
    let ?D = "replicate 64 0 # D" and ?U = "(length (wr_data sw), wr_length dw) # U" and ?T = "X @ T"
    have "pack_loop enc (c # cs) (v # vs) \<lparr>staticWriter = sw, dynamicWriter = dw, updateFuncs = us\<rparr> =
      Inr \<lparr>staticWriter = extended sw ?D, dynamicWriter = extended dw ?T, updateFuncs = us @ ?U\<rparr>"
      using True X(2) upd IH(1) by (simp add: pack_step_def sw1_def extended_extended)
    moreover have "concat ?T = enc_tails e (c # cs) (v # vs)" using True X(1) IH(2) by simp
    moreover have "\<forall>(slot, off) \<in> set ?U. off \<le> wr_length dw + length (enc_tails e (c # cs) (v # vs))"
      using True X(1) IH(3) by auto
    moreover have "\<exists>E. fill ?U base (ds @ ?D) = ds @ E \<and>
        concat E = enc_heads e (base + wr_length dw) (c # cs) (v # vs)"
      if "length ds = length (wr_data sw)" for base ds
    proof -
      let ?w = "nat_be 64 (base + wr_length dw) :: bytes"
      have "(ds @ ?D)[length (wr_data sw) := ?w] = (ds @ [?w]) @ D"
        using that by (simp add: list_update_append)
      moreover have "length (ds @ [?w]) = length (wr_data sw1)" using that by (simp add: sw1_def)
      ultimately show ?thesis
        using IH(4) [of "ds @ [?w]" base] True X(1) by (fastforce simp: add.assoc)
    qed
    moreover have "length (concat ?D) = length (enc_heads e 0 (c # cs) (v # vs))"
      using True IH(5) len [of "length (e c v)"] by simp
    ultimately show ?thesis by blast
  next
    case False
    obtain X k where X: "concat X = e c v" "enc c v sw = (Inr k, extended sw X)"
      using w Cons.prems(2) by (rule writesD)
    have ok: "writer_ok (extended sw X)" using Cons.prems by simp
    obtain D U T where IH:
      "pack_loop enc cs vs \<lparr>staticWriter = extended sw X, dynamicWriter = dw, updateFuncs = us\<rparr> =
        Inr \<lparr>staticWriter = extended (extended sw X) D, dynamicWriter = extended dw T,
             updateFuncs = us @ U\<rparr>"
      "concat T = enc_tails e cs vs"
      "\<forall>(slot, off) \<in> set U. off \<le> wr_length dw + length (enc_tails e cs vs)"
      "\<And>base ds. length ds = length (wr_data (extended sw X)) \<Longrightarrow>
        \<exists>E. fill U base (ds @ D) = ds @ E \<and> concat E = enc_heads e (base + wr_length dw) cs vs"
      "length (concat D) = length (enc_heads e 0 cs vs)"
      using Cons.IH [OF ws ok Cons.prems(3), of us] by blast
    let ?D = "X @ D"
    have "pack_loop enc (c # cs) (v # vs) \<lparr>staticWriter = sw, dynamicWriter = dw, updateFuncs = us\<rparr> =
      Inr \<lparr>staticWriter = extended sw ?D, dynamicWriter = extended dw T, updateFuncs = us @ U\<rparr>"
      using False X(2) IH(1) by (simp add: pack_step_def extended_extended)
    moreover have "concat T = enc_tails e (c # cs) (v # vs)" using False IH(2) by simp
    moreover have "\<forall>(slot, off) \<in> set U. off \<le> wr_length dw + length (enc_tails e (c # cs) (v # vs))"
      using False IH(3) by simp
    moreover have "\<exists>E. fill U base (ds @ ?D) = ds @ E \<and>
        concat E = enc_heads e (base + wr_length dw) (c # cs) (v # vs)"
      if "length ds = length (wr_data sw)" for base ds
      using IH(4) [of "ds @ X" base] that False X(1) by fastforce
    moreover have "length (concat ?D) = length (enc_heads e 0 (c # cs) (v # vs))"
      using False IH(5) X(1) by simp
    ultimately show ?thesis by blast
  qed
qed

section \<open>Packing and encoding\<close>

lemma pack_writes:
  assumes "bignum_ok L" and "ethers_bytes_ok L" and "pack_values cs v = Inr vs"
    and "\<And>c x. (c, x) \<in> set (zip cs vs) \<Longrightarrow> writes (enc c x) (e c x)"
    and "length (enc_heads e 0 cs vs) = heads_size cs"
    and "int (length (enc_tuple e cs vs)) < MAX_SAFE_INTEGER"
  shows "writes (pack L enc cs v) (enc_tuple e cs vs)"
  unfolding writes_def
proof (intro allI impI)
  fix w
  assume w: "writer_ok w"
  let ?nw = "new_writer 64"
  have nw: "writer_ok ?nw" "wr_data ?nw = []" "wr_length ?nw = 0"
    by (simp_all add: new_writer_ok) (simp_all add: new_writer_def)
  have len: "length cs = length vs" using assms(3) by (simp add: pack_values_length)
  obtain D U T where loop:
    "pack_loop enc cs vs \<lparr>staticWriter = ?nw, dynamicWriter = ?nw, updateFuncs = []\<rparr> =
      Inr \<lparr>staticWriter = extended ?nw D, dynamicWriter = extended ?nw T, updateFuncs = U\<rparr>"
    "concat T = enc_tails e cs vs"
    "\<forall>(slot, off) \<in> set U. off \<le> length (enc_tails e cs vs)"
    "\<And>base ds. length ds = 0 \<Longrightarrow>
      \<exists>E. fill U base (ds @ D) = ds @ E \<and> concat E = enc_heads e base cs vs"
    "length (concat D) = length (enc_heads e 0 cs vs)"
    using pack_loop_writes [where enc = enc and e = e and us = "[]", OF len assms(4) nw(1) nw(1)]
      nw(2,3) by auto
  let ?sw = "extended ?nw D"
  have sw: "wr_wordSize ?sw = 64" "wr_padding ?sw = replicate 64 0"
      "wr_length ?sw = heads_size cs" "wr_data ?sw = D"
    using nw loop(5) assms(5) by (simp_all add: extended_def writer_ok_def)
  have lens: "length (enc_heads e off cs vs) = heads_size cs" for off
    using length_enc_heads_off [of e off cs vs 0] assms(5) by simp
  have "\<forall>(slot, off) \<in> set U. int (wr_length ?sw + off) < MAX_SAFE_INTEGER"
    using loop(3) assms(6) sw(3) by (auto simp: enc_tuple_def lens)
  then have bf: "backfill L U ?sw = Inr (?sw\<lparr>wr_data := fill U (heads_size cs) D\<rparr>)"
    using backfill_fill [OF assms(1,2) sw(1,2)] sw by simp
  obtain E where E: "fill U (heads_size cs) D = E" "concat E = enc_heads e (heads_size cs) cs vs"
    using loop(4) [of "[]" "heads_size cs"] by auto
  let ?Z = "[concat E, concat T]"
  have ws: "wr_wordSize w = 64" using w by (simp add: writer_ok_def)
  have "pack L enc cs v w = (Inr (length (enc_tuple e cs vs)), extended w ?Z)"
    using assms(2,3) loop(1,2) bf E nw
    by (simp add: pack_def ws appendWriter_def writeData_def bindS_def ethers_bytes_okD
        enc_tuple_def extended_def)
  moreover have "concat ?Z = enc_tuple e cs vs" using E loop(2) by (simp add: enc_tuple_def)
  ultimately show "\<exists>X k. concat X = enc_tuple e cs vs \<and>
      pack L enc cs v w = (Inr k, extended w X)" by blast
qed

text \<open>
  Two's complement in the width of the type and then of the word is the remainder modulo the word size,
  for the values the bounds let through.
\<close>

lemma mask_nonneg: "bignum_ok L \<Longrightarrow> 0 \<le> i \<Longrightarrow> big_mask L i w = i mod 2 ^ w"
  using bignum_okD(7) [of L "nat i" w] by simp

lemma ones_mod: "k \<le> m \<Longrightarrow> (2 ^ m - 1) mod 2 ^ k = (2 ^ k - 1 :: int)"
proof -
  assume "k \<le> m"
  then have "(2 ^ m - 1 :: int) = (2 ^ k - 1) + (2 ^ (m - k) - 1) * 2 ^ k"
    by (simp add: left_diff_distrib flip: power_add)
  then have "(2 ^ m - 1) mod 2 ^ k = ((2 ^ k - 1) + (2 ^ (m - k) - 1) * 2 ^ k) mod (2 ^ k :: int)"
    by (simp only:)
  also have "\<dots> = (2 ^ k - 1) mod 2 ^ k" by (rule mod_mult_self1)
  also have "\<dots> = 2 ^ k - 1" by (rule mod_pos_pos_trivial) simp_all
  finally show ?thesis .
qed

lemma add_mod_once: "- (2 ^ w) \<le> n \<Longrightarrow> n < 0 \<Longrightarrow> n mod 2 ^ w = 2 ^ w + (n :: int)"
  by (metis add.commute add_less_same_cancel2 le_add_same_cancel2 le_minus_iff
      minus_minus mod_add_self2 mod_pos_pos_trivial diff_ge_0_iff_ge diff_minus_eq_add)

lemma toTwos_mod:
  "bignum_ok L \<Longrightarrow> - (2 ^ w) \<le> n \<Longrightarrow> n < 2 ^ w \<Longrightarrow> big_toTwos L n w = n mod 2 ^ w"
  by (auto simp: bignum_okD add_mod_once)

lemma number_word_ok:
  assumes "bignum_ok L" and "0 < sz" and "sz \<le> 64" and "num_in_range sz sg n"
  shows "number_word L 64 sz sg n = Inr (n mod 2 ^ 512)"
proof -
  define m where "m = sz * 8"
  have m: "0 < m" "m \<le> 512" using assms(2,3) by (simp_all add: m_def)
  have half: "(2 ^ m :: int) = 2 * 2 ^ (m - 1)" using m(1) by (cases m) simp_all
  have le: "(2 ^ m :: int) \<le> 2 ^ 512" using m(2) by (intro power_increasing) simp_all
  have pos: "(0 :: int) < 2 ^ (m - 1)" by simp
  have range: "- (2 ^ m) \<le> n" "n < 2 ^ m"
    using assms(4) half pos by (auto simp: num_in_range_def m_def split: if_splits)
  have max: "big_mask L max_uint512 512 = 2 ^ 512 - 1"
    using mask_nonneg [OF assms(1), of "2 ^ 512 - 1" 512] by (simp add: max_uint512_def)
  have bounds: "big_mask L (2 ^ 512 - 1) k = 2 ^ k - 1" if "k \<le> 512" for k
    using mask_nonneg [OF assms(1), of "2 ^ 512 - 1" k] ones_mod [OF that] by simp
  have u: "big_mask L (big_toTwos L n m) m = n mod 2 ^ m"
    using assms(1) range by (simp add: toTwos_mod mask_nonneg)
  show ?thesis
  proof (cases sg)
    case False
    with assms(4) have n: "0 \<le> n" "n < 2 ^ m" by (simp_all add: num_in_range_def m_def)
    then have "n mod 2 ^ m = n" "n mod 2 ^ 512 = n" using le by simp_all
    with False n u max bounds [OF m(2)] show ?thesis
      by (simp add: number_word_def Let_def flip: m_def)
  next
    case True
    with assms(4) have n: "- (2 ^ (m - 1)) \<le> n" "n < 2 ^ (m - 1)"
      by (simp_all add: num_in_range_def m_def)
    have "big_fromTwos L (n mod 2 ^ m) m = n"
    proof (cases "n < 0")
      case True
      then have "n mod 2 ^ m = 2 ^ m + n" using range(1) by (simp add: add_mod_once)
      with True n half m(1) assms(1) show ?thesis by (simp add: bignum_okD)
    next
      case False
      with n half m(1) assms(1) show ?thesis by (simp add: bignum_okD)
    qed
    moreover have "big_toTwos L n 512 = n mod 2 ^ 512"
      using assms(1) range le by (intro toTwos_mod) simp_all
    moreover have "m - 1 \<le> 512" using m by simp
    ultimately show ?thesis
      using True n u max bounds [of "m - 1"]
      by (simp add: number_word_def Let_def flip: m_def)
  qed
qed

lemma writes_cong:
  assumes "\<And>w. writer_ok w \<Longrightarrow> m w = m' w" and "writes m' bs"
  shows "writes m bs"
  using assms by (simp add: writes_def)

lemma length_enc_elem:
  "(c, x) \<in> set (zip cs vs) \<Longrightarrow> length (e c x) \<le> length (enc_tuple e cs vs)"
proof -
  assume a: "(c, x) \<in> set (zip cs vs)"
  have "length (e c x) \<le> length (enc_heads e off cs vs) + length (enc_tails e cs vs)" for off
    using a by (induction e off cs vs rule: enc_heads.induct) force+
  then show ?thesis by (simp add: enc_tuple_def)
qed

lemma pack_values_elems: "isArray v \<Longrightarrow> length cs = length (elems_of v) \<Longrightarrow>
    pack_values cs v = Inr (elems_of v)"
  by (simp add: pack_values_def elems_of_array)

lemma array_elems_bound:
  assumes "wf_coder (ArrayCoder c n nm)" and "n = - 1"
    and "\<And>x. x \<in> set xs \<Longrightarrow> \<not> dynamic c \<Longrightarrow> length (e c x) = head_size c"
  shows "64 * length xs \<le> length (enc_tuple e (replicate (length xs) c) xs)"
proof -
  let ?cs = "replicate (length xs) c"
  have "64 \<le> head_size c" using assms(1,2) by (simp add: head_size_pos)
  then have "64 * length xs \<le> heads_size ?cs" by simp
  also have "\<dots> = length (enc_heads e (heads_size ?cs) ?cs xs)"
    using assms(3) by (intro length_enc_heads [symmetric]) (auto dest!: zip_replicate_elem)
  finally show ?thesis by (simp only: enc_tuple_def length_append)
qed

text \<open>The encoder writes the specified bytes.\<close>

lemma number_writes:
  assumes "wf_coder (NumberCoder sz sg nm)" and "abi_ok L (NumberCoder sz sg nm) v"
    and "int (length (abi_bytes L (NumberCoder sz sg nm) v)) < MAX_SAFE_INTEGER"
    and "bignum_ok L" and "ethers_bytes_ok L" and "crypto_ok L" and "zod_ok L"
  shows "writes (encode L (NumberCoder sz sg nm) v) (abi_bytes L (NumberCoder sz sg nm) v)"
proof -
  from assms obtain n where n: "big_from L v = Inr n" "num_in_range sz sg n" by (auto split: sum.splits)
  let ?k = "nat (n mod 2 ^ 512)"
  have k: "int ?k = n mod 2 ^ 512" by simp
  have "n mod 2 ^ 512 < 2 ^ 512" by (rule pos_mod_bound) simp
  then have "writes (writeValue L (JBN (n mod 2 ^ 512))) (nat_be 64 ?k)"
    using assms k by (intro writeValue_writes) (simp_all add: bignum_okD nat_less_iff)
  moreover have "encode L (NumberCoder sz sg nm) v w = writeValue L (JBN (n mod 2 ^ 512)) w"
    if "writer_ok w" for w
    using that assms n number_word_ok [of L sz sg n] by (simp add: writer_ok_def)
  ultimately show ?thesis using n by (auto simp: num_of_def intro: writes_cong)
qed

lemma address_writes:
  assumes "wf_coder (AddressCoder nm)" and "abi_ok L (AddressCoder nm) v"
    and "int (length (abi_bytes L (AddressCoder nm) v)) < MAX_SAFE_INTEGER"
    and "bignum_ok L" and "ethers_bytes_ok L" and "crypto_ok L" and "zod_ok L"
  shows "writes (encode L (AddressCoder nm) v) (abi_bytes L (AddressCoder nm) v)"
proof -
  from assms obtain s where s: "v = JStr s" "isAddressString L (JStr s) True"
    by (auto simp: isAddressString_def split: jsval.splits)
  then have "qrl_address_regex s" by (simp add: isAddressString_def split: if_splits)
  then obtain q b where b: "s = q # b" "length b = 128" "list_all is_hex_char b"
    by (elim qrl_address_regexE)
  have hex: "addressToHex L v = Inr (''0x'' @ toLowerCase b)"
    using addressToHex_ok [OF assms(7) s(2)] s b by simp
  have "big_from L (JStr (''0x'' @ toLowerCase b)) = Inr (int (digits_val 16 (toLowerCase b)))"
    using assms(4) b by (intro bignum_okD(4) toLowerCase_hex) (auto simp: toLowerCase_def)
  then have val: "big_from L (JStr (''0x'' @ toLowerCase b)) = Inr (int (digits_val 16 b))"
    unfolding digits_val_lower [OF b(3)] .
  have "digits_val 16 b < 16 ^ 128" using digits_val_bound [OF b(3)] b(2) by simp
  then have "digits_val 16 b < 2 ^ 512" by simp
  with assms(4,5) val
  have "writes (writeValue L (JStr (''0x'' @ toLowerCase b))) (nat_be 64 (digits_val 16 b))"
    by (rule writeValue_writes)
  moreover have "encode L (AddressCoder nm) v w = writeValue L (JStr (''0x'' @ toLowerCase b)) w" for w
    using hex b(2) by simp
  moreover have "abi_bytes L (AddressCoder nm) v = nat_be 64 (digits_val 16 b)"
    by (simp add: s(1) b(1) str_of_def)
  ultimately show ?thesis by (simp add: writes_def)
qed

lemma boolean_writes:
  assumes "wf_coder (BooleanCoder nm)" and "abi_ok L (BooleanCoder nm) v"
    and "int (length (abi_bytes L (BooleanCoder nm) v)) < MAX_SAFE_INTEGER"
    and "bignum_ok L" and "ethers_bytes_ok L" and "crypto_ok L" and "zod_ok L"
  shows "writes (encode L (BooleanCoder nm) v) (abi_bytes L (BooleanCoder nm) v)"
proof -
  have "writes (writeValue L (JNum (NInt (int (if js_truthy v then 1 else 0)))))
      (nat_be 64 (if js_truthy v then 1 else 0))"
    using assms by (intro writeNumber_writes) (simp_all add: MAX_SAFE_INTEGER_def)
  then show ?thesis by (auto intro: writes_cong)
qed

lemma bytes_writes:
  assumes "wf_coder (BytesCoder nm)" and "abi_ok L (BytesCoder nm) v"
    and "int (length (abi_bytes L (BytesCoder nm) v)) < MAX_SAFE_INTEGER"
    and "bignum_ok L" and "ethers_bytes_ok L" and "crypto_ok L" and "zod_ok L"
  shows "writes (encode L (BytesCoder nm) v) (abi_bytes L (BytesCoder nm) v)"
proof -
  from assms obtain bs where bs: "arrayify L v = Inr bs" by (auto split: sum.splits)
  then have "writes (encode_bytes L v) (sized_bytes bs)"
    using assms alignedLength_ge [of "length bs"]
    by (intro encode_bytes_writes) (simp_all add: bytes_of_def sized_bytes_def)
  then show ?thesis using bs by (auto simp: bytes_of_def intro: writes_cong)
qed

lemma fixed_bytes_writes:
  assumes "wf_coder (FixedBytesCoder sz nm)" and "abi_ok L (FixedBytesCoder sz nm) v"
    and "int (length (abi_bytes L (FixedBytesCoder sz nm) v)) < MAX_SAFE_INTEGER"
    and "bignum_ok L" and "ethers_bytes_ok L" and "crypto_ok L" and "zod_ok L"
  shows "writes (encode L (FixedBytesCoder sz nm) v) (abi_bytes L (FixedBytesCoder sz nm) v)"
proof -
  from assms obtain bs where bs: "arrayify L v = Inr bs" "length bs = sz" by (auto split: sum.splits)
  have "writes (writeBytes L (JBytes bs)) (pad_right bs)"
    using assms by (intro writeBytes_writes) (simp_all add: ethers_bytes_okD)
  then show ?thesis using bs by (auto simp: bytes_of_def intro: writes_cong)
qed

lemma string_writes:
  assumes "wf_coder (StringCoder nm)" and "abi_ok L (StringCoder nm) v"
    and "int (length (abi_bytes L (StringCoder nm) v)) < MAX_SAFE_INTEGER"
    and "bignum_ok L" and "ethers_bytes_ok L" and "crypto_ok L" and "zod_ok L"
  shows "writes (encode L (StringCoder nm) v) (abi_bytes L (StringCoder nm) v)"
proof -
  from assms obtain s where s: "v = JStr s" by (auto simp: isString_def typeof_def split: jsval.splits)
  let ?bs = "utf8_encode s"
  have "writes (encode_bytes L (JBytes ?bs)) (sized_bytes ?bs)"
    using assms s alignedLength_ge [of "length ?bs"]
    by (intro encode_bytes_writes) (simp_all add: ethers_bytes_okD str_of_def sized_bytes_def)
  then show ?thesis
    using assms s by (auto simp: str_of_def string_bytes_def crypto_okD intro: writes_cong)
qed

lemma null_writes:
  assumes "wf_coder (NullCoder nm)" and "abi_ok L (NullCoder nm) v"
    and "int (length (abi_bytes L (NullCoder nm) v)) < MAX_SAFE_INTEGER"
    and "bignum_ok L" and "ethers_bytes_ok L" and "crypto_ok L" and "zod_ok L"
  shows "writes (encode L (NullCoder nm) v) (abi_bytes L (NullCoder nm) v)"
proof -
  have "writes (writeBytes L (JArr [])) (pad_right [])"
    using assms by (intro writeBytes_writes) (simp_all add: ethers_bytes_okD)
  then show ?thesis using assms(2) by (auto simp: pad_right_def intro: writes_cong)
qed

lemma array_writes:
  assumes "\<And>x. x \<in> set (elems_of v) \<Longrightarrow> wf_coder c \<Longrightarrow> abi_ok L c x \<Longrightarrow> int (length (abi_bytes L c x)) < MAX_SAFE_INTEGER
      \<Longrightarrow> writes (encode L (c) x) (abi_bytes L (c) x)"
    and "wf_coder (ArrayCoder c n nm)" and "abi_ok L (ArrayCoder c n nm) v"
    and "int (length (abi_bytes L (ArrayCoder c n nm) v)) < MAX_SAFE_INTEGER"
    and "bignum_ok L" and "ethers_bytes_ok L" and "crypto_ok L" and "zod_ok L"
  shows "writes (encode L (ArrayCoder c n nm) v) (abi_bytes L (ArrayCoder c n nm) v)"
proof -
  define vs where "vs = elems_of v"
  let ?cs = "replicate (length vs) c"
  have v: "js_elems v = Some vs" "n = - 1 \<or> n = int (length vs)"
    using assms(3) by (simp_all add: elems_of_array vs_def)
  have e: "abi_bytes L (ArrayCoder c n nm) v =
      (if n = - 1 then nat_be 64 (length vs) else []) @ enc_tuple (abi_bytes L) ?cs vs"
    by (simp add: vs_def)
  have el: "wf_coder c \<and> abi_ok L c x \<and> int (length (abi_bytes L c x)) < MAX_SAFE_INTEGER \<and> c \<in> set ?cs"
    if "x \<in> set vs" for x
  proof -
    have "(c, x) \<in> set (zip ?cs vs)" using that by (simp add: zip_replicate1)
    from length_enc_elem [OF this, of "abi_bytes L"] set_zip_leftD [OF this] that assms(2-4) show ?thesis
      unfolding e by (auto simp: list_all_iff vs_def)
  qed
  have pk: "writes (pack L (encode L) ?cs v) (enc_tuple (abi_bytes L) ?cs vs)"
  proof (rule pack_writes)
    show "pack_values ?cs v = Inr vs" using assms(3) by (simp add: pack_values_elems vs_def)
    show "writes (encode L c' x) (abi_bytes L c' x)" if "(c', x) \<in> set (zip ?cs vs)" for c' x
      using assms(1,5-8) el zip_replicate_elem [OF that] by (auto simp: vs_def)
    show "length (enc_heads (abi_bytes L) 0 ?cs vs) = heads_size ?cs"
      using el by (intro length_enc_heads) (auto simp: length_abi_bytes_static dest!: zip_replicate_elem)
  qed (use assms(4-6) e in auto)
  have count: "int (length vs) < MAX_SAFE_INTEGER" if "n = - 1"
    using array_elems_bound [OF assms(2) that, of vs "abi_bytes L"] el assms(4)
    unfolding e by (auto simp: length_abi_bytes_static)
  have chk: "checkArgumentCount L (length vs) (length vs) t = Inr ()" for t
    using assms(6) by (simp add: ethers_bytes_okD)
  show ?thesis
  proof (cases "n = - 1")
    case True
    from chk have "encode L (ArrayCoder c n nm) v w =
        bindS (writeValue L (JNum (NInt (int (length vs))))) (\<lambda>_. pack L (encode L) ?cs v) w" for w
      using v(1) True by (simp add: array_count_def bindS_return)
    with writes_then [OF writeNumber_writes [OF assms(5,6) count [OF True]] pk] True show ?thesis
      unfolding e by (auto intro: writes_cong)
  next
    case False
    with v(2) have n: "n = int (length vs)" by simp
    have "encode L (ArrayCoder c n nm) v w = pack L (encode L) ?cs v w" for w
      using v(1) n False chk by (simp add: array_count_def)
    with pk False show ?thesis unfolding e by (auto intro: writes_cong)
  qed
qed

lemma tuple_writes:
  assumes "\<And>c x. c \<in> set cs \<Longrightarrow> wf_coder c \<Longrightarrow> abi_ok L c x
      \<Longrightarrow> int (length (abi_bytes L c x)) < MAX_SAFE_INTEGER
      \<Longrightarrow> writes (encode L (c) x) (abi_bytes L (c) x)"
    and "wf_coder (TupleCoder cs nm)" and "abi_ok L (TupleCoder cs nm) v"
    and "int (length (abi_bytes L (TupleCoder cs nm) v)) < MAX_SAFE_INTEGER"
    and "bignum_ok L" and "ethers_bytes_ok L" and "crypto_ok L" and "zod_ok L"
  shows "writes (encode L (TupleCoder cs nm) v) (abi_bytes L (TupleCoder cs nm) v)"
proof -
  from assms obtain vs where vs: "pack_values cs v = Inr vs" "list_all (\<lambda>(c, x). abi_ok L c x) (zip cs vs)"
    by (auto split: sum.splits)
  have e: "abi_bytes L (TupleCoder cs nm) v = enc_tuple (abi_bytes L) cs vs"
    using vs(1) by (simp add: vals_of_length)
  have el: "wf_coder c \<and> abi_ok L c x \<and> int (length (abi_bytes L c x)) < MAX_SAFE_INTEGER"
    if "(c, x) \<in> set (zip cs vs)" for c x
    using length_enc_elem [OF that, of "abi_bytes L"] assms(2,4) vs(2) that set_zip_leftD [OF that]
    unfolding e by (auto simp: list_all_iff)
  have "writes (pack L (encode L) cs v) (enc_tuple (abi_bytes L) cs vs)"
  proof (rule pack_writes)
    show "writes (encode L c x) (abi_bytes L c x)" if "(c, x) \<in> set (zip cs vs)" for c x
      using assms(1) [OF set_zip_leftD [OF that]] el [OF that] assms(5-8) by blast
    show "length (enc_heads (abi_bytes L) 0 cs vs) = heads_size cs"
      using vs(1) el by (intro length_enc_heads) (auto simp: pack_values_length length_abi_bytes_static)
  qed (use assms vs e in auto)
  then show ?thesis unfolding e by (rule writes_cong [rotated]) simp
qed

lemma encode_writes:
  assumes "bignum_ok L" and "ethers_bytes_ok L" and "crypto_ok L" and "zod_ok L"
  shows "wf_coder c \<Longrightarrow> abi_ok L c v \<Longrightarrow> int (length (abi_bytes L c v)) < MAX_SAFE_INTEGER
    \<Longrightarrow> writes (encode L c v) (abi_bytes L c v)"
  using assms
proof (induction L c v rule: abi_bytes.induct)
  case (1 L sz sg nm v)
  then show ?case by (intro number_writes)
next
  case (2 L nm v)
  then show ?case by (intro address_writes)
next
  case (3 L nm v)
  then show ?case by (intro boolean_writes)
next
  case (4 L nm v)
  then show ?case by (intro bytes_writes)
next
  case (5 L sz nm v)
  then show ?case by (intro fixed_bytes_writes)
next
  case (6 L nm v)
  then show ?case by (intro string_writes)
next
  case (7 L nm v)
  then show ?case by (intro null_writes)
next
  case (8 L c n nm v)
  have "writes (encode L c x) (abi_bytes L c x)"
    if "x \<in> set (elems_of v)" "wf_coder c" "abi_ok L c x"
      "int (length (abi_bytes L c x)) < MAX_SAFE_INTEGER" for x
  proof -
    have "c \<in> set (replicate (length (elems_of v)) c)" using that(1) by (cases "elems_of v") auto
    with 8(1,5-8) that(2-4) show ?thesis by blast
  qed
  then show ?case using 8(2-8) by (rule array_writes)
next
  case (9 L cs nm v)
  have "writes (encode L c x) (abi_bytes L c x)"
    if "c \<in> set cs" "wf_coder c" "abi_ok L c x"
      "int (length (abi_bytes L c x)) < MAX_SAFE_INTEGER" for c x
    using 9(1,5-8) that by blast
  then show ?case using 9(2-8) by (rule tuple_writes)
next
  case (10 L c v)
  then show ?case by (auto intro: writes_cong)
qed

end
