(* ===== verification/AbiDecode.thy ===== *)
theory AbiDecode
  imports AbiEncode
begin

text \<open>
  The decoder inverts the specification: reading the bytes of a value, wherever they stand in the data,
  gives the value \<^verbatim>\<open>AbiSpec\<close> assigns to it, and a static value moves the reader past its bytes.
\<close>

section \<open>What a reading action does\<close>

definition reader_ok :: "reader \<Rightarrow> bool" where
  "reader_ok r \<longleftrightarrow> rd_wordSize r = 64 \<and> rd_coerceFunc r = None \<and> rd_offset r \<le> length (rd_data r)"

definition unread :: "reader \<Rightarrow> bytes" where
  "unread r = drop (rd_offset r) (rd_data r)"

definition advance :: "reader \<Rightarrow> nat \<Rightarrow> reader" where
  "advance r n = r\<lparr>rd_offset := rd_offset r + n\<rparr>"

definition reads :: "(reader, js_error, jsval) action \<Rightarrow> bool \<Rightarrow> bytes \<Rightarrow> jsval \<Rightarrow> bool" where
  "reads m dyn bs v \<longleftrightarrow>
     (\<forall>r X. reader_ok r \<and> unread r = bs @ X \<longrightarrow>
        (\<exists>r'. m r = (Inr v, r') \<and> (dyn \<or> r' = advance r (length bs))))"

lemma readsD:
  assumes "reads m dyn bs v" and "reader_ok r" and "unread r = bs @ X"
  obtains r' where "m r = (Inr v, r')" and "dyn \<or> r' = advance r (length bs)"
  using assms unfolding reads_def by blast

lemma length_unread: "reader_ok r \<Longrightarrow> rd_offset r + length (unread r) = length (rd_data r)"
  by (simp add: reader_ok_def unread_def)

lemma unread_advance:
  assumes "reader_ok r" and "unread r = bs @ X"
  shows "unread (advance r (length bs)) = X" "reader_ok (advance r (length bs))"
proof -
  have "drop (length bs) (unread r) = X" using assms(2) by simp
  then show "unread (advance r (length bs)) = X" by (simp add: unread_def advance_def add.commute)
  show "reader_ok (advance r (length bs))"
    using assms length_unread [of r] by (simp add: reader_ok_def advance_def)
qed

lemma advance_simps [simp]:
  "advance r 0 = r" "advance (advance r m) n = advance r (m + n)"
  "rd_wordSize (advance r n) = rd_wordSize r" "rd_data (advance r n) = rd_data r"
  "rd_coerceFunc (advance r n) = rd_coerceFunc r"
  by (simp_all add: advance_def)

lemma subReader_ok:
  "reader_ok r \<Longrightarrow> reader_ok (subReader r k)"
  "reader_ok r \<Longrightarrow> unread (subReader r k) = drop k (unread r)"
  by (simp_all add: reader_ok_def subReader_def new_reader_def unread_def add.commute)

section \<open>Words and byte strings\<close>

lemma readBytes_padded:
  assumes "reader_ok r" and "unread r = pad_right bs @ X"
  shows "readBytes (length bs) loose r = (Inr bs, advance r (length (pad_right bs)))"
proof -
  have len: "length (pad_right bs) = alignedLength 64 (length bs)" by simp
  have "rd_offset r + alignedLength 64 (length bs) \<le> length (rd_data r)"
    using length_unread [OF assms(1)] assms(2) by simp
  moreover have "take (alignedLength 64 (length bs)) (unread r) = pad_right bs"
    using assms(2) by simp
  moreover have "take (length bs) (pad_right bs) = bs" by (simp add: pad_right_def)
  ultimately show ?thesis
    using assms(1)
    by (simp add: readBytes_def peekBytes_def bindS_def reader_ok_def unread_def advance_def Let_def)
qed

lemma pad_right_64: "length bs = 64 \<Longrightarrow> pad_right bs = bs"
  by (simp add: pad_right_def alignedLength_64)

lemma readValue_word:
  assumes "bignum_ok L" and "reader_ok r" and "unread r = nat_be 64 n @ X" and "n < 2 ^ 512"
  shows "readValue L r = (Inr (int n), advance r 64)"
proof -
  have "n < 256 ^ 64" using assms(4) by simp
  then have "be_nat (nat_be 64 n) = n" by (simp add: be_nat_nat_be)
  moreover have "readBytes 64 False r = (Inr (nat_be 64 n), advance r 64)"
    using readBytes_padded [OF assms(2), of "nat_be 64 n" X False] assms(3) by (simp add: pad_right_64)
  ultimately show ?thesis
    using assms(1,2) by (simp add: readValue_def bindS_def reader_ok_def bignum_okD)
qed

lemma readNumber_word:
  assumes "bignum_ok L" and "reader_ok r" and "unread r = nat_be 64 n @ X"
    and "int n \<le> MAX_SAFE_INTEGER"
  shows "readNumber L r = (Inr n, advance r 64)"
proof -
  have "n < 2 ^ 512" using assms(4) by (simp add: MAX_SAFE_INTEGER_def)
  with assms readValue_word [OF assms(1-3)] show ?thesis
    by (simp add: readNumber_def bindS_def bignum_okD)
qed

lemma decode_bytes_reads:
  assumes "bignum_ok L" and "reader_ok r" and "unread r = sized_bytes bs @ X"
    and "int (length bs) \<le> MAX_SAFE_INTEGER"
  shows "decode_bytes L r = (Inr bs, advance r (length (sized_bytes bs)))"
    and "reader_ok (advance r (length (sized_bytes bs)))"
proof -
  have u: "unread r = nat_be 64 (length bs) @ pad_right bs @ X"
    using assms(3) by (simp add: sized_bytes_def)
  have n: "readNumber L r = (Inr (length bs), advance r 64)"
    using assms(1,2) u assms(4) by (rule readNumber_word)
  have "unread (advance r 64) = pad_right bs @ X" "reader_ok (advance r 64)"
    using unread_advance [OF assms(2) u] by simp_all
  from readBytes_padded [OF this(2,1)] n
  show "decode_bytes L r = (Inr bs, advance r (length (sized_bytes bs)))"
    by (simp add: decode_bytes_def bindS_def sized_bytes_def)
  show "reader_ok (advance r (length (sized_bytes bs)))"
    using assms(2,3) by (rule unread_advance)
qed

section \<open>Unpacking\<close>

lemma unpack_loop_reads:
  assumes "length cs = length vs"
    and "\<And>c x. (c, x) \<in> set (zip cs vs) \<Longrightarrow> reads (dec c) (dynamic c) (e c x) (val c x)"
    and "bignum_ok L" and "reader_ok b" and "reader_ok r"
    and "unread r = enc_heads e off cs vs @ X"
    and "drop off (unread b) = enc_tails e cs vs @ Y"
    and "int (off + length (enc_tails e cs vs)) \<le> MAX_SAFE_INTEGER"
  shows "unpack_loop L dec b cs r =
    (Inr (filter (\<lambda>v. \<not> isNullish v) (map (\<lambda>(c, x). val c x) (zip cs vs))),
     advance r (length (enc_heads e off cs vs)))"
  using assms
proof (induction cs vs arbitrary: r off rule: list_induct2)
  case Nil
  then show ?case by simp
next
  case (Cons c cs v vs)
  have rd: "reads (dec c) (dynamic c) (e c v) (val c v)" using Cons.prems(1) by simp
  show ?case
  proof (cases "dynamic c")
    case True
    have u: "unread r = nat_be 64 off @ enc_heads e (off + length (e c v)) cs vs @ X"
      using Cons.prems(5) True by simp
    have num: "readNumber L r = (Inr off, advance r 64)"
      using Cons.prems(2,4) u Cons.prems(7) by (intro readNumber_word) auto
    have t: "drop off (unread b) = e c v @ enc_tails e cs vs @ Y"
      using Cons.prems(6) True by simp
    obtain r' where d: "dec c (subReader b off) = (Inr (val c v), r')"
      using readsD [OF rd subReader_ok(1) [OF Cons.prems(3)]] subReader_ok(2) [OF Cons.prems(3)] t
      by metis
    have "drop (off + length (e c v)) (unread b) = enc_tails e cs vs @ Y"
      using arg_cong [OF t, of "drop (length (e c v))"] by (simp add: add.commute)
    moreover have "unread (advance r 64) = enc_heads e (off + length (e c v)) cs vs @ X"
        "reader_ok (advance r 64)"
      using unread_advance [OF Cons.prems(4) u] by simp_all
    ultimately have "unpack_loop L dec b cs (advance r 64) =
        (Inr (filter (\<lambda>v. \<not> isNullish v) (map (\<lambda>(c, x). val c x) (zip cs vs))),
         advance (advance r 64) (length (enc_heads e (off + length (e c v)) cs vs)))"
      using Cons.prems(1-3,7) True by (intro Cons.IH) (auto simp: add.assoc)
    with num d True show ?thesis
      by (simp add: unpack_one_def bindS_def keep_error_def add.assoc)
  next
    case False
    have u: "unread r = e c v @ enc_heads e off cs vs @ X"
      using Cons.prems(5) False by simp
    have d: "dec c r = (Inr (val c v), advance r (length (e c v)))"
      using readsD [OF rd Cons.prems(4) u] False by metis
    have "unpack_loop L dec b cs (advance r (length (e c v))) =
        (Inr (filter (\<lambda>v. \<not> isNullish v) (map (\<lambda>(c, x). val c x) (zip cs vs))),
         advance (advance r (length (e c v))) (length (enc_heads e off cs vs)))"
      using Cons.prems(1-3,6,7) False unread_advance [OF Cons.prems(4) u]
      by (intro Cons.IH) auto
    with d False show ?thesis
      by (simp add: unpack_one_def bindS_def keep_error_def)
  qed
qed

text \<open>Named properties can always be added when no value is an error.\<close>

definition no_error :: "jsval \<Rightarrow> bool" where
  "no_error v = (case v of JErr _ \<Rightarrow> False | _ \<Rightarrow> True)"

lemma no_error_simps [simp]:
  "no_error JUndef" "no_error JNull" "no_error (JBool b)" "no_error (JNum n)" "no_error (JBN i)"
  "no_error (JStr s)" "no_error (JArr vs)" "no_error (JResult vs ns)" "\<not> no_error (JErr e)"
  by (simp_all add: no_error_def)

lemma named_props_total:
  assumes "list_all no_error vals"
  shows "(\<And>k v. map_of ns k = Some v \<Longrightarrow> no_error v) \<Longrightarrow>
    \<exists>ns'. named_props all vals i cs ns = Inr ns'"
proof (induction cs arbitrary: i ns)
  case Nil
  then show ?case by simp
next
  case (Cons c cs)
  define nm where "nm = property_name (name_text c)"
  define v where "v = (if i < length vals then vals ! i else JUndef)"
  have v: "no_error v" using assms by (auto simp: v_def list_all_length)
  have skip: "\<exists>ns'. named_props all vals (Suc i) cs ns = Inr ns'"
    using Cons.IH Cons.prems by blast
  have "no_error u" if "map_of (AList.update nm v ns) k = Some u" for k u
    using that v Cons.prems by (auto simp: update_conv split: if_splits)
  then have upd: "\<exists>ns'. named_props all vals (Suc i) cs (AList.update nm v ns) = Inr ns'"
    by (rule Cons.IH)
  show ?case
  proof (cases "map_of ns nm")
    case None
    with skip upd show ?thesis by (auto simp: Let_def nm_def v_def)
  next
    case (Some u)
    then have "no_error u" by (rule Cons.prems)
    with skip upd Some show ?thesis
      by (cases u) (auto simp: Let_def nm_def v_def no_error_def)
  qed
qed

lemma assembled_assemble:
  assumes "list_all no_error vals"
  shows "assemble cs (filter (\<lambda>v. \<not> isNullish v) vals) = Inr (assembled cs vals)"
    and "no_error (assembled cs vals)"
proof -
  have "list_all no_error (filter (\<lambda>v. \<not> isNullish v) vals)"
    using assms by (auto simp: list_all_iff)
  from named_props_total [OF this, of "[]"] obtain ns where
    "named_props cs (filter (\<lambda>v. \<not> isNullish v) vals) 0 cs [] = Inr ns" by fastforce
  then show "assemble cs (filter (\<lambda>v. \<not> isNullish v) vals) = Inr (assembled cs vals)"
    and "no_error (assembled cs vals)"
    by (simp_all add: assembled_def assemble_def)
qed

lemma abi_value_no_error: "no_error (abi_value L c v)"
proof (induction L c v rule: abi_value.induct)
  case (8 L c n nm v)
  then show ?case by (simp add: assembled_assemble list_all_iff)
next
  case (9 L cs nm v)
  then show ?case by (auto intro!: assembled_assemble simp: list_all_iff)
qed simp_all

lemma unpack_reads:
  assumes "length cs = length vs"
    and "\<And>c x. (c, x) \<in> set (zip cs vs) \<Longrightarrow> reads (dec c) (dynamic c) (e c x) (val c x)"
    and "\<And>c x. no_error (val c x)"
    and "bignum_ok L" and "reader_ok r" and "unread r = enc_tuple e cs vs @ X"
    and "length (enc_heads e (heads_size cs) cs vs) = heads_size cs"
    and "int (length (enc_tuple e cs vs)) \<le> MAX_SAFE_INTEGER"
  shows "unpack L dec cs r =
    (Inr (assembled cs (map (\<lambda>(c, x). val c x) (zip cs vs))), advance r (heads_size cs))"
proof -
  let ?b = "subReader r 0"
  have b: "reader_ok ?b" "unread ?b = unread r"
    using subReader_ok [OF assms(5), of 0] by simp_all
  have u: "unread r = enc_heads e (heads_size cs) cs vs @ enc_tails e cs vs @ X"
    using assms(6) by (simp add: enc_tuple_def)
  have "unpack_loop L dec ?b cs r =
    (Inr (filter (\<lambda>v. \<not> isNullish v) (map (\<lambda>(c, x). val c x) (zip cs vs))),
     advance r (length (enc_heads e (heads_size cs) cs vs)))"
  proof (rule unpack_loop_reads)
    show "drop (heads_size cs) (unread ?b) = enc_tails e cs vs @ X"
      using arg_cong [OF u, of "drop (heads_size cs)"] assms(7) b by simp
    show "int (heads_size cs + length (enc_tails e cs vs)) \<le> MAX_SAFE_INTEGER"
      using assms(7,8) by (simp add: enc_tuple_def)
  qed (use assms b u in auto)
  moreover have "list_all no_error (map (\<lambda>(c, x). val c x) (zip cs vs))"
    using assms(3) by (auto simp: list_all_iff)
  ultimately show ?thesis
    using assms(7) by (simp add: unpack_def bindS_def assembled_assemble)
qed

section \<open>Names and addresses\<close>

lemma int_name_bits_number:
  "int_name_bits ((if sg then ''int'' else ''uint'') @ dec_str n) = Some n"
proof -
  have "list_all is_dec_char (dec_str n)" by (simp add: list_all_iff radix_str_digits)
  then show ?thesis by (simp add: int_name_bits_def startsWith_def)
qed

lemma int_name_bits_others:
  "int_name_bits (''bytes'' @ t) = None" "int_name_bits ''bool'' = None"
  "int_name_bits ''null'' = None" "int_name_bits ''array'' = None" "int_name_bits ''tuple'' = None"
  by (simp_all add: int_name_bits_def startsWith_def)

lemma nat_be_digits:
  assumes "list_all is_hex_char h" and "length h = 2 * w"
  shows "hex_of_bytes (nat_be w (digits_val 16 h)) = toLowerCase h"
proof -
  have l: "hex_of_bytes (bytes_of_hex h) = toLowerCase h"
    using assms by (intro hex_of_bytes_of_hex) simp_all
  have "be_nat (bytes_of_hex h) = digits_val 16 (toLowerCase h)"
    using l digits_val_hex_of_bytes [of "bytes_of_hex h"] by simp
  also have "\<dots> = digits_val 16 h" using assms(1) by (rule digits_val_lower)
  finally have "nat_be w (digits_val 16 h) = bytes_of_hex h"
    using nat_be_be_nat [of "bytes_of_hex h"] assms(2) by (simp add: length_bytes_of_hex)
  with l show ?thesis by simp
qed

lemma decode_address_ok:
  assumes "ethers_bytes_ok L" and "crypto_ok L" and "zod_ok L"
    and "list_all is_hex_char h" and "length h = 128"
  shows "decode_address L (int (digits_val 16 h)) =
    Inr (JStr (CHR ''Q'' # checksum_body L (toLowerCase h)))"
proof -
  let ?bs = "nat_be 64 (digits_val 16 h)"
  have hex: "hex_of_bytes ?bs = toLowerCase h" using assms(4,5) by (intro nat_be_digits) simp_all
  have "digits_val 16 h < 256 ^ 64" using digits_val_bound [OF assms(4)] assms(5) by simp
  then have "hexZeroPad L (big_toHexString L (int (digits_val 16 h))) 64 = Inr (''0x'' @ hex_of_bytes ?bs)"
    using assms(1) by (intro ethers_bytes_okD(5)) simp_all
  moreover have "hexToAddress L (JStr (''0x'' @ hex_of_bytes ?bs)) = Inr (CHR ''Q'' # hex_of_bytes ?bs)"
    using hexToAddress_bytes [OF assms(3), of ?bs] by simp
  moreover have "qrl_address_regex (CHR ''Q'' # hex_of_bytes ?bs)"
    by (rule bytes_address_regex) simp
  moreover from this have "util_toChecksumAddress L (JStr (CHR ''Q'' # hex_of_bytes ?bs)) =
      Inr (CHR ''Q'' # checksum_body L (toLowerCase h))"
    by (simp add: util_toChecksumAddress_def isAddressString_def toChecksumAddress_def hex)
  ultimately show ?thesis by (simp add: decode_address_def)
qed

section \<open>Decoding\<close>

lemma enc_replicate_anonymous:
  assumes "\<And>x. e' (AnonymousCoder c) x = e c x"
  shows "enc_heads e' off (replicate n (AnonymousCoder c)) vs = enc_heads e off (replicate n c) vs"
    and "enc_tails e' (replicate n (AnonymousCoder c)) vs = enc_tails e (replicate n c) vs"
proof -
  show "enc_heads e' off (replicate n (AnonymousCoder c)) vs = enc_heads e off (replicate n c) vs"
  proof (induction n arbitrary: off vs)
    case (Suc n)
    then show ?case by (cases vs) (simp_all add: assms)
  qed simp
  show "enc_tails e' (replicate n (AnonymousCoder c)) vs = enc_tails e (replicate n c) vs"
  proof (induction n arbitrary: vs)
    case (Suc n)
    then show ?case by (cases vs) (simp_all add: assms)
  qed simp
qed

lemma coerce_default:
  assumes "reader_ok r" and "int_name_bits name = None"
  shows "coerce L name v r = (Inr v, r)"
  using assms by (simp add: coerce_def reader_ok_def default_coerce_def)

lemma reader_ok_advance:
  "reader_ok r \<Longrightarrow> unread r = bs @ X \<Longrightarrow> n = length bs \<Longrightarrow> reader_ok (advance r n)"
  by (simp add: unread_advance)

lemma number_decoded:
  assumes "bignum_ok L" and "0 < sz" and "sz \<le> 64" and "num_in_range sz sg n"
    and "u = big_mask L (n mod 2 ^ 512) (sz * 8)"
  shows "(if sg then big_fromTwos L u (sz * 8) else u) = n"
proof -
  define m where "m = sz * 8"
  have m: "0 < m" "m \<le> 512" using assms(2,3) by (simp_all add: m_def)
  have half: "(2 ^ m :: int) = 2 * 2 ^ (m - 1)" using m(1) by (cases m) simp_all
  have "(2 :: int) ^ m dvd 2 ^ 512" using m(2) by (rule le_imp_power_dvd)
  then have u: "u = n mod 2 ^ m"
    using assms(1,5) by (simp add: mask_nonneg mod_mod_cancel flip: m_def)
  show ?thesis
  proof (cases sg)
    case False
    with assms(4) u show ?thesis by (simp add: num_in_range_def flip: m_def)
  next
    case True
    with assms(4) have n: "- (2 ^ (m - 1)) \<le> n" "n < 2 ^ (m - 1)"
      by (simp_all add: num_in_range_def flip: m_def)
    show ?thesis
    proof (cases "n < 0")
      case neg: True
      have "- (2 ^ m) \<le> n" using n half by simp
      with neg have "n mod 2 ^ m = 2 ^ m + n" by (intro add_mod_once)
      with True neg n half m(1) assms(1) u show ?thesis by (simp add: bignum_okD flip: m_def)
    next
      case False
      with True n half m(1) assms(1) u show ?thesis by (simp add: bignum_okD flip: m_def)
    qed
  qed
qed

lemma small_number_safe:
  assumes "0 < sz" and "sz \<le> 6" and "num_in_range sz sg n"
  shows "\<bar>n\<bar> \<le> MAX_SAFE_INTEGER"
proof -
  have "(2 :: int) ^ (sz * 8 - 1) \<le> 2 ^ 48" "(2 :: int) ^ (sz * 8) \<le> 2 ^ 48"
    using assms(2) by (intro power_increasing; simp)+
  with assms(3) show ?thesis
    by (auto simp: num_in_range_def MAX_SAFE_INTEGER_def split: if_splits)
qed

lemma number_reads:
  assumes "wf_coder (NumberCoder sz sg nm)" and "abi_ok L (NumberCoder sz sg nm) v"
    and "int (length (abi_bytes L (NumberCoder sz sg nm) v)) < MAX_SAFE_INTEGER"
    and "bignum_ok L" and "ethers_bytes_ok L" and "crypto_ok L" and "zod_ok L"
  shows "reads (decode L (NumberCoder sz sg nm)) (dynamic (NumberCoder sz sg nm)) (abi_bytes L (NumberCoder sz sg nm) v) (abi_value L (NumberCoder sz sg nm) v)"
proof -
  from assms obtain n where n: "big_from L v = Inr n" "num_in_range sz sg n" by (auto split: sum.splits)
  define m where "m = n mod 2 ^ 512"
  let ?k = "nat m" and ?c = "NumberCoder sz sg nm"
  have k: "int ?k = m" "abi_bytes L ?c v = nat_be 64 ?k"
    using n by (simp_all add: m_def num_of_def)
  have len: "length (abi_bytes L (NumberCoder sz g nm) v) = 64" for g by simp
  have "m < 2 ^ 512" unfolding m_def by (rule pos_mod_bound) simp
  then have less: "?k < 2 ^ 512" by (simp add: nat_less_iff)
  show ?thesis
    unfolding reads_def
  proof (intro allI impI, elim conjE)
    fix r X
    assume r: "reader_ok r" "unread r = abi_bytes L ?c v @ X"
    then have u: "unread r = nat_be 64 ?k @ X" by (simp only: k)
    have val: "readValue L r = (Inr m, advance r 64)"
      using readValue_word [OF assms(4) r(1) u less] k by simp
    have ok: "reader_ok (advance r 64)" using reader_ok_advance [OF r(1) u] by simp
    have nm: "int_name_bits (coder_name ?c) = Some (sz * 8)"
      using int_name_bits_number [of sg "sz * 8"] by simp
    have inv: "(if sg then big_fromTwos L (big_mask L m (sz * 8)) (sz * 8)
        else big_mask L m (sz * 8)) = n"
      unfolding m_def by (rule number_decoded [OF assms(4) _ _ n(2) refl]) (use assms(1) in simp_all)
    have "coerce L (coder_name ?c) (JBN n) (advance r 64) = (Inr (abi_value L ?c v), advance r 64)"
    proof (cases "sz \<le> 6")
      case True
      then have "\<bar>n\<bar> \<le> MAX_SAFE_INTEGER" using small_number_safe [OF _ _ n(2)] assms(1) by simp
      with True n(1) nm ok assms(4) show ?thesis
        by (simp add: coerce_def reader_ok_def default_coerce_def num_of_def bignum_okD
            del: coder_name.simps)
    next
      case False
      with n(1) nm ok show ?thesis
        by (simp add: coerce_def reader_ok_def default_coerce_def num_of_def del: coder_name.simps)
    qed
    then show "\<exists>r'. decode L ?c r = (Inr (abi_value L ?c v), r') \<and>
        (dynamic ?c \<or> r' = advance r (length (abi_bytes L ?c v)))"
      using val inv by (cases sg)
        (simp_all add: bindS_def Let_def len del: coder_name.simps abi_value.simps abi_bytes.simps)
  qed
qed

lemma address_reads:
  assumes "wf_coder (AddressCoder nm)" and "abi_ok L (AddressCoder nm) v"
    and "int (length (abi_bytes L (AddressCoder nm) v)) < MAX_SAFE_INTEGER"
    and "bignum_ok L" and "ethers_bytes_ok L" and "crypto_ok L" and "zod_ok L"
  shows "reads (decode L (AddressCoder nm)) (dynamic (AddressCoder nm)) (abi_bytes L (AddressCoder nm) v) (abi_value L (AddressCoder nm) v)"
proof -
  from assms obtain s where s: "v = JStr s" "isAddressString L (JStr s) True"
    by (auto simp: isAddressString_def split: jsval.splits)
  then have "qrl_address_regex s" by (simp add: isAddressString_def split: if_splits)
  then obtain q b where b: "s = q # b" "length b = 128" "list_all is_hex_char b"
    by (elim qrl_address_regexE)
  have less: "digits_val 16 b < 2 ^ 512" using digits_val_bound [OF b(3)] b(2) by simp
  show ?thesis
    unfolding reads_def
    using readValue_word [OF assms(4) _ _ less] decode_address_ok [OF assms(5-7) b(3,2)] s b
    by (auto simp: bindS_def str_of_def)
qed

lemma boolean_reads:
  assumes "wf_coder (BooleanCoder nm)" and "abi_ok L (BooleanCoder nm) v"
    and "int (length (abi_bytes L (BooleanCoder nm) v)) < MAX_SAFE_INTEGER"
    and "bignum_ok L" and "ethers_bytes_ok L" and "crypto_ok L" and "zod_ok L"
  shows "reads (decode L (BooleanCoder nm)) (dynamic (BooleanCoder nm)) (abi_bytes L (BooleanCoder nm) v) (abi_value L (BooleanCoder nm) v)"
proof -
  show ?thesis
    unfolding reads_def
  proof (intro allI impI, elim conjE)
    fix r X
    assume r: "reader_ok r" "unread r = abi_bytes L (BooleanCoder nm) v @ X"
    let ?n = "if js_truthy v then 1 else 0 :: nat"
    have u: "unread r = nat_be 64 ?n @ X" using r(2) by simp
    have "readValue L r = (Inr (int ?n), advance r 64)"
      using assms(4) r(1) u by (rule readValue_word) simp
    moreover have "reader_ok (advance r 64)" using reader_ok_advance [OF r(1) u] by simp
    ultimately show "\<exists>r'. decode L (BooleanCoder nm) r = (Inr (abi_value L (BooleanCoder nm) v), r') \<and>
        (dynamic (BooleanCoder nm) \<or> r' = advance r (length (abi_bytes L (BooleanCoder nm) v)))"
      by (simp add: bindS_def coerce_default int_name_bits_others)
  qed
qed

lemma bytes_reads:
  assumes "wf_coder (BytesCoder nm)" and "abi_ok L (BytesCoder nm) v"
    and "int (length (abi_bytes L (BytesCoder nm) v)) < MAX_SAFE_INTEGER"
    and "bignum_ok L" and "ethers_bytes_ok L" and "crypto_ok L" and "zod_ok L"
  shows "reads (decode L (BytesCoder nm)) (dynamic (BytesCoder nm)) (abi_bytes L (BytesCoder nm) v) (abi_value L (BytesCoder nm) v)"
proof -
  from assms obtain bs where bs: "arrayify L v = Inr bs" by (auto split: sum.splits)
  have len: "int (length bs) \<le> MAX_SAFE_INTEGER"
    using assms(3) bs alignedLength_ge [of "length bs"] by (simp add: bytes_of_def sized_bytes_def)
  show ?thesis
    unfolding reads_def
  proof (intro allI impI, elim conjE)
    fix r X
    assume r: "reader_ok r" "unread r = abi_bytes L (BytesCoder nm) v @ X"
    then have u: "unread r = sized_bytes bs @ X" using bs by (simp add: bytes_of_def)
    from decode_bytes_reads [OF assms(4) r(1) u len] bs assms(5)
    show "\<exists>r'. decode L (BytesCoder nm) r = (Inr (abi_value L (BytesCoder nm) v), r') \<and>
        (dynamic (BytesCoder nm) \<or> r' = advance r (length (abi_bytes L (BytesCoder nm) v)))"
      using int_name_bits_others(1) [of "[]"]
      by (simp add: bindS_def coerce_default bytes_of_def ethers_bytes_okD)
  qed
qed

lemma fixed_bytes_reads:
  assumes "wf_coder (FixedBytesCoder sz nm)" and "abi_ok L (FixedBytesCoder sz nm) v"
    and "int (length (abi_bytes L (FixedBytesCoder sz nm) v)) < MAX_SAFE_INTEGER"
    and "bignum_ok L" and "ethers_bytes_ok L" and "crypto_ok L" and "zod_ok L"
  shows "reads (decode L (FixedBytesCoder sz nm)) (dynamic (FixedBytesCoder sz nm)) (abi_bytes L (FixedBytesCoder sz nm) v) (abi_value L (FixedBytesCoder sz nm) v)"
proof -
  let ?c = "FixedBytesCoder sz nm"
  obtain bs where bs: "arrayify L v = Inr bs" "length bs = sz" using assms(2) by (auto split: sum.splits)
  show ?thesis
    unfolding reads_def
  proof (intro allI impI, elim conjE)
    fix r X
    assume r: "reader_ok r" "unread r = abi_bytes L ?c v @ X"
    then have u: "unread r = pad_right bs @ X" using bs by (simp add: bytes_of_def)
    have ok: "reader_ok (advance r (length (pad_right bs)))" using r(1) u by (rule unread_advance)
    have "int_name_bits (coder_name ?c) = None" using int_name_bits_others(1) [of "dec_str sz"] by simp
    with coerce_default [OF ok] readBytes_padded [OF r(1) u, of False] bs assms(5)
    show "\<exists>r'. decode L ?c r = (Inr (abi_value L ?c v), r') \<and>
        (dynamic ?c \<or> r' = advance r (length (abi_bytes L ?c v)))"
      by (simp add: bindS_def bytes_of_def ethers_bytes_okD del: coder_name.simps)
  qed
qed

lemma string_reads:
  assumes "wf_coder (StringCoder nm)" and "abi_ok L (StringCoder nm) v"
    and "int (length (abi_bytes L (StringCoder nm) v)) < MAX_SAFE_INTEGER"
    and "bignum_ok L" and "ethers_bytes_ok L" and "crypto_ok L" and "zod_ok L"
  shows "reads (decode L (StringCoder nm)) (dynamic (StringCoder nm)) (abi_bytes L (StringCoder nm) v) (abi_value L (StringCoder nm) v)"
proof -
  from assms obtain s where s: "v = JStr s" by (auto simp: isString_def typeof_def split: jsval.splits)
  let ?bs = "utf8_encode s"
  have len: "int (length ?bs) \<le> MAX_SAFE_INTEGER"
    using assms(3) s alignedLength_ge [of "length ?bs"] by (simp add: str_of_def sized_bytes_def)
  show ?thesis
    unfolding reads_def
    using decode_bytes_reads(1) [OF assms(4) _ _ len] s assms(6)
    by (auto simp: bindS_def str_of_def crypto_okD)
qed

lemma null_reads:
  assumes "wf_coder (NullCoder nm)" and "abi_ok L (NullCoder nm) v"
    and "int (length (abi_bytes L (NullCoder nm) v)) < MAX_SAFE_INTEGER"
    and "bignum_ok L" and "ethers_bytes_ok L" and "crypto_ok L" and "zod_ok L"
  shows "reads (decode L (NullCoder nm)) (dynamic (NullCoder nm)) (abi_bytes L (NullCoder nm) v) (abi_value L (NullCoder nm) v)"
proof -
  show ?thesis
    unfolding reads_def
  proof (intro allI impI, elim conjE)
    fix r X
    assume r: "reader_ok r" "unread r = abi_bytes L (NullCoder nm) v @ X"
    have "readBytes 0 False r = (Inr [], advance r 0)"
      using readBytes_padded [of r "[]" X False] r by (simp add: pad_right_def)
    with r(1) show "\<exists>r'. decode L (NullCoder nm) r = (Inr (abi_value L (NullCoder nm) v), r') \<and>
        (dynamic (NullCoder nm) \<or> r' = advance r (length (abi_bytes L (NullCoder nm) v)))"
      by (simp add: bindS_def coerce_default int_name_bits_others)
  qed
qed

lemma array_reads:
  assumes "\<And>x. x \<in> set (elems_of v) \<Longrightarrow> wf_coder c \<Longrightarrow> abi_ok L c x \<Longrightarrow> int (length (abi_bytes L c x)) < MAX_SAFE_INTEGER
      \<Longrightarrow> reads (decode L (c)) (dynamic (c)) (abi_bytes L (c) x) (abi_value L (c) x)"
    and "wf_coder (ArrayCoder c n nm)" and "abi_ok L (ArrayCoder c n nm) v"
    and "int (length (abi_bytes L (ArrayCoder c n nm) v)) < MAX_SAFE_INTEGER"
    and "bignum_ok L" and "ethers_bytes_ok L" and "crypto_ok L" and "zod_ok L"
  shows "reads (decode L (ArrayCoder c n nm)) (dynamic (ArrayCoder c n nm)) (abi_bytes L (ArrayCoder c n nm) v) (abi_value L (ArrayCoder c n nm) v)"
proof -
  define vs where "vs = elems_of v"
  let ?cs = "replicate (length vs) c" and ?as = "replicate (length vs) (AnonymousCoder c)"
    and ?c = "ArrayCoder c n nm"
  have n: "n = - 1 \<or> n = int (length vs)" using assms(3) by (simp add: vs_def)
  have heads: "enc_heads (abi_bytes L) off ?as vs = enc_heads (abi_bytes L) off ?cs vs"
    and tails: "enc_tails (abi_bytes L) ?as vs = enc_tails (abi_bytes L) ?cs vs" for off
    by (simp_all add: enc_replicate_anonymous)
  have tuple: "enc_tuple (abi_bytes L) ?as vs = enc_tuple (abi_bytes L) ?cs vs"
    by (simp add: enc_tuple_def heads tails)
  have e: "abi_bytes L ?c v = (if n = - 1 then nat_be 64 (length vs) else []) @
      enc_tuple (abi_bytes L) ?as vs"
    unfolding tuple by (simp add: vs_def)
  have val: "abi_value L ?c v = assembled ?as (map (\<lambda>(c, x). abi_value L c x) (zip ?as vs))"
    by (simp add: vs_def zip_replicate1 comp_def)
  have el: "wf_coder c \<and> abi_ok L c x \<and> int (length (abi_bytes L c x)) < MAX_SAFE_INTEGER \<and> c \<in> set ?cs"
    if "x \<in> set vs" for x
  proof -
    have "(c, x) \<in> set (zip ?cs vs)" using that by (simp add: zip_replicate1)
    from length_enc_elem [OF this, of "abi_bytes L"] set_zip_leftD [OF this] that assms(2-4) show ?thesis
      unfolding e tuple by (auto simp: list_all_iff vs_def)
  qed
  have rd: "reads (decode L c') (dynamic c') (abi_bytes L c' x) (abi_value L c' x)"
    if "(c', x) \<in> set (zip ?as vs)" for c' x
  proof -
    have cx: "c' = AnonymousCoder c" "x \<in> set vs" using zip_replicate_elem [OF that] by auto
    have "reads (decode L c) (dynamic c) (abi_bytes L c x) (abi_value L c x)"
      using assms(1) el [OF cx(2)] cx(2) by (simp add: vs_def)
    then show ?thesis unfolding cx(1) reads_def by simp
  qed
  have hsize: "length (enc_heads (abi_bytes L) (heads_size ?as) ?as vs) = heads_size ?as"
    using el by (intro length_enc_heads) (auto simp: length_abi_bytes_static dest!: zip_replicate_elem)
  have unp: "unpack L (decode L) ?as r = (Inr (abi_value L ?c v), advance r (heads_size ?as))"
    if "reader_ok r" "unread r = enc_tuple (abi_bytes L) ?as vs @ X" for r X
    unfolding val using rd assms(4,5) that hsize unfolding e
    by (intro unpack_reads) (auto simp: abi_value_no_error split: if_splits)
  show ?thesis
    unfolding reads_def
  proof (intro allI impI, elim conjE)
    fix r X
    assume r: "reader_ok r" "unread r = abi_bytes L ?c v @ X"
    show "\<exists>r'. decode L ?c r = (Inr (abi_value L ?c v), r') \<and>
        (dynamic ?c \<or> r' = advance r (length (abi_bytes L ?c v)))"
    proof (cases "n = - 1")
      case True
      have u: "unread r = nat_be 64 (length vs) @ enc_tuple (abi_bytes L) ?as vs @ X"
        using r(2) True unfolding e by simp
      have bound: "64 * length vs \<le> length (enc_tuple (abi_bytes L) ?as vs)"
        unfolding tuple using array_elems_bound [OF assms(2) True, of vs "abi_bytes L"] el
        by (simp add: length_abi_bytes_static)
      have safe: "int (length vs) \<le> MAX_SAFE_INTEGER"
        using bound assms(4) unfolding e by (simp add: True)
      have num: "readNumber L r = (Inr (length vs), advance r 64)"
        using assms(5) r(1) u safe by (rule readNumber_word)
      have "length vs * 64 \<le> length (rd_data r)"
        using bound length_unread [OF r(1)] u by simp
      then have cnt: "read_count L n r = (Inr (length vs), advance r 64)"
        using num True r(1) by (simp add: read_count_def bindS_def reader_ok_def)
      have a: "unread (advance r 64) = enc_tuple (abi_bytes L) ?as vs @ X" "reader_ok (advance r 64)"
        using unread_advance [OF r(1) u] by simp_all
      have "reader_ok (advance (advance r 64) (heads_size ?as))"
        using a(2) _ hsize [symmetric]
        by (rule reader_ok_advance) (use a(1) in \<open>simp add: enc_tuple_def\<close>)
      with cnt unp [OF a(2,1)] True show ?thesis
        by (simp add: bindS_def coerce_default int_name_bits_others del: abi_value.simps abi_bytes.simps)
    next
      case False
      with n have n: "n = int (length vs)" by simp
      have u: "unread r = enc_tuple (abi_bytes L) ?as vs @ X" using r(2) False unfolding e by simp
      have "reader_ok (advance r (heads_size ?as))"
        using r(1) _ hsize [symmetric]
        by (rule reader_ok_advance) (use u in \<open>simp add: enc_tuple_def\<close>)
      moreover have "dynamic ?c \<or> heads_size ?as = length (abi_bytes L ?c v)"
        unfolding e using hsize False enc_tails_static [of ?as "abi_bytes L" vs]
        by (auto simp: enc_tuple_def)
      ultimately show ?thesis
        using unp [OF r(1) u] n
        by (auto simp: bindS_def read_count_def coerce_default int_name_bits_others
            simp del: abi_value.simps abi_bytes.simps)
    qed
  qed
qed

lemma tuple_reads:
  assumes "\<And>c x. c \<in> set cs \<Longrightarrow> wf_coder c \<Longrightarrow> abi_ok L c x
      \<Longrightarrow> int (length (abi_bytes L c x)) < MAX_SAFE_INTEGER
      \<Longrightarrow> reads (decode L (c)) (dynamic (c)) (abi_bytes L (c) x) (abi_value L (c) x)"
    and "wf_coder (TupleCoder cs nm)" and "abi_ok L (TupleCoder cs nm) v"
    and "int (length (abi_bytes L (TupleCoder cs nm) v)) < MAX_SAFE_INTEGER"
    and "bignum_ok L" and "ethers_bytes_ok L" and "crypto_ok L" and "zod_ok L"
  shows "reads (decode L (TupleCoder cs nm)) (dynamic (TupleCoder cs nm)) (abi_bytes L (TupleCoder cs nm) v) (abi_value L (TupleCoder cs nm) v)"
proof -
  let ?c = "TupleCoder cs nm"
  obtain vs where vs: "pack_values cs v = Inr vs" "list_all (\<lambda>(c, x). abi_ok L c x) (zip cs vs)"
    using assms(3) by (auto split: sum.splits)
  have e: "abi_bytes L ?c v = enc_tuple (abi_bytes L) cs vs"
    and val: "abi_value L ?c v = assembled cs (map (\<lambda>(c, x). abi_value L c x) (zip cs vs))"
    using vs(1) by (simp_all add: vals_of_length)
  have el: "wf_coder c \<and> abi_ok L c x \<and> int (length (abi_bytes L c x)) < MAX_SAFE_INTEGER"
    if "(c, x) \<in> set (zip cs vs)" for c x
    using length_enc_elem [OF that, of "abi_bytes L"] assms(2,4) vs(2) that set_zip_leftD [OF that]
    unfolding e by (auto simp: list_all_iff)
  have rd: "reads (decode L c) (dynamic c) (abi_bytes L c x) (abi_value L c x)"
    if "(c, x) \<in> set (zip cs vs)" for c x
    using assms(1) [OF set_zip_leftD [OF that]] el [OF that] assms(5-8) by blast
  have heads: "length (enc_heads (abi_bytes L) (heads_size cs) cs vs) = heads_size cs"
    using vs(1) el by (intro length_enc_heads) (auto simp: pack_values_length length_abi_bytes_static)
  show ?thesis
    unfolding reads_def
  proof (intro allI impI, elim conjE)
    fix r X
    assume r: "reader_ok r" "unread r = abi_bytes L ?c v @ X"
    have u: "unread r = enc_tuple (abi_bytes L) cs vs @ X" using r(2) unfolding e .
    have "unpack L (decode L) cs r = (Inr (abi_value L ?c v), advance r (heads_size cs))"
      unfolding val using vs(1) rd assms(4,5) r heads unfolding e
      by (intro unpack_reads) (auto simp: pack_values_length abi_value_no_error)
    moreover have "reader_ok (advance r (heads_size cs))"
      using r(1) _ heads [symmetric]
      by (rule reader_ok_advance) (use u in \<open>simp add: enc_tuple_def\<close>)
    moreover have "dynamic ?c \<or> heads_size cs = length (abi_bytes L ?c v)"
      unfolding e using heads enc_tails_static [of cs "abi_bytes L" vs]
      by (auto simp: enc_tuple_def)
    ultimately show "\<exists>r'. decode L ?c r = (Inr (abi_value L ?c v), r') \<and>
        (dynamic ?c \<or> r' = advance r (length (abi_bytes L ?c v)))"
      by (auto simp: bindS_def coerce_default int_name_bits_others simp del: abi_value.simps)
  qed
qed

lemma decode_reads:
  assumes "bignum_ok L" and "ethers_bytes_ok L" and "crypto_ok L" and "zod_ok L"
  shows "wf_coder c \<Longrightarrow> abi_ok L c v \<Longrightarrow> int (length (abi_bytes L c v)) < MAX_SAFE_INTEGER
    \<Longrightarrow> reads (decode L c) (dynamic c) (abi_bytes L c v) (abi_value L c v)"
  using assms
proof (induction L c v rule: abi_bytes.induct)
  case (1 L sz sg nm v)
  then show ?case by (intro number_reads)
next
  case (2 L nm v)
  then show ?case by (intro address_reads)
next
  case (3 L nm v)
  then show ?case by (intro boolean_reads)
next
  case (4 L nm v)
  then show ?case by (intro bytes_reads)
next
  case (5 L sz nm v)
  then show ?case by (intro fixed_bytes_reads)
next
  case (6 L nm v)
  then show ?case by (intro string_reads)
next
  case (7 L nm v)
  then show ?case by (intro null_reads)
next
  case (8 L c n nm v)
  have "reads (decode L c) (dynamic c) (abi_bytes L c x) (abi_value L c x)"
    if "x \<in> set (elems_of v)" "wf_coder c" "abi_ok L c x"
      "int (length (abi_bytes L c x)) < MAX_SAFE_INTEGER" for x
  proof -
    have "c \<in> set (replicate (length (elems_of v)) c)" using that(1) by (cases "elems_of v") auto
    with 8(1,5-8) that(2-4) show ?thesis by blast
  qed
  then show ?case using 8(2-8) by (rule array_reads)
next
  case (9 L cs nm v)
  have "reads (decode L c) (dynamic c) (abi_bytes L c x) (abi_value L c x)"
    if "c \<in> set cs" "wf_coder c" "abi_ok L c x"
      "int (length (abi_bytes L c x)) < MAX_SAFE_INTEGER" for c x
    using 9(1,5-8) that by blast
  then show ?case using 9(2-8) by (rule tuple_reads)
next
  case (10 L c v)
  then show ?case by (simp add: reads_def)
qed

end
