(* ===== verification/Fragments.thy ===== *)
theory Fragments
  imports AbiDecode
begin

text \<open>
  \<^verbatim>\<open>packages/abi/src/fragments.ts\<close>: the parser of human-readable parameter types, the parameter types
  with their formats, and the fragments of a contract interface with their parsing and formatting. The
  parse tree, which the source links by parent pointers, is kept as the node being read together with
  the stack of its ancestors.
\<close>

section \<open>Types and modifiers\<close>

definition starts_elementary :: "string \<Rightarrow> string \<Rightarrow> bool" where
  "starts_elementary p t =
     (startsWith t p \<and>
      (case drop (length p) t of [] \<Rightarrow> True | c # _ \<Rightarrow> \<not> (is_dec_char c \<and> c \<noteq> CHR ''0'')))"

definition verifyType :: "string \<Rightarrow> string" where
  "verifyType t =
     (if starts_elementary ''uint'' t then ''uint512'' @ drop 4 t
      else if starts_elementary ''int'' t then ''int512'' @ drop 3 t
      else t)"

text \<open>
  The tables of modifiers are plain objects, so the names every object inherits are found in them too.
\<close>

definition ModifiersBytes :: "string \<Rightarrow> bool" where
  "ModifiersBytes name = (name \<in> set ([''calldata'', ''memory'', ''storage''] @ objectProtoNames))"

definition ModifiersNest :: "string \<Rightarrow> bool" where
  "ModifiersNest name = (name \<in> set ([''calldata'', ''memory''] @ objectProtoNames))"

definition checkModifier :: "string \<Rightarrow> string \<Rightarrow> js_error + bool" where
  "checkModifier type name =
     (if (type = ''bytes'' \<or> type = ''string'') \<and> ModifiersBytes name then Inr True
      else if type = ''address'' \<and> name = ''payable'' then Inr True
      else if type \<noteq> ''bytes'' \<and> type \<noteq> ''string'' \<and> type \<noteq> ''address'' \<and>
              (CHR ''['' \<in> set type \<or> type = ''tuple'') \<and> ModifiersNest name then Inr True
      else if ModifiersBytes name \<or> name = ''payable'' then Inl (arg_error ''invalid modifier'')
      else Inr False)"

section \<open>The parameter type parser\<close>

datatype parse_node = ParseNode
  (pn_type: string) (pn_name: string) (pn_indexed: "bool option")
  (pn_components: "parse_node list option")

record parse_state =
  allowType :: bool
  allowArray :: bool
  allowName :: bool
  allowParams :: bool
  readArray :: bool

record open_node =
  on_type :: string
  on_name :: string
  on_indexed :: "bool option"
  on_components :: "parse_node list option"
  on_state :: parse_state

definition fresh_state :: parse_state where
  "fresh_state = \<lparr>allowType = True, allowArray = False, allowName = False, allowParams = False,
     readArray = False\<rparr>"

definition root_node :: open_node where
  "root_node = \<lparr>on_type = [], on_name = [], on_indexed = None, on_components = None,
     on_state = fresh_state\<rparr>"

definition newNode :: "bool \<Rightarrow> open_node" where
  "newNode allowIndexed = root_node\<lparr>on_indexed := if allowIndexed then Some False else None\<rparr>"

definition close_node :: "open_node \<Rightarrow> parse_node" where
  "close_node n = ParseNode (on_type n) (on_name n) (on_indexed n) (on_components n)"

text \<open>The node being read and its ancestors, each with the children it has already.\<close>

type_synonym parser = "open_node \<times> (open_node \<times> parse_node list) list"

definition unexpected :: js_error where
  "unexpected = arg_error ''unexpected character''"

text \<open>The end of a node's text: the name may be the word \<^verbatim>\<open>indexed\<close> or a modifier.\<close>

definition end_node :: "bool \<Rightarrow> open_node \<Rightarrow> js_error + open_node" where
  "end_node allowIndexed n =
     bindR
       (if on_name n = ''indexed'' then
          if \<not> allowIndexed then Inl unexpected
          else Inr (n\<lparr>on_indexed := Some True, on_name := []\<rparr>)
        else Inr n)
       (\<lambda>n1. bindR (checkModifier (on_type n1) (on_name n1)) (\<lambda>m.
         let n2 = (if m then n1\<lparr>on_name := []\<rparr> else n1) in
         Inr (n2\<lparr>on_type := verifyType (on_type n2)\<rparr>)))"

definition read_open :: "bool \<Rightarrow> parser \<Rightarrow> js_error + parser" where
  "read_open allowIndexed p =
     (let (n, stack) = p; st = on_state n in
      if \<not> (allowType st \<and> on_type n = []) \<and> \<not> allowParams st then Inl unexpected
      else
        let t = (if allowType st \<and> on_type n = [] then ''tuple'' else on_type n);
            n1 = n\<lparr>on_type := verifyType t, on_state := st\<lparr>allowType := False\<rparr>\<rparr> in
        Inr (newNode allowIndexed, (n1, []) # stack))"

definition read_close :: "bool \<Rightarrow> parser \<Rightarrow> js_error + parser" where
  "read_close allowIndexed p =
     (let (n, stack) = p in
      bindR (end_node allowIndexed n) (\<lambda>child.
        case stack of
          [] \<Rightarrow> Inl unexpected
        | (parent, siblings) # rest \<Rightarrow>
            Inr (parent\<lparr>on_components := Some (siblings @ [close_node child]),
                   on_state := (on_state parent)\<lparr>allowParams := False, allowName := True,
                     allowArray := True\<rparr>\<rparr>, rest)))"

definition read_comma :: "bool \<Rightarrow> parser \<Rightarrow> js_error + parser" where
  "read_comma allowIndexed p =
     (let (n, stack) = p in
      bindR (end_node allowIndexed n) (\<lambda>child.
        case stack of
          [] \<Rightarrow> Inl (mk_err (ErrClass ''TypeError'') ''Cannot read properties of undefined'')
        | (parent, siblings) # rest \<Rightarrow>
            Inr (newNode allowIndexed, (parent, siblings @ [close_node child]) # rest)))"

definition read_space :: "bool \<Rightarrow> open_node \<Rightarrow> js_error + open_node" where
  "read_space allowIndexed n =
     (let n1 =
        (if allowType (on_state n) \<and> on_type n \<noteq> [] then
           n\<lparr>on_type := verifyType (on_type n),
             on_state := (on_state n)\<lparr>allowType := False, allowName := True, allowParams := True\<rparr>\<rparr>
         else n) in
      if allowName (on_state n1) \<and> on_name n1 \<noteq> [] then
        if on_name n1 = ''indexed'' then
          if \<not> allowIndexed \<or> on_indexed n1 = Some True then Inl unexpected
          else Inr (n1\<lparr>on_indexed := Some True, on_name := []\<rparr>)
        else bindR (checkModifier (on_type n1) (on_name n1)) (\<lambda>m.
          Inr (if m then n1\<lparr>on_name := []\<rparr>
               else n1\<lparr>on_state := (on_state n1)\<lparr>allowName := False\<rparr>\<rparr>))
      else Inr n1)"

definition read_bracket :: "open_node \<Rightarrow> js_error + open_node" where
  "read_bracket n =
     (if \<not> allowArray (on_state n) then Inl unexpected
      else Inr (n\<lparr>on_type := on_type n @ ''['',
        on_state := (on_state n)\<lparr>allowArray := False, allowName := False, readArray := True\<rparr>\<rparr>))"

definition read_unbracket :: "open_node \<Rightarrow> js_error + open_node" where
  "read_unbracket n =
     (if \<not> readArray (on_state n) then Inl unexpected
      else Inr (n\<lparr>on_type := on_type n @ '']'',
        on_state := (on_state n)\<lparr>readArray := False, allowArray := True, allowName := True\<rparr>\<rparr>))"

definition read_other :: "char \<Rightarrow> open_node \<Rightarrow> js_error + open_node" where
  "read_other c n =
     (let st = on_state n in
      if allowType st then
        Inr (n\<lparr>on_type := on_type n @ [c], on_state := st\<lparr>allowParams := True, allowArray := True\<rparr>\<rparr>)
      else if allowName st then
        Inr (n\<lparr>on_name := on_name n @ [c], on_state := st\<lparr>allowArray := False\<rparr>\<rparr>)
      else if readArray st then Inr (n\<lparr>on_type := on_type n @ [c]\<rparr>)
      else Inl unexpected)"

definition parse_char :: "bool \<Rightarrow> char \<Rightarrow> parser \<Rightarrow> js_error + parser" where
  "parse_char allowIndexed c p =
     (if c = CHR ''('' then read_open allowIndexed p
      else if c = CHR '')'' then read_close allowIndexed p
      else if c = CHR '','' then read_comma allowIndexed p
      else
        map_sum id (\<lambda>n. (n, snd p))
          (if c = CHR '' '' then read_space allowIndexed (fst p)
           else if c = CHR ''['' then read_bracket (fst p)
           else if c = CHR '']'' then read_unbracket (fst p)
           else read_other c (fst p)))"

fun parse_chars :: "bool \<Rightarrow> string \<Rightarrow> parser \<Rightarrow> js_error + parser" where
  "parse_chars allowIndexed [] p = Inr p"
| "parse_chars allowIndexed (c # cs) p =
     bindR (parse_char allowIndexed c p) (parse_chars allowIndexed cs)"

text \<open>White space of any kind counts as one space.\<close>

definition spaces_only :: "string \<Rightarrow> string" where
  "spaces_only s = map (\<lambda>c. if is_space c then CHR '' '' else c) s"

definition finish_root :: "bool \<Rightarrow> open_node \<Rightarrow> js_error + parse_node" where
  "finish_root allowIndexed n =
     bindR
       (if on_name n = ''indexed'' then
          if \<not> allowIndexed \<or> on_indexed n = Some True then Inl unexpected
          else Inr (n\<lparr>on_indexed := Some True, on_name := []\<rparr>)
        else bindR (checkModifier (on_type n) (on_name n)) (\<lambda>m.
          Inr (if m then n\<lparr>on_name := []\<rparr> else n)))
       (\<lambda>n. Inr (close_node (n\<lparr>on_type := verifyType (on_type n)\<rparr>)))"

definition parseParamType :: "string \<Rightarrow> bool \<Rightarrow> js_error + parse_node" where
  "parseParamType param allowIndexed =
     bindR (parse_chars allowIndexed (spaces_only param) (root_node, [])) (\<lambda>(n, stack).
       if stack \<noteq> [] then Inl (arg_error ''unexpected eof'') else finish_root allowIndexed n)"

section \<open>Parameter types\<close>

datatype param_type = ParamType
  (pt_name: "string option") (pt_type: string) (pt_baseType: string) (pt_indexed: "bool option")
  (pt_components: "param_type list option") (pt_arrayLength: "int option")
  (pt_arrayChildren: "param_type option")

text \<open>\<^verbatim>\<open>^(.*)\[([0-9]*)\]$\<close>: the element type and the digits of the length.\<close>

definition array_match :: "string \<Rightarrow> (string \<times> string) option" where
  "array_match t =
     (case rev t of
        c # r \<Rightarrow>
          if c = CHR '']'' then
            (case dropWhile is_dec_char r of
               d # u \<Rightarrow>
                 if d = CHR ''['' then Some (rev u, rev (takeWhile is_dec_char r)) else None
             | [] \<Rightarrow> None)
          else None
      | [] \<Rightarrow> None)"

lemma array_match_Some:
  assumes "array_match t = Some (u, ds)"
  shows "t = u @ ''['' @ ds @ '']''" and "list_all is_dec_char ds"
proof -
  obtain r where r: "rev t = CHR '']'' # r"
    and u: "dropWhile is_dec_char r = CHR ''['' # rev u" and ds: "ds = rev (takeWhile is_dec_char r)"
    using assms by (auto simp: array_match_def split: list.splits if_splits)
  have "r = takeWhile is_dec_char r @ CHR ''['' # rev u" using u by (metis takeWhile_dropWhile_id)
  then have "rev r = u @ ''['' @ ds" using ds by (metis append.assoc append_Cons append_Nil
        rev.simps(2) rev_append rev_rev_ident)
  with r show "t = u @ ''['' @ ds @ '']''" by (metis append.assoc rev.simps(2) rev_rev_ident)
  show "list_all is_dec_char ds" using ds by (auto simp: list_all_iff dest: set_takeWhileD)
qed

lemma array_match_append:
  "list_all is_dec_char ds \<Longrightarrow> array_match (u @ ''['' @ ds @ '']'') = Some (u, ds)"
proof -
  have not: "\<not> is_dec_char (CHR ''['')" by (simp add: is_digit_of_def digit_val_def char_code_def)
  assume ds: "list_all is_dec_char ds"
  then have "dropWhile is_dec_char (rev ds @ CHR ''['' # rev u) = CHR ''['' # rev u"
    "takeWhile is_dec_char (rev ds @ CHR ''['' # rev u) = rev ds"
    using not by (auto simp: list_all_iff dropWhile_append takeWhile_append)
  then show ?thesis by (simp add: array_match_def)
qed

definition closes :: "string \<Rightarrow> nat" where
  "closes s = count_list s (CHR '']'')"

lemma closes_verifyType: "closes (verifyType t) = closes t"
proof -
  have "closes (''uint512'' @ drop 4 t) = closes t" if u: "starts_elementary ''uint'' t"
  proof -
    obtain s where "t = ''uint'' @ s"
      using u startsWithE [of t "''uint''"] unfolding starts_elementary_def by blast
    then show ?thesis by (simp add: closes_def)
  qed
  moreover have "closes (''int512'' @ drop 3 t) = closes t" if u: "starts_elementary ''int'' t"
  proof -
    obtain s where "t = ''int'' @ s"
      using u startsWithE [of t "''int''"] unfolding starts_elementary_def by blast
    then show ?thesis by (simp add: closes_def)
  qed
  ultimately show ?thesis by (simp add: verifyType_def)
qed

function make_param ::
  "string option \<Rightarrow> string \<Rightarrow> bool option \<Rightarrow> param_type list option \<Rightarrow> param_type" where
  "make_param nm t ix comps =
     (case array_match t of
        Some (u, ds) \<Rightarrow> ParamType nm t ''array'' ix comps
          (Some (if ds = [] then - 1 else int (digits_val 10 ds)))
          (Some (make_param None (verifyType u) None comps))
      | None \<Rightarrow> ParamType nm t (if comps \<noteq> None then ''tuple'' else t) ix comps None None)"
  by pat_completeness auto
termination
  by (relation "measure (\<lambda>(nm, t, ix, comps). closes t)")
     (auto simp: closes_verifyType dest!: array_match_Some(1), simp add: closes_def)

declare make_param.simps [simp del]

text \<open>
  A parameter as JSON input: an object with optional fields, or a value that is a parameter type
  already. A missing type is a \<^verbatim>\<open>TypeError\<close>.
\<close>

datatype json_param =
    JsonParam "string option" "string option" "bool option" "json_param list option"
  | JsonDone param_type

definition name_or_null :: "string option \<Rightarrow> string option" where
  "name_or_null nm = (if nm = Some [] then None else nm)"

fun fromObject :: "json_param \<Rightarrow> js_error + param_type" where
  "fromObject (JsonDone p) = Inr p"
| "fromObject (JsonParam nm t ix comps) =
     (case t of
        None \<Rightarrow> Inl (mk_err (ErrClass ''TypeError'') ''Cannot read properties of undefined'')
      | Some ty \<Rightarrow>
          bindR
            (case comps of
               None \<Rightarrow> Inr None
             | Some cs \<Rightarrow> map_sum id Some (mapR (\<lambda>c. fromObject c) cs))
            (\<lambda>comps'. Inr (make_param (name_or_null nm) (verifyType ty) ix comps')))"

fun node_param :: "parse_node \<Rightarrow> json_param" where
  "node_param (ParseNode t nm ix comps) =
     JsonParam (Some nm) (Some t) ix (map_option (map (\<lambda>c. node_param c)) comps)"

definition ParamType_fromString :: "string \<Rightarrow> bool \<Rightarrow> js_error + param_type" where
  "ParamType_fromString s allowIndexed =
     bindR (parseParamType s allowIndexed) (\<lambda>n. fromObject (node_param n))"

datatype type_arg = TypeText string | TypeObject json_param

definition ParamType_from :: "type_arg \<Rightarrow> bool \<Rightarrow> js_error + param_type" where
  "ParamType_from a allowIndexed = (case a of
      TypeText s \<Rightarrow> ParamType_fromString s allowIndexed | TypeObject j \<Rightarrow> fromObject j)"

section \<open>Formats\<close>

definition FormatTypes :: "string list" where
  "FormatTypes = [''sighash'', ''minimal'', ''full'', ''json'']"

text \<open>
  No format is the format of a signature hash; an unknown one is refused, unless it is a name every
  object inherits, since the formats are looked up in a plain object.
\<close>

definition check_format :: "string \<Rightarrow> js_error + string" where
  "check_format f =
     (let f' = (if f = [] then ''sighash'' else f) in
      if f' \<notin> set (FormatTypes @ objectProtoNames) then Inl (arg_error ''invalid format type'') else Inr f')"

definition json_object :: "(string \<times> string option) list \<Rightarrow> string" where
  "json_object kvs = ''{'' @ join_with '','' (concat (map (\<lambda>(k, t). case t of
     None \<Rightarrow> [] | Some u \<Rightarrow> [json_quote k @ '':'' @ u]) kvs)) @ ''}''"

definition json_list :: "string list \<Rightarrow> string" where
  "json_list ts = ''['' @ join_with '','' ts @ '']''"

definition json_bool :: "bool \<Rightarrow> string" where
  "json_bool b = (if b then ''true'' else ''false'')"

definition some_text :: "string option \<Rightarrow> string option" where
  "some_text nm = (case nm of None \<Rightarrow> None | Some s \<Rightarrow> if s = [] then None else Some (json_quote s))"

definition format_sep :: "string \<Rightarrow> string" where
  "format_sep f = (if f = ''full'' then '', '' else '','')"

text \<open>The text for a format that has been checked.\<close>

fun format_param :: "string \<Rightarrow> param_type \<Rightarrow> string" where
  "format_param f (ParamType nm t bt ix comps len child) =
     (if f = ''json'' then
        json_object
          [(''type'', Some (json_quote (if bt = ''tuple'' then ''tuple'' else t))),
           (''name'', some_text nm),
           (''indexed'', map_option json_bool ix),
           (''components'', map_option (\<lambda>cs. json_list (map (\<lambda>c. format_param f c) cs)) comps)]
      else
        (if bt = ''array'' then
           (case child of Some ch \<Rightarrow> format_param f ch | None \<Rightarrow> []) @
           ''['' @ (case len of Some n \<Rightarrow> if n < 0 then [] else int_str 10 n | None \<Rightarrow> ''null'') @ '']''
         else if bt = ''tuple'' then
           (if f \<noteq> ''sighash'' then t else []) @
           ''('' @ join_with (format_sep f)
             (map (\<lambda>c. format_param f c) (case comps of Some cs \<Rightarrow> cs | None \<Rightarrow> [])) @ '')''
         else t) @
        (if f \<noteq> ''sighash'' then
           (if ix = Some True then '' indexed'' else []) @
           (if f = ''full'' then
              (case nm of None \<Rightarrow> [] | Some s \<Rightarrow> if s = [] then [] else '' '' @ s)
            else [])
         else []))"

definition ParamType_format :: "string \<Rightarrow> param_type \<Rightarrow> js_error + string" where
  "ParamType_format f p = map_sum id (\<lambda>f'. format_param f' p) (check_format f)"

section \<open>Splitting\<close>

fun split_nesting_loop :: "string \<Rightarrow> string \<Rightarrow> nat \<Rightarrow> js_error + string list" where
  "split_nesting_loop [] accum depth = Inr (if accum \<noteq> [] then [accum] else [])"
| "split_nesting_loop (c # s) accum depth =
     (if c = CHR '','' \<and> depth = 0
      then bindR (split_nesting_loop s [] 0) (\<lambda>ts. Inr (accum # ts))
      else if c = CHR ''('' then split_nesting_loop s (accum @ [c]) (Suc depth)
      else if c = CHR '')'' then
        (case depth of
           0 \<Rightarrow> Inl (arg_error ''unbalanced parenthesis'')
         | Suc d \<Rightarrow> split_nesting_loop s (accum @ [c]) d)
      else split_nesting_loop s (accum @ [c]) depth)"

definition splitNesting :: "string \<Rightarrow> js_error + string list" where
  "splitNesting s = split_nesting_loop (trim s) [] 0"

definition parseParams :: "string \<Rightarrow> bool \<Rightarrow> js_error + param_type list" where
  "parseParams s allowIndex =
     bindR (splitNesting s) (\<lambda>ts. mapR (\<lambda>t. ParamType_fromString t allowIndex) ts)"

definition is_letter :: "char \<Rightarrow> bool" where
  "is_letter c =
     (let n = char_code c in 65 \<le> n \<and> n \<le> 90 \<or> 97 \<le> n \<and> n \<le> 122 \<or> c = CHR ''$'' \<or> c = CHR ''_'')"

definition is_identifier :: "string \<Rightarrow> bool" where
  "is_identifier s = (case s of
      [] \<Rightarrow> False
    | c # t \<Rightarrow> is_letter c \<and> list_all (\<lambda>d. is_letter d \<or> is_dec_char d) t)"

definition verifyIdentifier :: "string option \<Rightarrow> js_error + string" where
  "verifyIdentifier v = (case v of
      Some s \<Rightarrow> if is_identifier s then Inr s else Inl (arg_error ''invalid identifier'')
    | None \<Rightarrow> Inl (arg_error ''invalid identifier''))"

text \<open>\<^verbatim>\<open>^([^)(]*)\((.*)\)([^)(]*)$\<close>\<close>

definition not_paren :: "char \<Rightarrow> bool" where
  "not_paren c = (c \<noteq> CHR ''('' \<and> c \<noteq> CHR '')'')"

definition paren_match :: "string \<Rightarrow> (string \<times> string \<times> string) option" where
  "paren_match s =
     (case dropWhile not_paren s of
        c # t \<Rightarrow>
          if c = CHR ''('' then
            (case dropWhile not_paren (rev t) of
               d # u \<Rightarrow>
                 if d = CHR '')''
                 then Some (takeWhile not_paren s, rev u, rev (takeWhile not_paren (rev t)))
                 else None
             | [] \<Rightarrow> None)
          else None
      | [] \<Rightarrow> None)"

section \<open>Fragments\<close>

datatype fragment =
    EventFragment string "bool option" "param_type list"
  | ConstructorFragment "param_type list" bool string "int option"
  | FunctionFragment string bool "param_type list" "param_type list" bool string "int option"
  | ErrorFragment string "param_type list"

record json_fragment =
  jf_type :: "string option"
  jf_name :: "string option"
  jf_anonymous :: "bool option"
  jf_payable :: "bool option"
  jf_constant :: "bool option"
  jf_stateMutability :: "string option"
  jf_inputs :: "json_param list option"
  jf_outputs :: "json_param list option"
  jf_gas :: jsval

definition empty_json :: "string \<Rightarrow> json_fragment" where
  "empty_json t = \<lparr>jf_type = Some t, jf_name = None, jf_anonymous = None, jf_payable = None,
     jf_constant = None, jf_stateMutability = None, jf_inputs = None, jf_outputs = None,
     jf_gas = JUndef\<rparr>"

record state_out =
  so_constant :: bool
  so_payable :: bool
  so_stateMutability :: string

definition verifyState :: "json_fragment \<Rightarrow> js_error + state_out" where
  "verifyState v = (case jf_stateMutability v of
      Some m \<Rightarrow>
        let c = (m = ''view'' \<or> m = ''pure''); p = (m = ''payable'') in
        if (case jf_constant v of Some b \<Rightarrow> b \<noteq> c | None \<Rightarrow> False)
        then Inl (arg_error ''cannot have constant function with mutability'')
        else if (case jf_payable v of Some b \<Rightarrow> b \<noteq> p | None \<Rightarrow> False)
        then Inl (arg_error ''cannot have payable function with mutability'')
        else Inr \<lparr>so_constant = c, so_payable = p, so_stateMutability = m\<rparr>
    | None \<Rightarrow>
        (case jf_payable v of
           Some p \<Rightarrow>
             if jf_constant v = None \<and> \<not> p \<and> jf_type v \<noteq> Some ''constructor''
             then Inl (arg_error ''unable to determine stateMutability'')
             else let c = (jf_constant v = Some True) in
               if p \<and> c then Inl (arg_error ''cannot have constant payable function'')
               else Inr \<lparr>so_constant = c, so_payable = p,
                 so_stateMutability = (if c then ''view'' else if p then ''payable'' else ''nonpayable'')\<rparr>
         | None \<Rightarrow>
             (case jf_constant v of
                Some c \<Rightarrow> Inr \<lparr>so_constant = c, so_payable = (\<not> c),
                  so_stateMutability = (if c then ''view'' else ''payable'')\<rparr>
              | None \<Rightarrow>
                  if jf_type v \<noteq> Some ''constructor''
                  then Inl (arg_error ''unable to determine stateMutability'')
                  else Inr \<lparr>so_constant = False, so_payable = True,
                    so_stateMutability = ''payable''\<rparr>)))"

definition params_of :: "json_param list option \<Rightarrow> js_error + param_type list" where
  "params_of ps = (case ps of None \<Rightarrow> Inr [] | Some js \<Rightarrow> mapR fromObject js)"

definition gas_of :: "lib \<Rightarrow> jsval \<Rightarrow> js_error + int option" where
  "gas_of L g = (if js_truthy g then map_sum id Some (big_from L g) else Inr None)"

definition EventFragment_fromObject :: "json_fragment \<Rightarrow> js_error + fragment" where
  "EventFragment_fromObject v =
     (if jf_type v \<noteq> Some ''event'' then Inl (arg_error ''invalid event object'')
      else bindR (verifyIdentifier (jf_name v)) (\<lambda>nm.
        bindR (params_of (jf_inputs v)) (\<lambda>ins. Inr (EventFragment nm (jf_anonymous v) ins))))"

definition ConstructorFragment_fromObject :: "lib \<Rightarrow> json_fragment \<Rightarrow> js_error + fragment" where
  "ConstructorFragment_fromObject L v =
     (if jf_type v \<noteq> Some ''constructor'' then Inl (arg_error ''invalid constructor object'')
      else bindR (verifyState v) (\<lambda>st.
        if so_constant st then Inl (arg_error ''constructor cannot be constant'')
        else bindR (params_of (jf_inputs v)) (\<lambda>ins.
          bindR (gas_of L (jf_gas v)) (\<lambda>gas.
            Inr (ConstructorFragment ins (so_payable st) (so_stateMutability st) gas)))))"

definition FunctionFragment_fromObject :: "lib \<Rightarrow> json_fragment \<Rightarrow> js_error + fragment" where
  "FunctionFragment_fromObject L v =
     (if jf_type v \<noteq> Some ''function'' then Inl (arg_error ''invalid function object'')
      else bindR (verifyState v) (\<lambda>st.
        bindR (verifyIdentifier (jf_name v)) (\<lambda>nm.
        bindR (params_of (jf_inputs v)) (\<lambda>ins.
        bindR (params_of (jf_outputs v)) (\<lambda>outs.
        bindR (gas_of L (jf_gas v)) (\<lambda>gas.
          Inr (FunctionFragment nm (so_constant st) ins outs (so_payable st)
            (so_stateMutability st) gas)))))))"

definition sighash_text :: "string \<Rightarrow> param_type list \<Rightarrow> string" where
  "sighash_text nm ins =
     nm @ ''('' @ join_with '','' (map (format_param ''sighash'') ins) @ '')''"

definition checkForbidden :: "string \<Rightarrow> param_type list \<Rightarrow> js_error + fragment" where
  "checkForbidden nm ins =
     (let sig = trim (sighash_text nm ins @ '' '') in
      if sig = ''Error(string)'' \<or> sig = ''Panic(uint512)''
      then Inl (arg_error ''cannot specify user defined error'')
      else Inr (ErrorFragment nm ins))"

definition ErrorFragment_fromObject :: "json_fragment \<Rightarrow> js_error + fragment" where
  "ErrorFragment_fromObject v =
     (if jf_type v \<noteq> Some ''error'' then Inl (arg_error ''invalid error object'')
      else bindR (verifyIdentifier (jf_name v)) (\<lambda>nm.
        bindR (params_of (jf_inputs v)) (\<lambda>ins. checkForbidden nm ins)))"

text \<open>\<^verbatim>\<open>null\<close> for the fallback and receive functions.\<close>

definition Fragment_fromObject :: "lib \<Rightarrow> json_fragment \<Rightarrow> js_error + fragment option" where
  "Fragment_fromObject L v =
     (if jf_type v = Some ''function'' then map_sum id Some (FunctionFragment_fromObject L v)
      else if jf_type v = Some ''event'' then map_sum id Some (EventFragment_fromObject v)
      else if jf_type v = Some ''constructor'' then map_sum id Some (ConstructorFragment_fromObject L v)
      else if jf_type v = Some ''error'' then map_sum id Some (ErrorFragment_fromObject v)
      else if jf_type v = Some ''fallback'' \<or> jf_type v = Some ''receive'' then Inr None
      else Inl (arg_error ''invalid fragment object''))"

section \<open>Fragments from text\<close>

definition EventFragment_fromString :: "string \<Rightarrow> js_error + fragment" where
  "EventFragment_fromString s = (case paren_match s of
      None \<Rightarrow> Inl (arg_error ''invalid event string'')
    | Some (a, b, c) \<Rightarrow>
        let anonymous = (''anonymous'' \<in> set (map trim (split_on '' '' c))) in
        bindR (parseParams b True) (\<lambda>ins.
          EventFragment_fromObject ((empty_json ''event'')
            \<lparr>jf_name := Some (trim a), jf_anonymous := Some anonymous,
             jf_inputs := Some (map JsonDone ins)\<rparr>)))"

definition parseGas :: "lib \<Rightarrow> string \<Rightarrow> js_error + (string \<times> jsval)" where
  "parseGas L s = (case split_on ''@'' s of
      [a] \<Rightarrow> Inr (s, JNull)
    | [a, b] \<Rightarrow>
        if b = [] \<or> \<not> list_all is_dec_char b
        then Inl (arg_error ''invalid human-readable ABI signature gas'')
        else map_sum id (\<lambda>n. (a, JBN n)) (big_from L (JStr b))
    | _ \<Rightarrow> Inl (arg_error ''invalid human-readable ABI signature''))"

definition parse_modifier :: "string \<Rightarrow> state_out \<Rightarrow> state_out" where
  "parse_modifier m st =
     (if m = ''constant'' then st\<lparr>so_constant := True\<rparr>
      else if m = ''payable'' then st\<lparr>so_payable := True, so_stateMutability := ''payable''\<rparr>
      else if m = ''nonpayable'' then st\<lparr>so_payable := False, so_stateMutability := ''nonpayable''\<rparr>
      else if m = ''pure'' then st\<lparr>so_constant := True, so_stateMutability := ''pure''\<rparr>
      else if m = ''view'' then st\<lparr>so_constant := True, so_stateMutability := ''view''\<rparr>
      else st)"

definition parseModifiers :: "string \<Rightarrow> state_out" where
  "parseModifiers s =
     fold parse_modifier (map trim (split_on '' '' s))
       \<lparr>so_constant = False, so_payable = False, so_stateMutability = ''nonpayable''\<rparr>"

definition with_modifiers :: "state_out \<Rightarrow> json_fragment \<Rightarrow> json_fragment" where
  "with_modifiers st j = j\<lparr>jf_constant := Some (so_constant st), jf_payable := Some (so_payable st),
     jf_stateMutability := Some (so_stateMutability st)\<rparr>"

definition ConstructorFragment_fromString :: "lib \<Rightarrow> string \<Rightarrow> js_error + fragment" where
  "ConstructorFragment_fromString L s =
     bindR (parseGas L s) (\<lambda>(v, gas).
       case paren_match v of
         None \<Rightarrow> Inl (arg_error ''invalid constructor string'')
       | Some (a, b, c) \<Rightarrow>
           if trim a \<noteq> ''constructor'' then Inl (arg_error ''invalid constructor string'')
           else bindR (parseParams (trim b) False) (\<lambda>ins.
             ConstructorFragment_fromObject L (with_modifiers (parseModifiers (trim c))
               ((empty_json ''constructor'')\<lparr>jf_inputs := Some (map JsonDone ins), jf_gas := gas\<rparr>))))"

definition parse_returns :: "string list \<Rightarrow> js_error + param_type list" where
  "parse_returns comps = (case comps of
      a # r # rest \<Rightarrow>
        (case paren_match r of
           None \<Rightarrow> Inl (mk_err (ErrClass ''TypeError'') ''Cannot read properties of null'')
         | Some (x, y, z) \<Rightarrow>
             if trim x \<noteq> [] \<or> trim z \<noteq> [] then Inl (arg_error ''unexpected tokens'')
             else parseParams y False)
    | _ \<Rightarrow> Inr [])"

definition check_name :: "string \<Rightarrow> js_error + unit" where
  "check_name nm =
     (if nm = [] then Inr () else bindR (verifyIdentifier (Some nm)) (\<lambda>_. Inr ()))"

definition FunctionFragment_fromString :: "lib \<Rightarrow> string \<Rightarrow> js_error + fragment" where
  "FunctionFragment_fromString L s =
     bindR (parseGas L s) (\<lambda>(v, gas).
       let comps = split_on '' returns '' v in
       if length comps > 2 then Inl (arg_error ''invalid function string'')
       else case paren_match (hd comps) of
           None \<Rightarrow> Inl (arg_error ''invalid function signature'')
         | Some (a, b, c) \<Rightarrow>
             bindR (check_name (trim a)) (\<lambda>_.
             bindR (parseParams b False) (\<lambda>ins.
             bindR (parse_returns comps) (\<lambda>outs.
               FunctionFragment_fromObject L (with_modifiers (parseModifiers (trim c))
                 ((empty_json ''function'')\<lparr>jf_name := Some (trim a),
                    jf_inputs := Some (map JsonDone ins), jf_outputs := Some (map JsonDone outs),
                    jf_gas := gas\<rparr>))))))"

definition ErrorFragment_fromString :: "string \<Rightarrow> js_error + fragment" where
  "ErrorFragment_fromString s = (case paren_match s of
      None \<Rightarrow> Inl (arg_error ''invalid error signature'')
    | Some (a, b, c) \<Rightarrow>
        bindR (check_name (trim a)) (\<lambda>_.
        bindR (parseParams b False) (\<lambda>ins.
          ErrorFragment_fromObject ((empty_json ''error'')
            \<lparr>jf_name := Some (trim a), jf_inputs := Some (map JsonDone ins)\<rparr>))))"

fun collapse_spaces :: "string \<Rightarrow> string" where
  "collapse_spaces (a # b # s) =
     (if a = CHR '' '' \<and> b = CHR '' '' then collapse_spaces (b # s) else a # collapse_spaces (b # s))"
| "collapse_spaces s = s"

definition space_parens :: "string \<Rightarrow> string" where
  "space_parens s = concat (map (\<lambda>c.
     if c = CHR ''('' then '' ('' else if c = CHR '')'' then '') '' else [c]) s)"

definition first_of :: "string \<Rightarrow> string \<Rightarrow> string" where
  "first_of sep s = hd (split_on sep s)"

definition Fragment_fromString :: "lib \<Rightarrow> string \<Rightarrow> js_error + fragment" where
  "Fragment_fromString L s =
     (let v = trim (collapse_spaces (space_parens (spaces_only s))) in
      if first_of '' '' v = ''event'' then EventFragment_fromString (trim (drop 5 v))
      else if first_of '' '' v = ''function'' then FunctionFragment_fromString L (trim (drop 8 v))
      else if trim (first_of ''('' v) = ''constructor'' then ConstructorFragment_fromString L (trim v)
      else if first_of '' '' v = ''error'' then ErrorFragment_fromString (trim (drop 5 v))
      else Inl (arg_error ''unsupported fragment''))"

section \<open>Fragments to text\<close>

definition params_text :: "string \<Rightarrow> param_type list \<Rightarrow> string" where
  "params_text f ps = ''('' @ join_with (format_sep f) (map (format_param f) ps) @ '')''"

definition json_params :: "param_type list \<Rightarrow> string" where
  "json_params ps = json_list (map (format_param ''json'') ps)"

definition json_gas :: "lib \<Rightarrow> int option \<Rightarrow> js_error + string option" where
  "json_gas L g = (case g of
      None \<Rightarrow> Inr None
    | Some n \<Rightarrow> map_sum id (\<lambda>k. Some (int_str 10 k)) (big_toNumber L n))"

definition json_mutability :: "string \<Rightarrow> string option" where
  "json_mutability m = (if m \<noteq> ''nonpayable'' then Some (json_quote m) else None)"

definition EventFragment_format ::
  "string \<Rightarrow> string \<Rightarrow> bool option \<Rightarrow> param_type list \<Rightarrow> js_error + string" where
  "EventFragment_format f nm anon ins =
     (if f = ''json'' then Inr (json_object
        [(''type'', Some (json_quote ''event'')), (''anonymous'', map_option json_bool anon),
         (''name'', Some (json_quote nm)), (''inputs'', Some (json_params ins))])
      else Inr (trim
        ((if f \<noteq> ''sighash'' then ''event '' else []) @ nm @ params_text f ins @ '' '' @
         (if f \<noteq> ''sighash'' \<and> anon = Some True then ''anonymous '' else []))))"

definition ConstructorFragment_format ::
  "lib \<Rightarrow> string \<Rightarrow> param_type list \<Rightarrow> bool \<Rightarrow> string \<Rightarrow> int option \<Rightarrow> js_error + string" where
  "ConstructorFragment_format L f ins pay m gas =
     (if f = ''json'' then bindR (json_gas L gas) (\<lambda>g. Inr (json_object
        [(''type'', Some (json_quote ''constructor'')), (''stateMutability'', json_mutability m),
         (''payable'', Some (json_bool pay)), (''gas'', g), (''inputs'', Some (json_params ins))]))
      else if f = ''sighash''
      then Inl (mk_err UNSUPPORTED_OPERATION ''cannot format a constructor for sighash'')
      else Inr (trim (''constructor'' @ params_text f ins @ '' '' @
        (if m \<noteq> [] \<and> m \<noteq> ''nonpayable'' then m @ '' '' else []))))"

definition FunctionFragment_format ::
  "lib \<Rightarrow> string \<Rightarrow> string \<Rightarrow> bool \<Rightarrow> param_type list \<Rightarrow> param_type list \<Rightarrow> bool \<Rightarrow> string
    \<Rightarrow> int option \<Rightarrow> js_error + string" where
  "FunctionFragment_format L f nm const ins outs pay m gas =
     (if f = ''json'' then bindR (json_gas L gas) (\<lambda>g. Inr (json_object
        [(''type'', Some (json_quote ''function'')), (''name'', Some (json_quote nm)),
         (''constant'', Some (json_bool const)), (''stateMutability'', json_mutability m),
         (''payable'', Some (json_bool pay)), (''gas'', g), (''inputs'', Some (json_params ins)),
         (''outputs'', Some (json_params outs))]))
      else Inr (trim
        ((if f \<noteq> ''sighash'' then ''function '' else []) @ nm @ params_text f ins @ '' '' @
         (if f \<noteq> ''sighash'' then
            (if m \<noteq> [] then (if m \<noteq> ''nonpayable'' then m @ '' '' else [])
             else if const then ''view '' else []) @
            (if outs \<noteq> [] then
               ''returns ('' @ join_with '', '' (map (format_param f) outs) @ '') '' else []) @
            (case gas of Some n \<Rightarrow> ''@'' @ int_str 10 n @ '' '' | None \<Rightarrow> [])
          else []))))"

definition ErrorFragment_format :: "string \<Rightarrow> string \<Rightarrow> param_type list \<Rightarrow> js_error + string" where
  "ErrorFragment_format f nm ins =
     (if f = ''json'' then Inr (json_object
        [(''type'', Some (json_quote ''error'')), (''name'', Some (json_quote nm)),
         (''inputs'', Some (json_params ins))])
      else Inr (trim
        ((if f \<noteq> ''sighash'' then ''error '' else []) @ nm @ params_text f ins @ '' '')))"

definition Fragment_format :: "lib \<Rightarrow> string \<Rightarrow> fragment \<Rightarrow> js_error + string" where
  "Fragment_format L f fr = bindR (check_format f) (\<lambda>f'. case fr of
      EventFragment nm anon ins \<Rightarrow> EventFragment_format f' nm anon ins
    | ConstructorFragment ins pay m gas \<Rightarrow> ConstructorFragment_format L f' ins pay m gas
    | FunctionFragment nm const ins outs pay m gas \<Rightarrow>
        FunctionFragment_format L f' nm const ins outs pay m gas
    | ErrorFragment nm ins \<Rightarrow> ErrorFragment_format f' nm ins)"

end
