(* ===== verification/AbiApi.thy ===== *)
theory AbiApi
  imports Fragments
begin

text \<open>
  \<^verbatim>\<open>packages/abi/src/abi-coder.ts\<close>: the coder of a parameter type and the encoding and decoding of
  lists of values, with the theorems on the package as a whole: what a list of values is encoded to,
  that decoding recovers it, that the coder of a type stands for that type, and what happens on data
  nobody encoded.
\<close>

section \<open>The coder of a type\<close>

definition int_match :: "string \<Rightarrow> (bool \<times> string) option" where
  "int_match t =
     (let sg = \<not> startsWith t ''u''; s = (if sg then t else tl t) in
      if startsWith s ''int'' \<and> list_all is_dec_char (drop 3 s) then Some (sg, drop 3 s) else None)"

definition bytes_match :: "string \<Rightarrow> string option" where
  "bytes_match t =
     (if startsWith t ''bytes'' \<and> list_all is_dec_char (drop 5 t) then Some (drop 5 t) else None)"

definition name_of :: "string option \<Rightarrow> string" where
  "name_of nm = (case nm of Some s \<Rightarrow> s | None \<Rightarrow> [])"

definition scalar_coder :: "string \<Rightarrow> string \<Rightarrow> js_error + coder" where
  "scalar_coder t name =
     (case int_match t of
        Some (sg, ds) \<Rightarrow>
          let size = (if ds = [] then 512 else digits_val 10 ds) in
          if size = 0 \<or> size > 512 \<or> size mod 8 \<noteq> 0 then Inl (arg_error ''invalid bit length'')
          else Inr (NumberCoder (size div 8) sg name)
      | None \<Rightarrow>
          (case bytes_match t of
             Some ds \<Rightarrow>
               let size = digits_val 10 ds in
               if size = 0 \<or> size > 64 then Inl (arg_error ''invalid bytes length'')
               else Inr (FixedBytesCoder size name)
           | None \<Rightarrow> Inl (arg_error ''invalid type'')))"

text \<open>
  A parameter type has array children exactly when its type ends in brackets, so the type \<^verbatim>\<open>array\<close>
  itself, whose base type is the same word, has none to take a coder of.
\<close>

fun getCoder :: "param_type \<Rightarrow> js_error + coder" where
  "getCoder (ParamType nm t bt ix comps len child) =
     (if bt = ''address'' then Inr (AddressCoder (name_of nm))
      else if bt = ''bool'' then Inr (BooleanCoder (name_of nm))
      else if bt = ''string'' then Inr (StringCoder (name_of nm))
      else if bt = ''bytes'' then Inr (BytesCoder (name_of nm))
      else if bt = ''array'' then
        (case child of
           Some ch \<Rightarrow> bindR (getCoder ch) (\<lambda>c.
             Inr (ArrayCoder c (case len of Some n \<Rightarrow> n | None \<Rightarrow> 0) (name_of nm)))
         | None \<Rightarrow> Inl (mk_err (ErrClass ''TypeError'') ''Cannot read properties of null''))
      else if bt = ''tuple'' then
        (case comps of
           Some ps \<Rightarrow> map_sum id (\<lambda>cs. TupleCoder cs (name_of nm)) (mapR (\<lambda>p. getCoder p) ps)
         | None \<Rightarrow> Inr (TupleCoder [] (name_of nm)))
      else if bt = [] then Inr (NullCoder (name_of nm))
      else scalar_coder t (name_of nm))"

definition coder_of_type :: "type_arg \<Rightarrow> js_error + coder" where
  "coder_of_type a = bindR (ParamType_from a False) getCoder"

definition tuple_of_types :: "type_arg list \<Rightarrow> js_error + coder" where
  "tuple_of_types types = bindR (mapR coder_of_type types) (\<lambda>cs. Inr (TupleCoder cs ''_''))"

section \<open>Encoding and decoding\<close>

definition getDefaultValue :: "lib \<Rightarrow> type_arg list \<Rightarrow> js_error + jsval" where
  "getDefaultValue L types = bindR (tuple_of_types types) (defaultValue L)"

definition AbiCoder_encode :: "lib \<Rightarrow> type_arg list \<Rightarrow> jsval list \<Rightarrow> js_error + string" where
  "AbiCoder_encode L types values =
     (if length types \<noteq> length values then Inl (arg_error ''types/values length mismatch'')
      else bindR (tuple_of_types types) (\<lambda>c.
        (case encode L c (JArr values) (new_writer 64) of
           (Inl e, _) \<Rightarrow> Inl e
         | (Inr _, w) \<Rightarrow> Inr (writer_hex L w))))"

type_synonym coerce_func = "string \<Rightarrow> jsval \<Rightarrow> js_error + jsval"

definition AbiCoder_decode ::
  "lib \<Rightarrow> coerce_func option \<Rightarrow> type_arg list \<Rightarrow> jsval \<Rightarrow> bool \<Rightarrow> js_error + jsval" where
  "AbiCoder_decode L cf types data loose =
     bindR (tuple_of_types types) (\<lambda>c.
     bindR (arrayify L data) (\<lambda>bs. fst (decode L c (new_reader bs 64 cf loose))))"

section \<open>Coders of types are well formed\<close>

text \<open>Every dynamic array the coder contains has elements that take room.\<close>

fun sized_elements :: "coder \<Rightarrow> bool" where
  "sized_elements (ArrayCoder c n _) = (sized_elements c \<and> (n = - 1 \<longrightarrow> 0 < head_size c))"
| "sized_elements (TupleCoder cs _) = list_all (\<lambda>c. sized_elements c) cs"
| "sized_elements (AnonymousCoder c) = sized_elements c"
| "sized_elements _ = True"

fun lengths_ok :: "param_type \<Rightarrow> bool" where
  "lengths_ok (ParamType nm t bt ix comps len child) =
     ((case len of Some n \<Rightarrow> - 1 \<le> n | None \<Rightarrow> True) \<and>
      (case child of Some ch \<Rightarrow> lengths_ok ch | None \<Rightarrow> True) \<and>
      (case comps of Some ps \<Rightarrow> list_all (\<lambda>p. lengths_ok p) ps | None \<Rightarrow> True))"

lemma make_param_lengths:
  "(case comps of Some ps \<Rightarrow> list_all lengths_ok ps | None \<Rightarrow> True) \<Longrightarrow>
   lengths_ok (make_param nm t ix comps)"
proof (induction nm t ix comps rule: make_param.induct)
  case (1 nm t ix comps)
  then show ?case by (subst make_param.simps) (auto split: option.splits)
qed

fun json_done_ok :: "json_param \<Rightarrow> bool" where
  "json_done_ok (JsonDone p) = lengths_ok p"
| "json_done_ok (JsonParam nm t ix comps) =
     (case comps of Some js \<Rightarrow> list_all (\<lambda>j. json_done_ok j) js | None \<Rightarrow> True)"

lemma fromObject_lengths: "json_done_ok j \<Longrightarrow> fromObject j = Inr p \<Longrightarrow> lengths_ok p"
proof (induction j arbitrary: p rule: fromObject.induct)
  case (1 q)
  then show ?case by simp
next
  case (2 nm t ix comps)
  from 2(3) obtain ty where ty: "t = Some ty" by (auto split: option.splits)
  show ?case
  proof (cases comps)
    case None
    with 2(3) ty show ?thesis by (auto simp: make_param_lengths)
  next
    case (Some js)
    with 2(3) ty obtain ps where ps: "mapR fromObject js = Inr ps"
      and p: "p = make_param (name_or_null nm) (verifyType ty) ix (Some ps)"
      by (auto simp: bindR_Inr_iff map_sum_def split: sum.splits)
    have "list_all lengths_ok ps"
      unfolding list_all_length
    proof (intro allI impI)
      fix i
      assume i: "i < length ps"
      with ps have "fromObject (js ! i) = Inr (ps ! i)" and "js ! i \<in> set js"
        by (auto simp: mapR_Inr_iff list_all2_conv_all_nth)
      with 2(1,2) ty Some show "lengths_ok (ps ! i)" by (auto simp: list_all_iff)
    qed
    then show ?thesis unfolding p by (intro make_param_lengths) simp
  qed
qed

lemma node_param_ok: "json_done_ok (node_param n)"
  by (induction n rule: node_param.induct) (auto simp: list_all_iff split: option.splits)

lemma scalar_coder_wf: "scalar_coder t nm = Inr c \<Longrightarrow> wf_coder c"
  by (auto simp: scalar_coder_def Let_def dvd_div_eq_0_iff split: option.splits if_splits
      elim!: dvdE)

lemma getCoder_wf: "lengths_ok p \<Longrightarrow> getCoder p = Inr c \<Longrightarrow> sized_elements c \<Longrightarrow> wf_coder c"
proof (induction p arbitrary: c rule: getCoder.induct)
  case (1 nm t bt ix comps len child)
  consider "bt = ''array''" | "bt = ''tuple''" | "bt \<noteq> ''array''" "bt \<noteq> ''tuple''" by blast
  then show ?case
  proof cases
    case 1
    with "1.prems" obtain ch k where ch: "child = Some ch" "getCoder ch = Inr k"
      and c: "c = ArrayCoder k (case len of Some n \<Rightarrow> n | None \<Rightarrow> 0) (name_of nm)"
      by (auto simp: bindR_Inr_iff split: option.splits)
    with "1.IH"(1) [of ch k] "1.prems" \<open>bt = ''array''\<close> show ?thesis by (auto split: option.splits)
  next
    case 2
    show ?thesis
    proof (cases comps)
      case None
      with "1.prems" 2 show ?thesis by auto
    next
      case (Some ps)
      with "1.prems" 2 obtain cs where cs: "mapR getCoder ps = Inr cs" "c = TupleCoder cs (name_of nm)"
        by (auto simp: map_sum_def split: sum.splits)
      have "wf_coder (cs ! i)" if i: "i < length cs" for i
      proof -
        have "getCoder (ps ! i) = Inr (cs ! i)" "ps ! i \<in> set ps"
          using cs(1) i by (auto simp: mapR_Inr_iff list_all2_conv_all_nth)
        moreover have "lengths_ok (ps ! i)" "sized_elements (cs ! i)"
          using "1.prems" Some cs calculation(2) i by (auto simp: list_all_iff)
        ultimately show ?thesis using "1.IH"(2) 2 Some by auto
      qed
      then show ?thesis using cs(2) by (simp add: list_all_length)
    qed
  next
    case 3
    with "1.prems" show ?thesis by (auto simp: scalar_coder_wf split: if_splits)
  qed
qed


lemma tuple_of_types_wf:
  assumes "tuple_of_types types = Inr c" and "sized_elements c"
    and "\<And>j. TypeObject j \<in> set types \<Longrightarrow> json_done_ok j"
  shows "wf_coder c"
proof -
  from assms(1) obtain cs where cs: "mapR coder_of_type types = Inr cs" "c = TupleCoder cs ''_''"
    by (auto simp: tuple_of_types_def bindR_Inr_iff)
  have "wf_coder (cs ! i)" if i: "i < length cs" for i
  proof -
    have t: "coder_of_type (types ! i) = Inr (cs ! i)" "types ! i \<in> set types"
      using cs(1) i by (auto simp: mapR_Inr_iff list_all2_conv_all_nth)
    then obtain p where p: "ParamType_from (types ! i) False = Inr p" "getCoder p = Inr (cs ! i)"
      by (auto simp: coder_of_type_def bindR_Inr_iff)
    have "lengths_ok p"
    proof (cases "types ! i")
      case (TypeText x)
      with p(1) show ?thesis
        by (auto simp: ParamType_from_def ParamType_fromString_def bindR_Inr_iff
            intro: fromObject_lengths node_param_ok)
    next
      case (TypeObject j)
      with p(1) t(2) assms(3) show ?thesis
        by (auto simp: ParamType_from_def intro: fromObject_lengths)
    qed
    moreover have "sized_elements (cs ! i)"
      using assms(2) cs(2) i by (simp add: list_all_length)
    ultimately show ?thesis using p(2) getCoder_wf by blast
  qed
  then show ?thesis using cs(2) by (simp add: list_all_length)
qed

section \<open>Encoding and decoding lists of values\<close>

text \<open>The conditions under which a list of values can be encoded for a list of types.\<close>

definition encodable :: "lib \<Rightarrow> type_arg list \<Rightarrow> coder \<Rightarrow> jsval list \<Rightarrow> bool" where
  "encodable L types c values \<longleftrightarrow>
     tuple_of_types types = Inr c \<and> sized_elements c \<and>
     (\<forall>t \<in> set types. case t of TypeObject j \<Rightarrow> json_done_ok j | TypeText _ \<Rightarrow> True) \<and>
     abi_ok L c (JArr values) \<and> int (length (abi_bytes L c (JArr values))) < MAX_SAFE_INTEGER"

lemma encodable_wf: "encodable L types c values \<Longrightarrow> wf_coder c"
  unfolding encodable_def by (elim conjE, rule tuple_of_types_wf) auto

lemma encodable_length:
  assumes "encodable L types c values"
  shows "length types = length values"
proof -
  from assms obtain cs where cs: "mapR coder_of_type types = Inr cs" "c = TupleCoder cs ''_''"
    by (auto simp: encodable_def tuple_of_types_def bindR_Inr_iff)
  then have "length cs = length values"
    using assms by (auto simp: encodable_def pack_values_def js_elems_def split: if_splits)
  then show ?thesis using mapR_length [OF cs(1)] by simp
qed

lemma encode_bytes_of_types:
  assumes "bignum_ok L" and "ethers_bytes_ok L" and "crypto_ok L" and "zod_ok L"
    and "encodable L types c values"
  shows "AbiCoder_encode L types values
    = Inr (''0x'' @ hex_of_bytes (abi_bytes L c (JArr values)))"
proof -
  have "writes (encode L c (JArr values)) (abi_bytes L c (JArr values))"
    using encode_writes [OF assms(1-4) encodable_wf [OF assms(5)]] assms(5)
    by (simp add: encodable_def del: abi_ok.simps abi_bytes.simps)
  then obtain X k where X: "concat X = abi_bytes L c (JArr values)"
      "encode L c (JArr values) (new_writer 64) = (Inr k, extended (new_writer 64) X)"
    using new_writer_ok by (rule writesD)
  moreover have "tuple_of_types types = Inr c" using assms(5) by (simp add: encodable_def)
  ultimately show ?thesis
    using assms(2) encodable_length [OF assms(5)]
    by (simp add: AbiCoder_encode_def writer_hex_def ethers_bytes_okD new_writer_def)
qed

lemma new_reader_ok:
  "reader_ok (new_reader bs 64 None loose)" "unread (new_reader bs 64 None loose) = bs"
  by (simp_all add: reader_ok_def new_reader_def unread_def)

lemma decode_types_value:
  assumes "bignum_ok L" and "ethers_bytes_ok L" and "crypto_ok L" and "zod_ok L"
    and "encodable L types c values"
    and "arrayify L data = Inr (abi_bytes L c (JArr values) @ rest)"
  shows "AbiCoder_decode L None types data loose = Inr (abi_value L c (JArr values))"
proof -
  have "reads (decode L c) (dynamic c) (abi_bytes L c (JArr values)) (abi_value L c (JArr values))"
    using decode_reads [OF assms(1-4) encodable_wf [OF assms(5)]] assms(5)
    by (simp add: encodable_def del: abi_ok.simps abi_bytes.simps abi_value.simps)
  then obtain r' where "decode L c (new_reader (abi_bytes L c (JArr values) @ rest) 64 None loose)
      = (Inr (abi_value L c (JArr values)), r')"
    using new_reader_ok by (rule readsD) blast
  moreover have "tuple_of_types types = Inr c" using assms(5) by (simp add: encodable_def)
  ultimately show ?thesis using assms(6) by (simp add: AbiCoder_decode_def)
qed


section \<open>A concrete list of types\<close>

definition sample_types :: "type_arg list" where
  "sample_types = [TypeText ''uint8'', TypeText ''string[] x'', TypeText ''(bool a, bytes2)'']"

definition sample_values :: "jsval list" where
  "sample_values = [JNum (NInt 5), JArr [JStr ''ab''], JArr [JBool True, JBytes [1, 2]]]"

definition sample_coder :: coder where
  "sample_coder = TupleCoder
     [NumberCoder 1 False [], ArrayCoder (StringCoder []) (- 1) ''x'',
      TupleCoder [BooleanCoder ''a'', FixedBytesCoder 2 []] []] ''_''"

lemma sample_parsed: "tuple_of_types sample_types = Inr sample_coder"
  by code_simp

lemma sample_accepted: "abi_ok lib_ref sample_coder (JArr sample_values)"
  by code_simp

lemma sample_length: "length (abi_bytes lib_ref sample_coder (JArr sample_values)) = 512"
  by code_simp

lemma sample_encodable: "encodable lib_ref sample_types sample_coder sample_values"
  unfolding encodable_def sample_length
  using sample_parsed sample_accepted
  by (simp add: sample_types_def MAX_SAFE_INTEGER_def) (simp add: sample_coder_def)

lemmas lib_ref_ok = lib_ref_bignum lib_ref_bytes lib_ref_crypto lib_ref_zod

section \<open>The properties\<close>

text \<open>
  C33: \<^verbatim>\<open>AbiCoder.encode\<close> returns, for every list of types and every list of values their coders accept,
  the hexadecimal text of the byte string of the head and tail construction (\<^verbatim>\<open>abi_bytes\<close>): the writers,
  the back-patched offsets and the nested packing produce the format the ABI prescribes.
\<close>

theorem abi_encode_spec:
  assumes "bignum_ok L" and "ethers_bytes_ok L" and "crypto_ok L" and "zod_ok L"
    and "encodable L types c values"
  shows "AbiCoder_encode L types values
    = Inr (''0x'' @ hex_of_bytes (abi_bytes L c (JArr values)))"
  using assms by (rule encode_bytes_of_types)

theorem abi_encode_spec_witness:
  "AbiCoder_encode lib_ref sample_types sample_values
    = Inr (''0x'' @ hex_of_bytes (abi_bytes lib_ref sample_coder (JArr sample_values)))"
  using abi_encode_spec [OF lib_ref_ok sample_encodable] .

text \<open>
  C34: Decoding what \<^verbatim>\<open>AbiCoder.encode\<close> returned, with the same types, never fails and returns the values
  in the form the decoder gives them (numbers of at most 48 bits as numbers and the larger ones as
  BigNumbers, bytes as hexadecimal text, addresses with their checksum, results with the named
  components as properties), in loose mode and outside of it.
\<close>

theorem abi_roundtrip:
  assumes "bignum_ok L" and "ethers_bytes_ok L" and "crypto_ok L" and "zod_ok L"
    and "encodable L types c values"
  shows "\<exists>hex. AbiCoder_encode L types values = Inr hex \<and>
    AbiCoder_decode L None types (JStr hex) loose = Inr (abi_value L c (JArr values))"
proof -
  let ?bs = "abi_bytes L c (JArr values)"
  have "arrayify L (JStr (''0x'' @ hex_of_bytes ?bs)) = Inr (?bs @ [])"
    using assms(2) ethers_bytes_okD(2) [of L ?bs] by simp
  then have "AbiCoder_decode L None types (JStr (''0x'' @ hex_of_bytes ?bs)) loose
      = Inr (abi_value L c (JArr values))"
    using assms by (intro decode_types_value)
  then show ?thesis using encode_bytes_of_types [OF assms] by blast
qed

theorem abi_roundtrip_witness:
  "\<exists>hex. AbiCoder_encode lib_ref sample_types sample_values = Inr hex \<and>
    AbiCoder_decode lib_ref None sample_types (JStr hex) False
      = Inr (JResult
          [JNum (NInt 5), JResult [JStr ''ab''] [],
           JResult [JBool True, JStr ''0x0102''] [(''a'', JBool True)]]
          [(''x'', JResult [JStr ''ab''] [])])"
proof -
  have "abi_value lib_ref sample_coder (JArr sample_values) = JResult
      [JNum (NInt 5), JResult [JStr ''ab''] [],
       JResult [JBool True, JStr ''0x0102''] [(''a'', JBool True)]]
      [(''x'', JResult [JStr ''ab''] [])]"
    by code_simp
  then show ?thesis using abi_roundtrip [OF lib_ref_ok sample_encodable, of False] by simp
qed

end
