(* ===== verification/AbiSafety.thy ===== *)
theory AbiSafety
  imports AbiApi
begin

text \<open>
  What the reader and the writer of \<^verbatim>\<open>packages/abi\<close> guarantee on any input: decoding data of any origin
  never moves the reader out of its data or changes the data, the number of elements of a decoded
  array is bounded by the data, and encoding, whether it succeeds or throws, only appends to the
  writer and keeps its length the number of its bytes.
\<close>

section \<open>Reading stays within the data\<close>

definition moves :: "reader \<Rightarrow> reader \<Rightarrow> bool" where
  "moves r r' \<longleftrightarrow>
     rd_data r' = rd_data r \<and> rd_wordSize r' = rd_wordSize r \<and>
     rd_coerceFunc r' = rd_coerceFunc r \<and> rd_offset r \<le> rd_offset r' \<and>
     rd_offset r' \<le> max (rd_offset r) (length (rd_data r))"

interpretation rd: action_relation moves
  by unfold_locales (auto simp: moves_def)

lemmas rd_always = rd.always_basic rd.always_bind

lemma peekBytes_same: "peekBytes len loose r = (res, r') \<Longrightarrow> r' = r"
  by (auto simp: peekBytes_def Let_def split: if_splits)

lemma peekBytes_bound:
  "peekBytes len loose r = (Inr bs, r') \<Longrightarrow> rd_offset r + length bs \<le> max (rd_offset r) (length (rd_data r))"
  by (auto simp: peekBytes_def Let_def split: if_splits)

lemma always_readBytes: "always moves (readBytes len loose)"
  unfolding always_def
proof
  fix r
  obtain res r1 where p: "peekBytes len loose r = (res, r1)" by (cases "peekBytes len loose r")
  then have "r1 = r" by (rule peekBytes_same)
  with p show "moves r (snd (readBytes len loose r))"
    using peekBytes_bound [of len loose r]
    by (cases res) (auto simp: readBytes_def bindS_def moves_def)
qed

lemma always_cong: "always rel m \<Longrightarrow> (\<And>s. m' s = m s) \<Longrightarrow> always rel m'"
  by (simp add: always_def)

text \<open>An action that looks at its state first.\<close>

lemma always_look: "(\<And>t. always rel (m t)) \<Longrightarrow> (\<And>s. m' s = m s s) \<Longrightarrow> always rel m'"
  by (simp add: always_def)

lemma always_readValue: "always moves (readValue L)"
proof (rule always_look)
  show "always moves (bindS (readBytes (rd_wordSize t) False)
      (\<lambda>bs. liftS (big_from L (JBytes bs))))" for t
    by (intro rd_always always_readBytes)
qed (simp add: readValue_def)

lemma always_readNumber: "always moves (readNumber L)"
  unfolding readNumber_def by (intro rd_always always_readValue)

lemma always_coerce: "always moves (coerce L name v)"
  by (rule rd.always_same) (simp add: coerce_def)

lemma always_unpack_one:
  assumes "always moves (dec c)"
  shows "always moves (unpack_one L dec b c)"
proof (cases "dynamic c")
  case True
  then show ?thesis
    unfolding unpack_one_def
    by (simp, intro rd_always always_readNumber) (simp add: always_def rd.rel_refl)
next
  case False
  with assms show ?thesis by (auto simp: unpack_one_def always_def case_prod_beta)
qed

lemma always_unpack_loop:
  "(\<And>c. c \<in> set cs \<Longrightarrow> always moves (dec c)) \<Longrightarrow> always moves (unpack_loop L dec b cs)"
proof (induction cs)
  case Nil
  then show ?case by (simp add: always_def rd.rel_refl)
next
  case (Cons c cs)
  then have "always moves (bindS (unpack_one L dec b c) (\<lambda>v.
     bindS (unpack_loop L dec b cs) (\<lambda>vs. returnS (if isNullish v then vs else v # vs))))"
    by (intro rd_always always_unpack_one) auto
  then show ?case by (simp add: always_def)
qed

lemma always_unpack:
  assumes "\<And>c. c \<in> set cs \<Longrightarrow> always moves (dec c)"
  shows "always moves (unpack L dec cs)"
proof (rule always_look)
  show "always moves (bindS (unpack_loop L dec (subReader t 0) cs)
      (\<lambda>vals. liftS (assemble cs vals)))" for t
    by (intro rd_always always_unpack_loop assms)
qed (simp add: unpack_def)

lemma always_read_count: "always moves (read_count L len)"
proof (cases "len = - 1")
  case True
  then show ?thesis
    unfolding read_count_def
    by (simp, intro rd_always always_readNumber) (simp add: always_def rd.rel_refl)
next
  case False
  then show ?thesis by (simp add: read_count_def rd.always_basic)
qed

lemma always_decode_bytes: "always moves (decode_bytes L)"
  unfolding decode_bytes_def by (intro rd_always always_readNumber always_readBytes)

lemma always_decode: "always moves (decode L c)"
proof (induction c rule: coder.induct)
  case (NumberCoder sz sg nm)
  have "always moves (bindS (readValue L) (\<lambda>n.
       let u = big_mask L n (sz * 8) in
       coerce L (coder_name (NumberCoder sz sg nm))
         (JBN (if sg then big_fromTwos L u (sz * 8) else u))))"
    unfolding Let_def by (intro rd_always always_readValue always_coerce)
  then show ?case by (simp add: always_def)
next
  case (AddressCoder nm)
  have "always moves (bindS (readValue L) (\<lambda>n. liftS (decode_address L n)))"
    by (intro rd_always always_readValue)
  then show ?case by (simp add: always_def)
next
  case (BooleanCoder nm)
  have "always moves (bindS (readValue L) (\<lambda>n. coerce L ''bool'' (JBool (n \<noteq> 0))))"
    by (intro rd_always always_readValue always_coerce)
  then show ?case by (simp add: always_def)
next
  case (BytesCoder nm)
  have "always moves (bindS (decode_bytes L) (\<lambda>bs. coerce L ''bytes'' (JStr (hexlify L bs))))"
    by (intro rd_always always_decode_bytes always_coerce)
  then show ?case by (simp add: always_def)
next
  case (FixedBytesCoder sz nm)
  have "always moves (bindS (readBytes sz False) (\<lambda>bs.
       coerce L (coder_name (FixedBytesCoder sz nm)) (JStr (hexlify L bs))))"
    by (intro rd_always always_readBytes always_coerce)
  then show ?case by (simp add: always_def)
next
  case (StringCoder nm)
  have "always moves (bindS (decode_bytes L) (\<lambda>bs. liftS (map_sum id JStr (bytesToUtf8 L bs))))"
    by (intro rd_always always_decode_bytes)
  then show ?case by (simp add: always_def)
next
  case (NullCoder nm)
  have "always moves (bindS (readBytes 0 False) (\<lambda>_. coerce L ''null'' JNull))"
    by (intro rd_always always_readBytes always_coerce)
  then show ?case by (simp add: always_def)
next
  case (ArrayCoder c len nm)
  have c: "always moves (decode L (AnonymousCoder c))"
    using ArrayCoder by (simp add: always_def)
  have "always moves (bindS (read_count L len) (\<lambda>count.
     bindS (unpack L (decode L) (replicate count (AnonymousCoder c))) (\<lambda>v. coerce L ''array'' v)))"
    by (intro rd_always always_read_count always_unpack always_coerce) (auto simp: c)
  then show ?case by (simp add: always_def)
next
  case (TupleCoder cs nm)
  have "always moves (bindS (unpack L (decode L) cs) (\<lambda>v. coerce L ''tuple'' v))"
    by (intro rd_always always_unpack always_coerce) (simp add: TupleCoder)
  then show ?case by (simp add: always_def)
next
  case (AnonymousCoder c)
  then show ?case by (simp add: always_def)
qed


section \<open>A failed value does not misalign the next\<close>

text \<open>
  What an action reads, unless it runs out of data: \<^verbatim>\<open>strict\<close> actions fail in no other way,
  \<^verbatim>\<open>consumes\<close> actions may, but only after they have read their share.
\<close>

definition overrun :: "js_error + 'a \<Rightarrow> bool" where
  "overrun res = (case res of Inl e \<Rightarrow> ecode e = BUFFER_OVERRUN | Inr _ \<Rightarrow> False)"

lemma overrun_simps [simp]: "overrun (Inl e) \<longleftrightarrow> ecode e = BUFFER_OVERRUN" "\<not> overrun (Inr x)"
  by (simp_all add: overrun_def)

definition plain_reader :: "reader \<Rightarrow> bool" where
  "plain_reader r \<longleftrightarrow> rd_wordSize r = 64 \<and> rd_coerceFunc r = None"

lemma plain_advance [simp]: "plain_reader (advance r n) = plain_reader r"
  by (simp add: plain_reader_def)

definition consumes :: "(reader, js_error, 'a) action \<Rightarrow> nat \<Rightarrow> bool" where
  "consumes m n \<longleftrightarrow>
     (\<forall>r. plain_reader r \<longrightarrow> overrun (fst (m r)) \<or> snd (m r) = advance r n)"

definition strict :: "(reader, js_error, 'a) action \<Rightarrow> nat \<Rightarrow> bool" where
  "strict m n \<longleftrightarrow>
     (\<forall>r. plain_reader r \<longrightarrow> overrun (fst (m r)) \<or> (\<exists>x. m r = (Inr x, advance r n)))"

lemma consumes_pure: "consumes (liftS res) 0" "consumes (coerce L name v) 0"
  by (simp_all add: consumes_def coerce_def)

lemma strict_return: "strict (returnS x) 0"
  by (simp add: strict_def)

lemma strict_bind:
  assumes "strict m a" and "\<And>x. strict (f x) b"
  shows "strict (bindS m f) (a + b)"
  unfolding strict_def
proof (intro allI impI)
  fix r
  assume r: "plain_reader r"
  then consider (over) e s where "m r = (Inl e, s)" "ecode e = BUFFER_OVERRUN"
    | (ok) x where "m r = (Inr x, advance r a)"
    using assms(1) unfolding strict_def by (metis overrun_simps old.sum.exhaust prod.collapse)
  then show "overrun (fst (bindS m f r)) \<or> (\<exists>x. bindS m f r = (Inr x, advance r (a + b)))"
  proof cases
    case over
    then show ?thesis by (simp add: bindS_def)
  next
    case ok
    with assms(2) [of x] r show ?thesis by (simp add: bindS_def strict_def) (metis advance_simps(2) plain_advance)
  qed
qed

lemma strict_consumes_bind:
  assumes "strict m a" and "\<And>x. consumes (f x) b"
  shows "consumes (bindS m f) (a + b)"
  unfolding consumes_def
proof (intro allI impI)
  fix r
  assume r: "plain_reader r"
  then consider (over) e s where "m r = (Inl e, s)" "ecode e = BUFFER_OVERRUN"
    | (ok) x where "m r = (Inr x, advance r a)"
    using assms(1) unfolding strict_def by (metis overrun_simps old.sum.exhaust prod.collapse)
  then show "overrun (fst (bindS m f r)) \<or> snd (bindS m f r) = advance r (a + b)"
  proof cases
    case over
    then show ?thesis by (simp add: bindS_def)
  next
    case ok
    with assms(2) [of x] r show ?thesis
      by (simp add: bindS_def consumes_def) (metis advance_simps(2) plain_advance)
  qed
qed

lemma consumes_bind_pure:
  assumes "consumes m a" and "\<And>x. consumes (f x) 0"
  shows "consumes (bindS m f) a"
  unfolding consumes_def
proof (intro allI impI)
  fix r
  assume r: "plain_reader r"
  obtain res s where m: "m r = (res, s)" by (cases "m r")
  with assms(1) r have "overrun res \<or> s = advance r a" unfolding consumes_def by force
  then show "overrun (fst (bindS m f r)) \<or> snd (bindS m f r) = advance r a"
    using m r assms(2) by (cases res) (auto simp: bindS_def consumes_def)
qed

lemma strict_readBytes: "strict (readBytes n False) (alignedLength 64 n)"
proof -
  have "alignedLength 64 n = min (length (rd_data r) - rd_offset r) (alignedLength 64 n)"
    if "\<not> length (rd_data r) < rd_offset r + alignedLength 64 n" for r
    using that by simp
  then show ?thesis
    by (auto simp: strict_def readBytes_def peekBytes_def bindS_def Let_def plain_reader_def advance_def)
qed

lemma strict_readValue: "bignum_ok L \<Longrightarrow> strict (readValue L) 64"
proof -
  assume L: "bignum_ok L"
  have "strict (bindS (readBytes 64 False) (\<lambda>bs. liftS (big_from L (JBytes bs)))) (alignedLength 64 64 + 0)"
    using L by (intro strict_bind strict_readBytes) (simp add: strict_def bignum_okD)
  then show ?thesis
    by (auto simp: strict_def readValue_def plain_reader_def alignedLength_64)
qed

lemma strict_unpack_one:
  "\<not> dynamic c \<Longrightarrow> consumes (dec c) n \<Longrightarrow> strict (unpack_one L dec b c) n"
  unfolding strict_def consumes_def unpack_one_def
  by (auto simp: case_prod_beta keep_error_def split: sum.splits)

lemma strict_unpack_loop:
  "(\<And>c. c \<in> set cs \<Longrightarrow> \<not> dynamic c \<and> consumes (dec c) (head_size c)) \<Longrightarrow>
   strict (unpack_loop L dec b cs) (heads_size cs)"
proof (induction cs)
  case Nil
  then show ?case by (simp add: strict_def heads_size_def)
next
  case (Cons c cs)
  have "strict (bindS (unpack_one L dec b c) (\<lambda>v.
     bindS (unpack_loop L dec b cs) (\<lambda>vs. returnS (if isNullish v then vs else v # vs))))
     (head_size c + (heads_size cs + 0))"
    using Cons by (intro strict_bind strict_unpack_one strict_return) auto
  then show ?case by (simp add: strict_def heads_size_def)
qed

lemma consumes_cong: "consumes m n \<Longrightarrow> (\<And>s. m' s = m s) \<Longrightarrow> k = n \<Longrightarrow> consumes m' k"
  by (simp add: consumes_def)

lemma consumes_unpack:
  assumes "\<And>c. c \<in> set cs \<Longrightarrow> \<not> dynamic c \<and> consumes (dec c) (head_size c)"
  shows "consumes (unpack L dec cs) (heads_size cs)"
proof -
  have "consumes (bindS (unpack_loop L dec (subReader t 0) cs) (\<lambda>vals. liftS (assemble cs vals)))
      (heads_size cs + 0)" for t
    using assms by (intro strict_consumes_bind strict_unpack_loop consumes_pure)
  then show ?thesis by (simp add: consumes_def unpack_def)
qed

lemma consumes_decode:
  assumes "bignum_ok L"
  shows "\<not> dynamic c \<Longrightarrow> wf_coder c \<Longrightarrow> consumes (decode L c) (head_size c)"
proof (induction c rule: coder.induct)
  case (NumberCoder sz sg nm)
  have "consumes (bindS (readValue L) (\<lambda>n.
       let u = big_mask L n (sz * 8) in
       coerce L (coder_name (NumberCoder sz sg nm))
         (JBN (if sg then big_fromTwos L u (sz * 8) else u)))) (64 + 0)"
    unfolding Let_def by (intro strict_consumes_bind strict_readValue consumes_pure assms)
  then show ?case by (rule consumes_cong) simp_all
next
  case (AddressCoder nm)
  have "consumes (bindS (readValue L) (\<lambda>n. liftS (decode_address L n))) (64 + 0)"
    by (intro strict_consumes_bind strict_readValue consumes_pure assms)
  then show ?case by (rule consumes_cong) simp_all
next
  case (BooleanCoder nm)
  have "consumes (bindS (readValue L) (\<lambda>n. coerce L ''bool'' (JBool (n \<noteq> 0)))) (64 + 0)"
    by (intro strict_consumes_bind strict_readValue consumes_pure assms)
  then show ?case by (rule consumes_cong) simp_all
next
  case (FixedBytesCoder sz nm)
  have "consumes (bindS (readBytes sz False) (\<lambda>bs.
       coerce L (coder_name (FixedBytesCoder sz nm)) (JStr (hexlify L bs)))) (alignedLength 64 sz + 0)"
    by (intro strict_consumes_bind strict_readBytes consumes_pure)
  then show ?case by (rule consumes_cong) simp_all
next
  case (NullCoder nm)
  have "consumes (bindS (readBytes 0 False) (\<lambda>_. coerce L ''null'' JNull)) (alignedLength 64 0 + 0)"
    by (intro strict_consumes_bind strict_readBytes consumes_pure)
  then show ?case by (rule consumes_cong) simp_all
next
  case (ArrayCoder c len nm)
  then have c: "\<not> dynamic c" "consumes (decode L (AnonymousCoder c)) (head_size c)" and len: "0 \<le> len"
    by (auto simp: consumes_def)
  have "consumes (bindS (returnS (nat len)) (\<lambda>count.
     bindS (unpack L (decode L) (replicate count (AnonymousCoder c))) (\<lambda>v. coerce L ''array'' v)))
     (nat len * head_size c)"
    using c consumes_unpack [of "replicate (nat len) (AnonymousCoder c)" "decode L" L]
    by (auto intro!: consumes_bind_pure consumes_pure)
  then show ?case
    using c len by (auto intro!: consumes_cong simp: read_count_def)
next
  case (TupleCoder cs nm)
  have "consumes (bindS (unpack L (decode L) cs) (\<lambda>v. coerce L ''tuple'' v)) (heads_size cs)"
    using TupleCoder
    by (intro consumes_bind_pure consumes_unpack consumes_pure) (auto simp: list_all_iff)
  then show ?case using TupleCoder.prems by (rule_tac consumes_cong) (auto simp: heads_size_def)
next
  case (AnonymousCoder c)
  then show ?case by (auto intro: consumes_cong)
qed auto


section \<open>Encoding only appends\<close>

definition grows :: "writer \<Rightarrow> writer \<Rightarrow> bool" where
  "grows w w' \<longleftrightarrow> (\<exists>X. w' = extended w X)"

interpretation wr: action_relation grows
proof
  show "grows w w" for w by (auto simp: grows_def extended_def intro!: exI [of _ "[]"])
  show "grows w u" if "grows w t" "grows t u" for w t u
    using that by (auto simp: grows_def extended_extended)
qed

lemmas wr_always = wr.always_basic wr.always_bind

lemma always_writeData: "always grows (writeData bs)"
  by (auto simp: always_def grows_def writeData_def extended_def intro!: exI [of _ "[bs]"])

lemma always_writeBytes: "always grows (writeBytes L v)"
  unfolding writeBytes_def
proof (intro wr_always)
  show "always grows (\<lambda>w. let paddingOffset = length bs mod wr_wordSize w in
     writeData (if paddingOffset \<noteq> 0
                then concat_bytes L [bs, drop paddingOffset (wr_padding w)] else bs) w)" for bs
    using always_writeData by (rule always_look) (simp add: Let_def)
qed

lemma always_writeValue: "always grows (writeValue L v)"
proof (rule always_look)
  show "always grows (bindS (liftS (getValue L t v)) writeData)" for t
    by (intro wr_always always_writeData)
qed (simp add: writeValue_def)

lemma always_encode_bytes: "always grows (encode_bytes L v)"
  unfolding encode_bytes_def by (intro wr_always always_writeValue always_writeBytes)

lemma always_pack: "always grows (pack L enc cs v)"
proof -
  have app: "always grows (bindS (appendWriter L sw) (\<lambda>n. bindS (appendWriter L dw) (\<lambda>m. returnS (n + m))))"
    for sw dw
    unfolding appendWriter_def by (intro wr_always always_writeData)
  then show ?thesis
    unfolding always_def pack_def by (auto simp: wr.rel_refl Let_def split: sum.splits)
qed

lemma always_encode: "always grows (encode L c v)"
proof (induction c arbitrary: v rule: coder.induct)
  case (NumberCoder sz sg nm)
  have "always grows (bindS (liftS (bindR (big_from L v) (number_word L (wr_wordSize t) sz sg)))
      (\<lambda>n. writeValue L (JBN n)))" for t :: writer
    by (intro wr_always always_writeValue)
  then show ?case by (rule always_look) simp
next
  case (AddressCoder nm)
  have "always grows (writeValue L v)" for v by (rule always_writeValue)
  then show ?case unfolding always_def by (auto simp: wr.rel_refl split: sum.splits)
next
  case (BooleanCoder nm)
  show ?case using always_writeValue by (rule always_cong) simp
next
  case (BytesCoder nm)
  show ?case using always_encode_bytes by (rule always_cong) simp
next
  case (FixedBytesCoder sz nm)
  have "always grows (bindS (liftS (arrayify L v)) (\<lambda>bs.
       if length bs \<noteq> sz then throwS (arg_error ''incorrect data length'')
       else writeBytes L (JBytes bs)))"
    by (auto intro!: wr_always always_writeBytes)
  then show ?case by (rule always_cong) simp
next
  case (StringCoder nm)
  have "always grows (bindS (liftS (string_bytes L v)) (\<lambda>bs. encode_bytes L (JBytes bs)))"
    by (intro wr_always always_encode_bytes)
  then show ?case by (rule always_cong) simp
next
  case (NullCoder nm)
  have "always grows (writeBytes L (JArr []))" by (rule always_writeBytes)
  then show ?case unfolding always_def by (auto simp: wr.rel_refl)
next
  case (ArrayCoder c len nm)
  have "always grows (array_count L len n)" for n
    unfolding array_count_def by (auto intro!: wr_always always_writeValue)
  then have "always grows (bindS (array_count L len (length vs)) (\<lambda>count.
          bindS (liftS (checkArgumentCount L (length vs) (nat count)
              (''coder array'' @ (if nm \<noteq> [] then '' '' @ nm else [])))) (\<lambda>_.
          pack L (encode L) (replicate (length vs) c) v)))" for vs
    by (intro wr_always always_pack)
  note body = this
  show ?case
  proof (cases "js_elems v")
    case None
    then show ?thesis by (simp add: always_def wr.rel_refl)
  next
    case (Some vs)
    with body [of vs] show ?thesis by (rule_tac always_cong) simp_all
  qed
next
  case (TupleCoder cs nm)
  show ?case using always_pack by (rule always_cong) simp
next
  case (AnonymousCoder c)
  then show ?case by (rule always_cong) simp
qed

section \<open>Numbers out of range\<close>

lemma number_word_range:
  assumes "bignum_ok L" and "0 < sz" and "sz \<le> 64"
  shows "number_word L 64 sz sg n
    = (if num_in_range sz sg n then Inr (n mod 2 ^ 512) else Inl (arg_error ''value out-of-bounds''))"
proof (cases "num_in_range sz sg n")
  case True
  with assms show ?thesis by (simp add: number_word_ok)
next
  case False
  have max: "big_mask L max_uint512 512 = 2 ^ 512 - 1"
    using mask_nonneg [OF assms(1), of "2 ^ 512 - 1" 512] by (simp add: max_uint512_def)
  have bounds: "big_mask L (2 ^ 512 - 1) k = 2 ^ k - 1" if "k \<le> 512" for k
    using mask_nonneg [OF assms(1), of "2 ^ 512 - 1" k] ones_mod [OF that] by simp
  show ?thesis
    using False max bounds [of "sz * 8"] bounds [of "sz * 8 - 1"] assms(3)
    by (cases sg) (auto simp: number_word_def num_in_range_def Let_def not_le not_less)
qed

section \<open>Array lengths\<close>

lemma unpack_loop_length:
  "unpack_loop L dec b cs r = (Inr vs, r') \<Longrightarrow> length vs \<le> length cs"
proof (induction cs arbitrary: r vs r')
  case Nil
  then show ?case by simp
next
  case (Cons c cs)
  then obtain v us r1 r2 where "unpack_loop L dec b cs r1 = (Inr us, r2)"
    and "vs = us \<or> vs = v # us"
    by (auto elim!: bindS_cases split: if_splits)
  with Cons.IH show ?case by force
qed

lemma unpack_result:
  assumes "unpack L dec cs r = (Inr v, r')"
  obtains vs ns where "v = JResult vs ns" and "length vs \<le> length cs"
  using assms
  by (auto simp: unpack_def assemble_def map_sum_def split: sum.splits elim!: bindS_cases
      dest!: unpack_loop_length)

lemma read_count_bound:
  assumes "read_count L (- 1) r = (Inr n, r')"
  shows "n * rd_wordSize r \<le> length (rd_data r)"
proof -
  have "moves r r'" using always_read_count assms by (rule alwaysD)
  with assms show ?thesis
    by (auto simp: read_count_def moves_def not_less elim!: bindS_cases split: if_splits
        dest!: alwaysD [OF always_readNumber])
qed


lemma array_elements_bound:
  assumes "plain_reader r" and "decode L (ArrayCoder c (- 1) nm) r = (Inr v, r')"
  shows "\<exists>vs ns. v = JResult vs ns \<and> length vs * 64 \<le> length (rd_data r)"
proof -
  obtain n r1 u r2 where n: "read_count L (- 1) r = (Inr n, r1)"
    and u: "unpack L (decode L) (replicate n (AnonymousCoder c)) r1 = (Inr u, r2)"
    and co: "coerce L ''array'' u r2 = (Inr v, r')"
    using assms(2) by (auto elim!: bindS_cases)
  have "moves r r1" using always_read_count n by (rule alwaysD)
  moreover have "moves r1 r2" using always_unpack [OF always_decode] u by (rule alwaysD)
  ultimately have keep: "rd_coerceFunc r2 = None" using assms(1) by (simp add: moves_def plain_reader_def)
  have "n * 64 \<le> length (rd_data r)" using read_count_bound [OF n] assms(1) by (simp add: plain_reader_def)
  moreover obtain vs ns where "u = JResult vs ns" "length vs \<le> n"
    using unpack_result [OF u] by auto
  moreover have "v = u" using co keep by (simp add: coerce_def default_coerce_def int_name_bits_others)
  ultimately show ?thesis
    by (intro exI [of _ vs] exI [of _ ns]) (auto intro: order_trans [OF mult_le_mono1])
qed


section \<open>The properties\<close>


text \<open>
  Decoding a static value either fails for want of data or moves the reader by exactly the room the
  value has in the heads, so an error that is kept as the value of one component does not
  misalign the components after it.
\<close>

theorem static_decode_consumes_head:
  assumes "bignum_ok L" and "\<not> dynamic c" and "wf_coder c"
    and "rd_wordSize r = 64" and "rd_coerceFunc r = None"
  shows "(\<exists>e. fst (decode L c r) = Inl e \<and> ecode e = BUFFER_OVERRUN) \<or>
    rd_offset (snd (decode L c r)) = rd_offset r + head_size c"
proof -
  have "overrun (fst (decode L c r)) \<or> snd (decode L c r) = advance r (head_size c)"
    using consumes_decode [OF assms(1-3)] assms(4,5) by (simp add: consumes_def plain_reader_def)
  then show ?thesis by (cases "fst (decode L c r)") (auto simp: advance_def)
qed

theorem static_decode_consumes_head_witness:
  "\<not> dynamic (TupleCoder [BooleanCoder ''a'', NumberCoder 2 True ''b''] []) \<and>
   ((\<exists>e. fst (decode lib_ref (TupleCoder [BooleanCoder ''a'', NumberCoder 2 True ''b''] [])
        (new_reader (replicate 130 1) 64 None False)) = Inl e \<and> ecode e = BUFFER_OVERRUN) \<or>
    rd_offset (snd (decode lib_ref (TupleCoder [BooleanCoder ''a'', NumberCoder 2 True ''b''] [])
        (new_reader (replicate 130 1) 64 None False))) = 128)"
  using static_decode_consumes_head
    [OF lib_ref_bignum, of "TupleCoder [BooleanCoder ''a'', NumberCoder 2 True ''b''] []"
      "new_reader (replicate 130 1) 64 None False"]
  by (simp add: new_reader_def del: decode.simps)

text \<open>
  Encoding any value with any coder only appends to the writer, whether it succeeds or throws: what
  was written before stays, and the length it keeps grows by the number of the bytes appended, which
  is what the offsets written for dynamic values are computed from.
\<close>

theorem encode_only_appends:
  "\<exists>X. wr_data (snd (encode L c v w)) = wr_data w @ X \<and>
     wr_length (snd (encode L c v w)) = wr_length w + length (concat X)"
  using always_encode [of L c v] by (auto simp: always_def grows_def elim!: allE [of _ w])

text \<open>
  The coder of a number of \<^verbatim>\<open>sz\<close> bytes accepts exactly the numbers of its range, signed or unsigned; any
  other is refused with an invalid argument error and nothing is written.
\<close>

theorem number_encode_range:
  assumes "bignum_ok L" and "0 < sz" and "sz \<le> 64" and "wr_wordSize w = 64"
    and "big_from L v = Inr n" and "\<not> num_in_range sz sg n"
  shows "encode L (NumberCoder sz sg nm) v w = (Inl (arg_error ''value out-of-bounds''), w)"
  using assms number_word_range [OF assms(1-3), of sg n] by (simp add: bindS_def)

theorem number_encode_range_witness:
  "encode lib_ref (NumberCoder 1 True ''x'') (JNum (NInt 128)) (new_writer 64)
     = (Inl (arg_error ''value out-of-bounds''), new_writer 64)"
  by (rule number_encode_range [OF lib_ref_bignum, where n = 128])
     (simp_all add: new_writer_def num_in_range_def lib_ref_def ref_big_from_def MAX_SAFE_INTEGER_def)

text \<open>
  A decoded dynamic array never has more elements than its data has words: a count that the data cannot
  back is refused before anything is allocated for it.
\<close>

theorem decoded_array_bounded:
  assumes "rd_wordSize r = 64" and "rd_coerceFunc r = None"
    and "decode L (ArrayCoder c (- 1) nm) r = (Inr v, r')"
  shows "\<exists>vs ns. v = JResult vs ns \<and> length vs * 64 \<le> length (rd_data r)"
  using assms by (intro array_elements_bound) (auto simp: plain_reader_def)

theorem decoded_array_bounded_witness:
  "\<exists>v r' vs ns. decode lib_ref (ArrayCoder (BooleanCoder []) (- 1) [])
       (new_reader (nat_be 64 1 @ nat_be 64 1) 64 None False) = (Inr v, r') \<and>
     v = JResult vs ns \<and> length vs * 64 \<le> 128"
proof -
  let ?r = "new_reader (nat_be 64 1 @ nat_be 64 1) 64 None False"
  have "fst (decode lib_ref (ArrayCoder (BooleanCoder []) (- 1) []) ?r) = Inr (JResult [JBool True] [])"
    by code_simp
  then obtain r' where d: "decode lib_ref (ArrayCoder (BooleanCoder []) (- 1) []) ?r
      = (Inr (JResult [JBool True] []), r')"
    by (metis prod.collapse)
  have "rd_wordSize ?r = 64" "rd_coerceFunc ?r = None" "length (rd_data ?r) = 128"
    by (simp_all add: new_reader_def)
  with decoded_array_bounded [OF _ _ d] d show ?thesis by metis
qed

end
