(* ===== verification/AbiTypes.thy ===== *)
theory AbiTypes
  imports AbiApi
begin

text \<open>
  The coder of a parameter type stands for that type: its type text, which error reports and the
  nested coders build up from the coders, is the minimal format of the parameter type it was made of.
\<close>

section \<open>Canonical numbers in types\<close>

lemma digit_char_digit_val: "digit_val c = Some d \<Longrightarrow> d < 10 \<Longrightarrow> digit_char d = c"
  by (auto simp: digit_val_def digit_char_def Let_def split: if_splits)

lemma dec_str_digits_val:
  assumes "list_all is_dec_char (d # ds)" and "d \<noteq> CHR ''0'' \<or> ds = []"
  shows "dec_str (digits_val 10 (d # ds)) = d # ds"
proof -
  let ?f = "\<lambda>c. the (digit_val c)"
  have less: "\<forall>c \<in> set (d # ds). ?f c < 10"
    using assms(1) by (auto simp: list_all_iff is_digit_of_Some)
  have digit: "digit_char (?f c) = c" if "c \<in> set (d # ds)" for c
    using assms(1) that by (auto simp: list_all_iff is_digit_of_Some digit_char_digit_val)
  have "?f d \<noteq> 0" if "d \<noteq> CHR ''0''"
    using digit [of d] that by (intro notI) simp
  then have "radix_digits 10 (radix_val 10 (map ?f (d # ds))) = map ?f (d # ds)"
    using less assms(2) by (intro radix_digits_canonical) auto
  moreover have "map (digit_char \<circ> ?f) (d # ds) = d # ds" using digit by (simp add: map_idI)
  ultimately show ?thesis by (simp add: radix_str_def digits_val_def del: list.map)
qed


section \<open>Types written in their usual form\<close>

text \<open>
  A parameter type is plain when it is not indexed, its array and tuple structure is the one its base
  type announces, and its elementary type is spelt with its size and without leading zeros.
\<close>

fun plain_param :: "param_type \<Rightarrow> bool" where
  "plain_param (ParamType nm t bt ix comps len child) =
     (ix \<noteq> Some True \<and>
      (if bt = ''array'' then
         (case len of Some n \<Rightarrow> - 1 \<le> n | None \<Rightarrow> False) \<and>
         (case child of Some ch \<Rightarrow> plain_param ch | None \<Rightarrow> False)
       else if bt = ''tuple'' then
         t = ''tuple'' \<and> (case comps of Some ps \<Rightarrow> list_all (\<lambda>p. plain_param p) ps | None \<Rightarrow> True)
       else bt = t \<and> verifyType t = t \<and> \<not> startsWith t ''bytes0''))"

lemma verifyType_fixed:
  assumes "verifyType t = t" and "t = p @ ds" and "p = ''uint'' \<or> p = ''int''"
    and "list_all is_dec_char ds"
  shows "\<exists>d es. ds = d # es \<and> d \<noteq> CHR ''0''"
proof -
  have "\<not> starts_elementary p t"
  proof
    assume "starts_elementary p t"
    then have "verifyType t = p @ ''512'' @ ds"
      using assms(2,3) by (auto simp: verifyType_def starts_elementary_def startsWith_def)
    with assms(1,2) show False by auto
  qed
  with assms(2,4) startsWith_append [of p ds] show ?thesis
    by (cases ds) (auto simp: starts_elementary_def)
qed

lemma int_match_Some:
  assumes "int_match t = Some (sg, ds)"
  shows "t = (if sg then ''int'' else ''uint'') @ ds" and "list_all is_dec_char ds"
  using assms
  by (auto simp: int_match_def Let_def split: if_splits elim!: startsWithE)

lemma scalar_coder_type:
  assumes "scalar_coder t nm = Inr c" and "verifyType t = t" and "\<not> startsWith t ''bytes0''"
  shows "coder_type c = t"
proof (cases "int_match t")
  case None
  with assms(1) obtain ds where ds: "bytes_match t = Some ds" "c = FixedBytesCoder (digits_val 10 ds) nm"
    "digits_val 10 ds \<noteq> 0"
    by (auto simp: scalar_coder_def Let_def split: option.splits if_splits)
  then have t: "t = ''bytes'' @ ds" "list_all is_dec_char ds"
    by (auto simp: bytes_match_def split: if_splits elim!: startsWithE)
  obtain d es where d: "ds = d # es" using ds(3) by (cases ds) (auto simp: digits_val_def)
  with t(1) assms(3) have "d \<noteq> CHR ''0''" by (auto simp: startsWith_def)
  with d t dec_str_digits_val [of d es] ds(2) show ?thesis by simp
next
  case (Some m)
  obtain sg ds where m: "m = (sg, ds)" by (cases m)
  with Some have t: "t = (if sg then ''int'' else ''uint'') @ ds" "list_all is_dec_char ds"
    using int_match_Some by auto
  with assms(2) obtain d es where d: "ds = d # es" "d \<noteq> CHR ''0''"
    using verifyType_fixed [of t "if sg then ''int'' else ''uint''" ds] by (cases sg) auto
  from assms(1) Some m d have "c = NumberCoder (digits_val 10 ds div 8) sg nm" "digits_val 10 ds mod 8 = 0"
    by (auto simp: scalar_coder_def Let_def split: if_splits)
  moreover have "digits_val 10 ds div 8 * 8 = digits_val 10 ds"
    using calculation(2) by presburger
  ultimately show ?thesis using d t dec_str_digits_val [of d es] by simp
qed

lemma mapR_results_agree:
  "mapR h ps = Inr cs \<Longrightarrow> (\<And>p c. p \<in> set ps \<Longrightarrow> h p = Inr c \<Longrightarrow> tc c = tp p)
    \<Longrightarrow> map tc cs = map tp ps"
  unfolding mapR_Inr_iff by (induction rule: list_all2_induct) simp_all

lemma getCoder_type:
  "plain_param p \<Longrightarrow> getCoder p = Inr c \<Longrightarrow> coder_type c = format_param ''minimal'' p"
proof (induction p arbitrary: c rule: getCoder.induct)
  case (1 nm t bt ix comps len child)
  consider (a) "bt = ''array''" | (t) "bt = ''tuple''" | (s) "bt \<noteq> ''array''" "bt \<noteq> ''tuple''" by blast
  then show ?case
  proof cases
    case a
    with "1.prems" obtain ch k n where ch: "child = Some ch" "getCoder ch = Inr k" "len = Some n"
      and c: "c = ArrayCoder k n (name_of nm)" and n: "- 1 \<le> n" and pl: "plain_param ch"
      and ix: "ix \<noteq> Some True"
      by (auto simp: bindR_Inr_iff split: option.splits)
    have "coder_type k = format_param ''minimal'' ch" using "1.IH"(1) ch pl a by auto
    with a ch c ix show ?thesis by (simp add: int_str_def)
  next
    case t
    show ?thesis
    proof (cases comps)
      case None
      with "1.prems" t show ?thesis by (auto simp: format_sep_def)
    next
      case (Some ps)
      with "1.prems" t obtain cs where cs: "mapR getCoder ps = Inr cs" "c = TupleCoder cs (name_of nm)"
        by (auto simp: map_sum_def split: sum.splits)
      have "map coder_type cs = map (format_param ''minimal'') ps"
        using cs(1)
      proof (rule mapR_results_agree)
        fix p c
        assume "p \<in> set ps" "getCoder p = Inr c"
        moreover from this have "plain_param p"
          using "1.prems" t Some by (auto simp: list_all_iff)
        ultimately show "coder_type c = format_param ''minimal'' p"
          using "1.IH"(2) t Some by auto
      qed
      with "1.prems" t Some cs(2) show ?thesis by (auto simp: format_sep_def)
    qed
  next
    case s
    with "1.prems" have "verifyType t = t" "\<not> startsWith t ''bytes0''" "bt = t" "ix \<noteq> Some True" by auto
    with s "1.prems" scalar_coder_type show ?thesis by (auto split: if_splits)
  qed
qed


section \<open>The property\<close>

text \<open>
  The type text of the coder \<^verbatim>\<open>_getCoder\<close> returns is the minimal format of the parameter type, for
  types spelt with their sizes: nested arrays, tuples and elementary types are all given the coder
  of exactly that type.
\<close>

theorem getCoder_stands_for_type:
  assumes "plain_param p" and "getCoder p = Inr c"
  shows "coder_type c = format_param ''minimal'' p"
  using assms by (rule getCoder_type)

theorem getCoder_stands_for_type_witness:
  "\<exists>p c. ParamType_fromString ''tuple(uint8 a, bytes4[3][] b)[2] x'' False = Inr p \<and>
     getCoder p = Inr c \<and> coder_type c = format_param ''minimal'' p \<and>
     format_param ''minimal'' p = ''tuple(uint8,bytes4[3][])[2]''"
proof -
  let ?s = "''tuple(uint8 a, bytes4[3][] b)[2] x''"
  let ?c = "ArrayCoder (TupleCoder
      [NumberCoder 1 False ''a'', ArrayCoder (ArrayCoder (FixedBytesCoder 4 []) 3 []) (- 1) ''b''] []) 2 ''x''"
  have ok: "case ParamType_fromString ?s False of
      Inr p \<Rightarrow> plain_param p \<and> getCoder p = Inr ?c \<and>
        format_param ''minimal'' p = ''tuple(uint8,bytes4[3][])[2]''
    | Inl _ \<Rightarrow> False"
    by code_simp
  then obtain p where p: "ParamType_fromString ?s False = Inr p" "plain_param p" "getCoder p = Inr ?c"
    "format_param ''minimal'' p = ''tuple(uint8,bytes4[3][])[2]''"
    by (auto split: sum.splits)
  from getCoder_stands_for_type [OF p(2,3)] p show ?thesis by blast
qed

end
