(* ===== verification/Rpc.thy ===== *)
theory Rpc
  imports ValUtils
begin

text \<open>
  The building blocks of the providers in \<^verbatim>\<open>web3-utils\<close>: the JSON-RPC messages (\<^verbatim>\<open>json_rpc.ts\<close>), the
  bounds of a provider (\<^verbatim>\<open>provider_bounds.ts\<close>), the signal composed of a deadline and the caller's own
  signal (\<^verbatim>\<open>abort_helpers.ts\<close>) and the deferred promise (\<^verbatim>\<open>web3_deferred_promise.ts\<close>).
\<close>

section \<open>Messages\<close>

text \<open>A property of a message that is an object; \<^verbatim>\<open>null\<close> and \<^verbatim>\<open>undefined\<close> have none to read.\<close>

definition msg_prop :: "jsval \<Rightarrow> string \<Rightarrow> jsval" where
  "msg_prop v k = (case v of JObj kvs \<Rightarrow> obj_get kvs k | _ \<Rightarrow> JUndef)"

definition msg_has :: "jsval \<Rightarrow> string \<Rightarrow> bool" where
  "msg_has v k = (case v of JObj kvs \<Rightarrow> k \<in> set (map fst kvs) | _ \<Rightarrow> False)"

definition version_2 :: "jsval \<Rightarrow> bool" where
  "version_2 v = (msg_prop v ''jsonrpc'' = JStr ''2.0'')"

definition has_id :: "jsval \<Rightarrow> bool" where
  "has_id v = (typeof (msg_prop v ''id'') \<in> {TNumber, TString})"

definition rpcErrorCodes :: "int list" where
  "rpcErrorCodes = [- 32700, - 32600, - 32601, - 32602, - 32603, - 32000, - 32002, - 32003, - 32004,
     - 32005, - 32006, - 32001]"

definition isResponseRpcError :: "int \<Rightarrow> bool" where
  "isResponseRpcError errorCode =
     (errorCode \<in> set rpcErrorCodes \<or> (- 32099 \<le> errorCode \<and> errorCode \<le> - 32000))"

definition isResponseWithResult :: "jsval \<Rightarrow> bool" where
  "isResponseWithResult r =
     (\<not> isArray r \<and> js_truthy r \<and> version_2 r \<and> msg_has r ''result'' \<and>
      isNullish (msg_prop r ''error'') \<and> has_id r)"

text \<open>Here the message is looked into before it is known not to be \<^verbatim>\<open>null\<close>.\<close>

definition isResponseWithError :: "jsval \<Rightarrow> js_error + bool" where
  "isResponseWithError r =
     (if isNullish r then Inl (err_class ''TypeError'' ''Cannot read properties of null'')
      else Inr (\<not> isArray r \<and> version_2 r \<and> js_truthy r \<and> isNullish (msg_prop r ''result'') \<and>
        msg_has r ''error'' \<and> has_id r))"

definition isResponseWithNotification :: "jsval \<Rightarrow> bool" where
  "isResponseWithNotification r =
     (\<not> isArray r \<and> js_truthy r \<and> version_2 r \<and> \<not> isNullish (msg_prop r ''params'') \<and>
      \<not> isNullish (msg_prop r ''method''))"

definition isSubscriptionResult :: "jsval \<Rightarrow> bool" where
  "isSubscriptionResult r =
     (\<not> isArray r \<and> js_truthy r \<and> version_2 r \<and> msg_has r ''id'' \<and> msg_has r ''result'')"

definition validateResponse :: "jsval \<Rightarrow> js_error + bool" where
  "validateResponse r = (if isResponseWithResult r then Inr True else isResponseWithError r)"

fun everyR :: "('a \<Rightarrow> js_error + bool) \<Rightarrow> 'a list \<Rightarrow> js_error + bool" where
  "everyR f [] = Inr True"
| "everyR f (x # xs) = bindR (f x) (\<lambda>b. if b then everyR f xs else Inr False)"

definition isValidResponse :: "jsval \<Rightarrow> js_error + bool" where
  "isValidResponse r = (case js_elems r of
      Some rs \<Rightarrow> everyR validateResponse rs
    | None \<Rightarrow> validateResponse r)"

definition isBatchResponse :: "jsval \<Rightarrow> js_error + bool" where
  "isBatchResponse r = (case js_elems r of
      Some rs \<Rightarrow> if rs = [] then Inr False else isValidResponse r
    | None \<Rightarrow> Inr False)"

definition isBatchRequest :: "jsval \<Rightarrow> bool" where
  "isBatchRequest r = (case js_elems r of Some rs \<Rightarrow> rs \<noteq> [] | None \<Rightarrow> False)"

text \<open>
  A request before it has an id. Ids count up from the seed once one is set, and are taken from the
  supply of random ids otherwise; a request that brings its own id keeps it, but moves the seed all
  the same.
\<close>

record optional_request =
  or_jsonrpc :: jsval
  or_id :: jsval
  or_method :: jsval
  or_params :: jsval

definition nullish_or :: "jsval \<Rightarrow> jsval \<Rightarrow> jsval" where
  "nullish_or v d = (if isNullish v then d else v)"

definition setRequestIdStart :: "int option \<Rightarrow> int option \<Rightarrow> int option" where
  "setRequestIdStart start seed = start"

definition toPayload :: "string \<Rightarrow> int option \<Rightarrow> optional_request \<Rightarrow> jsval \<times> int option" where
  "toPayload uuid seed r =
     (let seed' = map_option (\<lambda>n. n + 1) seed;
          fresh = (case seed' of Some n \<Rightarrow> JNum (NInt n) | None \<Rightarrow> JStr uuid) in
      (JObj [(''jsonrpc'', nullish_or (or_jsonrpc r) (JStr ''2.0'')),
             (''id'', nullish_or (or_id r) fresh),
             (''method'', or_method r),
             (''params'', nullish_or (or_params r) JUndef)], seed'))"

fun toBatchPayload ::
  "string list \<Rightarrow> int option \<Rightarrow> optional_request list \<Rightarrow> jsval list \<times> int option" where
  "toBatchPayload uuids seed [] = ([], seed)"
| "toBatchPayload uuids seed (r # rs) =
     (let (p, seed') = toPayload (hd (uuids @ [[]])) seed r;
          (ps, seed'') = toBatchPayload (tl uuids) seed' rs in (p # ps, seed''))"

section \<open>Bounds\<close>

definition ProviderError :: "string \<Rightarrow> js_error" where
  "ProviderError m = err_class ''ProviderError'' m"

definition positive_finite :: "jsval \<Rightarrow> bool" where
  "positive_finite v = (case v of
      JNum (NInt n) \<Rightarrow> 0 < n
    | JNum (NFrac q) \<Rightarrow> 0 < q
    | _ \<Rightarrow> False)"

definition validateTimeout :: "jsval \<Rightarrow> string \<Rightarrow> js_error + jsval" where
  "validateTimeout v optionName =
     (if positive_finite v then Inr v else Inl (ProviderError (''Invalid '' @ optionName)))"

definition validatePositiveInteger :: "jsval \<Rightarrow> string \<Rightarrow> js_error + nat" where
  "validatePositiveInteger v optionName = (case v of
      JNum (NInt n) \<Rightarrow>
        if 0 < n then Inr (nat n) else Inl (ProviderError (''Invalid '' @ optionName))
    | _ \<Rightarrow> Inl (ProviderError (''Invalid '' @ optionName)))"

record bounds_options =
  o_connectionTimeout :: jsval
  o_requestTimeout :: jsval
  o_maxResponseBytes :: jsval
  o_maxInFlightRequests :: jsval

record resolved_bounds =
  connectionTimeout :: jsval
  requestTimeout :: jsval
  maxResponseBytes :: nat
  maxInFlightRequests :: nat

definition DEFAULT_CONNECTION_TIMEOUT :: jsval where
  "DEFAULT_CONNECTION_TIMEOUT = JNum (NInt 30000)"
definition DEFAULT_REQUEST_TIMEOUT :: jsval where
  "DEFAULT_REQUEST_TIMEOUT = JNum (NInt 120000)"
definition DEFAULT_MAX_RESPONSE_BYTES :: jsval where
  "DEFAULT_MAX_RESPONSE_BYTES = JNum (NInt (10 * 1024 * 1024))"
definition DEFAULT_MAX_IN_FLIGHT_REQUESTS :: jsval where
  "DEFAULT_MAX_IN_FLIGHT_REQUESTS = JNum (NInt 256)"

definition resolveProviderBounds :: "bounds_options option \<Rightarrow> js_error + resolved_bounds" where
  "resolveProviderBounds options =
     (let opt = (\<lambda>f d. case options of Some b \<Rightarrow> nullish_or (f b) d | None \<Rightarrow> d) in
      bindR (validateTimeout (opt o_connectionTimeout DEFAULT_CONNECTION_TIMEOUT)
        ''connectionTimeout'') (\<lambda>ct.
      bindR (validateTimeout (opt o_requestTimeout DEFAULT_REQUEST_TIMEOUT) ''requestTimeout'') (\<lambda>rt.
      bindR (validatePositiveInteger (opt o_maxResponseBytes DEFAULT_MAX_RESPONSE_BYTES)
        ''maxResponseBytes'') (\<lambda>mr.
      bindR (validatePositiveInteger (opt o_maxInFlightRequests DEFAULT_MAX_IN_FLIGHT_REQUESTS)
        ''maxInFlightRequests'') (\<lambda>mf.
        Inr \<lparr>connectionTimeout = ct, requestTimeout = rt, maxResponseBytes = mr,
          maxInFlightRequests = mf\<rparr>)))))"

lemma resolved_positive:
  assumes "resolveProviderBounds options = Inr b"
  shows "positive_finite (connectionTimeout b) \<and> positive_finite (requestTimeout b) \<and>
    0 < maxResponseBytes b \<and> 0 < maxInFlightRequests b"
  using assms
  by (auto simp: resolveProviderBounds_def Let_def validateTimeout_def validatePositiveInteger_def
      bindR_Inr_iff split: if_splits jsval.splits jsnum.splits)

section \<open>Composed abort signals\<close>

text \<open>
  The composed signal: whether its timer is armed, whether it listens to the caller's signal, the
  reason it was aborted with, whether the deadline was the cause and whether it was disposed of.
\<close>

record abort_comp =
  ab_timer :: bool
  ab_listening :: bool
  ab_reason :: "jsval option"
  ab_timedOut :: bool
  ab_disposed :: bool

definition ab_dispose :: "abort_comp \<Rightarrow> abort_comp" where
  "ab_dispose a =
     (if ab_disposed a then a
      else a\<lparr>ab_disposed := True, ab_timer := False, ab_listening := False\<rparr>)"

definition ab_abort :: "jsval \<Rightarrow> abort_comp \<Rightarrow> abort_comp" where
  "ab_abort reason a = (if ab_reason a = None then a\<lparr>ab_reason := Some reason\<rparr> else a)"

text \<open>The caller's signal, when there is one: the reason it was aborted with, if it was.\<close>

definition composeAbortSignal ::
  "jsval option \<Rightarrow> jsval option option \<Rightarrow> js_error + abort_comp" where
  "composeAbortSignal timeout signal =
     bindR (case timeout of None \<Rightarrow> Inr False
            | Some t \<Rightarrow> bindR (validateTimeout t ''timeout'') (\<lambda>_. Inr True)) (\<lambda>armed.
       let a = \<lparr>ab_timer = armed, ab_listening = False, ab_reason = None, ab_timedOut = False,
                ab_disposed = False\<rparr> in
       Inr (case signal of
           None \<Rightarrow> a
         | Some (Some reason) \<Rightarrow> ab_dispose (ab_abort reason a)
         | Some None \<Rightarrow> a\<lparr>ab_listening := True\<rparr>))"

definition ab_fire_timer :: "jsval \<Rightarrow> abort_comp \<Rightarrow> abort_comp" where
  "ab_fire_timer timeoutReason a =
     ab_dispose (ab_abort timeoutReason (a\<lparr>ab_timer := False, ab_timedOut := True\<rparr>))"

definition ab_fire_signal :: "jsval \<Rightarrow> abort_comp \<Rightarrow> abort_comp" where
  "ab_fire_signal reason a = ab_dispose (ab_abort reason (a\<lparr>ab_listening := False\<rparr>))"

text \<open>Nothing of the composition is left behind: no timer and no listener.\<close>

definition ab_released :: "abort_comp \<Rightarrow> bool" where
  "ab_released a = (\<not> ab_timer a \<and> \<not> ab_listening a)"

definition ab_wf :: "abort_comp \<Rightarrow> bool" where
  "ab_wf a = (ab_disposed a \<longrightarrow> ab_released a)"

lemma ab_dispose_released [simp]: "ab_wf a \<Longrightarrow> ab_released (ab_dispose a)"
  by (simp add: ab_wf_def ab_released_def ab_dispose_def)

lemma ab_wf_steps [simp]:
  "ab_wf a \<Longrightarrow> ab_wf (ab_dispose a)" "ab_wf (ab_abort r a) = ab_wf a"
  "ab_wf a \<Longrightarrow> ab_wf (ab_fire_timer r a)" "ab_wf a \<Longrightarrow> ab_wf (ab_fire_signal r a)"
  by (auto simp: ab_wf_def ab_dispose_def ab_released_def ab_abort_def ab_fire_timer_def
      ab_fire_signal_def)

lemma composeAbortSignal_wf:
  assumes "composeAbortSignal t s = Inr a"
  shows "ab_wf a"
proof -
  obtain armed where a: "a = (let a = \<lparr>ab_timer = armed, ab_listening = False, ab_reason = None,
      ab_timedOut = False, ab_disposed = False\<rparr> in
    case s of None \<Rightarrow> a | Some (Some reason) \<Rightarrow> ab_dispose (ab_abort reason a)
      | Some None \<Rightarrow> a\<lparr>ab_listening := True\<rparr>)"
    using assms by (auto simp: composeAbortSignal_def bindR_Inr_iff Let_def)
  have base: "ab_wf \<lparr>ab_timer = armed, ab_listening = l, ab_reason = None, ab_timedOut = False,
      ab_disposed = False\<rparr>" for l
    by (simp add: ab_wf_def)
  show ?thesis
  proof (cases s)
    case None
    with a base show ?thesis by simp
  next
    case (Some signal)
    with a base show ?thesis by (cases signal) (simp_all add: Let_def)
  qed
qed

section \<open>Deferred promises\<close>

datatype outcome = Resolve jsval | Reject jsval

datatype promise_tag = TagPending | TagFulfilled | TagRejected

text \<open>
  The promise keeps the first outcome it is given; the state the class reports is the one of the last
  call.
\<close>

record deferred =
  df_promise :: "outcome option"
  df_state :: promise_tag
  df_interval :: "nat"
  df_timer :: bool

definition df_startTimer :: "deferred \<Rightarrow> deferred" where
  "df_startTimer d = (if 0 < df_interval d then d\<lparr>df_timer := True\<rparr> else d)"

definition new_deferred :: "nat \<Rightarrow> bool \<Rightarrow> deferred" where
  "new_deferred timeout eagerStart =
     (let d = \<lparr>df_promise = None, df_state = TagPending, df_interval = timeout, df_timer = False\<rparr> in
      if eagerStart then df_startTimer d else d)"

definition df_settle :: "outcome \<Rightarrow> deferred \<Rightarrow> deferred" where
  "df_settle oc d =
     d\<lparr>df_promise := (case df_promise d of None \<Rightarrow> Some oc | Some o1 \<Rightarrow> Some o1),
       df_state := (case oc of Resolve _ \<Rightarrow> TagFulfilled | Reject _ \<Rightarrow> TagRejected),
       df_timer := False\<rparr>"

definition df_checkTimeout :: "deferred \<Rightarrow> deferred" where
  "df_checkTimeout d =
     (if df_state d = TagPending \<and> df_timer d
      then df_settle (Reject (JErr (err_class ''OperationTimeoutError'' ''timeout''))) d else d)"

lemma df_settle_first: "df_promise d = Some o1 \<Longrightarrow> df_promise (df_settle oc d) = Some o1"
  by (simp add: df_settle_def)

lemma df_settle_settles: "df_promise (df_settle oc d) \<noteq> None"
  by (simp add: df_settle_def split: option.splits)

end
