(* ===== verification/Socket.thy ===== *)
theory Socket
  imports Rpc
begin

text \<open>
  \<^verbatim>\<open>web3-utils/src/socket_provider.ts\<close> with the WebSocket transport of
  \<^verbatim>\<open>web3-providers-ws/src/index.ts\<close>: the bookkeeping of requests between their admission and their
  one settlement, and the connection they are sent over. A request item is an object that both queue
  maps refer to, so it is an index into a store of items. A provider reacts to events: the calls of its
  methods, the events of its socket and its timers. What the socket library answers while one event is
  handled is the environment of that event.
\<close>

section \<open>State\<close>

datatype web3_status = Connecting | Connected | Disconnected

datatype ready_state = RsConnecting | RsOpen | RsClosing | RsClosed

record lifecycle =
  lc_ids :: "jsval list"
  lc_onAbort :: bool
  lc_settled :: bool

record request_item =
  it_payload :: jsval
  it_deferred :: deferred
  it_life :: "lifecycle option"
  it_abort :: abort_comp

record diagnostics =
  dg_inFlight :: nat
  dg_pending :: nat
  dg_sent :: nat
  dg_peak :: nat
  dg_max :: nat

datatype emission =
    EmitError jsval
  | EmitMessage jsval
  | EmitDisconnect jsval jsval
  | EmitDiagnostics diagnostics
  | Written jsval

text \<open>
  The queues map request ids to items. \<^verbatim>\<open>sp_listening\<close> and \<^verbatim>\<open>sp_errorListening\<close> tell which listeners the
  current socket has, \<^verbatim>\<open>sp_hasErrorListener\<close> whether anybody listens to the errors of the provider, and
  \<^verbatim>\<open>sp_reconnectTimers\<close> and \<^verbatim>\<open>sp_immediates\<close> count the callbacks that are scheduled.
\<close>

record provider =
  sp_bounds :: resolved_bounds
  sp_autoReconnect :: bool
  sp_maxAttempts :: nat
  sp_hook :: bool
  sp_hasErrorListener :: bool
  sp_idSeed :: "int option"
  sp_isReconnecting :: bool
  sp_pending :: "(jsval, nat) jsmap"
  sp_sent :: "(jsval, nat) jsmap"
  sp_attempts :: nat
  sp_status :: web3_status
  sp_socket :: "ready_state option"
  sp_listening :: bool
  sp_errorListening :: bool
  sp_connTimer :: bool
  sp_reconnectTimers :: nat
  sp_immediates :: nat
  sp_peak :: nat
  sp_items :: "request_item list"
  sp_reports :: "jsval list"
  sp_log :: "emission list"

record socket_env =
  e_open :: "js_error option"
  e_send :: "jsval \<Rightarrow> js_error option"
  e_uuids :: "string \<times> string"

definition emit :: "emission \<Rightarrow> provider \<Rightarrow> provider" where
  "emit e p = p\<lparr>sp_log := sp_log p @ [e]\<rparr>"

definition emitError :: "jsval \<Rightarrow> provider \<Rightarrow> provider" where
  "emitError v p = (if sp_hasErrorListener p then emit (EmitError v) p else p)"

definition class_error :: "string \<Rightarrow> jsval" where
  "class_error c = JErr (err_class c [])"

definition upd_item :: "nat \<Rightarrow> (request_item \<Rightarrow> request_item) \<Rightarrow> provider \<Rightarrow> provider" where
  "upd_item n f p = p\<lparr>sp_items := (sp_items p)[n := f (sp_items p ! n)]\<rparr>"

text \<open>\<^verbatim>\<open>getStatus\<close> of the WebSocket provider looks at the socket itself.\<close>

definition getStatus :: "provider \<Rightarrow> web3_status" where
  "getStatus p = (case sp_socket p of
      Some RsConnecting \<Rightarrow> Connecting | Some RsOpen \<Rightarrow> Connected | _ \<Rightarrow> Disconnected)"

section \<open>Settling requests\<close>

definition inFlightCount :: "provider \<Rightarrow> nat" where
  "inFlightCount p = length (sp_pending p) + length (sp_sent p)"

definition getDiagnostics :: "provider \<Rightarrow> diagnostics" where
  "getDiagnostics p = \<lparr>dg_inFlight = inFlightCount p, dg_pending = length (sp_pending p),
     dg_sent = length (sp_sent p), dg_peak = sp_peak p,
     dg_max = maxInFlightRequests (sp_bounds p)\<rparr>"

definition notifyDiagnostics :: "provider \<Rightarrow> provider" where
  "notifyDiagnostics p =
     (let p1 = (if inFlightCount p > sp_peak p then p\<lparr>sp_peak := inFlightCount p\<rparr> else p) in
      if sp_hook p1 then emit (EmitDiagnostics (getDiagnostics p1)) p1 else p1)"

definition queue_item :: "jsval \<Rightarrow> provider \<Rightarrow> nat option" where
  "queue_item i p = (case map_of (sp_sent p) i of
      Some n \<Rightarrow> Some n | None \<Rightarrow> map_of (sp_pending p) i)"

definition release_ids :: "jsval list \<Rightarrow> provider \<Rightarrow> provider" where
  "release_ids ids p = p\<lparr>sp_pending := fold AList.delete ids (sp_pending p),
     sp_sent := fold AList.delete ids (sp_sent p)\<rparr>"

definition settle_deferred :: "outcome \<Rightarrow> request_item \<Rightarrow> request_item" where
  "settle_deferred oc it = it\<lparr>it_deferred := df_settle oc (it_deferred it)\<rparr>"

text \<open>
  The request has attached a handler to its promise that reports a rejection to the listeners of the
  provider; it runs as a microtask, after the event that is being handled.
\<close>

definition settle_item :: "nat \<Rightarrow> outcome \<Rightarrow> provider \<Rightarrow> provider" where
  "settle_item n oc p =
     (let p1 = upd_item n (settle_deferred oc) p in
      case (oc, df_promise (it_deferred (sp_items p ! n))) of
        (Reject r, None) \<Rightarrow> p1\<lparr>sp_reports := sp_reports p1 @ [r]\<rparr>
      | _ \<Rightarrow> p1)"

definition run_microtasks :: "provider \<Rightarrow> provider" where
  "run_microtasks p = fold emitError (sp_reports p) (p\<lparr>sp_reports := []\<rparr>)"

definition settleRequest :: "jsval \<Rightarrow> outcome \<Rightarrow> provider \<Rightarrow> bool \<times> provider" where
  "settleRequest requestId oc p = (case queue_item requestId p of
      None \<Rightarrow> (False, p)
    | Some n \<Rightarrow>
        (case it_life (sp_items p ! n) of
           None \<Rightarrow>
             (True, notifyDiagnostics (settle_item n oc (release_ids [requestId] p)))
         | Some lc \<Rightarrow>
             let p1 = upd_item n (\<lambda>it. it\<lparr>it_abort := ab_dispose (it_abort it), it_life := None\<rparr>)
                        (release_ids (lc_ids lc) p) in
             if lc_settled lc then (False, notifyDiagnostics p1)
             else (True, notifyDiagnostics (settle_item n oc p1))))"

definition rejectAllRequests :: "jsval \<Rightarrow> provider \<Rightarrow> provider" where
  "rejectAllRequests err p =
     fold (\<lambda>i p. snd (settleRequest i (Reject err) p))
       (map fst (sp_pending p) @ map fst (sp_sent p)) p"

section \<open>The connection\<close>

definition clearConnectionTimer :: "provider \<Rightarrow> provider" where
  "clearConnectionTimer p = p\<lparr>sp_connTimer := False\<rparr>"

definition armConnectionTimer :: "provider \<Rightarrow> provider" where
  "armConnectionTimer p = (clearConnectionTimer p)\<lparr>sp_connTimer := True\<rparr>"

definition addSocketListeners :: "provider \<Rightarrow> provider" where
  "addSocketListeners p =
     (if sp_socket p = None then p else p\<lparr>sp_listening := True, sp_errorListening := True\<rparr>)"

definition removeSocketListeners :: "provider \<Rightarrow> provider" where
  "removeSocketListeners p = p\<lparr>sp_listening := False\<rparr>"

definition connect :: "socket_env \<Rightarrow> (provider, js_error, unit) action" where
  "connect env p = (case e_open env of
      None \<Rightarrow>
        (Inr (), addSocketListeners (armConnectionTimer
          (p\<lparr>sp_socket := Some RsConnecting, sp_status := Connecting\<rparr>)))
    | Some e \<Rightarrow>
        let p1 = clearConnectionTimer p in
        if \<not> sp_isReconnecting p1 then
          (Inl (if emsg e \<noteq> [] then err_class ''ConnectionError'' (emsg e)
                else err_class ''InvalidClientError'' []),
           p1\<lparr>sp_status := Disconnected\<rparr>)
        else (Inr (), p1\<lparr>sp_immediates := sp_immediates p1 + 1\<rparr>))"

definition onDisconnect :: "jsval \<Rightarrow> jsval \<Rightarrow> provider \<Rightarrow> provider" where
  "onDisconnect code data p = emit (EmitDisconnect code data) (p\<lparr>sp_status := Disconnected\<rparr>)"

definition closeSocketConnection :: "provider \<Rightarrow> provider" where
  "closeSocketConnection p = p\<lparr>sp_socket := map_option (\<lambda>_. RsClosing) (sp_socket p)\<rparr>"

definition disconnect :: "jsval \<Rightarrow> jsval \<Rightarrow> provider \<Rightarrow> provider" where
  "disconnect code data p =
     (let disconnectCode = nullish_or code (JNum (NInt 1000));
          p1 = removeSocketListeners (clearConnectionTimer p);
          p2 = (if getStatus p1 \<noteq> Disconnected then closeSocketConnection p1 else p1);
          p3 = rejectAllRequests (class_error ''ConnectionNotOpenError'') p2 in
      onDisconnect disconnectCode data p3)"

definition reset :: "provider \<Rightarrow> provider" where
  "reset p =
     (let p1 = rejectAllRequests (class_error ''ProviderError'') (clearConnectionTimer p) in
      addSocketListeners (removeSocketListeners (p1\<lparr>sp_attempts := 0\<rparr>)))"

definition clearQueues :: "provider \<Rightarrow> provider" where
  "clearQueues p = removeSocketListeners
     (rejectAllRequests (class_error ''ConnectionNotOpenError'') (clearConnectionTimer p))"

text \<open>The delay before the next attempt: exponential, capped and spread by a random number in [0, 1).\<close>

definition reconnect_wait :: "rat \<Rightarrow> nat \<Rightarrow> rat \<Rightarrow> int" where
  "reconnect_wait delay attempts random =
     (let capped = min (delay * 2 ^ (attempts - 1)) 60000;
          jitter = capped * (random * (4 / 10) - 2 / 10) in
      max 0 (floor (capped + jitter)))"

definition reject_sent :: "provider \<Rightarrow> provider" where
  "reject_sent p =
     fold (\<lambda>i p. snd (settleRequest i (Reject (class_error ''PendingRequestsOnReconnectingError'')) p))
       (map fst (sp_sent p)) p"

definition reconnect :: "provider \<Rightarrow> provider" where
  "reconnect p =
     (if sp_isReconnecting p then p
      else let p1 = reject_sent (p\<lparr>sp_isReconnecting := True\<rparr>) in
        if sp_attempts p1 < sp_maxAttempts p1
        then p1\<lparr>sp_attempts := sp_attempts p1 + 1, sp_reconnectTimers := sp_reconnectTimers p1 + 1\<rparr>
        else emitError (class_error ''MaxAttemptsReachedOnReconnectingError'')
          (removeSocketListeners (clearQueues (p1\<lparr>sp_isReconnecting := False\<rparr>))))"

definition onConnectionTimeout :: "provider \<Rightarrow> provider" where
  "onConnectionTimeout p =
     (let p1 = p\<lparr>sp_connTimer := False\<rparr> in
      if getStatus p1 = Connected then p1
      else emitError (class_error ''ConnectionTimeoutError'')
        (rejectAllRequests (class_error ''ConnectionTimeoutError'') (p1\<lparr>sp_status := Disconnected\<rparr>)))"

definition onReconnectTimer :: "socket_env \<Rightarrow> provider \<Rightarrow> provider" where
  "onReconnectTimer env p =
     (let p1 = p\<lparr>sp_reconnectTimers := sp_reconnectTimers p - 1\<rparr>;
          (res, p2) = connect env (removeSocketListeners p1) in
      case res of Inl _ \<Rightarrow> p2 | Inr _ \<Rightarrow> p2\<lparr>sp_isReconnecting := False\<rparr>)"

definition onError :: "jsval \<Rightarrow> provider \<Rightarrow> provider" where
  "onError e p = (if sp_isReconnecting p then reconnect p else emitError e p)"

definition onCloseEvent :: "int \<Rightarrow> bool \<Rightarrow> jsval \<Rightarrow> provider \<Rightarrow> provider" where
  "onCloseEvent code wasClean reason p =
     (if sp_autoReconnect p \<and> (code \<notin> {1000, 1001} \<or> \<not> wasClean) then reconnect p
      else (onDisconnect (JNum (NInt code)) reason (removeSocketListeners (clearQueues p)))
        \<lparr>sp_errorListening := False\<rparr>)"

section \<open>Requests\<close>

record request_options =
  ro_timeout :: jsval
  ro_signal :: "jsval option option"

definition extractRequestIds :: "jsval \<Rightarrow> js_error + jsval list" where
  "extractRequestIds request =
     (if isBatchRequest request then
        (case js_elems request of
           None \<Rightarrow> Inr []
         | Some es \<Rightarrow>
             if \<exists>e \<in> set es. isNullish e
             then Inl (err_class ''TypeError'' ''Cannot read properties of null'')
             else let ids = map (\<lambda>e. msg_prop e ''id'') es in
               if ids = [] \<or> (\<exists>i \<in> set ids. \<not> js_truthy i)
               then Inl (err_class ''Web3WSProviderError'' ''Request Id not defined'')
               else if \<not> distinct ids
               then Inl (err_class ''Web3WSProviderError'' ''Batch request contains duplicate ids'')
               else Inr ids)
      else if isNullish request
      then Inl (err_class ''TypeError'' ''Cannot read properties of null'')
      else let i = msg_prop request ''id'' in
        if \<not> js_truthy i then Inl (err_class ''Web3WSProviderError'' ''Request Id not defined'')
        else Inr [i])"

lemma extractRequestIds_ok:
  "extractRequestIds request = Inr ids \<Longrightarrow> ids \<noteq> [] \<and> distinct ids"
  by (auto simp: extractRequestIds_def Let_def isBatchRequest_def split: if_splits option.splits)

text \<open>Throwing the reason of a signal, which may be any value.\<close>

definition thrown :: "jsval \<Rightarrow> js_error" where
  "thrown reason =
     (if isNullish reason then ProviderError ''Request aborted''
      else case reason of JErr e \<Rightarrow> e | _ \<Rightarrow> err_class ''Thrown'' [])"

definition admission :: "jsval list \<Rightarrow> request_options \<Rightarrow> provider \<Rightarrow> js_error + jsval" where
  "admission ids ro p =
     (if \<exists>i \<in> set ids. map_of (sp_sent p) i \<noteq> None \<or> map_of (sp_pending p) i \<noteq> None
      then Inl (err_class ''RequestAlreadySentError'' [])
      else if inFlightCount p + length ids > maxInFlightRequests (sp_bounds p)
      then Inl (err_class ''RequestQueueFullError'' [])
      else case ro_signal ro of
          Some (Some reason) \<Rightarrow> Inl (thrown reason)
        | _ \<Rightarrow>
            if ro_timeout ro = JUndef then Inr (requestTimeout (sp_bounds p))
            else validateTimeout (ro_timeout ro) ''requestTimeout'')"

definition sendToSocket :: "socket_env \<Rightarrow> jsval \<Rightarrow> (provider, js_error, unit) action" where
  "sendToSocket env payload p =
     (if getStatus p = Disconnected then (Inl (err_class ''ConnectionNotOpenError'' []), p)
      else case e_send env payload of
          Some e \<Rightarrow> (Inl e, p)
        | None \<Rightarrow> (Inr (), emit (Written payload) p))"

definition enqueue :: "jsval list \<Rightarrow> nat \<Rightarrow> provider \<Rightarrow> provider" where
  "enqueue ids n p =
     (if getStatus p = Connecting
      then p\<lparr>sp_pending := fold (\<lambda>i. AList.update i n) ids (sp_pending p)\<rparr>
      else p\<lparr>sp_sent := fold (\<lambda>i. AList.update i n) ids (sp_sent p)\<rparr>)"

definition send_or_reject :: "socket_env \<Rightarrow> jsval \<Rightarrow> jsval \<Rightarrow> provider \<Rightarrow> provider" where
  "send_or_reject env payload primaryId p = (case sendToSocket env payload p of
      (Inr _, p1) \<Rightarrow> p1
    | (Inl e, p1) \<Rightarrow> snd (settleRequest primaryId (Reject (JErr e)) p1))"

definition new_item :: "jsval \<Rightarrow> jsval list \<Rightarrow> abort_comp \<Rightarrow> request_item" where
  "new_item request ids ab =
     \<lparr>it_payload = request, it_deferred = new_deferred 0 False,
      it_life = Some \<lparr>lc_ids = ids, lc_onAbort = True, lc_settled = False\<rparr>, it_abort = ab\<rparr>"

text \<open>The result of an admitted request is its item, whose promise the caller awaits.\<close>

definition admit ::
  "socket_env \<Rightarrow> jsval \<Rightarrow> jsval list \<Rightarrow> request_options \<Rightarrow> jsval \<Rightarrow> (provider, js_error, nat) action" where
  "admit env request ids ro timeout p =
     (case composeAbortSignal (Some timeout) (ro_signal ro) of
        Inl e \<Rightarrow> (Inl e, p)
      | Inr ab \<Rightarrow>
          let n = length (sp_items p);
              p1 = notifyDiagnostics (enqueue ids n
                (p\<lparr>sp_items := sp_items p @ [new_item request ids ab]\<rparr>)) in
          (Inr n, if getStatus p = Connecting then p1 else send_or_reject env request (hd ids) p1))"

definition reopen :: "socket_env \<Rightarrow> (provider, js_error, unit) action" where
  "reopen env p = (if getStatus p = Disconnected then connect env p else (Inr (), p))"

definition request :: "socket_env \<Rightarrow> jsval \<Rightarrow> request_options \<Rightarrow> (provider, js_error, nat) action" where
  "request env req ro p =
     (if sp_socket p = None then (Inl (err_class ''Error'' ''Connection is undefined''), p)
      else bindS (reopen env) (\<lambda>_.
        bindS (liftS (extractRequestIds req)) (\<lambda>ids.
        bindS (\<lambda>p. (admission ids ro p, p)) (\<lambda>timeout.
          admit env req ids ro timeout))) p)"

section \<open>Events of the socket\<close>

definition promote :: "nat \<Rightarrow> jsval \<Rightarrow> provider \<Rightarrow> provider" where
  "promote n i p =
     (if map_of (sp_pending p) i \<noteq> None
      then p\<lparr>sp_pending := AList.delete i (sp_pending p), sp_sent := AList.update i n (sp_sent p)\<rparr>
      else p)"

text \<open>A batch holds several ids and is one payload: its ids are promoted together and it is written once.\<close>

definition send_item :: "socket_env \<Rightarrow> jsval \<Rightarrow> nat \<Rightarrow> provider \<Rightarrow> provider" where
  "send_item env i n p =
     (let ids = (case it_life (sp_items p ! n) of Some lc \<Rightarrow> lc_ids lc | None \<Rightarrow> [i]) in
      send_or_reject env (it_payload (sp_items p ! n)) i (fold (promote n) ids p))"

fun send_loop :: "socket_env \<Rightarrow> nat list \<Rightarrow> (jsval \<times> nat) list \<Rightarrow> provider \<Rightarrow> provider" where
  "send_loop env seen [] p = p"
| "send_loop env seen ((i, n) # es) p =
     (if n \<in> set seen then send_loop env seen es p
      else send_loop env (n # seen) es (send_item env i n p))"

definition sendPendingRequests :: "socket_env \<Rightarrow> provider \<Rightarrow> provider" where
  "sendPendingRequests env p = send_loop env [] (sp_pending p) p"

text \<open>\<^verbatim>\<open>Eip1193Provider._onConnect\<close> asks for the chain and the accounts; a refusal is caught there.\<close>

definition no_options :: request_options where
  "no_options = \<lparr>ro_timeout = JUndef, ro_signal = None\<rparr>"

definition internal_request :: "socket_env \<Rightarrow> string \<Rightarrow> string \<Rightarrow> provider \<Rightarrow> provider" where
  "internal_request env uuid method p =
     (let (payload, seed) = toPayload uuid (sp_idSeed p)
        \<lparr>or_jsonrpc = JUndef, or_id = JUndef, or_method = JStr method, or_params = JArr []\<rparr>;
        (res, p1) = request env payload no_options (p\<lparr>sp_idSeed := seed\<rparr>) in
      case res of Inl e \<Rightarrow> emitError (JErr e) p1 | Inr _ \<Rightarrow> p1)"

definition eip1193_onConnect :: "socket_env \<Rightarrow> provider \<Rightarrow> provider" where
  "eip1193_onConnect env p =
     internal_request env (snd (e_uuids env)) ''qrl_accounts''
       (internal_request env (fst (e_uuids env)) ''qrl_chainId'' p)"

definition onConnect :: "socket_env \<Rightarrow> provider \<Rightarrow> provider" where
  "onConnect env p =
     sendPendingRequests env (eip1193_onConnect env
       ((clearConnectionTimer p)\<lparr>sp_status := Connected, sp_attempts := 0\<rparr>))"

definition is_subscription_notice :: "jsval \<Rightarrow> js_error + bool" where
  "is_subscription_notice r =
     (if \<not> isResponseWithNotification r then Inr False
      else case msg_prop r ''method'' of
          JStr m \<Rightarrow> Inr (startsWith (rev m) (rev ''_subscription''))
        | _ \<Rightarrow> Inl (err_class ''TypeError'' ''endsWith is not a function''))"

definition response_id :: "bool \<Rightarrow> jsval \<Rightarrow> js_error + jsval" where
  "response_id batch r =
     (if batch then Inr (case js_elems r of Some (x # xs) \<Rightarrow> msg_prop x ''id'' | _ \<Rightarrow> JUndef)
      else if isNullish r then Inl (err_class ''TypeError'' ''Cannot read properties of null'')
      else Inr (msg_prop r ''id''))"

definition well_formed_response :: "jsval \<Rightarrow> js_error + bool" where
  "well_formed_response r =
     bindR (isBatchResponse r) (\<lambda>batch.
       if batch \<or> isResponseWithResult r then Inr True else isResponseWithError r)"

definition handle_response :: "jsval \<Rightarrow> (provider, js_error, unit) action" where
  "handle_response r =
     bindS (liftS (is_subscription_notice r)) (\<lambda>notice p.
       if notice then (Inr (), emit (EmitMessage r) p)
       else bindS (liftS (bindR (isBatchResponse r) (\<lambda>batch. response_id batch r))) (\<lambda>i p.
         if map_of (sp_sent p) i = None then (Inr (), p)
         else bindS (liftS (well_formed_response r)) (\<lambda>good p.
           (Inr (),
            if good then snd (settleRequest i (Resolve r) (emit (EmitMessage r) p))
            else snd (settleRequest i (Reject (class_error ''ResponseError'')) p))) p) p)"

fun handle_responses :: "jsval list \<Rightarrow> (provider, js_error, unit) action" where
  "handle_responses [] p = (Inr (), p)"
| "handle_responses (r # rs) p = bindS (handle_response r) (\<lambda>_. handle_responses rs) p"

definition onMessage :: "jsval list \<Rightarrow> (provider, js_error, unit) action" where
  "onMessage responses p =
     (if responses = [] then (Inr (), if sp_autoReconnect p then reconnect p else p)
      else handle_responses responses p)"

text \<open>
  The composed signal of a request aborts: the listener the request attached rejects it. The timer
  and the caller's signal fire only while the composition still has them.
\<close>

definition abort_item :: "nat \<Rightarrow> (abort_comp \<Rightarrow> abort_comp) \<Rightarrow> jsval \<Rightarrow> provider \<Rightarrow> provider" where
  "abort_item n fire reason p =
     (let p1 = upd_item n (\<lambda>it. it\<lparr>it_abort := fire (it_abort it)\<rparr>) p in
      case it_life (sp_items p ! n) of
        Some lc \<Rightarrow>
          if lc_onAbort lc then snd (settleRequest (hd (lc_ids lc)) (Reject reason) p1) else p1
      | None \<Rightarrow> p1)"

definition timeout_error :: jsval where
  "timeout_error = class_error ''RequestTimeoutError''"

definition onDeadline :: "nat \<Rightarrow> provider \<Rightarrow> provider" where
  "onDeadline n p =
     (if n < length (sp_items p) \<and> ab_timer (it_abort (sp_items p ! n))
      then abort_item n (ab_fire_timer timeout_error) timeout_error p else p)"

definition onCallerAbort :: "nat \<Rightarrow> jsval \<Rightarrow> provider \<Rightarrow> provider" where
  "onCallerAbort n reason p =
     (if n < length (sp_items p) \<and> ab_listening (it_abort (sp_items p ! n))
      then abort_item n (ab_fire_signal reason)
        (if isNullish reason then class_error ''ProviderError'' else reason) p else p)"

section \<open>The machine\<close>

text \<open>
  An event of the socket names whether it comes from a socket the provider has replaced: its listeners
  may still be attached, while those of the current socket are the ones the state records.
\<close>

datatype sp_event =
    EvRequest jsval request_options
  | EvConnect
  | EvDisconnect jsval jsval
  | EvReset
  | EvReady ready_state
  | EvOpen bool
  | EvMessage bool "jsval list"
  | EvClose bool int bool jsval
  | EvError bool jsval
  | EvDeadline nat
  | EvCallerAbort nat jsval
  | EvConnectionTimeout
  | EvReconnectTimer
  | EvImmediate
  | EvChunkError
  | EvErrorListener bool

fun sp_handle :: "provider \<Rightarrow> socket_env \<times> sp_event \<Rightarrow> provider" where
  "sp_handle p (env, EvRequest req ro) = snd (request env req ro p)"
| "sp_handle p (env, EvConnect) = snd (connect env p)"
| "sp_handle p (env, EvDisconnect code data) = disconnect code data p"
| "sp_handle p (env, EvReset) = reset p"
| "sp_handle p (env, EvReady r) = p\<lparr>sp_socket := map_option (\<lambda>_. r) (sp_socket p)\<rparr>"
| "sp_handle p (env, EvOpen stale) = (if stale \<or> sp_listening p then onConnect env p else p)"
| "sp_handle p (env, EvMessage stale rs) =
     (if stale \<or> sp_listening p then snd (onMessage rs p) else p)"
| "sp_handle p (env, EvClose stale code clean reason) =
     (if stale \<or> sp_listening p then onCloseEvent code clean reason p else p)"
| "sp_handle p (env, EvError stale e) = (if stale \<or> sp_errorListening p then onError e p else p)"
| "sp_handle p (env, EvDeadline n) = onDeadline n p"
| "sp_handle p (env, EvCallerAbort n reason) = onCallerAbort n reason p"
| "sp_handle p (env, EvConnectionTimeout) = (if sp_connTimer p then onConnectionTimeout p else p)"
| "sp_handle p (env, EvReconnectTimer) =
     (if 0 < sp_reconnectTimers p then onReconnectTimer env p else p)"
| "sp_handle p (env, EvImmediate) =
     (if 0 < sp_immediates p then reconnect (p\<lparr>sp_immediates := sp_immediates p - 1\<rparr>) else p)"
| "sp_handle p (env, EvChunkError) = emitError (class_error ''InvalidResponseError'') (clearQueues p)"
| "sp_handle p (env, EvErrorListener b) = p\<lparr>sp_hasErrorListener := b\<rparr>"

text \<open>One event, and the microtasks it has left.\<close>

definition sp_step :: "provider \<Rightarrow> socket_env \<times> sp_event \<Rightarrow> provider" where
  "sp_step p e = run_microtasks (sp_handle p e)"

definition validateProviderPath :: "string \<Rightarrow> bool" where
  "validateProviderPath url =
     (startsWith (toLowerCase url) ''ws://'' \<or> startsWith (toLowerCase url) ''wss://'')"

definition fresh_provider :: "resolved_bounds \<Rightarrow> bool \<Rightarrow> nat \<Rightarrow> bool \<Rightarrow> int option \<Rightarrow> provider" where
  "fresh_provider b autoReconnect maxAttempts hook seed =
     \<lparr>sp_bounds = b, sp_autoReconnect = autoReconnect, sp_maxAttempts = maxAttempts, sp_hook = hook,
      sp_hasErrorListener = False, sp_idSeed = seed, sp_isReconnecting = False, sp_pending = [],
      sp_sent = [], sp_attempts = 0, sp_status = Connecting, sp_socket = None, sp_listening = False,
      sp_errorListening = False, sp_connTimer = False, sp_reconnectTimers = 0, sp_immediates = 0,
      sp_peak = 0, sp_items = [], sp_reports = [], sp_log = []\<rparr>"

definition new_provider ::
  "socket_env \<Rightarrow> string \<Rightarrow> bounds_options option \<Rightarrow> bool \<Rightarrow> nat \<Rightarrow> bool \<Rightarrow> int option
    \<Rightarrow> js_error + provider" where
  "new_provider env path options autoReconnect maxAttempts hook seed =
     bindR (resolveProviderBounds options) (\<lambda>b.
       if \<not> validateProviderPath path then Inl (err_class ''InvalidClientError'' path)
       else case connect env (fresh_provider b autoReconnect maxAttempts hook seed) of
           (Inl e, _) \<Rightarrow> Inl e
         | (Inr _, p) \<Rightarrow> Inr p)"

end
