(* ===== verification/SocketInv.thy ===== *)
theory SocketInv
  imports Socket
begin

text \<open>
  What always holds of a socket provider: the queues and the items describe the same requests. An item
  that is not settled owns all its ids in one queue, its deadline is armed and its promise is open; an
  item that is settled owns nothing, neither a slot nor a timer nor a listener. The number of slots
  stays within the bound the provider was built with.
\<close>

section \<open>The invariant\<close>

definition item_promise :: "provider \<Rightarrow> nat \<Rightarrow> outcome option" where
  "item_promise p n = df_promise (it_deferred (sp_items p ! n))"

definition in_one_queue ::
  "(jsval, nat) jsmap \<Rightarrow> (jsval, nat) jsmap \<Rightarrow> nat \<Rightarrow> jsval list \<Rightarrow> bool" where
  "in_one_queue pend sent n ids \<longleftrightarrow>
     (\<forall>i \<in> set ids. map_of pend i = Some n \<and> map_of sent i = None) \<or>
     (\<forall>i \<in> set ids. map_of sent i = Some n \<and> map_of pend i = None)"

definition item_ok ::
  "nat set \<Rightarrow> (jsval, nat) jsmap \<Rightarrow> (jsval, nat) jsmap \<Rightarrow> nat \<Rightarrow> request_item \<Rightarrow> bool" where
  "item_ok X pend sent n it \<longleftrightarrow> ab_wf (it_abort it) \<and>
     (case it_life it of
        None \<Rightarrow> df_promise (it_deferred it) \<noteq> None \<and> ab_released (it_abort it)
      | Some lc \<Rightarrow> df_promise (it_deferred it) = None \<and> \<not> lc_settled lc \<and> lc_onAbort lc \<and>
          lc_ids lc \<noteq> [] \<and> distinct (lc_ids lc) \<and> (n \<notin> X \<longrightarrow> ab_timer (it_abort it)) \<and>
          in_one_queue pend sent n (lc_ids lc))"

definition entries_ok :: "(jsval, nat) jsmap \<Rightarrow> request_item list \<Rightarrow> bool" where
  "entries_ok q items \<longleftrightarrow> jm_ok q \<and>
     (\<forall>i n. map_of q i = Some n \<longrightarrow>
        n < length items \<and> (\<exists>lc. it_life (items ! n) = Some lc \<and> i \<in> set (lc_ids lc)))"

definition queues_ok ::
  "nat set \<Rightarrow> (jsval, nat) jsmap \<Rightarrow> (jsval, nat) jsmap \<Rightarrow> request_item list \<Rightarrow> bool" where
  "queues_ok X pend sent items \<longleftrightarrow> entries_ok pend items \<and> entries_ok sent items \<and>
     (\<forall>n < length items. item_ok X pend sent n (items ! n))"

definition sp_ok :: "nat set \<Rightarrow> provider \<Rightarrow> bool" where
  "sp_ok X p \<longleftrightarrow> queues_ok X (sp_pending p) (sp_sent p) (sp_items p) \<and>
     inFlightCount p \<le> maxInFlightRequests (sp_bounds p) \<and>
     sp_peak p \<le> maxInFlightRequests (sp_bounds p)"

abbreviation sp_inv :: "provider \<Rightarrow> bool" where
  "sp_inv \<equiv> sp_ok {}"

text \<open>It does not look at the connection, the timers and the log.\<close>

lemma sp_ok_congs [simp]:
  "sp_ok X (p\<lparr>sp_idSeed := seed\<rparr>) = sp_ok X p"
  "sp_ok X (p\<lparr>sp_isReconnecting := b\<rparr>) = sp_ok X p"
  "sp_ok X (p\<lparr>sp_hasErrorListener := b\<rparr>) = sp_ok X p"
  "sp_ok X (p\<lparr>sp_attempts := k\<rparr>) = sp_ok X p"
  "sp_ok X (p\<lparr>sp_status := st\<rparr>) = sp_ok X p"
  "sp_ok X (p\<lparr>sp_socket := rs\<rparr>) = sp_ok X p"
  "sp_ok X (p\<lparr>sp_listening := b\<rparr>) = sp_ok X p"
  "sp_ok X (p\<lparr>sp_errorListening := b\<rparr>) = sp_ok X p"
  "sp_ok X (p\<lparr>sp_connTimer := b\<rparr>) = sp_ok X p"
  "sp_ok X (p\<lparr>sp_reconnectTimers := k\<rparr>) = sp_ok X p"
  "sp_ok X (p\<lparr>sp_immediates := k\<rparr>) = sp_ok X p"
  "sp_ok X (p\<lparr>sp_reports := rep\<rparr>) = sp_ok X p"
  "sp_ok X (p\<lparr>sp_log := l\<rparr>) = sp_ok X p"
  by (simp_all add: sp_ok_def inFlightCount_def)

lemma sp_ok_emits [simp]: "sp_ok X (emit e p) = sp_ok X p" "sp_ok X (emitError v p) = sp_ok X p"
  by (simp_all add: emit_def emitError_def)

lemma fold_delete_get: "map_of (fold AList.delete ids q) i = (if i \<in> set ids then None else map_of q i)"
  by (rule jm.get_fold_del)

lemma fold_update_get:
  "map_of (fold (\<lambda>k. AList.update k n) ids q) i = (if i \<in> set ids then Some n else map_of q i)"
  by (rule jm.get_fold_put)

lemma jm_ok_folds:
  "jm_ok q \<Longrightarrow> jm_ok (fold AList.delete ids q)"
  "jm_ok q \<Longrightarrow> jm_ok (fold (\<lambda>k. AList.update k n) ids q)"
  by (rule jm.ok_fold_del, assumption) (rule jm.ok_fold_put)

lemma length_fold_delete: "length (fold AList.delete ids q) \<le> length (q :: ('k, 'v) jsmap)"
proof -
  have "map fst (fold AList.delete ids q) = filter (\<lambda>k. k \<notin> set ids) (map fst q)"
    by (rule jm.keys_fold_del)
  then have "length (map fst (fold AList.delete ids q)) \<le> length (map fst q)"
    by (metis length_filter_le)
  then show ?thesis by simp
qed

section \<open>Settling keeps it\<close>

lemma entries_okE:
  assumes "entries_ok q items" "map_of q i = Some n"
  obtains lc where "n < length items" "it_life (items ! n) = Some lc" "i \<in> set (lc_ids lc)"
  using assms unfolding entries_ok_def by blast

lemma queued_item:
  assumes "queues_ok X pend sent items" "map_of pend i = Some n \<or> map_of sent i = Some n"
  obtains lc where "n < length items" "it_life (items ! n) = Some lc" "i \<in> set (lc_ids lc)"
    "item_ok X pend sent n (items ! n)"
  using assms unfolding queues_ok_def by (metis entries_okE)

lemma item_ok_live:
  "item_ok X pend sent n it \<Longrightarrow> it_life it = Some lc \<Longrightarrow> in_one_queue pend sent n (lc_ids lc)"
  by (simp add: item_ok_def)

lemma live_ids_disjoint:
  assumes "in_one_queue pend sent n ids" "in_one_queue pend sent m ids'" "n \<noteq> m"
  shows "set ids \<inter> set ids' = {}"
  using assms unfolding in_one_queue_def by fastforce

lemma queues_ok_settle:
  assumes ok: "queues_ok X pend sent items" and n: "n < length items"
    and life: "it_life (items ! n) = Some lc" and it': "it_life it' = None"
    and dead: "item_ok X [] [] n it'"
  shows "queues_ok X (fold AList.delete (lc_ids lc) pend) (fold AList.delete (lc_ids lc) sent)
    (items[n := it'])"
proof -
  let ?d = "fold AList.delete (lc_ids lc)"
  have qn: "in_one_queue pend sent n (lc_ids lc)"
    using ok n life by (auto simp: queues_ok_def intro: item_ok_live)
  have entries: "entries_ok (?d q) (items[n := it'])"
    if "entries_ok q items" "q = pend \<or> q = sent" for q
  proof -
    have "m < length (items[n := it']) \<and>
        (\<exists>l. it_life (items[n := it'] ! m) = Some l \<and> i \<in> set (lc_ids l))"
      if "map_of (?d q) i = Some m" for i m
    proof -
      have q: "map_of q i = Some m" "i \<notin> set (lc_ids lc)"
        using that by (simp_all add: fold_delete_get split: if_splits)
      obtain l where l: "m < length items" "it_life (items ! m) = Some l" "i \<in> set (lc_ids l)"
        using \<open>entries_ok q items\<close> q(1) by (rule entries_okE)
      moreover have "m \<noteq> n" using l q(2) life by auto
      ultimately show ?thesis by simp
    qed
    then show ?thesis using that(1) by (auto simp: entries_ok_def jm_ok_folds simp del: map_of_eq_Some_iff)
  qed
  have items: "item_ok X (?d pend) (?d sent) m (items[n := it'] ! m)" if m: "m < length items" for m
  proof (cases "m = n")
    case True
    with m dead it' show ?thesis by (simp add: item_ok_def)
  next
    case False
    have okm: "item_ok X pend sent m (items ! m)" using ok m by (simp add: queues_ok_def)
    show ?thesis
    proof (cases "it_life (items ! m)")
      case None
      with okm False show ?thesis by (simp add: item_ok_def)
    next
      case (Some lm)
      have "set (lc_ids lc) \<inter> set (lc_ids lm) = {}"
        using live_ids_disjoint qn item_ok_live [OF okm Some] False by metis
      then have "in_one_queue (?d pend) (?d sent) m (lc_ids lm)"
        using item_ok_live [OF okm Some] by (auto simp: in_one_queue_def fold_delete_get)
      with okm Some False show ?thesis by (simp add: item_ok_def)
    qed
  qed
  show ?thesis
    using ok entries items by (simp add: queues_ok_def)
qed

definition done_item :: "outcome \<Rightarrow> request_item \<Rightarrow> request_item" where
  "done_item oc it =
     settle_deferred oc (it\<lparr>it_abort := ab_dispose (it_abort it), it_life := None\<rparr>)"

lemma done_item_sels [simp]:
  "it_life (done_item oc it) = None" "it_abort (done_item oc it) = ab_dispose (it_abort it)"
  "it_deferred (done_item oc it) = df_settle oc (it_deferred it)"
  "it_payload (done_item oc it) = it_payload it"
  by (simp_all add: done_item_def settle_deferred_def)

lemma done_item_ok: "item_ok X pend sent n it \<Longrightarrow> item_ok X [] [] n (done_item oc it)"
  by (auto simp: item_ok_def df_settle_settles simp del: not_None_eq)

text \<open>What settling an id that is in a queue does.\<close>

definition settled_state :: "jsval list \<Rightarrow> nat \<Rightarrow> outcome \<Rightarrow> provider \<Rightarrow> provider" where
  "settled_state ids n oc p =
     p\<lparr>sp_pending := fold AList.delete ids (sp_pending p),
       sp_sent := fold AList.delete ids (sp_sent p),
       sp_items := (sp_items p)[n := done_item oc (sp_items p ! n)],
       sp_reports := sp_reports p @ (case oc of Reject r \<Rightarrow> [r] | Resolve _ \<Rightarrow> [])\<rparr>"

lemma queue_item_cases:
  assumes "sp_ok X p" "queue_item i p = Some n"
  obtains lc where "n < length (sp_items p)" "it_life (sp_items p ! n) = Some lc"
    "i \<in> set (lc_ids lc)" "item_ok X (sp_pending p) (sp_sent p) n (sp_items p ! n)"
proof -
  have "map_of (sp_pending p) i = Some n \<or> map_of (sp_sent p) i = Some n"
    using assms(2) by (auto simp: queue_item_def split: option.splits)
  with assms(1) show ?thesis
    by (auto simp: sp_ok_def elim!: queued_item intro: that)
qed

lemma settleRequest_queued:
  assumes "sp_ok X p" "queue_item i p = Some n" "it_life (sp_items p ! n) = Some lc"
  shows "settleRequest i oc p = (True, notifyDiagnostics (settled_state (lc_ids lc) n oc p))"
proof -
  obtain n: "n < length (sp_items p)" and ok: "item_ok X (sp_pending p) (sp_sent p) n (sp_items p ! n)"
    using assms by (auto elim!: queue_item_cases)
  have live: "\<not> lc_settled lc" "df_promise (it_deferred (sp_items p ! n)) = None"
    using ok assms(3) by (simp_all add: item_ok_def)
  show ?thesis
    using assms(2,3) n live
    by (cases oc) (simp_all add: settleRequest_def settle_item_def upd_item_def release_ids_def
      settled_state_def done_item_def Let_def)
qed

lemma settleRequest_unknown: "queue_item i p = None \<Longrightarrow> settleRequest i oc p = (False, p)"
  by (simp add: settleRequest_def)

lemma notify_sels [simp]:
  "sp_pending (notifyDiagnostics p) = sp_pending p" "sp_sent (notifyDiagnostics p) = sp_sent p"
  "sp_items (notifyDiagnostics p) = sp_items p" "sp_bounds (notifyDiagnostics p) = sp_bounds p"
  "sp_reports (notifyDiagnostics p) = sp_reports p" "sp_socket (notifyDiagnostics p) = sp_socket p"
  "sp_hasErrorListener (notifyDiagnostics p) = sp_hasErrorListener p"
  "sp_peak (notifyDiagnostics p) = max (sp_peak p) (inFlightCount p)"
  by (simp_all add: notifyDiagnostics_def emit_def Let_def)

lemma notify_ok [simp]: "sp_ok X (notifyDiagnostics p) = sp_ok X p"
  by (auto simp: sp_ok_def inFlightCount_def)

lemma settled_state_ok:
  assumes "sp_ok X p" "n < length (sp_items p)" "it_life (sp_items p ! n) = Some lc"
  shows "sp_ok X (settled_state (lc_ids lc) n oc p)"
proof -
  have ok: "queues_ok X (sp_pending p) (sp_sent p) (sp_items p)" using assms(1) by (simp add: sp_ok_def)
  then have item: "item_ok X (sp_pending p) (sp_sent p) n (sp_items p ! n)"
    using assms(2) by (simp add: queues_ok_def)
  have "length (fold AList.delete (lc_ids lc) (sp_pending p)) \<le> length (sp_pending p)"
    "length (fold AList.delete (lc_ids lc) (sp_sent p)) \<le> length (sp_sent p)"
    by (rule length_fold_delete)+
  then show ?thesis
    using assms(1) queues_ok_settle [OF ok assms(2,3) _ done_item_ok [OF item], of oc]
    by (simp add: sp_ok_def settled_state_def inFlightCount_def)
qed

lemma settle_ok:
  assumes "sp_ok X p" shows "sp_ok X (snd (settleRequest i oc p))"
proof (cases "queue_item i p")
  case None
  with assms show ?thesis by (simp add: settleRequest_unknown)
next
  case (Some n)
  from assms this obtain lc where "n < length (sp_items p)" "it_life (sp_items p ! n) = Some lc"
    by (rule queue_item_cases)
  with assms Some show ?thesis by (simp add: settleRequest_queued settled_state_ok)
qed

section \<open>What every operation keeps\<close>

text \<open>
  An operation keeps the invariant, whatever items it exempts, and the items: none disappears, no
  payload changes and a promise that has an outcome keeps it.
\<close>

definition grows :: "provider \<Rightarrow> provider \<Rightarrow> bool" where
  "grows p p' \<longleftrightarrow> sp_bounds p' = sp_bounds p \<and> length (sp_items p) \<le> length (sp_items p') \<and>
     (\<forall>n < length (sp_items p). it_payload (sp_items p' ! n) = it_payload (sp_items p ! n) \<and>
        (item_promise p n \<noteq> None \<longrightarrow> item_promise p' n = item_promise p n))"

definition keeps :: "provider \<Rightarrow> provider \<Rightarrow> bool" where
  "keeps p p' \<longleftrightarrow> (\<forall>X. sp_ok X p \<longrightarrow> sp_ok X p') \<and> grows p p'"

interpretation kp: action_relation keeps
proof
  show "keeps p p" for p by (simp add: keeps_def grows_def)
  show "keeps p r" if "keeps p q" "keeps q r" for p q r
    using that by (auto simp: keeps_def grows_def)
qed

lemma keeps_okD: "keeps p p' \<Longrightarrow> sp_ok X p \<Longrightarrow> sp_ok X p'"
  by (simp add: keeps_def)

lemma keeps_grows: "keeps p p' \<Longrightarrow> grows p p'"
  by (simp add: keeps_def)

text \<open>An operation that leaves the requests alone.\<close>

definition same_requests :: "provider \<Rightarrow> provider \<Rightarrow> bool" where
  "same_requests p p' \<longleftrightarrow> sp_pending p' = sp_pending p \<and> sp_sent p' = sp_sent p \<and>
     sp_items p' = sp_items p \<and> sp_bounds p' = sp_bounds p \<and> sp_peak p' = sp_peak p"

lemma same_keeps: "same_requests p p' \<Longrightarrow> keeps p p'"
  by (simp add: same_requests_def keeps_def grows_def sp_ok_def inFlightCount_def item_promise_def)

lemma same_trans: "same_requests p q \<Longrightarrow> same_requests q r \<Longrightarrow> same_requests p r"
  by (simp add: same_requests_def)

lemma same_emit [simp]: "same_requests p (emit e p)" "same_requests p (emitError v p)"
  by (simp_all add: same_requests_def emit_def emitError_def)

lemma same_connection [simp]:
  "same_requests p (clearConnectionTimer p)" "same_requests p (armConnectionTimer p)"
  "same_requests p (addSocketListeners p)" "same_requests p (removeSocketListeners p)"
  "same_requests p (closeSocketConnection p)" "same_requests p (onDisconnect code data p)"
  by (simp_all add: same_requests_def clearConnectionTimer_def armConnectionTimer_def
      addSocketListeners_def removeSocketListeners_def closeSocketConnection_def onDisconnect_def emit_def)

lemma same_connect [simp]: "same_requests p (snd (connect env p))"
  by (simp add: connect_def same_requests_def clearConnectionTimer_def armConnectionTimer_def
      addSocketListeners_def Let_def split: option.splits)

lemma same_sendToSocket: "same_requests p (snd (sendToSocket env v p))"
  by (simp add: sendToSocket_def same_requests_def emit_def split: option.splits)

lemma same_microtasks: "same_requests p (run_microtasks p)"
proof -
  have "same_requests q (fold emitError vs q)" for vs q
  proof (induction vs arbitrary: q)
    case Nil
    then show ?case by (simp add: same_requests_def)
  next
    case (Cons v vs)
    have "same_requests q (emitError v q)" by simp
    from same_trans [OF this Cons.IH] show ?case by simp
  qed
  from this [of "p\<lparr>sp_reports := []\<rparr>" "sp_reports p"] show ?thesis
    by (simp add: run_microtasks_def same_requests_def)
qed

lemma keeps_fold:
  assumes "\<And>x q. keeps q (f x q)" shows "keeps p (fold f xs p)"
proof (induction xs arbitrary: p)
  case Nil
  then show ?case by (simp add: kp.rel_refl)
next
  case (Cons x xs)
  from assms Cons show ?case by simp (rule kp.rel_trans)
qed

text \<open>Settling, and rejecting everything that is outstanding.\<close>

lemma df_settle_promise:
  "df_promise (df_settle oc d) = (case df_promise d of None \<Rightarrow> Some oc | Some o1 \<Rightarrow> Some o1)"
  by (simp add: df_settle_def)

lemma upd_item_nth:
  "sp_items (upd_item n f q) ! m =
    (if m = n \<and> n < length (sp_items q) then f (sp_items q ! n) else sp_items q ! m)"
  "length (sp_items (upd_item n f q)) = length (sp_items q)"
  "sp_bounds (upd_item n f q) = sp_bounds q"
  by (auto simp: upd_item_def list_update_beyond not_less)

lemma settle_grows: "grows p (snd (settleRequest i oc p))"
proof -
  have upd: "grows p q \<Longrightarrow> (\<And>it. it_payload (f it) = it_payload it) \<Longrightarrow>
      (\<And>it. df_promise (it_deferred it) \<noteq> None \<Longrightarrow>
        df_promise (it_deferred (f it)) = df_promise (it_deferred it)) \<Longrightarrow> grows p (upd_item n f q)"
    for f q n
    by (auto simp: grows_def item_promise_def upd_item_nth)
  have item: "grows p q \<Longrightarrow> grows p (settle_item n oc q)" for n q
  proof -
    assume "grows p q"
    then have "grows p (upd_item n (settle_deferred oc) q)"
      by (rule upd) (auto simp: settle_deferred_def df_settle_promise)
    moreover have "grows p (r\<lparr>sp_reports := rep\<rparr>) = grows p r" for r rep
      by (simp add: grows_def item_promise_def)
    ultimately show "grows p (settle_item n oc q)"
      by (auto simp: settle_item_def Let_def split: outcome.splits option.splits)
  qed
  have rel: "grows p (release_ids ids p)" for ids
    by (simp add: grows_def release_ids_def item_promise_def)
  have rel': "grows p (upd_item n (\<lambda>it. it\<lparr>it_abort := ab_dispose (it_abort it), it_life := None\<rparr>)
      (release_ids ids p))" for n ids
    by (rule upd [OF rel]) simp_all
  have diag: "grows p (notifyDiagnostics q) = grows p q" for q
    by (simp add: grows_def item_promise_def)
  show ?thesis
    by (auto simp: settleRequest_def Let_def diag item rel rel' kp.rel_refl
        intro: keeps_grows split: option.splits)
qed

lemma keeps_settle: "keeps p (snd (settleRequest i oc p))"
  by (simp add: keeps_def settle_ok settle_grows)

lemma keeps_rejects: "keeps p (rejectAllRequests err p)" "keeps p (reject_sent p)"
  unfolding rejectAllRequests_def reject_sent_def by (rule keeps_fold, rule keeps_settle)+

text \<open>Operations in sequence: each rule adds one more operation at the end.\<close>

lemma keeps_then: "keeps q r \<Longrightarrow> keeps p q \<Longrightarrow> keeps p r"
  using kp.rel_trans by blast

named_theorems keeps_intros \<open>one more operation that keeps the requests\<close>

lemmas [keeps_intros] = kp.rel_refl
  keeps_then [OF same_keeps [OF same_emit(1)]] keeps_then [OF same_keeps [OF same_emit(2)]]
  keeps_then [OF same_keeps [OF same_connection(1)]] keeps_then [OF same_keeps [OF same_connection(2)]]
  keeps_then [OF same_keeps [OF same_connection(3)]] keeps_then [OF same_keeps [OF same_connection(4)]]
  keeps_then [OF same_keeps [OF same_connection(5)]] keeps_then [OF same_keeps [OF same_connection(6)]]
  keeps_then [OF same_keeps [OF same_connect]] keeps_then [OF same_keeps [OF same_microtasks]]
  keeps_then [OF keeps_settle] keeps_then [OF keeps_rejects(1)] keeps_then [OF keeps_rejects(2)]

lemma keeps_fields [keeps_intros]:
  "keeps p q \<Longrightarrow> keeps p (q\<lparr>sp_idSeed := seed\<rparr>)"
  "keeps p q \<Longrightarrow> keeps p (q\<lparr>sp_isReconnecting := b\<rparr>)"
  "keeps p q \<Longrightarrow> keeps p (q\<lparr>sp_hasErrorListener := b\<rparr>)"
  "keeps p q \<Longrightarrow> keeps p (q\<lparr>sp_attempts := k\<rparr>)"
  "keeps p q \<Longrightarrow> keeps p (q\<lparr>sp_status := st\<rparr>)"
  "keeps p q \<Longrightarrow> keeps p (q\<lparr>sp_socket := rs\<rparr>)"
  "keeps p q \<Longrightarrow> keeps p (q\<lparr>sp_errorListening := b\<rparr>)"
  "keeps p q \<Longrightarrow> keeps p (q\<lparr>sp_connTimer := b\<rparr>)"
  "keeps p q \<Longrightarrow> keeps p (q\<lparr>sp_reconnectTimers := k\<rparr>)"
  "keeps p q \<Longrightarrow> keeps p (q\<lparr>sp_immediates := k\<rparr>)"
  by (erule keeps_then [rotated], rule same_keeps, simp add: same_requests_def)+

lemma keeps_clearQueues [keeps_intros]: "keeps p q \<Longrightarrow> keeps p (clearQueues q)"
  by (auto simp: clearQueues_def intro!: keeps_intros)

lemma keeps_teardown [keeps_intros]:
  "keeps p q \<Longrightarrow> keeps p (disconnect code data q)"
  "keeps p q \<Longrightarrow> keeps p (reset q)"
  "keeps p q \<Longrightarrow> keeps p (onConnectionTimeout q)"
  by (auto simp: disconnect_def reset_def onConnectionTimeout_def Let_def intro!: keeps_intros)

lemma keeps_reconnect [keeps_intros]: "keeps p q \<Longrightarrow> keeps p (reconnect q)"
  by (auto simp: reconnect_def Let_def intro!: keeps_intros)

lemma keeps_connect_result: "connect env q = (res, q') \<Longrightarrow> keeps p q \<Longrightarrow> keeps p q'"
  using keeps_then [OF same_keeps [OF same_connect [of q env]]] by simp

lemma keeps_handlers [keeps_intros]:
  "keeps p q \<Longrightarrow> keeps p (onReconnectTimer env q)"
  "keeps p q \<Longrightarrow> keeps p (onError e q)"
  "keeps p q \<Longrightarrow> keeps p (onCloseEvent code clean reason q)"
  by (auto simp: onReconnectTimer_def onError_def onCloseEvent_def Let_def
      intro!: keeps_intros split: prod.split sum.split elim!: keeps_connect_result)

section \<open>Admission\<close>

lemma length_fold_update:
  assumes "distinct ids" "\<And>i. i \<in> set ids \<Longrightarrow> map_of q i = None"
  shows "length (fold (\<lambda>k. AList.update k n) ids q) = length q + length ids"
proof -
  have "map fst (fold (\<lambda>k. AList.update k n) ids q) = map fst q @ ids"
    using assms by (rule jm.keys_fold_put)
  then have "length (map fst (fold (\<lambda>k. AList.update k n) ids q)) = length (map fst q @ ids)"
    by simp
  then show ?thesis by simp
qed

lemma queues_ok_new:
  assumes ok: "queues_ok X pend sent items"
    and ids: "ids \<noteq> []" "distinct ids"
    and fresh: "\<And>i. i \<in> set ids \<Longrightarrow> map_of pend i = None \<and> map_of sent i = None"
    and ab: "ab_wf ab" "ab_timer ab" and n: "n = length items"
    and q: "(pend', sent') = (fold (\<lambda>k. AList.update k n) ids pend, sent) \<or>
      (pend', sent') = (pend, fold (\<lambda>k. AList.update k n) ids sent)"
  shows "queues_ok X pend' sent' (items @ [new_item req ids ab])"
proof -
  have entries: "entries_ok (fold (\<lambda>k. AList.update k n) ids q) (items @ [new_item req ids ab]) \<and>
      entries_ok q (items @ [new_item req ids ab])" if "entries_ok q items" for q
    using that n unfolding entries_ok_def
    by (auto simp: fold_update_get jm_ok_folds nth_append new_item_def simp del: map_of_eq_Some_iff
        intro: less_SucI split: if_splits)
  have old: "item_ok X pend' sent' m (items ! m)" if m: "m < length items" for m
  proof -
    have okm: "item_ok X pend sent m (items ! m)" using ok m by (simp add: queues_ok_def)
    have "in_one_queue pend' sent' m (lc_ids lc)" if "it_life (items ! m) = Some lc" for lc
    proof -
      have live: "in_one_queue pend sent m (lc_ids lc)" by (rule item_ok_live [OF okm that])
      then have "\<forall>i \<in> set (lc_ids lc). i \<notin> set ids"
        using fresh by (fastforce simp: in_one_queue_def simp del: map_of_eq_Some_iff)
      with live q show ?thesis by (auto simp: in_one_queue_def fold_update_get)
    qed
    with okm show ?thesis by (auto simp: item_ok_def split: option.splits)
  qed
  have "in_one_queue pend' sent' n ids"
    using q fresh by (auto simp: in_one_queue_def fold_update_get)
  then have "item_ok X pend' sent' n (new_item req ids ab)"
    using ids ab by (simp add: item_ok_def new_item_def new_deferred_def Let_def)
  with old n have "\<forall>m < length (items @ [new_item req ids ab]).
      item_ok X pend' sent' m ((items @ [new_item req ids ab]) ! m)"
    by (auto simp: nth_append less_Suc_eq)
  with q ok entries show ?thesis by (auto simp: queues_ok_def)
qed

lemma composed_timer:
  assumes "composeAbortSignal (Some t) s = Inr ab" "\<And>r. s \<noteq> Some (Some r)"
  shows "ab_timer ab"
proof -
  have "s = None \<or> s = Some None" using assms(2) by (cases s) (auto simp: option.exhaust_sel)
  with assms(1) show ?thesis by (auto simp: composeAbortSignal_def bindR_Inr_iff Let_def)
qed

lemma admission_Inr:
  assumes "admission ids ro p = Inr t"
  shows "\<forall>i \<in> set ids. map_of (sp_sent p) i = None \<and> map_of (sp_pending p) i = None"
    "inFlightCount p + length ids \<le> maxInFlightRequests (sp_bounds p)"
    "\<And>r. ro_signal ro \<noteq> Some (Some r)"
  using assms by (auto simp: admission_def split: if_splits option.splits)

lemma keeps_send_or_reject [keeps_intros]:
  "keeps p q \<Longrightarrow> keeps p (send_or_reject env v i q)"
  using keeps_then [OF same_keeps [OF same_sendToSocket [of q env v]]]
  by (auto simp: send_or_reject_def intro!: keeps_intros split: prod.split sum.split)

lemma keeps_notify [keeps_intros]: "keeps p q \<Longrightarrow> keeps p (notifyDiagnostics q)"
  by (auto simp: keeps_def grows_def item_promise_def)

lemma keeps_enqueue:
  assumes ids: "ids \<noteq> []" "distinct ids" and adm: "admission ids ro p = Inr t"
    and ab: "composeAbortSignal (Some t) (ro_signal ro) = Inr ab"
  shows "keeps p (enqueue ids (length (sp_items p))
    (p\<lparr>sp_items := sp_items p @ [new_item req ids ab]\<rparr>))"
    (is "keeps p (enqueue ids ?n ?p)")
proof -
  note fresh = admission_Inr [OF adm]
  have ab': "ab_wf ab" "ab_timer ab"
    using composeAbortSignal_wf [OF ab] composed_timer [OF ab] fresh(3) by auto
  have "sp_ok X (enqueue ids ?n ?p)" if "sp_ok X p" for X
  proof -
    have ok: "queues_ok X (sp_pending p) (sp_sent p) (sp_items p)"
      using that by (simp add: sp_ok_def)
    have "queues_ok X (sp_pending (enqueue ids ?n ?p)) (sp_sent (enqueue ids ?n ?p))
        (sp_items p @ [new_item req ids ab])"
      by (rule queues_ok_new [OF ok ids _ ab']) (use fresh(1) in \<open>auto simp: enqueue_def\<close>)
    moreover have "inFlightCount (enqueue ids ?n ?p) = inFlightCount p + length ids"
      using ids(2) fresh(1) by (simp add: enqueue_def inFlightCount_def length_fold_update)
    moreover have "sp_items (enqueue ids ?n ?p) = sp_items p @ [new_item req ids ab]"
      "sp_bounds (enqueue ids ?n ?p) = sp_bounds p" "sp_peak (enqueue ids ?n ?p) = sp_peak p"
      by (simp_all add: enqueue_def)
    ultimately show ?thesis using that fresh(2) by (simp add: sp_ok_def)
  qed
  moreover have "grows p (enqueue ids ?n ?p)"
    by (auto simp: grows_def enqueue_def item_promise_def nth_append)
  ultimately show ?thesis by (simp add: keeps_def)
qed

lemma keeps_request: "keeps p (snd (request env req ro p))"
proof -
  have admit: "keeps q (snd (admit env req ids ro t q))"
    if "extractRequestIds req = Inr ids" "admission ids ro q = Inr t" for ids t q
    using extractRequestIds_ok [OF that(1)] keeps_enqueue [OF _ _ that(2)]
    by (auto simp: admit_def Let_def intro!: keeps_intros split: sum.split)
  have rest: "keeps q (snd (bindS (liftS (extractRequestIds req)) (\<lambda>ids.
      bindS (\<lambda>p. (admission ids ro p, p)) (\<lambda>t. admit env req ids ro t)) q))" for q
    using admit by (auto simp: bindS_def liftS_def intro!: kp.rel_refl split: sum.splits)
  have conn: "keeps p (snd (reopen env p))"
    by (auto simp: reopen_def intro!: kp.rel_refl same_keeps)
  show ?thesis
    unfolding request_def using kp.rel_trans [OF _ rest] conn
    by (subst bindS_def) (auto intro!: kp.rel_refl split: sum.splits prod.splits)
qed

section \<open>Sending what is pending\<close>

lemma length_fold_delete_all:
  assumes "distinct ids" "\<And>i. i \<in> set ids \<Longrightarrow> map_of q i \<noteq> None"
  shows "length (fold AList.delete ids q) + length ids \<le> length q"
  using assms
proof (induction ids arbitrary: q)
  case Nil
  then show ?case by simp
next
  case (Cons i ids)
  have "length (map fst (AList.delete i q)) < length (map fst q)"
    using Cons.prems by (intro jm.size_del_less) simp
  moreover have "length (fold AList.delete ids (AList.delete i q)) + length ids
      \<le> length (AList.delete i q)"
    using Cons.prems by (intro Cons.IH) (auto simp: jm.get_del simp del: not_None_eq)
  ultimately show ?case by simp
qed

lemma promote_none:
  "\<forall>i \<in> set ids. map_of (sp_pending p) i = None \<Longrightarrow> fold (promote n) ids p = p"
  by (induction ids) (simp_all add: promote_def)

lemma promote_all:
  assumes "distinct ids" "\<forall>i \<in> set ids. map_of (sp_pending p) i \<noteq> None"
  shows "fold (promote n) ids p = p\<lparr>sp_pending := fold AList.delete ids (sp_pending p),
    sp_sent := fold (\<lambda>i. AList.update i n) ids (sp_sent p)\<rparr>"
  using assms
proof (induction ids arbitrary: p)
  case Nil
  then show ?case by simp
next
  case (Cons i ids)
  have "promote n i p = p\<lparr>sp_pending := AList.delete i (sp_pending p),
      sp_sent := AList.update i n (sp_sent p)\<rparr>"
    using Cons.prems by (simp add: promote_def del: not_None_eq)
  moreover have "\<forall>j \<in> set ids. map_of (AList.delete i (sp_pending p)) j \<noteq> None"
    using Cons.prems by (auto simp: jm.get_del simp del: not_None_eq)
  ultimately show ?case using Cons.prems Cons.IH [of "promote n i p"] by simp
qed

lemma promote_item_ok:
  assumes ok: "sp_ok X p" and n: "n < length (sp_items p)" and life: "it_life (sp_items p ! n) = Some lc"
  shows "sp_ok X (fold (promote n) (lc_ids lc) p)"
proof -
  let ?pend = "sp_pending p" and ?sent = "sp_sent p" and ?ids = "lc_ids lc"
  have q: "queues_ok X ?pend ?sent (sp_items p)" using ok by (simp add: sp_ok_def)
  have itn: "item_ok X ?pend ?sent n (sp_items p ! n)" using q n by (simp add: queues_ok_def)
  have dist: "distinct ?ids" using itn life by (simp add: item_ok_def)
  have one: "in_one_queue ?pend ?sent n ?ids" by (rule item_ok_live [OF itn life])
  show ?thesis
  proof (cases "\<forall>i \<in> set ?ids. map_of ?pend i = Some n \<and> map_of ?sent i = None")
    case False
    then have "\<forall>i \<in> set ?ids. map_of ?pend i = None" using one by (auto simp: in_one_queue_def)
    with ok show ?thesis by (simp add: promote_none)
  next
    case True
    let ?pend' = "fold AList.delete ?ids ?pend"
    let ?sent' = "fold (\<lambda>i. AList.update i n) ?ids ?sent"
    have eq: "fold (promote n) ?ids p = p\<lparr>sp_pending := ?pend', sp_sent := ?sent'\<rparr>"
      using dist True by (intro promote_all) auto
    have count: "length ?pend' + length ?ids \<le> length ?pend"
      "length ?sent' = length ?sent + length ?ids"
      using dist True by (auto intro!: length_fold_delete_all length_fold_update)
    have "entries_ok ?pend' (sp_items p)" "entries_ok ?sent' (sp_items p)"
      using q n life unfolding queues_ok_def entries_ok_def
      by (auto simp: fold_delete_get fold_update_get jm_ok_folds simp del: map_of_eq_Some_iff
          split: if_splits)
    moreover have "item_ok X ?pend' ?sent' m (sp_items p ! m)" if m: "m < length (sp_items p)" for m
    proof -
      have okm: "item_ok X ?pend ?sent m (sp_items p ! m)" using q m by (simp add: queues_ok_def)
      have "in_one_queue ?pend' ?sent' m (lc_ids lm)" if lm: "it_life (sp_items p ! m) = Some lm" for lm
      proof (cases "m = n")
        case True
        with life lm show ?thesis by (auto simp: in_one_queue_def fold_delete_get fold_update_get)
      next
        case False
        then have "set ?ids \<inter> set (lc_ids lm) = {}"
          using live_ids_disjoint [OF one item_ok_live [OF okm lm]] by simp
        then show ?thesis using item_ok_live [OF okm lm]
          by (auto simp: in_one_queue_def fold_delete_get fold_update_get)
      qed
      with okm show ?thesis by (auto simp: item_ok_def split: option.splits)
    qed
    ultimately show ?thesis using ok count eq by (simp add: sp_ok_def queues_ok_def inFlightCount_def)
  qed
qed

text \<open>While the loop runs, entries only leave the queue of pending requests.\<close>

definition shrinks :: "provider \<Rightarrow> provider \<Rightarrow> bool" where
  "shrinks p p' \<longleftrightarrow> length (sp_items p') = length (sp_items p) \<and>
     (\<forall>i. map_of (sp_pending p') i = None \<or> map_of (sp_pending p') i = map_of (sp_pending p) i)"

interpretation sh: action_relation shrinks
proof
  show "shrinks p p" for p by (simp add: shrinks_def)
  show "shrinks p r" if "shrinks p q" "shrinks q r" for p q r
    using that unfolding shrinks_def by metis
qed

lemma shrinks_promote: "shrinks p (fold (promote n) ids p)"
proof (induction ids arbitrary: p)
  case Nil
  then show ?case by (simp add: sh.rel_refl)
next
  case (Cons i ids)
  have "shrinks p (promote n i p)"
    by (simp add: shrinks_def promote_def jm.get_del)
  with Cons sh.rel_trans show ?case by fastforce
qed

lemma shrinks_same: "same_requests p p' \<Longrightarrow> shrinks p p'"
  by (simp add: same_requests_def shrinks_def)

lemma shrinks_settle: "shrinks p (snd (settleRequest i oc p))"
proof -
  have upd: "sp_pending (upd_item n f q) = sp_pending q"
    "length (sp_items (upd_item n f q)) = length (sp_items q)" for n f q
    by (simp_all add: upd_item_def)
  have item: "sp_pending (settle_item n oc q) = sp_pending q"
    "length (sp_items (settle_item n oc q)) = length (sp_items q)" for n oc q
    by (auto simp: settle_item_def Let_def upd split: outcome.splits option.splits)
  show ?thesis
    by (auto simp: settleRequest_def Let_def shrinks_def item upd release_ids_def fold_delete_get
        jm.get_del split: option.splits)
qed

lemma shrinks_send_or_reject: "shrinks p (send_or_reject env v i p)"
proof (cases "sendToSocket env v p")
  case (Pair res q)
  have "same_requests p q" using same_sendToSocket [of p env v] Pair by simp
  then have "shrinks p q" by (rule shrinks_same)
  with Pair sh.rel_trans [OF _ shrinks_settle] show ?thesis
    by (auto simp: send_or_reject_def split: sum.split)
qed

lemma promote_grows: "grows p (fold (promote n) ids p)"
proof (induction ids arbitrary: p)
  case Nil
  then show ?case by (simp add: grows_def)
next
  case (Cons i ids)
  have "grows p q \<Longrightarrow> grows p (promote n i q)" for p q
    by (simp add: grows_def promote_def item_promise_def)
  with Cons [of "promote n i p"] show ?case by (auto simp: grows_def item_promise_def promote_def)
qed

lemma grows_trans: "grows p q \<Longrightarrow> grows q r \<Longrightarrow> grows p r"
  by (auto simp: grows_def)

lemma send_item_grows: "grows p (send_item env i n p)"
  unfolding send_item_def Let_def
  by (rule grows_trans [OF promote_grows keeps_grows [OF keeps_send_or_reject [OF kp.rel_refl]]])

lemma send_item_shrinks: "shrinks p (send_item env i n p)"
  unfolding send_item_def Let_def by (rule sh.rel_trans [OF shrinks_promote shrinks_send_or_reject])

text \<open>The entries of the loop are entries of the queue, or have left it.\<close>

definition entry_of :: "provider \<Rightarrow> jsval \<times> nat \<Rightarrow> bool" where
  "entry_of p e \<longleftrightarrow> snd e < length (sp_items p) \<and>
     (map_of (sp_pending p) (fst e) = None \<or> map_of (sp_pending p) (fst e) = Some (snd e))"

lemma entry_shrinks: "entry_of p e \<Longrightarrow> shrinks p q \<Longrightarrow> entry_of q e"
  unfolding entry_of_def shrinks_def by metis

lemma send_item_ok:
  assumes ok: "sp_ok X p" and en: "entry_of p (i, n)"
  shows "sp_ok X (send_item env i n p)"
proof -
  have "sp_ok X (fold (promote n) (case it_life (sp_items p ! n) of Some lc \<Rightarrow> lc_ids lc | None \<Rightarrow> [i]) p)"
  proof (cases "it_life (sp_items p ! n)")
    case (Some lc)
    with ok en show ?thesis by (simp add: entry_of_def promote_item_ok)
  next
    case None
    have "map_of (sp_pending p) i \<noteq> Some n"
      using ok None unfolding sp_ok_def queues_ok_def by (auto elim: entries_okE)
    with en None ok show ?thesis
      by (auto simp: entry_of_def promote_none promote_def simp del: map_of_eq_Some_iff)
  qed
  then show ?thesis
    unfolding send_item_def Let_def by (rule keeps_okD [OF keeps_send_or_reject [OF kp.rel_refl]])
qed

lemma promote_gone: "j \<in> set ids \<Longrightarrow> map_of (sp_pending (fold (promote n) ids p)) j = None"
proof (induction ids arbitrary: p)
  case Nil
  then show ?case by simp
next
  case (Cons i ids)
  have "map_of (sp_pending (promote n i p)) i = None" by (simp add: promote_def jm.get_del)
  moreover have "map_of (sp_pending (fold (promote n) ids q)) j = None"
    if "map_of (sp_pending q) j = None" for q
    using that shrinks_promote [of q n ids] by (auto simp: shrinks_def simp del: map_of_eq_Some_iff)
  ultimately show ?case using Cons by fastforce
qed

lemma send_item_drains:
  assumes ok: "sp_ok X p" shows "map_of (sp_pending (send_item env i n p)) j \<noteq> Some n"
proof
  assume now: "map_of (sp_pending (send_item env i n p)) j = Some n"
  define ids where "ids = (case it_life (sp_items p ! n) of Some lc \<Rightarrow> lc_ids lc | None \<Rightarrow> [i])"
  have "map_of (sp_pending p) j = Some n"
    using now send_item_shrinks [of p env i n] unfolding shrinks_def by (metis option.distinct(1))
  then have "j \<in> set ids"
    using ok unfolding sp_ok_def queues_ok_def ids_def by (auto elim: entries_okE)
  then have "map_of (sp_pending (fold (promote n) ids p)) j = None" by (rule promote_gone)
  then have "map_of (sp_pending (send_item env i n p)) j = None"
    using shrinks_send_or_reject [of "fold (promote n) ids p" env "it_payload (sp_items p ! n)" i]
    unfolding send_item_def Let_def ids_def shrinks_def by metis
  with now show False by simp
qed

lemma send_loop_grows: "grows p (send_loop env seen es p)"
proof (induction es arbitrary: seen p)
  case Nil
  then show ?case by (simp add: grows_def)
next
  case (Cons e es)
  obtain i n where e: "e = (i, n)" by (cases e)
  have "grows p (send_loop env (n # seen) es (send_item env i n p))"
    using send_item_grows Cons.IH by (rule grows_trans)
  with Cons.IH e show ?case by simp
qed

lemma send_loop_ok:
  "sp_ok X p \<Longrightarrow> \<forall>e \<in> set es. entry_of p e \<Longrightarrow> sp_ok X (send_loop env seen es p)"
proof (induction es arbitrary: seen p)
  case Nil
  then show ?case by simp
next
  case (Cons e es)
  obtain i n where e: "e = (i, n)" by (cases e)
  have "\<forall>e \<in> set es. entry_of (send_item env i n p) e"
    using Cons.prems(2) entry_shrinks [OF _ send_item_shrinks] by simp
  with Cons e send_item_ok show ?case by simp
qed

text \<open>Afterwards nothing is left of what was pending.\<close>

lemma send_loop_drains:
  assumes "sp_ok X p" and "\<forall>e \<in> set es. entry_of p e"
    and "\<And>i n. n \<in> set seen \<Longrightarrow> map_of (sp_pending p) i \<noteq> Some n"
    and "\<And>i. map_of (sp_pending p) i \<noteq> None \<Longrightarrow> i \<in> fst ` set es"
  shows "map_of (sp_pending (send_loop env seen es p)) j = None"
  using assms
proof (induction es arbitrary: seen p)
  case Nil
  then show ?case by (cases "map_of (sp_pending p) j") auto
next
  case (Cons e es)
  obtain i n where e: "e = (i, n)" by (cases e)
  have en: "entry_of p (i, n)" using Cons.prems(2) e by simp
  show ?case
  proof (cases "n \<in> set seen")
    case True
    then have "map_of (sp_pending p) i = None"
      using en Cons.prems(3) [of n i] by (auto simp: entry_of_def simp del: map_of_eq_Some_iff)
    then have "k \<in> fst ` set es" if "map_of (sp_pending p) k \<noteq> None" for k
      using Cons.prems(4) [OF that] that e by auto
    with Cons True e show ?thesis by simp
  next
    case False
    let ?r = "send_item env i n p"
    have sh: "map_of (sp_pending ?r) k = None \<or> map_of (sp_pending ?r) k = map_of (sp_pending p) k" for k
      using send_item_shrinks [of p env i n] by (simp add: shrinks_def)
    have drained: "map_of (sp_pending ?r) k \<noteq> Some n" for k
      using Cons.prems(1) by (rule send_item_drains)
    have seen: "map_of (sp_pending ?r) k \<noteq> Some m" if "m \<in> set (n # seen)" for k m
      using that drained [of k] sh [of k] Cons.prems(3) [of m k] by auto
    have cover: "k \<in> fst ` set es" if live: "map_of (sp_pending ?r) k \<noteq> None" for k
    proof -
      have same: "map_of (sp_pending ?r) k = map_of (sp_pending p) k" using sh [of k] live by auto
      then have "k \<in> fst ` set (e # es)" using live Cons.prems(4) by metis
      moreover have "k \<noteq> i"
        using en drained [of k] same live by (auto simp: entry_of_def simp del: map_of_eq_Some_iff)
      ultimately show ?thesis using e by simp
    qed
    have "\<forall>e \<in> set es. entry_of ?r e"
      using Cons.prems(2) entry_shrinks [OF _ send_item_shrinks] by simp
    with send_item_ok [OF Cons.prems(1) en]
    have "map_of (sp_pending (send_loop env (n # seen) es ?r)) j = None"
      using seen cover by (rule Cons.IH)
    with False e show ?thesis by simp
  qed
qed

lemma pending_entries:
  assumes "sp_ok X q" shows "\<forall>e \<in> set (sp_pending q). entry_of q e"
  using assms by (auto simp: sp_ok_def queues_ok_def entries_ok_def entry_of_def)

lemma sendPending_drains: "sp_ok X p \<Longrightarrow> sp_pending (sendPendingRequests env p) = []"
proof -
  assume ok: "sp_ok X p"
  have "map_of (sp_pending (sendPendingRequests env p)) j = None" for j
    unfolding sendPendingRequests_def
    by (rule send_loop_drains [OF ok pending_entries [OF ok]])
      (auto simp: image_iff dest!: map_of_SomeD intro: rev_bexI)
  then show ?thesis
    by (metis list.exhaust map_of_eq_None_iff list.set_intros(1) image_eqI)
qed

lemma keeps_sendPending [keeps_intros]:
  assumes "keeps p q" shows "keeps p (sendPendingRequests env q)"
  using assms send_loop_ok [OF _ pending_entries] send_loop_grows
  by (auto simp: keeps_def sendPendingRequests_def intro: grows_trans)

section \<open>Messages, deadlines and aborts\<close>

lemma keeps_bindS:
  "keeps p (snd (m q)) \<Longrightarrow> (\<And>x q'. m q = (Inr x, q') \<Longrightarrow> keeps p q' \<Longrightarrow> keeps p (snd (f x q')))
    \<Longrightarrow> keeps p (snd (bindS m f q))"
  by (cases "m q") (auto simp: bindS_def split: sum.split)

lemma keeps_handle_response: "keeps p q \<Longrightarrow> keeps p (snd (handle_response r q))"
  unfolding handle_response_def
  by (auto simp: liftS_def Let_def intro!: keeps_bindS keeps_intros)

lemma keeps_handle_responses: "keeps p q \<Longrightarrow> keeps p (snd (handle_responses rs q))"
  by (induction rs arbitrary: q) (auto intro!: keeps_bindS keeps_handle_response)

lemma keeps_onMessage [keeps_intros]: "keeps p q \<Longrightarrow> keeps p (snd (onMessage rs q))"
  by (auto simp: onMessage_def intro!: keeps_intros keeps_handle_responses)

lemma exempt_item:
  assumes "sp_ok X p" "ab_wf (f (it_abort (sp_items p ! n)))"
    "it_life (sp_items p ! n) = None \<Longrightarrow> ab_released (f (it_abort (sp_items p ! n)))"
  shows "sp_ok (insert n X) (upd_item n (\<lambda>it. it\<lparr>it_abort := f (it_abort it)\<rparr>) p)"
proof -
  let ?f = "\<lambda>it. it\<lparr>it_abort := f (it_abort it)\<rparr>"
  let ?items = "sp_items (upd_item n ?f p)"
  have life: "it_life (?items ! m) = it_life (sp_items p ! m)"
    "it_deferred (?items ! m) = it_deferred (sp_items p ! m)" for m
    by (simp_all add: upd_item_nth)
  have "entries_ok q ?items = entries_ok q (sp_items p)" for q
    by (simp add: entries_ok_def life upd_item_nth(2) del: map_of_eq_Some_iff)
  moreover have "item_ok (insert n X) pend sent m (?items ! m)"
    if "item_ok X pend sent m (sp_items p ! m)" for m pend sent
    using that assms(2,3) by (auto simp: item_ok_def upd_item_nth split: option.splits)
  ultimately show ?thesis
    using assms(1) by (simp add: sp_ok_def queues_ok_def inFlightCount_def upd_item_nth upd_item_def)
qed

lemma exempt_done:
  assumes "sp_ok (insert n X) p" "it_life (sp_items p ! n) = None"
  shows "sp_ok X p"
proof -
  have "item_ok X pend sent m (sp_items p ! m)"
    if "item_ok (insert n X) pend sent m (sp_items p ! m)" for m pend sent
    using that assms(2) by (cases "m = n") (auto simp: item_ok_def split: option.splits)
  then show ?thesis using assms(1) by (auto simp: sp_ok_def queues_ok_def)
qed

lemma settled_life:
  assumes "sp_ok X p" "n < length (sp_items p)" "it_life (sp_items p ! n) = Some lc"
    "i \<in> set (lc_ids lc)"
  shows "settleRequest i oc p = (True, notifyDiagnostics (settled_state (lc_ids lc) n oc p))"
proof -
  have "item_ok X (sp_pending p) (sp_sent p) n (sp_items p ! n)"
    using assms by (simp add: sp_ok_def queues_ok_def)
  then have "queue_item i p = Some n"
    using assms(3,4) item_ok_live unfolding in_one_queue_def queue_item_def by fastforce
  with assms show ?thesis by (simp add: settleRequest_queued)
qed

lemma live_item:
  assumes "sp_ok X p" "n < length (sp_items p)" "it_life (sp_items p ! n) = Some lc"
  shows "lc_onAbort lc" "lc_ids lc \<noteq> []" "\<not> lc_settled lc" "item_promise p n = None"
    "ab_wf (it_abort (sp_items p ! n))" "in_one_queue (sp_pending p) (sp_sent p) n (lc_ids lc)"
    "n \<notin> X \<Longrightarrow> ab_timer (it_abort (sp_items p ! n))"
  using assms by (auto simp: sp_ok_def queues_ok_def item_ok_def item_promise_def)

lemma dead_item:
  assumes "sp_ok X p" "n < length (sp_items p)" "it_life (sp_items p ! n) = None"
  shows "item_promise p n \<noteq> None" "ab_released (it_abort (sp_items p ! n))"
  using assms unfolding sp_ok_def queues_ok_def item_ok_def item_promise_def by force+

lemma settled_state_sels [simp]:
  "sp_items (settled_state ids n oc p) = (sp_items p)[n := done_item oc (sp_items p ! n)]"
  "sp_pending (settled_state ids n oc p) = fold AList.delete ids (sp_pending p)"
  "sp_sent (settled_state ids n oc p) = fold AList.delete ids (sp_sent p)"
  "sp_bounds (settled_state ids n oc p) = sp_bounds p"
  by (simp_all add: settled_state_def)

text \<open>The composition of a live request aborts: its request is rejected with the reason.\<close>

lemma abort_item_live:
  assumes ok: "sp_ok X p" and n: "n < length (sp_items p)"
    and life: "it_life (sp_items p ! n) = Some lc" and wf: "ab_wf (f (it_abort (sp_items p ! n)))"
  shows "sp_ok X (abort_item n f reason p)"
    "item_promise (abort_item n f reason p) n = Some (Reject reason)"
    "it_life (sp_items (abort_item n f reason p) ! n) = None"
proof -
  let ?p1 = "upd_item n (\<lambda>it. it\<lparr>it_abort := f (it_abort it)\<rparr>) p"
  let ?p2 = "abort_item n f reason p"
  have ok1: "sp_ok (insert n X) ?p1" using exempt_item [OF ok, of f n] wf life by simp
  have n1: "n < length (sp_items ?p1)" "it_life (sp_items ?p1 ! n) = Some lc"
    using n life by (simp_all add: upd_item_nth)
  note live = live_item [OF ok n life]
  have "?p2 = snd (settleRequest (hd (lc_ids lc)) (Reject reason) ?p1)"
    using life live by (simp add: abort_item_def Let_def)
  also have "\<dots> = notifyDiagnostics (settled_state (lc_ids lc) n (Reject reason) ?p1)"
    using settled_life [OF ok1 n1] live(2) by simp
  finally have eq: "?p2 = notifyDiagnostics (settled_state (lc_ids lc) n (Reject reason) ?p1)" .
  have "sp_ok (insert n X) ?p2"
    unfolding eq using settled_state_ok [OF ok1 n1] by simp
  moreover show none: "it_life (sp_items ?p2 ! n) = None" using n by (simp add: eq upd_item_nth)
  ultimately show "sp_ok X ?p2" by (rule exempt_done)
  show "item_promise ?p2 n = Some (Reject reason)"
    using n live(4) by (simp add: eq item_promise_def upd_item_nth df_settle_promise)
qed

lemma abort_item_keeps:
  assumes "n < length (sp_items p)"
    and wf: "\<And>a. ab_wf a \<Longrightarrow> ab_wf (f a)" and rel: "\<And>a. ab_wf a \<Longrightarrow> ab_released (f a)"
  shows "keeps p (abort_item n f reason p)"
proof -
  let ?p1 = "upd_item n (\<lambda>it. it\<lparr>it_abort := f (it_abort it)\<rparr>) p"
  have "sp_ok X (abort_item n f reason p)" if ok: "sp_ok X p" for X
  proof -
    have abwf: "ab_wf (it_abort (sp_items p ! n))"
      using ok assms(1) by (auto simp: sp_ok_def queues_ok_def item_ok_def)
    show ?thesis
    proof (cases "it_life (sp_items p ! n)")
      case (Some lc)
      with ok assms(1) wf abwf show ?thesis by (intro abort_item_live(1)) auto
    next
      case None
      then have "abort_item n f reason p = ?p1" by (simp add: abort_item_def Let_def)
      moreover have "sp_ok (insert n X) ?p1" using ok wf rel abwf by (intro exempt_item) auto
      ultimately show ?thesis using None by (auto intro!: exempt_done [of n] simp: upd_item_nth)
    qed
  qed
  moreover have "grows p ?p1" by (auto simp: grows_def item_promise_def upd_item_nth)
  then have "grows p (abort_item n f reason p)"
    using grows_trans [OF _ settle_grows] by (auto simp: abort_item_def Let_def split: option.split)
  ultimately show ?thesis by (simp add: keeps_def)
qed

lemma ab_fire_released [simp]:
  "ab_wf a \<Longrightarrow> ab_released (ab_fire_timer r a)" "ab_wf a \<Longrightarrow> ab_released (ab_fire_signal r a)"
  by (auto simp: ab_fire_timer_def ab_fire_signal_def intro!: ab_dispose_released)
    (auto simp: ab_wf_def ab_released_def)

lemma keeps_aborts [keeps_intros]:
  "keeps p q \<Longrightarrow> keeps p (onDeadline n q)" "keeps p q \<Longrightarrow> keeps p (onCallerAbort n reason q)"
  by (auto simp: onDeadline_def onCallerAbort_def intro!: keeps_then [OF abort_item_keeps])

section \<open>Every step\<close>

lemma keeps_request_then [keeps_intros]: "keeps p q \<Longrightarrow> keeps p (snd (request env req ro q))"
  by (rule keeps_then [OF keeps_request])

lemma keeps_internal [keeps_intros]: "keeps p q \<Longrightarrow> keeps p (internal_request env uuid m q)"
proof -
  assume pq: "keeps p q"
  have "request env v ro (q\<lparr>sp_idSeed := seed\<rparr>) = (res, r) \<Longrightarrow> keeps p r" for v ro seed res r
    using keeps_request_then [OF keeps_fields(1) [OF pq], of env v ro seed] by simp
  then show ?thesis
    by (auto simp: internal_request_def Let_def intro!: keeps_intros split: prod.split sum.split)
qed

lemma keeps_onConnect [keeps_intros]: "keeps p q \<Longrightarrow> keeps p (onConnect env q)"
  by (auto simp: onConnect_def eip1193_onConnect_def intro!: keeps_intros)

lemma keeps_handle: "keeps p (sp_handle p e)"
  by (cases "(p, e)" rule: sp_handle.cases)
    (auto intro!: keeps_intros split: if_splits simp del: snd_conv)

lemma keeps_step: "keeps p (sp_step p e)"
  unfolding sp_step_def by (intro keeps_intros keeps_handle)

interpretation sp: invariant_system sp_step sp_inv
  by unfold_locales (rule keeps_okD [OF keeps_step])

lemma new_provider_ok:
  assumes "new_provider env path options ar k hook seed = Inr p"
  shows "sp_inv p \<and> resolveProviderBounds options = Inr (sp_bounds p)"
proof -
  obtain b where b: "resolveProviderBounds options = Inr b"
    and "(case connect env (fresh_provider b ar k hook seed) of
      (Inl e, _) \<Rightarrow> Inl e | (Inr _, p) \<Rightarrow> Inr p) = (Inr p :: js_error + provider)"
    using assms by (auto simp: new_provider_def bindR_Inr_iff split: if_splits)
  then have p: "p = snd (connect env (fresh_provider b ar k hook seed))"
    by (auto split: prod.splits sum.splits)
  have fresh: "sp_inv (fresh_provider b ar k hook seed)"
    by (simp add: fresh_provider_def sp_ok_def queues_ok_def entries_ok_def inFlightCount_def)
  have same: "same_requests (fresh_provider b ar k hook seed) p" unfolding p by simp
  show ?thesis
    using keeps_okD [OF same_keeps [OF same] fresh] same b
    by (simp add: same_requests_def fresh_provider_def)
qed

lemma grows_run: "grows p (foldl sp_step p es)"
proof (induction es arbitrary: p)
  case Nil
  then show ?case by (simp add: grows_def)
next
  case (Cons e es)
  show ?case using grows_trans [OF keeps_grows [OF keeps_step] Cons.IH] by simp
qed

end
