(* ===== verification/SocketProps.thy ===== *)
theory SocketProps
  imports SocketInv
begin

text \<open>
  The properties of a socket provider over every run: any sequence of calls of its methods, events of
  its socket and its timers, whatever the socket answers to them.
\<close>

section \<open>Teardown\<close>

lemma settle_frees:
  assumes "sp_ok X p"
  shows "queue_item i (snd (settleRequest i oc p)) = None"
    and "queue_item j p = None \<Longrightarrow> queue_item j (snd (settleRequest i oc p)) = None"
proof -
  have "queue_item i (snd (settleRequest i oc p)) = None \<and>
    (queue_item j p = None \<longrightarrow> queue_item j (snd (settleRequest i oc p)) = None)"
  proof (cases "queue_item i p")
    case None
    then show ?thesis by (simp add: settleRequest_unknown)
  next
    case (Some n)
    with assms obtain lc where "it_life (sp_items p ! n) = Some lc" "i \<in> set (lc_ids lc)"
      by (rule queue_item_cases)
    with assms Some show ?thesis
      by (simp add: settleRequest_queued queue_item_def fold_delete_get split: option.splits)
  qed
  then show "queue_item i (snd (settleRequest i oc p)) = None"
    and "queue_item j p = None \<Longrightarrow> queue_item j (snd (settleRequest i oc p)) = None" by auto
qed

lemma rejects_free:
  assumes "sp_ok X p" "i \<in> set ids \<or> queue_item i p = None"
  shows "queue_item i (fold (\<lambda>i p. snd (settleRequest i (Reject err) p)) ids p) = None"
  using assms
proof (induction ids arbitrary: p)
  case Nil
  then show ?case by simp
next
  case (Cons j ids)
  have "sp_ok X (snd (settleRequest j (Reject err) p))" using Cons.prems(1) by (rule settle_ok)
  moreover have "i \<in> set ids \<or> queue_item i (snd (settleRequest j (Reject err) p)) = None"
    using Cons.prems settle_frees by auto
  ultimately show ?case using Cons.IH by simp
qed

lemma queues_empty_iff:
  "sp_pending p = [] \<and> sp_sent p = [] \<longleftrightarrow> (\<forall>i. queue_item i p = None)"
proof
  assume none: "\<forall>i. queue_item i p = None"
  have "q = []" if "\<forall>i. map_of q i = None" for q :: "(jsval, nat) jsmap"
    using that by (cases q) (auto split: if_splits)
  moreover have "map_of (sp_sent p) i = None \<and> map_of (sp_pending p) i = None" for i
    using none [rule_format, of i] by (simp add: queue_item_def split: option.splits)
  ultimately show "sp_pending p = [] \<and> sp_sent p = []" by blast
qed (simp add: queue_item_def)

lemma rejectAll_empties:
  assumes "sp_ok X p"
  shows "sp_pending (rejectAllRequests err p) = [] \<and> sp_sent (rejectAllRequests err p) = []"
proof -
  have "i \<in> set (map fst (sp_pending p) @ map fst (sp_sent p)) \<or> queue_item i p = None" for i
    by (auto simp: queue_item_def map_of_eq_None_iff split: option.splits simp del: map_of_eq_Some_iff
        dest!: map_of_SomeD) force
  then show ?thesis
    unfolding queues_empty_iff rejectAllRequests_def using rejects_free [OF assms] by blast
qed

text \<open>With empty queues every request is settled.\<close>

lemma empty_all_settled:
  assumes "sp_ok X p" "sp_pending p = []" "sp_sent p = []" "n < length (sp_items p)"
  shows "item_promise p n \<noteq> None"
proof -
  have "item_ok X [] [] n (sp_items p ! n)" using assms by (simp add: sp_ok_def queues_ok_def)
  then show ?thesis
    by (auto simp: item_ok_def item_promise_def in_one_queue_def split: option.splits)
qed

text \<open>Rejecting everything with a reason gives that reason to every open promise.\<close>

definition rejected_with :: "jsval \<Rightarrow> provider \<Rightarrow> provider \<Rightarrow> bool" where
  "rejected_with r p p' \<longleftrightarrow> length (sp_items p') = length (sp_items p) \<and>
     (\<forall>n < length (sp_items p). item_promise p' n = item_promise p n \<or>
        item_promise p n = None \<and> item_promise p' n = Some (Reject r))"

lemma rejected_trans: "rejected_with r p q \<Longrightarrow> rejected_with r q s \<Longrightarrow> rejected_with r p s"
  unfolding rejected_with_def by metis

lemma settle_rejects: "rejected_with r p (snd (settleRequest i (Reject r) p))"
proof -
  have "rejected_with r p q \<Longrightarrow> (\<And>it. df_promise (it_deferred (f it)) = df_promise (it_deferred it) \<or>
      df_promise (it_deferred it) = None \<and> df_promise (it_deferred (f it)) = Some (Reject r)) \<Longrightarrow>
      rejected_with r p (upd_item n f q)" for f q n
    unfolding rejected_with_def item_promise_def upd_item_nth by (auto split: if_splits) metis+
  note upd = this
  have item: "rejected_with r p q \<Longrightarrow> rejected_with r p (settle_item n (Reject r) q)" for n q
  proof -
    assume "rejected_with r p q"
    then have "rejected_with r p (upd_item n (settle_deferred (Reject r)) q)"
      by (rule upd) (auto simp: settle_deferred_def df_settle_promise split: option.split)
    moreover have "rejected_with r p (s\<lparr>sp_reports := rep\<rparr>) = rejected_with r p s" for s rep
      by (simp add: rejected_with_def item_promise_def)
    ultimately show "rejected_with r p (settle_item n (Reject r) q)"
      by (auto simp: settle_item_def Let_def split: option.splits)
  qed
  have rel: "rejected_with r p (release_ids ids p)" for ids
    by (simp add: rejected_with_def release_ids_def item_promise_def)
  have rel': "rejected_with r p (upd_item n (\<lambda>it. it\<lparr>it_abort := ab_dispose (it_abort it),
      it_life := None\<rparr>) (release_ids ids p))" for n ids
    by (rule upd [OF rel]) simp
  have diag: "rejected_with r p (notifyDiagnostics q) = rejected_with r p q" for q
    by (simp add: rejected_with_def item_promise_def)
  have refl: "rejected_with r p p" by (simp add: rejected_with_def)
  show ?thesis
    by (auto simp: settleRequest_def Let_def diag item rel rel' refl split: option.splits)
qed

lemma rejectAll_rejects: "rejected_with r p (rejectAllRequests r p)"
proof -
  have "rejected_with r q (fold (\<lambda>i p. snd (settleRequest i (Reject r) p)) ids q)" for ids q
  proof (induction ids arbitrary: q)
    case Nil
    then show ?case by (simp add: rejected_with_def)
  next
    case (Cons i ids)
    show ?case using rejected_trans [OF settle_rejects Cons.IH] by simp
  qed
  then show ?thesis by (simp only: rejectAllRequests_def)
qed

lemma rejected_same:
  "same_requests p q \<Longrightarrow> rejected_with r q s \<Longrightarrow> same_requests s t \<Longrightarrow> rejected_with r p t"
  by (simp add: rejected_with_def same_requests_def item_promise_def)

text \<open>The shape of a teardown: bookkeeping, rejecting everything, bookkeeping.\<close>

lemma teardown:
  assumes inv: "sp_inv p" and pre: "same_requests p q"
    and post: "same_requests (rejectAllRequests r q) p'"
  shows "sp_pending p' = [] \<and> sp_sent p' = [] \<and> length (sp_items p') = length (sp_items p) \<and>
    (\<forall>n < length (sp_items p). item_promise p' n =
      (if item_promise p n = None then Some (Reject r) else item_promise p n))"
proof -
  have ok: "sp_inv q" using keeps_okD [OF same_keeps [OF pre]] inv .
  then have empty: "sp_pending p' = []" "sp_sent p' = []"
    using rejectAll_empties [OF ok] post by (simp_all add: same_requests_def)
  have "sp_inv p'"
    using keeps_okD [OF same_keeps [OF post]] keeps_okD [OF keeps_rejects(1) ok] by blast
  then have some: "item_promise p' n \<noteq> None" if "n < length (sp_items p')" for n
    using empty that by (rule empty_all_settled)
  have "rejected_with r p p'"
    using pre rejectAll_rejects post by (rule rejected_same)
  then have len: "length (sp_items p') = length (sp_items p)"
    and cases: "item_promise p' n = item_promise p n \<or>
      item_promise p n = None \<and> item_promise p' n = Some (Reject r)"
    if "n < length (sp_items p)" for n
    using that by (simp_all add: rejected_with_def)
  have "item_promise p' n = (if item_promise p n = None then Some (Reject r) else item_promise p n)"
    if "n < length (sp_items p)" for n
    using cases [OF that] some [of n] len [OF that] that by auto
  with empty \<open>rejected_with r p p'\<close> show ?thesis by (simp add: rejected_with_def)
qed

text \<open>What starts a teardown, and what it rejects the outstanding requests with.\<close>

fun teardown_reason :: "provider \<Rightarrow> sp_event \<Rightarrow> jsval option" where
  "teardown_reason p (EvDisconnect code data) = Some (class_error ''ConnectionNotOpenError'')"
| "teardown_reason p EvReset = Some (class_error ''ProviderError'')"
| "teardown_reason p (EvClose stale code clean reason) =
     (if (stale \<or> sp_listening p) \<and> \<not> (sp_autoReconnect p \<and> (code \<notin> {1000, 1001} \<or> \<not> clean))
      then Some (class_error ''ConnectionNotOpenError'') else None)"
| "teardown_reason p EvConnectionTimeout =
     (if sp_connTimer p \<and> getStatus p \<noteq> Connected
      then Some (class_error ''ConnectionTimeoutError'') else None)"
| "teardown_reason p EvChunkError = Some (class_error ''ConnectionNotOpenError'')"
| "teardown_reason p _ = None"

lemmas same_simps = same_requests_def emit_def emitError_def clearConnectionTimer_def
  removeSocketListeners_def addSocketListeners_def closeSocketConnection_def onDisconnect_def Let_def

lemma teardown_shape:
  assumes "teardown_reason p e = Some r"
  shows "\<exists>q. same_requests p q \<and> same_requests (rejectAllRequests r q) (sp_step p (env, e))"
proof -
  have "\<exists>q. same_requests p q \<and> same_requests (rejectAllRequests r q) (sp_handle p (env, e))"
  proof (cases e)
    case (EvDisconnect code data)
    with assms show ?thesis
      by (intro exI [of _ "let p1 = removeSocketListeners (clearConnectionTimer p) in
          if getStatus p1 \<noteq> Disconnected then closeSocketConnection p1 else p1"])
        (auto simp: disconnect_def same_simps)
  next
    case EvReset
    with assms show ?thesis
      by (intro exI [of _ "clearConnectionTimer p"]) (auto simp: reset_def same_simps)
  next
    case (EvClose stale code clean reason)
    with assms show ?thesis
      by (intro exI [of _ "clearConnectionTimer p"])
        (auto simp: onCloseEvent_def clearQueues_def same_simps split: if_splits)
  next
    case EvConnectionTimeout
    with assms show ?thesis
      by (intro exI [of _ "p\<lparr>sp_connTimer := False, sp_status := Disconnected\<rparr>"])
        (auto simp: onConnectionTimeout_def getStatus_def same_simps split: if_splits)
  next
    case EvChunkError
    with assms show ?thesis
      by (intro exI [of _ "clearConnectionTimer p"]) (auto simp: clearQueues_def same_simps)
  qed (use assms in auto)
  then show ?thesis unfolding sp_step_def using same_trans same_microtasks by blast
qed

section \<open>Admission\<close>

lemma fold_update_fresh:
  fixes q :: "(jsval, nat) jsmap"
  assumes "distinct ids" "\<And>i. i \<in> set ids \<Longrightarrow> map_of q i = None"
  shows "fold (\<lambda>k. AList.update k n) ids q = q @ map (\<lambda>i. (i, n)) ids"
  using assms
proof (induction ids arbitrary: q)
  case Nil
  then show ?case by simp
next
  case (Cons i ids)
  have "AList.update i n q = q @ [(i, n)]" if "map_of q i = None" for q :: "(jsval, nat) jsmap"
    using that by (induction q) auto
  moreover have "map_of (q @ [(i, n)]) j = None" if "j \<in> set ids" for j
    using Cons.prems that by (auto simp: map_add_def)
  ultimately show ?case using Cons by simp
qed

lemma fold_delete_filter: "fold AList.delete ids q = filter (\<lambda>(k, v). k \<notin> set ids) q"
proof (induction ids arbitrary: q)
  case Nil
  then show ?case by simp
next
  case (Cons i ids)
  then show ?case by (auto simp: AList.delete_eq split_def intro!: filter_cong)
qed

lemma delete_added:
  assumes "\<And>i. i \<in> set ids \<Longrightarrow> map_of q i = None"
  shows "fold AList.delete ids (q @ map (\<lambda>i. (i, n)) ids) = q" "fold AList.delete ids q = q"
proof -
  have "k \<notin> set ids" if "(k, v) \<in> set q" for k v
    using assms [of k] that by (metis map_of_eq_None_iff fst_conv image_eqI)
  then have "filter (\<lambda>(k, v). k \<notin> set ids) q = q" by (intro filter_True) auto
  then show "fold AList.delete ids (q @ map (\<lambda>i. (i, n)) ids) = q" "fold AList.delete ids q = q"
    by (simp_all add: fold_delete_filter filter_map comp_def)
qed

text \<open>What a request that is accepted leaves: its slots, or its rejection.\<close>

definition admitted :: "jsval \<Rightarrow> jsval list \<Rightarrow> nat \<Rightarrow> provider \<Rightarrow> provider \<Rightarrow> bool" where
  "admitted req ids n p p' \<longleftrightarrow>
     n = length (sp_items p) \<and> length (sp_items p') = Suc n \<and> it_payload (sp_items p' ! n) = req \<and>
     (if item_promise p' n = None
      then inFlightCount p' = inFlightCount p + length ids \<and> in_one_queue (sp_pending p') (sp_sent p') n ids
      else (\<exists>r. item_promise p' n = Some (Reject r)) \<and>
        sp_pending p' = sp_pending p \<and> sp_sent p' = sp_sent p)"

lemma admit_effect:
  assumes ok: "sp_ok X p" and ex: "ids \<noteq> []" "distinct ids" and adm: "admission ids ro p = Inr t"
    and res: "admit env req ids ro t p = (Inr n, p')"
  shows "admitted req ids n p p'"
proof -
  note fresh = admission_Inr(1) [OF adm]
  obtain ab where ab: "composeAbortSignal (Some t) (ro_signal ro) = Inr ab"
    using res by (auto simp: admit_def split: sum.splits)
  define q where "q = notifyDiagnostics (enqueue ids (length (sp_items p))
    (p\<lparr>sp_items := sp_items p @ [new_item req ids ab]\<rparr>))"
  have okq: "sp_ok X q"
    using keeps_okD [OF keeps_notify [OF keeps_enqueue [OF ex adm ab]] ok] by (simp add: q_def)
  have n: "n = length (sp_items p)" and p': "p' = (if getStatus p = Connecting then q
      else send_or_reject env req (hd ids) q)"
    using res ab by (auto simp: admit_def Let_def q_def)
  have items: "sp_items q = sp_items p @ [new_item req ids ab]" by (simp add: q_def enqueue_def)
  have life: "n < length (sp_items q)"
    "it_life (sp_items q ! n) = Some \<lparr>lc_ids = ids, lc_onAbort = True, lc_settled = False\<rparr>"
    using n by (simp_all add: items new_item_def)
  have new: "item_promise q n = None" "it_payload (sp_items q ! n) = req"
    using n by (simp_all add: item_promise_def items new_item_def new_deferred_def Let_def)
  have count: "inFlightCount q = inFlightCount p + length ids"
    using ex(2) fresh by (simp add: q_def enqueue_def inFlightCount_def length_fold_update)
  have wait: "admitted req ids n p r" if "same_requests q r" for r
    using that new n items count live_item(6) [OF okq life]
    by (simp add: admitted_def same_requests_def item_promise_def inFlightCount_def)
  have fail: "admitted req ids n p (snd (settleRequest (hd ids) (Reject e) r))"
    if qr: "same_requests q r" for r e
  proof -
    have "sp_ok X r" using keeps_okD [OF same_keeps [OF qr] okq] .
    moreover have "n < length (sp_items r)"
      "it_life (sp_items r ! n) = Some \<lparr>lc_ids = ids, lc_onAbort = True, lc_settled = False\<rparr>"
      using life qr by (simp_all add: same_requests_def)
    ultimately have eq: "snd (settleRequest (hd ids) (Reject e) r) =
        notifyDiagnostics (settled_state ids n (Reject e) r)"
      using settled_life [of X r n _ "hd ids" "Reject e"] ex(1) by simp
    have "fold AList.delete ids (sp_pending q) = sp_pending p"
      "fold AList.delete ids (sp_sent q) = sp_sent p"
      using ex(2) fresh by (auto simp: q_def enqueue_def fold_update_fresh delete_added)
    then show ?thesis
      using qr n items new unfolding eq
      by (simp add: admitted_def same_requests_def item_promise_def df_settle_promise)
  qed
  show ?thesis
  proof (cases "getStatus p = Connecting")
    case True
    then show ?thesis using p' wait [of q] by (simp add: same_requests_def)
  next
    case False
    obtain r s where rs: "sendToSocket env req q = (r, s)" by (cases "sendToSocket env req q")
    then have "same_requests q s" using same_sendToSocket [of q env req] by simp
    with False p' rs wait fail show ?thesis by (auto simp: send_or_reject_def split: sum.splits)
  qed
qed

lemma bindS_step:
  "bindS m f s = (Inr y, s') \<longleftrightarrow> (\<exists>x t. m s = (Inr x, t) \<and> f x t = (Inr y, s'))"
  "bindS m f s = (Inl e, s') \<longleftrightarrow>
     m s = (Inl e, s') \<or> (\<exists>x t. m s = (Inr x, t) \<and> f x t = (Inl e, s'))"
  by (auto simp: bindS_def split: prod.splits sum.splits)

lemma request_opens:
  "reopen env p = (res, q) \<Longrightarrow> same_requests p q"
  using same_connect [of p env] by (auto simp: reopen_def same_requests_def split: if_splits)

lemma admit_refuses: "admit env req ids ro t p = (Inl e, p') \<Longrightarrow> p' = p"
  by (simp add: admit_def Let_def split: sum.splits)

lemma admitted_same: "same_requests p q \<Longrightarrow> admitted req ids n q p' \<Longrightarrow> admitted req ids n p p'"
  by (auto simp: admitted_def same_requests_def inFlightCount_def split: if_splits)

lemma request_effect:
  assumes ok: "sp_ok X p" and res: "request env req ro p = (res, p')"
  shows "case res of
      Inl e \<Rightarrow> same_requests p p'
    | Inr n \<Rightarrow> \<exists>ids. extractRequestIds req = Inr ids \<and>
        (\<forall>i \<in> set ids. map_of (sp_sent p) i = None \<and> map_of (sp_pending p) i = None) \<and>
        inFlightCount p + length ids \<le> maxInFlightRequests (sp_bounds p) \<and>
        admitted req ids n p p'"
proof (cases res)
  case (Inl e)
  then have "p' = p \<or> (\<exists>r. reopen env p = (r, p'))"
    using res unfolding request_def
    by (auto simp: bindS_step liftS_def dest!: admit_refuses split: if_splits)
  then have "same_requests p p'" using request_opens by (auto simp: same_requests_def)
  with Inl show ?thesis by simp
next
  case (Inr n)
  then obtain q ids t where q: "same_requests p q" and ex: "extractRequestIds req = Inr ids"
    and adm: "admission ids ro q = Inr t" and res': "admit env req ids ro t q = (Inr n, p')"
    using res unfolding request_def
    by (auto simp: bindS_step liftS_def dest!: request_opens split: if_splits)
  have "sp_ok X q" using keeps_okD [OF same_keeps [OF q] ok] .
  then have "admitted req ids n p p'"
    using admit_effect extractRequestIds_ok [OF ex] adm res' admitted_same [OF q] by blast
  with Inr ex admission_Inr [OF adm] q show ?thesis
    by (auto simp: same_requests_def inFlightCount_def)
qed

section \<open>Responses\<close>

text \<open>A single, well-formed response that is no notification.\<close>

definition plain_response :: "jsval \<Rightarrow> bool" where
  "plain_response r \<longleftrightarrow> \<not> isResponseWithNotification r \<and> \<not> isArray r \<and>
     (isResponseWithResult r \<or> isResponseWithError r = Inr True)"

lemma plain_response_id: "plain_response r \<Longrightarrow> \<not> isNullish r"
  by (cases r) (auto simp: plain_response_def isResponseWithResult_def isResponseWithError_def
      js_truthy_def msg_has_def isNullish_def split: if_splits)

lemma handle_plain:
  assumes "plain_response r" "map_of (sp_sent p) (msg_prop r ''id'') = Some n"
  shows "handle_response r p =
    (Inr (), snd (settleRequest (msg_prop r ''id'') (Resolve r) (emit (EmitMessage r) p)))"
proof -
  have arr: "js_elems r = None"
    using assms(1) by (cases r) (auto simp: plain_response_def isArray_def js_elems_def)
  show ?thesis
    using assms plain_response_id [OF assms(1)] arr
    by (auto simp: handle_response_def is_subscription_notice_def plain_response_def liftS_def bindS_def
        isBatchResponse_def response_id_def well_formed_response_def)
qed

section \<open>Properties of every run\<close>

text \<open>The providers of the witnesses: a socket that opens and writes everything, and a run on it.\<close>

definition sample_env :: socket_env where
  "sample_env = \<lparr>e_open = None, e_send = (\<lambda>_. None), e_uuids = (''u1'', ''u2'')\<rparr>"

definition sample_call :: "int \<Rightarrow> jsval" where
  "sample_call i = JObj [(''jsonrpc'', JStr ''2.0''), (''id'', JNum (NInt i)), (''method'', JStr ''m'')]"

definition sample_answer :: "int \<Rightarrow> jsval" where
  "sample_answer i =
     JObj [(''jsonrpc'', JStr ''2.0''), (''id'', JNum (NInt i)), (''result'', JBool True)]"

definition sample_options :: bounds_options where
  "sample_options = \<lparr>o_connectionTimeout = JUndef, o_requestTimeout = JUndef,
     o_maxResponseBytes = JNum (NInt 9), o_maxInFlightRequests = JNum (NInt 2)\<rparr>"

definition sample_bounds :: resolved_bounds where
  "sample_bounds = \<lparr>connectionTimeout = JNum (NInt 30000), requestTimeout = JNum (NInt 120000),
     maxResponseBytes = 9, maxInFlightRequests = 2\<rparr>"

definition sample_provider :: provider where
  "sample_provider = snd (connect sample_env (fresh_provider sample_bounds True 5 False None))"

definition sample_run :: "(socket_env \<times> sp_event) list" where
  "sample_run = [(sample_env, EvReady RsOpen), (sample_env, EvRequest (sample_call 7) no_options)]"

lemma sample_resolved: "resolveProviderBounds (Some sample_options) = Inr sample_bounds"
  by code_simp

lemma sample_new:
  "new_provider sample_env ''ws://a'' (Some sample_options) True 5 False None = Inr sample_provider"
  by code_simp

lemma sample_facts:
  "sp_listening (foldl sp_step sample_provider sample_run)"
  "length (sp_items (foldl sp_step sample_provider sample_run)) = 1"
  "item_promise (foldl sp_step sample_provider sample_run) 0 = None"
  "map_of (sp_sent (foldl sp_step sample_provider sample_run)) (JNum (NInt 7)) = Some 0"
  "msg_prop (sample_answer 7) ''id'' = JNum (NInt 7)"
  by code_simp+

lemma sample_plain: "plain_response (sample_answer 7)"
  unfolding plain_response_def by code_simp

lemma run_ok:
  assumes "new_provider env path options ar k hook seed = Inr p0"
  shows "sp_inv (foldl sp_step p0 es)" "sp_bounds (foldl sp_step p0 es) = sp_bounds p0"
  using sp.run_inv new_provider_ok [OF assms] grows_run [of p0 es] by (auto simp: grows_def)

text \<open>
  C6: However a provider is used, the slots its requests hold, and the highest number of them it ever
  reports, stay within the bound it was built with.
\<close>

theorem slots_bounded:
  assumes "new_provider env path options ar k hook seed = Inr p0"
    and "resolveProviderBounds options = Inr b"
  shows "inFlightCount (foldl sp_step p0 es) \<le> maxInFlightRequests b \<and>
    dg_peak (getDiagnostics (foldl sp_step p0 es)) \<le> maxInFlightRequests b"
  using run_ok [OF assms(1), of es] new_provider_ok [OF assms(1)] assms(2)
  by (simp add: sp_ok_def getDiagnostics_def)

theorem slots_bounded_witness:
  "inFlightCount (foldl sp_step sample_provider sample_run) \<le> 2"
  using slots_bounded [OF sample_new sample_resolved, of sample_run] by (simp add: sample_bounds_def)

text \<open>
  C1: Nothing leaks: in every state a run can reach, a request that is not settled holds slots in exactly
  one of the queues and has its deadline armed, and a request that is settled holds no slot, no timer and
  no listener; every entry of the queues belongs to such an open request.
\<close>

theorem no_leaks:
  assumes "new_provider env path options ar k hook seed = Inr p0" and "p = foldl sp_step p0 es"
  shows "(\<forall>n < length (sp_items p).
      if item_promise p n = None
      then ab_timer (it_abort (sp_items p ! n)) \<and>
        (\<exists>ids. ids \<noteq> [] \<and> in_one_queue (sp_pending p) (sp_sent p) n ids)
      else ab_released (it_abort (sp_items p ! n)) \<and>
        (\<forall>i. map_of (sp_pending p) i \<noteq> Some n \<and> map_of (sp_sent p) i \<noteq> Some n)) \<and>
    (\<forall>i n. queue_item i p = Some n \<longrightarrow> n < length (sp_items p) \<and> item_promise p n = None)"
proof -
  have inv: "sp_inv p" using run_ok assms by simp
  have entry: "n < length (sp_items p) \<and> item_promise p n = None"
    if "map_of (sp_pending p) i = Some n \<or> map_of (sp_sent p) i = Some n" for i n
    using inv that live_item(4) [OF inv] unfolding sp_ok_def by (metis queued_item)
  show ?thesis
  proof (intro conjI allI impI)
    fix n assume n: "n < length (sp_items p)"
    show "if item_promise p n = None
      then ab_timer (it_abort (sp_items p ! n)) \<and>
        (\<exists>ids. ids \<noteq> [] \<and> in_one_queue (sp_pending p) (sp_sent p) n ids)
      else ab_released (it_abort (sp_items p ! n)) \<and>
        (\<forall>i. map_of (sp_pending p) i \<noteq> Some n \<and> map_of (sp_sent p) i \<noteq> Some n)"
    proof (cases "it_life (sp_items p ! n)")
      case None
      with dead_item [OF inv n] entry show ?thesis by force
    next
      case (Some lc)
      with live_item [OF inv n Some] show ?thesis by auto
    qed
  next
    fix i n assume "queue_item i p = Some n"
    then have "map_of (sp_pending p) i = Some n \<or> map_of (sp_sent p) i = Some n"
      by (auto simp: queue_item_def split: option.splits)
    with entry show "n < length (sp_items p)" "item_promise p n = None" by blast+
  qed
qed

theorem no_leaks_witness:
  "ab_timer (it_abort (sp_items (foldl sp_step sample_provider sample_run) ! 0))"
  using no_leaks [OF sample_new refl, of sample_run] sample_facts(2,3) by simp





text \<open>
  C4: A teardown (disconnecting, resetting, a final close, a handshake that does not complete, a refused
  message stream) rejects every request that is open with the error of that teardown, leaves the outcomes
  of the others and empties both queues.
\<close>

theorem teardown_settles_all:
  assumes "new_provider env path options ar k hook seed = Inr p0" and "p = foldl sp_step p0 es"
    and "teardown_reason p e = Some r"
  shows "sp_pending (sp_step p (env', e)) = [] \<and> sp_sent (sp_step p (env', e)) = [] \<and>
    (\<forall>n < length (sp_items p). item_promise (sp_step p (env', e)) n =
      (if item_promise p n = None then Some (Reject r) else item_promise p n))"
proof -
  have "sp_inv p" using run_ok assms by simp
  moreover obtain q where "same_requests p q" "same_requests (rejectAllRequests r q) (sp_step p (env', e))"
    using teardown_shape [OF assms(3)] by blast
  ultimately show ?thesis using teardown by blast
qed

theorem teardown_settles_all_witness:
  "item_promise (sp_step (foldl sp_step sample_provider sample_run) (sample_env, EvReset)) 0 =
    Some (Reject (class_error ''ProviderError''))"
  using teardown_settles_all [OF sample_new refl, of sample_run EvReset] sample_facts(2,3) by simp

text \<open>
  C3: A well-formed response settles exactly the request that was sent with its id: that request is resolved
  with it, no other outcome changes, its slots are released and the listeners see the message; the same
  response once more is dropped.
\<close>

theorem response_settles_request:
  assumes "new_provider env path options ar k hook seed = Inr p0" and "p = foldl sp_step p0 es"
    and "sp_listening p" and "plain_response r"
    and "map_of (sp_sent p) (msg_prop r ''id'') = Some n"
  shows "let p' = sp_step p (env', EvMessage False [r]) in
    item_promise p' n = Some (Resolve r) \<and>
    (\<forall>m. m \<noteq> n \<longrightarrow> item_promise p' m = item_promise p m) \<and>
    queue_item (msg_prop r ''id'') p' = None \<and>
    same_requests p' (sp_step p' (env', EvMessage False [r]))"
proof -
  let ?i = "msg_prop r ''id''" and ?q = "emit (EmitMessage r) p"
  define p' where "p' = sp_step p (env', EvMessage False [r])"
  have inv: "sp_inv p" using run_ok assms by simp
  have qi: "queue_item ?i p = Some n" using assms(5) by (simp add: queue_item_def)
  obtain lc where lc: "n < length (sp_items p)" "it_life (sp_items p ! n) = Some lc" "?i \<in> set (lc_ids lc)"
    using inv qi by (rule queue_item_cases)
  have invq: "sp_inv ?q" using inv by simp
  have eq: "snd (settleRequest ?i (Resolve r) ?q) = notifyDiagnostics (settled_state (lc_ids lc) n (Resolve r) ?q)"
    using settled_life [OF invq, of n lc ?i "Resolve r"] lc by (simp add: emit_def)
  have "snd (onMessage [r] p) = snd (settleRequest ?i (Resolve r) ?q)"
    using handle_plain [OF assms(4,5)] by (simp add: onMessage_def bindS_def)
  then have same: "same_requests (notifyDiagnostics (settled_state (lc_ids lc) n (Resolve r) ?q)) p'"
    using assms(3) eq by (simp add: p'_def sp_step_def same_microtasks)
  have items: "sp_items p' = (sp_items p)[n := done_item (Resolve r) (sp_items p ! n)]"
    "sp_sent p' = fold AList.delete (lc_ids lc) (sp_sent p)"
    "sp_pending p' = fold AList.delete (lc_ids lc) (sp_pending p)"
    using same by (simp_all add: same_requests_def emit_def)
  have gone: "map_of (sp_sent p') ?i = None" "map_of (sp_pending p') ?i = None"
    using lc(3) by (simp_all add: items fold_delete_get)
  have "same_requests p' (sp_step p' (env', EvMessage False [r]))"
  proof -
    have "handle_response r p' = (Inr (), p')"
      using assms(4) plain_response_id [OF assms(4)] gone(1)
      by (cases r) (auto simp: handle_response_def is_subscription_notice_def plain_response_def liftS_def
          bindS_def isBatchResponse_def response_id_def isArray_def js_elems_def)
    then show ?thesis
      by (auto simp: sp_step_def onMessage_def bindS_def same_microtasks)
  qed
  moreover have "item_promise p' n = Some (Resolve r)"
    using lc(1) live_item(4) [OF inv lc(1,2)] by (simp add: item_promise_def items df_settle_promise)
  moreover have "item_promise p' m = item_promise p m" if "m \<noteq> n" for m
    using that by (simp add: item_promise_def items)
  ultimately show ?thesis using gone by (simp add: p'_def [symmetric] queue_item_def)
qed

theorem response_settles_request_witness:
  "item_promise (sp_step (foldl sp_step sample_provider sample_run)
     (sample_env, EvMessage False [sample_answer 7])) 0 = Some (Resolve (sample_answer 7))"
  using response_settles_request [OF sample_new refl, of sample_run "sample_answer 7" 0]
    sample_facts sample_plain by (simp add: Let_def)

text \<open>
  C5: Admission is atomic: a request that is refused changes neither queue and adds no item. One that is
  accepted had only free ids and room for all of them, and takes all of them in one queue or, when it
  could not be written, is rejected and takes none.
\<close>

theorem admission_atomic:
  assumes "new_provider env path options ar k hook seed = Inr p0" and "p = foldl sp_step p0 es"
    and "request env' req ro p = (res, p')"
  shows "case res of
      Inl e \<Rightarrow> sp_pending p' = sp_pending p \<and> sp_sent p' = sp_sent p \<and> sp_items p' = sp_items p
    | Inr n \<Rightarrow> \<exists>ids. extractRequestIds req = Inr ids \<and> (\<forall>i \<in> set ids. queue_item i p = None) \<and>
        inFlightCount p + length ids \<le> maxInFlightRequests (sp_bounds p) \<and> admitted req ids n p p'"
proof -
  have "sp_inv p" using run_ok assms by simp
  from request_effect [OF this assms(3)] show ?thesis
    by (auto simp: same_requests_def queue_item_def split: sum.splits)
qed

theorem admission_atomic_witness:
  "fst (request sample_env (JArr [sample_call 1, sample_call 2]) no_options
      (foldl sp_step sample_provider sample_run)) = Inl (err_class ''RequestQueueFullError'' []) \<and>
   sp_sent (snd (request sample_env (JArr [sample_call 1, sample_call 2]) no_options
      (foldl sp_step sample_provider sample_run))) =
     sp_sent (foldl sp_step sample_provider sample_run)"
proof -
  let ?r = "request sample_env (JArr [sample_call 1, sample_call 2]) no_options
      (foldl sp_step sample_provider sample_run)"
  have res: "fst ?r = Inl (err_class ''RequestQueueFullError'' [])" by code_simp
  then have "?r = (Inl (err_class ''RequestQueueFullError'' []), snd ?r)" by (simp add: prod_eq_iff)
  from admission_atomic [OF sample_new refl this] res show ?thesis by simp
qed

section \<open>Opening and reconnecting\<close>

text \<open>
  When the socket opens, no request is left waiting: each one that was pending has been written, or is
  rejected because writing it failed.
\<close>

theorem open_drains_pending:
  assumes "new_provider env path options ar k hook seed = Inr p0" and "p = foldl sp_step p0 es"
    and "sp_listening p"
  shows "sp_pending (sp_step p (env', EvOpen False)) = []"
proof -
  have "sp_inv p" using run_ok assms by simp
  then have "sp_inv (eip1193_onConnect env' ((clearConnectionTimer p)\<lparr>sp_status := Connected, sp_attempts := 0\<rparr>))"
    by (rule keeps_okD [rotated]) (auto simp: eip1193_onConnect_def intro!: keeps_intros)
  then have "sp_pending (onConnect env' p) = []" unfolding onConnect_def by (rule sendPending_drains)
  with assms(3) same_microtasks [of "onConnect env' p"] show ?thesis
    by (simp add: sp_step_def same_requests_def)
qed

theorem open_drains_pending_witness:
  "sp_pending (foldl sp_step sample_provider [(sample_env, EvRequest (sample_call 7) no_options)]) =
     [(JNum (NInt 7), 0)] \<and>
   sp_pending (sp_step (foldl sp_step sample_provider [(sample_env, EvRequest (sample_call 7) no_options)])
     (sample_env, EvOpen False)) = []"
proof
  show "sp_pending (foldl sp_step sample_provider [(sample_env, EvRequest (sample_call 7) no_options)]) =
      [(JNum (NInt 7), 0)]" by code_simp
  have "sp_listening (foldl sp_step sample_provider [(sample_env, EvRequest (sample_call 7) no_options)])"
    by code_simp
  from open_drains_pending [OF sample_new refl this]
  show "sp_pending (sp_step (foldl sp_step sample_provider
      [(sample_env, EvRequest (sample_call 7) no_options)]) (sample_env, EvOpen False)) = []" .
qed

text \<open>
  The wait before the next attempt to connect is never negative, never above 72 seconds, and within a
  fifth of the exponential delay capped at a minute.
\<close>

theorem reconnect_wait_bounded:
  assumes "0 \<le> delay" and "0 \<le> random" and "random < 1"
  shows "0 \<le> reconnect_wait delay attempts random \<and> reconnect_wait delay attempts random \<le> 72000 \<and>
    \<lfloor>min (delay * 2 ^ (attempts - 1)) 60000 * (8 / 10)\<rfloor> \<le> reconnect_wait delay attempts random \<and>
    reconnect_wait delay attempts random \<le> \<lfloor>min (delay * 2 ^ (attempts - 1)) 60000 * (12 / 10)\<rfloor>"
proof -
  define c where "c = min (delay * 2 ^ (attempts - 1)) 60000"
  define x where "x = c + c * (random * (4 / 10) - 2 / 10)"
  have c: "0 \<le> c" "c \<le> 60000" using assms(1) by (simp_all add: c_def)
  have "c * (- 2 / 10) \<le> c * (random * (4 / 10) - 2 / 10)"
    "c * (random * (4 / 10) - 2 / 10) \<le> c * (2 / 10)"
    using assms c by (intro mult_left_mono; simp)+
  then have x: "c * (8 / 10) \<le> x" "x \<le> c * (12 / 10)" by (simp_all add: x_def algebra_simps)
  have "0 \<le> x" using x c by linarith
  then have w: "reconnect_wait delay attempts random = \<lfloor>x\<rfloor>"
    by (simp add: reconnect_wait_def Let_def c_def x_def)
  have "\<lfloor>x\<rfloor> \<le> 72000" using x c by (simp add: floor_le_iff)
  moreover have "\<lfloor>c * (8 / 10)\<rfloor> \<le> \<lfloor>x\<rfloor>" "\<lfloor>x\<rfloor> \<le> \<lfloor>c * (12 / 10)\<rfloor>" using x floor_mono by blast+
  ultimately show ?thesis using w \<open>0 \<le> x\<close> unfolding c_def [symmetric] by simp
qed

theorem reconnect_wait_bounded_witness:
  "4000 \<le> reconnect_wait 5000 1 (1 / 2) \<and> reconnect_wait 5000 1 (1 / 2) \<le> 6000"
  using reconnect_wait_bounded [of 5000 "1 / 2" 1] by simp

end
