(* ===== verification/AccUtils.thy ===== *)
theory AccUtils
  imports Converters
begin

text \<open>
  \<^verbatim>\<open>web3-qrl-accounts/src/common/utils.ts\<close>: the conversions between bytes, integers and texts the
  transactions are made of, and the parameters of a chain read from a genesis file.
\<close>

definition js_Error :: "string \<Rightarrow> js_error" where
  "js_Error m = err_class ''Error'' m"

definition TypeError :: "string \<Rightarrow> js_error" where
  "TypeError m = err_class ''TypeError'' m"

section \<open>Texts\<close>

definition stripHexPrefix :: "jsval \<Rightarrow> js_error + string" where
  "stripHexPrefix v = (case v of
      JStr s \<Rightarrow> Inr (if startsWith s ''0x'' then drop 2 s else s)
    | _ \<Rightarrow> Inl (js_Error ''[stripHexPrefix] input must be type string''))"

definition intToHex :: "jsnum \<Rightarrow> js_error + string" where
  "intToHex n = (case n of
      NInt i \<Rightarrow>
        if \<bar>i\<bar> > MAX_SAFE_INTEGER \<or> i < 0 then Inl (js_Error ''Received an invalid integer type'')
        else Inr (''0x'' @ hex_str (nat i))
    | _ \<Rightarrow> Inl (js_Error ''Received an invalid integer type''))"

definition padToEven :: "string \<Rightarrow> string" where
  "padToEven a = (if length a mod 2 \<noteq> 0 then ''0'' @ a else a)"

definition intToUint8Array :: "lib \<Rightarrow> jsnum \<Rightarrow> js_error + bytes" where
  "intToUint8Array L i =
     bindR (intToHex i) (\<lambda>hex. hexToBytes L (JStr (''0x'' @ padToEven (drop 2 hex))))"

section \<open>Bytes\<close>

definition hex_to_uint8 :: "lib \<Rightarrow> string \<Rightarrow> js_error + bytes" where
  "hex_to_uint8 L s =
     (if \<not> isHexString (JStr s) None
      then Inl (js_Error ''Cannot convert string to Uint8Array'')
      else bindR (stripHexPrefix (JStr s)) (\<lambda>t. hexToBytes L (JStr (padToEven t))))"

definition toUint8Array :: "lib \<Rightarrow> jsval \<Rightarrow> js_error + bytes" where
  "toUint8Array L v = (case v of
      JUndef \<Rightarrow> Inr []
    | JNull \<Rightarrow> Inr []
    | JBytes bs \<Rightarrow> Inr bs
    | JArr vs \<Rightarrow> Inr (map byte_of_elem vs)
    | JResult vs _ \<Rightarrow> Inr (map byte_of_elem vs)
    | JStr s \<Rightarrow> hex_to_uint8 L s
    | JNum n \<Rightarrow> bindR (util_numberToHex L v False) (hex_to_uint8 L)
    | JBig i \<Rightarrow>
        if i < 0 then Inl (js_Error ''Cannot convert negative bigint to Uint8Array'')
        else hex_to_uint8 L (''0x'' @ padToEven (hex_str (nat i)))
    | _ \<Rightarrow> Inl (js_Error ''invalid type''))"

definition uint8ArrayToBigInt :: "lib \<Rightarrow> bytes \<Rightarrow> js_error + int" where
  "uint8ArrayToBigInt L buf =
     bindR (bytesToHex L (JBytes buf)) (\<lambda>hex. if hex = ''0x'' then Inr 0 else js_BigInt (JStr hex))"

definition bigIntToUint8Array :: "lib \<Rightarrow> int \<Rightarrow> js_error + bytes" where
  "bigIntToUint8Array L num = toUint8Array L (JStr (''0x'' @ int_str 16 num))"

definition zeros :: "nat \<Rightarrow> bytes" where
  "zeros n = replicate n 0"

definition setLength :: "bytes \<Rightarrow> nat \<Rightarrow> bool \<Rightarrow> bytes" where
  "setLength msg len right =
     (if right then (if length msg < len then msg @ zeros (len - length msg) else take len msg)
      else if length msg < len then zeros (len - length msg) @ msg
      else if len = 0 then msg else drop (length msg - len) msg)"

definition setLengthLeft :: "bytes \<Rightarrow> nat \<Rightarrow> bytes" where
  "setLengthLeft msg len = setLength msg len False"

fun stripZeros :: "bytes \<Rightarrow> bytes" where
  "stripZeros [] = []"
| "stripZeros (b # bs) = (if b = 0 then stripZeros bs else b # bs)"

definition unpadUint8Array :: "bytes \<Rightarrow> bytes" where
  "unpadUint8Array a = stripZeros a"

definition bigIntToHex :: "int \<Rightarrow> string" where
  "bigIntToHex num = ''0x'' @ int_str 16 num"

definition bigIntToUnpaddedUint8Array :: "lib \<Rightarrow> int \<Rightarrow> js_error + bytes" where
  "bigIntToUnpaddedUint8Array L i = map_sum id unpadUint8Array (bigIntToUint8Array L i)"

datatype type_output = OutNumber | OutBigInt | OutUint8Array | OutPrefixedHexString

definition toType :: "lib \<Rightarrow> jsval \<Rightarrow> type_output \<Rightarrow> js_error + jsval" where
  "toType L input ot =
     (if isNullish input then Inr input
      else if (case input of JStr s \<Rightarrow> \<not> isHexString input None | _ \<Rightarrow> False)
      then Inl (js_Error ''A string must be provided with a 0x-prefix'')
      else if (case input of JNum (NInt i) \<Rightarrow> \<bar>i\<bar> > MAX_SAFE_INTEGER | JNum _ \<Rightarrow> True | _ \<Rightarrow> False)
      then Inl (js_Error ''The provided number is greater than MAX_SAFE_INTEGER'')
      else bindR (toUint8Array L input) (\<lambda>out. case ot of
          OutUint8Array \<Rightarrow> Inr (JBytes out)
        | OutBigInt \<Rightarrow> map_sum id JBig (uint8ArrayToBigInt L out)
        | OutNumber \<Rightarrow> bindR (uint8ArrayToBigInt L out) (\<lambda>b.
            if b > MAX_SAFE_INTEGER
            then Inl (js_Error ''The provided number is greater than MAX_SAFE_INTEGER'')
            else Inr (JNum (NInt b)))
        | OutPrefixedHexString \<Rightarrow> map_sum id JStr (bytesToHex L (JBytes out))))"

section \<open>Genesis files\<close>

text \<open>\<^verbatim>\<open>parseInt(s)\<close> without a radix: a sign, a prefix \<^verbatim>\<open>0x\<close>, and the longest run of digits.\<close>

definition js_parseInt :: "jsval \<Rightarrow> jsnum" where
  "js_parseInt v = (case v of
      JNum (NInt i) \<Rightarrow> NInt i
    | JStr s \<Rightarrow>
        (let t = trimStart s; neg = startsWith t ''-'';
             u = (if neg \<or> startsWith t ''+'' then tl t else t);
             hex = startsWith (toLowerCase u) ''0x'';
             ds = (if hex then takeWhile is_hex_char (drop 2 u) else takeWhile is_dec_char u);
             n = int (digits_val (if hex then 16 else 10) ds) in
         if ds = [] then NNaN else NInt (if neg then - n else n))
    | _ \<Rightarrow> NNaN)"

record hardfork_config =
  hf_name :: string
  hf_block :: "int option option"
  hf_timestamp :: "int option"
  hf_forkHash :: "string option"

definition zond_fork :: hardfork_config where
  "zond_fork = \<lparr>hf_name = ''zond'', hf_block = Some (Some 0), hf_timestamp = None, hf_forkHash = None\<rparr>"

record gqrl_params =
  gp_name :: jsval
  gp_chainId :: jsval
  gp_networkId :: jsval
  gp_timestamp :: jsval
  gp_gasLimit :: jsval
  gp_extraData :: jsval
  gp_mixHash :: jsval
  gp_coinbase :: jsval
  gp_baseFeePerGas :: jsval
  gp_hardfork :: "string option"
  gp_hardforks :: "hardfork_config list"

text \<open>
  No field of a genesis file names a hardfork yet (\<^verbatim>\<open>forkMap\<close> is empty), so the hardforks are the first
  one; a field named like a property every object inherits is taken for one and fails.
\<close>

definition parseGqrlParams :: "jsval \<Rightarrow> js_error + gqrl_params" where
  "parseGqrlParams json =
     (let config = (case js_prop json ''config'' of JObj kvs \<Rightarrow> kvs | _ \<Rightarrow> []) in
      if isNullish (js_prop json ''config'')
      then Inl (TypeError ''Cannot destructure property chainId'')
      else
        (let ed = js_prop json ''extraData''; ts = js_prop json ''timestamp'' in
         bindR (isHexPrefixed ts) (\<lambda>prefixed.
         bindR (if prefixed then Inr ts else map_sum id JStr (intToHex (js_parseInt ts))) (\<lambda>timestamp.
         if \<exists>(k, v) \<in> set config. k \<in> set objectProtoNames \<and> \<not> isNullish v
         then Inl (TypeError ''Cannot read properties of undefined'')
         else Inr \<lparr>gp_name = js_prop json ''name'', gp_chainId = obj_get config ''chainId'',
           gp_networkId = obj_get config ''chainId'', gp_timestamp = timestamp,
           gp_gasLimit = JNum (js_parseInt (js_prop json ''gasLimit'')),
           gp_extraData = (if ed = JStr [] then JStr ''0x'' else ed),
           gp_mixHash = js_prop json ''mixHash'', gp_coinbase = js_prop json ''coinbase'',
           gp_baseFeePerGas = js_prop json ''baseFeePerGas'', gp_hardfork = None,
           gp_hardforks = [zond_fork]\<rparr>))))"

definition genesis_error :: "js_error \<Rightarrow> js_error" where
  "genesis_error e = js_Error (''Error parsing parameters file: '' @ emsg e)"

definition parseGqrlGenesis :: "jsval \<Rightarrow> string option \<Rightarrow> js_error + gqrl_params" where
  "parseGqrlGenesis json name = (case json of
      JObj kvs \<Rightarrow>
        if \<exists>f \<in> {''config'', ''gasLimit'', ''alloc''}. f \<notin> set (map fst kvs)
        then Inl (genesis_error (js_Error ''Invalid format, expected gqrl genesis fields missing''))
        else (case parseGqrlParams (case name of None \<Rightarrow> json
                | Some n \<Rightarrow> JObj (AList.update ''name'' (JStr n) kvs)) of
            Inl e \<Rightarrow> Inl (genesis_error e) | Inr p \<Rightarrow> Inr p)
    | _ \<Rightarrow> Inl (genesis_error
        (if typeof json = TFunction \<or> typeof json = TObject \<and> json \<noteq> JNull
         then js_Error ''Invalid format, expected gqrl genesis fields missing''
         else TypeError ''Cannot use in operator'')))"

section \<open>What the conversions compute\<close>

lemma bytes_no_size: "truthy_size (baseTypeSize (parseBaseType ''bytes'')) = None"
  by code_simp

lemma bytesToHex_bytes [simp]:
  "zod_ok L \<Longrightarrow> bytesToHex L (JBytes bs) = Inr (''0x'' @ hex_of_bytes bs)"
  by (simp add: bytesToHex_def bytesToUint8Array_def validate1_bytes isBytes_def bytes_size_ok_def
      uint8ArrayToHexString_eq bytes_no_size)

lemma uint8ArrayToBigInt_val [simp]: "zod_ok L \<Longrightarrow> uint8ArrayToBigInt L bs = Inr (int (be_nat bs))"
proof -
  assume L: "zod_ok L"
  have "lower_char (CHR ''x'') = CHR ''x''" by simp
  from js_BigInt_str_hex [OF this hex_of_bytes_hex, of bs]
  have "js_BigInt_str (''0x'' @ hex_of_bytes bs) =
      (if hex_of_bytes bs = [] then None else Some (int (be_nat bs)))" by simp
  moreover have "hex_of_bytes bs = [] \<longleftrightarrow> bs = []"
    by (metis length_0_conv length_hex_of_bytes mult_eq_0_iff zero_neq_numeral)
  ultimately show ?thesis
    using L by (simp add: uint8ArrayToBigInt_def js_BigInt_def)
qed

lemma hexToBytes_plain:
  assumes "zod_ok L" "list_all is_hex_char h" "even (length h)"
  shows "hexToBytes L (JStr h) = Inr (bytes_of_hex h)"
proof -
  have "toLowerCase (take 2 h) \<noteq> ''0x''"
  proof
    assume eq: "toLowerCase (take 2 h) = ''0x''"
    have "list_all is_hex_char (take 2 h)"
      using assms(2) by (metis append_take_drop_id list_all_append)
    then have "list_all is_hex_char ''0x''" using toLowerCase_hex eq by metis
    then show False by code_simp
  qed
  moreover have "validate1 L ''bytes'' (JStr (''0x'' @ h)) = Inr ()"
    using assms by (simp add: validate1_bytes isBytes_text)
  ultimately show ?thesis
    using assms(2,3) hexToUint8Array_0x [of h]
    by (simp add: hexToBytes_def bytesToUint8Array_def)
qed

lemma even_hex:
  assumes "zod_ok L" "list_all is_hex_char h"
  shows "hex_to_uint8 L (''0x'' @ h) = Inr (bytes_of_hex (padToEven h))"
proof -
  have "list_all is_hex_char (padToEven h)" "even (length (padToEven h))"
    using assms(2) by (auto simp: padToEven_def is_digit_of_def)
  then show ?thesis
    using assms by (simp add: hex_to_uint8_def isHexString_def stripHexPrefix_def hexToBytes_plain startsWith_def)
qed

lemma digits_val_padToEven [simp]: "digits_val b (padToEven h) = digits_val b h"
  using digits_val_append [of b "''0''" h] radix_val_snoc [of b "[]" 0]
  by (simp add: padToEven_def digits_val_def)

lemma bigIntToUint8Array_val:
  assumes "zod_ok L"
  shows "\<exists>bs. bigIntToUint8Array L (int n) = Inr bs \<and> be_nat bs = n"
proof -
  have h: "list_all is_hex_char (hex_str n)" by (rule hex_str_hex)
  then have "list_all is_hex_char (padToEven (hex_str n))" "even (length (padToEven (hex_str n)))"
    by (auto simp: padToEven_def is_digit_of_def)
  then have "be_nat (bytes_of_hex (padToEven (hex_str n))) = n"
    by (simp add: be_nat_bytes_of_hex)
  with even_hex [OF assms h] show ?thesis
    by (simp add: bigIntToUint8Array_def toUint8Array_def int_str_def)
qed

lemma be_nat_Cons: "be_nat (b # bs) = unat b * 256 ^ length bs + be_nat bs"
  using be_nat_append [of "[b]" bs] be_nat_snoc [of "[]" b] by simp

lemma be_nat_stripZeros [simp]: "be_nat (stripZeros bs) = be_nat bs"
  by (induction bs) (auto simp: be_nat_Cons)

lemma stripZeros_head: "stripZeros bs \<noteq> [] \<Longrightarrow> hd (stripZeros bs) \<noteq> 0"
  by (induction bs) auto

lemma unpadded:
  assumes "zod_ok L" "0 \<le> i"
  obtains bs where "bigIntToUnpaddedUint8Array L i = Inr bs" "int (be_nat bs) = i"
    "bs = [] \<or> hd bs \<noteq> 0"
proof -
  obtain bs where "bigIntToUint8Array L (int (nat i)) = Inr bs" "be_nat bs = nat i"
    using bigIntToUint8Array_val [OF assms(1)] by blast
  with assms(2) stripZeros_head [of bs] that [of "stripZeros bs"] show ?thesis
    by (auto simp: bigIntToUnpaddedUint8Array_def unpadUint8Array_def)
qed

text \<open>The minimal bytes of an integer: as many as it needs.\<close>

lemma unpadded_length:
  assumes "int (be_nat bs) < 256 ^ w" "bs = [] \<or> hd bs \<noteq> 0"
  shows "length bs \<le> w"
proof (cases bs)
  case (Cons b bs')
  then have "1 \<le> unat b" using assms(2) by (simp add: unat_eq_zero Suc_le_eq unat_gt_0)
  then have "256 ^ length bs' \<le> be_nat bs"
    using Cons by (simp add: be_nat_Cons trans_le_add1)
  moreover have "be_nat bs < 256 ^ w"
    using assms(1) by (metis of_nat_less_iff of_nat_numeral of_nat_power)
  ultimately have "(256 :: nat) ^ length bs' < 256 ^ w" by (rule order.strict_trans1)
  then have "length bs' < w" by simp
  with Cons show ?thesis by simp
qed simp

end
