(* ===== verification/Common.thy ===== *)
theory Common
  imports AccUtils
begin

text \<open>
  \<^verbatim>\<open>web3-qrl-accounts/src/common/common.ts\<close> with the tables it reads: the parameters of a chain and of
  its hardforks, and the hardfork that is set. Chains and hardforks are plain dictionaries in the
  source, so the fields of a chain are optional here.
\<close>

section \<open>Tables\<close>

text \<open>\<^verbatim>\<open>hardforks/zond.ts\<close>: the values of the parameters by topic.\<close>

definition zond_gasConfig :: "(string \<times> jsval) list" where
  "zond_gasConfig =
     [(''minGasLimit'', JNum (NInt 5000)), (''gasLimitBoundDivisor'', JNum (NInt 1024)),
      (''maxRefundQuotient'', JNum (NInt 5)), (''baseFeeMaxChangeDenominator'', JNum (NInt 8)),
      (''elasticityMultiplier'', JNum (NInt 2)), (''initialBaseFee'', JNum (NInt 1000000000))]"

definition zond_gasPrices_1 :: "(string \<times> jsval) list" where
  "zond_gasPrices_1 =
     [(''base'', JNum (NInt 2)),
      (''tierStep'', JArr (map (\<lambda>i. JNum (NInt i)) [0, 2, 3, 5, 8, 10, 20])),
      (''exp'', JNum (NInt 10)), (''expByte'', JNum (NInt 50)), (''sha3'', JNum (NInt 30)),
      (''sha3Word'', JNum (NInt 6)), (''sload'', JNum (NInt 0)),
      (''sstoreSet'', JNum (NInt 20000)), (''sstoreReset'', JNum (NInt 5000)),
      (''sstoreRefund'', JNum (NInt 15000)), (''jumpdest'', JNum (NInt 1)),
      (''log'', JNum (NInt 375)), (''logData'', JNum (NInt 8)), (''logTopic'', JNum (NInt 375)),
      (''create'', JNum (NInt 32000)), (''call'', JNum (NInt 0)),
      (''callStipend'', JNum (NInt 2300)), (''callValueTransfer'', JNum (NInt 9000)),
      (''callNewAccount'', JNum (NInt 25000)), (''memory'', JNum (NInt 3)),
      (''quadCoeffDiv'', JNum (NInt 512)), (''createData'', JNum (NInt 200)),
      (''tx'', JNum (NInt 21000)), (''txCreation'', JNum (NInt 32000)),
      (''txDataZero'', JNum (NInt 4)), (''txDataNonZero'', JNum (NInt 16)),
      (''copy'', JNum (NInt 3)), (''depositroot'', JNum (NInt 19992)),
      (''sha256'', JNum (NInt 60)), (''sha256Word'', JNum (NInt 12)),
      (''identity'', JNum (NInt 15)), (''identityWord'', JNum (NInt 3)), (''stop'', JNum (NInt 0)),
      (''add'', JNum (NInt 3)), (''mul'', JNum (NInt 5)), (''sub'', JNum (NInt 3))]"

definition zond_gasPrices_2 :: "(string \<times> jsval) list" where
  "zond_gasPrices_2 =
     [(''div'', JNum (NInt 5)), (''sdiv'', JNum (NInt 5)), (''mod'', JNum (NInt 5)),
      (''smod'', JNum (NInt 5)), (''addmod'', JNum (NInt 8)), (''mulmod'', JNum (NInt 8)),
      (''signextend'', JNum (NInt 5)), (''lt'', JNum (NInt 3)), (''gt'', JNum (NInt 3)),
      (''slt'', JNum (NInt 3)), (''sgt'', JNum (NInt 3)), (''eq'', JNum (NInt 3)),
      (''iszero'', JNum (NInt 3)), (''and'', JNum (NInt 3)), (''or'', JNum (NInt 3)),
      (''xor'', JNum (NInt 3)), (''not'', JNum (NInt 3)), (''byte'', JNum (NInt 3)),
      (''address'', JNum (NInt 2)), (''balance'', JNum (NInt 0)), (''origin'', JNum (NInt 2)),
      (''caller'', JNum (NInt 2)), (''callvalue'', JNum (NInt 2)),
      (''calldataload'', JNum (NInt 3)), (''calldatasize'', JNum (NInt 2)),
      (''calldatacopy'', JNum (NInt 3)), (''codesize'', JNum (NInt 2)),
      (''codecopy'', JNum (NInt 3)), (''gasprice'', JNum (NInt 2)),
      (''extcodesize'', JNum (NInt 0)), (''extcodecopy'', JNum (NInt 0)),
      (''blockhash'', JNum (NInt 20)), (''coinbase'', JNum (NInt 2)),
      (''timestamp'', JNum (NInt 2)), (''number'', JNum (NInt 2)), (''prevrandao'', JNum (NInt 2))]"

definition zond_gasPrices_3 :: "(string \<times> jsval) list" where
  "zond_gasPrices_3 =
     [(''gaslimit'', JNum (NInt 2)), (''pop'', JNum (NInt 2)), (''mload'', JNum (NInt 3)),
      (''mstore'', JNum (NInt 3)), (''mstore8'', JNum (NInt 3)), (''sstore'', JNum (NInt 0)),
      (''jump'', JNum (NInt 8)), (''jumpi'', JNum (NInt 10)), (''pc'', JNum (NInt 2)),
      (''msize'', JNum (NInt 2)), (''gas'', JNum (NInt 2)), (''push'', JNum (NInt 3)),
      (''dup'', JNum (NInt 3)), (''swap'', JNum (NInt 3)), (''return'', JNum (NInt 0)),
      (''invalid'', JNum (NInt 0)), (''delegatecall'', JNum (NInt 0)),
      (''modexpGquaddivisor'', JNum (NInt 3)), (''ecAdd'', JNum (NInt 150)),
      (''ecMul'', JNum (NInt 6000)), (''ecPairing'', JNum (NInt 45000)),
      (''ecPairingWord'', JNum (NInt 34000)), (''revert'', JNum (NInt 0)),
      (''staticcall'', JNum (NInt 0)), (''returndatasize'', JNum (NInt 2)),
      (''returndatacopy'', JNum (NInt 3)), (''shl'', JNum (NInt 3)), (''shr'', JNum (NInt 3)),
      (''sar'', JNum (NInt 3)), (''extcodehash'', JNum (NInt 0)), (''create2'', JNum (NInt 32000)),
      (''sstoreSentryGasEIP2200'', JNum (NInt 2300)), (''sstoreNoopGasEIP2200'', JNum (NInt 100)),
      (''sstoreDirtyGasEIP2200'', JNum (NInt 100)), (''sstoreInitGasEIP2200'', JNum (NInt 20000)),
      (''sstoreInitRefundEIP2200'', JNum (NInt 19900))]"

definition zond_gasPrices_4 :: "(string \<times> jsval) list" where
  "zond_gasPrices_4 =
     [(''sstoreCleanGasEIP2200'', JNum (NInt 2900)),
      (''sstoreCleanRefundEIP2200'', JNum (NInt 4900)),
      (''sstoreClearRefundEIP2200'', JNum (NInt 4800)), (''chainid'', JNum (NInt 2)),
      (''selfbalance'', JNum (NInt 5)), (''coldsload'', JNum (NInt 2100)),
      (''coldaccountaccess'', JNum (NInt 2600)), (''warmstorageread'', JNum (NInt 100)),
      (''accessListStorageKeyCost'', JNum (NInt 1900)),
      (''accessListAddressCost'', JNum (NInt 2400)), (''basefee'', JNum (NInt 2)),
      (''push0'', JNum (NInt 2)), (''initCodeWordCost'', JNum (NInt 2))]"

definition zond_vm :: "(string \<times> jsval) list" where
  "zond_vm =
     [(''stackLimit'', JNum (NInt 1024)), (''callCreateDepth'', JNum (NInt 1024)),
      (''maxExtraDataSize'', JNum (NInt 32)), (''maxCodeSize'', JNum (NInt 24576)),
      (''maxInitCodeSize'', JNum (NInt 49152))]"

definition zond_gasPrices :: "(string \<times> jsval) list" where
  "zond_gasPrices = zond_gasPrices_1 @ zond_gasPrices_2 @ zond_gasPrices_3 @ zond_gasPrices_4"

record consensus_config =
  co_type :: string
  co_algorithm :: string
  co_configs :: "(string \<times> jsval) list"

record hf_spec =
  hs_name :: string
  hs_qips :: "nat list option"
  hs_topics :: "(string \<times> (string \<times> jsval) list) list"
  hs_consensus :: "consensus_config option"

record qip_spec =
  qs_minimumHardfork :: string
  qs_requiredQIPs :: "nat list option"
  qs_topics :: "(string \<times> (string \<times> jsval) list) list"

text \<open>The texts of a specification (\<^verbatim>\<open>name\<close>, \<^verbatim>\<open>url\<close>, ...) have no parameters.\<close>

definition zond_spec :: hf_spec where
  "zond_spec = \<lparr>hs_name = ''zond'', hs_qips = None,
     hs_topics = [(''gasConfig'', zond_gasConfig), (''gasPrices'', zond_gasPrices), (''vm'', zond_vm),
       (''name'', []), (''comment'', []), (''url'', []), (''status'', [])],
     hs_consensus = None\<rparr>"

text \<open>The dictionary of specifications; a name every object inherits finds one without parameters.\<close>

definition HARDFORK_SPECS :: "string \<Rightarrow> hf_spec option" where
  "HARDFORK_SPECS n =
     (if n = ''zond'' then Some zond_spec
      else if n \<in> set objectProtoNames
      then Some \<lparr>hs_name = n, hs_qips = None, hs_topics = [], hs_consensus = None\<rparr>
      else None)"

definition QIPs :: "nat \<Rightarrow> qip_spec option" where
  "QIPs n = None"

record chain_config =
  ch_name :: "string option"
  ch_chainId :: "int option"
  ch_networkId :: "int option"
  ch_defaultHardfork :: "string option"
  ch_genesis :: "jsval option"
  ch_hardforks :: "hardfork_config list option"
  ch_bootstrapNodes :: "jsval option"
  ch_dnsNetworks :: "jsval option"
  ch_consensus :: "consensus_config option"

definition mainnet :: chain_config where
  "mainnet =
     \<lparr>ch_name = Some ''mainnet'', ch_chainId = Some 1, ch_networkId = Some 1,
      ch_defaultHardfork = Some ''zond'',
      ch_genesis = Some (JObj [(''gasLimit'', JNum (NInt 5000)),
        (''extraData'', JStr ''0x11bbe8db4e347b4e8c937c1c8370e4b5ed33adb3db69cbdb7a38e1e50b1b82fa'')]),
      ch_hardforks = Some [zond_fork], ch_bootstrapNodes = Some (JArr []),
      ch_dnsNetworks = Some (JArr [JStr
        ''qnrtree://AKA3AM6LPBYEUDMVNU3BSVQJ5AD45Y7YPOHJLEF6W26QOE4VTUDPE@all.mainnet.ethdisco.net'']),
      ch_consensus = Some \<lparr>co_type = ''pos'', co_algorithm = ''casper'',
        co_configs = [(''casper'', JObj [])]\<rparr>\<rparr>"

section \<open>Chains\<close>

datatype chain_id = ChainNum int | ChainName string

text \<open>The names by id and the chains by name; custom chains come after, and over, the known ones.\<close>

definition chain_key :: "chain_config \<Rightarrow> string" where
  "chain_key ch = (case ch_name ch of Some n \<Rightarrow> n | None \<Rightarrow> ''undefined'')"

definition getInitializedChains ::
  "chain_config list \<Rightarrow> js_error + (string \<times> string) list \<times> (string \<times> chain_config) list" where
  "getInitializedChains customChains =
     (if \<exists>ch \<in> set customChains. ch_chainId ch = None
      then Inl (TypeError ''Cannot read properties of undefined'')
      else Inr
        (fold (\<lambda>ch. AList.update (int_str 10 (the (ch_chainId ch))) (chain_key ch)) customChains
           [(''1'', ''mainnet''), (''Mainnet'', ''1'')],
         fold (\<lambda>ch. AList.update (chain_key ch) ch) customChains [(''mainnet'', mainnet)]))"

text \<open>What the dictionary has under \<^verbatim>\<open>names\<close>, or inherits, is no chain and fails when it is used as one.\<close>

definition getChainParams :: "chain_id \<Rightarrow> chain_config list \<Rightarrow> js_error + chain_config" where
  "getChainParams chain customChains =
     bindR (getInitializedChains customChains) (\<lambda>(names, chains).
       let found = (\<lambda>n e. if n = ''names'' \<or> n \<in> set objectProtoNames \<and> map_of chains n = None
                      then Inl (TypeError ''no chain'')
                      else case map_of chains n of Some ch \<Rightarrow> Inr ch | None \<Rightarrow> Inl e) in
       case chain of
         ChainNum i \<Rightarrow>
           (case map_of names (int_str 10 i) of
              Some n \<Rightarrow> if n \<noteq> [] then found n (TypeError ''no chain'')
                else Inl (js_Error ''Chain with ID not supported'')
            | None \<Rightarrow> Inl (js_Error ''Chain with ID not supported''))
       | ChainName n \<Rightarrow> found n (js_Error ''Chain with name not supported''))"

definition isSupportedChainId :: "int \<Rightarrow> bool" where
  "isSupportedChainId i = (int_str 10 i = ''1'')"

section \<open>State\<close>

text \<open>\<^verbatim>\<open>cm_emitted\<close> lists the hardforks announced to the listeners of \<^verbatim>\<open>hardforkChanged\<close>.\<close>

record common =
  cm_DEFAULT_HARDFORK :: string
  cm_chainParams :: chain_config
  cm_hardfork :: string
  cm_qips :: "nat list"
  cm_customChains :: "chain_config list"
  cm_CHANGES :: "(string \<times> hf_spec option) list"
  cm_emitted :: "string list"

datatype chain_input = ById chain_id | ByConfig chain_config

definition chain_hardforks :: "chain_config \<Rightarrow> js_error + hardfork_config list" where
  "chain_hardforks ch = (case ch_hardforks ch of
      Some hfs \<Rightarrow> Inr hfs | None \<Rightarrow> Inl (TypeError ''hardforks is not iterable''))"

definition hardforks :: "common \<Rightarrow> js_error + hardfork_config list" where
  "hardforks c = chain_hardforks (cm_chainParams c)"

definition setChain :: "chain_input \<Rightarrow> chain_config list \<Rightarrow> js_error + chain_config" where
  "setChain chain customChains =
     bindR (case chain of
         ById i \<Rightarrow> getChainParams i customChains
       | ByConfig ch \<Rightarrow>
           if customChains \<noteq> []
           then Inl (js_Error ''Chain must be a string, number, or bigint when initialized with customChains passed in'')
           else if ch_networkId ch = None \<or> ch_genesis ch = None \<or> ch_hardforks ch = None \<or>
             ch_bootstrapNodes ch = None
           then Inl (js_Error ''Missing required chain parameter'')
           else Inr ch) (\<lambda>ch.
     bindR (chain_hardforks ch) (\<lambda>hfs.
       if \<exists>hf \<in> set hfs. hf_block hf = None
       then Inl (js_Error ''Hardfork cannot have undefined block number'') else Inr ch))"

definition setHardfork :: "string \<Rightarrow> common \<Rightarrow> js_error + common" where
  "setHardfork hf c =
     (if hf \<in> set (map fst (cm_CHANGES c)) then
        Inr (if cm_hardfork c \<noteq> hf
             then c\<lparr>cm_hardfork := hf, cm_emitted := cm_emitted c @ [hf]\<rparr> else c)
      else Inl (js_Error (''Hardfork with name '' @ hf @ '' not supported'')))"

section \<open>Queries on hardforks\<close>

fun last_position :: "string \<Rightarrow> nat \<Rightarrow> hardfork_config list \<Rightarrow> int \<Rightarrow> int" where
  "last_position n i [] p = p"
| "last_position n i (hf # hfs) p =
     last_position n (i + 1) hfs (if hf_name hf = n then int i else p)"

definition hardforkGteHardfork :: "string option \<Rightarrow> string \<Rightarrow> common \<Rightarrow> js_error + bool" where
  "hardforkGteHardfork h1 hardfork2 c =
     (let hardfork1 = (case h1 of Some h \<Rightarrow> h | None \<Rightarrow> cm_hardfork c) in
      bindR (hardforks c) (\<lambda>hfs.
        let posHf1 = last_position hardfork1 0 hfs (- 1);
            posHf2 = last_position hardfork2 0 hfs (- 1) in
        Inr (posHf1 \<ge> posHf2 \<and> posHf2 \<noteq> - 1)))"

definition gteHardfork :: "string \<Rightarrow> common \<Rightarrow> js_error + bool" where
  "gteHardfork h c = hardforkGteHardfork None h c"

definition getHardfork :: "string \<Rightarrow> common \<Rightarrow> js_error + hardfork_config option" where
  "getHardfork h c = map_sum id (find (\<lambda>hf. hf_name hf = h)) (hardforks c)"

definition or_set :: "string option \<Rightarrow> common \<Rightarrow> string" where
  "or_set h c = (case h of Some n \<Rightarrow> n | None \<Rightarrow> cm_hardfork c)"

definition block_num :: "hardfork_config \<Rightarrow> int option" where
  "block_num hf = (case hf_block hf of Some (Some b) \<Rightarrow> Some b | _ \<Rightarrow> None)"

definition hardforkBlock :: "string option \<Rightarrow> common \<Rightarrow> js_error + int option" where
  "hardforkBlock h c =
     map_sum id (\<lambda>r. case r of Some hf \<Rightarrow> block_num hf | None \<Rightarrow> None) (getHardfork (or_set h c) c)"

definition hardforkTimestamp :: "string option \<Rightarrow> common \<Rightarrow> js_error + int option" where
  "hardforkTimestamp h c =
     map_sum id (\<lambda>r. case r of Some hf \<Rightarrow> hf_timestamp hf | None \<Rightarrow> None) (getHardfork (or_set h c) c)"

definition as_int :: "jsval \<Rightarrow> int option" where
  "as_int v = (case v of JBig i \<Rightarrow> Some i | JNum (NInt i) \<Rightarrow> Some i | JNull \<Rightarrow> Some 0 | _ \<Rightarrow> None)"

definition hardforkIsActiveOnBlock ::
  "lib \<Rightarrow> string option \<Rightarrow> jsval \<Rightarrow> common \<Rightarrow> js_error + bool" where
  "hardforkIsActiveOnBlock L h blockNumber c =
     bindR (toType L blockNumber OutBigInt) (\<lambda>b.
     bindR (hardforkBlock (Some (or_set h c)) c) (\<lambda>hfBlock.
       Inr (case (hfBlock, as_int b) of (Some hb, Some n) \<Rightarrow> hb \<noteq> 0 \<and> n \<ge> hb | _ \<Rightarrow> False)))"

definition activeOnBlock :: "lib \<Rightarrow> jsval \<Rightarrow> common \<Rightarrow> js_error + bool" where
  "activeOnBlock L blockNumber c = hardforkIsActiveOnBlock L None blockNumber c"

section \<open>The hardfork of a block\<close>

fun findIndex :: "('a \<Rightarrow> bool) \<Rightarrow> 'a list \<Rightarrow> nat option" where
  "findIndex P [] = None"
| "findIndex P (x # xs) = (if P x then Some 0 else map_option Suc (findIndex P xs))"

definition scheduled :: "hardfork_config \<Rightarrow> bool" where
  "scheduled hf = (hf_block hf \<noteq> Some None \<or> hf_timestamp hf \<noteq> None)"

definition later_than :: "int option \<Rightarrow> int option \<Rightarrow> hardfork_config \<Rightarrow> bool" where
  "later_than bn ts hf =
     ((case (block_num hf, bn) of (Some b, Some n) \<Rightarrow> b > n | _ \<Rightarrow> False) \<or>
      (case (hf_timestamp hf, ts) of (Some h, Some t) \<Rightarrow> h > t | _ \<Rightarrow> False))"

text \<open>The last of the hardforks scheduled together with the one at an index.\<close>

function last_together :: "hardfork_config list \<Rightarrow> nat \<Rightarrow> nat" where
  "last_together hfs i =
     (if Suc i < length hfs \<and> hf_block (hfs ! i) = hf_block (hfs ! Suc i) \<and>
         hf_timestamp (hfs ! i) = hf_timestamp (hfs ! Suc i)
      then last_together hfs (Suc i) else i)"
  by pat_completeness auto
termination by (relation "measure (\<lambda>(hfs, i). length hfs - i)") auto

definition timestamps_agree :: "int \<Rightarrow> nat \<Rightarrow> nat \<Rightarrow> hardfork_config list \<Rightarrow> js_error + unit" where
  "timestamps_agree t start i hfs =
     (if fold (\<lambda>hf acc. max (case hf_timestamp hf of Some h \<Rightarrow> h | None \<Rightarrow> 0) acc) (take start hfs) 0 > t
      then Inl (js_Error ''Maximum HF determined by timestamp is lower than the block number HF'')
      else if fold (\<lambda>hf acc. min (case hf_timestamp hf of Some h \<Rightarrow> h | None \<Rightarrow> t) acc) (drop (i + 1) hfs) t < t
      then Inl (js_Error ''Maximum HF determined by block number is lower than timestamp HF'')
      else Inr ())"

definition select_hardfork ::
  "int option \<Rightarrow> int option \<Rightarrow> hardfork_config list \<Rightarrow> js_error + string" where
  "select_hardfork bn ts hfs =
     (case findIndex (later_than bn ts) hfs of
        Some 0 \<Rightarrow> Inl (js_Error ''Must have at least one hardfork at block 0'')
      | found \<Rightarrow>
          let hfIndex = (case found of Some i \<Rightarrow> i | None \<Rightarrow> length hfs);
              stepBack = (if ts = None then
                  (case findIndex (\<lambda>hf. hf_block hf \<noteq> Some None) (rev (take hfIndex hfs)) of
                     Some k \<Rightarrow> int k | None \<Rightarrow> - 1) else 0);
              start = int hfIndex - stepBack - 1 in
          if start < 0 \<or> start \<ge> int (length hfs)
          then Inl (TypeError ''Cannot read properties of undefined'')
          else let i = last_together hfs (nat start) in
            bindR (case ts of
                Some t \<Rightarrow> if t \<noteq> 0 then timestamps_agree t (nat start) i hfs else Inr ()
              | None \<Rightarrow> Inr ()) (\<lambda>_. Inr (hf_name (hfs ! i))))"

definition getHardforkByBlockNumber :: "lib \<Rightarrow> jsval \<Rightarrow> jsval \<Rightarrow> common \<Rightarrow> js_error + string" where
  "getHardforkByBlockNumber L blockNumber timestamp c =
     bindR (toType L blockNumber OutBigInt) (\<lambda>bn.
     bindR (toType L timestamp OutNumber) (\<lambda>ts.
     bindR (hardforks c) (\<lambda>hfs.
       select_hardfork (as_int bn) (as_int ts) (filter scheduled hfs))))"

definition setHardforkByBlockNumber ::
  "lib \<Rightarrow> jsval \<Rightarrow> jsval \<Rightarrow> common \<Rightarrow> js_error + string \<times> common" where
  "setHardforkByBlockNumber L blockNumber timestamp c =
     bindR (getHardforkByBlockNumber L blockNumber timestamp c) (\<lambda>h.
     map_sum id (Pair h) (setHardfork h c))"

text \<open>A timestamp wins over a block.\<close>

definition time_or_block :: "hardfork_config \<Rightarrow> int option" where
  "time_or_block hf = (case hf_timestamp hf of Some t \<Rightarrow> Some t | None \<Rightarrow> block_num hf)"

definition nextHardforkBlockOrTimestamp :: "string option \<Rightarrow> common \<Rightarrow> js_error + int option" where
  "nextHardforkBlockOrTimestamp h c =
     bindR (hardforks c) (\<lambda>hfs.
       Inr (case findIndex (\<lambda>hf. hf_name hf = or_set h c) hfs of
           None \<Rightarrow> None
         | Some i \<Rightarrow>
             (case find (\<lambda>hf. time_or_block hf \<noteq> None \<and> time_or_block hf \<noteq> time_or_block (hfs ! i))
                     (drop (i + 1) hfs) of
                Some hf \<Rightarrow> time_or_block hf | None \<Rightarrow> None)))"

section \<open>Parameters\<close>

definition paramByQIP :: "string \<Rightarrow> string \<Rightarrow> nat \<Rightarrow> js_error + int option" where
  "paramByQIP topic name qip = (case QIPs qip of
      None \<Rightarrow> Inl (js_Error ''QIP not supported'')
    | Some q \<Rightarrow>
        (case map_of (qs_topics q) topic of
           None \<Rightarrow> Inl (js_Error (''Topic '' @ topic @ '' not defined''))
         | Some ps \<Rightarrow>
             (case map_of ps name of
                None \<Rightarrow> Inr None | Some v \<Rightarrow> map_sum id Some (js_BigInt v))))"

fun param_of_qips :: "string \<Rightarrow> string \<Rightarrow> nat list \<Rightarrow> jsval \<Rightarrow> js_error + jsval" where
  "param_of_qips topic name [] v = Inr v"
| "param_of_qips topic name (q # qs) v =
     bindR (paramByQIP topic name q) (\<lambda>r.
       param_of_qips topic name qs (case r of Some i \<Rightarrow> JBig i | None \<Rightarrow> v))"

definition param_of_spec :: "string \<Rightarrow> string \<Rightarrow> hf_spec option \<Rightarrow> jsval \<Rightarrow> js_error + jsval" where
  "param_of_spec topic name spec v = (case spec of
      None \<Rightarrow> Inl (TypeError ''Cannot use in operator to search for qips in undefined'')
    | Some s \<Rightarrow>
        (case hs_qips s of
           Some qs \<Rightarrow> param_of_qips topic name qs v
         | None \<Rightarrow>
             (case map_of (hs_topics s) topic of
                None \<Rightarrow> Inl (js_Error (''Topic '' @ topic @ '' not defined''))
              | Some ps \<Rightarrow>
                  (case map_of ps name of
                     Some w \<Rightarrow> Inr w
                   | None \<Rightarrow> Inr (if name \<in> set objectProtoNames then JUndef else v)))))"

fun param_loop ::
  "string \<Rightarrow> string \<Rightarrow> string \<Rightarrow> (string \<times> hf_spec option) list \<Rightarrow> jsval \<Rightarrow> js_error + jsval" where
  "param_loop topic name hardfork [] v = Inr v"
| "param_loop topic name hardfork ((h, spec) # hcs) v =
     bindR (param_of_spec topic name spec v) (\<lambda>w.
       if h = hardfork then Inr w else param_loop topic name hardfork hcs w)"

definition paramByHardfork :: "string \<Rightarrow> string \<Rightarrow> string \<Rightarrow> common \<Rightarrow> js_error + int" where
  "paramByHardfork topic name hardfork c =
     bindR (param_loop topic name hardfork (cm_CHANGES c) JNull) (\<lambda>v.
       js_BigInt (if isNullish v then JNum (NInt 0) else v))"

fun first_qip_param :: "string \<Rightarrow> string \<Rightarrow> nat list \<Rightarrow> js_error + int option" where
  "first_qip_param topic name [] = Inr None"
| "first_qip_param topic name (q # qs) =
     bindR (paramByQIP topic name q) (\<lambda>r. case r of Some i \<Rightarrow> Inr (Some i)
       | None \<Rightarrow> first_qip_param topic name qs)"

definition param :: "string \<Rightarrow> string \<Rightarrow> common \<Rightarrow> js_error + int" where
  "param topic name c =
     bindR (first_qip_param topic name (cm_qips c)) (\<lambda>r. case r of
         Some i \<Rightarrow> Inr i
       | None \<Rightarrow> paramByHardfork topic name (cm_hardfork c) c)"

definition paramByBlock ::
  "lib \<Rightarrow> string \<Rightarrow> string \<Rightarrow> jsval \<Rightarrow> jsval \<Rightarrow> common \<Rightarrow> js_error + int" where
  "paramByBlock L topic name blockNumber timestamp c =
     bindR (getHardforkByBlockNumber L blockNumber timestamp c) (\<lambda>h. paramByHardfork topic name h c)"

section \<open>QIPs\<close>

fun qip_in_changes :: "nat \<Rightarrow> common \<Rightarrow> (string \<times> hf_spec option) list \<Rightarrow> js_error + bool" where
  "qip_in_changes qip c [] = Inr False"
| "qip_in_changes qip c ((h, spec) # hcs) = (case spec of
      None \<Rightarrow> Inl (TypeError ''Cannot read properties of undefined'')
    | Some s \<Rightarrow> bindR (gteHardfork (hs_name s) c) (\<lambda>gte.
        if gte \<and> (case hs_qips s of Some qs \<Rightarrow> qip \<in> set qs | None \<Rightarrow> False) then Inr True
        else qip_in_changes qip c hcs))"

definition isActivatedQIP :: "nat \<Rightarrow> common \<Rightarrow> js_error + bool" where
  "isActivatedQIP qip c =
     (if qip \<in> set (cm_qips c) then Inr True else qip_in_changes qip c (cm_CHANGES c))"

fun required_met :: "nat list \<Rightarrow> nat list \<Rightarrow> common \<Rightarrow> js_error + unit" where
  "required_met qips [] c = Inr ()"
| "required_met qips (e # es) c =
     bindR (if e \<in> set qips then Inr True else isActivatedQIP e c) (\<lambda>ok.
       if ok then required_met qips es c
       else Inl (js_Error ''requires QIP, but is not included in the QIP list''))"

fun qips_ok :: "nat list \<Rightarrow> nat list \<Rightarrow> common \<Rightarrow> js_error + unit" where
  "qips_ok qips [] c = Inr ()"
| "qips_ok qips (q # qs) c = (case QIPs q of
      None \<Rightarrow> Inl (js_Error ''QIP not supported'')
    | Some s \<Rightarrow> bindR (gteHardfork (qs_minimumHardfork s) c) (\<lambda>minHF.
        if \<not> minHF then Inl (js_Error ''QIP cannot be activated on hardfork'')
        else bindR (case qs_requiredQIPs s of Some es \<Rightarrow> required_met qips es c | None \<Rightarrow> Inr ())
          (\<lambda>_. qips_ok qips qs c)))"

definition setQIPs :: "nat list \<Rightarrow> common \<Rightarrow> js_error + common" where
  "setQIPs qips c = bindR (qips_ok qips qips c) (\<lambda>_. Inr (c\<lparr>cm_qips := qips\<rparr>))"

fun qip_block_in :: "nat \<Rightarrow> common \<Rightarrow> (string \<times> hf_spec option) list \<Rightarrow> js_error + int option" where
  "qip_block_in qip c [] = Inr None"
| "qip_block_in qip c ((h, spec) # hcs) = (case spec of
      None \<Rightarrow> Inl (TypeError ''Cannot use in operator to search for qips in undefined'')
    | Some s \<Rightarrow>
        if (case hs_qips s of Some qs \<Rightarrow> qip \<in> set qs | None \<Rightarrow> False)
        then hardforkBlock (Some h) c else qip_block_in qip c hcs)"

definition qipBlock :: "nat \<Rightarrow> common \<Rightarrow> js_error + int option" where
  "qipBlock qip c = qip_block_in qip c (cm_CHANGES c)"

section \<open>Fork hashes\<close>

text \<open>
  \<^verbatim>\<open>crc32\<close> of the package \<^verbatim>\<open>crc-32\<close> is a parameter; its signed result is read as an unsigned number
  of 32 bits. Blocks and timestamps are written with sixteen digits.
\<close>

fun fork_blocks :: "lib \<Rightarrow> string \<Rightarrow> hardfork_config list \<Rightarrow> int \<Rightarrow> bytes \<Rightarrow> js_error + bytes" where
  "fork_blocks L hardfork [] prev acc = Inr acc"
| "fork_blocks L hardfork (hf # hfs) prev acc =
     bindR (case time_or_block hf of
         Some b \<Rightarrow>
           if b \<noteq> 0 \<and> b \<noteq> prev
           then map_sum id (\<lambda>bs. (acc @ bs, b)) (hexToBytes L (JStr (padStart 16 ''0'' (int_str 16 b))))
           else Inr (acc, prev)
       | None \<Rightarrow> Inr (acc, prev)) (\<lambda>(acc', prev').
       if hf_name hf = hardfork then Inr acc' else fork_blocks L hardfork hfs prev' acc')"

definition calcForkHash ::
  "lib \<Rightarrow> (bytes \<Rightarrow> int) \<Rightarrow> string \<Rightarrow> bytes \<Rightarrow> common \<Rightarrow> js_error + string" where
  "calcForkHash L crc32 hardfork genesisHash c =
     bindR (hardforks c) (\<lambda>hfs.
     bindR (fork_blocks L hardfork hfs 0 []) (\<lambda>blocks.
     bindR (intToUint8Array L (NInt (crc32 (genesisHash @ blocks) mod 2 ^ 32))) (\<lambda>bs.
       bytesToHex L (JBytes bs))))"

definition forkHash ::
  "lib \<Rightarrow> (bytes \<Rightarrow> int) \<Rightarrow> string option \<Rightarrow> bytes option \<Rightarrow> common \<Rightarrow> js_error + string" where
  "forkHash L crc32 h genesisHash c =
     bindR (getHardfork (or_set h c) c) (\<lambda>data. case data of
         None \<Rightarrow> Inl (js_Error ''No fork hash calculation possible for future hardfork'')
       | Some hf \<Rightarrow>
           if hf_block hf = Some None \<and> hf_timestamp hf = None
           then Inl (js_Error ''No fork hash calculation possible for future hardfork'')
           else case hf_forkHash hf of
             Some fh \<Rightarrow> Inr fh
           | None \<Rightarrow>
               (case genesisHash of
                  None \<Rightarrow> Inl (js_Error ''genesisHash required for forkHash calculation'')
                | Some g \<Rightarrow> calcForkHash L crc32 (or_set h c) g c))"

definition hardforkForForkHash :: "string \<Rightarrow> common \<Rightarrow> js_error + hardfork_config option" where
  "hardforkForForkHash fh c =
     map_sum id (\<lambda>hfs. let found = filter (\<lambda>hf. hf_forkHash hf = Some fh) hfs in
       if found = [] then None else Some (last found)) (hardforks c)"

text \<open>
  The hashes are written into the hardforks one after the other, so a later one sees what was written
  before it. The hardforks are the objects of the chain configuration, which other instances share.
\<close>

definition with_hardforks :: "hardfork_config list \<Rightarrow> common \<Rightarrow> common" where
  "with_hardforks hfs c = c\<lparr>cm_chainParams := (cm_chainParams c)\<lparr>ch_hardforks := Some hfs\<rparr>\<rparr>"

fun set_fork_hashes ::
  "lib \<Rightarrow> (bytes \<Rightarrow> int) \<Rightarrow> bytes \<Rightarrow> nat list \<Rightarrow> hardfork_config list \<Rightarrow> common \<Rightarrow> js_error + common" where
  "set_fork_hashes L crc32 g [] hfs c = Inr c"
| "set_fork_hashes L crc32 g (i # is) hfs c =
     (if hf_forkHash (hfs ! i) = None \<and> time_or_block (hfs ! i) \<noteq> None
      then bindR (forkHash L crc32 (Some (hf_name (hfs ! i))) (Some g) c) (\<lambda>fh.
        let hfs' = hfs[i := (hfs ! i)\<lparr>hf_forkHash := Some fh\<rparr>] in
        set_fork_hashes L crc32 g is hfs' (with_hardforks hfs' c))
      else set_fork_hashes L crc32 g is hfs c)"

definition setForkHashes :: "lib \<Rightarrow> (bytes \<Rightarrow> int) \<Rightarrow> bytes \<Rightarrow> common \<Rightarrow> js_error + common" where
  "setForkHashes L crc32 g c =
     bindR (hardforks c) (\<lambda>hfs. set_fork_hashes L crc32 g [0..<length hfs] hfs c)"

section \<open>Construction\<close>

record common_opts =
  op_chain :: chain_input
  op_hardfork :: "string option"
  op_qips :: "nat list option"
  op_customChains :: "chain_config list"

definition new_Common :: "common_opts \<Rightarrow> js_error + common" where
  "new_Common opts =
     bindR (setChain (op_chain opts) (op_customChains opts)) (\<lambda>ch.
       let def = (case ch_defaultHardfork ch of Some h \<Rightarrow> h | None \<Rightarrow> ''zond'') in
       bindR (chain_hardforks ch) (\<lambda>hfs.
         let c = \<lparr>cm_DEFAULT_HARDFORK = def, cm_chainParams = ch, cm_hardfork = def, cm_qips = [],
                  cm_customChains = op_customChains opts,
                  cm_CHANGES = map (\<lambda>hf. (hf_name hf, HARDFORK_SPECS (hf_name hf))) hfs,
                  cm_emitted = []\<rparr> in
         bindR (case op_hardfork opts of Some h \<Rightarrow> setHardfork h c | None \<Rightarrow> Inr c) (\<lambda>c1.
           case op_qips opts of Some qs \<Rightarrow> setQIPs qs c1 | None \<Rightarrow> Inr c1)))"

text \<open>The fields a dictionary has replace those of the chain it is based on.\<close>

definition or_field :: "'a option \<Rightarrow> 'a option \<Rightarrow> 'a option" where
  "or_field a b = (case a of Some x \<Rightarrow> Some x | None \<Rightarrow> b)"

definition spread_chain :: "chain_config \<Rightarrow> chain_config \<Rightarrow> chain_config" where
  "spread_chain base ps =
     \<lparr>ch_name = or_field (ch_name ps) (ch_name base),
      ch_chainId = or_field (ch_chainId ps) (ch_chainId base),
      ch_networkId = or_field (ch_networkId ps) (ch_networkId base),
      ch_defaultHardfork = or_field (ch_defaultHardfork ps) (ch_defaultHardfork base),
      ch_genesis = or_field (ch_genesis ps) (ch_genesis base),
      ch_hardforks = or_field (ch_hardforks ps) (ch_hardforks base),
      ch_bootstrapNodes = or_field (ch_bootstrapNodes ps) (ch_bootstrapNodes base),
      ch_dnsNetworks = or_field (ch_dnsNetworks ps) (ch_dnsNetworks base),
      ch_consensus = or_field (ch_consensus ps) (ch_consensus base)\<rparr>"

datatype custom_params = CustomDict chain_config | CustomName string

definition custom ::
  "custom_params \<Rightarrow> chain_id option \<Rightarrow> string option \<Rightarrow> nat list option \<Rightarrow> js_error + common" where
  "custom ps baseChain hardfork qips =
     bindR (getChainParams (case baseChain of Some i \<Rightarrow> i | None \<Rightarrow> ChainName ''mainnet'') []) (\<lambda>std.
       case ps of
         CustomDict d \<Rightarrow>
           new_Common \<lparr>op_chain = ByConfig (spread_chain (std\<lparr>ch_name := Some ''custom-chain''\<rparr>) d),
             op_hardfork = hardfork, op_qips = qips, op_customChains = []\<rparr>
       | CustomName n \<Rightarrow> Inl (js_Error (''Custom chain '' @ n @ '' not supported'')))"

definition gqrl_chain :: "gqrl_params \<Rightarrow> chain_config" where
  "gqrl_chain gp =
     \<lparr>ch_name = (case gp_name gp of JStr s \<Rightarrow> Some s | _ \<Rightarrow> None),
      ch_chainId = as_int (gp_chainId gp), ch_networkId = as_int (gp_networkId gp),
      ch_defaultHardfork = None,
      ch_genesis = Some (JObj [(''timestamp'', gp_timestamp gp), (''gasLimit'', gp_gasLimit gp),
        (''extraData'', gp_extraData gp), (''mixHash'', gp_mixHash gp), (''coinbase'', gp_coinbase gp),
        (''baseFeePerGas'', gp_baseFeePerGas gp)]),
      ch_hardforks = Some (gp_hardforks gp), ch_bootstrapNodes = Some (JArr []), ch_dnsNetworks = None,
      ch_consensus = Some \<lparr>co_type = ''pos'', co_algorithm = ''casper'',
        co_configs = [(''casper'', JObj [])]\<rparr>\<rparr>"

definition fromGqrlGenesis ::
  "lib \<Rightarrow> (bytes \<Rightarrow> int) \<Rightarrow> jsval \<Rightarrow> string option \<Rightarrow> nat list option \<Rightarrow> bytes option \<Rightarrow> string option
    \<Rightarrow> js_error + common" where
  "fromGqrlGenesis L crc32 json chain qips genesisHash hardfork =
     bindR (parseGqrlGenesis json chain) (\<lambda>gp.
     bindR (new_Common \<lparr>op_chain = ById (ChainName (case gp_name gp of JStr s \<Rightarrow> s | _ \<Rightarrow> ''custom'')),
         op_hardfork = or_field hardfork (gp_hardfork gp), op_qips = qips,
         op_customChains = [gqrl_chain gp]\<rparr>) (\<lambda>c.
       case genesisHash of Some g \<Rightarrow> setForkHashes L crc32 g c | None \<Rightarrow> Inr c))"

section \<open>The chain that is set\<close>

definition big_field :: "int option \<Rightarrow> js_error + int" where
  "big_field v = (case v of Some i \<Rightarrow> Inr i | None \<Rightarrow> Inl (TypeError ''Cannot convert undefined to a BigInt''))"

definition common_chainId :: "common \<Rightarrow> js_error + int" where
  "common_chainId c = big_field (ch_chainId (cm_chainParams c))"

definition networkId :: "common \<Rightarrow> js_error + int" where
  "networkId c = big_field (ch_networkId (cm_chainParams c))"

definition chainName :: "common \<Rightarrow> string option" where
  "chainName c = ch_name (cm_chainParams c)"

definition genesis :: "common \<Rightarrow> jsval option" where
  "genesis c = ch_genesis (cm_chainParams c)"

definition bootstrapNodes :: "common \<Rightarrow> jsval option" where
  "bootstrapNodes c = ch_bootstrapNodes (cm_chainParams c)"

definition dnsNetworks :: "common \<Rightarrow> jsval option" where
  "dnsNetworks c = ch_dnsNetworks (cm_chainParams c)"

definition hardfork :: "common \<Rightarrow> string" where
  "hardfork c = cm_hardfork c"

definition qips :: "common \<Rightarrow> nat list" where
  "qips c = cm_qips c"

text \<open>The consensus of the last hardfork, up to the one that is set, that says something about it.\<close>

fun consensus_of ::
  "string \<Rightarrow> (string \<times> hf_spec option) list \<Rightarrow> consensus_config option \<Rightarrow> js_error + consensus_config option" where
  "consensus_of h0 [] v = Inr v"
| "consensus_of h0 ((h, spec) # hcs) v = (case spec of
      None \<Rightarrow> Inl (TypeError ''Cannot use in operator to search for consensus in undefined'')
    | Some s \<Rightarrow>
        let w = or_field (hs_consensus s) v in
        if h = h0 then Inr w else consensus_of h0 hcs w)"

definition chain_consensus :: "common \<Rightarrow> js_error + consensus_config" where
  "chain_consensus c = (case ch_consensus (cm_chainParams c) of
      Some co \<Rightarrow> Inr co | None \<Rightarrow> Inl (TypeError ''Cannot read properties of undefined''))"

definition set_consensus :: "common \<Rightarrow> js_error + consensus_config" where
  "set_consensus c = bindR (consensus_of (cm_hardfork c) (cm_CHANGES c) None) (\<lambda>v. case v of
      Some co \<Rightarrow> Inr co | None \<Rightarrow> chain_consensus c)"

definition consensusType :: "common \<Rightarrow> js_error + string" where
  "consensusType c = map_sum id co_type (set_consensus c)"

definition consensusAlgorithm :: "common \<Rightarrow> js_error + string" where
  "consensusAlgorithm c = map_sum id co_algorithm (set_consensus c)"

definition consensusConfig :: "common \<Rightarrow> js_error + jsval" where
  "consensusConfig c = bindR (consensus_of (cm_hardfork c) (cm_CHANGES c) None) (\<lambda>v.
     case (case v of Some co \<Rightarrow> map_of (co_configs co) (co_algorithm co) | None \<Rightarrow> None) of
       Some w \<Rightarrow> Inr w
     | None \<Rightarrow> bindR (chain_consensus c) (\<lambda>co. bindR (consensusAlgorithm c) (\<lambda>a.
         Inr (case map_of (co_configs co) a of Some w \<Rightarrow> w | None \<Rightarrow> JObj []))))"

text \<open>A copy shares everything but the listeners.\<close>

definition copy :: "common \<Rightarrow> common" where
  "copy c = c\<lparr>cm_emitted := []\<rparr>"

end
