(* ===== verification/Tx.thy ===== *)
theory Tx
  imports Common Rpc
begin

text \<open>
  \<^verbatim>\<open>web3-qrl-accounts/src/tx\<close>: the fee market transaction (\<^verbatim>\<open>eip1559Transaction.ts\<close>) with what it inherits
  (\<^verbatim>\<open>baseTransaction.ts\<close>), its access list (\<^verbatim>\<open>utils.ts\<close>), addresses and the factory. A transaction is
  built from loose values, checked, and from then on only its caches change.
\<close>

section \<open>Other packages\<close>

text \<open>
  \<^verbatim>\<open>@ethereumjs/rlp\<close>, the wallet and signature functions of \<^verbatim>\<open>@theqrl/wallet.js\<close> and the size of a
  public key of \<^verbatim>\<open>@theqrl/mldsa87\<close>.
\<close>

record tx_lib =
  rlp_encode :: "jsval \<Rightarrow> bytes"
  rlp_decode :: "bytes \<Rightarrow> js_error + jsval"
  wl_open :: "bytes \<Rightarrow> js_error + unit"
  wl_descriptor :: "bytes \<Rightarrow> bytes"
  wl_pk :: "bytes \<Rightarrow> bytes"
  wl_sign :: "bytes \<Rightarrow> bytes \<Rightarrow> bytes"
  wl_descriptor_type :: "bytes \<Rightarrow> js_error + nat"
  wl_verify :: "bytes \<Rightarrow> bytes \<Rightarrow> bytes \<Rightarrow> bytes \<Rightarrow> js_error + bool"
  wl_ML_DSA_87 :: nat
  wl_publicKeyBytes :: nat

text \<open>Decoding gives back what was encoded, for byte arrays and nested arrays of them.\<close>

fun rlp_value :: "jsval \<Rightarrow> bool" where
  "rlp_value (JBytes bs) = True"
| "rlp_value (JArr vs) = list_all rlp_value vs"
| "rlp_value _ = False"

definition rlp_ok :: "tx_lib \<Rightarrow> bool" where
  "rlp_ok T \<longleftrightarrow> (\<forall>v. rlp_value v \<longrightarrow> rlp_decode T (rlp_encode T v) = Inr v)"

text \<open>
  A wallet opened from a seed signs so that its public key and descriptor verify the signature, and
  none of the three is empty.
\<close>

definition wallet_ok :: "tx_lib \<Rightarrow> bool" where
  "wallet_ok T \<longleftrightarrow> (\<forall>seed msg. wl_open T seed = Inr () \<longrightarrow>
     wl_descriptor_type T (wl_descriptor T seed) = Inr (wl_ML_DSA_87 T) \<and>
     wl_verify T (wl_sign T seed msg) msg (wl_pk T seed) (wl_descriptor T seed) = Inr True \<and>
     wl_descriptor T seed \<noteq> [] \<and> wl_sign T seed msg \<noteq> [] \<and> wl_pk T seed \<noteq> [])"

section \<open>Constants and addresses\<close>

definition MAX_UINT64 :: int where "MAX_UINT64 = 0xffffffffffffffff"
definition MAX_INTEGER :: int where
  "MAX_INTEGER = 0xffffffffffffffffffffffffffffffffffffffffffffffffffffffffffffffff"
definition SEED_BYTES :: nat where "SEED_BYTES = 51"
definition ADDRESS_BYTES :: nat where "ADDRESS_BYTES = 64"
definition TRANSACTION_TYPE :: nat where "TRANSACTION_TYPE = 2"

definition new_Address :: "bytes \<Rightarrow> js_error + bytes" where
  "new_Address buf =
     (if length buf \<noteq> ADDRESS_BYTES then Inl (js_Error ''Invalid address length'') else Inr buf)"

definition Address_zero :: "js_error + bytes" where
  "Address_zero = new_Address (zeros ADDRESS_BYTES)"

definition Address_equals :: "bytes \<Rightarrow> bytes \<Rightarrow> bool" where
  "Address_equals a b = (a = b)"

definition Address_isZero :: "bytes \<Rightarrow> bool" where
  "Address_isZero a = (case Address_zero of Inr z \<Rightarrow> Address_equals a z | Inl _ \<Rightarrow> False)"

definition Address_toString :: "lib \<Rightarrow> bytes \<Rightarrow> js_error + string" where
  "Address_toString L a = bindR (bytesToHex L (JBytes a)) (\<lambda>h. hexToAddress L (JStr h))"

definition addressFromPublicKeyAndDescriptor :: "lib \<Rightarrow> bytes \<Rightarrow> bytes \<Rightarrow> bytes" where
  "addressFromPublicKeyAndDescriptor L publicKey descriptor = shake256 L (descriptor @ publicKey) 64"

definition publicKeyAndDescriptorToAddress ::
  "lib \<Rightarrow> tx_lib \<Rightarrow> bytes \<Rightarrow> bytes \<Rightarrow> js_error + bytes" where
  "publicKeyAndDescriptorToAddress L T pubKey descBytes =
     (if length pubKey \<noteq> wl_publicKeyBytes T
      then Inl (js_Error ''Expected pubKey to be of length CryptoPublicKeyBytes'')
      else bindR (wl_descriptor_type T descBytes) (\<lambda>_.
        Inr (addressFromPublicKeyAndDescriptor L pubKey descBytes)))"

section \<open>Access lists\<close>

text \<open>Indexing and iterating a value whose shape is not known.\<close>

definition js_items :: "jsval \<Rightarrow> js_error + jsval list" where
  "js_items v =
     (if isNullish v then Inl (TypeError ''Cannot read properties of undefined (reading length)'')
      else Inr (case v of
          JArr vs \<Rightarrow> vs
        | JResult vs _ \<Rightarrow> vs
        | JBytes bs \<Rightarrow> map (\<lambda>b. JNum (NInt (uint b))) bs
        | JStr s \<Rightarrow> map (\<lambda>c. JStr [c]) s
        | _ \<Rightarrow> []))"

definition js_at :: "jsval \<Rightarrow> nat \<Rightarrow> js_error + jsval" where
  "js_at v i = bindR (js_items v) (\<lambda>vs. Inr (if i < length vs then vs ! i else JUndef))"

definition isAccessListUint8Array :: "jsval \<Rightarrow> js_error + bool" where
  "isAccessListUint8Array input =
     bindR (js_items input) (\<lambda>vs. Inr (vs = [] \<or> isArray (hd vs)))"

definition isAccessList :: "jsval \<Rightarrow> js_error + bool" where
  "isAccessList input = map_sum id Not (isAccessListUint8Array input)"

definition access_item_bytes :: "lib \<Rightarrow> jsval \<Rightarrow> js_error + jsval" where
  "access_item_bytes L item =
     (if isNullish item then Inl (TypeError ''Cannot read properties of undefined (reading address)'')
      else bindR (toHex L (js_prop item ''address'') False) (\<lambda>h.
        bindR (toUint8Array L (JStr h)) (\<lambda>address.
        bindR (js_items (js_prop item ''storageKeys'')) (\<lambda>ks.
        bindR (mapR (toUint8Array L) ks) (\<lambda>keys.
          Inr (JArr [JBytes address, JArr (map JBytes keys)]))))))"

definition access_item_json :: "lib \<Rightarrow> jsval \<Rightarrow> js_error + jsval" where
  "access_item_json L data =
     bindR (js_at data 0) (\<lambda>a. bindR (bytesToHex L a) (\<lambda>address.
     bindR (js_at data 1) (\<lambda>slots. bindR (js_items slots) (\<lambda>ss.
     bindR (mapR (bytesToHex L) ss) (\<lambda>keys.
       Inr (JObj [(''address'', JStr address), (''storageKeys'', JArr (map JStr keys))]))))))"

text \<open>The list as bytes and as a JSON value.\<close>

definition getAccessListData :: "lib \<Rightarrow> jsval \<Rightarrow> js_error + jsval \<times> jsval" where
  "getAccessListData L accessList =
     bindR (isAccessList accessList) (\<lambda>json.
     bindR (js_items accessList) (\<lambda>vs.
       if json then map_sum id (\<lambda>ds. (JArr ds, accessList)) (mapR (access_item_bytes L) vs)
       else map_sum id (\<lambda>js. (accessList, JArr js)) (mapR (access_item_json L) vs)))"

definition has_length :: "jsval \<Rightarrow> nat \<Rightarrow> js_error + bool" where
  "has_length v n =
     (if isNullish v then Inl (TypeError ''Cannot read properties of undefined (reading length)'')
      else Inr (case v of
          JArr vs \<Rightarrow> length vs = n | JResult vs _ \<Rightarrow> length vs = n | JBytes bs \<Rightarrow> length bs = n
        | JStr s \<Rightarrow> length s = n | _ \<Rightarrow> False))"

fun verify_slots :: "jsval list \<Rightarrow> js_error + unit" where
  "verify_slots [] = Inr ()"
| "verify_slots (s # ss) = bindR (has_length s 32) (\<lambda>ok.
     if \<not> ok then Inl (js_Error ''Invalid EIP-2930 transaction: storage slot length should be 32 bytes'')
     else verify_slots ss)"

definition verify_item :: "jsval \<Rightarrow> js_error + unit" where
  "verify_item item =
     bindR (js_at item 0) (\<lambda>address. bindR (js_at item 1) (\<lambda>slots. bindR (js_at item 2) (\<lambda>third.
       if third \<noteq> JUndef then Inl (js_Error ''Access list item cannot have 3 elements'')
       else bindR (has_length address ADDRESS_BYTES) (\<lambda>ok.
         if \<not> ok then Inl (js_Error ''Invalid EIP-2930 transaction: address length'')
         else bindR (js_items slots) verify_slots))))"

definition verifyAccessList :: "jsval \<Rightarrow> js_error + unit" where
  "verifyAccessList accessList =
     bindR (js_items accessList) (\<lambda>items. bindR (mapR verify_item items) (\<lambda>_. Inr ()))"

definition assertIsUint8Array :: "jsval \<Rightarrow> js_error + bytes" where
  "assertIsUint8Array v = (case v of
      JBytes bs \<Rightarrow> Inr bs | _ \<Rightarrow> Inl (js_Error ''This method only supports Uint8Array''))"

definition access_list_json_item :: "lib \<Rightarrow> jsval \<Rightarrow> js_error + jsval" where
  "access_list_json_item L item =
     bindR (js_at item 0) (\<lambda>a. bindR (assertIsUint8Array a) (\<lambda>ab.
     bindR (bytesToHex L (JBytes (setLengthLeft ab ADDRESS_BYTES))) (\<lambda>address.
     bindR (js_at item 1) (\<lambda>slots. bindR (js_items slots) (\<lambda>ss.
     bindR (mapR (\<lambda>s. bindR (assertIsUint8Array s) (\<lambda>b. bytesToHex L (JBytes (setLengthLeft b 32)))) ss) (\<lambda>keys.
       Inr (JObj [(''address'', JStr address), (''storageKeys'', JArr (map JStr keys))])))))))"

definition getAccessListJSON :: "lib \<Rightarrow> jsval \<Rightarrow> js_error + jsval" where
  "getAccessListJSON L accessList =
     bindR (js_items accessList) (\<lambda>items. map_sum id JArr (mapR (access_list_json_item L) items))"

definition getDataFeeEIP2930 :: "jsval \<Rightarrow> common \<Rightarrow> js_error + int" where
  "getDataFeeEIP2930 accessList c =
     bindR (param ''gasPrices'' ''accessListStorageKeyCost'' c) (\<lambda>keyCost.
     bindR (param ''gasPrices'' ''accessListAddressCost'' c) (\<lambda>addressCost.
     bindR (js_items accessList) (\<lambda>items.
     bindR (mapR (\<lambda>item. bindR (js_at item 1) js_items) items) (\<lambda>slots.
       Inr (int (length items) * addressCost + int (sum_list (map length slots)) * keyCost)))))"

definition checkMaxInitCodeSize :: "common \<Rightarrow> nat \<Rightarrow> js_error + unit" where
  "checkMaxInitCodeSize c len =
     bindR (param ''vm'' ''maxInitCodeSize'' c) (\<lambda>m.
       if m \<noteq> 0 \<and> int len > m then Inl (js_Error ''the initcode size of this transaction is too large'')
       else Inr ())"

section \<open>Transactions\<close>

record tx_data =
  td_chainId :: jsval
  td_nonce :: jsval
  td_gasLimit :: jsval
  td_to :: jsval
  td_value :: jsval
  td_data :: jsval
  td_accessList :: jsval
  td_maxPriorityFeePerGas :: jsval
  td_maxFeePerGas :: jsval
  td_descriptor :: jsval
  td_extraParams :: jsval
  td_signature :: jsval
  td_publicKey :: jsval
  td_type :: jsval

record tx_options =
  to_common :: "common option"
  to_freeze :: "bool option"
  to_allowUnlimitedInitCodeSize :: "bool option"

record tx =
  tx_type :: nat
  tx_chainId :: int
  tx_nonce :: int
  tx_maxPriorityFeePerGas :: int
  tx_maxFeePerGas :: int
  tx_gasLimit :: int
  tx_to :: "bytes option"
  tx_value :: int
  tx_bytes :: bytes
  tx_accessList :: jsval
  tx_AccessListJSON :: jsval
  tx_descriptor :: "bytes option"
  tx_extraParams :: "bytes option"
  tx_signature :: "bytes option"
  tx_publicKey :: "bytes option"
  tx_common :: common
  tx_txOptions :: tx_options
  tx_frozen :: bool
  tx_cachedHash :: "bytes option"
  tx_cachedDataFee :: "(int \<times> string) option"

definition blank :: "jsval \<Rightarrow> jsval" where
  "blank v = (if v = JStr [] then JStr ''0x'' else v)"

definition to_bytes :: "lib \<Rightarrow> jsval \<Rightarrow> js_error + bytes" where
  "to_bytes L v = (case v of
      JStr s \<Rightarrow>
        if s = [] then toUint8Array L (JStr ''0x'')
        else if isAddressString L v True then bindR (toHex L v False) (\<lambda>h. toUint8Array L (JStr h))
        else Inl (js_Error ''Cannot convert string to Uint8Array. only supports address strings'')
    | _ \<Rightarrow> toUint8Array L v)"

definition nonempty :: "bytes \<Rightarrow> bytes option" where
  "nonempty bs = (if bs = [] then None else Some bs)"

definition read_bytes :: "lib \<Rightarrow> jsval \<Rightarrow> js_error + bytes" where
  "read_bytes L v = toUint8Array L (blank v)"

definition read_int :: "lib \<Rightarrow> jsval \<Rightarrow> js_error + int" where
  "read_int L v = bindR (read_bytes L v) (uint8ArrayToBigInt L)"

text \<open>The bound for a number of bits, which the value may or may not be equal to.\<close>

definition validateCannotExceedMaxInteger :: "int \<Rightarrow> nat \<Rightarrow> bool \<Rightarrow> js_error + unit" where
  "validateCannotExceedMaxInteger v bits cannotEqual =
     (if bits \<noteq> 64 \<and> bits \<noteq> 256 then Inl (js_Error ''unimplemented bits value'')
      else let m = (if bits = 64 then MAX_UINT64 else MAX_INTEGER) in
        if (if cannotEqual then v \<ge> m else v > m)
        then Inl (js_Error ''cannot exceed the maximum integer'') else Inr ())"

definition validateNotArray :: "jsval list \<Rightarrow> js_error + unit" where
  "validateNotArray vs = (if \<exists>v \<in> set vs. isArray v then Inl (js_Error ''cannot be an array'') else Inr ())"

definition DEFAULT_CHAIN :: chain_id where "DEFAULT_CHAIN = ChainNum 1"

definition chain_opts :: "chain_input \<Rightarrow> common_opts" where
  "chain_opts i = \<lparr>op_chain = i, op_hardfork = Some ''zond'', op_qips = None, op_customChains = []\<rparr>"

definition getCommon :: "lib \<Rightarrow> common option \<Rightarrow> jsval \<Rightarrow> js_error + common" where
  "getCommon L c chainId =
     (if chainId \<noteq> JUndef then
        bindR (bindR (toUint8Array L chainId) (uint8ArrayToBigInt L)) (\<lambda>i.
          case c of
            Some co \<Rightarrow> bindR (common_chainId co) (\<lambda>j.
              if j \<noteq> i then Inl (js_Error ''The chain ID does not match the chain ID of Common'')
              else Inr (copy co))
          | None \<Rightarrow>
              if isSupportedChainId i then new_Common (chain_opts (ById (ChainNum i)))
              else custom (CustomDict \<lparr>ch_name = Some ''custom-chain'', ch_chainId = Some i,
                  ch_networkId = Some i, ch_defaultHardfork = None, ch_genesis = None,
                  ch_hardforks = None, ch_bootstrapNodes = None, ch_dnsNetworks = None,
                  ch_consensus = None\<rparr>)
                (Some DEFAULT_CHAIN) (Some ''zond'') None)
      else case c of Some co \<Rightarrow> Inr (copy co) | None \<Rightarrow> new_Common (chain_opts (ById DEFAULT_CHAIN)))"

text \<open>What the base class reads, in its order, before the fields of the fee market are looked at.\<close>

record base_fields =
  bf_nonce :: int
  bf_gasLimit :: int
  bf_to :: "bytes option"
  bf_value :: int
  bf_data :: bytes
  bf_descriptor :: "bytes option"
  bf_extraParams :: "bytes option"
  bf_signature :: "bytes option"
  bf_publicKey :: "bytes option"

definition base_constructor :: "lib \<Rightarrow> tx_data \<Rightarrow> tx_options \<Rightarrow> js_error + base_fields" where
  "base_constructor L td opts =
     bindR (to_bytes L (td_to td)) (\<lambda>toB.
     bindR (read_bytes L (td_descriptor td)) (\<lambda>descriptorB.
     bindR (read_bytes L (td_extraParams td)) (\<lambda>extraParamsB.
     bindR (read_bytes L (td_signature td)) (\<lambda>signatureB.
     bindR (read_bytes L (td_publicKey td)) (\<lambda>publicKeyB.
     bindR (read_int L (td_nonce td)) (\<lambda>nonce.
     bindR (read_int L (td_gasLimit td)) (\<lambda>gasLimit.
     bindR (if toB \<noteq> [] then map_sum id Some (new_Address toB) else Inr None) (\<lambda>to.
     bindR (read_int L (td_value td)) (\<lambda>value.
     bindR (read_bytes L (td_data td)) (\<lambda>data.
     bindR (validateCannotExceedMaxInteger value 256 False) (\<lambda>_.
     bindR (validateCannotExceedMaxInteger gasLimit 64 False) (\<lambda>_.
     bindR (validateCannotExceedMaxInteger nonce 64 True) (\<lambda>_.
     bindR (case to_common opts of Some c \<Rightarrow> Inr c | None \<Rightarrow> getCommon L None JUndef) (\<lambda>c.
     bindR (if to = None \<and> to_allowUnlimitedInitCodeSize opts \<noteq> Some True
            then checkMaxInitCodeSize c (length data) else Inr ()) (\<lambda>_.
       Inr \<lparr>bf_nonce = nonce, bf_gasLimit = gasLimit, bf_to = to, bf_value = value, bf_data = data,
            bf_descriptor = nonempty descriptorB, bf_extraParams = nonempty extraParamsB,
            bf_signature = nonempty signatureB, bf_publicKey = nonempty publicKeyB\<rparr>)))))))))))))))"

definition fromTxData :: "lib \<Rightarrow> tx_data \<Rightarrow> tx_options \<Rightarrow> js_error + tx" where
  "fromTxData L td opts =
     bindR (base_constructor L td opts) (\<lambda>bf.
     bindR (getCommon L (to_common opts) (td_chainId td)) (\<lambda>c.
     bindR (common_chainId c) (\<lambda>chainId.
     bindR (getAccessListData L (nullish_or (td_accessList td) (JArr []))) (\<lambda>(accessList, json).
     bindR (verifyAccessList accessList) (\<lambda>_.
     bindR (read_int L (td_maxFeePerGas td)) (\<lambda>maxFee.
     bindR (read_int L (td_maxPriorityFeePerGas td)) (\<lambda>maxPriority.
     bindR (validateCannotExceedMaxInteger maxFee 256 False) (\<lambda>_.
     bindR (validateCannotExceedMaxInteger maxPriority 256 False) (\<lambda>_.
     bindR (validateNotArray [td_nonce td, td_gasLimit td, td_to td, td_value td, td_data td, td_type td,
              td_maxFeePerGas td, td_chainId td]) (\<lambda>_.
       if bf_gasLimit bf * maxFee > MAX_INTEGER
       then Inl (js_Error ''gasLimit * maxFeePerGas cannot exceed MAX_INTEGER (2^256-1)'')
       else if maxFee < maxPriority
       then Inl (js_Error ''maxFeePerGas cannot be less than maxPriorityFeePerGas'')
       else Inr \<lparr>tx_type = TRANSACTION_TYPE, tx_chainId = chainId, tx_nonce = bf_nonce bf,
         tx_maxPriorityFeePerGas = maxPriority, tx_maxFeePerGas = maxFee, tx_gasLimit = bf_gasLimit bf,
         tx_to = bf_to bf, tx_value = bf_value bf, tx_bytes = bf_data bf, tx_accessList = accessList,
         tx_AccessListJSON = json, tx_descriptor = bf_descriptor bf,
         tx_extraParams = bf_extraParams bf, tx_signature = bf_signature bf,
         tx_publicKey = bf_publicKey bf, tx_common = c, tx_txOptions = opts,
         tx_frozen = (to_freeze opts \<noteq> Some False), tx_cachedHash = None,
         tx_cachedDataFee = None\<rparr>))))))))))"

section \<open>Wire format\<close>

fun value_at :: "jsval list \<Rightarrow> nat \<Rightarrow> jsval" where
  "value_at vs i = (if i < length vs then vs ! i else JUndef)"

definition zero_checked :: "string \<Rightarrow> jsval \<Rightarrow> string \<times> bytes option" where
  "zero_checked k v = (k, case v of JBytes bs \<Rightarrow> Some bs | _ \<Rightarrow> None)"

definition fromValuesArray :: "lib \<Rightarrow> jsval list \<Rightarrow> tx_options \<Rightarrow> js_error + tx" where
  "fromValuesArray L vs opts =
     (if length vs \<noteq> 11 \<and> length vs \<noteq> 13 then Inl (js_Error ''Invalid EIP-1559 transaction'')
      else
        let v = value_at vs in
        bindR (validateNotArray [v 0]) (\<lambda>_.
        bindR (validateNoLeadingZeroes [zero_checked ''chainId'' (v 0), zero_checked ''nonce'' (v 1),
          zero_checked ''maxPriorityFeePerGas'' (v 2), zero_checked ''maxFeePerGas'' (v 3),
          zero_checked ''gasLimit'' (v 4), zero_checked ''value'' (v 6)]) (\<lambda>_.
        bindR (bindR (bytesToHex L (v 0))
            (\<lambda>hex. if hex = ''0x'' then Inr 0 else js_BigInt (JStr hex))) (\<lambda>chainId.
          fromTxData L \<lparr>td_chainId = JBig chainId, td_nonce = v 1, td_gasLimit = v 4, td_to = v 5,
            td_value = v 6, td_data = v 7, td_accessList = nullish_or (v 8) (JArr []),
            td_maxPriorityFeePerGas = v 2, td_maxFeePerGas = v 3, td_descriptor = v 9,
            td_extraParams = v 10, td_signature = v 11, td_publicKey = v 12, td_type = JUndef\<rparr> opts))))"

definition type_byte :: bytes where
  "type_byte = [of_nat TRANSACTION_TYPE]"

definition fromSerializedTx :: "lib \<Rightarrow> tx_lib \<Rightarrow> bytes \<Rightarrow> tx_options \<Rightarrow> js_error + tx" where
  "fromSerializedTx L T serialized opts =
     (if take 1 serialized \<noteq> type_byte
      then Inl (js_Error ''Invalid serialized tx input: not an EIP-1559 transaction'')
      else bindR (rlp_decode T (drop 1 serialized)) (\<lambda>values. case values of
          JArr vs \<Rightarrow> fromValuesArray L vs opts
        | _ \<Rightarrow> Inl (js_Error ''Invalid serialized tx input: must be array'')))"

definition opt_bytes :: "bytes option \<Rightarrow> jsval" where
  "opt_bytes b = JBytes (case b of Some bs \<Rightarrow> bs | None \<Rightarrow> [])"

definition raw :: "lib \<Rightarrow> tx \<Rightarrow> js_error + jsval list" where
  "raw L t =
     bindR (mapR (bigIntToUnpaddedUint8Array L) [tx_chainId t, tx_nonce t, tx_maxPriorityFeePerGas t,
       tx_maxFeePerGas t, tx_gasLimit t, tx_value t]) (\<lambda>ns. Inr
       (map JBytes (take 5 ns) @
        [opt_bytes (tx_to t), JBytes (ns ! 5), JBytes (tx_bytes t), tx_accessList t,
         opt_bytes (tx_descriptor t), opt_bytes (tx_extraParams t), opt_bytes (tx_signature t),
         opt_bytes (tx_publicKey t)]))"

definition serialize :: "lib \<Rightarrow> tx_lib \<Rightarrow> tx \<Rightarrow> js_error + bytes" where
  "serialize L T t = map_sum id (\<lambda>vs. type_byte @ rlp_encode T (JArr vs)) (raw L t)"

definition getMessageToSign ::
  "lib \<Rightarrow> tx_lib \<Rightarrow> bytes \<Rightarrow> bytes \<Rightarrow> bool \<Rightarrow> tx \<Rightarrow> js_error + bytes" where
  "getMessageToSign L T descriptor extraParams hashMessage t =
     bindR (raw L t) (\<lambda>vs.
       let message = type_byte @
             rlp_encode T (JArr (take 9 vs @ [JBytes descriptor, JBytes extraParams])) in
       Inr (if hashMessage then keccak256 L message else message))"

definition or_empty :: "bytes option \<Rightarrow> bytes" where
  "or_empty b = (case b of Some bs \<Rightarrow> bs | None \<Rightarrow> [])"

definition getMessageToVerifySignature :: "lib \<Rightarrow> tx_lib \<Rightarrow> tx \<Rightarrow> js_error + bytes" where
  "getMessageToVerifySignature L T t =
     getMessageToSign L T (or_empty (tx_descriptor t)) (or_empty (tx_extraParams t)) True t"

section \<open>Signatures\<close>

definition isSigned :: "tx \<Rightarrow> bool" where
  "isSigned t = (tx_descriptor t \<noteq> None \<and> tx_signature t \<noteq> None \<and> tx_publicKey t \<noteq> None)"

text \<open>A transaction is frozen unless its options say otherwise; a frozen one keeps its hash.\<close>

definition hash :: "lib \<Rightarrow> tx_lib \<Rightarrow> (tx, js_error, bytes) action" where
  "hash L T t =
     (if \<not> isSigned t then (Inl (js_Error ''Cannot call hash method if transaction is not signed''), t)
      else if tx_frozen t then
        (case tx_cachedHash t of
           Some h \<Rightarrow> (Inr h, t)
         | None \<Rightarrow>
             (case serialize L T t of
                Inl e \<Rightarrow> (Inl e, t)
              | Inr s \<Rightarrow> (Inr (keccak256 L s), t\<lparr>tx_cachedHash := Some (keccak256 L s)\<rparr>)))
      else (map_sum id (keccak256 L) (serialize L T t), t))"

text \<open>An exception while the signature is looked at counts as a signature that does not verify.\<close>

definition verifySignature :: "lib \<Rightarrow> tx_lib \<Rightarrow> tx \<Rightarrow> js_error + bool" where
  "verifySignature L T t =
     bindR (getMessageToVerifySignature L T t) (\<lambda>msgHash.
       Inr (case (tx_descriptor t, tx_signature t, tx_publicKey t) of
           (Some d, Some s, Some pk) \<Rightarrow>
             wl_descriptor_type T d = Inr (wl_ML_DSA_87 T) \<and> wl_verify T s msgHash pk d = Inr True
         | _ \<Rightarrow> False))"

definition getSenderAddress :: "lib \<Rightarrow> tx_lib \<Rightarrow> tx \<Rightarrow> js_error + bytes" where
  "getSenderAddress L T t = (case (tx_publicKey t, tx_descriptor t) of
      (Some pk, Some d) \<Rightarrow> bindR (publicKeyAndDescriptorToAddress L T pk d) new_Address
    | _ \<Rightarrow> Inl (js_Error ''This method only supports Uint8Array''))"

definition getSenderPublicKey :: "tx \<Rightarrow> js_error + bytes" where
  "getSenderPublicKey t =
     (if \<not> isSigned t then Inl (js_Error ''Cannot call this method if transaction is not signed'')
      else Inr (or_empty (tx_publicKey t)))"

definition processAuthValues :: "lib \<Rightarrow> bytes \<Rightarrow> bytes \<Rightarrow> bytes \<Rightarrow> bytes \<Rightarrow> tx \<Rightarrow> js_error + tx" where
  "processAuthValues L descriptor extraParams signature publicKey t =
     fromTxData L \<lparr>td_chainId = JBig (tx_chainId t), td_nonce = JBig (tx_nonce t),
       td_gasLimit = JBig (tx_gasLimit t),
       td_to = (case tx_to t of Some a \<Rightarrow> JBytes a | None \<Rightarrow> JUndef),
       td_value = JBig (tx_value t), td_data = JBytes (tx_bytes t), td_accessList = tx_accessList t,
       td_maxPriorityFeePerGas = JBig (tx_maxPriorityFeePerGas t),
       td_maxFeePerGas = JBig (tx_maxFeePerGas t), td_descriptor = JBytes descriptor,
       td_extraParams = JBytes extraParams, td_signature = JBytes signature,
       td_publicKey = JBytes publicKey, td_type = JUndef\<rparr>
       ((tx_txOptions t)\<lparr>to_common := Some (tx_common t)\<rparr>)"

definition sign :: "lib \<Rightarrow> tx_lib \<Rightarrow> bytes \<Rightarrow> tx \<Rightarrow> js_error + tx" where
  "sign L T seed t =
     (if length seed \<noteq> SEED_BYTES then Inl (js_Error ''Seed must be 51 bytes in length.'')
      else bindR (wl_open T seed) (\<lambda>_.
        let descBytes = wl_descriptor T seed in
        bindR (getMessageToSign L T descBytes [] True t) (\<lambda>msgHash.
          processAuthValues L descBytes [] (wl_sign T seed msgHash) (wl_pk T seed) t)))"

section \<open>Fees\<close>

definition toCreationAddress :: "tx \<Rightarrow> bool" where
  "toCreationAddress t = (case tx_to t of None \<Rightarrow> True | Some a \<Rightarrow> a = [])"

definition base_getDataFee :: "tx \<Rightarrow> js_error + int" where
  "base_getDataFee t =
     bindR (param ''gasPrices'' ''txDataZero'' (tx_common t)) (\<lambda>txDataZero.
     bindR (param ''gasPrices'' ''txDataNonZero'' (tx_common t)) (\<lambda>txDataNonZero.
       let cost = sum_list (map (\<lambda>b. if b = 0 then txDataZero else txDataNonZero) (tx_bytes t)) in
       if tx_to t = None then
         bindR (param ''gasPrices'' ''initCodeWordCost'' (tx_common t)) (\<lambda>wordCost.
           Inr (cost + wordCost * int ((length (tx_bytes t) + 31) div 32)))
       else Inr cost))"

definition computed_data_fee :: "tx \<Rightarrow> js_error + int" where
  "computed_data_fee t =
     bindR (base_getDataFee t) (\<lambda>cost.
       map_sum id ((+) cost) (getDataFeeEIP2930 (tx_accessList t) (tx_common t)))"

text \<open>The cost is kept, with the hardfork it was computed for, when the transaction is frozen.\<close>

definition fresh_data_fee :: "(tx, js_error, int) action" where
  "fresh_data_fee t = (case computed_data_fee t of
      Inl e \<Rightarrow> (Inl e, t)
    | Inr cost \<Rightarrow>
        (Inr cost, if tx_frozen t
           then t\<lparr>tx_cachedDataFee := Some (cost, hardfork (tx_common t))\<rparr> else t))"

definition getDataFee :: "(tx, js_error, int) action" where
  "getDataFee t = (case tx_cachedDataFee t of
      Some (v, h) \<Rightarrow> if h = hardfork (tx_common t) then (Inr v, t) else fresh_data_fee t
    | None \<Rightarrow> fresh_data_fee t)"

definition getBaseFee :: "(tx, js_error, int) action" where
  "getBaseFee =
     bindS (\<lambda>t. (param ''gasPrices'' ''tx'' (tx_common t), t)) (\<lambda>txFee.
     bindS getDataFee (\<lambda>fee.
     bindS (\<lambda>t. (if toCreationAddress t then param ''gasPrices'' ''txCreation'' (tx_common t)
                  else Inr 0, t)) (\<lambda>creation.
       returnS (fee + txFee + creation))))"

definition tx_validate :: "lib \<Rightarrow> tx_lib \<Rightarrow> (tx, js_error, string list) action" where
  "tx_validate L T =
     bindS getBaseFee (\<lambda>fee t.
       bindS (liftS (if isSigned t then verifySignature L T t else Inr True)) (\<lambda>ok.
         returnS ((if fee > tx_gasLimit t then [''gasLimit is too low''] else []) @
                  (if ok then [] else [''Invalid Signature'']))) t)"

definition getUpfrontCost :: "int \<Rightarrow> tx \<Rightarrow> int" where
  "getUpfrontCost baseFee t =
     (let maxBase = tx_maxFeePerGas t - baseFee;
          inclusionFeePerGas = min (tx_maxPriorityFeePerGas t) maxBase;
          gasPrice = inclusionFeePerGas + baseFee in
      tx_gasLimit t * gasPrice + tx_value t)"

section \<open>JSON and the factory\<close>

definition opt_hex :: "lib \<Rightarrow> bytes option \<Rightarrow> js_error + jsval" where
  "opt_hex L b = (case b of Some bs \<Rightarrow> map_sum id JStr (bytesToHex L (JBytes bs)) | None \<Rightarrow> Inr JUndef)"

definition tx_toJSON :: "lib \<Rightarrow> tx \<Rightarrow> js_error + jsval" where
  "tx_toJSON L t =
     bindR (getAccessListJSON L (tx_accessList t)) (\<lambda>accessListJSON.
     bindR (case tx_to t of Some a \<Rightarrow> map_sum id JStr (Address_toString L a) | None \<Rightarrow> Inr JUndef) (\<lambda>to.
     bindR (opt_hex L (Some (tx_bytes t))) (\<lambda>data.
     bindR (opt_hex L (tx_descriptor t)) (\<lambda>descriptor.
     bindR (opt_hex L (tx_extraParams t)) (\<lambda>extraParams.
     bindR (opt_hex L (tx_signature t)) (\<lambda>signature.
     bindR (opt_hex L (tx_publicKey t)) (\<lambda>publicKey.
       Inr (JObj [(''chainId'', JStr (bigIntToHex (tx_chainId t))),
         (''nonce'', JStr (bigIntToHex (tx_nonce t))),
         (''maxPriorityFeePerGas'', JStr (bigIntToHex (tx_maxPriorityFeePerGas t))),
         (''maxFeePerGas'', JStr (bigIntToHex (tx_maxFeePerGas t))),
         (''gasLimit'', JStr (bigIntToHex (tx_gasLimit t))), (''to'', to),
         (''value'', JStr (bigIntToHex (tx_value t))), (''data'', data),
         (''accessList'', accessListJSON), (''descriptor'', descriptor),
         (''extraParams'', extraParams), (''signature'', signature), (''publicKey'', publicKey)]))))))))"

definition Factory_fromTxData :: "lib \<Rightarrow> tx_data \<Rightarrow> tx_options \<Rightarrow> js_error + tx" where
  "Factory_fromTxData L td opts =
     bindR (bindR (toUint8Array L (td_type td)) (uint8ArrayToBigInt L)) (\<lambda>txType.
       if txType = 2 then fromTxData L td opts
       else Inl (js_Error ''Tx instantiation with type not supported''))"

definition fromSerializedData :: "lib \<Rightarrow> tx_lib \<Rightarrow> bytes \<Rightarrow> tx_options \<Rightarrow> js_error + tx" where
  "fromSerializedData L T data opts =
     (case data of
        b # bs \<Rightarrow> if b = 2 then fromSerializedTx L T data opts
          else Inl (js_Error ''TypedTransaction with ID unknown'')
      | [] \<Rightarrow> Inl (js_Error ''TypedTransaction with ID unknown''))"

definition fromBlockBodyData :: "lib \<Rightarrow> tx_lib \<Rightarrow> jsval \<Rightarrow> tx_options \<Rightarrow> js_error + tx" where
  "fromBlockBodyData L T v opts = (case v of
      JBytes data \<Rightarrow> fromSerializedData L T data opts
    | _ \<Rightarrow> Inl (js_Error ''Cannot decode transaction: unknown type input''))"

end
