(* ===== verification/TxInv.thy ===== *)
theory TxInv
  imports Tx
begin

text \<open>
  What the constructor of a transaction establishes, and what reading back, signing and the caches
  rely on.
\<close>

section \<open>Construction\<close>

definition tx_wf :: "tx \<Rightarrow> bool" where
  "tx_wf t \<longleftrightarrow> 0 \<le> tx_nonce t \<and> tx_nonce t < MAX_UINT64 \<and>
     0 \<le> tx_gasLimit t \<and> tx_gasLimit t \<le> MAX_UINT64 \<and>
     0 \<le> tx_value t \<and> tx_value t \<le> MAX_INTEGER \<and>
     0 \<le> tx_maxPriorityFeePerGas t \<and> tx_maxPriorityFeePerGas t \<le> tx_maxFeePerGas t \<and>
     tx_gasLimit t * tx_maxFeePerGas t \<le> MAX_INTEGER \<and> tx_maxFeePerGas t \<le> MAX_INTEGER \<and>
     (\<forall>a. tx_to t = Some a \<longrightarrow> length a = 64) \<and>
     tx_descriptor t \<noteq> Some [] \<and> tx_extraParams t \<noteq> Some [] \<and> tx_signature t \<noteq> Some [] \<and>
     tx_publicKey t \<noteq> Some [] \<and> verifyAccessList (tx_accessList t) = Inr () \<and>
     common_chainId (tx_common t) = Inr (tx_chainId t)"

text \<open>
  The constructor returns a transaction exactly when the values it is given convert to the fields of
  the transaction and the checks pass.
\<close>

definition base_built :: "lib \<Rightarrow> tx_data \<Rightarrow> tx_options \<Rightarrow> base_fields \<Rightarrow> bool" where
  "base_built L td opts bf \<longleftrightarrow>
     (\<exists>toB. to_bytes L (td_to td) = Inr toB \<and> bf_to bf = nonempty toB \<and> (toB \<noteq> [] \<longrightarrow> length toB = 64)) \<and>
     map_sum id nonempty (read_bytes L (td_descriptor td)) = Inr (bf_descriptor bf) \<and>
     map_sum id nonempty (read_bytes L (td_extraParams td)) = Inr (bf_extraParams bf) \<and>
     map_sum id nonempty (read_bytes L (td_signature td)) = Inr (bf_signature bf) \<and>
     map_sum id nonempty (read_bytes L (td_publicKey td)) = Inr (bf_publicKey bf) \<and>
     read_int L (td_nonce td) = Inr (bf_nonce bf) \<and>
     read_int L (td_gasLimit td) = Inr (bf_gasLimit bf) \<and>
     read_int L (td_value td) = Inr (bf_value bf) \<and>
     read_bytes L (td_data td) = Inr (bf_data bf) \<and>
     bf_value bf \<le> MAX_INTEGER \<and> bf_gasLimit bf \<le> MAX_UINT64 \<and> bf_nonce bf < MAX_UINT64 \<and>
     (\<exists>c. (case to_common opts of Some c \<Rightarrow> Inr c | None \<Rightarrow> getCommon L None JUndef) = Inr c \<and>
       (bf_to bf = None \<and> to_allowUnlimitedInitCodeSize opts \<noteq> Some True \<longrightarrow>
         checkMaxInitCodeSize c (length (bf_data bf)) = Inr ()))"

lemma max_int_iff:
  "validateCannotExceedMaxInteger v 256 False = Inr () \<longleftrightarrow> v \<le> MAX_INTEGER"
  "validateCannotExceedMaxInteger v 64 False = Inr () \<longleftrightarrow> v \<le> MAX_UINT64"
  "validateCannotExceedMaxInteger v 64 True = Inr () \<longleftrightarrow> v < MAX_UINT64"
  by (auto simp: validateCannotExceedMaxInteger_def Let_def)

lemma map_sum_Inr_iff: "map_sum id f r = Inr y \<longleftrightarrow> (\<exists>x. r = Inr x \<and> y = f x)"
  by (cases r) auto

lemma base_constructor_iff: "base_constructor L td opts = Inr bf \<longleftrightarrow> base_built L td opts bf"
proof -
  have addr: "(if toB \<noteq> [] then map_sum id Some (new_Address toB) else Inr None) = Inr to \<longleftrightarrow>
      to = nonempty toB \<and> (toB \<noteq> [] \<longrightarrow> length toB = 64)" for toB to
    by (auto simp: new_Address_def ADDRESS_BYTES_def nonempty_def map_sum_Inr_iff split: if_splits)
  have guard: "(if P then r else Inr ()) = Inr () \<longleftrightarrow> (P \<longrightarrow> r = Inr ())" for P and r :: "js_error + unit"
    by simp
  show ?thesis
    unfolding base_constructor_def base_built_def
    by (cases bf) (auto simp: bindR_Inr_iff addr max_int_iff map_sum_Inr_iff guard)
qed

definition tx_built :: "lib \<Rightarrow> tx_data \<Rightarrow> tx_options \<Rightarrow> tx \<Rightarrow> bool" where
  "tx_built L td opts t \<longleftrightarrow>
     base_built L td opts \<lparr>bf_nonce = tx_nonce t, bf_gasLimit = tx_gasLimit t, bf_to = tx_to t,
       bf_value = tx_value t, bf_data = tx_bytes t, bf_descriptor = tx_descriptor t,
       bf_extraParams = tx_extraParams t, bf_signature = tx_signature t, bf_publicKey = tx_publicKey t\<rparr> \<and>
     getCommon L (to_common opts) (td_chainId td) = Inr (tx_common t) \<and>
     common_chainId (tx_common t) = Inr (tx_chainId t) \<and>
     getAccessListData L (nullish_or (td_accessList td) (JArr [])) =
       Inr (tx_accessList t, tx_AccessListJSON t) \<and>
     verifyAccessList (tx_accessList t) = Inr () \<and>
     read_int L (td_maxFeePerGas td) = Inr (tx_maxFeePerGas t) \<and>
     read_int L (td_maxPriorityFeePerGas td) = Inr (tx_maxPriorityFeePerGas t) \<and>
     tx_maxFeePerGas t \<le> MAX_INTEGER \<and>
     validateNotArray [td_nonce td, td_gasLimit td, td_to td, td_value td, td_data td, td_type td,
       td_maxFeePerGas td, td_chainId td] = Inr () \<and>
     tx_gasLimit t * tx_maxFeePerGas t \<le> MAX_INTEGER \<and>
     tx_maxPriorityFeePerGas t \<le> tx_maxFeePerGas t \<and>
     tx_type t = TRANSACTION_TYPE \<and> tx_txOptions t = opts \<and>
     tx_frozen t = (to_freeze opts \<noteq> Some False) \<and> tx_cachedHash t = None \<and> tx_cachedDataFee t = None"

lemma base_fields_eta:
  "\<lparr>bf_nonce = bf_nonce u, bf_gasLimit = bf_gasLimit u, bf_to = bf_to u, bf_value = bf_value u,
    bf_data = bf_data u, bf_descriptor = bf_descriptor u, bf_extraParams = bf_extraParams u,
    bf_signature = bf_signature u, bf_publicKey = bf_publicKey u\<rparr> = u"
  by simp

lemma fromTxData_iff: "fromTxData L td opts = Inr t \<longleftrightarrow> tx_built L td opts t"
proof
  assume "fromTxData L td opts = Inr t"
  then show "tx_built L td opts t"
    unfolding fromTxData_def tx_built_def
    by (auto simp: bindR_Inr_iff base_constructor_iff max_int_iff base_fields_eta
        split: if_splits prod.splits)
next
  assume "tx_built L td opts t"
  moreover from this have "tx_maxPriorityFeePerGas t \<le> MAX_INTEGER" by (auto simp: tx_built_def)
  ultimately show "fromTxData L td opts = Inr t"
    unfolding fromTxData_def tx_built_def base_constructor_iff [symmetric]
    by (cases t) (simp add: max_int_iff [THEN iffD2])
qed

text \<open>The conversions of the fields, for the values the code itself passes.\<close>

lemma read_simps [simp]:
  "read_bytes L (JBytes bs) = Inr bs" "read_bytes L JUndef = Inr []"
  by (simp_all add: read_bytes_def blank_def toUint8Array_def)

lemma read_int_bytes [simp]: "zod_ok L \<Longrightarrow> read_int L (JBytes bs) = Inr (int (be_nat bs))"
  by (simp add: read_int_def)

lemma toUint8Array_big:
  assumes "zod_ok L" "0 \<le> i"
  shows "\<exists>bs. toUint8Array L (JBig i) = Inr bs \<and> int (be_nat bs) = i"
proof -
  have h: "list_all is_hex_char (hex_str (nat i))" by (rule hex_str_hex)
  then have p: "list_all is_hex_char (padToEven (hex_str (nat i)))"
    "even (length (padToEven (hex_str (nat i))))"
    by (auto simp: padToEven_def is_digit_of_def)
  then have "padToEven (padToEven (hex_str (nat i))) = padToEven (hex_str (nat i))"
    by (simp add: padToEven_def even_iff_mod_2_eq_zero)
  with p assms even_hex [OF assms(1) p(1)] show ?thesis
    by (simp add: toUint8Array_def be_nat_bytes_of_hex)
qed

lemma read_int_big [simp]: "zod_ok L \<Longrightarrow> 0 \<le> i \<Longrightarrow> read_int L (JBig i) = Inr i"
  using toUint8Array_big [of L i]
  by (auto simp: read_int_def read_bytes_def blank_def)

lemma read_int_nonneg: "zod_ok L \<Longrightarrow> read_int L v = Inr i \<Longrightarrow> 0 \<le> i"
  by (auto simp: read_int_def bindR_Inr_iff)

lemma to_bytes_simps [simp]:
  "to_bytes L (JBytes bs) = Inr bs" "to_bytes L JUndef = Inr []"
  by (simp_all add: to_bytes_def toUint8Array_def)

lemma nonempty_simps [simp]:
  "nonempty [] = None" "nonempty bs \<noteq> Some []" "nonempty (or_empty b) = b \<longleftrightarrow> b \<noteq> Some []"
  by (auto simp: nonempty_def or_empty_def split: option.splits)

lemma common_chainId_copy [simp]: "common_chainId (copy c) = common_chainId c"
  by (simp add: common_chainId_def copy_def)

end
