(* ===== verification/TxWire.thy ===== *)
theory TxWire
  imports TxInv
begin

text \<open>
  Reading a transaction back from its own fields: what the factory, the wire format and signing share.
\<close>

section \<open>Access lists as bytes\<close>

fun is_JBytes :: "jsval \<Rightarrow> bool" where
  "is_JBytes (JBytes b) = True"
| "is_JBytes _ = False"

fun access_entry :: "jsval \<Rightarrow> bool" where
  "access_entry (JArr [JBytes a, JArr ks]) = list_all is_JBytes ks"
| "access_entry _ = False"

definition access_canonical :: "jsval \<Rightarrow> bool" where
  "access_canonical v = (case v of JArr items \<Rightarrow> list_all access_entry items | _ \<Rightarrow> False)"

lemma all_JBytes: "list_all is_JBytes ks \<Longrightarrow> \<exists>bs. ks = map JBytes bs"
proof (induction ks)
  case (Cons k ks)
  then obtain b bs where "k = JBytes b" "ks = map JBytes bs" by (auto elim: is_JBytes.elims)
  then have "k # ks = map JBytes (b # bs)" by simp
  then show ?case by (rule exI [of _ "b # bs"])
qed simp

lemma access_entryE:
  assumes "access_entry v"
  obtains a ks where "v = JArr [JBytes a, JArr (map JBytes ks)]"
  using assms that by (auto elim!: access_entry.elims(2) dest: all_JBytes)

lemma access_canonicalE:
  assumes "access_canonical v"
  obtains items where "v = JArr items" "list_all access_entry items"
  using assms unfolding access_canonical_def by (cases v) auto

lemma rlp_value_canonical: "access_canonical v \<Longrightarrow> rlp_value v"
  by (elim access_canonicalE) (auto simp: list_all_iff elim!: access_entryE)

lemma access_item_json_entry:
  assumes "zod_ok L" "access_entry v"
  shows "\<exists>j. access_item_json L v = Inr j"
proof -
  obtain a ks where v: "v = JArr [JBytes a, JArr (map JBytes ks)]" using assms(2) by (rule access_entryE)
  have "mapR (bytesToHex L) (map JBytes ks) = Inr (map (\<lambda>b. ''0x'' @ hex_of_bytes b) ks)"
    using assms(1) by (induction ks) simp_all
  then show ?thesis
    using assms(1) v by (simp add: access_item_json_def js_at_def js_items_def isNullish_def)
qed

text \<open>The canonical form is kept as it is.\<close>

lemma getAccessListData_canonical:
  assumes "zod_ok L" "access_canonical v"
  shows "\<exists>js. getAccessListData L v = Inr (v, js)"
proof -
  obtain items where v: "v = JArr items" and items: "list_all access_entry items"
    using assms(2) by (rule access_canonicalE)
  obtain f where "\<And>x. x \<in> set items \<Longrightarrow> access_item_json L x = Inr (f x)"
    using items access_item_json_entry [OF assms(1)] unfolding list_all_iff by metis
  then have "mapR (access_item_json L) items = Inr (map f items)" by (rule mapR_all_Inr)
  moreover have "isAccessList v = Inr False"
    using items v
    by (cases items) (auto simp: isAccessList_def isAccessListUint8Array_def js_items_def isNullish_def
        isArray_def elim!: access_entryE)
  ultimately show ?thesis using v
    by (auto simp: getAccessListData_def js_items_def isNullish_def)
qed

text \<open>A list given as JSON becomes canonical.\<close>

lemma access_item_bytes_entry: "access_item_bytes L item = Inr v \<Longrightarrow> access_entry v"
  by (auto simp: access_item_bytes_def bindR_Inr_iff list_all_iff split: if_splits)

lemma mapR_list_all: "mapR f xs = Inr ys \<Longrightarrow> (\<And>x y. f x = Inr y \<Longrightarrow> P y) \<Longrightarrow> list_all P ys"
  unfolding mapR_Inr_iff by (induction rule: list_all2_induct) simp_all

lemma getAccessListData_json:
  assumes "isAccessList v = Inr True" "getAccessListData L v = Inr (b, j)"
  shows "access_canonical b \<and> j = v"
  using assms
  by (auto simp: getAccessListData_def bindR_Inr_iff map_sum_Inr_iff access_canonical_def
      intro: mapR_list_all [OF _ access_item_bytes_entry])

section \<open>Reading the fields back\<close>

lemma map_nonempty: "map_sum id nonempty r = Inr b \<Longrightarrow> b \<noteq> Some []"
  by (auto simp: map_sum_Inr_iff nonempty_def split: if_splits)

lemma tx_wf_built:
  assumes L: "zod_ok L" and t: "tx_built L td opts t"
  shows "tx_wf t"
proof -
  have b: "base_built L td opts \<lparr>bf_nonce = tx_nonce t, bf_gasLimit = tx_gasLimit t, bf_to = tx_to t,
       bf_value = tx_value t, bf_data = tx_bytes t, bf_descriptor = tx_descriptor t,
       bf_extraParams = tx_extraParams t, bf_signature = tx_signature t, bf_publicKey = tx_publicKey t\<rparr>"
    using t by (simp add: tx_built_def)
  have ints: "read_int L (td_nonce td) = Inr (tx_nonce t)" "read_int L (td_gasLimit td) = Inr (tx_gasLimit t)"
    "read_int L (td_value td) = Inr (tx_value t)" "read_int L (td_maxFeePerGas td) = Inr (tx_maxFeePerGas t)"
    "read_int L (td_maxPriorityFeePerGas td) = Inr (tx_maxPriorityFeePerGas t)"
    using b t by (simp_all add: base_built_def tx_built_def)
  have opts': "map_sum id nonempty (read_bytes L (td_descriptor td)) = Inr (tx_descriptor t)"
    "map_sum id nonempty (read_bytes L (td_extraParams td)) = Inr (tx_extraParams t)"
    "map_sum id nonempty (read_bytes L (td_signature td)) = Inr (tx_signature t)"
    "map_sum id nonempty (read_bytes L (td_publicKey td)) = Inr (tx_publicKey t)"
    using b by (simp_all add: base_built_def)
  have to: "\<forall>a. tx_to t = Some a \<longrightarrow> length a = 64"
    using b by (auto simp: base_built_def nonempty_def split: if_splits)
  have bounds: "tx_value t \<le> MAX_INTEGER" "tx_gasLimit t \<le> MAX_UINT64" "tx_nonce t < MAX_UINT64"
    using b by (simp_all add: base_built_def)
  have "verifyAccessList (tx_accessList t) = Inr ()" "common_chainId (tx_common t) = Inr (tx_chainId t)"
    "tx_maxFeePerGas t \<le> MAX_INTEGER" "tx_gasLimit t * tx_maxFeePerGas t \<le> MAX_INTEGER"
    "tx_maxPriorityFeePerGas t \<le> tx_maxFeePerGas t"
    using t by (simp_all add: tx_built_def)
  with to bounds show ?thesis
    using ints [THEN read_int_nonneg [OF L]] opts' [THEN map_nonempty] by (simp add: tx_wf_def)
qed

text \<open>The init code of a transaction that creates a contract is within the bounds of its chain.\<close>

definition initcode_ok :: "lib \<Rightarrow> tx_options \<Rightarrow> tx \<Rightarrow> bool" where
  "initcode_ok L opts t \<longleftrightarrow>
     (\<exists>c. (case to_common opts of Some c \<Rightarrow> Inr c | None \<Rightarrow> getCommon L None JUndef) = Inr c \<and>
       (tx_to t = None \<and> to_allowUnlimitedInitCodeSize opts \<noteq> Some True \<longrightarrow>
         checkMaxInitCodeSize c (length (tx_bytes t)) = Inr ()))"

text \<open>The values of a transaction, with other ones for what a signature adds.\<close>

definition gives_back :: "lib \<Rightarrow> tx_data \<Rightarrow> tx \<Rightarrow> bool" where
  "gives_back L td t \<longleftrightarrow>
     to_bytes L (td_to td) = Inr (or_empty (tx_to t)) \<and>
     read_int L (td_nonce td) = Inr (tx_nonce t) \<and> read_int L (td_gasLimit td) = Inr (tx_gasLimit t) \<and>
     read_int L (td_value td) = Inr (tx_value t) \<and> read_bytes L (td_data td) = Inr (tx_bytes t) \<and>
     read_int L (td_maxFeePerGas td) = Inr (tx_maxFeePerGas t) \<and>
     read_int L (td_maxPriorityFeePerGas td) = Inr (tx_maxPriorityFeePerGas t) \<and>
     td_accessList td = tx_accessList t \<and>
     validateNotArray [td_nonce td, td_gasLimit td, td_to td, td_value td, td_data td, td_type td,
       td_maxFeePerGas td, td_chainId td] = Inr ()"

lemma rebuild:
  assumes L: "zod_ok L" and t: "tx_wf t" "access_canonical (tx_accessList t)" "gives_back L td t"
    and c: "getCommon L (to_common opts) (td_chainId td) = Inr c" "common_chainId c = Inr (tx_chainId t)"
    and init: "initcode_ok L opts t"
    and parts: "read_bytes L (td_descriptor td) = Inr d" "read_bytes L (td_extraParams td) = Inr e"
      "read_bytes L (td_signature td) = Inr s" "read_bytes L (td_publicKey td) = Inr pk"
  obtains js where "fromTxData L td opts = Inr (t\<lparr>tx_type := TRANSACTION_TYPE, tx_AccessListJSON := js,
      tx_descriptor := nonempty d, tx_extraParams := nonempty e, tx_signature := nonempty s,
      tx_publicKey := nonempty pk, tx_common := c, tx_txOptions := opts,
      tx_frozen := to_freeze opts \<noteq> Some False, tx_cachedHash := None, tx_cachedDataFee := None\<rparr>)"
proof -
  obtain js where js: "getAccessListData L (tx_accessList t) = Inr (tx_accessList t, js)"
    using getAccessListData_canonical [OF L t(2)] by blast
  have acc: "nullish_or (tx_accessList t) (JArr []) = tx_accessList t"
    using t(2) by (elim access_canonicalE) (simp add: nullish_or_def isNullish_def)
  have to: "tx_to t = nonempty (or_empty (tx_to t))" "or_empty (tx_to t) \<noteq> [] \<longrightarrow> length (or_empty (tx_to t)) = 64"
    using t(1) by (auto simp: tx_wf_def nonempty_def or_empty_def split: option.splits)
  show ?thesis
    using assms(2-) js acc to
    by (intro that [of js]) (simp add: fromTxData_iff tx_built_def base_built_def gives_back_def
        initcode_ok_def tx_wf_def)
qed

end
