(* ===== verification/TxRead.thy ===== *)
theory TxRead
  imports TxWire
begin

text \<open>
  The chain of a transaction found again from its id, and the fields of a transaction read back from
  what is serialized and signed.
\<close>

section \<open>The chain of a transaction read back\<close>

lemma setHardfork_params: "setHardfork h c = Inr c' \<Longrightarrow> cm_chainParams c' = cm_chainParams c"
  by (auto simp: setHardfork_def split: if_splits)

lemma setQIPs_params: "setQIPs qs c = Inr c' \<Longrightarrow> cm_chainParams c' = cm_chainParams c"
  by (auto simp: setQIPs_def bindR_Inr_iff)

lemma new_Common_params:
  assumes "new_Common opts = Inr c"
  shows "setChain (op_chain opts) (op_customChains opts) = Inr (cm_chainParams c)"
  using assms
  by (auto simp: new_Common_def Let_def bindR_Inr_iff dest!: setHardfork_params setQIPs_params
      split: option.splits)

lemma setChain_config: "setChain (ByConfig ch) cs = Inr ch' \<Longrightarrow> ch' = ch"
  by (auto simp: setChain_def bindR_Inr_iff split: if_splits)

lemma default_chain:
  assumes "new_Common (chain_opts (ById (ChainNum 1))) = Inr c"
  shows "common_chainId c = Inr 1"
proof -
  have "setChain (ById (ChainNum 1)) [] = Inr (cm_chainParams c)"
    using new_Common_params [OF assms] by (simp add: chain_opts_def)
  moreover have "map_sum id ch_chainId (setChain (ById (ChainNum 1)) []) = Inr (Some 1)"
    by code_simp
  ultimately show ?thesis by (simp add: common_chainId_def big_field_def)
qed

lemma custom_chain:
  assumes "custom (CustomDict d) b h None = Inr c" "ch_chainId d = Some i"
  shows "common_chainId c = Inr i"
proof -
  obtain std where "new_Common \<lparr>op_chain = ByConfig (spread_chain (std\<lparr>ch_name := Some ''custom-chain''\<rparr>) d),
      op_hardfork = h, op_qips = None, op_customChains = []\<rparr> = Inr c"
    using assms(1) by (auto simp: custom_def bindR_Inr_iff)
  from new_Common_params [OF this]
  have "cm_chainParams c = spread_chain (std\<lparr>ch_name := Some ''custom-chain''\<rparr>) d"
    by (auto dest: setChain_config)
  with assms(2) show ?thesis
    by (simp add: common_chainId_def spread_chain_def or_field_def big_field_def)
qed

lemma supported_chain: "0 \<le> i \<Longrightarrow> isSupportedChainId i \<Longrightarrow> i = 1"
proof -
  assume i: "0 \<le> i" and s: "isSupportedChainId i"
  then have "digits_val 10 (int_str 10 i) = digits_val 10 ''1''" by (simp add: isSupportedChainId_def)
  moreover have "digits_val 10 (int_str 10 i) = nat i" using i by (simp add: int_str_def)
  moreover have "digits_val 10 ''1'' = 1" by code_simp
  ultimately show "i = 1" using i by simp
qed

lemma getCommon_again:
  assumes L: "zod_ok L" and c: "getCommon L co v = Inr c" and i: "common_chainId c = Inr i" "0 \<le> i"
  shows "getCommon L co (JBig i) = Inr c"
proof -
  have rd: "bindR (toUint8Array L (JBig i)) (uint8ArrayToBigInt L) = Inr i"
    using read_int_big [OF L i(2)] by (simp add: read_int_def read_bytes_def blank_def)
  show ?thesis
  proof (cases co)
    case (Some co')
    then have "c = copy co'" using c by (auto simp: getCommon_def bindR_Inr_iff split: if_splits)
    with Some rd i show ?thesis by (simp add: getCommon_def)
  next
    case None
    have "isSupportedChainId 1" by code_simp
    show ?thesis
    proof (cases "v = JUndef")
      case True
      then have n: "new_Common (chain_opts (ById (ChainNum 1))) = Inr c"
        using c None by (simp add: getCommon_def DEFAULT_CHAIN_def)
      with default_chain i have "i = 1" by force
      with rd n \<open>isSupportedChainId 1\<close> None show ?thesis by (simp add: getCommon_def)
    next
      case False
      then obtain j where j: "bindR (toUint8Array L v) (uint8ArrayToBigInt L) = Inr j"
        using c by (auto simp: getCommon_def bindR_Inr_iff)
      then have "0 \<le> j" using L by (auto simp: bindR_Inr_iff)
      show ?thesis
      proof (cases "isSupportedChainId j")
        case True
        then have "j = 1" using \<open>0 \<le> j\<close> supported_chain by blast
        then have n: "new_Common (chain_opts (ById (ChainNum 1))) = Inr c"
          using c None False j True by (simp add: getCommon_def)
        with default_chain i have "i = 1" by force
        with rd n \<open>isSupportedChainId 1\<close> None show ?thesis by (simp add: getCommon_def)
      next
        case notsup: False
        then have n: "custom (CustomDict \<lparr>ch_name = Some ''custom-chain'', ch_chainId = Some j,
            ch_networkId = Some j, ch_defaultHardfork = None, ch_genesis = None, ch_hardforks = None,
            ch_bootstrapNodes = None, ch_dnsNetworks = None, ch_consensus = None\<rparr>)
            (Some DEFAULT_CHAIN) (Some ''zond'') None = Inr c"
          using c None False j by (simp add: getCommon_def)
        from custom_chain [OF this] i have "i = j" by simp
        with rd n notsup None show ?thesis by (simp add: getCommon_def)
      qed
    qed
  qed
qed

section \<open>The wire format\<close>

text \<open>The minimal bytes of the integers of a transaction.\<close>

definition min_bytes :: "lib \<Rightarrow> int \<Rightarrow> bytes" where
  "min_bytes L i = (case bigIntToUnpaddedUint8Array L i of Inr bs \<Rightarrow> bs | Inl _ \<Rightarrow> [])"

lemma min_bytes:
  assumes "zod_ok L" "0 \<le> i"
  shows "bigIntToUnpaddedUint8Array L i = Inr (min_bytes L i)" "int (be_nat (min_bytes L i)) = i"
    "min_bytes L i = [] \<or> hd (min_bytes L i) \<noteq> 0"
  using unpadded [OF assms] by (force simp: min_bytes_def)+

lemma raw_wf:
  assumes L: "zod_ok L" and t: "tx_wf t" "0 \<le> tx_chainId t"
  obtains c n p m g v where
    "raw L t = Inr [JBytes c, JBytes n, JBytes p, JBytes m, JBytes g, opt_bytes (tx_to t), JBytes v,
       JBytes (tx_bytes t), tx_accessList t, opt_bytes (tx_descriptor t), opt_bytes (tx_extraParams t),
       opt_bytes (tx_signature t), opt_bytes (tx_publicKey t)]"
    "int (be_nat c) = tx_chainId t" "int (be_nat n) = tx_nonce t"
    "int (be_nat p) = tx_maxPriorityFeePerGas t" "int (be_nat m) = tx_maxFeePerGas t"
    "int (be_nat g) = tx_gasLimit t" "int (be_nat v) = tx_value t"
    "\<forall>b \<in> {c, n, p, m, g, v}. b = [] \<or> hd b \<noteq> 0"
proof -
  have nn: "0 \<le> tx_nonce t" "0 \<le> tx_gasLimit t" "0 \<le> tx_value t" "0 \<le> tx_maxPriorityFeePerGas t"
    "0 \<le> tx_maxFeePerGas t"
    using t(1) by (simp_all add: tx_wf_def)
  show ?thesis
  proof (rule that)
    show "raw L t = Inr [JBytes (min_bytes L (tx_chainId t)), JBytes (min_bytes L (tx_nonce t)),
        JBytes (min_bytes L (tx_maxPriorityFeePerGas t)), JBytes (min_bytes L (tx_maxFeePerGas t)), JBytes (min_bytes L (tx_gasLimit t)),
        opt_bytes (tx_to t), JBytes (min_bytes L (tx_value t)), JBytes (tx_bytes t), tx_accessList t,
        opt_bytes (tx_descriptor t), opt_bytes (tx_extraParams t), opt_bytes (tx_signature t),
        opt_bytes (tx_publicKey t)]"
      using nn t(2) by (simp add: raw_def min_bytes(1) [OF L] numeral_nat)
    show "\<forall>b \<in> {min_bytes L (tx_chainId t), min_bytes L (tx_nonce t), min_bytes L (tx_maxPriorityFeePerGas t), min_bytes L (tx_maxFeePerGas t),
        min_bytes L (tx_gasLimit t), min_bytes L (tx_value t)}. b = [] \<or> hd b \<noteq> 0"
      using nn [THEN min_bytes(3) [OF L]] min_bytes(3) [OF L t(2)] by blast
  qed (use nn t(2) min_bytes(2) [OF L] in simp_all)
qed

lemma built_initcode: "tx_built L td opts t \<Longrightarrow> initcode_ok L opts t"
  by (simp add: tx_built_def base_built_def initcode_ok_def)

lemma read_back:
  assumes L: "zod_ok L" and t: "tx_wf t" "access_canonical (tx_accessList t)" "0 \<le> tx_chainId t"
    and c: "getCommon L (to_common opts) (JBig (tx_chainId t)) = Inr (tx_common t)"
    and init: "initcode_ok L opts t" and raw: "raw L t = Inr vs"
  obtains js where "fromValuesArray L vs opts = Inr (t\<lparr>tx_type := TRANSACTION_TYPE,
      tx_AccessListJSON := js, tx_txOptions := opts, tx_frozen := to_freeze opts \<noteq> Some False,
      tx_cachedHash := None, tx_cachedDataFee := None\<rparr>)"
proof -
  obtain c' n p m g v where vs: "vs = [JBytes c', JBytes n, JBytes p, JBytes m, JBytes g,
       opt_bytes (tx_to t), JBytes v, JBytes (tx_bytes t), tx_accessList t, opt_bytes (tx_descriptor t),
       opt_bytes (tx_extraParams t), opt_bytes (tx_signature t), opt_bytes (tx_publicKey t)]"
    and vals: "int (be_nat c') = tx_chainId t" "int (be_nat n) = tx_nonce t"
      "int (be_nat p) = tx_maxPriorityFeePerGas t" "int (be_nat m) = tx_maxFeePerGas t"
      "int (be_nat g) = tx_gasLimit t" "int (be_nat v) = tx_value t"
    and lead: "\<forall>b \<in> {c', n, p, m, g, v}. b = [] \<or> hd b \<noteq> 0"
    using raw_wf [OF L t(1,3)] raw by (metis sum.inject(2))
  have opt: "opt_bytes b = JBytes (or_empty b)" for b by (simp add: opt_bytes_def or_empty_def)
  have nz: "b = [] \<or> hd b \<noteq> 0 \<Longrightarrow> (case b of [] \<Rightarrow> True | x # xs \<Rightarrow> x \<noteq> 0)" for b :: bytes
    by (cases b) auto
  have zero: "validateNoLeadingZeroes [zero_checked ''chainId'' (JBytes c'), zero_checked ''nonce'' (JBytes n),
      zero_checked ''maxPriorityFeePerGas'' (JBytes p), zero_checked ''maxFeePerGas'' (JBytes m),
      zero_checked ''gasLimit'' (JBytes g), zero_checked ''value'' (JBytes v)] = Inr ()"
    unfolding validateNoLeadingZeroes_iff using lead nz by (simp add: zero_checked_def)
  have chain: "bindR (bytesToHex L (JBytes c')) (\<lambda>hex. if hex = ''0x'' then Inr 0 else js_BigInt (JStr hex)) =
      Inr (tx_chainId t)"
    using uint8ArrayToBigInt_val [OF L, of c'] vals(1) by (simp only: uint8ArrayToBigInt_def)
  have acc: "nullish_or (tx_accessList t) (JArr []) = tx_accessList t"
    using t(2) by (elim access_canonicalE) (simp add: nullish_or_def isNullish_def)
  define td where "td = \<lparr>td_chainId = JBig (tx_chainId t), td_nonce = JBytes n, td_gasLimit = JBytes g,
    td_to = opt_bytes (tx_to t), td_value = JBytes v, td_data = JBytes (tx_bytes t),
    td_accessList = tx_accessList t, td_maxPriorityFeePerGas = JBytes p, td_maxFeePerGas = JBytes m,
    td_descriptor = opt_bytes (tx_descriptor t), td_extraParams = opt_bytes (tx_extraParams t),
    td_signature = opt_bytes (tx_signature t), td_publicKey = opt_bytes (tx_publicKey t), td_type = JUndef\<rparr>"
  have from_vs: "fromValuesArray L vs opts = fromTxData L td opts"
    unfolding fromValuesArray_def vs
    by (simp add: Let_def zero chain acc td_def numeral_nat validateNotArray_def isArray_def)
  have gb: "gives_back L td t"
    using L vals by (simp add: gives_back_def td_def opt validateNotArray_def isArray_def)
  have "getCommon L (to_common opts) (td_chainId td) = Inr (tx_common t)"
    "common_chainId (tx_common t) = Inr (tx_chainId t)"
    using c t(1) by (simp_all add: td_def tx_wf_def)
  from rebuild [OF L t(1,2) gb this init, of "or_empty (tx_descriptor t)" "or_empty (tx_extraParams t)"
      "or_empty (tx_signature t)" "or_empty (tx_publicKey t)"]
  obtain js where "fromTxData L td opts = Inr (t\<lparr>tx_type := TRANSACTION_TYPE, tx_AccessListJSON := js,
      tx_descriptor := nonempty (or_empty (tx_descriptor t)),
      tx_extraParams := nonempty (or_empty (tx_extraParams t)),
      tx_signature := nonempty (or_empty (tx_signature t)),
      tx_publicKey := nonempty (or_empty (tx_publicKey t)), tx_common := tx_common t, tx_txOptions := opts,
      tx_frozen := to_freeze opts \<noteq> Some False, tx_cachedHash := None, tx_cachedDataFee := None\<rparr>)"
    by (auto simp: td_def opt)
  moreover have "nonempty (or_empty (tx_descriptor t)) = tx_descriptor t"
    "nonempty (or_empty (tx_extraParams t)) = tx_extraParams t"
    "nonempty (or_empty (tx_signature t)) = tx_signature t"
    "nonempty (or_empty (tx_publicKey t)) = tx_publicKey t"
    using t(1) by (simp_all add: tx_wf_def)
  ultimately show ?thesis using from_vs that [of js] by (cases t) simp
qed

end
