(* ===== verification/TxProps.thy ===== *)
theory TxProps
  imports TxRead
begin

text \<open>
  The properties of transactions: construction, the wire format, signing, the caches and the fees.
\<close>

section \<open>Functions of the other packages that behave as documented\<close>

text \<open>A self-delimiting encoding, and a wallet whose signatures carry the message.\<close>

fun ref_rlp_encode :: "jsval \<Rightarrow> bytes" where
  "ref_rlp_encode (JBytes bs) = 1 # concat (map (\<lambda>b. [1, b]) bs) @ [0]"
| "ref_rlp_encode (JArr vs) = 2 # concat (map ref_rlp_encode vs) @ [0]"
| "ref_rlp_encode _ = []"

fun ref_rlp_bytes :: "bytes \<Rightarrow> (bytes \<times> bytes) option" where
  "ref_rlp_bytes [] = None"
| "ref_rlp_bytes [b] = (if b = 0 then Some ([], []) else None)"
| "ref_rlp_bytes (b # c # r) =
     (if b = 0 then Some ([], c # r) else map_option (\<lambda>(bs, r'). (c # bs, r')) (ref_rlp_bytes r))"

fun ref_rlp_value :: "nat \<Rightarrow> bytes \<Rightarrow> (jsval \<times> bytes) option"
  and ref_rlp_values :: "nat \<Rightarrow> bytes \<Rightarrow> (jsval list \<times> bytes) option" where
  "ref_rlp_value (Suc n) (b # r) =
     (if b = 1 then map_option (\<lambda>(bs, r'). (JBytes bs, r')) (ref_rlp_bytes r)
      else map_option (\<lambda>(vs, r'). (JArr vs, r')) (ref_rlp_values n r))"
| "ref_rlp_value n r = None"
| "ref_rlp_values (Suc n) r =
     (if r \<noteq> [] \<and> hd r = 0 then Some ([], tl r)
      else case ref_rlp_value n r of
        None \<Rightarrow> None
      | Some (v, r') \<Rightarrow> map_option (\<lambda>(vs, r''). (v # vs, r'')) (ref_rlp_values n r'))"
| "ref_rlp_values 0 r = None"

lemma ref_rlp_bytes_enc: "ref_rlp_bytes (concat (map (\<lambda>b. [1, b]) bs) @ 0 # r) = Some (bs, r)"
  by (induction bs) (cases r, simp_all)

lemma ref_rlp_head: "rlp_value v \<Longrightarrow> \<exists>b bs. ref_rlp_encode v = b # bs \<and> bs \<noteq> [] \<and> b \<noteq> 0"
  by (cases v rule: rlp_value.cases) auto

lemma ref_rlp_values_enc:
  assumes "\<And>v n r. v \<in> set vs \<Longrightarrow> rlp_value v \<Longrightarrow> length (ref_rlp_encode v) \<le> n \<Longrightarrow>
      ref_rlp_value n (ref_rlp_encode v @ r) = Some (v, r)"
    and "list_all rlp_value vs" and "length (concat (map ref_rlp_encode vs)) < n"
  shows "ref_rlp_values n (concat (map ref_rlp_encode vs) @ 0 # r) = Some (vs, r)"
  using assms
proof (induction vs arbitrary: n)
  case Nil
  then show ?case by (cases n) simp_all
next
  case (Cons v vs)
  then obtain m where n: "n = Suc m" by (cases n) auto
  obtain b bs where v: "ref_rlp_encode v = b # bs" "bs \<noteq> []" "b \<noteq> 0"
    using Cons.prems(2) ref_rlp_head [of v] by auto
  have "ref_rlp_value m (ref_rlp_encode v @ concat (map ref_rlp_encode vs) @ 0 # r) =
      Some (v, concat (map ref_rlp_encode vs) @ 0 # r)"
    using Cons.prems n by auto
  moreover have "ref_rlp_values m (concat (map ref_rlp_encode vs) @ 0 # r) = Some (vs, r)"
    using Cons.prems n v(1) by (intro Cons.IH) auto
  ultimately show ?case using n v by simp
qed

lemma ref_rlp_value_enc:
  "rlp_value v \<Longrightarrow> length (ref_rlp_encode v) \<le> n \<Longrightarrow> ref_rlp_value n (ref_rlp_encode v @ r) = Some (v, r)"
proof (induction v arbitrary: n r rule: ref_rlp_encode.induct)
  case (1 bs)
  then obtain m where "n = Suc m" by (cases n) auto
  then show ?case by (simp add: ref_rlp_bytes_enc)
next
  case (2 vs)
  then obtain m where "n = Suc m" by (cases n) auto
  with 2 ref_rlp_values_enc [of vs m r] show ?case by simp
qed simp_all

definition tx_ref :: tx_lib where
  "tx_ref =
     \<lparr>rlp_encode = ref_rlp_encode,
      rlp_decode = (\<lambda>bs. case ref_rlp_value (length bs) bs of
        Some (v, []) \<Rightarrow> Inr v | _ \<Rightarrow> Inl (js_Error ''RLP'')),
      wl_open = (\<lambda>seed. if length seed = 51 then Inr () else Inl (js_Error ''seed'')),
      wl_descriptor = take 3, wl_pk = drop 3, wl_sign = (\<lambda>seed msg. 7 # msg),
      wl_descriptor_type = (\<lambda>d. Inr 1),
      wl_verify = (\<lambda>s m pk d. Inr (s = 7 # m)), wl_ML_DSA_87 = 1, wl_publicKeyBytes = 48\<rparr>"

definition no_data :: tx_data where
  "no_data = \<lparr>td_chainId = JUndef, td_nonce = JUndef, td_gasLimit = JUndef, td_to = JUndef,
     td_value = JUndef, td_data = JUndef, td_accessList = JUndef, td_maxPriorityFeePerGas = JUndef,
     td_maxFeePerGas = JUndef, td_descriptor = JUndef, td_extraParams = JUndef, td_signature = JUndef,
     td_publicKey = JUndef, td_type = JUndef\<rparr>"

definition no_opts :: tx_options where
  "no_opts = \<lparr>to_common = None, to_freeze = None, to_allowUnlimitedInitCodeSize = None\<rparr>"

definition sample_data :: tx_data where
  "sample_data = no_data\<lparr>td_nonce := JBig 3, td_gasLimit := JBig 90000, td_maxFeePerGas := JBig 7,
     td_maxPriorityFeePerGas := JBig 2, td_value := JBig 1000, td_data := JBytes [0, 5, 0],
     td_accessList := JArr [JArr [JBytes (replicate 64 1), JArr [JBytes (replicate 32 2)]]]\<rparr>"

lemma tx_ref_ok: "rlp_ok tx_ref" "wallet_ok tx_ref"
proof -
  have "ref_rlp_value (length (ref_rlp_encode v)) (ref_rlp_encode v) = Some (v, [])" if "rlp_value v" for v
    using ref_rlp_value_enc [OF that order_refl, of "[]"] by simp
  then show "rlp_ok tx_ref" by (simp add: rlp_ok_def tx_ref_def)
  show "wallet_ok tx_ref" by (auto simp: wallet_ok_def tx_ref_def split: if_splits)
qed

lemma sample_common: "case new_Common (chain_opts (ById DEFAULT_CHAIN)) of
    Inr c \<Rightarrow> checkMaxInitCodeSize c 3 = Inr () \<and> common_chainId c = Inr 1 \<and> hardfork c = ''zond''
  | Inl _ \<Rightarrow> False"
  by code_simp

lemma sample_built:
  obtains t where "fromTxData lib_ref sample_data no_opts = Inr t" "access_canonical (tx_accessList t)"
    "tx_chainId t = 1" "tx_to t = None" "tx_bytes t = [0, 5, 0]" "tx_accessList t = td_accessList sample_data"
    "tx_common t = (case new_Common (chain_opts (ById DEFAULT_CHAIN)) of Inr c \<Rightarrow> c)"
proof -
  obtain c where c: "new_Common (chain_opts (ById DEFAULT_CHAIN)) = Inr c"
    "checkMaxInitCodeSize c 3 = Inr ()" "common_chainId c = Inr 1"
    using sample_common by (auto split: sum.splits)
  let ?al = "td_accessList sample_data"
  have canon: "access_canonical ?al" by (simp add: sample_data_def access_canonical_def)
  obtain js where js: "getAccessListData lib_ref ?al = Inr (?al, js)"
    using getAccessListData_canonical [OF lib_ref_zod canon] by blast
  have ver: "verifyAccessList ?al = Inr ()" by code_simp
  have acc: "nullish_or ?al (JArr []) = ?al" by (simp add: sample_data_def nullish_or_def isNullish_def)
  define t where "t = \<lparr>tx_type = TRANSACTION_TYPE, tx_chainId = 1, tx_nonce = 3,
     tx_maxPriorityFeePerGas = 2, tx_maxFeePerGas = 7, tx_gasLimit = 90000, tx_to = None, tx_value = 1000,
     tx_bytes = [0, 5, 0], tx_accessList = ?al, tx_AccessListJSON = js, tx_descriptor = None,
     tx_extraParams = None, tx_signature = None, tx_publicKey = None, tx_common = c,
     tx_txOptions = no_opts, tx_frozen = True, tx_cachedHash = None, tx_cachedDataFee = None\<rparr>"
  have "tx_built lib_ref sample_data no_opts t"
    using c js ver acc lib_ref_zod
    by (simp add: tx_built_def base_built_def t_def no_opts_def sample_data_def no_data_def getCommon_def
        validateNotArray_def isArray_def MAX_INTEGER_def MAX_UINT64_def eval_nat_numeral)
  then show ?thesis
    using canon c(1) by (intro that [of t]) (simp_all add: fromTxData_iff t_def)
qed

section \<open>Construction and the wire format\<close>

lemma Factory_source: "Factory_fromTxData L td opts = Inr t \<Longrightarrow> \<exists>td opts. fromTxData L td opts = Inr t"
  by (auto simp: Factory_fromTxData_def bindR_Inr_iff split: if_splits)

lemma values_source: "fromValuesArray L vs opts = Inr t \<Longrightarrow> \<exists>td opts. fromTxData L td opts = Inr t"
  by (auto simp: fromValuesArray_def Let_def bindR_Inr_iff simp del: value_at.simps split: if_splits)

lemma serialized_source:
  assumes "fromSerializedData L T data opts = Inr t"
  shows "\<exists>td opts. fromTxData L td opts = Inr t"
proof -
  have "fromSerializedTx L T data opts = Inr t"
    using assms by (auto simp: fromSerializedData_def split: list.splits if_splits)
  then obtain v where "(case v of JArr vs \<Rightarrow> fromValuesArray L vs opts
      | _ \<Rightarrow> Inl (js_Error ''Invalid serialized tx input: must be array'')) = Inr t"
    unfolding fromSerializedTx_def bindR_def by (auto split: if_splits sum.splits)
  then show ?thesis by (cases v) (auto dest: values_source)
qed

lemma sign_source: "sign L T seed u = Inr t \<Longrightarrow> \<exists>td opts. fromTxData L td opts = Inr t"
  by (auto simp: sign_def processAuthValues_def Let_def bindR_Inr_iff split: if_splits)

text \<open>
  C12: Every transaction the factory and the constructor return, from loose values or from its wire format,
  is well formed: integers within their bounds, fees in order and within 256 bits in total, an
  address of the right length or none, no empty optional field, a verified access list, and the chain
  id of its chain.
\<close>

theorem tx_well_formed:
  assumes "zod_ok L"
    and "fromTxData L td opts = Inr t \<or> Factory_fromTxData L td opts = Inr t \<or>
      fromSerializedData L T data opts = Inr t \<or> sign L T seed u = Inr t"
  shows "tx_wf t"
proof -
  have "\<exists>td opts. fromTxData L td opts = Inr t"
    using assms(2)
    by (elim disjE) (blast intro: Factory_source serialized_source sign_source)+
  with assms(1) show ?thesis by (auto simp: fromTxData_iff dest: tx_wf_built)
qed

theorem tx_well_formed_witness:
  "\<exists>t. fromTxData lib_ref sample_data no_opts = Inr t \<and> tx_wf t"
  by (rule sample_built) (blast intro: tx_well_formed [OF lib_ref_zod])

text \<open>
  C8: Reading back a serialized transaction gives the transaction again, up to the JSON form of its access
  list, which is computed afresh.
\<close>

theorem serialized_roundtrip:
  assumes "zod_ok L" and "rlp_ok T" and "fromTxData L td opts = Inr t"
    and "access_canonical (tx_accessList t)" and "0 \<le> tx_chainId t"
  shows "\<exists>s js. serialize L T t = Inr s \<and>
    fromSerializedData L T s opts = Inr (t\<lparr>tx_AccessListJSON := js\<rparr>)"
proof -
  have built: "tx_built L td opts t" using assms(3) by (simp add: fromTxData_iff)
  have wf: "tx_wf t" using tx_wf_built [OF assms(1) built] .
  obtain vs where raw: "raw L t = Inr vs" and vs: "rlp_value (JArr vs)"
    by (rule raw_wf [OF assms(1) wf assms(5)]) (simp add: rlp_value_canonical [OF assms(4)] opt_bytes_def)
  have "getCommon L (to_common opts) (JBig (tx_chainId t)) = Inr (tx_common t)"
    using getCommon_again [OF assms(1) _ _ assms(5)] built by (auto simp: tx_built_def)
  from read_back [OF assms(1) wf assms(4,5) this built_initcode [OF built] raw]
  obtain js where js: "fromValuesArray L vs opts = Inr (t\<lparr>tx_type := TRANSACTION_TYPE,
      tx_AccessListJSON := js, tx_txOptions := opts, tx_frozen := to_freeze opts \<noteq> Some False,
      tx_cachedHash := None, tx_cachedDataFee := None\<rparr>)"
    by blast
  have "t\<lparr>tx_type := TRANSACTION_TYPE, tx_AccessListJSON := js, tx_txOptions := opts,
      tx_frozen := to_freeze opts \<noteq> Some False, tx_cachedHash := None, tx_cachedDataFee := None\<rparr> =
      t\<lparr>tx_AccessListJSON := js\<rparr>"
    using built by (cases t) (simp add: tx_built_def)
  with js raw vs assms(2) show ?thesis
    by (intro exI [of _ "type_byte @ rlp_encode T (JArr vs)"] exI [of _ js])
      (simp add: serialize_def fromSerializedData_def fromSerializedTx_def type_byte_def
        TRANSACTION_TYPE_def rlp_ok_def)
qed

theorem serialized_roundtrip_witness:
  "\<exists>t s js. fromTxData lib_ref sample_data no_opts = Inr t \<and> serialize lib_ref tx_ref t = Inr s \<and>
     fromSerializedData lib_ref tx_ref s no_opts = Inr (t\<lparr>tx_AccessListJSON := js\<rparr>)"
proof (rule sample_built)
  fix t
  assume "fromTxData lib_ref sample_data no_opts = Inr t" "access_canonical (tx_accessList t)" "tx_chainId t = 1"
  with serialized_roundtrip [OF lib_ref_zod tx_ref_ok(1), of sample_data no_opts t]
  show ?thesis by force
qed

section \<open>Signing\<close>

text \<open>The parts of a transaction a signature covers.\<close>

definition payload :: "lib \<Rightarrow> tx \<Rightarrow> js_error + jsval list" where
  "payload L t = map_sum id (take 9) (raw L t)"

lemma hash_fresh:
  "isSigned t \<Longrightarrow> tx_cachedHash t = None \<Longrightarrow> serialize L T t = Inr s \<Longrightarrow>
    fst (hash L T t) = Inr (keccak256 L s)"
  by (simp add: hash_def)

text \<open>The transaction that signing returns.\<close>

definition signed_tx :: "tx_lib \<Rightarrow> bytes \<Rightarrow> bytes \<Rightarrow> jsval \<Rightarrow> tx \<Rightarrow> tx" where
  "signed_tx T seed msg js t =
     (let opts = (tx_txOptions t)\<lparr>to_common := Some (tx_common t)\<rparr> in
      t\<lparr>tx_type := TRANSACTION_TYPE, tx_AccessListJSON := js, tx_descriptor := Some (wl_descriptor T seed),
        tx_extraParams := None, tx_signature := Some (wl_sign T seed msg), tx_publicKey := Some (wl_pk T seed),
        tx_common := copy (tx_common t), tx_txOptions := opts, tx_frozen := to_freeze opts \<noteq> Some False,
        tx_cachedHash := None, tx_cachedDataFee := None\<rparr>)"

lemma sign_result:
  assumes "zod_ok L" "wallet_ok T" "tx_wf t" "access_canonical (tx_accessList t)" "0 \<le> tx_chainId t"
    and "tx_to t = None \<longrightarrow> checkMaxInitCodeSize (tx_common t) (length (tx_bytes t)) = Inr ()"
    and "length seed = SEED_BYTES" "wl_open T seed = Inr ()"
    and msg: "getMessageToSign L T (wl_descriptor T seed) [] True t = Inr msg"
  obtains js where "sign L T seed t = Inr (signed_tx T seed msg js t)"
proof -
  define opts' where "opts' = (tx_txOptions t)\<lparr>to_common := Some (tx_common t)\<rparr>"
  define td where "td = \<lparr>td_chainId = JBig (tx_chainId t), td_nonce = JBig (tx_nonce t),
       td_gasLimit = JBig (tx_gasLimit t),
       td_to = (case tx_to t of Some a \<Rightarrow> JBytes a | None \<Rightarrow> JUndef),
       td_value = JBig (tx_value t), td_data = JBytes (tx_bytes t), td_accessList = tx_accessList t,
       td_maxPriorityFeePerGas = JBig (tx_maxPriorityFeePerGas t),
       td_maxFeePerGas = JBig (tx_maxFeePerGas t), td_descriptor = JBytes (wl_descriptor T seed),
       td_extraParams = JBytes [], td_signature = JBytes (wl_sign T seed msg),
       td_publicKey = JBytes (wl_pk T seed), td_type = JUndef\<rparr>"
  have nn: "0 \<le> tx_nonce t" "0 \<le> tx_gasLimit t" "0 \<le> tx_value t" "0 \<le> tx_maxPriorityFeePerGas t"
    "0 \<le> tx_maxFeePerGas t" and id: "common_chainId (tx_common t) = Inr (tx_chainId t)"
    using assms(3) by (simp_all add: tx_wf_def)
  have gb: "gives_back L td t"
    using assms(1) nn by (auto simp: gives_back_def td_def or_empty_def validateNotArray_def isArray_def
        split: option.split)
  have c: "getCommon L (to_common opts') (td_chainId td) = Inr (copy (tx_common t))"
    "common_chainId (copy (tx_common t)) = Inr (tx_chainId t)"
    using read_int_big [OF assms(1,5)] id
    by (simp_all add: getCommon_def opts'_def td_def read_int_def read_bytes_def blank_def)
  have init: "initcode_ok L opts' t" using assms(6) by (simp add: initcode_ok_def opts'_def)
  have parts: "read_bytes L (td_descriptor td) = Inr (wl_descriptor T seed)"
    "read_bytes L (td_extraParams td) = Inr []" "read_bytes L (td_signature td) = Inr (wl_sign T seed msg)"
    "read_bytes L (td_publicKey td) = Inr (wl_pk T seed)"
    by (simp_all add: td_def)
  have ok: "wl_descriptor T seed \<noteq> []" "wl_sign T seed msg \<noteq> []" "wl_pk T seed \<noteq> []"
    using assms(2,8) by (simp_all add: wallet_ok_def)
  from rebuild [OF assms(1,3,4) gb c init parts]
  obtain js where "fromTxData L td opts' = Inr (signed_tx T seed msg js t)"
    using ok by (auto simp: signed_tx_def opts'_def nonempty_def Let_def)
  then have "sign L T seed t = Inr (signed_tx T seed msg js t)"
    using assms(7,8) msg by (simp add: sign_def processAuthValues_def td_def opts'_def Let_def)
  then show ?thesis by (rule that)
qed

lemma signed_tx_sel [simp]:
  "isSigned (signed_tx T seed msg js t)" "tx_publicKey (signed_tx T seed msg js t) = Some (wl_pk T seed)"
  "tx_descriptor (signed_tx T seed msg js t) = Some (wl_descriptor T seed)"
  "tx_signature (signed_tx T seed msg js t) = Some (wl_sign T seed msg)"
  "tx_extraParams (signed_tx T seed msg js t) = None" "tx_cachedHash (signed_tx T seed msg js t) = None"
  "tx_cachedDataFee (signed_tx T seed msg js t) = None" "tx_common (signed_tx T seed msg js t) = copy (tx_common t)"
  "tx_to (signed_tx T seed msg js t) = tx_to t" "tx_bytes (signed_tx T seed msg js t) = tx_bytes t"
  "tx_accessList (signed_tx T seed msg js t) = tx_accessList t"
  "tx_gasLimit (signed_tx T seed msg js t) = tx_gasLimit t"
  by (simp_all add: signed_tx_def isSigned_def Let_def)

lemma raw_signed:
  assumes "raw L t = Inr vs"
  obtains ws where "raw L (signed_tx T seed msg js t) = Inr ws" "take 9 ws = take 9 vs"
  using assms by (auto simp: raw_def signed_tx_def Let_def bindR_Inr_iff eval_nat_numeral)

lemma signed_verifies:
  assumes "wallet_ok T" "wl_open T seed = Inr ()" "raw L t = Inr vs"
    and "getMessageToSign L T (wl_descriptor T seed) [] True t = Inr msg"
  shows "verifySignature L T (signed_tx T seed msg js t) = Inr True"
proof -
  obtain ws where "raw L (signed_tx T seed msg js t) = Inr ws" "take 9 ws = take 9 vs"
    using assms(3) by (rule raw_signed)
  then have "getMessageToVerifySignature L T (signed_tx T seed msg js t) = Inr msg"
    using assms(3,4) by (simp add: getMessageToVerifySignature_def getMessageToSign_def or_empty_def)
  then show ?thesis using assms(1,2) by (simp add: verifySignature_def wallet_ok_def)
qed

text \<open>
  C9: Signing a transaction with a seed the wallet opens succeeds, and gives a transaction that counts as
  signed, whose signature verifies, that has a hash, and whose other fields are the ones it had.
\<close>

theorem sign_verifies:
  assumes "zod_ok L" and "wallet_ok T" and "fromTxData L td opts = Inr t"
    and "access_canonical (tx_accessList t)" and "0 \<le> tx_chainId t"
    and "tx_to t = None \<longrightarrow> checkMaxInitCodeSize (tx_common t) (length (tx_bytes t)) = Inr ()"
    and "length seed = SEED_BYTES" and "wl_open T seed = Inr ()"
  shows "\<exists>u h. sign L T seed t = Inr u \<and> isSigned u \<and> verifySignature L T u = Inr True \<and>
    fst (hash L T u) = Inr h \<and> payload L u = payload L t \<and> tx_publicKey u = Some (wl_pk T seed) \<and>
    tx_descriptor u = Some (wl_descriptor T seed)"
proof -
  have wf: "tx_wf t" using tx_wf_built [OF assms(1)] assms(3) by (simp add: fromTxData_iff)
  obtain vs where raw: "raw L t = Inr vs" using raw_wf [OF assms(1) wf assms(5)] by metis
  then obtain msg where msg: "getMessageToSign L T (wl_descriptor T seed) [] True t = Inr msg"
    by (simp add: getMessageToSign_def)
  obtain js where js: "sign L T seed t = Inr (signed_tx T seed msg js t)"
    using sign_result [OF assms(1,2) wf assms(4-8) msg] .
  obtain ws where ws: "Tx.raw L (signed_tx T seed msg js t) = Inr ws" "take 9 ws = take 9 vs"
    using raw by (rule raw_signed)
  have "fst (hash L T (signed_tx T seed msg js t)) = Inr (keccak256 L (type_byte @ rlp_encode T (JArr ws)))"
    using ws(1) by (intro hash_fresh) (simp_all add: serialize_def)
  then show ?thesis
    using js signed_verifies [OF assms(2,8) raw msg] raw ws
    by (intro exI [of _ "signed_tx T seed msg js t"]) (simp add: payload_def)
qed

theorem sign_verifies_witness:
  "\<exists>t u. fromTxData lib_ref sample_data no_opts = Inr t \<and>
     sign lib_ref tx_ref (replicate 51 9) t = Inr u \<and> verifySignature lib_ref tx_ref u = Inr True"
proof (rule sample_built)
  fix t
  assume t: "fromTxData lib_ref sample_data no_opts = Inr t" "access_canonical (tx_accessList t)"
    "tx_chainId t = 1" "tx_bytes t = [0, 5, 0]"
    "tx_common t = (case new_Common (chain_opts (ById DEFAULT_CHAIN)) of Inr c \<Rightarrow> c)"
  then have "checkMaxInitCodeSize (tx_common t) (length (tx_bytes t)) = Inr ()"
    using sample_common by (auto simp: eval_nat_numeral split: sum.splits)
  with t(3) sign_verifies [OF lib_ref_zod tx_ref_ok(2) t(1,2), of "replicate 51 9"] t(1)
  show ?thesis by (auto simp: SEED_BYTES_def tx_ref_def)
qed

end
