(* ===== verification/TxFees.thy ===== *)
theory TxFees
  imports TxProps
begin

text \<open>
  The caches of a transaction, its fees under the rules of the first hardfork, and the hardfork of a
  block.
\<close>

section \<open>Caches\<close>

text \<open>What a caller can do with a transaction, and with the chain it carries.\<close>

datatype tx_op = OpHash | OpDataFee | OpBaseFee | OpValidate | OpSetHardfork string

definition tx_step :: "lib \<Rightarrow> tx_lib \<Rightarrow> tx \<Rightarrow> tx_op \<Rightarrow> tx" where
  "tx_step L T t e = (case e of
      OpHash \<Rightarrow> snd (hash L T t)
    | OpDataFee \<Rightarrow> snd (getDataFee t)
    | OpBaseFee \<Rightarrow> snd (getBaseFee t)
    | OpValidate \<Rightarrow> snd (tx_validate L T t)
    | OpSetHardfork h \<Rightarrow>
        (case setHardfork h (tx_common t) of Inr c \<Rightarrow> t\<lparr>tx_common := c\<rparr> | Inl _ \<Rightarrow> t))"

definition at_hardfork :: "string \<Rightarrow> tx \<Rightarrow> tx" where
  "at_hardfork h t = t\<lparr>tx_common := (tx_common t)\<lparr>cm_hardfork := h\<rparr>\<rparr>"

text \<open>A cached hash is the hash of the serialized form, a cached fee the fee at the hardfork it is kept with.\<close>

definition tx_cached :: "lib \<Rightarrow> tx_lib \<Rightarrow> tx \<Rightarrow> bool" where
  "tx_cached L T t \<longleftrightarrow>
     (\<forall>h. tx_cachedHash t = Some h \<longrightarrow> map_sum id (keccak256 L) (serialize L T t) = Inr h) \<and>
     (\<forall>v h. tx_cachedDataFee t = Some (v, h) \<longrightarrow> computed_data_fee (at_hardfork h t) = Inr v)"

definition uncached :: "tx \<Rightarrow> tx" where
  "uncached t = t\<lparr>tx_cachedHash := None, tx_cachedDataFee := None\<rparr>"

lemma raw_uncached: "raw L (uncached t) = raw L t"
  by (simp add: raw_def uncached_def)

lemma uncached_fields: "uncached u = uncached t \<Longrightarrow> tx_common u = tx_common t \<and> tx_to u = tx_to t"
  by (cases u, cases t) (simp add: uncached_def)

lemma serialize_uncached: "serialize L T (uncached t) = serialize L T t"
  by (simp add: serialize_def raw_uncached)

lemma fee_uncached: "computed_data_fee (uncached t) = computed_data_fee t"
  by (simp add: computed_data_fee_def base_getDataFee_def uncached_def cong: if_cong)

lemma at_hardfork_uncached: "at_hardfork h (uncached t) = uncached (at_hardfork h t)"
  by (simp add: at_hardfork_def uncached_def)

lemma at_hardfork_same [simp]: "at_hardfork (hardfork (tx_common t)) t = t"
  by (cases t) (simp add: at_hardfork_def hardfork_def)

definition cache_only :: "lib \<Rightarrow> tx_lib \<Rightarrow> tx \<Rightarrow> tx \<Rightarrow> bool" where
  "cache_only L T t u \<longleftrightarrow> uncached u = uncached t \<and> (tx_cached L T t \<longrightarrow> tx_cached L T u)"

interpretation co: action_relation "cache_only L T" for L T
  by unfold_locales (auto simp: cache_only_def)

lemma uncached_eqD:
  assumes "uncached u = uncached t"
  shows "serialize L T u = serialize L T t" "computed_data_fee u = computed_data_fee t"
    "computed_data_fee (at_hardfork h u) = computed_data_fee (at_hardfork h t)"
  using serialize_uncached [of L T u] serialize_uncached [of L T t] fee_uncached [of u] fee_uncached [of t]
    fee_uncached [of "at_hardfork h u"] fee_uncached [of "at_hardfork h t"]
    at_hardfork_uncached [of h u] at_hardfork_uncached [of h t] assms by simp_all

lemma hash_cache: "cache_only L T t (snd (hash L T t))"
proof -
  have "cache_only L T t (t\<lparr>tx_cachedHash := Some (keccak256 L s)\<rparr>)" if "serialize L T t = Inr s" for s
  proof -
    have u: "uncached (t\<lparr>tx_cachedHash := Some (keccak256 L s)\<rparr>) = uncached t" by (simp add: uncached_def)
    show ?thesis using that uncached_eqD [OF u] u by (simp add: cache_only_def tx_cached_def)
  qed
  then show ?thesis
    by (auto simp: hash_def co.rel_refl split: option.splits sum.splits)
qed

lemma getDataFee_cache: "cache_only L T t (snd (getDataFee t))"
proof -
  have "cache_only L T t (t\<lparr>tx_cachedDataFee := Some (v, hardfork (tx_common t))\<rparr>)"
    if "computed_data_fee t = Inr v" for v
  proof -
    have u: "uncached (t\<lparr>tx_cachedDataFee := Some (v, hardfork (tx_common t))\<rparr>) = uncached t"
      by (simp add: uncached_def)
    show ?thesis using that uncached_eqD [OF u] u by (simp add: cache_only_def tx_cached_def)
  qed
  then show ?thesis
    by (auto simp: getDataFee_def fresh_data_fee_def co.rel_refl split: option.splits sum.splits prod.splits)
qed

lemma always_cache:
  "always (cache_only L T) getDataFee" "always (cache_only L T) getBaseFee"
  "always (cache_only L T) (tx_validate L T)"
proof -
  show fee: "always (cache_only L T) getDataFee"
    by (simp add: always_def getDataFee_cache)
  show base: "always (cache_only L T) getBaseFee"
    unfolding getBaseFee_def
    by (intro co.always_bind co.always_basic fee co.always_same) (simp_all)
  show "always (cache_only L T) (tx_validate L T)"
    unfolding tx_validate_def
    by (intro co.always_bind base) (simp add: always_def co.rel_refl bindS_def split: sum.split)
qed

lemma param_emitted: "param topic name (c\<lparr>cm_emitted := es, cm_hardfork := k\<rparr>) =
    param topic name (c\<lparr>cm_hardfork := k\<rparr>)"
  by (simp add: param_def paramByHardfork_def cong: option.case_cong)

lemma serialize_common: "serialize L T (t\<lparr>tx_common := c\<rparr>) = serialize L T t"
  by (simp add: serialize_def raw_def)

lemma setHardfork_cached:
  assumes "setHardfork h (tx_common t) = Inr c" "tx_cached L T t"
  shows "tx_cached L T (t\<lparr>tx_common := c\<rparr>)"
proof -
  have "serialize L T (t\<lparr>tx_common := c\<rparr>) = serialize L T t" by (rule serialize_common)
  moreover have "computed_data_fee (at_hardfork k (t\<lparr>tx_common := c\<rparr>)) = computed_data_fee (at_hardfork k t)" for k
    using assms(1) param_emitted
    by (auto simp: setHardfork_def at_hardfork_def computed_data_fee_def base_getDataFee_def
        getDataFeeEIP2930_def cong: if_cong split: if_splits)
  ultimately show ?thesis using assms(2) by (simp add: tx_cached_def)
qed

interpretation tc: invariant_system "tx_step L T" "tx_cached L T" for L T
proof
  fix t e
  assume t: "tx_cached L T t"
  show "tx_cached L T (tx_step L T t e)"
    using t hash_cache [of L T t] always_cache [of L T, unfolded always_def]
    by (cases e) (auto simp: tx_step_def cache_only_def setHardfork_cached split: sum.split)
qed

lemma serialize_step: "serialize L T (tx_step L T t e) = serialize L T t"
proof -
  have "uncached (tx_step L T t e) = uncached t" if "\<And>h. e \<noteq> OpSetHardfork h"
    using that hash_cache [of L T t] always_cache [of L T, unfolded always_def]
    by (cases e) (auto simp: tx_step_def cache_only_def)
  then show ?thesis
    by (cases e) (auto simp: tx_step_def serialize_common dest: uncached_eqD(1) split: sum.split)
qed

text \<open>
  C13: Whatever was asked of a transaction before, and whichever hardforks were set meanwhile, its hash is
  the hash of its serialized form, its data fee the fee computed for the hardfork that is set, and its
  serialized form the one it had when it was made.
\<close>

theorem caches_coherent:
  assumes "fromTxData L td opts = Inr t" and "u = foldl (tx_step L T) t es"
  shows "fst (getDataFee u) = computed_data_fee u \<and>
    (isSigned u \<longrightarrow> fst (hash L T u) = map_sum id (keccak256 L) (serialize L T u)) \<and>
    serialize L T u = serialize L T t"
proof -
  have "tx_cached L T t" using assms(1) by (simp add: fromTxData_iff tx_built_def tx_cached_def)
  then have c: "tx_cached L T u" unfolding assms(2) by (rule tc.run_inv)
  have "serialize L T u = serialize L T t"
    unfolding assms(2) by (induction es arbitrary: t) (simp_all add: serialize_step)
  moreover have "fst (getDataFee u) = computed_data_fee u"
    using c by (auto simp: getDataFee_def fresh_data_fee_def tx_cached_def split: option.splits sum.splits)
  moreover have "fst (hash L T u) = map_sum id (keccak256 L) (serialize L T u)" if "isSigned u"
    using c that by (auto simp: hash_def tx_cached_def split: option.splits sum.splits)
  ultimately show ?thesis by blast
qed

theorem caches_coherent_witness:
  "\<exists>t. fromTxData lib_ref sample_data no_opts = Inr t \<and>
     fst (getDataFee (foldl (tx_step lib_ref tx_ref) t [OpDataFee, OpSetHardfork ''zond'', OpDataFee])) =
     computed_data_fee (foldl (tx_step lib_ref tx_ref) t [OpDataFee, OpSetHardfork ''zond'', OpDataFee])"
  by (rule sample_built) (blast intro: caches_coherent [THEN conjunct1])

section \<open>Fees\<close>

text \<open>
  With a base fee within the fee cap the cost of a transaction is at least its value and the base fee
  for all of its gas, and at most its value and the fee cap for all of its gas.
\<close>

theorem upfront_cost_bounded:
  assumes "tx_wf t" and "0 \<le> baseFee" and "baseFee \<le> tx_maxFeePerGas t"
  shows "tx_gasLimit t * baseFee + tx_value t \<le> getUpfrontCost baseFee t \<and>
    getUpfrontCost baseFee t \<le> tx_gasLimit t * tx_maxFeePerGas t + tx_value t \<and>
    getUpfrontCost baseFee t \<le> 2 * MAX_INTEGER"
proof -
  define p where "p = min (tx_maxPriorityFeePerGas t) (tx_maxFeePerGas t - baseFee) + baseFee"
  have wf: "0 \<le> tx_gasLimit t" "0 \<le> tx_maxPriorityFeePerGas t"
    "tx_gasLimit t * tx_maxFeePerGas t \<le> MAX_INTEGER" "tx_value t \<le> MAX_INTEGER"
    using assms(1) by (simp_all add: tx_wf_def)
  have "baseFee \<le> p" "p \<le> tx_maxFeePerGas t" using assms(2,3) wf by (auto simp: p_def)
  then have "tx_gasLimit t * baseFee \<le> tx_gasLimit t * p" "tx_gasLimit t * p \<le> tx_gasLimit t * tx_maxFeePerGas t"
    using wf(1) by (auto intro: mult_left_mono)
  then show ?thesis using wf by (simp add: getUpfrontCost_def Let_def p_def)
qed

theorem upfront_cost_bounded_witness:
  "\<exists>t. fromTxData lib_ref sample_data no_opts = Inr t \<and> getUpfrontCost 4 t \<le> 2 * MAX_INTEGER"
proof (rule sample_built)
  fix t
  assume t: "fromTxData lib_ref sample_data no_opts = Inr t"
  then have b: "tx_built lib_ref sample_data no_opts t" by (simp add: fromTxData_iff)
  then have "tx_wf t" by (rule tx_wf_built [OF lib_ref_zod])
  moreover have "tx_maxFeePerGas t = 7" using b lib_ref_zod by (simp add: tx_built_def sample_data_def)
  ultimately show ?thesis using t upfront_cost_bounded [of t 4] by auto
qed

text \<open>The prices of the first hardfork, on every chain that has its rules.\<close>

definition zond_rules :: "common \<Rightarrow> bool" where
  "zond_rules c \<longleftrightarrow> cm_qips c = [] \<and> cm_CHANGES c = [(''zond'', HARDFORK_SPECS ''zond'')] \<and>
     cm_hardfork c = ''zond''"

lemma param_zond:
  assumes "zond_rules c" "map_of (hs_topics zond_spec) topic = Some ps" "map_of ps name = Some (JNum (NInt n))"
  shows "param topic name c = Inr n"
  using assms by (simp add: zond_rules_def param_def paramByHardfork_def param_of_spec_def HARDFORK_SPECS_def
      zond_spec_def isNullish_def js_BigInt_def)

lemma zond_prices:
  assumes "zond_rules c"
  shows "param ''gasPrices'' ''txDataZero'' c = Inr 4" "param ''gasPrices'' ''txDataNonZero'' c = Inr 16"
    "param ''gasPrices'' ''initCodeWordCost'' c = Inr 2" "param ''gasPrices'' ''tx'' c = Inr 21000"
    "param ''gasPrices'' ''txCreation'' c = Inr 32000"
    "param ''gasPrices'' ''accessListStorageKeyCost'' c = Inr 1900"
    "param ''gasPrices'' ''accessListAddressCost'' c = Inr 2400"
proof -
  have topic: "map_of (hs_topics zond_spec) ''gasPrices'' = Some zond_gasPrices"
    by (simp add: zond_spec_def)
  show "param ''gasPrices'' ''txDataZero'' c = Inr 4" "param ''gasPrices'' ''txDataNonZero'' c = Inr 16"
    "param ''gasPrices'' ''initCodeWordCost'' c = Inr 2" "param ''gasPrices'' ''tx'' c = Inr 21000"
    "param ''gasPrices'' ''txCreation'' c = Inr 32000"
    "param ''gasPrices'' ''accessListStorageKeyCost'' c = Inr 1900"
    "param ''gasPrices'' ''accessListAddressCost'' c = Inr 2400"
    by (rule param_zond [OF assms topic], code_simp)+
qed

lemma new_Common_zond:
  assumes "new_Common \<lparr>op_chain = i, op_hardfork = Some ''zond'', op_qips = None, op_customChains = []\<rparr> = Inr c"
    and "\<And>ch. setChain i [] = Inr ch \<Longrightarrow> ch_hardforks ch = Some [zond_fork]"
  shows "zond_rules c"
  using assms
  by (auto simp: new_Common_def Let_def bindR_Inr_iff setHardfork_def chain_hardforks_def zond_rules_def
      zond_fork_def split: if_splits)

lemma getCommon_zond:
  assumes "getCommon L None v = Inr c"
  shows "zond_rules c"
proof -
  have std: "case setChain (ById (ChainNum 1)) [] of Inr ch \<Rightarrow> ch_hardforks ch = Some [zond_fork]"
    "getChainParams (ChainNum 1) [] = Inr mainnet" by code_simp+
  have main: "zond_rules c" if "new_Common (chain_opts (ById (ChainNum 1))) = Inr c"
    using that std(1) by (intro new_Common_zond) (auto simp: chain_opts_def split: sum.splits)
  have cust: "zond_rules c"
    if "custom (CustomDict d) (Some (ChainNum 1)) (Some ''zond'') None = Inr c" "ch_hardforks d = None" for d
  proof -
    have "new_Common \<lparr>op_chain = ByConfig (spread_chain (mainnet\<lparr>ch_name := Some ''custom-chain''\<rparr>) d),
        op_hardfork = Some ''zond'', op_qips = None, op_customChains = []\<rparr> = Inr c"
      using that(1) std(2) by (simp add: custom_def)
    then show ?thesis
    proof (rule new_Common_zond)
      fix ch
      assume "setChain (ByConfig (spread_chain (mainnet\<lparr>ch_name := Some ''custom-chain''\<rparr>) d)) [] = Inr ch"
      then have "ch = spread_chain (mainnet\<lparr>ch_name := Some ''custom-chain''\<rparr>) d" by (rule setChain_config)
      then show "ch_hardforks ch = Some [zond_fork]"
        using that(2) by (simp add: spread_chain_def or_field_def mainnet_def)
    qed
  qed
  have one: "i = 1" if "isSupportedChainId i" for i
    using supported_chain [OF _ that] that by (cases "i < 0") (auto simp: isSupportedChainId_def int_str_def)
  show ?thesis
    using assms main cust
    by (auto dest: one simp: getCommon_def DEFAULT_CHAIN_def bindR_Inr_iff split: if_splits)
qed

definition access_keys :: "jsval \<Rightarrow> nat" where
  "access_keys v = (case v of JArr [a, JArr ks] \<Rightarrow> length ks | _ \<Rightarrow> 0)"

lemma access_fee:
  assumes "zond_rules c" "access_canonical v" "v = JArr items"
  shows "getDataFeeEIP2930 v c =
    Inr (2400 * int (length items) + 1900 * int (sum_list (map access_keys items)))"
proof -
  have items: "list_all access_entry items" using assms(2,3) by (simp add: access_canonical_def)
  obtain slots where "mapR (\<lambda>item. bindR (js_at item 1) js_items) items = Inr slots"
    and "map length slots = map access_keys items"
    using items
  proof (induction items arbitrary: thesis)
    case (Cons i items)
    obtain slots where s: "mapR (\<lambda>item. bindR (js_at item 1) js_items) items = Inr slots"
      "map length slots = map access_keys items"
      using Cons by auto
    obtain a ks where "i = JArr [JBytes a, JArr (map JBytes ks)]" using Cons.prems(2) by (auto elim: access_entryE)
    then have "bindR (js_at i 1) js_items = Inr (map JBytes ks)" "access_keys i = length ks"
      by (simp_all add: js_at_def js_items_def isNullish_def access_keys_def)
    with s show ?case by (intro Cons.prems(1) [of "map JBytes ks # slots"]) simp_all
  qed simp
  then show ?thesis
    using assms(3) by (simp add: getDataFeeEIP2930_def zond_prices [OF assms(1)] js_items_def isNullish_def
        algebra_simps)
qed

lemma base_fee_zond:
  assumes rules: "zond_rules (tx_common t)" and "tx_to t \<noteq> Some []" "tx_cachedDataFee t = None"
    and "tx_accessList t = JArr items" "access_canonical (JArr items)"
  shows "fst (getBaseFee t) = Inr (21000 + 4 * int (count_list (tx_bytes t) 0) +
      16 * int (length (filter (\<lambda>b. b \<noteq> 0) (tx_bytes t))) +
      (if tx_to t = None then 32000 + 2 * int ((length (tx_bytes t) + 31) div 32) else 0) +
      2400 * int (length items) + 1900 * int (sum_list (map access_keys items)))"
proof -
  have create: "toCreationAddress t \<longleftrightarrow> tx_to t = None"
    using assms(2) by (auto simp: toCreationAddress_def split: option.splits)
  have bytes: "sum_list (map (\<lambda>b. if b = 0 then 4 else 16) bs) =
      4 * int (count_list bs 0) + 16 * int (length (filter (\<lambda>b. b \<noteq> 0) bs))" for bs :: bytes
    by (induction bs) simp_all
  have fee: "getDataFeeEIP2930 (tx_accessList t) (tx_common t) =
      Inr (2400 * int (length items) + 1900 * int (sum_list (map access_keys items)))"
    using access_fee [OF rules _ refl] assms(4,5) by simp
  have data: "fst (getDataFee t) = Inr (4 * int (count_list (tx_bytes t) 0) +
      16 * int (length (filter (\<lambda>b. b \<noteq> 0) (tx_bytes t))) +
      (if tx_to t = None then 2 * int ((length (tx_bytes t) + 31) div 32) else 0) +
      (2400 * int (length items) + 1900 * int (sum_list (map access_keys items))))"
    (is "_ = Inr ?fee")
    using assms(3) by (simp add: getDataFee_def fresh_data_fee_def computed_data_fee_def
        base_getDataFee_def zond_prices [OF rules] fee bytes Let_def)
  obtain u where u: "getDataFee t = (Inr ?fee, u)" using data by (metis prod.collapse)
  then have "uncached u = uncached t" using getDataFee_cache [of L T t] by (simp add: cache_only_def)
  then have "tx_common u = tx_common t" "tx_to u = tx_to t"
    by (auto dest: uncached_fields)
  then show ?thesis
    using create zond_prices [OF rules]
    by (simp add: getBaseFee_def bindS_def u toCreationAddress_def)
qed

text \<open>
  On every chain with the rules of the first hardfork, and so whenever no chain is given, a transaction
  costs 21000, 4 for a zero byte of its data and 16 for another, 32000 and 2 for each word of its init
  code if it creates a contract, 2400 for each address and 1900 for each key of its access list.
\<close>

theorem intrinsic_fee:
  assumes "zod_ok L" and "fromTxData L td opts = Inr t" and "to_common opts = None \<or> zond_rules (tx_common t)"
    and "tx_accessList t = JArr items" and "access_canonical (JArr items)"
  shows "fst (getBaseFee t) = Inr (21000 + 4 * int (count_list (tx_bytes t) 0) +
      16 * int (length (filter (\<lambda>b. b \<noteq> 0) (tx_bytes t))) +
      (if tx_to t = None then 32000 + 2 * int ((length (tx_bytes t) + 31) div 32) else 0) +
      2400 * int (length items) + 1900 * int (sum_list (map access_keys items)))"
proof -
  have b: "tx_built L td opts t" using assms(2) by (simp add: fromTxData_iff)
  have "zond_rules (tx_common t)"
    using assms(3) b getCommon_zond [of L "td_chainId td" "tx_common t"] by (auto simp: tx_built_def)
  moreover have "tx_to t \<noteq> Some []" using tx_wf_built [OF assms(1) b] by (auto simp: tx_wf_def)
  moreover have "tx_cachedDataFee t = None" using b by (simp add: tx_built_def)
  ultimately show ?thesis using base_fee_zond assms(4,5) by blast
qed

theorem intrinsic_fee_witness:
  "\<exists>t. fromTxData lib_ref sample_data no_opts = Inr t \<and> fst (getBaseFee t) = Inr 57326"
proof (rule sample_built)
  fix t
  assume t: "fromTxData lib_ref sample_data no_opts = Inr t" "access_canonical (tx_accessList t)"
    "tx_to t = None" "tx_bytes t = [0, 5, 0]" "tx_accessList t = td_accessList sample_data"
  obtain items where i: "td_accessList sample_data = JArr items" "length items = 1"
    "sum_list (map access_keys items) = 1"
    by (simp add: sample_data_def access_keys_def)
  show ?thesis
    using intrinsic_fee [OF lib_ref_zod t(1) _ t(5) [unfolded i(1)]] t i by (auto simp: no_opts_def)
qed

section \<open>The hardfork of a block\<close>

declare last_together.simps [simp del]

lemma findIndex_takeWhile:
  "findIndex P xs = (if \<exists>x \<in> set xs. P x then Some (length (takeWhile (\<lambda>x. \<not> P x) xs)) else None)"
  by (induction xs) auto

lemma filter_sorted_takeWhile:
  "sorted (map f xs) \<Longrightarrow> filter (\<lambda>x. f x \<le> n) xs = takeWhile (\<lambda>x. f x \<le> n) xs"
proof (induction xs)
  case (Cons x xs)
  have "filter (\<lambda>x. f x \<le> n) xs = []" if "\<not> f x \<le> n"
    using Cons.prems that by (force simp: filter_empty_conv)
  with Cons show ?case by (cases "f x \<le> n") simp_all
qed simp

text \<open>
  When every hardfork is scheduled by a block, in the order of their blocks, and the first is not later
  than a block, the hardfork of that block is the last one that is not later.
\<close>

theorem hardfork_of_block:
  assumes "\<forall>hf \<in> set hfs. block_num hf \<noteq> None \<and> hf_timestamp hf = None"
    and "sorted (map (\<lambda>hf. the (block_num hf)) hfs)"
    and "\<exists>hf \<in> set hfs. the (block_num hf) \<le> n"
  shows "select_hardfork (Some n) None (filter scheduled hfs) =
    Inr (hf_name (last (filter (\<lambda>hf. the (block_num hf) \<le> n) hfs)))"
proof -
  let ?b = "\<lambda>hf. the (block_num hf)"
  define pre where "pre = takeWhile (\<lambda>hf. ?b hf \<le> n) hfs"
  have blocks: "hf_block hf \<noteq> Some None" if "hf \<in> set hfs" for hf
    using assms(1) that by (auto simp: block_num_def)
  then have sch: "filter scheduled hfs = hfs" by (auto simp: scheduled_def filter_id_conv)
  have later: "later_than (Some n) None hf \<longleftrightarrow> \<not> ?b hf \<le> n" if "hf \<in> set hfs" for hf
    using assms(1) that by (auto simp: later_than_def split: option.splits)
  have filt: "filter (\<lambda>hf. ?b hf \<le> n) hfs = pre"
    unfolding pre_def by (rule filter_sorted_takeWhile [OF assms(2)])
  then have ne: "pre \<noteq> []" using assms(3) by (metis filter_empty_conv)
  have tw: "takeWhile (\<lambda>hf. \<not> later_than (Some n) None hf) hfs = pre"
    unfolding pre_def by (rule takeWhile_cong) (simp_all add: later)
  have found: "findIndex (later_than (Some n) None) hfs = (if length pre < length hfs then Some (length pre) else None)"
  proof (cases "\<exists>hf \<in> set hfs. later_than (Some n) None hf")
    case True
    then have "length pre < length hfs"
      using tw by (metis length_takeWhile_le le_neq_implies_less takeWhile_eq_all_conv takeWhile_eq_take take_all_iff order_refl)
    with True tw show ?thesis by (simp add: findIndex_takeWhile)
  next
    case False
    then have "pre = hfs" using tw by (metis takeWhile_eq_all_conv)
    with False show ?thesis by (simp add: findIndex_takeWhile)
  qed
  have len: "length pre \<le> length hfs" unfolding pre_def by (rule length_takeWhile_le)
  have hd: "take (length pre) hfs = pre" unfolding pre_def by (rule takeWhile_eq_take [symmetric])
  obtain p0 p where pre: "pre = p0 @ [p]" using ne by (metis rev_exhaust)
  have p: "p \<in> set hfs" using hd pre by (metis in_set_conv_decomp in_set_takeD)
  have step: "findIndex (\<lambda>hf. hf_block hf \<noteq> Some None) (rev pre) = Some 0"
    using blocks [OF p] pre by simp
  have at: "hfs ! (length pre - 1) = p" using hd pre len
    by (metis butlast_snoc diff_less last_conv_nth last_snoc length_butlast length_greater_0_conv ne nth_take zero_less_one)
  have stop: "last_together hfs (length pre - 1) = length pre - 1"
  proof (cases "length pre < length hfs")
    case True
    have "\<not> ?b (hfs ! length pre) \<le> n"
      using True unfolding pre_def by (rule nth_length_takeWhile)
    moreover have "p \<in> set (filter (\<lambda>hf. ?b hf \<le> n) hfs)" using filt pre by simp
    ultimately have "hf_block (hfs ! (length pre - 1)) \<noteq> hf_block (hfs ! length pre)"
      using at by (auto simp: block_num_def)
    then show ?thesis using ne by (subst last_together.simps) simp
  next
    case False
    then have "\<not> Suc (length pre - 1) < length hfs" using len ne by (cases pre) simp_all
    then show ?thesis by (subst last_together.simps) simp
  qed
  have nz: "length pre \<noteq> 0" using ne by simp
  have "select_hardfork (Some n) None hfs = Inr (hf_name p)"
  proof (cases "length pre < length hfs")
    case True
    then obtain k where k: "length pre = Suc k" using nz by (cases "length pre") auto
    with True found step hd stop at show ?thesis by (simp add: select_hardfork_def)
  next
    case False
    then have "pre = hfs" using len hd by simp
    moreover from this have "nat (int (length hfs) - 1) = length hfs - 1" using nz by linarith
    ultimately show ?thesis using False found step stop at nz by (simp add: select_hardfork_def)
  qed
  then show ?thesis using sch filt pre by simp
qed

definition sample_forks :: "hardfork_config list" where
  "sample_forks = map (\<lambda>(n, b). zond_fork\<lparr>hf_name := n, hf_block := Some (Some b)\<rparr>)
     [(''a'', 0), (''b'', 5), (''c'', 5), (''d'', 9)]"

theorem hardfork_of_block_witness:
  "select_hardfork (Some 7) None (filter scheduled sample_forks) = Inr ''c''"
proof -
  have "\<forall>hf \<in> set sample_forks. block_num hf \<noteq> None \<and> hf_timestamp hf = None"
    "sorted (map (\<lambda>hf. the (block_num hf)) sample_forks)"
    "\<exists>hf \<in> set sample_forks. the (block_num hf) \<le> 7"
    by (simp_all add: sample_forks_def zond_fork_def block_num_def)
  from hardfork_of_block [OF this] show ?thesis
    by (simp add: sample_forks_def zond_fork_def block_num_def)
qed

end
