(* ===== verification/Hash.thy ===== *)
theory Hash
  imports AccUtils
begin

text \<open>
  \<^verbatim>\<open>web3-utils/src/hash.ts\<close>: the hash functions of the library, and the packed encoding of values that
  is hashed the way a contract hashes it.
\<close>

section \<open>Hashes\<close>

definition SHA3_EMPTY_BYTES :: string where
  "SHA3_EMPTY_BYTES = ''0xc5d2460186f7233c927e7db2dcc703c0e500b653ca82273b7bfad8045d85a470''"

text \<open>\<^verbatim>\<open>keccak256\<close> of the cryptography package accepts byte arrays only.\<close>

definition keccak_of :: "lib \<Rightarrow> jsval \<Rightarrow> js_error + bytes" where
  "keccak_of L v = (case v of
      JBytes bs \<Rightarrow> Inr (keccak256 L bs)
    | _ \<Rightarrow> Inl (err_class ''TypeError'' ''Expected Uint8Array''))"

definition sha3 :: "lib \<Rightarrow> jsval \<Rightarrow> js_error + string option" where
  "sha3 L data =
     bindR (case data of
         JStr s \<Rightarrow>
           if startsWith s ''0x'' \<and> isHexStrict data then map_sum id JBytes (hexToBytes L data)
           else Inr (JBytes (utf8ToBytes L s))
       | _ \<Rightarrow> Inr data) (\<lambda>updatedData.
     bindR (keccak_of L updatedData) (\<lambda>h.
     bindR (bytesToHex L (JBytes h)) (\<lambda>hash.
       Inr (if hash = SHA3_EMPTY_BYTES then None else Some hash))))"

definition sha3Raw :: "lib \<Rightarrow> jsval \<Rightarrow> js_error + string" where
  "sha3Raw L data =
     bindR (sha3 L data) (\<lambda>hash. Inr (case hash of None \<Rightarrow> SHA3_EMPTY_BYTES | Some h \<Rightarrow> h))"

definition keccak256Wrapper :: "lib \<Rightarrow> jsval \<Rightarrow> js_error + string" where
  "keccak256Wrapper L data =
     bindR (case data of
         JBig i \<Rightarrow> Inr (utf8ToBytes L (int_str 10 i))
       | JNum n \<Rightarrow> Inr (utf8ToBytes L (num_text L n))
       | JArr vs \<Rightarrow> Inr (map byte_of_elem vs)
       | JResult vs _ \<Rightarrow> Inr (map byte_of_elem vs)
       | JStr s \<Rightarrow>
           if \<not> isHexStrict data then Inr (utf8ToBytes L s) else bytesToUint8Array L data
       | _ \<Rightarrow> bytesToUint8Array L data) (\<lambda>processedData.
       bytesToHex L (JBytes (keccak256 L processedData)))"

section \<open>Types and texts of the arguments\<close>

text \<open>\<^verbatim>\<open>v.toString()\<close>; inside an array nothing is written for \<^verbatim>\<open>undefined\<close> and \<^verbatim>\<open>null\<close>.\<close>

fun js_toString :: "lib \<Rightarrow> jsval \<Rightarrow> string option" where
  "js_toString L JUndef = None"
| "js_toString L JNull = None"
| "js_toString L (JBool b) = Some (if b then ''true'' else ''false'')"
| "js_toString L (JNum n) = Some (num_text L n)"
| "js_toString L (JBig i) = Some (int_str 10 i)"
| "js_toString L (JBN n) = Some (int_str 10 n)"
| "js_toString L (JStr s) = Some s"
| "js_toString L (JBytes bs) = Some (join_with '','' (map (\<lambda>b. dec_str (unat b)) bs))"
| "js_toString L (JArr vs) =
     Some (join_with '','' (map (\<lambda>t. case t of None \<Rightarrow> [] | Some s \<Rightarrow> s) (map (js_toString L) vs)))"
| "js_toString L (JResult vs ns) =
     Some (join_with '','' (map (\<lambda>t. case t of None \<Rightarrow> [] | Some s \<Rightarrow> s) (map (js_toString L) vs)))"
| "js_toString L (JObj kvs) = Some ''[object Object]''"
| "js_toString L (JErr e) = Some (''Error: '' @ emsg e)"
| "js_toString L JFun = Some ''function''"

definition hex_start :: "string \<Rightarrow> bool" where
  "hex_start s = (strip0x s \<noteq> None \<or> (s \<noteq> [] \<and> hd s = CHR ''-'' \<and> strip0x (tl s) \<noteq> None))"

definition int_type :: "string \<Rightarrow> bool" where
  "int_type type = (startsWith type ''int'' \<or> startsWith type ''uint'')"

definition given_type :: "jsval \<Rightarrow> (jsval \<times> jsval) option" where
  "given_type arg = (case arg of
      JObj kvs \<Rightarrow>
        let has = (\<lambda>k. k \<in> set (map fst kvs)) in
        if (has ''t'' \<or> has ''type'') \<and> (has ''v'' \<or> has ''value'')
        then Some (if has ''t'' then obj_get kvs ''t'' else obj_get kvs ''type'',
                   if has ''v'' then obj_get kvs ''v'' else obj_get kvs ''value'')
        else None
    | _ \<Rightarrow> None)"

definition getType :: "lib \<Rightarrow> jsval \<Rightarrow> js_error + string \<times> jsval" where
  "getType L arg =
     (if isArray arg then Inl (err_class ''Error'' ''Autodetection of array types is not supported.'')
      else if arg = JNull then Inl (err_class ''TypeError'' ''Cannot use in operator'')
      else case arg of
        JBig i \<Rightarrow> Inr (''int'', arg)
      | _ \<Rightarrow>
          bindR (case given_type arg of
              Some (JStr type, v) \<Rightarrow> Inr (if toLowerCase type = ''bigint'' then ''int'' else type, v)
            | Some _ \<Rightarrow> Inl (err_class ''TypeError'' ''toLowerCase is not a function'')
            | None \<Rightarrow> bindR (toHex L arg True) (\<lambda>type. bindR (toHex L arg False) (\<lambda>v.
                Inr (if \<not> int_type type then ''bytes'' else type, JStr v)))) (\<lambda>(type, value).
          if int_type type \<and> (case value of JStr s \<Rightarrow> \<not> hex_start s | _ \<Rightarrow> False)
          then map_sum id (\<lambda>i. (type, JBig i)) (toBigInt value) else Inr (type, value)))"

definition elementaryName :: "string \<Rightarrow> string" where
  "elementaryName name =
     (if startsWith name ''int['' then ''int512'' @ drop 3 name
      else if name = ''int'' then ''int512''
      else if startsWith name ''uint['' then ''uint512'' @ drop 4 name
      else if name = ''uint'' then ''uint512''
      else name)"

definition parseTypeN :: "string \<Rightarrow> nat \<Rightarrow> nat" where
  "parseTypeN value typeLength = digits_val 10 (takeWhile is_dec_char (drop typeLength value))"

definition bitLength :: "int \<Rightarrow> nat" where
  "bitLength i = length (int_str 2 i)"

section \<open>Packing\<close>

definition body_length :: "string \<Rightarrow> nat" where
  "body_length value = length (case strip0x value of Some h \<Rightarrow> h | None \<Rightarrow> value)"

definition pack_uint :: "lib \<Rightarrow> nat \<Rightarrow> string \<Rightarrow> js_error + string" where
  "pack_uint L sz value =
     (if sz mod 8 \<noteq> 0 \<or> sz < 8 \<or> sz > 512 then Inl (err_class ''InvalidSizeError'' value)
      else bindR (toNumber L (JStr value)) (\<lambda>n.
        let num = num_value n in
        if bitLength num > sz then Inl (err_class ''InvalidLargeValueError'' value)
        else if num < 0 then Inl (err_class ''InvalidUnsignedIntegerError'' value)
        else util_padLeft L (JStr (int_str 16 num)) (sz div 8 * 2) ''0''))"

definition pack_int :: "lib \<Rightarrow> string \<Rightarrow> nat \<Rightarrow> string \<Rightarrow> js_error + string" where
  "pack_int L type sz value =
     (if sz mod 8 \<noteq> 0 \<or> sz < 8 \<or> sz > 512 then Inl (err_class ''InvalidSizeError'' type)
      else bindR (toNumber L (JStr value)) (\<lambda>n.
        let num = num_value n in
        if num < - (2 ^ (sz - 1)) \<or> num \<ge> 2 ^ (sz - 1)
        then Inl (err_class ''InvalidLargeValueError'' value)
        else if num < 0 then toTwosComplement L (JStr (int_str 10 num)) (sz div 8 * 2)
        else util_padLeft L (JStr (int_str 16 num)) (sz div 4) ''0''))"

definition pack_bytes :: "lib \<Rightarrow> nat \<Rightarrow> string \<Rightarrow> js_error + string" where
  "pack_bytes L sz value =
     (if body_length value mod 2 \<noteq> 0 then Inl (err_class ''InvalidBytesError'' value)
      else if sz < 1 \<or> sz > 64 \<or> 2 * sz < body_length value
      then Inl (err_class ''InvalidBytesError'' value)
      else padRight L (JStr value) (sz * 2) ''0'')"

definition hyperionPack :: "lib \<Rightarrow> string \<Rightarrow> jsval \<Rightarrow> js_error + string" where
  "hyperionPack L type val = (case js_toString L val of
      None \<Rightarrow> Inl (err_class ''TypeError'' ''Cannot read properties of undefined (reading toString)'')
    | Some value \<Rightarrow>
        if type = ''string'' then
          (case val of JStr s \<Rightarrow> utf8ToHex L val | _ \<Rightarrow> Inl (err_class ''InvalidStringError'' value))
        else if type = ''bool'' \<or> type = ''boolean'' then
          (case val of JBool b \<Rightarrow> Inr (if b then ''01'' else ''00'')
           | _ \<Rightarrow> Inl (err_class ''InvalidBooleanError'' value))
        else if type = ''address'' then
          (if \<not> isAddressString L (JStr value) True then Inl (err_class ''InvalidAddressError'' value)
           else addressToHex L (JStr value))
        else
          let name = elementaryName type in
          if startsWith type ''uint'' then pack_uint L (parseTypeN name 4) value
          else if startsWith type ''int'' then pack_int L type (parseTypeN name 3) value
          else if name = ''bytes'' then
            (if body_length value mod 2 \<noteq> 0 then Inl (err_class ''InvalidBytesError'' value) else Inr value)
          else if startsWith type ''bytes'' then pack_bytes L (parseTypeN type 5) value
          else Inr [])"

text \<open>\<^verbatim>\<open>s.replace('0x', '')\<close>: the first occurrence only.\<close>

definition drop_0x :: "string \<Rightarrow> string" where
  "drop_0x s = (case find_sub ''0x'' s of Some (a, b) \<Rightarrow> a @ b | None \<Rightarrow> s)"

definition processHyperionEncodePackedArgs :: "lib \<Rightarrow> jsval \<Rightarrow> js_error + string" where
  "processHyperionEncodePackedArgs L arg =
     bindR (getType L arg) (\<lambda>(type, val). case val of
         JArr vs \<Rightarrow> map_sum id (\<lambda>hs. concat (map drop_0x hs)) (mapR (hyperionPack L type) vs)
       | JResult vs _ \<Rightarrow> map_sum id (\<lambda>hs. concat (map drop_0x hs)) (mapR (hyperionPack L type) vs)
       | _ \<Rightarrow> map_sum id drop_0x (hyperionPack L type val))"

definition encodePacked :: "lib \<Rightarrow> jsval list \<Rightarrow> js_error + string" where
  "encodePacked L values =
     map_sum id (\<lambda>hs. ''0x'' @ toLowerCase (concat hs)) (mapR (processHyperionEncodePackedArgs L) values)"

definition hyperionSha3 :: "lib \<Rightarrow> jsval list \<Rightarrow> js_error + string option" where
  "hyperionSha3 L values = bindR (encodePacked L values) (\<lambda>t. sha3 L (JStr t))"

definition hyperionSha3Raw :: "lib \<Rightarrow> jsval list \<Rightarrow> js_error + string" where
  "hyperionSha3Raw L values = bindR (encodePacked L values) (\<lambda>t. sha3Raw L (JStr t))"

definition getStorageSlotNumForLongString :: "lib \<Rightarrow> jsval \<Rightarrow> js_error + string option" where
  "getStorageSlotNumForLongString L slot = (case slot of
      JNum (NInt i) \<Rightarrow> sha3 L (JStr (''0x'' @ padStart 128 ''0'' (int_str 16 i)))
    | JNum n \<Rightarrow> sha3 L (JStr (''0x'' @ padStart 128 ''0'' (num_toString L n 16)))
    | JStr s \<Rightarrow> sha3 L (JStr (''0x'' @ padStart 128 ''0'' s))
    | _ \<Rightarrow> Inl (err_class ''TypeError'' ''padStart is not a function''))"

section \<open>What is hashed\<close>

lemma hexToBytes_0x:
  assumes "zod_ok L" "list_all is_hex_char h" "even (length h)"
  shows "hexToBytes L (JStr (''0x'' @ h)) = Inr (bytes_of_hex h)"
proof -
  have "validate1 L ''bytes'' (JStr (''0x'' @ h)) = Inr ()"
    using assms by (simp add: validate1_bytes isBytes_text)
  then show ?thesis
    using assms(2,3) hexToUint8Array_0x [of h]
    by (simp add: hexToBytes_def bytesToUint8Array_def toLowerCase_def lower_char_def char_code_def)
qed

lemma sha3Raw_bytes: "zod_ok L \<Longrightarrow> sha3Raw L (JBytes bs) = Inr (''0x'' @ hex_of_bytes (keccak256 L bs))"
  by (simp add: sha3Raw_def sha3_def keccak_of_def)

end
