(* ===== verification/HashProps.thy ===== *)
theory HashProps
  imports Hash Units
begin

text \<open>
  Packed encoding of integers: the text that is hashed is the big-endian two's complement bytes of the
  integers, one after the other.
\<close>

section \<open>Decimal texts of integers\<close>

lemma int_str_neg: "i < 0 \<Longrightarrow> int_str 10 i = CHR ''-'' # dec_str (nat (- i))"
  by (simp add: int_str_def)

lemma int_str_nonneg: "0 \<le> i \<Longrightarrow> int_str 10 i = dec_str (nat i)"
  by (simp add: int_str_def)

lemma js_BigInt_int_str: "js_BigInt (JStr (int_str 10 i)) = Inr i"
proof (cases "i < 0")
  case False
  then show ?thesis by (simp add: int_str_nonneg js_BigInt_dec)
next
  case True
  let ?d = "dec_str (nat (- i))"
  have d: "list_all is_dec_char ?d" "?d \<noteq> []" using dec_text_dec_str [of "nat (- i)"] by (simp_all add: dec_text_def)
  then have "\<not> is_space (last ?d)" by (auto simp: list_all_iff dest: hex_char_not_space)
  then have "trim (CHR ''-'' # ?d) = CHR ''-'' # ?d"
    using d by (intro trim_digits) (simp_all add: is_space_def)
  moreover have "\<not> startsWith (toLowerCase (CHR ''-'' # ?d)) (CHR ''0'' # t)" for t
    by (simp add: startsWith_def toLowerCase_def lower_char_def char_code_def)
  ultimately have "js_BigInt_str (CHR ''-'' # ?d) = Some i"
    using True d by (simp add: js_BigInt_str_def digits_opt_def) (simp add: startsWith_def digits_opt_def)
  then show ?thesis using True by (simp add: js_BigInt_def int_str_neg)
qed

lemma strip0x_dec: "dec_text s \<Longrightarrow> strip0x s = None"
proof (cases "strip0x s")
  case (Some h)
  assume d: "dec_text s"
  from Some have "1 < length s" "lower_char (s ! 1) = CHR ''x''" by (auto dest: strip0x_second)
  moreover from this d have "is_dec_char (s ! 1)" by (simp add: dec_text_def list_all_length)
  ultimately show ?thesis using dec_char_lower [of "s ! 1"] dec_char_simps(5) by simp
qed

lemma not_strict_int_str [simp]: "\<not> isHexStrict (JStr (int_str 10 i))"
proof (cases "i < 0")
  case False
  then have "strip0x (int_str 10 i) = None" by (simp add: int_str_nonneg strip0x_dec)
  moreover have "\<not> startsWith (int_str 10 i) ''-''"
    using False dec_text_no_prefix(2) [of "dec_str (nat i)" "CHR ''-''"] by (simp add: int_str_nonneg)
  ultimately show ?thesis
    by (cases "int_str 10 i") (auto simp: isHexStrict_def hex_strict_text_def startsWith_def split: option.splits)
next
  case True
  then show ?thesis by (simp add: isHexStrict_def int_str_neg strip0x_dec)
qed

lemma toNumber_int_str: "toNumber L (JStr (int_str 10 i)) = Inr (big_to_number i)"
  by (simp add: toNumber_def js_BigInt_int_str)

lemma isInt_int_str:
  assumes "- (2 ^ 511) \<le> i" "i < 2 ^ 511"
  shows "isInt (JStr (int_str 10 i)) (OptAbi ''int'') = Inr True"
  using assms by (simp add: isInt_default is_numeric_def typeof_def above_safe_def value_to_check_def
      js_BigInt_int_str in_range_def)

section \<open>Hexadecimal texts\<close>

lemma hex_text_bytes:
  assumes "list_all is_hex_char h" "length h = 2 * k"
  shows "toLowerCase h = hex_of_bytes (nat_be k (digits_val 16 h))"
proof -
  have "nat_be k (digits_val 16 h) = bytes_of_hex h"
    using assms nat_be_be_nat [of "bytes_of_hex h"] by (simp add: length_bytes_of_hex be_nat_bytes_of_hex)
  then show ?thesis using hex_of_bytes_of_hex [OF assms(1)] assms(2) by simp
qed

lemma not_strict_hex: "list_all is_hex_char h \<Longrightarrow> \<not> isHexStrict (JStr h)"
proof -
  assume h: "list_all is_hex_char h"
  have x: "\<not> is_hex_char c" if "lower_char c = CHR ''x''" for c
  proof
    assume "is_hex_char c"
    then have "list_all is_hex_char (toLowerCase [c])" by (intro toLowerCase_hex) simp
    then have "is_hex_char (CHR ''x'')" using that by (simp add: toLowerCase_def)
    then show False by (simp add: is_digit_of_def digit_val_def char_code_def)
  qed
  have "strip0x h = None"
    using h x by (cases h rule: strip0x.cases) auto
  moreover have "\<not> is_hex_char (CHR ''-'')" by (simp add: is_digit_of_def digit_val_def char_code_def)
  ultimately show ?thesis
    using h by (auto simp: isHexStrict_def hex_strict_text_def split: list.splits)
qed

lemma drop_0x_hex: "list_all is_hex_char h \<Longrightarrow> drop_0x h = h"
proof -
  assume h: "list_all is_hex_char h"
  have "find_sub ''0x'' h = None" if "list_all is_hex_char h" for h
    using that
  proof (induction h)
    case (Cons a h)
    have "\<not> startsWith (a # h) ''0x''"
    proof
      assume "startsWith (a # h) ''0x''"
      then have "CHR ''x'' \<in> set (a # h)" by (auto elim: startsWithE)
      then show False using Cons.prems by (auto simp: list_all_iff is_digit_of_def digit_val_def char_code_def)
    qed
    with Cons show ?case by simp
  qed simp
  with h show ?thesis by (simp add: drop_0x_def)
qed

lemma drop_0x_prefixed [simp]: "drop_0x (CHR ''0'' # CHR ''x'' # h) = h"
  by (simp add: drop_0x_def startsWith_def)

lemma bitLength_nat: "0 < w \<Longrightarrow> 0 \<le> i \<Longrightarrow> w < bitLength i \<longleftrightarrow> 2 ^ w \<le> i"
proof -
  assume w: "0 < w" and i: "0 \<le> i"
  have "length (radix_str 2 (nat i)) \<le> w \<longleftrightarrow> nat i < 2 ^ w"
  proof
    assume "length (radix_str 2 (nat i)) \<le> w"
    moreover have "nat i < 2 ^ length (radix_digits 2 (nat i))"
      using radix_val_bound [of "radix_digits 2 (nat i)" 2] radix_digits_less [of 2] by auto
    ultimately show "nat i < 2 ^ w"
      by (simp add: radix_str_def) (meson less_le_trans one_le_numeral power_increasing)
  qed (use w in \<open>auto intro: length_radix_str\<close>)
  with i show ?thesis by (auto simp: bitLength_def int_str_def not_le not_less nat_less_iff)
qed

section \<open>One integer\<close>

text \<open>An integer with its type: whether it is sn, and how many bits it has.\<close>

type_synonym sized_int = "bool \<times> nat \<times> int"

definition typed_int :: "sized_int \<Rightarrow> jsval" where
  "typed_int p = (case p of (sn, w, i) \<Rightarrow>
     JObj [(''type'', JStr ((if sn then ''int'' else ''uint'') @ dec_str w)), (''value'', JBig i)])"

definition fits :: "sized_int \<Rightarrow> bool" where
  "fits p = (case p of (sn, w, i) \<Rightarrow>
     w mod 8 = 0 \<and> 8 \<le> w \<and> w \<le> 512 \<and>
     (if sn then - (2 ^ (w - 1)) \<le> i \<and> i < 2 ^ (w - 1) else 0 \<le> i \<and> i < 2 ^ w))"

definition int_bytes :: "sized_int \<Rightarrow> bytes" where
  "int_bytes p = (case p of (sn, w, i) \<Rightarrow> nat_be (w div 8) (nat (i mod 2 ^ w)))"

lemma parseTypeN_dec: "parseTypeN (p @ dec_str w) (length p) = w"
proof -
  have d: "drop (length p) (p @ dec_str w) = dec_str w" by simp
  have t: "takeWhile is_dec_char (dec_str w) = dec_str w"
    using dec_text_dec_str [of w] unfolding takeWhile_eq_all_conv by (simp add: dec_text_def list_all_iff)
  show ?thesis unfolding parseTypeN_def d t by simp
qed

lemma dec_str_Cons: obtains c s where "dec_str w = c # s" "is_dec_char c"
  using dec_text_dec_str [of w] by (cases "dec_str w") auto

lemma pack_uint_int:
  assumes "w mod 8 = 0" "8 \<le> w" "w \<le> 512"
  shows "0 \<le> i \<Longrightarrow> i < 2 ^ w \<Longrightarrow> \<exists>h. pack_uint L w (int_str 10 i) = Inr h \<and> list_all is_hex_char h \<and>
      length h = 2 * (w div 8) \<and> digits_val 16 h = nat i"
    "\<not> (0 \<le> i \<and> i < 2 ^ w) \<Longrightarrow> isl (pack_uint L w (int_str 10 i))"
proof -
  assume i: "0 \<le> i" "i < 2 ^ w"
  have w: "w = 4 * (2 * (w div 8))" using assms(1) by presburger
  have "(2 :: int) ^ w = 16 ^ (2 * (w div 8))" by (subst w) (simp add: power_mult)
  then have "nat i < 16 ^ (2 * (w div 8))" using i by (simp add: nat_less_iff)
  then have "length (hex_str (nat i)) \<le> 2 * (w div 8)" using assms(2) by (intro length_radix_str) auto
  moreover have "\<not> isHexStrict (JStr (hex_str (nat i)))"
    by (rule not_strict_hex [OF hex_str_hex])
  ultimately show "\<exists>h. pack_uint L w (int_str 10 i) = Inr h \<and> list_all is_hex_char h \<and>
      length h = 2 * (w div 8) \<and> digits_val 16 h = nat i"
    using assms i bitLength_nat [of w i]
    by (simp add: pack_uint_def toNumber_int_str int_str_def [of 16] util_padLeft_def length_padStart
        padStart_zeros_digits hex_str_hex mult.commute Let_def)
next
  assume "\<not> (0 \<le> i \<and> i < 2 ^ w)"
  then show "isl (pack_uint L w (int_str 10 i))"
    using assms bitLength_nat [of w i] by (auto simp: pack_uint_def toNumber_int_str Let_def not_less)
qed

lemma pack_int_int:
  assumes L: "zod_ok L" and w: "w mod 8 = 0" "8 \<le> w" "w \<le> 512"
  shows "- (2 ^ (w - 1)) \<le> i \<Longrightarrow> i < 2 ^ (w - 1) \<Longrightarrow> \<exists>p h. pack_int L t w (int_str 10 i) = Inr (p @ h) \<and>
      p \<in> {[], ''0x''} \<and> list_all is_hex_char h \<and> length h = 2 * (w div 8) \<and>
      int (digits_val 16 h) = i mod 2 ^ w"
    "\<not> (- (2 ^ (w - 1)) \<le> i \<and> i < 2 ^ (w - 1)) \<Longrightarrow> isl (pack_int L t w (int_str 10 i))"
proof -
  assume i: "- (2 ^ (w - 1)) \<le> i" "i < 2 ^ (w - 1)"
  have w8: "w = 4 * (2 * (w div 8))" using w(1) by presburger
  have half: "(2 :: int) ^ w = 2 * 2 ^ (w - 1)" using w(2) by (simp flip: power_Suc)
  have big: "(2 :: int) ^ (w - 1) \<le> 2 ^ 511" using w(3) by (intro power_increasing) auto
  show "\<exists>p h. pack_int L t w (int_str 10 i) = Inr (p @ h) \<and> p \<in> {[], ''0x''} \<and> list_all is_hex_char h \<and>
      length h = 2 * (w div 8) \<and> int (digits_val 16 h) = i mod 2 ^ w"
  proof (cases "i < 0")
    case True
    have p16: "(2 :: int) ^ (4 * (2 * (w div 8))) = 2 ^ w" by (subst (2) w8) (rule refl)
    have "isInt (JStr (int_str 10 i)) (OptAbi ''int'') = Inr True"
      using i big by (intro isInt_int_str) linarith+
    moreover have "- (2 ^ (4 * (2 * (w div 8)))) < i" "i < 2 ^ (4 * (2 * (w div 8)))"
      using i True half unfolding p16 by (simp_all add: less_le_trans)
    moreover have "0 < 2 * (w div 8)" using w(1,2) by presburger
    ultimately obtain h where "toTwosComplement L (JStr (int_str 10 i)) (2 * (w div 8)) = Inr (''0x'' @ h)"
      "length h = 2 * (w div 8)" "list_all is_hex_char h" "int (digits_val 16 h) = i mod 2 ^ w"
      using toTwosComplement_value [OF L _ toNumber_int_str, of i "2 * (w div 8)"] p16 by auto
    then show ?thesis
      using True i w by (intro exI [of _ "''0x''"] exI [of _ h])
        (simp add: pack_int_def toNumber_int_str mult.commute Let_def not_less)
  next
    case False
    have "(2 :: int) ^ w = 16 ^ (2 * (w div 8))" by (subst w8) (simp add: power_mult)
    then have "nat i < 16 ^ (2 * (w div 8))" using i False half by (simp add: nat_less_iff)
    then have "length (hex_str (nat i)) \<le> 2 * (w div 8)" using w(2) by (intro length_radix_str) auto
    moreover have "w div 4 = 2 * (w div 8)" using w(1) by presburger
    moreover have "i mod 2 ^ w = i" using i False half by simp
    ultimately show ?thesis
      using False i w
      by (intro exI [of _ "[]"] exI [of _ "padStart (2 * (w div 8)) ''0'' (hex_str (nat i))"])
        (simp add: pack_int_def toNumber_int_str int_str_def [of 16] util_padLeft_def length_padStart
          padStart_zeros_digits hex_str_hex not_strict_hex Let_def not_less)
  qed
next
  assume "\<not> (- (2 ^ (w - 1)) \<le> i \<and> i < 2 ^ (w - 1))"
  then show "isl (pack_int L t w (int_str 10 i))"
    using w by (auto simp: pack_int_def toNumber_int_str Let_def not_le not_less)
qed

lemma process_typed:
  "processHyperionEncodePackedArgs L (typed_int (sn, w, i)) =
     map_sum id drop_0x (if sn then pack_int L (''int'' @ dec_str w) w (int_str 10 i)
       else pack_uint L w (int_str 10 i))"
proof -
  obtain c s where c: "dec_str w = c # s" "is_dec_char c" by (rule dec_str_Cons)
  have low: "toLowerCase (p @ dec_str w) = toLowerCase p @ dec_str w" for p
    using dec_text_dec_str [of w] by (simp add: toLowerCase_def dec_text_def list_all_iff dec_char_lower map_idI)
  have nb: "c \<noteq> CHR ''g''" "c \<noteq> CHR ''['' " using c(2) by (auto simp: is_digit_of_def digit_val_def char_code_def)
  have gt: "getType L (typed_int (sn, w, i)) = Inr ((if sn then ''int'' else ''uint'') @ dec_str w, JBig i)"
    using c nb low by (simp add: getType_def typed_int_def isArray_def given_type_def obj_get_def toLowerCase_def lower_char_def char_code_def)
  have el: "elementaryName (''int'' @ dec_str w) = ''int'' @ dec_str w"
    "elementaryName (''uint'' @ dec_str w) = ''uint'' @ dec_str w"
    using c nb by (simp_all add: elementaryName_def startsWith_def)
  have n: "parseTypeN (''int'' @ dec_str w) 3 = w" "parseTypeN (''uint'' @ dec_str w) 4 = w"
    using parseTypeN_dec [of "''int''" w] parseTypeN_dec [of "''uint''" w] by (simp_all add: numeral_nat)
  show ?thesis
    using n el gt c
    by (simp add: processHyperionEncodePackedArgs_def hyperionPack_def startsWith_def)
qed

section \<open>Lists of integers\<close>

lemma width_refused:
  "\<not> (w mod 8 = 0 \<and> 8 \<le> w \<and> w \<le> 512) \<Longrightarrow> isl (pack_uint L w v) \<and> isl (pack_int L t w v)"
  by (auto simp: pack_uint_def pack_int_def)

lemma process_fits:
  assumes "zod_ok L" "fits p"
  shows "\<exists>h. processHyperionEncodePackedArgs L (typed_int p) = Inr h \<and>
    toLowerCase h = hex_of_bytes (int_bytes p)"
proof -
  obtain sn w i where p: "p = (sn, w, i)" by (cases p)
  have w: "w mod 8 = 0" "8 \<le> w" "w \<le> 512" using assms(2) by (simp_all add: fits_def p)
  have "\<exists>q h. (if sn then pack_int L (''int'' @ dec_str w) w (int_str 10 i) else pack_uint L w (int_str 10 i)) =
      Inr (q @ h) \<and> q \<in> {[], ''0x''} \<and> list_all is_hex_char h \<and> length h = 2 * (w div 8) \<and>
      int (digits_val 16 h) = i mod 2 ^ w"
  proof (cases sn)
    case True
    then show ?thesis using pack_int_int(1) [OF assms(1) w] assms(2) by (simp add: fits_def p)
  next
    case False
    then obtain h where "pack_uint L w (int_str 10 i) = Inr h" "list_all is_hex_char h"
      "length h = 2 * (w div 8)" "digits_val 16 h = nat i"
      using pack_uint_int(1) [OF w] assms(2) by (auto simp: fits_def p)
    then show ?thesis using False assms(2) by (intro exI [of _ "[]"] exI [of _ h]) (simp add: fits_def p)
  qed
  then obtain q h where qh: "(if sn then pack_int L (''int'' @ dec_str w) w (int_str 10 i)
      else pack_uint L w (int_str 10 i)) = Inr (q @ h)" "q \<in> {[], ''0x''}" and h: "list_all is_hex_char h"
      "length h = 2 * (w div 8)" "int (digits_val 16 h) = i mod 2 ^ w" by blast
  have "drop_0x (q @ h) = h" using qh(2) drop_0x_hex [OF h(1)] by auto
  then have "processHyperionEncodePackedArgs L (typed_int p) = Inr h"
    using qh(1) unfolding p process_typed by simp
  moreover have "toLowerCase h = hex_of_bytes (int_bytes p)"
    using hex_text_bytes [OF h(1,2)] h(3) by (simp add: p int_bytes_def flip: h(3))
  ultimately show ?thesis by blast
qed

lemma process_refused:
  assumes "zod_ok L" "\<not> fits p"
  shows "isl (processHyperionEncodePackedArgs L (typed_int p))"
proof -
  obtain sn w i where p: "p = (sn, w, i)" by (cases p)
  have "isl (if sn then pack_int L (''int'' @ dec_str w) w (int_str 10 i) else pack_uint L w (int_str 10 i))"
  proof (cases "w mod 8 = 0 \<and> 8 \<le> w \<and> w \<le> 512")
    case True
    then show ?thesis
      using assms pack_int_int(2) [OF assms(1), of w i] pack_uint_int(2) [of w i] by (auto simp: p fits_def)
  next
    case False
    then show ?thesis using width_refused by simp
  qed
  then show ?thesis unfolding p process_typed by (auto simp: isl_def)
qed

lemma mapR_refused: "x \<in> set xs \<Longrightarrow> isl (f x) \<Longrightarrow> isl (mapR f xs)"
  by (induction xs) (auto simp: bindR_def split: sum.splits)

lemma toLowerCase_concat: "toLowerCase (concat hs) = concat (map toLowerCase hs)"
  by (induction hs) (simp_all add: toLowerCase_def)

lemma hex_of_bytes_concat: "hex_of_bytes (concat bss) = concat (map hex_of_bytes bss)"
  by (induction bss) (simp_all add: hex_of_bytes_def)

text \<open>
  Packed encoding takes a list of integers with their types exactly when every width is a multiple of 8
  up to 512 bits and every integer is in the range of its type; the result is then the big-endian
  two's complement bytes of the integers in order, and what is hashed are these bytes.
\<close>

theorem packed_integers:
  assumes "zod_ok L"
  shows "(list_all fits ps \<longrightarrow>
      encodePacked L (map typed_int ps) = Inr (''0x'' @ hex_of_bytes (concat (map int_bytes ps))) \<and>
      hyperionSha3Raw L (map typed_int ps) =
        Inr (''0x'' @ hex_of_bytes (keccak256 L (concat (map int_bytes ps))))) \<and>
    (\<not> list_all fits ps \<longrightarrow> isl (encodePacked L (map typed_int ps)))"
proof (intro conjI impI)
  assume fit: "list_all fits ps"
  define f where "f p = (case processHyperionEncodePackedArgs L (typed_int p) of Inr h \<Rightarrow> h | Inl _ \<Rightarrow> [])" for p
  have f: "processHyperionEncodePackedArgs L (typed_int p) = Inr (f p)"
    "toLowerCase (f p) = hex_of_bytes (int_bytes p)" if "p \<in> set ps" for p
    using process_fits [OF assms, of p] fit that by (auto simp: f_def list_all_iff)
  have "mapR (\<lambda>p. processHyperionEncodePackedArgs L (typed_int p)) ps = Inr (map f ps)"
    using f(1) by (rule mapR_all_Inr)
  then have "mapR (processHyperionEncodePackedArgs L) (map typed_int ps) = Inr (map f ps)"
    by (simp add: mapR_Inr_iff list_all2_map1)
  moreover have "toLowerCase (concat (map f ps)) = hex_of_bytes (concat (map int_bytes ps))"
    using f(2) by (simp add: toLowerCase_concat hex_of_bytes_concat cong: map_cong)
  ultimately show enc: "encodePacked L (map typed_int ps) = Inr (''0x'' @ hex_of_bytes (concat (map int_bytes ps)))"
    by (simp add: encodePacked_def)
  let ?b = "concat (map int_bytes ps)"
  have "hexToBytes L (JStr (''0x'' @ hex_of_bytes ?b)) = Inr ?b"
    using hexToBytes_0x [OF assms hex_of_bytes_hex, of ?b] by simp
  then have "sha3Raw L (JStr (''0x'' @ hex_of_bytes ?b)) = sha3Raw L (JBytes ?b)"
    by (simp add: sha3Raw_def sha3_def isHexStrict_def hex_of_bytes_hex startsWith_def)
  then show "hyperionSha3Raw L (map typed_int ps) = Inr (''0x'' @ hex_of_bytes (keccak256 L ?b))"
    using enc sha3Raw_bytes [OF assms] by (simp add: hyperionSha3Raw_def)
next
  assume "\<not> list_all fits ps"
  then obtain p where "p \<in> set ps" "\<not> fits p" by (auto simp: list_all_iff)
  then have "isl (mapR (processHyperionEncodePackedArgs L) (map typed_int ps))"
    using process_refused [OF assms] by (intro mapR_refused [of "typed_int p"]) auto
  then show "isl (encodePacked L (map typed_int ps))" by (auto simp: encodePacked_def isl_def)
qed

theorem packed_integers_witness:
  "encodePacked lib_ref (map typed_int [(True, 8, - 1), (False, 16, 258)]) = Inr ''0xff0102'' \<and>
   isl (encodePacked lib_ref (map typed_int [(False, 8, 256)]))"
proof -
  have "list_all fits [(True, 8, - 1), (False, 16, 258)]" "\<not> list_all fits [(False, 8, 256)]"
    by (simp_all add: fits_def)
  moreover have "''0x'' @ hex_of_bytes (concat (map int_bytes [(True, 8, - 1), (False, 16, 258)])) = ''0xff0102''"
    by code_simp
  ultimately show ?thesis using packed_integers [OF lib_ref_zod] by metis
qed

end
