(* ===== verification/Json.thy ===== *)
theory Json
  imports ValSchema
begin

text \<open>
  \<^verbatim>\<open>JSON.parse\<close> on the texts of the model, whose characters have eight bits: an escape of a larger code
  point is refused here. A numeral that is not a safe integer has the value the runtime gives it. That
  what \<^verbatim>\<open>JSON.stringify\<close> wrote is read back is shown for the values made of texts, safe integers,
  booleans, \<^verbatim>\<open>null\<close>, arrays and objects.
\<close>

section \<open>Tokens\<close>

definition json_space :: "char \<Rightarrow> bool" where
  "json_space c = (c \<in> set [CHR 0x09, CHR 0x0A, CHR 0x0D, CHR 0x20])"

definition skip_space :: "string \<Rightarrow> string" where
  "skip_space s = dropWhile json_space s"

definition json_unescape :: "char \<Rightarrow> char option" where
  "json_unescape e = map_of [(CHR 0x22, CHR 0x22), (CHR 0x5C, CHR 0x5C), (CHR ''/'', CHR ''/''),
     (CHR ''b'', CHR 0x08), (CHR ''f'', CHR 0x0C), (CHR ''n'', CHR 0x0A), (CHR ''r'', CHR 0x0D),
     (CHR ''t'', CHR 0x09)] e"

text \<open>The characters of a text up to its closing quote.\<close>

fun json_text :: "string \<Rightarrow> (string \<times> string) option" where
  "json_text [] = None"
| "json_text [c] = (if c = CHR 0x22 then Some ([], []) else None)"
| "json_text (c # e # s) =
     (if c = CHR 0x22 then Some ([], e # s)
      else if c = CHR 0x5C then
        (if e = CHR ''u'' then
           (case s of
              a # b # d # f # s' \<Rightarrow>
                if list_all is_hex_char [a, b, d, f] \<and> digits_val 16 [a, b, d, f] < 256
                then map_option (\<lambda>(t, r). (char_of (digits_val 16 [a, b, d, f]) # t, r)) (json_text s')
                else None
            | _ \<Rightarrow> None)
         else case json_unescape e of
             Some x \<Rightarrow> map_option (\<lambda>(t, r). (x # t, r)) (json_text s)
           | None \<Rightarrow> None)
      else if char_code c < 32 then None
      else map_option (\<lambda>(t, r). (c # t, r)) (json_text (e # s)))"

definition take_digits :: "string \<Rightarrow> string \<times> string" where
  "take_digits s = (takeWhile is_dec_char s, dropWhile is_dec_char s)"

text \<open>The numeral a text starts with: its integral part, the rest of it, and what follows.\<close>

definition json_numeral :: "string \<Rightarrow> (string \<times> string \<times> string) option" where
  "json_numeral s =
     (let (sn, s1) = (if startsWith s ''-'' then (''-'', tl s) else ([], s));
          (ds, s2) = take_digits s1 in
      if ds = [] \<or> (hd ds = CHR ''0'' \<and> length ds \<noteq> 1) then None
      else
        let (frac, s3) = (if startsWith s2 ''.'' then (let (d, r) = take_digits (tl s2) in (''.'' @ d, r))
              else ([], s2)) in
        if frac = ''.'' then None
        else
          let (ex, s4) = (if s3 \<noteq> [] \<and> lower_char (hd s3) = CHR ''e'' then
                (let sg = (if tl s3 \<noteq> [] \<and> hd (tl s3) \<in> set ''+-'' then [hd (tl s3)] else []);
                     (d, r) = take_digits (drop (1 + length sg) s3) in
                 (hd s3 # sg @ d, r)) else ([], s3)) in
          if ex \<noteq> [] \<and> \<not> is_dec_char (last ex) then None
          else Some (sn @ ds, frac @ ex, s4))"

definition int_of_text :: "string \<Rightarrow> int" where
  "int_of_text s = (if startsWith s ''-'' then - int (digits_val 10 (tl s)) else int (digits_val 10 s))"

definition json_number :: "lib \<Rightarrow> string \<Rightarrow> string \<Rightarrow> jsval" where
  "json_number L integral rest =
     JNum (if rest = [] \<and> \<bar>int_of_text integral\<bar> \<le> MAX_SAFE_INTEGER then NInt (int_of_text integral)
           else num_parse L (integral @ rest))"

section \<open>Values\<close>

text \<open>The fuel is the number of characters left, at most; every call takes one at least.\<close>

fun json_value :: "lib \<Rightarrow> nat \<Rightarrow> string \<Rightarrow> (jsval \<times> string) option"
  and json_items :: "lib \<Rightarrow> nat \<Rightarrow> string \<Rightarrow> (jsval list \<times> string) option"
  and json_members :: "lib \<Rightarrow> nat \<Rightarrow> string \<Rightarrow> ((string \<times> jsval) list \<times> string) option" where
  "json_value L 0 s = None"
| "json_value L (Suc n) s =
     (let t = skip_space s in
      if startsWith t ''{'' then
        (if startsWith (skip_space (tl t)) ''}'' then Some (JObj [], tl (skip_space (tl t)))
         else map_option (\<lambda>(kvs, r). (JObj (fold (\<lambda>(k, v). AList.update k v) kvs []), r))
           (json_members L n (tl t)))
      else if startsWith t ''['' then
        (if startsWith (skip_space (tl t)) '']'' then Some (JArr [], tl (skip_space (tl t)))
         else map_option (\<lambda>(vs, r). (JArr vs, r)) (json_items L n (tl t)))
      else if startsWith t [CHR 0x22] then map_option (\<lambda>(u, r). (JStr u, r)) (json_text (tl t))
      else if startsWith t ''true'' then Some (JBool True, drop 4 t)
      else if startsWith t ''false'' then Some (JBool False, drop 5 t)
      else if startsWith t ''null'' then Some (JNull, drop 4 t)
      else map_option (\<lambda>(i, x, r). (json_number L i x, r)) (json_numeral t))"
| "json_items L 0 s = None"
| "json_items L (Suc n) s =
     (case json_value L n s of
        None \<Rightarrow> None
      | Some (v, r) \<Rightarrow>
          let t = skip_space r in
          if startsWith t '','' then map_option (\<lambda>(vs, r'). (v # vs, r')) (json_items L n (tl t))
          else if startsWith t '']'' then Some ([v], tl t) else None)"
| "json_members L 0 s = None"
| "json_members L (Suc n) s =
     (let t = skip_space s in
      if \<not> startsWith t [CHR 0x22] then None
      else case json_text (tl t) of
        None \<Rightarrow> None
      | Some (k, r) \<Rightarrow>
          if \<not> startsWith (skip_space r) '':'' then None
          else case json_value L n (tl (skip_space r)) of
            None \<Rightarrow> None
          | Some (v, r') \<Rightarrow>
              let u = skip_space r' in
              if startsWith u '','' then map_option (\<lambda>(kvs, r''). ((k, v) # kvs, r'')) (json_members L n (tl u))
              else if startsWith u ''}'' then Some ([(k, v)], tl u) else None)"

definition json_parse :: "lib \<Rightarrow> string \<Rightarrow> js_error + jsval" where
  "json_parse L s = (case json_value L (Suc (length s)) s of
      Some (v, r) \<Rightarrow>
        if skip_space r = [] then Inr v else Inl (err_class ''SyntaxError'' ''Unexpected token in JSON'')
    | None \<Rightarrow> Inl (err_class ''SyntaxError'' ''Unexpected token in JSON''))"

section \<open>Reading back what was written\<close>

fun plain_json :: "jsval \<Rightarrow> bool" where
  "plain_json JNull = True"
| "plain_json (JBool b) = True"
| "plain_json (JNum (NInt i)) = (\<bar>i\<bar> \<le> MAX_SAFE_INTEGER)"
| "plain_json (JStr s) = True"
| "plain_json (JArr vs) = list_all plain_json vs"
| "plain_json (JObj kvs) = (distinct (map fst kvs) \<and> list_all (\<lambda>(k, v). plain_json v) kvs)"
| "plain_json _ = False"

lemma json_control:
  assumes "char_code c < 32"
  obtains a b d f where "padStart 4 ''0'' (hex_str (char_code c)) = [a, b, d, f]"
    "list_all is_hex_char [a, b, d, f]" "digits_val 16 [a, b, d, f] = char_code c"
proof -
  let ?h = "padStart 4 ''0'' (hex_str (char_code c))"
  have "length (hex_str (char_code c)) \<le> 2" using assms by (intro length_radix_str) auto
  then have "length ?h = 4" by (simp add: length_padStart)
  then obtain a b d f where h: "?h = [a, b, d, f]"
    by (auto simp: eval_nat_numeral length_Suc_conv)
  have "list_all is_hex_char (hex_str (char_code c))" by (simp add: list_all_iff radix_str_digits)
  then have "list_all is_hex_char ?h" by (intro padStart_zeros_digits) simp_all
  moreover have "digits_val 16 ?h = char_code c" by simp
  ultimately show ?thesis using that h by simp
qed

lemma json_short:
  assumes "c \<in> set [CHR 0x22, CHR 0x5C, CHR 0x08, CHR 0x0C, CHR 0x0A, CHR 0x0D, CHR 0x09]"
  shows "\<exists>e. json_escape c = [CHR 0x5C, e] \<and> e \<noteq> CHR ''u'' \<and> json_unescape e = Some c"
  using assms by (auto simp: json_escape_def json_unescape_def)

lemma dec_str_no_zero: "hd (dec_str n) = CHR ''0'' \<Longrightarrow> length (dec_str n) = 1"
proof (cases "n = 0")
  case True
  then show ?thesis by (simp add: radix_str_def radix_digits.simps)
next
  case False
  assume h: "hd (dec_str n) = CHR ''0''"
  have "0 < hd (radix_digits 10 n)" "hd (radix_digits 10 n) < 10"
    using False radix_digits_hd [of 10 n] radix_digits_less [of 10 _ n] by (simp_all add: hd_in_set)
  moreover have "digit_char (hd (radix_digits 10 n)) = CHR ''0''"
    using h by (simp add: radix_str_def hd_map)
  then have "digit_val (digit_char (hd (radix_digits 10 n))) = Some 0"
    by (simp add: digit_val_def char_code_def)
  ultimately show ?thesis by simp
qed

lemma json_text_quote: "json_text (concat (map json_escape s) @ CHR 0x22 # r) = Some (s, r)"
proof (induction s)
  case Nil
  then show ?case by (cases r) simp_all
next
  case (Cons c s)
  let ?r = "concat (map json_escape s) @ CHR 0x22 # r"
  have "json_text (json_escape c @ ?r) = Some (c # s, r)"
  proof (cases "c \<in> set [CHR 0x22, CHR 0x5C, CHR 0x08, CHR 0x0C, CHR 0x0A, CHR 0x0D, CHR 0x09]")
    case True
    then obtain e where "json_escape c = [CHR 0x5C, e]" "e \<noteq> CHR ''u''" "json_unescape e = Some c"
      using json_short by blast
    then show ?thesis using Cons by simp
  next
    case False
    show ?thesis
    proof (cases "char_code c < 32")
      case True
      then obtain a b d f where h: "padStart 4 ''0'' (hex_str (char_code c)) = [a, b, d, f]"
        "list_all is_hex_char [a, b, d, f]" "digits_val 16 [a, b, d, f] = char_code c"
        by (rule json_control)
      then have "json_escape c = [CHR 0x5C, CHR ''u'', a, b, d, f]"
        using False True by (simp add: json_escape_def)
      then show ?thesis using h Cons True by (simp add: char_code_def)
    next
      case large: False
      then have "json_escape c = [c]" using False by (auto simp: json_escape_def)
      moreover obtain e u where "?r = e # u" by (cases ?r) auto
      ultimately show ?thesis using Cons False large by simp
    qed
  qed
  then show ?case by simp
qed

text \<open>What may follow a value in a text that was written: the end, a comma or a closing bracket.\<close>

definition json_stop :: "string \<Rightarrow> bool" where
  "json_stop r = (r = [] \<or> hd r \<in> set '',]}'')"

lemma json_numeral_int:
  assumes "json_stop r"
  shows "json_numeral (int_str 10 i @ r) = Some (int_str 10 i, [], r)"
proof -
  have stop: "takeWhile is_dec_char r = []" "dropWhile is_dec_char r = r" "\<not> startsWith r ''.''"
    "\<not> (r \<noteq> [] \<and> lower_char (hd r) = CHR ''e'')"
    using assms by (cases r; auto simp: json_stop_def is_digit_of_def digit_val_def char_code_def
        startsWith_def lower_char_def)+
  have digits: "take_digits (dec_str n @ r) = (dec_str n, r)" for n
    using stop radix_str_digits [of 10 _ n] by (simp add: take_digits_def)
  show ?thesis
  proof (cases "i < 0")
    case True
    then have "int_str 10 i = CHR ''-'' # dec_str (nat (- i))" by (simp add: int_str_def)
    then show ?thesis using digits stop dec_str_no_zero by (auto simp: json_numeral_def startsWith_def)
  next
    case False
    obtain c u where cu: "dec_str (nat i) = c # u" by (cases "dec_str (nat i)") auto
    then have "is_dec_char c" using radix_str_digits [of 10 c "nat i"] by simp
    then have "c \<noteq> CHR ''-''" by (auto simp: is_digit_of_def digit_val_def char_code_def)
    then have "\<not> startsWith (dec_str (nat i) @ r) ''-''" using cu by (simp add: startsWith_def)
    then show ?thesis using digits stop dec_str_no_zero False by (auto simp: json_numeral_def int_str_def)
  qed
qed

lemma json_number_int: "\<bar>i\<bar> \<le> MAX_SAFE_INTEGER \<Longrightarrow> json_number L (int_str 10 i) [] = JNum (NInt i)"
proof -
  have "int_of_text (int_str 10 i) = i"
  proof (cases "i < 0")
    case True
    then show ?thesis by (simp add: int_of_text_def int_str_def startsWith_def)
  next
    case False
    obtain c u where cu: "dec_str (nat i) = c # u" by (cases "dec_str (nat i)") auto
    then have "is_dec_char c" using radix_str_digits [of 10 c "nat i"] by simp
    then have "c \<noteq> CHR ''-''" by (auto simp: is_digit_of_def digit_val_def char_code_def)
    moreover have "digits_val 10 (dec_str (nat i)) = nat i" by simp
    ultimately show ?thesis using False cu by (simp add: int_of_text_def int_str_def startsWith_def)
  qed
  then show "\<bar>i\<bar> \<le> MAX_SAFE_INTEGER \<Longrightarrow> ?thesis" by (simp add: json_number_def)
qed

text \<open>The first character of what was written.\<close>

definition json_first :: "char \<Rightarrow> bool" where
  "json_first c = (c \<in> set (CHR 0x22 # ''{[tfn-'') \<or> is_dec_char c)"

lemma int_str_first:
  obtains c u where "int_str 10 i = c # u" "json_first c" "c \<notin> set (CHR 0x22 # ''{[tfn]'')"
proof (cases "i < 0")
  case True
  then show ?thesis using that by (simp add: int_str_def json_first_def)
next
  case False
  obtain c u where cu: "dec_str (nat i) = c # u" by (cases "dec_str (nat i)") auto
  then have "is_dec_char c" using radix_str_digits [of 10 c "nat i"] by simp
  then have "c \<notin> set (CHR 0x22 # ''{[tfn]'')" "json_first c"
    by (auto simp: json_first_def is_digit_of_def digit_val_def char_code_def)
  then show ?thesis using False cu that by (simp add: int_str_def)
qed

lemma json_first_not_space: "json_first c \<Longrightarrow> \<not> json_space c"
  by (auto simp: json_first_def json_space_def is_digit_of_def digit_val_def char_code_def)

lemma js_json_first:
  assumes "plain_json v" "js_json L v = Inr (Some t)"
  obtains c u where "t = c # u" "json_first c" "c \<noteq> CHR '']''"
proof (cases v)
  case (JNum m)
  then obtain i where "m = NInt i" "\<bar>i\<bar> \<le> MAX_SAFE_INTEGER" using assms(1) by (cases m) auto
  then have t: "t = int_str 10 i" using assms(2) JNum by (simp add: num_text_def MAX_SAFE_INTEGER_def)
  obtain c u where "int_str 10 i = c # u" "json_first c" "c \<notin> set (CHR 0x22 # ''{[tfn]'')"
    by (rule int_str_first)
  then show ?thesis using t that by simp
next
  case (JBool b)
  then show ?thesis using assms(2) that by (cases b) (auto simp: json_first_def)
qed (use assms that in \<open>auto simp: json_first_def json_quote_def bindR_Inr_iff\<close>)

lemma skip_first: "json_first c \<Longrightarrow> skip_space (c # u) = c # u"
  by (simp add: skip_space_def json_first_not_space)

lemma skip_punct [simp]:
  "skip_space (CHR '','' # u) = CHR '','' # u" "skip_space (CHR '']'' # u) = CHR '']'' # u"
  "skip_space (CHR ''}'' # u) = CHR ''}'' # u" "skip_space (CHR '':'' # u) = CHR '':'' # u"
  "skip_space (CHR 0x22 # u) = CHR 0x22 # u" "skip_space [] = []"
  by (simp_all add: skip_space_def json_space_def)

abbreviation reads :: "lib \<Rightarrow> jsval \<Rightarrow> string \<Rightarrow> bool" where
  "reads L v t \<equiv> \<forall>n r. length t \<le> n \<longrightarrow> json_stop r \<longrightarrow> json_value L n (t @ r) = Some (v, r)"

lemma json_items_join:
  assumes "list_all2 (reads L) vs ts" "vs \<noteq> []" "length (join_with '','' ts) < n"
  shows "json_items L n (join_with '','' ts @ CHR '']'' # r) = Some (vs, r)"
  using assms
proof (induction vs ts arbitrary: n rule: list_all2_induct)
  case (Cons v vs t ts)
  then obtain m where n: "n = Suc m" by (cases n) auto
  show ?case
  proof (cases ts)
    case Nil
    then have "vs = []" using Cons.hyps(2) by simp
    moreover have "json_value L m (t @ CHR '']'' # r) = Some (v, CHR '']'' # r)"
      using Cons.hyps(1) Cons.prems n Nil by (auto simp: json_stop_def)
    ultimately show ?thesis using n Nil by (simp add: startsWith_def)
  next
    case (Cons t' ts')
    then have ne: "vs \<noteq> []" using Cons.hyps(2) by auto
    let ?u = "join_with '','' ts @ CHR '']'' # r"
    have "json_value L m (t @ CHR '','' # ?u) = Some (v, CHR '','' # ?u)"
      using Cons.hyps(1) Cons.prems n Cons by (auto simp: json_stop_def)
    moreover have "json_items L m ?u = Some (vs, r)"
      using Cons.prems n Cons by (intro Cons.IH ne) auto
    ultimately show ?thesis using n Cons by (simp add: startsWith_def)
  qed
qed simp

lemma json_member:
  assumes "reads L v t" "json_stop u" "length t \<le> n"
  shows "json_members L (Suc n) (json_quote k @ CHR '':'' # t @ u) =
    (if startsWith u '','' then map_option (\<lambda>(kvs, r). ((k, v) # kvs, r)) (json_members L n (tl u))
     else if startsWith u ''}'' then Some ([(k, v)], tl u) else None)"
proof -
  have u: "skip_space u = u" using assms(2)
    by (cases u) (auto simp: json_stop_def skip_space_def json_space_def)
  have "json_value L n (t @ u) = Some (v, u)" using assms by blast
  then show ?thesis using u by (simp add: json_quote_def json_text_quote startsWith_def)
qed

definition json_written :: "lib \<Rightarrow> jsval \<Rightarrow> string" where
  "json_written L v = (case js_json L v of Inr (Some t) \<Rightarrow> t | _ \<Rightarrow> [])"

definition member_text :: "lib \<Rightarrow> string \<times> jsval \<Rightarrow> string" where
  "member_text L kv = json_quote (fst kv) @ '':'' @ json_written L (snd kv)"

lemma json_members_join:
  assumes "\<forall>kv \<in> set kvs. reads L (snd kv) (json_written L (snd kv))" "kvs \<noteq> []"
    "length (join_with '','' (map (member_text L) kvs)) < n"
  shows "json_members L n (join_with '','' (map (member_text L) kvs) @ CHR ''}'' # r) = Some (kvs, r)"
  using assms
proof (induction kvs arbitrary: n)
  case (Cons kv kvs)
  obtain k v where kv: "kv = (k, v)" by (cases kv)
  obtain m where n: "n = Suc m" using Cons.prems by (cases n) auto
  have v: "reads L v (json_written L v)" using Cons.prems kv by simp
  show ?case
  proof (cases kvs)
    case Nil
    then have "length (json_written L v) \<le> m"
      using Cons.prems n kv by (simp add: member_text_def)
    then show ?thesis using json_member [OF v, of "CHR ''}'' # r" m k] Nil kv n
      by (simp add: member_text_def json_stop_def startsWith_def)
  next
    case (Cons kv' kvs')
    let ?u = "join_with '','' (map (member_text L) kvs) @ CHR ''}'' # r"
    have "json_members L m ?u = Some (kvs, r)"
      using Cons.prems n Cons by (intro Cons.IH) auto
    moreover have "length (json_written L v) \<le> m"
      using Cons.prems n kv Cons by (simp add: member_text_def)
    ultimately have "json_members L n (json_quote k @ CHR '':'' # json_written L v @ CHR '','' # ?u) =
        Some (kv # kvs, r)"
      using json_member [OF v, of "CHR '','' # ?u" m k] n kv
      by (simp add: json_stop_def startsWith_def del: json_members.simps)
    moreover have "join_with '','' (map (member_text L) (kv # kvs)) @ CHR ''}'' # r =
        json_quote k @ CHR '':'' # json_written L v @ CHR '','' # ?u"
      using Cons kv by (simp add: member_text_def)
    ultimately show ?thesis by (simp only:)
  qed
qed simp

lemma update_distinct:
  "distinct (map fst (acc @ kvs)) \<Longrightarrow> fold (\<lambda>(k, v). AList.update k v) kvs acc = acc @ kvs"
proof (induction kvs arbitrary: acc)
  case (Cons kv kvs)
  obtain k v where kv: "kv = (k, v)" by (cases kv)
  have "k \<notin> fst ` set acc \<Longrightarrow> AList.update k v acc = acc @ [(k, v)]" for acc :: "('a \<times> 'b) list"
    by (induction acc) auto
  then have "AList.update k v acc = acc @ [kv]" using Cons.prems kv by force
  then show ?case using Cons kv by simp
qed simp

lemma join_first:
  assumes "vs \<noteq> []"
    "\<And>v. v \<in> set vs \<Longrightarrow> js_json L v = Inr (Some (json_written L v)) \<and> reads L v (json_written L v)"
    "plain_json (JArr vs)"
  obtains c u where "join_with '','' (map (json_written L) vs) = c # u" "json_first c" "c \<noteq> CHR '']''"
proof -
  obtain v vs' where vs: "vs = v # vs'" using assms(1) by (cases vs) auto
  then have "js_json L v = Inr (Some (json_written L v))" "plain_json v" using assms(2,3) by auto
  then obtain c u where "json_written L v = c # u" "json_first c" "c \<noteq> CHR '']''"
    using js_json_first by blast
  then show ?thesis using vs that by (cases vs') auto
qed

lemma reads_Suc:
  assumes "t \<noteq> []" "\<And>n r. length t \<le> Suc n \<Longrightarrow> json_stop r \<Longrightarrow> json_value L (Suc n) (t @ r) = Some (v, r)"
  shows "reads L v t"
proof (intro allI impI)
  fix n r
  assume "length t \<le> n" "json_stop r"
  then show "json_value L n (t @ r) = Some (v, r)" using assms by (cases n) auto
qed

lemma json_written_reads:
  "plain_json v \<Longrightarrow> js_json L v = Inr (Some (json_written L v)) \<and> reads L v (json_written L v)"
proof (induction v rule: plain_json.induct)
  case 1
  have "reads L JNull ''null''"
    by (rule reads_Suc) (simp_all add: skip_first json_first_def startsWith_def)
  then show ?case by (simp add: json_written_def)
next
  case (2 b)
  have "reads L (JBool b) (if b then ''true'' else ''false'')"
    by (rule reads_Suc) (simp_all add: skip_first json_first_def startsWith_def)
  then show ?case by (simp add: json_written_def)
next
  case (3 i)
  have written: "json_written L (JNum (NInt i)) = int_str 10 i"
    using 3 by (simp add: json_written_def num_text_def MAX_SAFE_INTEGER_def)
  have js: "js_json L (JNum (NInt i)) = Inr (Some (int_str 10 i))"
    using 3 by (simp add: num_text_def MAX_SAFE_INTEGER_def)
  obtain c u where cu: "int_str 10 i = c # u" "json_first c" "c \<notin> set (CHR 0x22 # ''{[tfn]'')"
    by (rule int_str_first)
  have "reads L (JNum (NInt i)) (int_str 10 i)"
  proof (rule reads_Suc)
    fix n r
    assume "json_stop r"
    then have "json_numeral (c # u @ r) = Some (int_str 10 i, [], r)"
      using json_numeral_int [of r i] cu(1) by simp
    then show "json_value L (Suc n) (int_str 10 i @ r) = Some (JNum (NInt i), r)"
      using cu json_number_int [of i L] 3 by (simp add: skip_first startsWith_def)
  qed (simp add: cu)
  then show ?case using written js by simp
next
  case (4 s)
  have "reads L (JStr s) (json_quote s)"
    by (rule reads_Suc) (simp_all add: json_quote_def startsWith_def json_text_quote)
  then show ?case by (simp add: json_written_def)
next
  case (5 vs)
  let ?ts = "map (json_written L) vs"
  have each: "js_json L v = Inr (Some (json_written L v)) \<and> reads L v (json_written L v)" if "v \<in> set vs" for v
    using 5 that by (simp add: list_all_iff)
  have js: "js_json L (JArr vs) = Inr (Some (''['' @ join_with '','' ?ts @ '']''))"
    using each mapR_all_Inr [of vs "js_json L" "\<lambda>v. Some (json_written L v)"] by (simp add: comp_def)
  have "reads L (JArr vs) (''['' @ join_with '','' ?ts @ '']'')"
  proof (rule reads_Suc)
    fix n r
    assume n: "length (''['' @ join_with '','' ?ts @ '']'') \<le> Suc n"
    show "json_value L (Suc n) ((''['' @ join_with '','' ?ts @ '']'') @ r) = Some (JArr vs, r)"
    proof (cases "vs = []")
      case True
      then show ?thesis by (simp add: skip_first json_first_def startsWith_def)
    next
      case False
      have "list_all2 (reads L) vs ?ts" using each by (simp add: list_all2_conv_all_nth)
      then have "json_items L n (join_with '','' ?ts @ CHR '']'' # r) = Some (vs, r)"
        using n False by (intro json_items_join) simp_all
      moreover obtain c u where "join_with '','' ?ts = c # u" "json_first c" "c \<noteq> CHR '']''"
        using False each "5.prems" by (rule join_first)
      ultimately show ?thesis by (simp add: skip_first json_first_def startsWith_def)
    qed
  qed simp
  then show ?case using js by (simp add: json_written_def)
next
  case (6 kvs)
  let ?ts = "map (member_text L) kvs"
  have each: "js_json L (snd kv) = Inr (Some (json_written L (snd kv))) \<and>
      reads L (snd kv) (json_written L (snd kv))" if "kv \<in> set kvs" for kv
    using 6 that by (cases kv) (auto simp: list_all_iff)
  have "mapR (\<lambda>(k, v). bindR (js_json L v) (\<lambda>t. Inr (k, t))) kvs =
      Inr (map (\<lambda>kv. (fst kv, Some (json_written L (snd kv)))) kvs)"
    using each by (intro mapR_all_Inr) (auto dest!: each)
  moreover have member: "json_quote (fst x) @ CHR '':'' # json_written L (snd x) = member_text L x" for x
    by (simp add: member_text_def)
  ultimately have js: "js_json L (JObj kvs) = Inr (Some (''{'' @ join_with '','' ?ts @ ''}''))"
    by (simp add: comp_def member [unfolded append_Cons append_Nil])
  have "reads L (JObj kvs) (''{'' @ join_with '','' ?ts @ ''}'')"
  proof (rule reads_Suc)
    fix n r
    assume n: "length (''{'' @ join_with '','' ?ts @ ''}'') \<le> Suc n"
    show "json_value L (Suc n) ((''{'' @ join_with '','' ?ts @ ''}'') @ r) = Some (JObj kvs, r)"
    proof (cases kvs)
      case Nil
      then show ?thesis by (simp add: skip_first json_first_def startsWith_def)
    next
      case (Cons kv kvs')
      have "json_members L n (join_with '','' ?ts @ CHR ''}'' # r) = Some (kvs, r)"
        using n Cons each by (intro json_members_join) simp_all
      moreover obtain u where "join_with '','' ?ts = CHR 0x22 # u"
        using Cons by (cases kvs') (auto simp: member_text_def json_quote_def)
      moreover have "fold (\<lambda>(k, v). AList.update k v) kvs [] = kvs"
        using 6 update_distinct [of "[]" kvs] by simp
      ultimately show ?thesis by (simp add: skip_first json_first_def startsWith_def)
    qed
  qed simp
  then show ?case using js by (simp add: json_written_def)
qed simp_all

theorem json_roundtrip:
  assumes "plain_json v" "js_json L v = Inr (Some t)"
  shows "json_parse L t = Inr v"
proof -
  have "json_value L (Suc (length t)) (t @ []) = Some (v, [])"
    using json_written_reads [OF assms(1), of L] assms(2) by (simp add: json_stop_def del: json_value.simps)
  then show ?thesis by (simp add: json_parse_def del: json_value.simps)
qed

end
