(* ===== verification/Account.thy ===== *)
theory Account
  imports TxFees HashProps Json
begin

text \<open>
  \<^verbatim>\<open>web3-qrl-accounts/src/account.ts\<close> with \<^verbatim>\<open>kdf_policy.ts\<close> and \<^verbatim>\<open>qrl_wallet.ts\<close>: accounts made from
  seeds, signing of messages and transactions, recovery of the sender, and keystores. Random bytes are
  arguments; the asynchronous functions have nothing to wait for but the cipher, and are modelled by
  what they resolve to.
\<close>

section \<open>Other packages\<close>

text \<open>
  The authenticated cipher and the key derivation of \<^verbatim>\<open>@theqrl/qrl-cryptography\<close>, and opening a wallet
  from an extended seed given as bytes or as a text, which returns the bytes of the seed.
\<close>

record acc_lib = tx_lib +
  aes_encrypt :: "bytes \<Rightarrow> bytes \<Rightarrow> bytes \<Rightarrow> js_error + bytes"
  aes_decrypt :: "bytes \<Rightarrow> bytes \<Rightarrow> bytes \<Rightarrow> js_error + bytes"
  argon2id :: "jsval \<Rightarrow> jsval \<Rightarrow> int \<Rightarrow> int \<Rightarrow> int \<Rightarrow> int \<Rightarrow> js_error + bytes"
  wl_from :: "jsval \<Rightarrow> js_error + bytes"
  wl_new_descriptor :: bytes
  wl_extended :: "bytes \<Rightarrow> bytes \<Rightarrow> js_error + bytes"

definition acc_lib_ok :: "acc_lib \<Rightarrow> bool" where
  "acc_lib_ok A \<longleftrightarrow>
     (\<forall>data key iv c. aes_encrypt A data key iv = Inr c \<longrightarrow> aes_decrypt A c key iv = Inr data) \<and>
     (\<forall>seed. wl_from A (JBytes seed) = (if wl_open A seed = Inr () then Inr seed
        else Inl (js_Error ''invalid extended seed''))) \<and>
     (\<forall>seed. wl_open A seed = Inr () \<longrightarrow> length seed = 51 \<and> length (wl_pk A seed) = wl_publicKeyBytes A)"

lemma acc_lib_okD:
  assumes "acc_lib_ok A"
  shows "aes_encrypt A data key iv = Inr c \<Longrightarrow> aes_decrypt A c key iv = Inr data"
    and "wl_from A (JBytes seed) =
      (if wl_open A seed = Inr () then Inr seed else Inl (js_Error ''invalid extended seed''))"
    and "wl_open A seed = Inr () \<Longrightarrow> length seed = 51"
    and "wl_open A seed = Inr () \<Longrightarrow> length (wl_pk A seed) = wl_publicKeyBytes A"
proof -
  note ok = assms [unfolded acc_lib_ok_def]
  show "aes_encrypt A data key iv = Inr c \<Longrightarrow> aes_decrypt A c key iv = Inr data"
    by (rule ok [THEN conjunct1, rule_format])
  show "wl_from A (JBytes seed) =
      (if wl_open A seed = Inr () then Inr seed else Inl (js_Error ''invalid extended seed''))"
    by (rule ok [THEN conjunct2, THEN conjunct1, rule_format])
  show "wl_open A seed = Inr () \<Longrightarrow> length seed = 51"
    "wl_open A seed = Inr () \<Longrightarrow> length (wl_pk A seed) = wl_publicKeyBytes A"
    using ok [THEN conjunct2, THEN conjunct2] by blast+
qed

definition newMLDSA87WalletFromExtendedSeed :: "acc_lib \<Rightarrow> jsval \<Rightarrow> js_error + bytes" where
  "newMLDSA87WalletFromExtendedSeed A seed = wl_from A seed"

section \<open>Seeds and public keys\<close>

definition acc_error :: "string \<Rightarrow> js_error" where
  "acc_error c = err_class c []"

definition parse_bytes_of_length ::
  "lib \<Rightarrow> nat \<Rightarrow> nat \<Rightarrow> js_error \<Rightarrow> js_error \<Rightarrow> jsval \<Rightarrow> bool \<Rightarrow> js_error + bytes" where
  "parse_bytes_of_length L textLength byteLength lengthError invalidError data ignoreLength =
     (if \<not> ignoreLength \<and> (case data of JStr s \<Rightarrow> isHexStrict data \<and> length s \<noteq> textLength | _ \<Rightarrow> False)
      then Inl lengthError
      else
        bindR (case (case data of JBytes bs \<Rightarrow> Inr bs | _ \<Rightarrow> bytesToUint8Array L data) of
            Inr bs \<Rightarrow> Inr bs | Inl _ \<Rightarrow> Inl invalidError) (\<lambda>bs.
          if \<not> ignoreLength \<and> length bs \<noteq> byteLength then Inl lengthError else Inr bs))"

definition parseAndValidatePublicKey :: "lib \<Rightarrow> acc_lib \<Rightarrow> jsval \<Rightarrow> bool \<Rightarrow> js_error + bytes" where
  "parseAndValidatePublicKey L A data ignoreLength =
     parse_bytes_of_length L 5186 (wl_publicKeyBytes A) (acc_error ''PublicKeyLengthError'')
       (acc_error ''InvalidPublicKeyError'') data ignoreLength"

definition parseAndValidateSeed :: "lib \<Rightarrow> jsval \<Rightarrow> bool \<Rightarrow> js_error + bytes" where
  "parseAndValidateSeed L data ignoreLength =
     parse_bytes_of_length L 104 51 (acc_error ''SeedLengthError'') (acc_error ''InvalidSeedError'')
       data ignoreLength"

section \<open>Messages\<close>

definition hashMessage :: "lib \<Rightarrow> string \<Rightarrow> js_error + string" where
  "hashMessage L message =
     bindR (if isHexStrict (JStr message) then Inr message else utf8ToHex L (JStr message)) (\<lambda>messageHex.
     bindR (hexToBytes L (JStr messageHex)) (\<lambda>messageBytes.
     bindR (utf8ToHex L (JStr (CHR 0x19 # ''QRL Signed Message:'' @ [CHR 0x0A] @ dec_str (length messageBytes))))
       (\<lambda>preambleHex.
     bindR (hexToBytes L (JStr preambleHex)) (\<lambda>preamble.
       sha3Raw L (JBytes (preamble @ messageBytes))))))"

record sign_result =
  sr_message :: string
  sr_messageHash :: string
  sr_signature :: string

definition sign_message :: "lib \<Rightarrow> acc_lib \<Rightarrow> string \<Rightarrow> jsval \<Rightarrow> js_error + sign_result" where
  "sign_message L A data seed =
     bindR (newMLDSA87WalletFromExtendedSeed A seed) (\<lambda>wallet.
     bindR (hashMessage L data) (\<lambda>hash.
     bindR (hexToBytes L (JStr hash)) (\<lambda>h.
     bindR (bytesToHex L (JBytes (wl_sign A wallet h))) (\<lambda>signature.
       Inr \<lparr>sr_message = data, sr_messageHash = hash, sr_signature = signature\<rparr>))))"

section \<open>Transactions\<close>

record sign_tx_result =
  st_messageHash :: string
  st_signature :: string
  st_rawTransaction :: string
  st_transactionHash :: string

definition TransactionSigningError :: "string \<Rightarrow> js_error" where
  "TransactionSigningError m = err_class ''TransactionSigningError'' m"

text \<open>\<^verbatim>\<open>transaction.sign\<close> takes the 51 bytes of an extended seed.\<close>

definition signTransaction :: "lib \<Rightarrow> acc_lib \<Rightarrow> tx \<Rightarrow> jsval \<Rightarrow> js_error + sign_tx_result" where
  "signTransaction L A t seed =
     bindR (hexToBytes L seed) (\<lambda>seedBytes.
     bindR (sign L (tx_lib.truncate A) seedBytes t) (\<lambda>signedTx.
       case (tx_descriptor signedTx, tx_signature signedTx, tx_publicKey signedTx) of
         (Some descriptor, Some signature, Some _) \<Rightarrow>
           bindR (fst (tx_validate L (tx_lib.truncate A) signedTx)) (\<lambda>validationErrors.
             if validationErrors \<noteq> [] then Inl (TransactionSigningError ''Signer Error '')
             else
               bindR (serialize L (tx_lib.truncate A) signedTx) (\<lambda>bs.
               bindR (bytesToHex L (JBytes bs)) (\<lambda>rawTx.
               bindR (sha3Raw L (JStr rawTx)) (\<lambda>txHash.
               bindR (getMessageToSign L (tx_lib.truncate A) descriptor (or_empty (tx_extraParams signedTx))
                   True signedTx) (\<lambda>msg.
               bindR (bytesToHex L (JBytes msg)) (\<lambda>messageHash.
               bindR (bytesToHex L (JBytes signature)) (\<lambda>sig.
               bindR (bytesToHex L (JStr txHash)) (\<lambda>transactionHash.
                 Inr \<lparr>st_messageHash = messageHash, st_signature = sig, st_rawTransaction = rawTx,
                      st_transactionHash = transactionHash\<rparr>))))))))
       | _ \<Rightarrow> Inl (TransactionSigningError ''Signer Error'')))"

definition default_opts :: tx_options where
  "default_opts = \<lparr>to_common = None, to_freeze = None, to_allowUnlimitedInitCodeSize = None\<rparr>"

definition recoverTransaction :: "lib \<Rightarrow> acc_lib \<Rightarrow> jsval \<Rightarrow> js_error + string" where
  "recoverTransaction L A rawTransaction =
     (if isNullish rawTransaction then Inl (acc_error ''UndefinedRawTransactionError'')
      else
        bindR (hexToBytes L rawTransaction) (\<lambda>data.
        bindR (fromSerializedData L (tx_lib.truncate A) data default_opts) (\<lambda>t.
        bindR (verifySignature L (tx_lib.truncate A) t) (\<lambda>ok.
          if \<not> ok then Inl (TransactionSigningError ''Signature verification failed'')
          else bindR (getSenderAddress L (tx_lib.truncate A) t) (\<lambda>a.
            bindR (Address_toString L a) (\<lambda>s. util_toChecksumAddress L (JStr s)))))))"

section \<open>Accounts\<close>

text \<open>
  What an account object holds: its address, its seed, which is not enumerable, and the values its
  methods have in scope.
\<close>

record account =
  ac_address :: string
  ac_seed :: string
  ac_given :: jsval
  ac_wallet :: bytes

definition q_of_hex :: "string \<Rightarrow> string" where
  "q_of_hex s = (case find_sub ''0x'' s of Some (a, b) \<Rightarrow> a @ CHR ''Q'' # b | None \<Rightarrow> s)"

definition seedToAccount :: "lib \<Rightarrow> acc_lib \<Rightarrow> jsval \<Rightarrow> js_error + account" where
  "seedToAccount L A seed =
     bindR (newMLDSA87WalletFromExtendedSeed A seed) (\<lambda>acc.
     bindR (bytesToHex L (JBytes (addressFromPublicKeyAndDescriptor L (wl_pk A acc) (wl_descriptor A acc))))
       (\<lambda>h.
     bindR (bytesToHex L (JBytes acc)) (\<lambda>seedHex.
     bindR (util_toChecksumAddress L (JStr (q_of_hex h))) (\<lambda>address.
       Inr \<lparr>ac_address = address, ac_seed = seedHex, ac_given = seed, ac_wallet = acc\<rparr>))))"

definition account_sign :: "lib \<Rightarrow> acc_lib \<Rightarrow> account \<Rightarrow> jsval \<Rightarrow> js_error + sign_result" where
  "account_sign L A a data = (case data of
      JStr s \<Rightarrow> sign_message L A s (ac_given a)
    | _ \<Rightarrow> bindR (js_json L data) (\<lambda>t. case t of
          Some s \<Rightarrow> sign_message L A s (ac_given a)
        | None \<Rightarrow> Inl (err_class ''Web3ValidatorError'' ''undefined'')))"

definition account_signTransaction :: "account \<Rightarrow> tx_data \<Rightarrow> js_error + sign_tx_result" where
  "account_signTransaction a tx =
     Inl (TransactionSigningError ''Do not have network access to sign the transaction'')"

text \<open>\<^verbatim>\<open>toJSON\<close> shows the enumerable properties that have a text, and no seed.\<close>

definition account_toJSON :: "account \<Rightarrow> jsval" where
  "account_toJSON a = JObj [(''address'', JStr (ac_address a)), (''signTransaction'', JFun),
     (''sign'', JFun), (''encrypt'', JFun), (''seed'', JStr ''<redacted>'')]"

definition create :: "lib \<Rightarrow> acc_lib \<Rightarrow> bytes \<Rightarrow> js_error + account" where
  "create L A random =
     bindR (wl_extended A (wl_new_descriptor A) random) (\<lambda>s. seedToAccount L A (JBytes s))"

section \<open>Key derivation parameters\<close>

definition kdf_bounds :: "(string \<times> int \<times> int) list" where
  "kdf_bounds = [(''m'', 19456, 1048576), (''t'', 2, 50), (''p'', 1, 16), (''dklen'', 16, 64)]"

definition kdf_int :: "jsval \<Rightarrow> int option" where
  "kdf_int v = (case v of JNum (NInt i) \<Rightarrow> Some i | _ \<Rightarrow> None)"

fun kdf_check :: "(string \<times> int \<times> int) list \<Rightarrow> (string \<Rightarrow> jsval) \<Rightarrow> js_error + unit" where
  "kdf_check [] p = Inr ()"
| "kdf_check ((k, lo, hi) # bs) p =
     (if (case kdf_int (p k) of Some i \<Rightarrow> i < lo \<or> hi < i | None \<Rightarrow> True)
      then Inl (js_Error (''Argon2id '' @ k @ '' out of range [''  @ int_str 10 lo @ '', '' @ int_str 10 hi @ '']''))
      else kdf_check bs p)"

definition validateArgon2idParams :: "(string \<Rightarrow> jsval) \<Rightarrow> js_error + unit" where
  "validateArgon2idParams p = kdf_check kdf_bounds p"

section \<open>Keystores\<close>

definition str_schema :: json_schema where
  "str_schema = JSchema None (Some ''string'') None ReqNone None None None None None"

definition obj_schema :: "string list option \<Rightarrow> (string \<times> json_schema) list option \<Rightarrow> json_schema" where
  "obj_schema req ps = JSchema None (Some ''object'') None
     (case req of Some ks \<Rightarrow> ReqList ks | None \<Rightarrow> ReqNone) None None None ps None"

definition keyStoreSchema :: json_schema where
  "keyStoreSchema = obj_schema (Some [''crypto'', ''id'', ''version'', ''address''])
     (Some [(''crypto'', obj_schema (Some [''cipher'', ''ciphertext'', ''cipherparams'', ''kdf'', ''kdfparams''])
         (Some [(''cipher'', str_schema), (''ciphertext'', str_schema),
           (''cipherparams'', obj_schema None None), (''kdf'', str_schema),
           (''kdfparams'', obj_schema None None), (''salt'', str_schema)])),
       (''id'', str_schema),
       (''version'', JSchema None (Some ''number'') None ReqNone None None None None None),
       (''address'', str_schema)])"

text \<open>The options of \<^verbatim>\<open>encrypt\<close>, \<^verbatim>\<open>undefined\<close> where they are not given, and its random values.\<close>

record encrypt_opts =
  eo_salt :: jsval
  eo_kdf :: jsval
  eo_dklen :: jsval
  eo_t :: jsval
  eo_m :: jsval
  eo_p :: jsval

record randoms =
  rn_salt :: bytes
  rn_iv :: bytes
  rn_uuid :: string

definition password_bytes :: "lib \<Rightarrow> jsval \<Rightarrow> js_error + jsval" where
  "password_bytes L password = (case password of
      JStr s \<Rightarrow> bindR (utf8ToHex L password) (\<lambda>h. map_sum id JBytes (hexToBytes L (JStr h)))
    | _ \<Rightarrow> Inr password)"

definition derive_key :: "acc_lib \<Rightarrow> jsval \<Rightarrow> jsval \<Rightarrow> (string \<Rightarrow> jsval) \<Rightarrow> js_error + bytes" where
  "derive_key A password salt p =
     (let n = (\<lambda>k. case kdf_int (p k) of Some i \<Rightarrow> i | None \<Rightarrow> 0) in
      argon2id A password salt (n ''t'') (n ''m'') (n ''p'') (n ''dklen''))"

definition hex_label :: "lib \<Rightarrow> jsval \<Rightarrow> js_error + string" where
  "hex_label L v = map_sum id drop_0x (bytesToHex L v)"

definition encrypt_salt :: "lib \<Rightarrow> bytes \<Rightarrow> jsval \<Rightarrow> js_error + jsval" where
  "encrypt_salt L random given =
     (if js_truthy given then
        (case given of JStr s \<Rightarrow> map_sum id JBytes (hexToBytes L given) | _ \<Rightarrow> Inr given)
      else Inr (JBytes random))"

definition kdf_params :: "encrypt_opts \<Rightarrow> (string \<times> jsval) list" where
  "kdf_params opts =
     (let num = (\<lambda>v d. nullish_or v (JNum (NInt d))) in
      [(''m'', num (eo_m opts) 262144), (''t'', num (eo_t opts) 8),
       (''p'', num (eo_p opts) 1), (''dklen'', num (eo_dklen opts) 32)])"

definition keystore_object ::
  "string \<Rightarrow> string \<Rightarrow> string \<Rightarrow> string \<Rightarrow> (string \<times> jsval) list \<Rightarrow> jsval" where
  "keystore_object uuid address ciphertext iv params =
     JObj [(''version'', JNum (NInt 1)), (''id'', JStr uuid), (''address'', JStr address),
       (''crypto'', JObj [(''ciphertext'', JStr ciphertext),
         (''cipherparams'', JObj [(''iv'', JStr iv)]), (''cipher'', JStr ''aes-256-gcm''),
         (''kdf'', JStr ''argon2id''), (''kdfparams'', JObj params)])]"

definition encrypt ::
  "lib \<Rightarrow> acc_lib \<Rightarrow> randoms \<Rightarrow> jsval \<Rightarrow> jsval \<Rightarrow> encrypt_opts \<Rightarrow> js_error + jsval" where
  "encrypt L A rn seed password opts =
     bindR (parseAndValidateSeed L seed False) (\<lambda>seedBytes.
     bindR (encrypt_salt L (rn_salt rn) (eo_salt opts)) (\<lambda>salt.
       if \<not> (isString password \<or> (case password of JBytes _ \<Rightarrow> True | _ \<Rightarrow> False))
       then Inl (acc_error ''InvalidPasswordError'')
       else
         bindR (password_bytes L password) (\<lambda>pw.
           if nullish_or (eo_kdf opts) (JStr ''argon2id'') \<noteq> JStr ''argon2id''
           then Inl (acc_error ''InvalidKdfError'')
           else
             bindR (hex_label L salt) (\<lambda>saltText.
             bindR (validateArgon2idParams (obj_get (kdf_params opts))) (\<lambda>_.
             bindR (derive_key A pw salt (obj_get (kdf_params opts))) (\<lambda>derivedKey.
             bindR (aes_encrypt A seedBytes derivedKey (rn_iv rn)) (\<lambda>cipher.
             bindR (bytesToHex L (JBytes cipher)) (\<lambda>ciphertext.
             bindR (seedToAccount L A (JBytes seedBytes)) (\<lambda>acc.
             bindR (hex_label L (JBytes (rn_iv rn))) (\<lambda>iv.
               Inr (keystore_object (rn_uuid rn) (CHR ''Q'' # toLowerCase (drop 1 (ac_address acc)))
                 (drop 2 ciphertext) iv
                 (kdf_params opts @ [(''salt'', JStr saltText)]))))))))))))"

definition account_encrypt ::
  "lib \<Rightarrow> acc_lib \<Rightarrow> randoms \<Rightarrow> account \<Rightarrow> jsval \<Rightarrow> encrypt_opts \<Rightarrow> js_error + jsval" where
  "account_encrypt L A rn a password opts = encrypt L A rn (JBytes (ac_wallet a)) password opts"

text \<open>
  Reading a keystore: the accesses come after the validation, which refuses a value whose fields are
  not there.
\<close>

definition field :: "jsval \<Rightarrow> string \<Rightarrow> jsval" where
  "field v k = (case v of JObj kvs \<Rightarrow> obj_get kvs k | _ \<Rightarrow> JUndef)"

definition text_of :: "jsval \<Rightarrow> string" where
  "text_of v = (case v of JStr s \<Rightarrow> s | _ \<Rightarrow> [])"

definition keystore_key :: "lib \<Rightarrow> acc_lib \<Rightarrow> jsval \<Rightarrow> jsval \<Rightarrow> js_error + bytes" where
  "keystore_key L A crypto pw =
     (if field crypto ''kdf'' \<noteq> JStr ''argon2id'' then Inl (acc_error ''InvalidKdfError'')
      else
        let kdfparams = field (field crypto ''kdfparams'') in
        bindR (validateArgon2idParams kdfparams) (\<lambda>_.
        bindR (case kdfparams ''salt'' of
            JStr s \<Rightarrow> map_sum id JBytes (hexToBytes L (JStr s)) | v \<Rightarrow> Inr v) (\<lambda>salt.
          derive_key A pw salt kdfparams)))"

definition open_keystore :: "lib \<Rightarrow> acc_lib \<Rightarrow> jsval \<Rightarrow> jsval \<Rightarrow> js_error + account" where
  "open_keystore L A json password =
     bindR (validateJSONSchema L keyStoreSchema json False) (\<lambda>_.
       if field json ''version'' \<noteq> JNum (NInt 1) then Inl (acc_error ''KeyStoreVersionError'')
       else
         bindR (password_bytes L password) (\<lambda>pw.
         bindR (validate1 L ''bytes'' pw) (\<lambda>_.
         bindR (keystore_key L A (field json ''crypto'') pw) (\<lambda>derivedKey.
         bindR (hexToBytes L (field (field json ''crypto'') ''ciphertext'')) (\<lambda>ciphertext.
         bindR (hexToBytes L (field (field (field json ''crypto'') ''cipherparams'') ''iv'')) (\<lambda>iv.
         bindR (aes_decrypt A ciphertext derivedKey iv) (\<lambda>seed.
         bindR (seedToAccount L A (JBytes seed)) (\<lambda>acc.
           if toLowerCase (ac_address acc) \<noteq> CHR ''q'' # toLowerCase (drop 1 (text_of (field json ''address'')))
           then Inl (acc_error ''KeyStoreMismatchError'')
           else Inr acc))))))))"

definition decrypt :: "lib \<Rightarrow> acc_lib \<Rightarrow> jsval \<Rightarrow> jsval \<Rightarrow> bool \<Rightarrow> js_error + account" where
  "decrypt L A keystore password nonStrict =
     bindR (case keystore of
         JStr s \<Rightarrow> json_parse L (if nonStrict then toLowerCase s else s) | v \<Rightarrow> Inr v) (\<lambda>json.
       open_keystore L A json password)"

end
