(* ===== verification/AccountProps.thy ===== *)
theory AccountProps
  imports Account
begin

text \<open>
  Accounts: a keystore is read back to the account it was written for, as an object and as a text; a
  changed address label is refused; the key derivation runs within its bounds only; and the sender of a
  signed transaction is recovered.
\<close>

section \<open>Accounts of a seed\<close>

lemma q_of_hex_prefixed [simp]: "q_of_hex (CHR ''0'' # CHR ''x'' # h) = CHR ''Q'' # h"
  by (simp add: q_of_hex_def startsWith_def)

lemma checksum_of_bytes:
  assumes "crypto_ok L" "length bs = 64"
  obtains c where "util_toChecksumAddress L (JStr (CHR ''Q'' # hex_of_bytes bs)) = Inr (CHR ''Q'' # c)"
    "toLowerCase c = hex_of_bytes bs"
proof -
  obtain c where "toChecksumAddress L (CHR ''Q'' # hex_of_bytes bs) = Inr (CHR ''Q'' # c)"
    "toLowerCase c = hex_of_bytes bs"
    using checksum_address_of_bytes [OF assms] by blast
  moreover have "isAddressString L (JStr (CHR ''Q'' # hex_of_bytes bs)) False"
    using bytes_address_regex [OF assms(2)] by (simp add: isAddressString_def)
  ultimately show ?thesis using that by (simp add: util_toChecksumAddress_def)
qed

lemma seed_opens:
  assumes "acc_lib_ok A" "seedToAccount L A (JBytes seed) = Inr a"
  shows "wl_open A seed = Inr ()"
  using assms by (auto simp: acc_lib_ok_def seedToAccount_def newMLDSA87WalletFromExtendedSeed_def
      bindR_Inr_iff split: if_splits)

lemma seedToAccount_bytes:
  assumes "zod_ok L" "crypto_ok L" "acc_lib_ok A" "wl_open A seed = Inr ()"
  obtains c where "seedToAccount L A (JBytes seed) = Inr \<lparr>ac_address = CHR ''Q'' # c,
      ac_seed = ''0x'' @ hex_of_bytes seed, ac_given = JBytes seed, ac_wallet = seed\<rparr>"
    "toLowerCase c = hex_of_bytes (addressFromPublicKeyAndDescriptor L (wl_pk A seed) (wl_descriptor A seed))"
    "util_toChecksumAddress L (JStr (CHR ''Q'' # hex_of_bytes
       (addressFromPublicKeyAndDescriptor L (wl_pk A seed) (wl_descriptor A seed)))) = Inr (CHR ''Q'' # c)"
proof -
  let ?b = "addressFromPublicKeyAndDescriptor L (wl_pk A seed) (wl_descriptor A seed)"
  have "length ?b = 64" using assms(2) by (simp add: addressFromPublicKeyAndDescriptor_def crypto_okD)
  then obtain c where "util_toChecksumAddress L (JStr (CHR ''Q'' # hex_of_bytes ?b)) = Inr (CHR ''Q'' # c)"
    "toLowerCase c = hex_of_bytes ?b"
    using checksum_of_bytes [OF assms(2)] by blast
  then show ?thesis using assms(1,3,4) that
    by (simp add: seedToAccount_def newMLDSA87WalletFromExtendedSeed_def acc_lib_ok_def)
qed

lemma seedToAccount_length:
  assumes "zod_ok L" "crypto_ok L" "acc_lib_ok A" "seedToAccount L A (JBytes seed) = Inr acc"
  shows "length (ac_address acc) = 129"
proof (rule seedToAccount_bytes [OF assms(1-3) seed_opens [OF assms(3,4)]])
  fix c
  let ?a = "addressFromPublicKeyAndDescriptor L (wl_pk A seed) (wl_descriptor A seed)"
  assume "seedToAccount L A (JBytes seed) = Inr \<lparr>ac_address = CHR ''Q'' # c,
      ac_seed = ''0x'' @ hex_of_bytes seed, ac_given = JBytes seed, ac_wallet = seed\<rparr>"
    and "toLowerCase c = hex_of_bytes ?a"
  moreover from this(2) have "length c = 2 * length ?a" by (metis length_hex_of_bytes length_toLowerCase)
  ultimately show ?thesis
    using assms(2,4) by (simp add: addressFromPublicKeyAndDescriptor_def crypto_okD)
qed

section \<open>Texts of bytes\<close>

lemma hexToBytes_bytes [simp]: "zod_ok L \<Longrightarrow> hexToBytes L (JBytes bs) = Inr bs"
  by (simp add: hexToBytes_def bytesToUint8Array_def validate1_bytes isBytes_def bytes_size_ok_def bytes_no_size)

lemma hexToBytes_hex: "zod_ok L \<Longrightarrow> hexToBytes L (JStr (''0x'' @ hex_of_bytes bs)) = Inr bs"
  using hexToBytes_0x [OF _ hex_of_bytes_hex, of L bs] by simp

lemma bytesToHex_hex: "zod_ok L \<Longrightarrow> bytesToHex L (JStr (''0x'' @ hex_of_bytes bs)) = Inr (''0x'' @ hex_of_bytes bs)"
  using hexToBytes_hex [of L bs]
  by (auto simp: bytesToHex_def hexToBytes_def toLowerCase_def uint8ArrayToHexString_eq char_code_def
      lower_char_def)

lemma sha3Raw_hex:
  "zod_ok L \<Longrightarrow> sha3Raw L (JStr (''0x'' @ hex_of_bytes bs)) = Inr (''0x'' @ hex_of_bytes (keccak256 L bs))"
  using hexToBytes_hex [of L bs]
  by (simp add: sha3Raw_def sha3_def keccak_of_def isHexStrict_def hex_of_bytes_hex startsWith_def)

section \<open>Keystores\<close>

lemma hex_label_bytes [simp]: "zod_ok L \<Longrightarrow> hex_label L (JBytes bs) = Inr (hex_of_bytes bs)"
  by (simp add: hex_label_def)

lemma label_bytes [simp]: "zod_ok L \<Longrightarrow> hexToBytes L (JStr (hex_of_bytes bs)) = Inr bs"
  by (simp add: hexToBytes_plain hex_of_bytes_hex bytes_of_hex_of_bytes)

lemma convertToZod_prim:
  "t \<notin> {[], ''object'', ''array''} \<Longrightarrow> zod_has L t \<Longrightarrow>
    convertToZod L (JSchema None (Some t) None ReqNone None None None None None) = ZPrim t"
  by simp

lemma convertToZod_object:
  "convertToZod L (obj_schema req (Some ps)) =
    ZObject (map (\<lambda>(n, s). (n, convertToZod L s)) ps) (case req of Some ks \<Rightarrow> ks | None \<Rightarrow> [])"
  "convertToZod L (obj_schema None None) = ZDataAny"
  by (simp_all add: obj_schema_def split: option.split)

lemma keystore_schema_zod:
  assumes "zod_objects_ok L"
  shows "convertToZod L keyStoreSchema =
    ZObject [(''crypto'', ZObject [(''cipher'', ZPrim ''string''), (''ciphertext'', ZPrim ''string''),
        (''cipherparams'', ZDataAny), (''kdf'', ZPrim ''string''), (''kdfparams'', ZDataAny),
        (''salt'', ZPrim ''string'')] [''cipher'', ''ciphertext'', ''cipherparams'', ''kdf'', ''kdfparams'']),
      (''id'', ZPrim ''string''), (''version'', ZPrim ''number''), (''address'', ZPrim ''string'')]
      [''crypto'', ''id'', ''version'', ''address'']"
proof -
  have "zod_has L ''string''" "zod_has L ''number''" using assms by (simp_all only: zod_objects_ok_def simp_thms)
  then have "convertToZod L str_schema = ZPrim ''string''"
    "convertToZod L (JSchema None (Some ''number'') None ReqNone None None None None None) = ZPrim ''number''"
    unfolding str_schema_def by (simp_all add: convertToZod_prim del: convertToZod.simps)
  then show ?thesis
    by (simp add: keyStoreSchema_def convertToZod_object del: convertToZod.simps)
qed

lemma zod_object:
  assumes "zod_objects_ok L"
  shows "safeParse L (ZObject fs req) (JObj kvs) = Inr [] \<longleftrightarrow>
      (\<forall>(k, z) \<in> set fs. safeParse L z (obj_get kvs k) = Inr [] \<or> k \<notin> set req \<and> obj_get kvs k = JUndef)"
    and "safeParse L (ZPrim ''string'') v = Inr [] \<longleftrightarrow> typeof v = TString"
    and "safeParse L (ZPrim ''number'') v = Inr [] \<longleftrightarrow> typeof v = TNumber \<and> v \<noteq> JNum NNaN"
    and "safeParse L ZDataAny (JObj kvs) = Inr []"
proof -
  note ok = assms [unfolded zod_objects_ok_def]
  show "safeParse L (ZObject fs req) (JObj kvs) = Inr [] \<longleftrightarrow>
      (\<forall>(k, z) \<in> set fs. safeParse L z (obj_get kvs k) = Inr [] \<or> k \<notin> set req \<and> obj_get kvs k = JUndef)"
    by (rule ok [THEN conjunct1, THEN spec, THEN spec, THEN spec])
  show "safeParse L (ZPrim ''string'') v = Inr [] \<longleftrightarrow> typeof v = TString"
    by (rule ok [THEN conjunct2, THEN conjunct1, THEN spec])
  show "safeParse L (ZPrim ''number'') v = Inr [] \<longleftrightarrow> typeof v = TNumber \<and> v \<noteq> JNum NNaN"
    by (rule ok [THEN conjunct2, THEN conjunct2, THEN conjunct1, THEN spec])
  show "safeParse L ZDataAny (JObj kvs) = Inr []"
    by (rule ok [THEN conjunct2, THEN conjunct2, THEN conjunct2, THEN conjunct1, THEN spec])
qed

lemma validate_accepts:
  "safeParse L (convertToZod L s) v = Inr [] \<Longrightarrow> validateJSONSchema L s v False = Inr None"
  by (simp add: validateJSONSchema_def Validator_validate_def)

lemma validate_refuses:
  "safeParse L (convertToZod L s) v \<noteq> Inr [] \<Longrightarrow> validateJSONSchema L s v False \<noteq> Inr r"
  by (auto simp: validateJSONSchema_def Validator_validate_def bindR_Inr_iff)

lemma keystore_accepted:
  assumes "zod_objects_ok L"
  shows "validateJSONSchema L keyStoreSchema (keystore_object i a c iv ps) False = Inr None"
  using assms
  by (intro validate_accepts)
     (simp add: keystore_schema_zod zod_object keystore_object_def obj_get_def typeof_def)

definition kdf_ok :: "(string \<Rightarrow> jsval) \<Rightarrow> bool" where
  "kdf_ok p \<longleftrightarrow> (\<exists>m t q d. p ''m'' = JNum (NInt m) \<and> p ''t'' = JNum (NInt t) \<and> p ''p'' = JNum (NInt q) \<and>
     p ''dklen'' = JNum (NInt d) \<and> 19456 \<le> m \<and> m \<le> 1048576 \<and> 2 \<le> t \<and> t \<le> 50 \<and> 1 \<le> q \<and> q \<le> 16 \<and>
     16 \<le> d \<and> d \<le> 64)"

lemma kdf_int_simps [simp]:
  "kdf_int (JNum (NInt i)) = Some i" "kdf_int v = Some i \<longleftrightarrow> v = JNum (NInt i)"
  by (auto simp: kdf_int_def split: jsval.splits jsnum.splits)

lemma kdf_check_Cons:
  "kdf_check ((k, lo, hi) # bs) p = Inr () \<longleftrightarrow>
     (\<exists>i. p k = JNum (NInt i) \<and> lo \<le> i \<and> i \<le> hi) \<and> kdf_check bs p = Inr ()"
proof (cases "kdf_int (p k)")
  case (Some i)
  then show ?thesis by (auto simp: not_less)
next
  case None
  then show ?thesis by auto
qed

lemma validateArgon2idParams_iff: "validateArgon2idParams p = Inr () \<longleftrightarrow> kdf_ok p"
  unfolding validateArgon2idParams_def kdf_bounds_def kdf_check_Cons kdf_ok_def by auto

lemma bytes_value:
  assumes "zod_ok L" "bytesToUint8Array L v = Inr bs"
  shows "v = JBytes bs \<or> isArray v \<or> isString v"
  using assms
  by (cases v) (auto simp: bytesToUint8Array_def validate1_bytes isBytes_def js_elems_def bindR_Inr_iff
      isArray_def isString_def typeof_def split: if_splits)

lemma encrypt_salt_bytes:
  assumes "zod_ok L" "\<not> isArray given" "encrypt_salt L random given = Inr salt" "hex_label L salt = Inr t"
  obtains bs where "salt = JBytes bs"
proof -
  obtain bs where bs: "bytesToUint8Array L salt = Inr bs"
    using assms(4) by (auto simp: hex_label_def bytesToHex_def map_sum_Inr_iff)
  show ?thesis
    using assms(2,3) bytes_value [OF assms(1) bs] that
    by (cases given) (auto simp: encrypt_salt_def map_sum_Inr_iff isString_def typeof_def split: if_splits)
qed

text \<open>What \<^const>\<open>encrypt\<close> went through when it returned.\<close>

lemma encryptE:
  assumes "zod_ok L" "encrypt L A rn seed password opts = Inr ks" "\<not> isArray (eo_salt opts)"
  obtains seedBytes salt pw key cipher acc where
    "parseAndValidateSeed L seed False = Inr seedBytes"
    "password_bytes L password = Inr (JBytes pw)" "kdf_ok (obj_get (kdf_params opts))"
    "derive_key A (JBytes pw) (JBytes salt) (obj_get (kdf_params opts)) = Inr key"
    "aes_encrypt A seedBytes key (rn_iv rn) = Inr cipher"
    "seedToAccount L A (JBytes seedBytes) = Inr acc"
    "ks = keystore_object (rn_uuid rn) (CHR ''Q'' # toLowerCase (drop 1 (ac_address acc)))
       (hex_of_bytes cipher) (hex_of_bytes (rn_iv rn))
       (kdf_params opts @ [(''salt'', JStr (hex_of_bytes salt))])"
proof -
  obtain seedBytes salt pw saltText key cipher acc where e:
    "parseAndValidateSeed L seed False = Inr seedBytes"
    "encrypt_salt L (rn_salt rn) (eo_salt opts) = Inr salt"
    "isString password \<or> (case password of JBytes _ \<Rightarrow> True | _ \<Rightarrow> False)"
    "password_bytes L password = Inr pw" "hex_label L salt = Inr saltText"
    "validateArgon2idParams (obj_get (kdf_params opts)) = Inr ()"
    "derive_key A pw salt (obj_get (kdf_params opts)) = Inr key"
    "aes_encrypt A seedBytes key (rn_iv rn) = Inr cipher"
    "seedToAccount L A (JBytes seedBytes) = Inr acc"
    "ks = keystore_object (rn_uuid rn) (CHR ''Q'' # toLowerCase (drop 1 (ac_address acc)))
       (hex_of_bytes cipher) (hex_of_bytes (rn_iv rn)) (kdf_params opts @ [(''salt'', JStr saltText)])"
    using assms(1,2) unfolding encrypt_def bindR_Inr_iff
    by (auto simp: bindR_Inr_iff split: if_splits)
  obtain pw' where "pw = JBytes pw'"
    using e(3,4)
    by (cases password) (auto simp: password_bytes_def isString_def typeof_def bindR_Inr_iff map_sum_Inr_iff)
  moreover obtain salt' where "salt = JBytes salt'"
    using encrypt_salt_bytes [OF assms(1,3) e(2,5)] .
  ultimately show ?thesis using that e assms(1)
    by (simp add: validateArgon2idParams_iff)
qed

lemma kdf_params_get:
  "obj_get (kdf_params opts @ [(''salt'', v)]) k = (if k = ''salt'' then v else obj_get (kdf_params opts) k)"
  by (simp add: obj_get_def kdf_params_def)

lemma derive_key_cong:
  "(\<And>k. k \<noteq> ''salt'' \<Longrightarrow> p k = q k) \<Longrightarrow> derive_key A pw salt p = derive_key A pw salt q"
  by (simp add: derive_key_def)

lemma kdf_ok_cong: "(\<And>k. k \<noteq> ''salt'' \<Longrightarrow> p k = q k) \<Longrightarrow> kdf_ok p = kdf_ok q"
  by (simp add: kdf_ok_def)

lemma keystore_key_read:
  assumes "zod_ok L" "kdf_ok (obj_get (kdf_params opts))"
  shows "keystore_key L A (JObj [(''ciphertext'', c), (''cipherparams'', iv), (''cipher'', n),
      (''kdf'', JStr ''argon2id''),
      (''kdfparams'', JObj (kdf_params opts @ [(''salt'', JStr (hex_of_bytes salt))]))]) pw =
    derive_key A pw (JBytes salt) (obj_get (kdf_params opts))"
proof -
  let ?p = "obj_get (kdf_params opts @ [(''salt'', JStr (hex_of_bytes salt))])"
  have "validateArgon2idParams ?p = Inr ()" "derive_key A pw (JBytes salt) ?p = derive_key A pw (JBytes salt) (obj_get (kdf_params opts))"
    using assms(2) kdf_ok_cong [of ?p "obj_get (kdf_params opts)"]
    by (auto simp: kdf_params_get validateArgon2idParams_iff intro: derive_key_cong)
  moreover have "?p ''salt'' = JStr (hex_of_bytes salt)" by (simp add: kdf_params_get)
  moreover have "field (JObj (kdf_params opts @ [(''salt'', JStr (hex_of_bytes salt))])) = ?p"
    by (rule ext) (simp add: field_def)
  ultimately show ?thesis
    using assms(1) by (simp add: keystore_key_def field_def [of "JObj _" "''kdf''"]
        field_def [of "JObj _" "''kdfparams''"] obj_get_def [of _ "''kdf''"] obj_get_def [of _ "''kdfparams''"]
        Let_def)
qed

lemma keystore_fields:
  "field (keystore_object i a c iv ps) ''version'' = JNum (NInt 1)"
  "field (keystore_object i a c iv ps) ''address'' = JStr a"
  "field (keystore_object i a c iv ps) ''crypto'' = JObj [(''ciphertext'', JStr c),
     (''cipherparams'', JObj [(''iv'', JStr iv)]), (''cipher'', JStr ''aes-256-gcm''),
     (''kdf'', JStr ''argon2id''), (''kdfparams'', JObj ps)]"
  by (simp_all add: field_def keystore_object_def obj_get_def)

lemma keystore_plain:
  assumes "kdf_ok (obj_get (kdf_params opts))"
  shows "plain_json (keystore_object i a c iv (kdf_params opts @ [(''salt'', JStr s)]))"
  using assms
  by (auto simp: keystore_object_def kdf_params_def kdf_ok_def obj_get_def MAX_SAFE_INTEGER_def Let_def)

lemma password_valid: "zod_ok L \<Longrightarrow> validate1 L ''bytes'' (JBytes bs) = Inr ()"
  by (simp add: validate1_bytes isBytes_def bytes_size_ok_def bytes_no_size)

lemma keystore_opens:
  assumes "zod_ok L" and "zod_objects_ok L" and "crypto_ok L" and "acc_lib_ok A"
    and "encrypt L A rn seed password opts = Inr ks" and "\<not> isArray (eo_salt opts)"
  shows "\<exists>seedBytes acc t. parseAndValidateSeed L seed False = Inr seedBytes \<and>
    seedToAccount L A (JBytes seedBytes) = Inr acc \<and> decrypt L A ks password nonStrict = Inr acc \<and>
    js_json L ks = Inr (Some t) \<and> decrypt L A (JStr t) password False = Inr acc"
proof -
  obtain seedBytes salt pw key cipher acc where e:
    "parseAndValidateSeed L seed False = Inr seedBytes"
    "password_bytes L password = Inr (JBytes pw)" "kdf_ok (obj_get (kdf_params opts))"
    "derive_key A (JBytes pw) (JBytes salt) (obj_get (kdf_params opts)) = Inr key"
    "aes_encrypt A seedBytes key (rn_iv rn) = Inr cipher"
    "seedToAccount L A (JBytes seedBytes) = Inr acc"
    and ks: "ks = keystore_object (rn_uuid rn) (CHR ''Q'' # toLowerCase (drop 1 (ac_address acc)))
       (hex_of_bytes cipher) (hex_of_bytes (rn_iv rn))
       (kdf_params opts @ [(''salt'', JStr (hex_of_bytes salt))])"
    using encryptE [OF assms(1,5,6)] .
  have aes: "aes_decrypt A cipher key (rn_iv rn) = Inr seedBytes" using acc_lib_okD(1) [OF assms(4) e(5)] .
  obtain c where "ac_address acc = CHR ''Q'' # c"
  proof (rule seedToAccount_bytes [OF assms(1,3,4) seed_opens [OF assms(4) e(6)]])
    fix c
    assume "seedToAccount L A (JBytes seedBytes) = Inr \<lparr>ac_address = CHR ''Q'' # c,
      ac_seed = ''0x'' @ hex_of_bytes seedBytes, ac_given = JBytes seedBytes, ac_wallet = seedBytes\<rparr>"
    then show thesis using e(6) that [of c] by simp
  qed
  then have label: "toLowerCase (ac_address acc) = CHR ''q'' # toLowerCase (toLowerCase (drop 1 (ac_address acc)))"
    by (simp add: toLowerCase_def)
  let ?crypto = "field ks ''crypto''"
  have "validateJSONSchema L keyStoreSchema ks False = Inr None" "field ks ''version'' = JNum (NInt 1)"
    "text_of (field ks ''address'') = CHR ''Q'' # toLowerCase (drop 1 (ac_address acc))"
    using keystore_accepted [OF assms(2)] by (simp_all only: ks keystore_fields text_of_def jsval.case)
  moreover have "keystore_key L A ?crypto (JBytes pw) = Inr key"
    unfolding ks keystore_fields keystore_key_read [OF assms(1) e(3)] by (rule e(4))
  moreover have "field ?crypto ''ciphertext'' = JStr (hex_of_bytes cipher)"
    "field (field ?crypto ''cipherparams'') ''iv'' = JStr (hex_of_bytes (rn_iv rn))"
    unfolding ks keystore_fields by (simp_all add: field_def obj_get_def)
  ultimately have "open_keystore L A ks password = Inr acc"
    using e(2,6) aes label assms(1) password_valid [OF assms(1)] by (simp add: open_keystore_def)
  moreover have "js_json L ks = Inr (Some (json_written L ks))" "plain_json ks"
    using keystore_plain [OF e(3)] json_written_reads by (simp_all add: ks)
  moreover from this have "json_parse L (json_written L ks) = Inr ks" by (rule json_roundtrip [rotated])
  ultimately show ?thesis
    using e(1,6) by (intro exI [of _ seedBytes] exI [of _ acc] exI [of _ "json_written L ks"])
      (simp add: decrypt_def ks keystore_object_def)
qed

text \<open>
  C10: The keystore written for a seed and a password is read back, with the same password, to the account
  of that seed, given as an object or as the text it is stored as.
\<close>

theorem keystore_roundtrip:
  assumes "zod_ok L" and "zod_objects_ok L" and "crypto_ok L" and "acc_lib_ok A"
    and "encrypt L A rn seed password opts = Inr ks" and "\<not> isArray (eo_salt opts)"
  shows "\<exists>seedBytes acc t. parseAndValidateSeed L seed False = Inr seedBytes \<and>
    seedToAccount L A (JBytes seedBytes) = Inr acc \<and> decrypt L A ks password nonStrict = Inr acc \<and>
    js_json L ks = Inr (Some t) \<and> decrypt L A (JStr t) password False = Inr acc"
  using assms by (rule keystore_opens)

definition relabelled :: "string \<Rightarrow> (string \<times> jsval) list \<Rightarrow> jsval" where
  "relabelled a kvs = JObj (AList.update ''address'' (JStr a) kvs)"

lemma obj_get_update: "obj_get (AList.update k v kvs) k' = (if k' = k then v else obj_get kvs k')"
  by (simp add: obj_get_def update_conv)

text \<open>
  The address of a keystore is only a label: with another one the same password opens it exactly when
  the label agrees with the address of the seed in all but the first character and the case, and is
  refused as a mismatch otherwise.
\<close>

theorem keystore_label:
  assumes "zod_objects_ok L" and "decrypt L A (JObj kvs) password nonStrict = Inr acc"
  shows "decrypt L A (relabelled a kvs) password nonStrict =
    (if toLowerCase (ac_address acc) = CHR ''q'' # toLowerCase (drop 1 a) then Inr acc
     else Inl (acc_error ''KeyStoreMismatchError''))"
proof -
  let ?kvs = "AList.update ''address'' (JStr a) kvs"
  have opened: "open_keystore L A (JObj kvs) password = Inr acc" using assms(2) by (simp add: decrypt_def)
  then have "\<exists>r. validateJSONSchema L keyStoreSchema (JObj kvs) False = Inr r"
    by (auto simp: open_keystore_def bindR_Inr_iff)
  then have "safeParse L (convertToZod L keyStoreSchema) (JObj kvs) = Inr []"
    using validate_refuses by blast
  then have "safeParse L (convertToZod L keyStoreSchema) (JObj ?kvs) = Inr []"
    using assms(1) by (simp add: keystore_schema_zod zod_object obj_get_update typeof_def)
  then have val: "validateJSONSchema L keyStoreSchema (JObj ?kvs) False = Inr None"
    by (rule validate_accepts)
  have same: "field (JObj ?kvs) ''version'' = field (JObj kvs) ''version''"
    "field (JObj ?kvs) ''crypto'' = field (JObj kvs) ''crypto''"
    "text_of (field (JObj ?kvs) ''address'') = a"
    by (simp_all add: field_def obj_get_update text_of_def)
  show ?thesis
    using opened val
    by (auto simp: decrypt_def relabelled_def open_keystore_def same bindR_Inr_iff split: if_splits)
qed

text \<open>
  Whatever parameters a keystore or the caller gives, the key derivation is never run outside its
  bounds of memory, time, parallelism and length: two implementations that agree within the bounds make
  the same keystores and open them to the same accounts.
\<close>

theorem kdf_within_bounds:
  assumes "\<forall>pw salt t m q d. 2 \<le> t \<and> t \<le> 50 \<and> 19456 \<le> m \<and> m \<le> 1048576 \<and> 1 \<le> q \<and> q \<le> 16 \<and>
      16 \<le> d \<and> d \<le> 64 \<longrightarrow> argon2id A pw salt t m q d = g pw salt t m q d"
  shows "decrypt L (A\<lparr>argon2id := g\<rparr>) keystore password nonStrict = decrypt L A keystore password nonStrict \<and>
    encrypt L (A\<lparr>argon2id := g\<rparr>) rn seed password opts = encrypt L A rn seed password opts"
proof -
  let ?B = "A\<lparr>argon2id := g\<rparr>"
  have derive: "derive_key ?B pw salt p = derive_key A pw salt p" if "validateArgon2idParams p = Inr u" for pw salt p u
    using that assms validateArgon2idParams_iff [of p] by (auto simp: kdf_ok_def derive_key_def Let_def)
  have account: "seedToAccount L ?B v = seedToAccount L A v" for v
    by (simp add: seedToAccount_def newMLDSA87WalletFromExtendedSeed_def)
  have aes: "aes_encrypt ?B = aes_encrypt A" by simp
  have key: "keystore_key L ?B crypto pw = keystore_key L A crypto pw" for crypto pw
    unfolding keystore_key_def Let_def by (intro if_cong bindR_cong derive refl) assumption
  have "open_keystore L ?B json password = open_keystore L A json password" for json
    by (simp add: open_keystore_def key account)
  moreover have "encrypt L ?B rn seed password opts = encrypt L A rn seed password opts"
    unfolding encrypt_def account aes
    by (intro if_cong bindR_cong derive refl) assumption
  ultimately show ?thesis by (simp add: decrypt_def)
qed

section \<open>The sender of a signed transaction\<close>

text \<open>What signing keeps of a transaction.\<close>

lemma sign_keeps:
  assumes "zod_ok L" "tx_wf t" "access_canonical (tx_accessList t)" "0 \<le> tx_chainId t"
    and "sign L T seed t = Inr u"
  shows "tx_wf u \<and> tx_chainId u = tx_chainId t \<and> tx_to u = tx_to t \<and> tx_bytes u = tx_bytes t \<and>
    tx_accessList u = tx_accessList t \<and> tx_publicKey u = nonempty (wl_pk T seed) \<and>
    tx_descriptor u = nonempty (wl_descriptor T seed) \<and> wl_open T seed = Inr ()"
proof -
  obtain msg where opened: "wl_open T seed = Inr ()"
    and u: "processAuthValues L (wl_descriptor T seed) [] (wl_sign T seed msg) (wl_pk T seed) t = Inr u"
    using assms(5) by (auto simp: sign_def Let_def bindR_Inr_iff split: if_splits)
  obtain td opts where td: "tx_built L td opts u" and f: "td_chainId td = JBig (tx_chainId t)"
    "td_to td = (case tx_to t of Some a \<Rightarrow> JBytes a | None \<Rightarrow> JUndef)" "td_data td = JBytes (tx_bytes t)"
    "td_accessList td = tx_accessList t" "td_publicKey td = JBytes (wl_pk T seed)"
    "td_descriptor td = JBytes (wl_descriptor T seed)" "to_common opts = Some (tx_common t)"
    using u unfolding processAuthValues_def fromTxData_iff by auto
  have acc: "nullish_or (tx_accessList t) (JArr []) = tx_accessList t"
    using assms(3) by (elim access_canonicalE) (simp add: nullish_or_def isNullish_def)
  have "getAccessListData L (tx_accessList t) = Inr (tx_accessList u, tx_AccessListJSON u)"
    using td acc by (simp add: tx_built_def f)
  then have "tx_accessList u = tx_accessList t"
    using getAccessListData_canonical [OF assms(1,3)] by auto
  moreover have "tx_chainId u = tx_chainId t"
  proof -
    have "getCommon L (Some (tx_common t)) (JBig (tx_chainId t)) = Inr (tx_common u)"
      and u: "common_chainId (tx_common u) = Inr (tx_chainId u)"
      using td by (simp_all add: tx_built_def f)
    then have "tx_common u = copy (tx_common t)"
      by (auto simp: getCommon_def bindR_Inr_iff split: if_splits)
    moreover have "common_chainId (tx_common t) = Inr (tx_chainId t)" using assms(2) by (simp add: tx_wf_def)
    ultimately show ?thesis using u by simp
  qed
  moreover have "tx_to u = tx_to t" "tx_bytes u = tx_bytes t" "tx_publicKey u = nonempty (wl_pk T seed)"
    "tx_descriptor u = nonempty (wl_descriptor T seed)"
    using td assms(2) by (auto simp: tx_built_def base_built_def f tx_wf_def nonempty_def split: option.splits)
  ultimately show ?thesis using tx_wf_built [OF assms(1) td] opened by simp
qed

lemma verifySignature_uncached: "verifySignature L T (uncached t) = verifySignature L T t"
proof -
  have "tx_descriptor (uncached t) = tx_descriptor t" "tx_signature (uncached t) = tx_signature t"
    "tx_publicKey (uncached t) = tx_publicKey t" "tx_extraParams (uncached t) = tx_extraParams t"
    by (simp_all add: uncached_def)
  then show ?thesis
    by (simp add: verifySignature_def getMessageToVerifySignature_def getMessageToSign_def raw_uncached)
qed

lemma validated_verifies:
  assumes "fst (tx_validate L T u) = Inr []" "isSigned u"
  shows "verifySignature L T u = Inr True"
proof -
  obtain fee u' where b: "getBaseFee u = (Inr fee, u')"
    using assms(1) by (cases "getBaseFee u"; cases "fst (getBaseFee u)") (auto simp: tx_validate_def bindS_Inl)
  have same: "uncached u' = uncached u"
    using alwaysD [OF always_cache(2) b, of L T] by (simp add: cache_only_def)
  then have "isSigned u'" using assms(2) by (cases u, cases u') (simp add: uncached_def isSigned_def)
  moreover have "verifySignature L T u' = verifySignature L T u"
    using same verifySignature_uncached [of L T u] verifySignature_uncached [of L T u'] by simp
  ultimately show ?thesis
    using assms(1) b
    by (cases "verifySignature L T u") (auto simp: tx_validate_def bindS_def split: if_splits)
qed

lemma signTransactionE:
  assumes "zod_ok L" "signTransaction L A t seed = Inr r" "hexToBytes L seed = Inr seedBytes"
  obtains u raw where "sign L (tx_lib.truncate A) seedBytes t = Inr u" "isSigned u"
    "fst (tx_validate L (tx_lib.truncate A) u) = Inr []" "serialize L (tx_lib.truncate A) u = Inr raw"
    "st_rawTransaction r = ''0x'' @ hex_of_bytes raw"
proof -
  obtain u where u: "sign L (tx_lib.truncate A) seedBytes t = Inr u"
    using assms(2,3) by (auto simp: signTransaction_def bindR_Inr_iff)
  show ?thesis
  proof (cases "tx_descriptor u")
    case d: (Some d)
    show ?thesis
    proof (cases "tx_signature u")
      case s: (Some s)
      show ?thesis
      proof (cases "tx_publicKey u")
        case (Some pk)
        then show ?thesis using assms u d s that [OF u]
          by (auto simp: signTransaction_def bindR_Inr_iff isSigned_def split: if_splits)
      qed (use assms u d s in \<open>simp add: signTransaction_def\<close>)
    qed (use assms u d in \<open>simp add: signTransaction_def\<close>)
  qed (use assms u in \<open>simp add: signTransaction_def\<close>)
qed

lemma validated:
  assumes "fst (getBaseFee u) = Inr fee" "isSigned u" "verifySignature L T u = Inr True" "fee \<le> tx_gasLimit u"
  shows "fst (tx_validate L T u) = Inr []"
proof -
  obtain u' where b: "getBaseFee u = (Inr fee, u')" using assms(1) by (metis prod.collapse)
  have same: "uncached u' = uncached u"
    using alwaysD [OF always_cache(2) b, of L T] by (simp add: cache_only_def)
  then have "isSigned u' \<and> tx_gasLimit u' = tx_gasLimit u"
    using assms(2) by (cases u, cases u') (simp add: uncached_def isSigned_def)
  moreover have "verifySignature L T u' = verifySignature L T u"
    using same verifySignature_uncached [of L T u] verifySignature_uncached [of L T u'] by simp
  ultimately show ?thesis using assms(3,4) b by (simp add: tx_validate_def bindS_def)
qed

text \<open>
  A transaction signed with a seed is recovered from its raw text as sent by the account of that seed.
\<close>

theorem recover_signed:
  assumes "zod_ok L" and "crypto_ok L" and "acc_lib_ok A" and "rlp_ok (tx_lib.truncate A)"
    and "fromTxData L td default_opts = Inr t" and "access_canonical (tx_accessList t)" and "0 \<le> tx_chainId t"
    and "signTransaction L A t seed = Inr r" and "hexToBytes L seed = Inr seedBytes"
  shows "\<exists>acc. seedToAccount L A (JBytes seedBytes) = Inr acc \<and>
    recoverTransaction L A (JStr (st_rawTransaction r)) = Inr (ac_address acc)"
proof -
  let ?T = "tx_lib.truncate A"
  have t: "tx_built L td default_opts t" using assms(5) by (simp add: fromTxData_iff)
  then have wf: "tx_wf t" using tx_wf_built assms(1) by blast
  obtain u raw where u: "sign L ?T seedBytes t = Inr u" "isSigned u" "fst (tx_validate L ?T u) = Inr []"
    "serialize L ?T u = Inr raw" "st_rawTransaction r = ''0x'' @ hex_of_bytes raw"
    using signTransactionE [OF assms(1,8,9)] .
  have k: "tx_wf u" "tx_chainId u = tx_chainId t" "tx_to u = tx_to t" "tx_bytes u = tx_bytes t"
    "tx_accessList u = tx_accessList t" "tx_publicKey u = nonempty (wl_pk A seedBytes)"
    "tx_descriptor u = nonempty (wl_descriptor A seedBytes)" "wl_open A seedBytes = Inr ()"
    using sign_keeps [OF assms(1) wf assms(6,7) u(1)] by (simp_all add: tx_lib.defs)
  obtain c where c: "getCommon L None (JBig (tx_chainId u)) = Inr c" "common_chainId c = Inr (tx_chainId u)"
  proof -
    have "getCommon L None (JBig (tx_chainId t)) = Inr (tx_common t)"
      using getCommon_again [OF assms(1) _ _ assms(7)] t by (auto simp: tx_built_def default_opts_def)
    then show ?thesis using that wf k(2) by (simp add: tx_wf_def)
  qed
  define w where "w = u\<lparr>tx_common := c\<rparr>"
  obtain vs where rawu: "Tx.raw L u = Inr vs" and rlp: "rlp_value (JArr vs)"
    by (rule raw_wf [OF assms(1) k(1)])
       (use assms(6,7) k in \<open>simp_all add: rlp_value_canonical opt_bytes_def\<close>)
  have bytes: "raw = type_byte @ rlp_encode ?T (JArr vs)" using u(4) rawu by (simp add: serialize_def)
  have "tx_wf w" using k(1) c by (simp add: w_def tx_wf_def)
  moreover have "initcode_ok L default_opts w"
    using built_initcode [OF t] k by (simp add: initcode_ok_def w_def)
  moreover have "Tx.raw L w = Inr vs" using rawu by (simp add: w_def raw_def)
  ultimately obtain js where again: "fromValuesArray L vs default_opts = Inr (w\<lparr>tx_type := TRANSACTION_TYPE,
      tx_AccessListJSON := js, tx_txOptions := default_opts, tx_frozen := to_freeze default_opts \<noteq> Some False,
      tx_cachedHash := None, tx_cachedDataFee := None\<rparr>)" (is "_ = Inr ?w")
    using read_back [OF assms(1), of w default_opts vs] c k assms(6,7) by (auto simp: w_def default_opts_def)
  have "fromSerializedData L ?T raw default_opts = Inr ?w"
    using again rlp assms(4)
    by (simp add: bytes fromSerializedData_def fromSerializedTx_def type_byte_def TRANSACTION_TYPE_def rlp_ok_def)
  moreover have "verifySignature L ?T ?w = Inr True"
    using validated_verifies [OF u(3,2)]
    by (simp add: verifySignature_def getMessageToVerifySignature_def getMessageToSign_def raw_def w_def)
  moreover have "getSenderAddress L ?T ?w =
      Inr (addressFromPublicKeyAndDescriptor L (wl_pk A seedBytes) (wl_descriptor A seedBytes))"
    (is "_ = Inr ?a")
  proof -
    have "verifySignature L ?T u = Inr True" using validated_verifies [OF u(3,2)] .
    then have "wl_descriptor_type A (wl_descriptor A seedBytes) = Inr (wl_ML_DSA_87 A)"
      using u(2) k(7) by (auto simp: verifySignature_def isSigned_def bindR_Inr_iff nonempty_def
          tx_lib.defs split: if_splits option.splits)
    moreover have "tx_publicKey u = Some (wl_pk A seedBytes)" "tx_descriptor u = Some (wl_descriptor A seedBytes)"
      using u(2) k(6,7) by (auto simp: isSigned_def nonempty_def split: if_splits)
    moreover have "length ?a = 64"
      using assms(2) by (simp add: addressFromPublicKeyAndDescriptor_def crypto_okD)
    ultimately show ?thesis using acc_lib_okD(4) [OF assms(3) k(8)]
      by (simp add: getSenderAddress_def w_def publicKeyAndDescriptorToAddress_def new_Address_def
          ADDRESS_BYTES_def tx_lib.defs)
  qed
  ultimately have "recoverTransaction L A (JStr (st_rawTransaction r)) =
      bindR (Address_toString L ?a) (\<lambda>s. util_toChecksumAddress L (JStr s))"
    using assms(1) u(5) hexToBytes_0x [OF assms(1) hex_of_bytes_hex, of raw]
    by (simp add: recoverTransaction_def bytes_of_hex_of_bytes)
  moreover have "Address_toString L ?a = Inr (CHR ''Q'' # hex_of_bytes ?a)"
    using assms(1) hexToAddress_bytes [OF assms(1), of ?a] crypto_okD(4) [OF assms(2)]
    by (simp add: Address_toString_def addressFromPublicKeyAndDescriptor_def)
  ultimately show ?thesis
    using seedToAccount_bytes [OF assms(1-3) k(8)] by (metis account.select_convs(1) bindR_simps(2))
qed

section \<open>Concrete accounts\<close>

definition acc_ref :: acc_lib where
  "acc_ref = tx_lib.extend tx_ref
     \<lparr>aes_encrypt = (\<lambda>d k iv. Inr (d @ k)), aes_decrypt = (\<lambda>c k iv. Inr (take (length c - length k) c)),
      argon2id = (\<lambda>pw salt t m q d. Inr (replicate (nat d) 7)),
      wl_from = (\<lambda>v. case v of JBytes s \<Rightarrow> if length s = 51 then Inr s else Inl (js_Error ''invalid extended seed'')
        | _ \<Rightarrow> Inl (js_Error ''invalid extended seed'')),
      wl_new_descriptor = [1, 0, 0], wl_extended = (\<lambda>d s. Inr (d @ s))\<rparr>"

lemma acc_ref_truncate [simp]: "tx_lib.truncate acc_ref = tx_ref"
  by (simp add: acc_ref_def tx_lib.defs)

lemma acc_ref_sel:
  "wl_open acc_ref = wl_open tx_ref" "wl_pk acc_ref = wl_pk tx_ref"
  "wl_publicKeyBytes acc_ref = wl_publicKeyBytes tx_ref"
  by (simp_all add: acc_ref_def tx_lib.defs)

lemma acc_ref_ok: "acc_lib_ok acc_ref"
  by (auto simp: acc_lib_ok_def acc_ref_def tx_lib.defs tx_ref_def)

definition no_encrypt_opts :: encrypt_opts where
  "no_encrypt_opts = \<lparr>eo_salt = JUndef, eo_kdf = JUndef, eo_dklen = JUndef, eo_t = JUndef, eo_m = JUndef,
     eo_p = JUndef\<rparr>"

definition sample_randoms :: randoms where
  "sample_randoms = \<lparr>rn_salt = [1, 2], rn_iv = [3], rn_uuid = ''id''\<rparr>"

lemma sample_keystore:
  obtains ks where
    "encrypt lib_ref acc_ref sample_randoms (JBytes (replicate 51 9)) (JBytes [5]) no_encrypt_opts = Inr (JObj ks)"
proof -
  have "wl_open acc_ref (replicate 51 9) = Inr ()" by (simp add: acc_ref_sel tx_ref_def)
  then obtain acc where acc: "seedToAccount lib_ref acc_ref (JBytes (replicate 51 9)) = Inr acc"
    using seedToAccount_bytes [OF lib_ref_zod lib_ref_crypto acc_ref_ok] by metis
  have "kdf_ok (obj_get (kdf_params no_encrypt_opts))"
    by (simp add: kdf_ok_def kdf_params_def obj_get_def no_encrypt_opts_def nullish_or_def isNullish_def)
  then have kdf: "validateArgon2idParams (obj_get (kdf_params no_encrypt_opts)) = Inr ()"
    by (simp only: validateArgon2idParams_iff)
  have key: "\<exists>k. derive_key acc_ref pw salt p = Inr k" for pw salt p
    by (simp add: derive_key_def acc_ref_def tx_lib.defs)
  have aes: "\<exists>c. aes_encrypt acc_ref d k iv = Inr c" for d k iv
    by (simp add: acc_ref_def tx_lib.defs)
  obtain k c where "derive_key acc_ref (JBytes [5]) (JBytes [1, 2]) (obj_get (kdf_params no_encrypt_opts)) = Inr k"
    "aes_encrypt acc_ref (replicate 51 9) k [3] = Inr c"
    using key aes by metis
  moreover have "parseAndValidateSeed lib_ref (JBytes (replicate 51 9)) False = Inr (replicate 51 9)"
    by (simp add: parseAndValidateSeed_def parse_bytes_of_length_def)
  ultimately show ?thesis
    using acc kdf lib_ref_zod that
    by (simp add: encrypt_def encrypt_salt_def password_bytes_def sample_randoms_def no_encrypt_opts_def
        js_truthy_def nullish_or_def isNullish_def keystore_object_def)
qed

theorem keystore_roundtrip_witness:
  "\<exists>ks acc. encrypt lib_ref acc_ref sample_randoms (JBytes (replicate 51 9)) (JBytes [5]) no_encrypt_opts = Inr ks \<and>
     decrypt lib_ref acc_ref ks (JBytes [5]) False = Inr acc"
proof -
  obtain ks where "encrypt lib_ref acc_ref sample_randoms (JBytes (replicate 51 9)) (JBytes [5]) no_encrypt_opts =
      Inr (JObj ks)"
    by (rule sample_keystore)
  then show ?thesis
    using keystore_roundtrip [OF lib_ref_zod lib_ref_zod_objects lib_ref_crypto acc_ref_ok, of sample_randoms
        "JBytes (replicate 51 9)" "JBytes [5]" no_encrypt_opts "JObj ks" False]
    by (auto simp: no_encrypt_opts_def isArray_def)
qed

theorem keystore_label_witness:
  "\<exists>ks acc. decrypt lib_ref acc_ref (JObj ks) (JBytes [5]) False = Inr acc \<and>
     decrypt lib_ref acc_ref (relabelled ''Q00'' ks) (JBytes [5]) False = Inl (acc_error ''KeyStoreMismatchError'')"
proof -
  obtain ks where ks: "encrypt lib_ref acc_ref sample_randoms (JBytes (replicate 51 9)) (JBytes [5]) no_encrypt_opts =
      Inr (JObj ks)"
    by (rule sample_keystore)
  obtain acc where acc: "seedToAccount lib_ref acc_ref (JBytes (replicate 51 9)) = Inr acc"
    and dec: "decrypt lib_ref acc_ref (JObj ks) (JBytes [5]) False = Inr acc"
    using keystore_opens [OF lib_ref_zod lib_ref_zod_objects lib_ref_crypto acc_ref_ok ks, of False]
    by (auto simp: no_encrypt_opts_def isArray_def parseAndValidateSeed_def parse_bytes_of_length_def)
  have "length (ac_address acc) = 129"
    using seedToAccount_length [OF lib_ref_zod lib_ref_crypto acc_ref_ok acc] .
  moreover have "length (CHR ''q'' # toLowerCase (drop 1 ''Q00'')) = 3" by simp
  ultimately have "toLowerCase (ac_address acc) \<noteq> CHR ''q'' # toLowerCase (drop 1 ''Q00'')"
    by (auto dest: arg_cong [where f = length])
  then show ?thesis using keystore_label [OF lib_ref_zod_objects dec, of "''Q00''"] dec by auto
qed

theorem kdf_within_bounds_witness:
  "encrypt lib_ref (acc_ref\<lparr>argon2id := (\<lambda>pw salt t m q d. if d \<le> 64 then Inr (replicate (nat d) 7)
       else Inl (js_Error ''out of memory''))\<rparr>) sample_randoms (JBytes (replicate 51 9)) (JBytes [5]) no_encrypt_opts =
     encrypt lib_ref acc_ref sample_randoms (JBytes (replicate 51 9)) (JBytes [5]) no_encrypt_opts"
  using kdf_within_bounds [of acc_ref "\<lambda>pw salt t m q d. if d \<le> 64 then Inr (replicate (nat d) 7)
       else Inl (js_Error ''out of memory'')"]
  by (simp add: acc_ref_def tx_lib.defs)

theorem recover_signed_witness:
  "\<exists>t r acc. fromTxData lib_ref sample_data default_opts = Inr t \<and>
     signTransaction lib_ref acc_ref t (JBytes (replicate 51 9)) = Inr r \<and>
     seedToAccount lib_ref acc_ref (JBytes (replicate 51 9)) = Inr acc \<and>
     recoverTransaction lib_ref acc_ref (JStr (st_rawTransaction r)) = Inr (ac_address acc)"
proof (rule sample_built)
  fix t
  let ?seed = "replicate 51 (9 :: byte)"
  assume t: "fromTxData lib_ref sample_data no_opts = Inr t" "access_canonical (tx_accessList t)"
    "tx_chainId t = 1" "tx_to t = None" "tx_bytes t = [0, 5, 0]" "tx_accessList t = td_accessList sample_data"
    "tx_common t = (case new_Common (chain_opts (ById DEFAULT_CHAIN)) of Inr c \<Rightarrow> c)"
  have built: "tx_built lib_ref sample_data no_opts t" using t(1) by (simp add: fromTxData_iff)
  then have wf: "tx_wf t" using tx_wf_built [OF lib_ref_zod] by blast
  have gas: "tx_gasLimit t = 90000"
    using built lib_ref_zod by (simp add: tx_built_def base_built_def sample_data_def no_data_def)
  have "getCommon lib_ref None JUndef = Inr (tx_common t)"
    using built by (simp add: tx_built_def no_opts_def sample_data_def no_data_def)
  then have rules: "zond_rules (copy (tx_common t))"
    using getCommon_zond [of lib_ref JUndef "tx_common t"] by (simp add: zond_rules_def copy_def)
  have "0 \<le> tx_chainId t" using t(3) by simp
  then obtain vs where raw: "raw lib_ref t = Inr vs" using raw_wf [OF lib_ref_zod wf] by metis
  then obtain msg where msg: "getMessageToSign lib_ref tx_ref (wl_descriptor tx_ref ?seed) [] True t = Inr msg"
    by (simp add: getMessageToSign_def)
  have seed: "wl_open tx_ref ?seed = Inr ()" "length ?seed = SEED_BYTES"
    by (simp_all add: tx_ref_def SEED_BYTES_def)
  have "checkMaxInitCodeSize (tx_common t) (length (tx_bytes t)) = Inr ()"
    using sample_common t(5,7) by (auto simp: eval_nat_numeral split: sum.splits)
  then obtain js where sgn: "sign lib_ref tx_ref ?seed t = Inr (signed_tx tx_ref ?seed msg js t)" (is "_ = Inr ?u")
    using sign_result [OF lib_ref_zod tx_ref_ok(2) wf t(2) _ _ seed(2,1) msg] t(3) by auto
  have "tx_accessList ?u = JArr [JArr [JBytes (replicate 64 1), JArr [JBytes (replicate 32 2)]]]"
    using t(6) by (simp add: sample_data_def)
  then have fee: "fst (getBaseFee ?u) = Inr 57326"
    using base_fee_zond [of ?u] rules t(4,5) by (simp add: access_canonical_def access_keys_def)
  have valid: "fst (tx_validate lib_ref tx_ref ?u) = Inr []"
    using validated [OF fee signed_tx_sel(1) signed_verifies [OF tx_ref_ok(2) seed(1) raw msg]] gas by simp
  obtain ws where ws: "raw lib_ref ?u = Inr ws" by (rule raw_signed [OF raw])
  then have ser: "\<exists>s. serialize lib_ref tx_ref ?u = Inr s"
    "\<exists>m. getMessageToSign lib_ref tx_ref (wl_descriptor tx_ref ?seed) [] True ?u = Inr m"
    by (simp_all add: serialize_def getMessageToSign_def)
  obtain r where r: "signTransaction lib_ref acc_ref t (JBytes ?seed) = Inr r"
    using sgn valid ser lib_ref_zod sha3Raw_hex [OF lib_ref_zod] bytesToHex_hex [OF lib_ref_zod]
    by (auto simp: signTransaction_def or_empty_def)
  have opts: "fromTxData lib_ref sample_data default_opts = Inr t"
    using t(1) by (simp add: default_opts_def no_opts_def)
  have "rlp_ok (tx_lib.truncate acc_ref)" "0 \<le> tx_chainId t" using tx_ref_ok(1) t(3) by simp_all
  from recover_signed [OF lib_ref_zod lib_ref_crypto acc_ref_ok this(1) opts t(2) this(2) r
      hexToBytes_bytes [OF lib_ref_zod]]
  show ?thesis using opts r by metis
qed

end
