(* ===== verification/Wallet.thy ===== *)
theory Wallet
  imports AccountProps
begin

text \<open>
  \<^verbatim>\<open>web3-qrl-accounts/src/wallet.ts\<close>: the wallet, an array of accounts with a map from lower-cased
  addresses to positions, and its storage in the browser. What it uses of its accounts and of the account
  provider is an interface; \<^verbatim>\<open>web3/src/accounts.ts\<close> provides it from the functions of the accounts package.
\<close>

section \<open>The interface of the wallet\<close>

record provider =
  pv_create :: "bytes \<Rightarrow> js_error + account"
  pv_seedToAccount :: "jsval \<Rightarrow> js_error + account"
  pv_decrypt :: "jsval \<Rightarrow> jsval \<Rightarrow> jsval \<Rightarrow> js_error + account"
  pv_encrypt :: "randoms \<Rightarrow> account \<Rightarrow> jsval \<Rightarrow> encrypt_opts \<Rightarrow> js_error + jsval"

definition decryptWithContext :: "lib \<Rightarrow> acc_lib \<Rightarrow> jsval \<Rightarrow> jsval \<Rightarrow> jsval \<Rightarrow> js_error + account" where
  "decryptWithContext L A keystore password options =
     decrypt L A keystore password (js_truthy (nullish_or (field options ''nonStrict'') (JBool True)))"

definition accounts_provider :: "lib \<Rightarrow> acc_lib \<Rightarrow> provider" where
  "accounts_provider L A = \<lparr>pv_create = create L A, pv_seedToAccount = seedToAccount L A,
     pv_decrypt = decryptWithContext L A, pv_encrypt = account_encrypt L A\<rparr>"

text \<open>What \<^verbatim>\<open>JSON.stringify\<close> shows of an account that was wrapped for a context.\<close>

definition wrapped_toJSON :: "account \<Rightarrow> jsval" where
  "wrapped_toJSON a = JObj [(''address'', JStr (ac_address a)), (''seed'', JStr ''<redacted>'')]"

section \<open>The wallet\<close>

text \<open>The elements of the array; a hole is \<^const>\<open>None\<close>.\<close>

record wallet =
  wa_items :: "account option list"
  wa_addressMap :: "(string, nat) jsmap"

definition new_wallet :: wallet where
  "new_wallet = \<lparr>wa_items = [], wa_addressMap = []\<rparr>"

definition elem_at :: "'a option list \<Rightarrow> int \<Rightarrow> 'a option" where
  "elem_at xs i = (if 0 \<le> i \<and> nat i < length xs then xs ! nat i else None)"

definition put_elem :: "nat \<Rightarrow> 'a \<Rightarrow> 'a option list \<Rightarrow> 'a option list" where
  "put_elem i x xs =
     (if i < length xs then xs[i := Some x] else xs @ replicate (i - length xs) None @ [Some x])"

definition splice1 :: "nat \<Rightarrow> 'a list \<Rightarrow> 'a list" where
  "splice1 i xs = take i xs @ drop (Suc i) xs"

definition account_key :: "account \<Rightarrow> string" where
  "account_key a = toLowerCase (ac_address a)"

text \<open>An address or an index.\<close>

definition wallet_get :: "string + int \<Rightarrow> wallet \<Rightarrow> account option" where
  "wallet_get addressOrIndex w = (case addressOrIndex of
      Inl address \<Rightarrow> (case map_of (wa_addressMap w) (toLowerCase address) of
          Some i \<Rightarrow> elem_at (wa_items w) (int i) | None \<Rightarrow> None)
    | Inr i \<Rightarrow> elem_at (wa_items w) i)"

definition add_account :: "account \<Rightarrow> wallet \<Rightarrow> wallet" where
  "add_account a w =
     (let len = length (wa_items w);
          index = (case wallet_get (Inl (ac_address a)) w of
              Some _ \<Rightarrow> (case map_of (wa_addressMap w) (account_key a) of Some i \<Rightarrow> i | None \<Rightarrow> len)
            | None \<Rightarrow> len) in
      w\<lparr>wa_items := put_elem index a (wa_items w),
        wa_addressMap := AList.update (account_key a) index (wa_addressMap w)\<rparr>)"

definition wallet_add :: "provider \<Rightarrow> jsval + account \<Rightarrow> (wallet, js_error, unit) action" where
  "wallet_add P account = (case account of
      Inl seed \<Rightarrow> bindS (liftS (pv_seedToAccount P seed)) (\<lambda>a w. (Inr (), add_account a w))
    | Inr a \<Rightarrow> (\<lambda>w. (Inr (), add_account a w)))"

text \<open>One element of the first argument per account, its random bytes.\<close>

fun wallet_create :: "bytes list \<Rightarrow> provider \<Rightarrow> (wallet, js_error, unit) action" where
  "wallet_create [] P = returnS ()"
| "wallet_create (r # rs) P =
     bindS (liftS (pv_create P r)) (\<lambda>a.
     bindS (wallet_add P (Inr a)) (\<lambda>_. wallet_create rs P))"

definition rebuilt_map :: "account option list \<Rightarrow> (string, nat) jsmap" where
  "rebuilt_map xs = fold (\<lambda>(i, x) m. case x of Some a \<Rightarrow> AList.update (account_key a) i m | None \<Rightarrow> m)
     (enumerate 0 xs) []"

definition rebuildAddressMap :: "wallet \<Rightarrow> wallet" where
  "rebuildAddressMap w = w\<lparr>wa_addressMap := rebuilt_map (wa_items w)\<rparr>"

definition removed_at :: "nat \<Rightarrow> wallet \<Rightarrow> wallet" where
  "removed_at i w = rebuildAddressMap (w\<lparr>wa_items := splice1 i (wa_items w)\<rparr>)"

definition wallet_remove :: "string + int \<Rightarrow> wallet \<Rightarrow> bool \<times> wallet" where
  "wallet_remove addressOrIndex w = (case addressOrIndex of
      Inl address \<Rightarrow> (case map_of (wa_addressMap w) (toLowerCase address) of
          None \<Rightarrow> (False, w) | Some i \<Rightarrow> (True, removed_at i w))
    | Inr i \<Rightarrow> if elem_at (wa_items w) i \<noteq> None then (True, removed_at (nat i) w) else (False, w))"

definition wallet_clear :: "wallet \<Rightarrow> wallet" where
  "wallet_clear w = w\<lparr>wa_addressMap := [], wa_items := []\<rparr>"

section \<open>Keystores of a wallet\<close>

text \<open>
  The accounts are encrypted independently of each other, each with random values of its own; a hole
  stays one. The first failure in the order of the accounts stands for the rejection of the whole.
\<close>

fun encrypt_items ::
  "provider \<Rightarrow> randoms list \<Rightarrow> jsval \<Rightarrow> encrypt_opts \<Rightarrow> account option list \<Rightarrow> js_error + jsval list" where
  "encrypt_items P rns password opts [] = Inr []"
| "encrypt_items P rns password opts (None # xs) =
     bindR (encrypt_items P rns password opts xs) (\<lambda>ks. Inr (JUndef # ks))"
| "encrypt_items P rns password opts (Some a # xs) =
     bindR (pv_encrypt P (hd rns) a password opts) (\<lambda>k.
     bindR (encrypt_items P (tl rns) password opts xs) (\<lambda>ks. Inr (k # ks)))"

definition wallet_encrypt ::
  "provider \<Rightarrow> randoms list \<Rightarrow> jsval \<Rightarrow> encrypt_opts \<Rightarrow> wallet \<Rightarrow> js_error + jsval list" where
  "wallet_encrypt P rns password opts w = encrypt_items P rns password opts (wa_items w)"

definition wallet_decrypt :: "provider \<Rightarrow> jsval \<Rightarrow> jsval \<Rightarrow> jsval \<Rightarrow> (wallet, js_error, unit) action" where
  "wallet_decrypt P encryptedWallets password options = (case encryptedWallets of
      JArr ks \<Rightarrow> bindS (liftS (mapR (\<lambda>k. pv_decrypt P k password options) ks)) (\<lambda>results w.
        (Inr (), fold add_account results w))
    | _ \<Rightarrow> throwS (TypeError ''encryptedWallets.map is not a function''))"

section \<open>Storage\<close>

text \<open>
  A storage and the code and name of the exception, if any, that writing a text under a key throws.
\<close>

record web_storage =
  ws_items :: "(string \<times> string) list"
  ws_refuses :: "string \<Rightarrow> string \<Rightarrow> (int \<times> string) option"

definition storage_test :: string where "storage_test = ''__storage_test__''"

definition quota_exceeded :: "int \<times> string \<Rightarrow> bool" where
  "quota_exceeded e = (fst e = 22 \<or> fst e = 1014 \<or> snd e = ''QuotaExceededError'' \<or>
     snd e = ''NS_ERROR_DOM_QUOTA_REACHED'')"

definition getStorage :: "web_storage option \<Rightarrow> web_storage option" where
  "getStorage window = (case window of
      None \<Rightarrow> None
    | Some st \<Rightarrow> (case ws_refuses st storage_test storage_test of
        None \<Rightarrow> Some (st\<lparr>ws_items := AList.delete storage_test (ws_items st)\<rparr>)
      | Some e \<Rightarrow> if quota_exceeded e \<and> ws_items st \<noteq> [] then Some st else None))"

definition default_key :: string where "default_key = ''web3js_wallet''"

definition wallet_save ::
  "lib \<Rightarrow> provider \<Rightarrow> randoms list \<Rightarrow> wallet \<Rightarrow> jsval \<Rightarrow> string option \<Rightarrow> encrypt_opts \<Rightarrow>
    (web_storage option, js_error, bool) action" where
  "wallet_save L P rns w password keyName opts window = (case getStorage window of
      None \<Rightarrow> (Inl (js_Error ''Local storage not available.''), window)
    | Some st \<Rightarrow>
        let key = (case keyName of Some k \<Rightarrow> k | None \<Rightarrow> default_key) in
        (case bindR (wallet_encrypt P rns password opts w) (\<lambda>ks. js_json L (JArr ks)) of
           Inl e \<Rightarrow> (Inl e, Some st)
         | Inr None \<Rightarrow> (Inr True, Some st)
         | Inr (Some t) \<Rightarrow> (case ws_refuses st key t of
               Some e \<Rightarrow> (Inl (err_class (snd e) []), Some st)
             | None \<Rightarrow> (Inr True, Some (st\<lparr>ws_items := AList.update key t (ws_items st)\<rparr>)))))"

definition wallet_load ::
  "lib \<Rightarrow> provider \<Rightarrow> web_storage option \<Rightarrow> jsval \<Rightarrow> string option \<Rightarrow> (wallet, js_error, unit) action" where
  "wallet_load L P window password keyName = (case getStorage window of
      None \<Rightarrow> throwS (js_Error ''Local storage not available.'')
    | Some st \<Rightarrow>
        (case map_of (ws_items st) (case keyName of Some k \<Rightarrow> k | None \<Rightarrow> default_key) of
           None \<Rightarrow> returnS ()
         | Some t \<Rightarrow>
             if t = [] then returnS ()
             else bindS (liftS (json_parse L t)) (\<lambda>v.
               wallet_decrypt P (if js_truthy v then v else JArr []) password JUndef)))"

end
