(* ===== verification/WalletProps.thy ===== *)
theory WalletProps
  imports Wallet
begin

text \<open>
  The wallet refines an ordered list of accounts with distinct addresses: the map of addresses is an index
  of the array after any sequence of operations, and what was saved is loaded again.
\<close>

section \<open>Stores of keyed elements\<close>

text \<open>
  The promise of the wallet to its callers: it holds a list without duplicates, where adding replaces the
  element with the same key in its place or appends, and removing takes out the element with a key.
\<close>

definition spec_add :: "('a \<Rightarrow> 'k) \<Rightarrow> 'a \<Rightarrow> 'a list \<Rightarrow> 'a list" where
  "spec_add key a xs =
     (if key a \<in> key ` set xs then map (\<lambda>b. if key b = key a then a else b) xs else xs @ [a])"

definition spec_remove :: "('a \<Rightarrow> 'k) \<Rightarrow> 'k \<Rightarrow> 'a list \<Rightarrow> 'a list" where
  "spec_remove key k xs = filter (\<lambda>b. key b \<noteq> k) xs"

locale keyed_store =
  fixes key :: "'a \<Rightarrow> 'k"
    and contents :: "'s \<Rightarrow> 'a list"
    and ok :: "'s \<Rightarrow> bool"
    and get :: "'k \<Rightarrow> 's \<Rightarrow> 'a option"
    and add :: "'a \<Rightarrow> 's \<Rightarrow> 's"
    and remove :: "'k \<Rightarrow> 's \<Rightarrow> 's"
  assumes distinct_keys: "ok s \<Longrightarrow> distinct (map key (contents s))"
    and get_find: "ok s \<Longrightarrow> get k s = find (\<lambda>a. key a = k) (contents s)"
    and ok_add: "ok s \<Longrightarrow> ok (add a s)"
    and contents_add: "ok s \<Longrightarrow> contents (add a s) = spec_add key a (contents s)"
    and ok_remove: "ok s \<Longrightarrow> ok (remove k s)"
    and contents_remove: "ok s \<Longrightarrow> contents (remove k s) = spec_remove key k (contents s)"
begin

lemma find_spec_add:
  "find (\<lambda>b. key b = k) (spec_add key a xs) = (if k = key a then Some a else find (\<lambda>b. key b = k) xs)"
proof -
  have "find (\<lambda>b. key b = k) (map (\<lambda>b. if key b = key a then a else b) xs) =
      (if k = key a then Some a else find (\<lambda>b. key b = k) xs)" if "key a \<in> key ` set xs \<or> k \<noteq> key a"
    using that by (induction xs) auto
  moreover have "find (\<lambda>b. key b = k) (xs @ [a]) = (if k = key a then Some a else find (\<lambda>b. key b = k) xs)"
    if "key a \<notin> key ` set xs"
    using that by (induction xs) auto
  ultimately show ?thesis unfolding spec_add_def by (cases "key a \<in> key ` set xs") (simp_all only: if_True if_False simp_thms)
qed

lemma get_add: "ok s \<Longrightarrow> get k (add a s) = (if k = key a then Some a else get k s)"
  by (simp add: get_find ok_add contents_add find_spec_add)

lemma get_remove: "ok s \<Longrightarrow> get k (remove k' s) = (if k = k' then None else get k s)"
proof -
  have "find (\<lambda>b. key b = k) (spec_remove key k' xs) = (if k = k' then None else find (\<lambda>b. key b = k) xs)" for xs
    unfolding spec_remove_def by (induction xs) auto
  then show "ok s \<Longrightarrow> ?thesis" by (simp add: get_find ok_remove contents_remove)
qed

lemma fold_add:
  assumes "ok s" "distinct (map key (contents s @ as))"
  shows "ok (fold add as s) \<and> contents (fold add as s) = contents s @ as"
  using assms
proof (induction as arbitrary: s)
  case (Cons a as)
  have "contents (add a s) = contents s @ [a]"
    using Cons.prems by (auto simp: contents_add spec_add_def)
  then show ?case using Cons ok_add by simp
qed simp

end

section \<open>The index of the wallet\<close>

definition wallet_accounts :: "wallet \<Rightarrow> account list" where
  "wallet_accounts w = concat (map (\<lambda>x. case x of Some a \<Rightarrow> [a] | None \<Rightarrow> []) (wa_items w))"

definition index_ok :: "account option list \<Rightarrow> (string, nat) jsmap \<Rightarrow> bool" where
  "index_ok xs m \<longleftrightarrow>
     (\<forall>k i. map_of m k = Some i \<longleftrightarrow> (\<exists>a. i < length xs \<and> xs ! i = Some a \<and> account_key a = k))"

definition wallet_ok :: "wallet \<Rightarrow> bool" where
  "wallet_ok w \<longleftrightarrow> None \<notin> set (wa_items w) \<and> index_ok (wa_items w) (wa_addressMap w)"

lemma wallet_items: "None \<notin> set (wa_items w) \<Longrightarrow> wa_items w = map Some (wallet_accounts w)"
proof -
  have "None \<notin> set xs \<Longrightarrow> xs = map Some (concat (map (\<lambda>x. case x of Some a \<Rightarrow> [a] | None \<Rightarrow> []) xs))"
    for xs :: "account option list"
  proof (induction xs)
    case (Cons x xs)
    then show ?case by (cases x) auto
  qed simp
  then show "None \<notin> set (wa_items w) \<Longrightarrow> ?thesis" by (simp add: wallet_accounts_def)
qed

lemma wallet_accounts_map [simp]: "wa_items w = map Some as \<Longrightarrow> wallet_accounts w = as"
  by (simp add: wallet_accounts_def comp_def)

lemma wallet_okE:
  assumes "wallet_ok w"
  obtains as where "wa_items w = map Some as" "wallet_accounts w = as"
    "\<forall>k i. map_of (wa_addressMap w) k = Some i \<longleftrightarrow> i < length as \<and> account_key (as ! i) = k"
proof
  show items: "wa_items w = map Some (wallet_accounts w)"
    using assms wallet_items by (simp add: wallet_ok_def)
  have "map_of (wa_addressMap w) k = Some i \<longleftrightarrow>
      (\<exists>a. i < length (wa_items w) \<and> wa_items w ! i = Some a \<and> account_key a = k)" for k i
    using assms by (simp add: wallet_ok_def index_ok_def)
  then show "\<forall>k i. map_of (wa_addressMap w) k = Some i \<longleftrightarrow>
      i < length (wallet_accounts w) \<and> account_key (wallet_accounts w ! i) = k"
    unfolding items by auto
qed simp

lemma wallet_okI:
  assumes "wa_items w = map Some as"
    "\<And>k i. map_of (wa_addressMap w) k = Some i \<longleftrightarrow> i < length as \<and> account_key (as ! i) = k"
  shows "wallet_ok w"
  using assms by (auto simp: wallet_ok_def index_ok_def)

lemma wallet_distinct:
  assumes "wallet_ok w"
  shows "distinct (map account_key (wallet_accounts w))"
proof -
  obtain as where items: "wa_items w = map Some as" and as: "wallet_accounts w = as"
    "\<forall>k i. map_of (wa_addressMap w) k = Some i \<longleftrightarrow> i < length as \<and> account_key (as ! i) = k"
    using assms by (rule wallet_okE)
  have "i = j" if "i < length as" "j < length as" "account_key (as ! i) = account_key (as ! j)" for i j
  proof -
    have "map_of (wa_addressMap w) (account_key (as ! j)) = Some i"
      "map_of (wa_addressMap w) (account_key (as ! j)) = Some j"
      using that by (simp_all add: as(2))
    then show ?thesis by simp
  qed
  then show ?thesis by (auto simp: as(1) distinct_conv_nth)
qed

text \<open>The map built from an array of accounts with distinct addresses.\<close>

lemma map_of_rebuilt:
  assumes "distinct (map account_key as)"
  shows "map_of (rebuilt_map (map Some as)) k = Some i \<longleftrightarrow> i < length as \<and> account_key (as ! i) = k"
  using assms
proof (induction as arbitrary: k i rule: rev_induct)
  case (snoc a as)
  have "rebuilt_map (map Some (as @ [a])) =
      AList.update (account_key a) (length as) (rebuilt_map (map Some as))"
    by (simp add: rebuilt_map_def enumerate_append_eq)
  moreover have "account_key a \<notin> account_key ` set as" using snoc.prems by simp
  then have "account_key (as ! i) \<noteq> account_key a" if "i < length as" for i
    using that by (metis imageI nth_mem)
  ultimately show ?case using snoc by (auto simp: update_conv nth_append less_Suc_eq)
qed (simp add: rebuilt_map_def)

section \<open>The operations keep the index\<close>

lemma distinct_key_index:
  assumes "distinct (map f xs)" "i < length xs" "j < length xs" "f (xs ! i) = f (xs ! j)"
  shows "i = j"
  using assms nth_eq_iff_index_eq [of "map f xs" i j] by simp

lemma wallet_get_find:
  assumes "wallet_ok w"
  shows "wallet_get (Inl s) w = find (\<lambda>a. account_key a = toLowerCase s) (wallet_accounts w)"
proof -
  obtain as where items: "wa_items w = map Some as" and as: "wallet_accounts w = as"
    "\<forall>k i. map_of (wa_addressMap w) k = Some i \<longleftrightarrow> i < length as \<and> account_key (as ! i) = k"
    using assms by (rule wallet_okE)
  show ?thesis
  proof (cases "map_of (wa_addressMap w) (toLowerCase s)")
    case None
    then have "\<forall>a \<in> set as. account_key a \<noteq> toLowerCase s"
      using as(2) by (metis in_set_conv_nth option.distinct(1))
    then show ?thesis using None by (simp add: wallet_get_def as(1) find_None_iff2)
  next
    case (Some i)
    then have i: "i < length as" "account_key (as ! i) = toLowerCase s" using as(2) by simp_all
    moreover have "distinct (map account_key as)" using wallet_distinct [OF assms] as(1) by simp
    then have "account_key (as ! j) \<noteq> toLowerCase s" if "j < i" for j
      using that i distinct_key_index [of account_key as i j] by auto
    ultimately show ?thesis
      using Some items by (auto simp: wallet_get_def elem_at_def as(1) find_Some_iff2)
  qed
qed

lemma wallet_add_spec:
  assumes "wallet_ok w"
  shows "wallet_ok (add_account a w) \<and>
    wallet_accounts (add_account a w) = spec_add account_key a (wallet_accounts w)"
proof -
  obtain as where items: "wa_items w = map Some as" and as: "wallet_accounts w = as"
    "\<forall>k i. map_of (wa_addressMap w) k = Some i \<longleftrightarrow> i < length as \<and> account_key (as ! i) = k"
    using assms by (rule wallet_okE)
  show ?thesis
  proof (cases "map_of (wa_addressMap w) (account_key a)")
    case None
    then have new: "account_key a \<notin> account_key ` set as"
      using as(2) by (metis imageE in_set_conv_nth option.distinct(1))
    have "add_account a w = w\<lparr>wa_items := map Some (as @ [a]),
        wa_addressMap := AList.update (account_key a) (length as) (wa_addressMap w)\<rparr>"
      using None items by (simp add: add_account_def wallet_get_def account_key_def put_elem_def)
    moreover have "account_key (as ! i) \<noteq> account_key a" if "i < length as" for i
      using new that by (metis imageI nth_mem)
    moreover from calculation have "wallet_ok (add_account a w)"
      by (intro wallet_okI [of _ "as @ [a]"])
        (auto simp: as(2) update_conv nth_append less_Suc_eq dest: nth_mem)
    ultimately show ?thesis using new by (simp add: as(1) spec_add_def)
  next
    case (Some i)
    then have i: "i < length as" "account_key (as ! i) = account_key a" using as(2) by simp_all
    have dist: "distinct (map account_key as)" using wallet_distinct [OF assms] as(1) by simp
    have upd: "add_account a w = w\<lparr>wa_items := map Some (as[i := a]),
        wa_addressMap := AList.update (account_key a) i (wa_addressMap w)\<rparr>"
      using Some items i
      by (simp add: add_account_def wallet_get_def account_key_def [symmetric] elem_at_def put_elem_def map_update)
    have only: "j = i" if "j < length as" "account_key (as ! j) = account_key a" for j
      using distinct_key_index [OF dist that(1) i(1)] that(2) i(2) by simp
    have "map_of (AList.update (account_key a) i (wa_addressMap w)) k = Some j \<longleftrightarrow>
        j < length as \<and> account_key (as[i := a] ! j) = k" for k j
    proof (cases "k = account_key a")
      case True
      then show ?thesis using i(1) only [of j] by (auto simp: update_conv nth_list_update)
    next
      case False
      then show ?thesis using i as(2) by (auto simp: update_conv nth_list_update)
    qed
    then have "wallet_ok (add_account a w)"
      unfolding upd by (intro wallet_okI [of _ "as[i := a]"]) simp_all
    moreover have "wallet_accounts (add_account a w) = as[i := a]" unfolding upd by simp
    moreover have "as[i := a] = map (\<lambda>b. if account_key b = account_key a then a else b) as"
    proof (rule nth_equalityI)
      fix j
      assume "j < length (as[i := a])"
      then show "as[i := a] ! j = map (\<lambda>b. if account_key b = account_key a then a else b) as ! j"
      proof (cases "j = i")
        case False
        then have "account_key (as ! j) \<noteq> account_key a" using only \<open>j < _\<close> by auto
        then show ?thesis using False \<open>j < _\<close> by simp
      qed (use i in simp)
    qed simp
    moreover have "account_key a \<in> account_key ` set as" using i by (metis imageI nth_mem)
    ultimately show ?thesis by (simp add: as(1) spec_add_def)
  qed
qed

lemma distinct_splice:
  assumes "distinct (map f xs)"
  shows "distinct (map f (take i xs @ drop (Suc i) xs))"
proof -
  have "distinct (take i (map f xs))" "distinct (drop (Suc i) (map f xs))"
    "set (take i (map f xs)) \<inter> set (drop (Suc i) (map f xs)) = {}"
    using assms by (simp_all add: set_take_disj_set_drop_if_distinct)
  then show ?thesis by (simp add: take_map drop_map)
qed

lemma removed_at_spec:
  assumes "wallet_ok w" "i < length (wa_items w)"
  shows "wallet_ok (removed_at i w) \<and> wallet_accounts (removed_at i w) = splice1 i (wallet_accounts w)"
proof -
  obtain as where items: "wa_items w = map Some as" and as: "wallet_accounts w = as"
    using assms(1) by (rule wallet_okE)
  have rest: "map Some (splice1 i as) = splice1 i (wa_items w)"
    by (simp add: items splice1_def take_map drop_map)
  have "distinct (map account_key (take i as @ drop (Suc i) as))"
    using wallet_distinct [OF assms(1)] as distinct_splice by simp
  then have "distinct (map account_key (splice1 i as))" by (simp add: splice1_def)
  then show ?thesis
    using rest map_of_rebuilt [of "splice1 i as"]
    by (auto simp: removed_at_def rebuildAddressMap_def as intro!: wallet_okI [of _ "splice1 i as"])
qed

lemma spec_remove_splice:
  assumes "distinct (map key xs)" "i < length xs" "key (xs ! i) = k"
  shows "splice1 i xs = spec_remove key k xs"
proof -
  have "xs = take i xs @ xs ! i # drop (Suc i) xs" using assms(2) by (rule id_take_nth_drop)
  moreover have "length (take i xs) = i" using assms(2) by simp
  ultimately obtain ys zs where xs: "xs = ys @ xs ! i # zs" "length ys = i" by blast
  define x where "x = xs ! i"
  have ys: "xs = ys @ x # zs" "key x = k" using xs(1) assms(3) by (simp_all add: x_def)
  have "distinct (map key (ys @ x # zs))" using assms(1) ys(1) by simp
  then have "k \<notin> key ` set ys" "k \<notin> key ` set zs" using ys(2) by auto
  then have "filter (\<lambda>b. key b \<noteq> k) ys = ys" "filter (\<lambda>b. key b \<noteq> k) zs = zs"
    unfolding filter_id_conv by blast+
  then show ?thesis using xs(2) ys(2) unfolding ys(1) by (simp add: splice1_def spec_remove_def)
qed

definition remove_address :: "string \<Rightarrow> wallet \<Rightarrow> wallet" where
  "remove_address s w = snd (wallet_remove (Inl s) w)"

lemma wallet_remove_spec:
  assumes "wallet_ok w"
  shows "wallet_ok (remove_address s w) \<and>
    wallet_accounts (remove_address s w) = spec_remove account_key (toLowerCase s) (wallet_accounts w)"
proof -
  obtain as where items: "wa_items w = map Some as" and as: "wallet_accounts w = as"
    "\<forall>k i. map_of (wa_addressMap w) k = Some i \<longleftrightarrow> i < length as \<and> account_key (as ! i) = k"
    using assms by (rule wallet_okE)
  show ?thesis
  proof (cases "map_of (wa_addressMap w) (toLowerCase s)")
    case None
    then have "\<forall>a \<in> set as. account_key a \<noteq> toLowerCase s"
      using as(2) by (metis in_set_conv_nth option.distinct(1))
    then show ?thesis
      using None assms as(1) by (simp add: remove_address_def wallet_remove_def spec_remove_def filter_id_conv)
  next
    case (Some i)
    then have i: "i < length as" "account_key (as ! i) = toLowerCase s" using as(2) by simp_all
    have "distinct (map account_key as)" using wallet_distinct [OF assms] as(1) by simp
    then have "splice1 i as = spec_remove account_key (toLowerCase s) as"
      using i by (rule spec_remove_splice)
    then show ?thesis
      using Some i items removed_at_spec [OF assms, of i] as(1)
      by (simp add: remove_address_def wallet_remove_def)
  qed
qed

lemma toLowerCase_key: "toLowerCase (account_key a) = account_key a"
  by (simp add: account_key_def)

text \<open>Addresses as keys: what the map sees of an address.\<close>

interpretation ws: keyed_store account_key wallet_accounts wallet_ok
  "\<lambda>k w. if toLowerCase k = k then wallet_get (Inl k) w else None" add_account
  "\<lambda>k w. if toLowerCase k = k then remove_address k w else w"
proof
  fix w k
  assume ok: "wallet_ok w"
  have upper: "account_key b \<noteq> k" if "toLowerCase k \<noteq> k" for b
    using that toLowerCase_key by metis
  show "(if toLowerCase k = k then wallet_get (Inl k) w else None) =
      find (\<lambda>a. account_key a = k) (wallet_accounts w)"
    using wallet_get_find [OF ok] upper by (simp add: find_None_iff2)
  show "wallet_ok (if toLowerCase k = k then remove_address k w else w)"
    using wallet_remove_spec [OF ok] ok by simp
  show "wallet_accounts (if toLowerCase k = k then remove_address k w else w) =
      spec_remove account_key k (wallet_accounts w)"
    using wallet_remove_spec [OF ok, of k] upper by (simp add: spec_remove_def filter_id_conv)
qed (simp_all add: wallet_distinct wallet_add_spec)

section \<open>Any sequence of operations\<close>

text \<open>
  What a caller may ask of the wallet, and what the list of its accounts becomes. An account is added as
  it is, or as the one the provider makes of a seed or of random bytes; nothing changes where it throws.
\<close>

datatype wallet_op = OpAdd account | OpAddSeed jsval | OpCreate "bytes list" | OpDecrypt jsval jsval jsval
  | OpRemove "string + int" | OpClear

definition wallet_step :: "provider \<Rightarrow> wallet \<Rightarrow> wallet_op \<Rightarrow> wallet" where
  "wallet_step P w e = (case e of
      OpAdd a \<Rightarrow> snd (wallet_add P (Inr a) w)
    | OpAddSeed s \<Rightarrow> snd (wallet_add P (Inl s) w)
    | OpCreate rs \<Rightarrow> snd (wallet_create rs P w)
    | OpDecrypt ks pw opts \<Rightarrow> snd (wallet_decrypt P ks pw opts w)
    | OpRemove x \<Rightarrow> snd (wallet_remove x w)
    | OpClear \<Rightarrow> wallet_clear w)"

definition spec_added :: "account list \<Rightarrow> account list \<Rightarrow> account list" where
  "spec_added xs as = fold (spec_add account_key) as xs"

text \<open>The accounts made before the first failure.\<close>

fun made :: "(js_error + account) list \<Rightarrow> account list" where
  "made (Inr a # rs) = a # made rs"
| "made _ = []"

definition spec_step :: "provider \<Rightarrow> account list \<Rightarrow> wallet_op \<Rightarrow> account list" where
  "spec_step P xs e = (case e of
      OpAdd a \<Rightarrow> spec_add account_key a xs
    | OpAddSeed s \<Rightarrow> spec_added xs (made [pv_seedToAccount P s])
    | OpCreate rs \<Rightarrow> spec_added xs (made (map (pv_create P) rs))
    | OpDecrypt v pw opts \<Rightarrow> (case v of
          JArr ks \<Rightarrow> (case mapR (\<lambda>k. pv_decrypt P k pw opts) ks of Inr as \<Rightarrow> spec_added xs as | Inl e \<Rightarrow> xs)
        | _ \<Rightarrow> xs)
    | OpRemove (Inl s) \<Rightarrow> spec_remove account_key (toLowerCase s) xs
    | OpRemove (Inr i) \<Rightarrow> if 0 \<le> i \<and> nat i < length xs then splice1 (nat i) xs else xs
    | OpClear \<Rightarrow> [])"

lemma add_all:
  "wallet_ok w \<Longrightarrow> wallet_ok (fold add_account as w) \<and>
     wallet_accounts (fold add_account as w) = spec_added (wallet_accounts w) as"
  by (induction as arbitrary: w) (simp_all add: spec_added_def wallet_add_spec)

lemma wallet_create_adds: "snd (wallet_create rs P w) = fold add_account (made (map (pv_create P) rs)) w"
proof (induction rs arbitrary: w)
  case (Cons r rs)
  then show ?case by (cases "pv_create P r") (simp_all add: bindS_def wallet_add_def)
qed simp

lemma wallet_step_spec:
  assumes "wallet_ok w"
  shows "wallet_ok (wallet_step P w e) \<and> wallet_accounts (wallet_step P w e) = spec_step P (wallet_accounts w) e"
proof (cases e)
  case (OpAdd a)
  then show ?thesis using wallet_add_spec [OF assms] by (simp add: wallet_step_def spec_step_def wallet_add_def)
next
  case (OpAddSeed s)
  then show ?thesis using assms add_all [OF assms]
    by (cases "pv_seedToAccount P s") (simp_all add: wallet_step_def spec_step_def wallet_add_def bindS_def
        spec_added_def wallet_add_spec)
next
  case (OpCreate rs)
  then show ?thesis using add_all [OF assms] by (simp add: wallet_step_def spec_step_def wallet_create_adds)
next
  case (OpDecrypt v pw opts)
  then show ?thesis using assms add_all [OF assms]
    by (auto simp: wallet_step_def spec_step_def wallet_decrypt_def bindS_def split: jsval.split sum.split)
next
  case (OpRemove x)
  show ?thesis
  proof (cases x)
    case (Inl s)
    then show ?thesis using OpRemove wallet_remove_spec [OF assms, of s]
      by (simp add: wallet_step_def spec_step_def remove_address_def)
  next
    case (Inr i)
    obtain as where "wa_items w = map Some as" "wallet_accounts w = as"
      using assms by (rule wallet_okE)
    then show ?thesis using Inr OpRemove assms removed_at_spec [OF assms, of "nat i"]
      by (auto simp: wallet_step_def spec_step_def wallet_remove_def elem_at_def)
  qed
next
  case OpClear
  then show ?thesis
    by (simp add: wallet_step_def spec_step_def wallet_clear_def wallet_ok_def index_ok_def wallet_accounts_def)
qed

interpretation wl: invariant_system "wallet_step P" wallet_ok for P
  by unfold_locales (simp add: wallet_step_spec)

text \<open>
  C11: Whatever accounts are added, made, decrypted and removed in whatever order, the wallet holds the
  accounts of an ordered list in which adding replaces in place or appends; an address finds the account of
  the list with that address, in any case of its letters, and an index the account at its place.
\<close>

theorem wallet_refines_list:
  "wallet_accounts (foldl (wallet_step P) new_wallet es) = foldl (spec_step P) [] es \<and>
   wallet_get (Inl s) (foldl (wallet_step P) new_wallet es) =
     find (\<lambda>a. toLowerCase (ac_address a) = toLowerCase s) (foldl (spec_step P) [] es) \<and>
   wallet_get (Inr i) (foldl (wallet_step P) new_wallet es) =
     (if 0 \<le> i \<and> nat i < length (foldl (spec_step P) [] es) then Some (foldl (spec_step P) [] es ! nat i)
      else None) \<and>
   distinct (map account_key (foldl (spec_step P) [] es))"
proof -
  have new: "wallet_ok new_wallet" "wallet_accounts new_wallet = []"
    by (simp_all add: new_wallet_def wallet_ok_def index_ok_def wallet_accounts_def)
  let ?w = "foldl (wallet_step P) new_wallet es"
  have ok: "wallet_ok ?w" using new(1) by (rule wl.run_inv)
  have "wallet_ok w \<Longrightarrow> wallet_accounts (foldl (wallet_step P) w es) = foldl (spec_step P) (wallet_accounts w) es" for w
    by (induction es arbitrary: w) (simp_all add: wallet_step_spec)
  then have contents: "wallet_accounts ?w = foldl (spec_step P) [] es" using new by simp
  then have items: "wa_items ?w = map Some (foldl (spec_step P) [] es)"
    using ok wallet_items [of ?w] by (simp add: wallet_ok_def contents)
  show ?thesis
  proof (intro conjI)
    show "wallet_get (Inl s) ?w =
        find (\<lambda>a. toLowerCase (ac_address a) = toLowerCase s) (foldl (spec_step P) [] es)"
      using wallet_get_find [OF ok] unfolding contents account_key_def .
    show "wallet_get (Inr i) ?w = (if 0 \<le> i \<and> nat i < length (foldl (spec_step P) [] es)
        then Some (foldl (spec_step P) [] es ! nat i) else None)"
      unfolding wallet_get_def sum.case elem_at_def items by simp
    show "distinct (map account_key (foldl (spec_step P) [] es))"
      using wallet_distinct [OF ok] unfolding contents .
  qed (rule contents)
qed

section \<open>Saving and loading\<close>

lemma parse_seed_bytes: "parseAndValidateSeed L (JBytes bs) False = Inr x \<Longrightarrow> x = bs"
  by (simp add: parseAndValidateSeed_def parse_bytes_of_length_def split: if_splits)

lemma encrypt_plain:
  assumes "zod_ok L" "encrypt L A rn seed password opts = Inr ks" "\<not> isArray (eo_salt opts)"
  shows "plain_json ks"
  by (rule encryptE [OF assms]) (simp add: keystore_plain)

text \<open>An account as the accounts package makes it of a seed.\<close>

definition seed_account :: "lib \<Rightarrow> acc_lib \<Rightarrow> account \<Rightarrow> bool" where
  "seed_account L A a \<longleftrightarrow> seedToAccount L A (JBytes (ac_wallet a)) = Inr a"

lemma items_reopen:
  assumes "zod_ok L" "zod_objects_ok L" "crypto_ok L" "acc_lib_ok A" "\<not> isArray (eo_salt opts)"
    and "list_all (seed_account L A) as"
    and "encrypt_items (accounts_provider L A) rns password opts (map Some as) = Inr ks"
  shows "mapR (\<lambda>k. pv_decrypt (accounts_provider L A) k password JUndef) ks = Inr as \<and> list_all plain_json ks"
  using assms(6,7)
proof (induction as arbitrary: rns ks)
  case (Cons a as)
  obtain k ks' where k: "ks = k # ks'" "encrypt L A (hd rns) (JBytes (ac_wallet a)) password opts = Inr k"
    "encrypt_items (accounts_provider L A) (tl rns) password opts (map Some as) = Inr ks'"
    using Cons.prems(2) by (auto simp: bindR_Inr_iff accounts_provider_def account_encrypt_def)
  have "seedToAccount L A (JBytes (ac_wallet a)) = Inr a" using Cons.prems(1) by (simp add: seed_account_def)
  then have "decrypt L A k password ns = Inr a" for ns
    using keystore_opens [OF assms(1-4) k(2) assms(5), of ns] by (auto dest!: parse_seed_bytes)
  then have "decryptWithContext L A k password JUndef = Inr a" by (simp add: decryptWithContext_def)
  then show ?case
    using Cons.IH [OF _ k(3)] Cons.prems(1) encrypt_plain [OF assms(1) k(2) assms(5)] k(1)
    by (simp add: accounts_provider_def)
qed simp

text \<open>
  A wallet that was saved under a key of its own is loaded again, with the same password, into an empty
  wallet: the same accounts in the same order.
\<close>

theorem saved_wallet_loads:
  assumes "zod_ok L" and "zod_objects_ok L" and "crypto_ok L" and "acc_lib_ok A"
    and "wallet_ok w" and "list_all (seed_account L A) (wallet_accounts w)"
    and "wallet_save L (accounts_provider L A) rns w password key opts window = (Inr True, window')"
    and "\<not> isArray (eo_salt opts)" and "key \<noteq> Some storage_test"
  shows "\<exists>w'. wallet_load L (accounts_provider L A) window' password key new_wallet = (Inr (), w') \<and>
    wallet_ok w' \<and> wallet_accounts w' = wallet_accounts w"
proof -
  let ?P = "accounts_provider L A" and ?as = "wallet_accounts w"
    and ?key = "case key of Some k \<Rightarrow> k | None \<Rightarrow> default_key"
  obtain st where st: "getStorage window = Some st" using assms(7)
    by (auto simp: wallet_save_def split: option.splits)
  have items: "wa_items w = map Some ?as" using assms(5) wallet_items by (simp add: wallet_ok_def)
  obtain ks where ks: "encrypt_items ?P rns password opts (map Some ?as) = Inr ks"
    using assms(7) unfolding wallet_save_def st wallet_encrypt_def items
    by (cases "encrypt_items ?P rns password opts (map Some ?as)") (simp_all add: Let_def)
  have reopen: "mapR (\<lambda>k. pv_decrypt ?P k password JUndef) ks = Inr ?as" "plain_json (JArr ks)"
    using items_reopen [OF assms(1-4,8,6) ks] by simp_all
  define t where "t = json_written L (JArr ks)"
  have js: "js_json L (JArr ks) = Inr (Some t)" "json_parse L t = Inr (JArr ks)"
    using json_written_reads [OF reopen(2), of L] json_roundtrip [OF reopen(2)] by (auto simp: t_def)
  have "t \<noteq> []" using js(1) by (auto simp: bindR_Inr_iff)
  have w': "window' = Some (st\<lparr>ws_items := AList.update ?key t (ws_items st)\<rparr>)"
    using assms(7) js(1) unfolding wallet_save_def st wallet_encrypt_def items ks
    by (simp add: Let_def del: js_json.simps split: option.splits)
  have "?key \<noteq> storage_test" using assms(9)
    by (auto simp: default_key_def storage_test_def split: option.splits)
  moreover have "AList.update ?key t (ws_items st) \<noteq> []" by (cases "ws_items st") (auto split: prod.splits)
  ultimately obtain st' where st': "getStorage window' = Some st'" "map_of (ws_items st') ?key = Some t"
    using st w' by (auto simp: getStorage_def update_conv delete_conv split: option.splits if_splits)
  have new: "wallet_ok new_wallet" "wallet_accounts new_wallet = []"
    by (simp_all add: new_wallet_def wallet_ok_def index_ok_def wallet_accounts_def)
  have "wallet_load L ?P window' password key new_wallet = (Inr (), fold add_account ?as new_wallet)"
    using st' js(2) \<open>t \<noteq> []\<close> reopen(1)
    by (simp add: wallet_load_def wallet_decrypt_def bindS_def js_truthy_def)
  moreover have "distinct (map account_key (wallet_accounts new_wallet @ ?as))"
    using wallet_distinct [OF assms(5)] new(2) by simp
  ultimately show ?thesis using ws.fold_add [OF new(1)] new(2) by auto
qed

theorem saved_wallet_loads_witness:
  "\<exists>w window a w'. wallet_save lib_ref (accounts_provider lib_ref acc_ref) [sample_randoms] w (JBytes [5]) None
       no_encrypt_opts (Some \<lparr>ws_items = [], ws_refuses = (\<lambda>_ _. None)\<rparr>) = (Inr True, window) \<and>
     wallet_load lib_ref (accounts_provider lib_ref acc_ref) window (JBytes [5]) None new_wallet = (Inr (), w') \<and>
     wallet_accounts w' = [a]"
proof -
  let ?seed = "replicate 51 (9 :: byte)" and ?P = "accounts_provider lib_ref acc_ref"
  have "wl_open acc_ref ?seed = Inr ()" by (simp add: acc_ref_sel tx_ref_def)
  then obtain a where a: "seedToAccount lib_ref acc_ref (JBytes ?seed) = Inr a" "ac_wallet a = ?seed"
    by (rule seedToAccount_bytes [OF lib_ref_zod lib_ref_crypto acc_ref_ok]) auto
  define w where "w = add_account a new_wallet"
  have new: "wallet_ok new_wallet" "wallet_accounts new_wallet = []"
    by (simp_all add: new_wallet_def wallet_ok_def index_ok_def wallet_accounts_def)
  then have w: "wallet_ok w" "wallet_accounts w = [a]"
    using wallet_add_spec [OF new(1), of a] by (simp_all add: w_def spec_add_def)
  have items: "wa_items w = [Some a]" using w wallet_items [of w] by (simp add: wallet_ok_def)
  obtain ks where ks: "encrypt lib_ref acc_ref sample_randoms (JBytes ?seed) (JBytes [5]) no_encrypt_opts =
      Inr (JObj ks)"
    by (rule sample_keystore)
  then have "plain_json (JArr [JObj ks])"
    using encrypt_plain [OF lib_ref_zod ks] by (simp add: no_encrypt_opts_def isArray_def)
  then obtain t where t: "js_json lib_ref (JArr [JObj ks]) = Inr (Some t)"
    using json_written_reads by blast
  have "wallet_encrypt ?P [sample_randoms] (JBytes [5]) no_encrypt_opts w = Inr [JObj ks]"
    using ks a(2) by (simp add: wallet_encrypt_def items accounts_provider_def account_encrypt_def)
  then obtain window where save: "wallet_save lib_ref ?P [sample_randoms] w (JBytes [5]) None no_encrypt_opts
      (Some \<lparr>ws_items = [], ws_refuses = (\<lambda>_ _. None)\<rparr>) = (Inr True, window)"
    using t by (simp add: wallet_save_def getStorage_def del: js_json.simps)
  have "list_all (seed_account lib_ref acc_ref) (wallet_accounts w)" using w(2) a by (simp add: seed_account_def)
  from saved_wallet_loads [OF lib_ref_zod lib_ref_zod_objects lib_ref_crypto acc_ref_ok w(1) this save]
  show ?thesis using save w(2) by (auto simp: no_encrypt_opts_def isArray_def)
qed

end
