(* ===== verification/QrlSchemas.thy ===== *)
theory QrlSchemas
  imports ValSchema "HOL-Library.AList"
begin

text \<open>
  The JSON schemas of the results of the node (\<^verbatim>\<open>schemas.ts\<close> of \<^verbatim>\<open>web3-qrl\<close>), which the formatter reads.
  The \<^verbatim>\<open>enum\<close> lists of the chain and hardfork schemas are not kept: neither the formatter nor the
  validator reads them. A spread of another schema is the schema itself, and a field that follows a
  spread replaces the field of its name in place.
\<close>

section \<open>Shapes of schemas\<close>

definition sf :: "string \<Rightarrow> json_schema" where
  "sf f = JSchema None None (Some f) ReqNone None None None None None"

definition st :: "string \<Rightarrow> json_schema" where
  "st t = JSchema None (Some t) None ReqNone None None None None None"

definition so :: "(string \<times> json_schema) list \<Rightarrow> json_schema" where
  "so ps = JSchema None (Some ''object'') None ReqNone None None None (Some ps) None"

definition sa :: "json_schema \<Rightarrow> json_schema" where
  "sa s = JSchema None (Some ''array'') None ReqNone (Some (ItemOne s)) None None None None"

definition sone :: "json_schema list \<Rightarrow> json_schema" where
  "sone ss = JSchema None None None ReqNone None None None None (Some ss)"

definition props_of :: "json_schema \<Rightarrow> (string \<times> json_schema) list" where
  "props_of s = (case sch_properties s of Some ps \<Rightarrow> ps | None \<Rightarrow> [])"

section \<open>The schemas\<close>

definition accessListItemSchema :: json_schema where
  "accessListItemSchema =
    so [(''address'', sf ''address''), (''storageKeys'', sa (sf ''bytes32''))]"

definition accessListSchema :: json_schema where
  "accessListSchema =
    sa accessListItemSchema"

definition accessListResultSchema :: json_schema where
  "accessListResultSchema =
    so [(''accessList'', accessListSchema), (''gasUsed'', st ''string'')]"

definition chainSchema :: json_schema where
  "chainSchema =
    st ''string''"

definition hardforkSchema :: json_schema where
  "hardforkSchema =
    st ''string''"

definition customChainSchema :: json_schema where
  "customChainSchema =
    so [(''name'', sf ''string''), (''networkId'', sf ''uint''), (''chainId'', sf ''uint'')]"

definition transactionSchema :: json_schema where
  "transactionSchema =
    so [(''from'', sf ''address''), (''to'', sone [sf ''address'', st ''null'']),
      (''value'', sf ''uint''), (''gas'', sf ''uint''), (''effectiveGasPrice'', sf ''uint''),
      (''type'', sf ''uint''), (''maxFeePerGas'', sf ''uint''),
      (''maxPriorityFeePerGas'', sf ''uint''), (''accessList'', accessListSchema),
      (''data'', sf ''bytes''), (''input'', sf ''bytes''), (''nonce'', sf ''uint''),
      (''chain'', chainSchema), (''hardfork'', hardforkSchema), (''chainId'', sf ''uint''),
      (''networkId'', sf ''uint''), (''common'', so [(''customChain'', customChainSchema),
      (''baseChain'', chainSchema), (''hardfork'', hardforkSchema)]), (''gasLimit'', sf ''uint''),
      (''descriptor'', sf ''bytes''), (''extraParams'', sf ''bytes''),
      (''signature'', sf ''bytes''), (''publicKey'', sf ''bytes'')]"

definition transactionInfoSchema :: json_schema where
  "transactionInfoSchema =
    so (fold (\<lambda>(k, s). AList.update k s) [(''blockHash'', sf ''bytes32''),
      (''blockNumber'', sf ''uint''), (''hash'', sf ''bytes32''),
      (''transactionIndex'', sf ''uint''), (''from'', sf ''address''),
      (''to'', sone [sf ''address'', st ''null'']), (''value'', sf ''uint''),
      (''gas'', sf ''uint''), (''effectiveGasPrice'', sf ''uint''), (''type'', sf ''uint''),
      (''maxFeePerGas'', sf ''uint''), (''maxPriorityFeePerGas'', sf ''uint''),
      (''accessList'', accessListSchema), (''data'', sf ''bytes''), (''input'', sf ''bytes''),
      (''nonce'', sf ''uint''), (''gasLimit'', sf ''uint''), (''descriptor'', sf ''bytes''),
      (''extraParams'', sf ''bytes''), (''signature'', sf ''bytes''),
      (''publicKey'', sf ''bytes'')] (props_of transactionSchema))"

definition blockSchema :: json_schema where
  "blockSchema =
    so [(''parentHash'', sf ''bytes32''), (''miner'', sf ''address''),
      (''stateRoot'', sf ''bytes32''), (''transactionsRoot'', sf ''bytes32''),
      (''receiptsRoot'', sf ''bytes32''), (''logsBloom'', sf ''bytes256''),
      (''number'', sf ''uint''), (''gasLimit'', sf ''uint''), (''gasUsed'', sf ''uint''),
      (''timestamp'', sf ''uint''), (''extraData'', sf ''bytes''),
      (''prevRandao'', sf ''bytes32''), (''baseFeePerGas'', sf ''uint''), (''size'', sf ''uint''),
      (''transactions'', sone [sa transactionInfoSchema, sa (sf ''bytes32'')]),
      (''hash'', sf ''bytes32'')]"

definition withdrawalsSchema :: json_schema where
  "withdrawalsSchema =
    so [(''index'', sf ''uint''), (''validatorIndex'', sf ''uint''),
      (''address'', sf ''bytes32''), (''amount'', sf ''uint'')]"

definition blockHeaderSchema :: json_schema where
  "blockHeaderSchema =
    so [(''author'', sf ''bytes32''), (''hash'', sf ''bytes32''),
      (''parentHash'', sf ''bytes32''), (''receiptsRoot'', sf ''bytes32''),
      (''miner'', sf ''bytes''), (''stateRoot'', sf ''bytes32''),
      (''transactionsRoot'', sf ''bytes32''), (''withdrawalsRoot'', sf ''bytes32''),
      (''logsBloom'', sf ''bytes256''), (''number'', sf ''uint''), (''gasLimit'', sf ''uint''),
      (''gasUsed'', sf ''uint''), (''timestamp'', sf ''uint''), (''extraData'', sf ''bytes''),
      (''size'', sf ''uint''), (''baseFeePerGas'', sf ''uint''), (''excessDataGas'', sf ''uint''),
      (''prevRandao'', sf ''bytes32''), (''transactions'', sa (sf ''bytes32'')),
      (''withdrawals'', sa withdrawalsSchema)]"

definition logSchema :: json_schema where
  "logSchema =
    so [(''removed'', sf ''bool''), (''logIndex'', sf ''uint''),
      (''transactionIndex'', sf ''uint''), (''transactionHash'', sf ''bytes32''),
      (''blockHash'', sf ''bytes32''), (''blockNumber'', sf ''uint''),
      (''address'', sf ''address''), (''data'', sf ''bytes''), (''topics'', sa (sf ''bytes64''))]"

definition syncSchema :: json_schema where
  "syncSchema =
    so [(''startingBlock'', sf ''string''), (''currentBlock'', sf ''string''),
      (''highestBlock'', sf ''string''), (''knownStates'', sf ''string''),
      (''pulledStates'', sf ''string'')]"

definition transactionReceiptSchema :: json_schema where
  "transactionReceiptSchema =
    so [(''transactionHash'', sf ''bytes32''), (''transactionIndex'', sf ''uint''),
      (''blockHash'', sf ''bytes32''), (''blockNumber'', sf ''uint''), (''from'', sf ''address''),
      (''to'', sf ''address''), (''cumulativeGasUsed'', sf ''uint''), (''gasUsed'', sf ''uint''),
      (''effectiveGasPrice'', sf ''uint''), (''contractAddress'', sf ''address''),
      (''logs'', sa logSchema), (''logsBloom'', sf ''bytes''), (''root'', sf ''bytes''),
      (''status'', sf ''uint''), (''type'', sf ''uint'')]"

definition SignatureObjectSchema :: json_schema where
  "SignatureObjectSchema =
    so [(''messageHash'', sf ''bytes''), (''message'', sf ''bytes''),
      (''signature'', sf ''bytes'')]"

definition feeHistorySchema :: json_schema where
  "feeHistorySchema =
    so [(''oldestBlock'', sf ''uint''), (''baseFeePerGas'', sa (sf ''uint'')),
      (''reward'', sa (sa (sf ''uint''))), (''gasUsedRatio'', sa (st ''number''))]"

definition storageProofSchema :: json_schema where
  "storageProofSchema =
    so [(''key'', sf ''bytes32''), (''value'', sf ''uint''), (''proof'', sa (sf ''bytes32''))]"

definition accountSchema :: json_schema where
  "accountSchema =
    so [(''balance'', sf ''uint''), (''codeHash'', sf ''bytes32''), (''nonce'', sf ''uint''),
      (''storageHash'', sf ''bytes32''), (''accountProof'', sa (sf ''bytes32'')),
      (''storageProof'', sa storageProofSchema)]"

lemmas schema_shapes = sf_def st_def so_def sa_def sone_def props_of_def

end
