(* ===== verification/Format.thy ===== *)
theory Format
  imports Converters Json QrlSchemas
begin

text \<open>
  \<^verbatim>\<open>web3-utils\<close>: the formatter of results and transactions (\<^verbatim>\<open>formatter.ts\<close>), which converts the
  numbers and bytes of a value to the representation asked for, as far as a JSON schema knows them,
  and the deep merge it copies objects with (\<^verbatim>\<open>objects.ts\<close>).

  The definitions give the value that is returned. The conversion works on a copy of the data and
  deletes and replaces in it; the copy is shallow below an array, where the data of the caller is
  changed too. A deleted element of an array is a hole, read as \<^verbatim>\<open>undefined\<close>. The data are the values
  of a JSON document with numbers, bigints and byte arrays; objects of classes are returned as they
  are.
\<close>

section \<open>Formats\<close>

datatype fmt_number = NUMBER_NUMBER | NUMBER_HEX | NUMBER_STR | NUMBER_BIGINT | NUMBER_OTHER string

datatype fmt_bytes = BYTES_HEX | BYTES_UINT8ARRAY | BYTES_OTHER string

record data_format =
  dnumber :: fmt_number
  dbytes :: fmt_bytes

definition DEFAULT_RETURN_FORMAT :: data_format where
  "DEFAULT_RETURN_FORMAT = \<lparr>dnumber = NUMBER_BIGINT, dbytes = BYTES_HEX\<rparr>"

definition QRL_DATA_FORMAT :: data_format where
  "QRL_DATA_FORMAT = \<lparr>dnumber = NUMBER_HEX, dbytes = BYTES_HEX\<rparr>"

text \<open>\<^verbatim>\<open>isDataFormat\<close>: \<^verbatim>\<open>in\<close> looks at own and inherited names; neither name is inherited.\<close>

definition isDataFormat :: "jsval \<Rightarrow> bool" where
  "isDataFormat v = (case v of
      JObj kvs \<Rightarrow> map_of kvs ''number'' \<noteq> None \<and> map_of kvs ''bytes'' \<noteq> None
    | _ \<Rightarrow> False)"

section \<open>Merging objects\<close>

definition FORBIDDEN_KEYS :: "string list" where
  "FORBIDDEN_KEYS = [''__proto__'', ''constructor'', ''prototype'']"

text \<open>A property read with its inherited value, a function.\<close>

definition read_prop :: "(string \<times> jsval) list \<Rightarrow> string \<Rightarrow> jsval" where
  "read_prop kvs k = (case map_of kvs k of
      Some v \<Rightarrow> v
    | None \<Rightarrow> if k \<in> set objectProtoNames then JFun else JUndef)"

fun merge_fields ::
  "(string \<times> jsval) list \<Rightarrow> (string \<times> jsval) list \<Rightarrow> (string \<times> jsval) list" where
  "merge_fields res [] = res"
| "merge_fields res ((k, v) # src) =
     merge_fields
       (if k \<in> set FORBIDDEN_KEYS then res
        else case v of
            JObj sub \<Rightarrow>
              (let cur = (if js_truthy (read_prop res k) then read_prop res k else JObj []) in
               AList.update k
                 (case cur of JObj d \<Rightarrow> JObj (merge_fields d sub) | _ \<Rightarrow> cur) res)
          | _ \<Rightarrow> if isNullish v then res else AList.update k v res)
       src"

definition mergeDeep :: "jsval \<Rightarrow> (string \<times> jsval) list list \<Rightarrow> jsval" where
  "mergeDeep destination sources = (case destination of
      JObj d \<Rightarrow> JObj (foldl merge_fields d sources)
    | _ \<Rightarrow> destination)"

section \<open>Finding the schema of a path\<close>

definition no_property :: "string \<Rightarrow> js_error" where
  "no_property m = err_class ''TypeError'' (''Cannot read properties of undefined ('' @ m @ '')'')"

definition empty_schema :: json_schema where
  "empty_schema = JSchema None None None ReqNone None None None None None"

text \<open>An inherited name gives a function, which has none of the fields of a schema.\<close>

definition schema_property :: "(string \<times> json_schema) list \<Rightarrow> string \<Rightarrow> json_schema option" where
  "schema_property ps k = (case map_of ps k of
      Some s \<Rightarrow> Some s
    | None \<Rightarrow> if k \<in> set objectProtoNames then Some empty_schema else None)"

definition schema_step :: "json_schema \<Rightarrow> string \<Rightarrow> json_schema option" where
  "schema_step s dataPart = (case sch_properties s of
      Some ps \<Rightarrow> schema_property ps dataPart
    | None \<Rightarrow> (case sch_items s of
        Some (ItemOne it) \<Rightarrow> (case sch_properties it of
            Some ps \<Rightarrow> schema_property ps dataPart
          | None \<Rightarrow> Some it)
      | Some (ItemList its) \<Rightarrow> (case parseInt10 dataPart of
            Some i \<Rightarrow> if 0 \<le> i \<and> i < int (length its) then Some (its ! nat i) else None
          | None \<Rightarrow> None)
      | None \<Rightarrow> None))"

type_synonym one_of_path = "(string \<times> nat) list"

definition choose_oneOf ::
  "one_of_path \<Rightarrow> string option \<Rightarrow> json_schema \<Rightarrow> js_error + json_schema" where
  "choose_oneOf oneOfPath prev s = (case (sch_oneOf s, prev) of
      (Some ss, Some p) \<Rightarrow> (case map_of oneOfPath p of
          Some i \<Rightarrow> if i < length ss then Inr (ss ! i) else Inl (no_property ''properties'')
        | None \<Rightarrow> Inr s)
    | _ \<Rightarrow> Inr s)"

fun find_from ::
  "one_of_path \<Rightarrow> string option \<Rightarrow> string list \<Rightarrow> json_schema \<Rightarrow> js_error + json_schema option" where
  "find_from oneOfPath prev [] s = Inr (Some s)"
| "find_from oneOfPath prev (dataPart # path) s =
     bindR (choose_oneOf oneOfPath prev s) (\<lambda>s.
       if sch_properties s = None \<and> sch_items s = None then Inr None
       else case schema_step s dataPart of
           None \<Rightarrow> if path = [] then Inr None else Inl (no_property ''oneOf'')
         | Some s' \<Rightarrow> find_from oneOfPath (if dataPart \<noteq> [] then Some dataPart else prev) path s')"

definition findSchemaByDataPath ::
  "json_schema \<Rightarrow> string list \<Rightarrow> one_of_path \<Rightarrow> js_error + json_schema option" where
  "findSchemaByDataPath schema dataPath oneOfPath = find_from oneOfPath None dataPath schema"

section \<open>Converting scalars\<close>

definition number_of_big :: "lib \<Rightarrow> int \<Rightarrow> jsval" where
  "number_of_big L i =
     JNum (if \<bar>i\<bar> \<le> MAX_SAFE_INTEGER then NInt i else num_parse L (int_str 10 i))"

definition convert_number :: "lib \<Rightarrow> jsval \<Rightarrow> fmt_number \<Rightarrow> js_error + jsval" where
  "convert_number L v fmt = (case fmt of
      NUMBER_NUMBER \<Rightarrow> map_sum id (number_of_big L) (toBigInt v)
    | NUMBER_HEX \<Rightarrow> bindR (toBigInt v) (\<lambda>i. map_sum id JStr (util_numberToHex L (JBig i) False))
    | NUMBER_STR \<Rightarrow> map_sum id (\<lambda>i. JStr (int_str 10 i)) (toBigInt v)
    | NUMBER_BIGINT \<Rightarrow> map_sum id JBig (toBigInt v)
    | NUMBER_OTHER f \<Rightarrow> Inl (err_class ''FormatterError'' (''Invalid format: '' @ f)))"

definition pad_bytes :: "lib \<Rightarrow> jsval \<Rightarrow> type_size \<Rightarrow> js_error + jsval" where
  "pad_bytes L v sz = (case truthy_size sz of
      None \<Rightarrow> Inr v
    | Some n \<Rightarrow> (case v of
        JStr s \<Rightarrow> map_sum id JStr (util_padLeft L v (nat (n * 2)) ''0'')
      | JBytes bs \<Rightarrow>
          if n < int (length bs) then Inl (err_class ''RangeError'' ''Invalid typed array length'')
          else Inr (JBytes (replicate (nat n - length bs) 0 @ bs))
      | _ \<Rightarrow> Inr JUndef))"

definition convert_bytes :: "lib \<Rightarrow> jsval \<Rightarrow> type_size \<Rightarrow> fmt_bytes \<Rightarrow> js_error + jsval" where
  "convert_bytes L v sz fmt =
     bindR (pad_bytes L v sz) (\<lambda>padded. case fmt of
         BYTES_HEX \<Rightarrow>
           bindR (bytesToUint8Array L padded) (\<lambda>bs. map_sum id JStr (bytesToHex L (JBytes bs)))
       | BYTES_UINT8ARRAY \<Rightarrow> map_sum id JBytes (bytesToUint8Array L padded)
       | BYTES_OTHER f \<Rightarrow> Inl (err_class ''FormatterError'' (''Invalid format: '' @ f)))"

text \<open>
  \<^verbatim>\<open>convertScalarValue\<close>: what cannot be converted is returned as it is. A missing type makes
  \<^verbatim>\<open>parseBaseType\<close> throw, which is caught too.
\<close>

definition convertScalarValue :: "lib \<Rightarrow> jsval \<Rightarrow> string option \<Rightarrow> data_format \<Rightarrow> jsval" where
  "convertScalarValue L v qrlType fmt = (case qrlType of
      None \<Rightarrow> v
    | Some t \<Rightarrow>
        (let info = parseBaseType t in
         if baseType info = Some ''int'' \<or> baseType info = Some ''uint'' then
           (case convert_number L v (dnumber fmt) of Inr r \<Rightarrow> r | Inl _ \<Rightarrow> v)
         else if baseType info = Some ''bytes'' then
           (case convert_bytes L v (baseTypeSize info) (dbytes fmt) of Inr r \<Rightarrow> r | Inl _ \<Rightarrow> v)
         else v))"

section \<open>Converting data\<close>

definition items_type :: "json_schema \<Rightarrow> string option" where
  "items_type s = (case sch_items s of Some (ItemOne it) \<Rightarrow> sch_type it | _ \<Rightarrow> None)"

definition items_list :: "json_schema \<Rightarrow> bool" where
  "items_list s = (case sch_items s of Some (ItemList _) \<Rightarrow> True | _ \<Rightarrow> False)"

text \<open>
  The choice between the alternatives of a schema, by the type of the first element of an array: every
  alternative that fits_size is recorded, the last one is taken.
\<close>

fun pick_oneOf ::
  "bool \<Rightarrow> js_type \<Rightarrow> string \<Rightarrow> nat \<Rightarrow> json_schema list \<Rightarrow> json_schema \<times> one_of_path \<Rightarrow>
   json_schema \<times> one_of_path" where
  "pick_oneOf tuple t key index [] r = r"
| "pick_oneOf tuple t key index (alt # alts) (s, oneOfPath) =
     pick_oneOf tuple t key (Suc index) alts
       (if \<not> tuple \<and>
           (t = TObject \<and> items_type alt = Some ''object'' \<or>
            t = TString \<and> items_type alt \<noteq> Some ''object'')
        then (alt, oneOfPath @ [(key, index)]) else (s, oneOfPath))"

definition array_schema ::
  "json_schema \<Rightarrow> jsval list \<Rightarrow> string \<Rightarrow> one_of_path \<Rightarrow> json_schema \<times> one_of_path" where
  "array_schema s vs key oneOfPath = (case sch_oneOf s of
      None \<Rightarrow> (s, oneOfPath)
    | Some alts \<Rightarrow>
        pick_oneOf (items_list s) (typeof (case vs of [] \<Rightarrow> JUndef | v # _ \<Rightarrow> v)) key 0 alts
          (s, oneOfPath))"

definition array_keys :: "jsval list \<Rightarrow> string list" where
  "array_keys vs = map dec_str [0..<length vs]"

text \<open>A field is kept (\<^const>\<open>Some\<close>) or deleted.\<close>

definition kept_fields :: "(string \<times> jsval) list \<Rightarrow> jsval option list \<Rightarrow> (string \<times> jsval) list" where
  "kept_fields kvs rs =
     concat (map2 (\<lambda>(k, _) r. case r of None \<Rightarrow> [] | Some v \<Rightarrow> [(k, v)]) kvs rs)"

definition holes :: "jsval option list \<Rightarrow> jsval list" where
  "holes rs = map (\<lambda>r. case r of Some v \<Rightarrow> v | None \<Rightarrow> JUndef) rs"

definition convert_tuple ::
  "lib \<Rightarrow> jsval list \<Rightarrow> json_schema list \<Rightarrow> data_format \<Rightarrow> js_error + jsval" where
  "convert_tuple L vs its fmt =
     (if length vs \<le> length its
      then Inr (JArr (map2 (\<lambda>v it. convertScalarValue L v (sch_format it) fmt) vs its))
      else Inl (no_property ''format''))"

lemma size_list_snd: "size_list (size \<circ> snd) kvs \<le> size_list (size_prod (\<lambda>x. 0) size) kvs"
  by (induction kvs) auto

function
  convert :: "lib \<Rightarrow> jsval \<Rightarrow> json_schema \<Rightarrow> string list \<Rightarrow> data_format \<Rightarrow> one_of_path \<Rightarrow>
        js_error + (jsval \<times> one_of_path)"
  and convert_fields :: "lib \<Rightarrow> string list \<Rightarrow> jsval list \<Rightarrow> json_schema \<Rightarrow> string list \<Rightarrow>
        data_format \<Rightarrow> one_of_path \<Rightarrow> js_error + (jsval option list \<times> one_of_path)"
  and convert_field :: "lib \<Rightarrow> string \<Rightarrow> jsval \<Rightarrow> json_schema \<Rightarrow> string list \<Rightarrow>
        data_format \<Rightarrow> one_of_path \<Rightarrow> js_error + (jsval option \<times> one_of_path)"
  and convert_elems :: "lib \<Rightarrow> jsval list \<Rightarrow> json_schema \<Rightarrow> string list \<Rightarrow>
        data_format \<Rightarrow> one_of_path \<Rightarrow> js_error + (jsval list \<times> one_of_path)" where
  "convert L v schema dataPath fmt oneOfPath = (case v of
      JObj kvs \<Rightarrow>
        bindR (convert_fields L (map fst kvs) (map snd kvs) schema dataPath fmt oneOfPath) (\<lambda>(rs, p).
          Inr (JObj (kept_fields kvs rs), p))
    | JArr vs \<Rightarrow>
        bindR (convert_fields L (array_keys vs) vs schema dataPath fmt oneOfPath) (\<lambda>(rs, p).
          Inr (JArr (holes rs), p))
    | _ \<Rightarrow> Inr (convertScalarValue L v (sch_format schema) fmt, oneOfPath))"
| "convert_fields L keys [] schema dataPath fmt oneOfPath = Inr ([], oneOfPath)"
| "convert_fields L keys (v # vs) schema dataPath fmt oneOfPath =
     bindR (convert_field L (hd keys) v schema dataPath fmt oneOfPath) (\<lambda>(r, p).
     bindR (convert_fields L (tl keys) vs schema dataPath fmt p) (\<lambda>(rs, p').
       Inr (r # rs, p')))"
| "convert_field L key v schema dataPath fmt oneOfPath =
     bindR (findSchemaByDataPath schema (dataPath @ [key]) oneOfPath) (\<lambda>found. case found of
         None \<Rightarrow> Inr (None, oneOfPath)
       | Some s \<Rightarrow> (case v of
           JObj kvs \<Rightarrow>
             bindR (convert L v schema (dataPath @ [key]) fmt []) (\<lambda>(r, _). Inr (Some r, oneOfPath))
         | JArr vs \<Rightarrow> (case array_schema s vs key oneOfPath of (s', p) \<Rightarrow> (case sch_items s' of
               None \<Rightarrow> Inr (None, p)
             | Some (ItemOne it) \<Rightarrow>
                 if sch_format it \<noteq> None then
                   Inr (Some (JArr (map (\<lambda>x. convertScalarValue L x (sch_format it) fmt) vs)), p)
                 else if sch_type it = Some ''object'' then
                   bindR (convert_elems L vs schema (dataPath @ [key]) fmt p) (\<lambda>(rs, p').
                     Inr (Some (JArr rs), p'))
                 else Inr (Some (convertScalarValue L v (sch_format s) fmt), p)
             | Some (ItemList its) \<Rightarrow>
                 bindR (convert_tuple L vs its fmt) (\<lambda>r. Inr (Some r, p))))
         | _ \<Rightarrow> Inr (Some (convertScalarValue L v (sch_format s) fmt), oneOfPath)))"
| "convert_elems L [] schema dataPath fmt oneOfPath = Inr ([], oneOfPath)"
| "convert_elems L (v # vs) schema dataPath fmt oneOfPath =
     bindR (convert L v schema dataPath fmt oneOfPath) (\<lambda>(r, p).
     bindR (convert_elems L vs schema dataPath fmt p) (\<lambda>(rs, p').
       Inr ((case v of JObj _ \<Rightarrow> r | JArr _ \<Rightarrow> r | _ \<Rightarrow> v) # rs, p')))"
  by pat_completeness auto
termination
  by (relation "measure (\<lambda>x. case x of
        Inl (Inl (L, v, _)) \<Rightarrow> 2 * size v
      | Inl (Inr (L, ks, vs, _)) \<Rightarrow> 2 * size_list size vs + 1
      | Inr (Inl (L, k, v, _)) \<Rightarrow> 2 * size v + 1
      | Inr (Inr (L, vs, _)) \<Rightarrow> 2 * size_list size vs + 1)")
     (auto simp: le_imp_less_Suc size_list_snd)

declare convert.simps [simp del]

section \<open>The formatter\<close>

definition schema_of_input :: "json_schema + abi_schema list \<Rightarrow> js_error + json_schema" where
  "schema_of_input s = (case s of Inl js \<Rightarrow> Inr js | Inr abis \<Rightarrow> qrlAbiToJsonSchema abis)"

definition format ::
  "lib \<Rightarrow> json_schema + abi_schema list \<Rightarrow> jsval \<Rightarrow> data_format \<Rightarrow> js_error + jsval" where
  "format L schema data returnFormat =
     (let dataToParse = (case data of JObj kvs \<Rightarrow> mergeDeep (JObj []) [kvs] | _ \<Rightarrow> data) in
      bindR (schema_of_input schema) (\<lambda>js.
        if sch_properties js = None \<and> sch_items js = None \<and>
           (sch_format js = None \<or> sch_format js = Some [])
        then Inl (err_class ''FormatterError'' ''Invalid json schema for formatting'')
        else map_sum id fst (convert L dataToParse js [] returnFormat [])))"

end
