(* ===== verification/FormatProps.thy ===== *)
theory FormatProps
  imports Format AccountProps
begin

text \<open>
  The formatter looks schemas up by the path from the root; the reference below descends the schema
  together with the data. The two agree on data that meets no alternatives at an array.
\<close>

section \<open>Copying the data\<close>

text \<open>The deep merge into an empty object drops the missing values and the forbidden names.\<close>

fun pruned :: "jsval \<Rightarrow> jsval" where
  "pruned (JObj kvs) = JObj (concat (map (\<lambda>(k, v).
     if k \<in> set FORBIDDEN_KEYS \<or> isNullish v then [] else [(k, pruned v)]) kvs))"
| "pruned v = v"

text \<open>Objects with no repeated key and no name of the prototype.\<close>

fun own_keys :: "jsval \<Rightarrow> bool" where
  "own_keys (JObj kvs) \<longleftrightarrow>
     distinct (map fst kvs) \<and> list_all (\<lambda>(k, v). k \<notin> set objectProtoNames \<and> own_keys v) kvs"
| "own_keys v \<longleftrightarrow> True"

definition pruned_fields :: "(string \<times> jsval) list \<Rightarrow> (string \<times> jsval) list" where
  "pruned_fields kvs = concat (map (\<lambda>(k, v).
     if k \<in> set FORBIDDEN_KEYS \<or> isNullish v then [] else [(k, pruned v)]) kvs)"

lemma pruned_obj: "pruned (JObj kvs) = JObj (pruned_fields kvs)"
  by (simp add: pruned_fields_def)

declare pruned.simps(1) [simp del]

lemma pruned_fields_simps [simp]:
  "pruned_fields [] = []"
  "pruned_fields ((k, v) # kvs) =
     (if k \<in> set FORBIDDEN_KEYS \<or> isNullish v then [] else [(k, pruned v)]) @ pruned_fields kvs"
  by (simp_all add: pruned_fields_def)

lemma pruned_fields_keys: "fst ` set (pruned_fields kvs) \<subseteq> fst ` set kvs"
  by (force simp: pruned_fields_def split: if_splits)

lemma pruned_fields_distinct: "distinct (map fst kvs) \<Longrightarrow> distinct (map fst (pruned_fields kvs))"
proof (induction kvs)
  case (Cons p kvs)
  then show ?case using pruned_fields_keys [of kvs] by (cases p) auto
qed simp

lemma own_keys_pruned: "own_keys v \<Longrightarrow> own_keys (pruned v)"
proof (induction v rule: own_keys.induct)
  case (1 kvs)
  then show ?case
    by (auto simp: pruned_obj pruned_fields_distinct) (auto simp: list_all_iff pruned_fields_def)
qed simp_all

lemma update_new: "k \<notin> fst ` set res \<Longrightarrow> AList.update k v res = res @ [(k, v)]"
  by (induction res) auto

lemma merge_fields_pruned:
  "own_keys (JObj src) \<Longrightarrow> fst ` set res \<inter> fst ` set src = {} \<Longrightarrow>
   merge_fields res src = res @ pruned_fields src"
proof (induction res src rule: merge_fields.induct)
  case (1 res)
  then show ?case by simp
next
  case (2 res k v src)
  have k: "k \<notin> fst ` set res" "k \<notin> set objectProtoNames" "k \<notin> fst ` set src"
    and own: "own_keys v" "own_keys (JObj src)" using "2.prems" by auto
  then have cur: "read_prop res k = JUndef"
    by (simp add: read_prop_def map_of_eq_None_iff [THEN iffD2])
  have disj: "fst ` set (res @ [(k, w)]) \<inter> fst ` set src = {}"
    "fst ` set res \<inter> fst ` set src = {}" for w
    using "2.prems" k by auto
  define res' where "res' = res @ (if k \<in> set FORBIDDEN_KEYS \<or> isNullish v then [] else [(k, pruned v)])"
  have step: "(if k \<in> set FORBIDDEN_KEYS then res
      else case v of
          JObj sub \<Rightarrow>
            (let cur = (if js_truthy (read_prop res k) then read_prop res k else JObj []) in
             AList.update k (case cur of JObj d \<Rightarrow> JObj (merge_fields d sub) | _ \<Rightarrow> cur) res)
        | _ \<Rightarrow> if isNullish v then res else AList.update k v res) = res'" 
  proof (cases v)
    case (JObj sub)
    have "merge_fields [] sub = pruned_fields sub" if "k \<notin> set FORBIDDEN_KEYS"
      using "2.IH"(1) [OF that JObj, of "JObj []" "[]"] own(1) by (simp add: cur js_truthy_def JObj)
    then show ?thesis using k(1) by (simp add: JObj cur js_truthy_def update_new res'_def pruned_obj)
  qed (use k(1) in \<open>simp_all add: update_new res'_def\<close>)
  have "merge_fields res' src = res' @ pruned_fields src"
    using "2.IH"(2) [unfolded step] own(2) disj by (simp add: res'_def split: if_splits)
  then show ?case unfolding merge_fields.simps step by (simp add: res'_def)
qed

lemma mergeDeep_pruned: "own_keys (JObj kvs) \<Longrightarrow> mergeDeep (JObj []) [kvs] = pruned (JObj kvs)"
  by (simp add: mergeDeep_def merge_fields_pruned pruned_obj del: own_keys.simps)

section \<open>The reference\<close>

definition schema_at :: "json_schema \<Rightarrow> string \<Rightarrow> json_schema option" where
  "schema_at s k =
     (if sch_properties s = None \<and> sch_items s = None then None else schema_step s k)"

fun by_schema :: "lib \<Rightarrow> data_format \<Rightarrow> json_schema \<Rightarrow> jsval \<Rightarrow> jsval option" where
  "by_schema L fmt s (JObj kvs) = Some (JObj (concat (map (\<lambda>(k, v).
     case schema_at s k of
       None \<Rightarrow> []
     | Some s' \<Rightarrow> (case by_schema L fmt s' v of None \<Rightarrow> [] | Some r \<Rightarrow> [(k, r)])) kvs)))"
| "by_schema L fmt s (JArr vs) = (case sch_items s of
     Some (ItemOne it) \<Rightarrow>
       if sch_format it \<noteq> None then
         Some (JArr (map (\<lambda>x. convertScalarValue L x (sch_format it) fmt) vs))
       else if sch_type it = Some ''object'' then
         Some (JArr (map (\<lambda>x. case x of JObj _ \<Rightarrow> the (by_schema L fmt s x) | _ \<Rightarrow> x) vs))
       else Some (convertScalarValue L (JArr vs) (sch_format s) fmt)
   | _ \<Rightarrow> None)"
| "by_schema L fmt s v = Some (convertScalarValue L v (sch_format s) fmt)"

text \<open>
  No array of the data is described by alternatives or by a tuple, and the elements of an array of
  objects are no arrays.
\<close>

definition is_arr :: "jsval \<Rightarrow> bool" where
  "is_arr v = (case v of JArr _ \<Rightarrow> True | _ \<Rightarrow> False)"

lemma not_arr [simp]: "is_arr v \<longleftrightarrow> (\<exists>ys. v = JArr ys)"
  by (cases v) (simp_all add: is_arr_def)

fun plain_arrays :: "json_schema \<Rightarrow> jsval \<Rightarrow> bool" where
  "plain_arrays s (JObj kvs) \<longleftrightarrow> list_all (\<lambda>(k, v).
     case schema_at s k of None \<Rightarrow> True | Some s' \<Rightarrow> plain_arrays s' v) kvs"
| "plain_arrays s (JArr vs) \<longleftrightarrow> sch_oneOf s = None \<and> \<not> items_list s \<and>
     (items_type s = Some ''object'' \<longrightarrow>
        list_all (\<lambda>x. \<not> is_arr x \<and> plain_arrays s x) vs)"
| "plain_arrays s v \<longleftrightarrow> True"

lemma choose_none [simp]: "choose_oneOf [] prev s = Inr s"
  by (simp add: choose_oneOf_def split: option.split)

lemma find_from_snoc:
  "find_from [] prev path sch = Inr (Some s) \<Longrightarrow>
   find_from [] prev (path @ [k]) sch = Inr (schema_at s k)"
proof (induction path arbitrary: prev sch)
  case Nil
  then show ?case by (cases "schema_step s k") (simp_all add: schema_at_def)
next
  case (Cons d path)
  then have none: "\<not> (sch_properties sch = None \<and> sch_items sch = None)"
    by (auto split: if_splits)
  then obtain s' where s': "schema_step sch d = Some s'"
    using Cons.prems by (cases "schema_step sch d") (auto split: if_splits)
  have "find_from [] (if d \<noteq> [] then Some d else prev) path s' = Inr (Some s)"
    using Cons.prems none s' by (simp split: if_splits)
  from Cons.IH [OF this] show ?case using none s' by auto
qed

lemma findSchema_snoc:
  "findSchemaByDataPath sch path [] = Inr (Some s) \<Longrightarrow>
   findSchemaByDataPath sch (path @ [k]) [] = Inr (schema_at s k)"
  by (simp add: findSchemaByDataPath_def find_from_snoc)

lemma convert_by_schema:
  shows "findSchemaByDataPath sch path [] = Inr (Some s) \<Longrightarrow> p = [] \<Longrightarrow> plain_arrays s v \<Longrightarrow>
      (\<exists>kvs. v = JObj kvs) \<Longrightarrow> convert L v sch path fmt p = Inr (the (by_schema L fmt s v), [])"
    and "findSchemaByDataPath sch path [] = Inr (Some s) \<Longrightarrow> p = [] \<Longrightarrow> length keys = length vs \<Longrightarrow>
      list_all (\<lambda>(k, v). case schema_at s k of None \<Rightarrow> True | Some s' \<Rightarrow> plain_arrays s' v) (zip keys vs) \<Longrightarrow>
      convert_fields L keys vs sch path fmt p =
        Inr (map2 (\<lambda>k v. Option.bind (schema_at s k) (\<lambda>s'. by_schema L fmt s' v)) keys vs, [])"
    and "findSchemaByDataPath sch path [] = Inr (Some s) \<Longrightarrow> p = [] \<Longrightarrow>
      (case schema_at s key of None \<Rightarrow> True | Some s' \<Rightarrow> plain_arrays s' v) \<Longrightarrow>
      convert_field L key v sch path fmt p =
        Inr (Option.bind (schema_at s key) (\<lambda>s'. by_schema L fmt s' v), [])"
    and "findSchemaByDataPath sch path [] = Inr (Some s) \<Longrightarrow> p = [] \<Longrightarrow>
      list_all (\<lambda>x. (\<forall>ys. x \<noteq> JArr ys) \<and> plain_arrays s x) vs \<Longrightarrow>
      convert_elems L vs sch path fmt p =
        Inr (map (\<lambda>x. case x of JObj _ \<Rightarrow> the (by_schema L fmt s x) | _ \<Rightarrow> x) vs, [])"
proof (induction L v sch path fmt p and L keys vs sch path fmt p and
    L key v sch path fmt p and L vs sch path fmt p arbitrary: s and s and s and s
    rule: convert_convert_fields_convert_field_convert_elems.induct)
  case (1 L v sch path fmt p)
  then obtain kvs where v: "v = JObj kvs" by blast
  have "convert_fields L (map fst kvs) (map snd kvs) sch path fmt p =
      Inr (map2 (\<lambda>k v. Option.bind (schema_at s k) (\<lambda>s'. by_schema L fmt s' v))
        (map fst kvs) (map snd kvs), [])"
    using "1.prems" by (intro "1.IH"(2) [OF v]) (simp_all add: v zip_map_fst_snd)
  moreover have "kept_fields kvs (map2 (\<lambda>k v. Option.bind (schema_at s k) (\<lambda>s'. by_schema L fmt s' v))
        (map fst kvs) (map snd kvs)) = concat (map (\<lambda>(k, v). case schema_at s k of None \<Rightarrow> []
     | Some s' \<Rightarrow> (case by_schema L fmt s' v of None \<Rightarrow> [] | Some r \<Rightarrow> [(k, r)])) kvs)" for kvs
    by (induction kvs) (auto simp: kept_fields_def split: option.split Option.bind_split)
  ultimately show ?case by (simp add: v convert.simps)
next
  case (2 L keys sch path fmt p)
  then show ?case by simp
next
  case (3 L keys v vs sch path fmt p)
  then show ?case by (cases keys) auto
next
  case (4 L key v sch path fmt p)
  have find: "findSchemaByDataPath sch (path @ [key]) p = Inr (schema_at s key)"
    using findSchema_snoc [OF "4.prems"(1)] "4.prems"(2) by simp
  show ?case
  proof (cases "schema_at s key")
    case None
    then show ?thesis using find "4.prems"(2) by simp
  next
    case (Some s')
    have find': "findSchemaByDataPath sch (path @ [key]) [] = Inr (Some s')"
      using find Some "4.prems"(2) by simp
    have plain: "plain_arrays s' v" using "4.prems"(3) Some by simp
    show ?thesis
    proof (cases v)
      case (JObj kvs)
      with "4.IH"(2) [OF find, of s' kvs] find' plain Some find show ?thesis
        using "4.prems"(2) by simp
    next
      case (JArr vs)
      then have one: "sch_oneOf s' = None" "\<not> items_list s'" using plain by simp_all
      then have arr: "array_schema s' vs key p = (s', p)" by (simp add: array_schema_def)
      show ?thesis
      proof (cases "sch_items s'")
        case None
        then show ?thesis using find Some JArr arr "4.prems"(2) by simp
      next
        case items: (Some it)
        with one obtain i where it: "it = ItemOne i" by (cases it) (simp_all add: items_list_def)
        have "convert_elems L vs sch (path @ [key]) fmt p =
            Inr (map (\<lambda>x. case x of JObj _ \<Rightarrow> the (by_schema L fmt s' x) | _ \<Rightarrow> x) vs, [])"
          if "sch_format i = None" "sch_type i = Some ''object''"
          using that "4.IH"(1) [OF find Some JArr arr [symmetric]] items it find' "4.prems"(2) plain JArr
          by (simp add: items_type_def)
        then show ?thesis using find Some JArr arr items it "4.prems"(2) by simp
      qed
    qed (use find Some "4.prems"(2) in simp_all)
  qed
next
  case (5 L sch path fmt p)
  then show ?case by simp
next
  case (6 L v vs sch path fmt p)
  have v: "\<And>ys. v \<noteq> JArr ys" "plain_arrays s v" using "6.prems"(3) by simp_all
  have "\<exists>r. convert L v sch path fmt p = Inr (r, []) \<and>
      (case v of JObj _ \<Rightarrow> r | JArr _ \<Rightarrow> r | _ \<Rightarrow> v) =
      (case v of JObj _ \<Rightarrow> the (by_schema L fmt s v) | _ \<Rightarrow> v)"
  proof (cases v)
    case (JObj kvs)
    then show ?thesis using "6.IH"(1) [OF "6.prems"(1,2) v(2)] by simp
  qed (use v "6.prems"(2) in \<open>simp_all add: convert.simps\<close>)
  then obtain r where r: "convert L v sch path fmt p = Inr (r, [])"
    "(case v of JObj _ \<Rightarrow> r | JArr _ \<Rightarrow> r | _ \<Rightarrow> v) =
     (case v of JObj _ \<Rightarrow> the (by_schema L fmt s v) | _ \<Rightarrow> v)" by blast
  moreover have "convert_elems L vs sch path fmt [] =
      Inr (map (\<lambda>x. case x of JObj _ \<Rightarrow> the (by_schema L fmt s x) | _ \<Rightarrow> x) vs, [])"
    using "6.IH"(2) [OF r(1) refl "6.prems"(1) refl] "6.prems"(3) by simp
  ultimately show ?case by simp
qed

section \<open>The whole conversion\<close>

lemma format_reference:
  assumes "sch_properties s = Some ps" and "own_keys (JObj kvs)"
    and "plain_arrays s (pruned (JObj kvs))"
  shows "format L (Inl s) (JObj kvs) fmt = Inr (the (by_schema L fmt s (pruned (JObj kvs))))"
proof -
  have "convert L (pruned (JObj kvs)) s [] fmt [] =
      Inr (the (by_schema L fmt s (pruned (JObj kvs))), [])"
    by (rule convert_by_schema(1)) (use assms(3) in \<open>simp_all add: findSchemaByDataPath_def pruned_obj\<close>)
  then show ?thesis
    using assms(1) by (simp add: format_def schema_of_input_def mergeDeep_pruned [OF assms(2)])
qed

text \<open>
  C38: formatting an object gives what the structural descent along the schema gives on a copy of the
  data without missing values: every field the schema knows, converted by its format, and no other.
\<close>

theorem format_by_schema:
  assumes "sch_properties s = Some ps" and "own_keys (JObj kvs)"
    and "plain_arrays s (pruned (JObj kvs))"
  shows "format L (Inl s) (JObj kvs) fmt = Inr (the (by_schema L fmt s (pruned (JObj kvs))))"
  using assms by (rule format_reference)

text \<open>A receipt with a log, a missing field and a field the schema does not know.\<close>

definition sample_receipt :: "(string \<times> jsval) list" where
  "sample_receipt =
     [(''status'', JStr ''0x1''), (''gasUsed'', JStr ''0x5208''), (''root'', JNull),
      (''logsBloom'', JStr ''0x00''), (''unknown'', JBool True),
      (''logs'', JArr [JObj [(''logIndex'', JStr ''0x2''), (''data'', JStr ''0xff''), (''x'', JStr ''y'')]])]"

lemma sample_receipt_ok:
  "own_keys (JObj sample_receipt)"
  "plain_arrays transactionReceiptSchema (pruned (JObj sample_receipt))"
  "sch_properties transactionReceiptSchema \<noteq> None"
  by code_simp+

theorem format_by_schema_witness:
  "format lib_ref (Inl transactionReceiptSchema) (JObj sample_receipt) DEFAULT_RETURN_FORMAT =
     Inr (the (by_schema lib_ref DEFAULT_RETURN_FORMAT transactionReceiptSchema (pruned (JObj sample_receipt))))"
  using format_by_schema [of transactionReceiptSchema _ sample_receipt] sample_receipt_ok by blast

section \<open>Scalars\<close>

definition known_format :: "data_format \<Rightarrow> bool" where
  "known_format fmt \<longleftrightarrow>
     dnumber fmt \<in> set [NUMBER_NUMBER, NUMBER_HEX, NUMBER_STR, NUMBER_BIGINT] \<and>
     dbytes fmt \<in> set [BYTES_HEX, BYTES_UINT8ARRAY]"

text \<open>
  The values a format reads: the numbers it takes are natural and safe, bytes are byte arrays or
  their lower-case text, no longer than the size of the format.
\<close>

definition bytes_of_value :: "jsval \<Rightarrow> bytes option" where
  "bytes_of_value v = (case v of
      JBytes bs \<Rightarrow> Some bs
    | JStr s \<Rightarrow> (let bs = bytes_of_hex (drop 2 s) in
        if s = ''0x'' @ hex_of_bytes bs then Some bs else None)
    | _ \<Rightarrow> None)"

definition readable :: "string option \<Rightarrow> jsval \<Rightarrow> bool" where
  "readable t v = (case t of
      None \<Rightarrow> True
    | Some t \<Rightarrow>
        (let info = parseBaseType t in
         if baseType info = Some ''int'' \<or> baseType info = Some ''uint'' then
           (case toBigInt v of Inr i \<Rightarrow> 0 \<le> i \<and> i \<le> MAX_SAFE_INTEGER | Inl _ \<Rightarrow> False)
         else if baseType info = Some ''bytes'' then
           (case bytes_of_value v of
              Some bs \<Rightarrow> (case truthy_size (baseTypeSize info) of
                  Some n \<Rightarrow> int (length bs) \<le> n | None \<Rightarrow> True)
            | None \<Rightarrow> False)
         else True))"

lemma toBigInt_dec: "0 \<le> i \<Longrightarrow> toBigInt (JStr (int_str 10 i)) = Inr i"
proof -
  assume "0 \<le> i"
  moreover from this have "hex_text (int_str 10 i)"
  proof -
    have "list_all is_hex_char (dec_str (nat i))" "dec_str (nat i) \<noteq> []"
      using dec_text_dec_str [of "nat i"]
      by (fastforce simp: dec_text_def list_all_iff is_digit_of_def split: option.splits)+
    moreover have "\<not> startsWith (dec_str (nat i)) ''-''"
      using dec_text_no_prefix(2) [of "dec_str (nat i)" "CHR ''-''"] dec_text_dec_str [of "nat i"] by simp
    ultimately show ?thesis using \<open>0 \<le> i\<close> by (simp add: hex_text_def int_str_nonneg)
  qed
  ultimately show ?thesis by (simp add: toBigInt_def isHex_def js_BigInt_int_str)
qed

lemma toBigInt_hex: "0 \<le> i \<Longrightarrow> toBigInt (JStr (signed_hex i)) = Inr i"
  using isHexStrict_isHex [OF isHexStrict_signed_hex [of i]] hex_str_hex [of "nat i"]
  by (simp add: toBigInt_def signed_hex_def js_BigInt_def js_BigInt_str_hex)

lemma convert_number_again:
  assumes "toBigInt v = Inr i" and "0 \<le> i" and "i \<le> MAX_SAFE_INTEGER"
    and "f \<in> set [NUMBER_NUMBER, NUMBER_HEX, NUMBER_STR, NUMBER_BIGINT]"
  obtains r where "convert_number L v f = Inr r" and "toBigInt r = Inr i"
  using assms toBigInt_dec [of i] toBigInt_hex [of i] that
  by (auto simp: convert_number_def number_of_big_def toBigInt_def js_BigInt_def)

lemma convert_number_cong: "toBigInt v = toBigInt w \<Longrightarrow> convert_number L v f = convert_number L w f"
  by (simp add: convert_number_def split: fmt_number.split)

lemma bytes_of_hex_text [simp]: "bytes_of_value (JStr (''0x'' @ hex_of_bytes bs)) = Some bs"
  by (simp add: bytes_of_value_def)

lemma bytes_of_bytes [simp]: "bytes_of_value (JBytes bs) = Some bs"
  by (simp add: bytes_of_value_def)

lemma bytes_of_valueE:
  assumes "bytes_of_value v = Some bs"
  obtains "v = JBytes bs" | "v = JStr (''0x'' @ hex_of_bytes bs)"
  using assms by (auto simp: bytes_of_value_def Let_def split: jsval.splits if_splits)

lemma bytes_read:
  assumes "zod_ok L" and "bytes_of_value v = Some bs"
  shows "bytesToUint8Array L v = Inr bs"
  using assms(2)
proof (cases rule: bytes_of_valueE)
  case 1
  with hexToBytes_bytes [OF assms(1), of bs] show ?thesis by (simp add: hexToBytes_def)
next
  case 2
  with hexToBytes_hex [OF assms(1), of bs] show ?thesis
    by (simp add: hexToBytes_def toLowerCase_def lower_char_def char_code_def)
qed

definition padded :: "type_size \<Rightarrow> bytes \<Rightarrow> bytes" where
  "padded sz bs = (case truthy_size sz of
      Some n \<Rightarrow> replicate (nat n - length bs) 0 @ bs | None \<Rightarrow> bs)"

definition fits_size :: "type_size \<Rightarrow> bytes \<Rightarrow> bool" where
  "fits_size sz bs \<longleftrightarrow> (case truthy_size sz of Some n \<Rightarrow> int (length bs) \<le> n | None \<Rightarrow> True)"

lemma padStart_hex_bytes:
  "padStart (2 * n) ''0'' (hex_of_bytes bs) = hex_of_bytes (replicate (n - length bs) 0 @ bs)"
proof -
  have "hex_of_bytes (replicate k 0 @ bs) = replicate (2 * k) (CHR ''0'') @ hex_of_bytes bs" for k
    by (induction k) (simp_all add: hex_of_bytes_def byte_hex_def)
  moreover have "2 * n - length (hex_of_bytes bs) = 2 * (n - length bs)" by simp
  ultimately show ?thesis unfolding padStart_def pad_text_single by (simp del: length_hex_of_bytes)
qed

lemma pad_bytes_value:
  assumes "bytes_of_value v = Some bs" and "fits_size sz bs"
  obtains w where "pad_bytes L v sz = Inr w" and "bytes_of_value w = Some (padded sz bs)"
proof (cases "truthy_size sz")
  case None
  then show ?thesis using assms that by (simp add: pad_bytes_def padded_def)
next
  case (Some n)
  from assms(1) show ?thesis
  proof (cases rule: bytes_of_valueE)
    case 1
    then have "pad_bytes L v sz = Inr (JBytes (padded sz bs))"
      using assms(2) Some by (simp add: pad_bytes_def padded_def fits_size_def)
    then show ?thesis by (rule that) (rule bytes_of_bytes)
  next
    case 2
    have "isHexStrict (JStr (''0x'' @ hex_of_bytes bs))"
      using hex_of_bytes_hex [of bs] by (simp add: isHexStrict_def)
    moreover have "nat (n * 2) = 2 * nat n" by simp
    ultimately have "pad_bytes L v sz = Inr (JStr (''0x'' @ hex_of_bytes (padded sz bs)))"
      using Some by (simp add: 2 pad_bytes_def padded_def util_padLeft_def val_padLeft_def
          startsWith_def padStart_hex_bytes)
    then show ?thesis by (rule that) (rule bytes_of_hex_text)
  qed
qed

definition shown_bytes :: "fmt_bytes \<Rightarrow> bytes \<Rightarrow> jsval" where
  "shown_bytes f bs = (if f = BYTES_UINT8ARRAY then JBytes bs else JStr (''0x'' @ hex_of_bytes bs))"

lemma bytes_of_bytes_value [simp]: "bytes_of_value (shown_bytes f bs) = Some bs"
  by (simp add: shown_bytes_def del: append_Cons append_Nil)

lemma convert_bytes_value:
  assumes "zod_ok L" and "bytes_of_value v = Some bs" and "fits_size sz bs"
    and "f \<in> set [BYTES_HEX, BYTES_UINT8ARRAY]"
  shows "convert_bytes L v sz f = Inr (shown_bytes f (padded sz bs))"
proof -
  obtain w where w: "pad_bytes L v sz = Inr w" "bytes_of_value w = Some (padded sz bs)"
    using pad_bytes_value [OF assms(2,3)] .
  with bytes_read [OF assms(1) w(2)] show ?thesis
    using assms(1,4) by (auto simp: convert_bytes_def shown_bytes_def)
qed

lemma padded_again: "fits_size sz bs \<Longrightarrow> fits_size sz (padded sz bs) \<and> padded sz (padded sz bs) = padded sz bs"
  by (auto simp: fits_size_def padded_def split: option.splits)

text \<open>Reading a converted scalar again loses nothing.\<close>

lemma convert_scalar_again:
  assumes "zod_ok L" and "readable t v" and "known_format f1" and "known_format f2"
  shows "convertScalarValue L (convertScalarValue L v t f1) t f2 = convertScalarValue L v t f2"
proof (cases t)
  case None
  then show ?thesis by (simp add: convertScalarValue_def)
next
  case (Some ty)
  define info where "info = parseBaseType ty"
  consider "baseType info = Some ''int'' \<or> baseType info = Some ''uint''"
    | "baseType info = Some ''bytes''"
    | "baseType info \<noteq> Some ''int''" "baseType info \<noteq> Some ''uint''" "baseType info \<noteq> Some ''bytes''" by blast
  then show ?thesis
  proof cases
    case 1
    then obtain i where i: "toBigInt v = Inr i" "0 \<le> i" "i \<le> MAX_SAFE_INTEGER"
      using assms(2) by (auto simp: readable_def Some info_def [symmetric] Let_def split: sum.splits)
    obtain r where r: "convert_number L v (dnumber f1) = Inr r" "toBigInt r = Inr i"
      using convert_number_again [OF i] assms(3) by (metis known_format_def)
    then have "convert_number L r (dnumber f2) = convert_number L v (dnumber f2)"
      using i by (intro convert_number_cong) simp
    moreover obtain r' where "convert_number L v (dnumber f2) = Inr r'"
      using convert_number_again [OF i] assms(4) by (metis known_format_def)
    ultimately show ?thesis
      using 1 r by (auto simp: convertScalarValue_def Some info_def [symmetric] Let_def)
  next
    case 2
    let ?sz = "baseTypeSize info"
    obtain bs where bs: "bytes_of_value v = Some bs" "fits_size ?sz bs"
      using assms(2) 2 by (auto simp: readable_def Some info_def [symmetric] Let_def fits_size_def split: option.splits)
    have f: "dbytes f1 \<in> set [BYTES_HEX, BYTES_UINT8ARRAY]" "dbytes f2 \<in> set [BYTES_HEX, BYTES_UINT8ARRAY]"
      using assms(3,4) by (simp_all add: known_format_def)
    have "convert_bytes L (shown_bytes (dbytes f1) (padded ?sz bs)) ?sz (dbytes f2) =
        Inr (shown_bytes (dbytes f2) (padded ?sz bs))"
      using convert_bytes_value [OF assms(1) bytes_of_bytes_value _ f(2)] padded_again [OF bs(2)] by metis
    then show ?thesis
      using 2 convert_bytes_value [OF assms(1) bs f(1)] convert_bytes_value [OF assms(1) bs f(2)]
      by (simp add: convertScalarValue_def Some info_def [symmetric] Let_def)
  qed (simp add: convertScalarValue_def Some info_def [symmetric] Let_def)
qed

section \<open>Formatting again\<close>

fun readable_data :: "json_schema \<Rightarrow> jsval \<Rightarrow> bool" where
  "readable_data s (JObj kvs) \<longleftrightarrow> list_all (\<lambda>(k, v).
     case schema_at s k of None \<Rightarrow> True | Some s' \<Rightarrow> readable_data s' v) kvs"
| "readable_data s (JArr vs) \<longleftrightarrow> (case sch_items s of
     Some (ItemOne it) \<Rightarrow>
       if sch_format it \<noteq> None then list_all (readable (sch_format it)) vs
       else if sch_type it = Some ''object'' then
         list_all (\<lambda>x. case x of JObj _ \<Rightarrow> readable_data s x | _ \<Rightarrow> True) vs
       else sch_format s = None
   | _ \<Rightarrow> True)"
| "readable_data s v \<longleftrightarrow> readable (sch_format s) v"

definition is_scalar :: "jsval \<Rightarrow> bool" where
  "is_scalar v \<longleftrightarrow> (\<forall>kvs. v \<noteq> JObj kvs) \<and> (\<forall>vs. v \<noteq> JArr vs)"

lemma scalar_simps [simp]:
  "is_scalar JUndef" "is_scalar JNull" "is_scalar (JBool b')" "is_scalar (JBN i)"
  "is_scalar (JResult rs ns)" "is_scalar (JErr e)" "is_scalar JFun" "is_scalar (JNum n)" "is_scalar (JBig b)" "is_scalar (JStr s)" "is_scalar (JBytes bs)"
  "\<not> is_scalar (JObj kvs)" "\<not> is_scalar (JArr vs)"
  by (simp_all add: is_scalar_def)

lemma convert_number_result: "convert_number L v f = Inr r \<Longrightarrow> is_scalar r \<and> \<not> isNullish r"
  by (cases f) (auto simp: convert_number_def number_of_big_def map_sum_Inr_iff result_simps)

lemma convert_bytes_result: "convert_bytes L v sz f = Inr r \<Longrightarrow> is_scalar r \<and> \<not> isNullish r"
  by (cases f) (auto simp: convert_bytes_def map_sum_Inr_iff result_simps)

lemma convert_scalar_result:
  shows "is_scalar v \<Longrightarrow> is_scalar (convertScalarValue L v t f)"
    and "\<not> isNullish v \<Longrightarrow> \<not> isNullish (convertScalarValue L v t f)"
  by (auto simp: convertScalarValue_def Let_def split: option.splits sum.splits
      dest: convert_number_result convert_bytes_result)

lemma by_schema_scalar:
  "is_scalar v \<Longrightarrow> by_schema L fmt s v = Some (convertScalarValue L v (sch_format s) fmt)"
  "is_scalar v \<Longrightarrow> readable_data s v = readable (sch_format s) v"
  "is_scalar v \<Longrightarrow> plain_arrays s v"
  by (cases v; simp add: is_scalar_def)+

text \<open>What is kept and the shape of the result do not depend on the format.\<close>

lemma by_schema_none: "by_schema L f s v = None \<longleftrightarrow> by_schema L f' s v = None"
  by (cases v) (auto split: option.split schema_items.split)

lemma by_schema_again_scalar:
  "is_scalar v \<Longrightarrow> zod_ok L \<Longrightarrow> known_format f1 \<Longrightarrow> known_format f2 \<Longrightarrow> readable_data s v \<Longrightarrow>
   by_schema L f1 s v = Some r \<Longrightarrow> by_schema L f2 s r = by_schema L f2 s v"
  by (auto simp: by_schema_scalar convert_scalar_result convert_scalar_again)

lemma concat_map_again:
  "(\<And>p. p \<in> set xs \<Longrightarrow> concat (map g (f p)) = g p) \<Longrightarrow>
   concat (map g (concat (map f xs))) = concat (map g xs)"
  by (induction xs) auto

lemma by_schema_again:
  "zod_ok L \<Longrightarrow> known_format f1 \<Longrightarrow> known_format f2 \<Longrightarrow> readable_data s v \<Longrightarrow>
   by_schema L f1 s v = Some r \<Longrightarrow> by_schema L f2 s r = by_schema L f2 s v"
proof (induction L f1 s v arbitrary: r rule: by_schema.induct)
  case (1 L f1 s kvs)
  let ?g = "\<lambda>f (k, v). case schema_at s k of
       None \<Rightarrow> []
     | Some s' \<Rightarrow> (case by_schema L f s' v of None \<Rightarrow> [] | Some r \<Rightarrow> [(k, r)])"
  have "concat (map (?g f2) (?g f1 p)) = ?g f2 p" if p: "p \<in> set kvs" for p
  proof -
    obtain k v where kv: "p = (k, v)" by (cases p)
    show ?thesis
    proof (cases "schema_at s k")
      case None
      then show ?thesis by (simp add: kv)
    next
      case (Some s')
      have "readable_data s' v" using "1.prems"(4) p Some by (auto simp: kv list_all_iff)
      then show ?thesis
        using "1.IH" [OF p kv [symmetric] Some] "1.prems"(1-3) Some by_schema_none [of L f1 s' v f2]
        by (auto simp: kv split: option.splits)
    qed
  qed
  then have "concat (map (?g f2) (concat (map (?g f1) kvs))) = concat (map (?g f2) kvs)"
    by (rule concat_map_again)
  with "1.prems"(5) show ?case by auto
next
  case (2 L f1 s vs)
  show ?case
  proof (cases "sch_items s")
    case None
    then show ?thesis using "2.prems"(5) by simp
  next
    case (Some its)
    then obtain it where it: "its = ItemOne it" using "2.prems"(5) by (cases its) simp_all
    consider t where "sch_format it = Some t"
      | "sch_format it = None" "sch_type it = Some ''object''"
      | "sch_format it = None" "sch_type it \<noteq> Some ''object''" by blast
    then show ?thesis
    proof cases
      case 1
      then show ?thesis
        using "2.prems" Some it by (auto simp: list_all_iff convert_scalar_again)
    next
      case 2
      have "(case (case x of JObj _ \<Rightarrow> the (by_schema L f1 s x) | _ \<Rightarrow> x) of
           JObj _ \<Rightarrow> the (by_schema L f2 s (case x of JObj _ \<Rightarrow> the (by_schema L f1 s x) | _ \<Rightarrow> x))
         | _ \<Rightarrow> (case x of JObj _ \<Rightarrow> the (by_schema L f1 s x) | _ \<Rightarrow> x)) =
         (case x of JObj _ \<Rightarrow> the (by_schema L f2 s x) | _ \<Rightarrow> x)" if x: "x \<in> set vs" for x
      proof (cases x)
        case (JObj kvs)
        have "list_all (\<lambda>x. case x of JObj _ \<Rightarrow> readable_data s x | _ \<Rightarrow> True) vs"
          using 2 "2.prems"(4) Some it by simp
        then have "readable_data s x" using x JObj unfolding list_all_iff by fastforce
        then show ?thesis
          using "2.IH" [OF Some it _ _ x JObj] 2 "2.prems"(1-3) JObj by simp
      qed simp_all
      then show ?thesis using 2 "2.prems"(5) Some it by auto
    next
      case 3
      then show ?thesis using "2.prems" Some it by (auto simp: convertScalarValue_def)
    qed
  qed
qed (auto intro: by_schema_again_scalar simp del: by_schema.simps readable_data.simps)

text \<open>The result of a format can be formatted again: its keys are kept, its arrays are plain.\<close>

fun clean :: "jsval \<Rightarrow> bool" where
  "clean (JObj kvs) \<longleftrightarrow>
     list_all (\<lambda>(k, v). k \<notin> set FORBIDDEN_KEYS \<and> \<not> isNullish v \<and> clean v) kvs"
| "clean v \<longleftrightarrow> True"

lemma pruned_nullish [simp]: "isNullish (pruned v) = isNullish v"
  by (cases v) (simp_all add: pruned.simps(1))

lemma clean_pruned: "clean (pruned v)"
  by (induction v rule: pruned.induct) (auto simp: pruned.simps(1) list_all_iff)

lemma pruned_clean: "clean v \<Longrightarrow> pruned v = v"
proof (induction v rule: clean.induct)
  case (1 kvs)
  then have "\<forall>p \<in> set kvs. (case p of (k, v) \<Rightarrow>
      if k \<in> set FORBIDDEN_KEYS \<or> isNullish v then [] else [(k, pruned v)]) = [p]"
    by (auto simp: list_all_iff)
  then have "concat (map (\<lambda>(k, v).
      if k \<in> set FORBIDDEN_KEYS \<or> isNullish v then [] else [(k, pruned v)]) kvs) = kvs"
    by (induction kvs) auto
  then show ?case by (simp add: pruned.simps(1))
qed simp_all

lemma convert_scalar_or: "convertScalarValue L v t f = v \<or> is_scalar (convertScalarValue L v t f)"
  by (auto simp: convertScalarValue_def Let_def split: option.splits sum.splits
      dest: convert_number_result convert_bytes_result)

lemma by_schema_nullish: "by_schema L f s v = Some r \<Longrightarrow> \<not> isNullish v \<Longrightarrow> \<not> isNullish r"
  by (cases v) (auto simp: convert_scalar_result split: option.splits schema_items.splits if_splits)

definition kept_of :: "lib \<Rightarrow> data_format \<Rightarrow> json_schema \<Rightarrow> (string \<times> jsval) list \<Rightarrow> (string \<times> jsval) list" where
  "kept_of L f s kvs = concat (map (\<lambda>(k, v). case schema_at s k of
       None \<Rightarrow> []
     | Some s' \<Rightarrow> (case by_schema L f s' v of None \<Rightarrow> [] | Some r \<Rightarrow> [(k, r)])) kvs)"

lemma by_schema_obj: "by_schema L f s (JObj kvs) = Some (JObj (kept_of L f s kvs))"
  by (simp add: kept_of_def)

lemma kept_of_Cons:
  "kept_of L f s ((k, v) # kvs) =
     (case Option.bind (schema_at s k) (\<lambda>s'. by_schema L f s' v) of
        None \<Rightarrow> [] | Some r \<Rightarrow> [(k, r)]) @ kept_of L f s kvs"
  by (simp add: kept_of_def split: option.split Option.bind_split)

lemma kept_of_mem:
  "(k, r) \<in> set (kept_of L f s kvs) \<Longrightarrow>
     \<exists>v s'. (k, v) \<in> set kvs \<and> schema_at s k = Some s' \<and> by_schema L f s' v = Some r"
proof (induction kvs)
  case Nil
  then show ?case by (simp add: kept_of_def)
next
  case (Cons p kvs)
  obtain k' v where p: "p = (k', v)" by (cases p)
  show ?case
  proof (cases "(k, r) \<in> set (kept_of L f s kvs)")
    case True
    with Cons.IH show ?thesis by auto
  next
    case False
    with Cons.prems have "k' = k \<and> Option.bind (schema_at s k) (\<lambda>s'. by_schema L f s' v) = Some r"
      by (auto simp: p kept_of_Cons split: option.splits)
    then show ?thesis by (auto simp: p bind_eq_Some_conv)
  qed
qed

lemma kept_of_distinct: "distinct (map fst kvs) \<Longrightarrow> distinct (map fst (kept_of L f s kvs))"
proof (induction kvs)
  case Nil
  then show ?case by (simp add: kept_of_def)
next
  case (Cons p kvs)
  obtain k v where p: "p = (k, v)" by (cases p)
  have "k \<notin> fst ` set (kept_of L f s kvs)"
    using Cons.prems kept_of_mem [of k _ L f s kvs] by (force simp: p)
  with Cons show ?case by (auto simp: p kept_of_Cons split: option.split)
qed

lemma kept_of_all:
  assumes "\<And>k v s' r. (k, v) \<in> set kvs \<Longrightarrow> schema_at s k = Some s' \<Longrightarrow>
    by_schema L f s' v = Some r \<Longrightarrow> P k r"
  shows "list_all (\<lambda>(k, r). P k r) (kept_of L f s kvs)"
  unfolding list_all_iff using assms kept_of_mem by fast

lemma by_schema_arr:
  assumes "by_schema L f s (JArr vs) = Some r"
  shows "is_scalar r \<or> (\<exists>ws. r = JArr ws)"
  using assms convert_scalar_or [of L "JArr vs" "sch_format s" f]
  by (auto split: option.splits schema_items.splits if_splits)

lemma clean_scalar: "is_scalar v \<Longrightarrow> clean v" "is_scalar v \<Longrightarrow> own_keys v"
  by (cases v; simp)+

lemma by_schema_clean: "by_schema L f s v = Some r \<Longrightarrow> clean v \<Longrightarrow> clean r"
proof (induction v arbitrary: s r rule: clean.induct)
  case (1 kvs)
  have "list_all (\<lambda>(k, w). k \<notin> set FORBIDDEN_KEYS \<and> \<not> isNullish w \<and> clean w) (kept_of L f s kvs)"
  proof (rule kept_of_all)
    fix k v s' w
    assume v: "(k, v) \<in> set kvs" "schema_at s k = Some s'" "by_schema L f s' v = Some w"
    then have "k \<notin> set FORBIDDEN_KEYS" "\<not> isNullish v" "clean v"
      using "1.prems"(2) by (auto simp: list_all_iff)
    then show "k \<notin> set FORBIDDEN_KEYS \<and> \<not> isNullish w \<and> clean w"
      using by_schema_nullish [OF v(3)] "1.IH" [OF v(1) refl v(3)] by simp
  qed
  with "1.prems"(1) show ?case by (auto simp: by_schema_obj simp del: by_schema.simps)
next
  case "2_9"
  then show ?case using by_schema_arr by (fastforce simp: clean_scalar simp del: by_schema.simps)
qed (auto simp: by_schema_scalar clean_scalar convert_scalar_result simp del: by_schema.simps)

lemma by_schema_own_keys: "by_schema L f s v = Some r \<Longrightarrow> own_keys v \<Longrightarrow> own_keys r"
proof (induction v arbitrary: s r rule: own_keys.induct)
  case (1 kvs)
  have "list_all (\<lambda>(k, w). k \<notin> set objectProtoNames \<and> own_keys w) (kept_of L f s kvs)"
  proof (rule kept_of_all)
    fix k v s' w
    assume v: "(k, v) \<in> set kvs" "schema_at s k = Some s'" "by_schema L f s' v = Some w"
    then have "k \<notin> set objectProtoNames" "own_keys v" using "1.prems"(2) by (auto simp: list_all_iff)
    then show "k \<notin> set objectProtoNames \<and> own_keys w" using "1.IH" [OF v(1) refl v(3)] by simp
  qed
  with "1.prems" kept_of_distinct [of kvs L f s] show ?case
    by (auto simp: by_schema_obj simp del: by_schema.simps)
next
  case "2_9"
  then show ?case using by_schema_arr by (fastforce simp: clean_scalar simp del: by_schema.simps)
qed (auto simp: by_schema_scalar clean_scalar convert_scalar_result simp del: by_schema.simps)

lemma by_schema_plain: "by_schema L f s v = Some r \<Longrightarrow> plain_arrays s v \<Longrightarrow> plain_arrays s r"
proof (induction s v arbitrary: r rule: plain_arrays.induct)
  case (1 s kvs)
  have "list_all (\<lambda>(k, v). case schema_at s k of None \<Rightarrow> True | Some s' \<Rightarrow> plain_arrays s' v)
      (kept_of L f s kvs)"
  proof (rule kept_of_all)
    fix k v s' w
    assume v: "(k, v) \<in> set kvs" "schema_at s k = Some s'" "by_schema L f s' v = Some w"
    then have "plain_arrays s' v" using "1.prems"(2) by (auto simp: list_all_iff)
    then show "case schema_at s k of None \<Rightarrow> True | Some s' \<Rightarrow> plain_arrays s' w"
      using "1.IH" [OF v(1) refl v(2,3)] v(2) by simp
  qed
  with "1.prems"(1) show ?case by (auto simp: by_schema_obj simp del: by_schema.simps)
next
  case (2 s vs)
  then obtain it where it: "sch_items s = Some (ItemOne it)"
    by (auto split: option.splits schema_items.splits)
  have plain: "(\<forall>ys. x \<noteq> JArr ys) \<and> plain_arrays s x"
    if "x \<in> set vs" "items_type s = Some ''object''" for x
    using that "2.prems"(2) by (auto simp: list_all_iff)
  show ?case
  proof (cases "\<exists>ws. r = JArr ws")
    case False
    then have "is_scalar r" using by_schema_arr [OF "2.prems"(1)] by blast
    then show ?thesis by (rule by_schema_scalar)
  next
    case True
    then obtain ws where ws: "r = JArr ws" ..
    have "(\<forall>ys. w \<noteq> JArr ys) \<and> plain_arrays s w"
      if obj: "items_type s = Some ''object''" and w: "w \<in> set ws" for w
    proof -
      have ty: "sch_type it = Some ''object''" using obj it by (simp add: items_type_def)
      consider (conv) t x where "x \<in> set vs" "w = convertScalarValue L x t f"
        | (el) x where "x \<in> set vs" "w = (case x of JObj _ \<Rightarrow> the (by_schema L f s x) | _ \<Rightarrow> x)"
        using "2.prems"(1) w it ty ws by (auto split: if_splits)
      then show ?thesis
      proof cases
        case conv
        then show ?thesis
          using plain [OF conv(1) obj] convert_scalar_or [of L x t f] by_schema_scalar(3) [of w s]
          by (auto simp: is_scalar_def)
      next
        case (el x)
        show ?thesis
        proof (cases x)
          case (JObj kvs)
          then have "by_schema L f s x = Some w" using el(2) by (simp add: by_schema_obj del: by_schema.simps)
          moreover from this JObj have "\<exists>k. w = JObj k"
            by (auto simp: by_schema_obj simp del: by_schema.simps)
          ultimately show ?thesis
            using "2.IH" [OF obj el(1)] plain [OF el(1) obj] by auto
        qed (use plain [OF el(1) obj] el(2) in simp_all)
      qed
    qed
    then show ?thesis using "2.prems"(2) by (auto simp: ws list_all_iff)
  qed
qed (auto simp: by_schema_scalar convert_scalar_result simp del: by_schema.simps)

text \<open>
  Formatting the result of a format gives what formatting the data itself gives, for data whose
  numbers and bytes the formats read; so no format loses what another one shows.
\<close>

theorem format_again:
  assumes "zod_ok L" and "known_format f1" and "known_format f2"
    and "sch_properties s = Some ps" and "own_keys (JObj kvs)"
    and "plain_arrays s (pruned (JObj kvs))" and "readable_data s (pruned (JObj kvs))"
  shows "\<exists>out. format L (Inl s) (JObj kvs) f1 = Inr (JObj out) \<and>
    format L (Inl s) (JObj out) f2 = format L (Inl s) (JObj kvs) f2"
proof -
  let ?d = "pruned_fields kvs"
  let ?out = "kept_of L f1 s ?d"
  have own: "own_keys (JObj ?d)" using own_keys_pruned [OF assms(5)] by (simp only: pruned_obj)
  have r: "by_schema L f1 s (JObj ?d) = Some (JObj ?out)" by (rule by_schema_obj)
  have clean: "pruned (JObj ?out) = JObj ?out"
    using by_schema_clean [OF r] clean_pruned [of "JObj kvs"] by (intro pruned_clean) (simp only: pruned_obj)
  have "format L (Inl s) (JObj ?out) f2 = Inr (the (by_schema L f2 s (JObj ?out)))"
    using format_reference [OF assms(4), of ?out L f2] clean by_schema_own_keys [OF r own]
      by_schema_plain [OF r] assms(6) by (simp add: pruned_obj del: own_keys.simps by_schema.simps plain_arrays.simps)
  moreover have "by_schema L f2 s (JObj ?out) = by_schema L f2 s (JObj ?d)"
    using by_schema_again [OF assms(1-3) _ r] assms(7) by (simp only: pruned_obj)
  ultimately show ?thesis
    using format_by_schema [OF assms(4-6)] r by (auto simp: pruned_obj simp del: by_schema.simps)
qed

lemma sample_receipt_readable:
  "readable_data transactionReceiptSchema (pruned (JObj sample_receipt))"
  by code_simp

theorem format_again_witness:
  "\<exists>out. format lib_ref (Inl transactionReceiptSchema) (JObj sample_receipt) QRL_DATA_FORMAT = Inr (JObj out) \<and>
     format lib_ref (Inl transactionReceiptSchema) (JObj out) DEFAULT_RETURN_FORMAT =
     format lib_ref (Inl transactionReceiptSchema) (JObj sample_receipt) DEFAULT_RETURN_FORMAT"
  using sample_receipt_ok(3) sample_receipt_readable
  by (auto intro!: format_again sample_receipt_ok lib_ref_zod
      simp: known_format_def QRL_DATA_FORMAT_def DEFAULT_RETURN_FORMAT_def
      simp del: own_keys.simps plain_arrays.simps readable_data.simps)

end
