(* ===== verification/AbiParams.thy ===== *)
theory AbiParams
  imports AbiApi Hash
begin

text \<open>
  \<^verbatim>\<open>web3-qrl-abi\<close>: the contract ABI as the other packages use it, on top of the coder of \<^verbatim>\<open>packages/abi\<close>:
  types given as texts, objects or structs and the adjustment of values (\<^verbatim>\<open>utils.ts\<close>), encoding and
  decoding of parameters (\<^verbatim>\<open>api/parameters_api.ts\<close>), signatures and calls of functions, events and
  errors, logs, and the data of a reverted call (\<^verbatim>\<open>decode_contract_error_data.ts\<close>).

  Parameter and fragment objects are plain objects. The names of components are identifiers, so the
  keys of a result that are numerals are its indices, and none is \<^verbatim>\<open>__length__\<close>.
\<close>

section \<open>Fragments\<close>

definition js_field :: "jsval \<Rightarrow> string \<Rightarrow> jsval" where
  "js_field v k = (case v of JObj kvs \<Rightarrow> obj_get kvs k | _ \<Rightarrow> JUndef)"

definition has_type :: "string list \<Rightarrow> jsval \<Rightarrow> bool" where
  "has_type ts item \<longleftrightarrow> \<not> isNullish item \<and> typeof item = TObject \<and>
     (case js_field item ''type'' of JStr t \<Rightarrow> t \<in> set ts | _ \<Rightarrow> False)"

definition isAbiFragment :: "jsval \<Rightarrow> bool" where
  "isAbiFragment item = has_type [''function'', ''event'', ''constructor'', ''error''] item"

definition isAbiErrorFragment :: "jsval \<Rightarrow> bool" where
  "isAbiErrorFragment item = has_type [''error''] item"

definition isAbiEventFragment :: "jsval \<Rightarrow> bool" where
  "isAbiEventFragment item = has_type [''event''] item"

definition isAbiFunctionFragment :: "jsval \<Rightarrow> bool" where
  "isAbiFunctionFragment item = has_type [''function''] item"

definition isAbiConstructorFragment :: "jsval \<Rightarrow> bool" where
  "isAbiConstructorFragment item = has_type [''constructor''] item"

section \<open>Structs\<close>

definition isSimplifiedStructFormat :: "jsval \<Rightarrow> bool" where
  "isSimplifiedStructFormat type \<longleftrightarrow> typeof type = TObject \<and>
     js_field type ''components'' = JUndef \<and> js_field type ''name'' = JUndef"

definition mapStructNameAndType :: "string \<Rightarrow> (string \<times> jsval) list" where
  "mapStructNameAndType structName =
     (if includes_sub structName ''[]''
      then [(''type'', JStr ''tuple[]''), (''name'', JStr (slice_but_last 2 structName))]
      else [(''type'', JStr ''tuple''), (''name'', JStr structName)])"

text \<open>\<^verbatim>\<open>Object.keys\<close> with the values: an array and a text are objects with index keys.\<close>

definition own_entries :: "jsval \<Rightarrow> js_error + (string \<times> jsval) list" where
  "own_entries v = (case v of
      JObj kvs \<Rightarrow> Inr kvs
    | JArr vs \<Rightarrow> Inr (map (\<lambda>(i, x). (dec_str i, x)) (enumerate 0 vs))
    | JStr s \<Rightarrow> Inr (map (\<lambda>(i, c). (dec_str i, JStr [c])) (enumerate 0 s))
    | JBytes bs \<Rightarrow> Inr (map (\<lambda>(i, b). (dec_str i, JNum (NInt (int (unat b))))) (enumerate 0 bs))
    | JUndef \<Rightarrow> Inl (err_class ''TypeError'' ''Cannot convert undefined or null to object'')
    | JNull \<Rightarrow> Inl (err_class ''TypeError'' ''Cannot convert undefined or null to object'')
    | _ \<Rightarrow> Inr [])"

lemma own_entries_size:
  assumes "own_entries v = Inr kvs" and "(k, w) \<in> set kvs" and "typeof w = TObject"
  shows "size w < size v"
proof (cases v)
  case (JArr vs)
  then obtain i where "i < length vs" "w = vs ! i"
    using assms by (auto simp: own_entries_def enumerate_eq_zip in_set_zip)
  then have "w \<in> set vs" by simp
  then show ?thesis using JArr by (auto simp: size_list_estimation' less_Suc_eq_le)
next
  case (JObj xs)
  then have "(k, w) \<in> set xs" using assms by (simp add: own_entries_def)
  then have "size w \<le> size_list (size_prod (\<lambda>x. 0) size) xs"
    by (rule size_list_estimation') simp
  then show ?thesis using JObj by simp
qed (use assms in \<open>auto simp: own_entries_def typeof_def\<close>)

function mapStructToCoderFormat :: "jsval \<Rightarrow> js_error + jsval list" where
  "mapStructToCoderFormat struct =
     bindR (own_entries struct) (\<lambda>kvs. mapR (\<lambda>(k, item).
       if typeof item = TObject then
         bindR (mapStructToCoderFormat item) (\<lambda>cs.
           Inr (JObj (mapStructNameAndType k @ [(''components'', JArr cs)])))
       else Inr (JObj [(''name'', JStr k), (''type'', item)])) kvs)"
  by pat_completeness auto
termination
  by (relation "measure size") (auto simp: own_entries_size)

declare mapStructToCoderFormat.simps [simp del]

definition mapType :: "jsval \<Rightarrow> js_error + jsval" where
  "mapType type =
     (if type = JNull then Inl (err_class ''TypeError'' ''Cannot read properties of null'')
      else if typeof type = TObject \<and> js_field type ''type'' = JStr ''function''
      then Inl (err_class ''AbiError'' ''ABI function type is not supported for 64-byte QRL addresses.'')
      else if isSimplifiedStructFormat type then
        bindR (own_entries type) (\<lambda>kvs. case kvs of
            [] \<Rightarrow> Inl (err_class ''TypeError'' ''Cannot read properties of undefined'')
          | (structName, struct) # _ \<Rightarrow>
              bindR (mapStructToCoderFormat struct) (\<lambda>cs.
                Inr (JObj (mapStructNameAndType structName @ [(''components'', JArr cs)]))))
      else Inr type)"

definition mapTypes :: "jsval list \<Rightarrow> js_error + jsval list" where
  "mapTypes types = mapR mapType types"

text \<open>What \<^verbatim>\<open>ParamType.from\<close> reads of a type.\<close>

function json_param_of :: "jsval \<Rightarrow> json_param" where
  "json_param_of v =
     JsonParam
       (case js_field v ''name'' of JStr s \<Rightarrow> Some s | _ \<Rightarrow> None)
       (case js_field v ''type'' of JStr s \<Rightarrow> Some s | _ \<Rightarrow> None)
       (if isNullish (js_field v ''indexed'') then None else Some (js_truthy (js_field v ''indexed'')))
       (case js_field v ''components'' of JArr cs \<Rightarrow> Some (map (\<lambda>c. json_param_of c) cs) | _ \<Rightarrow> None)"
  by pat_completeness auto
termination
proof (relation "measure size")
  fix v cs c
  assume c: "js_field v ''components'' = JArr cs" "c \<in> set cs"
  then obtain kvs where v: "v = JObj kvs" by (auto simp: js_field_def split: jsval.splits)
  with c have "(''components'', JArr cs) \<in> set kvs"
    by (auto simp: js_field_def obj_get_def split: option.splits dest: map_of_SomeD)
  then have "size (JArr cs) \<le> size_list (size_prod (\<lambda>x. 0) size) kvs"
    by (rule size_list_estimation') simp
  moreover have "size c \<le> size_list size cs" using c(2) by (rule size_list_estimation') simp
  ultimately show "(c, v) \<in> measure size" by (simp add: v)
qed simp

declare json_param_of.simps [simp del]

definition type_arg_of :: "jsval \<Rightarrow> type_arg" where
  "type_arg_of v = (case v of JStr s \<Rightarrow> TypeText s | _ \<Rightarrow> TypeObject (json_param_of v))"

section \<open>Adjusting values\<close>

text \<open>\<^verbatim>\<open>/^(-)?0x[0-9a-f]*$/i\<close>\<close>

definition isOddHexstring :: "jsval \<Rightarrow> bool" where
  "isOddHexstring param = (case param of
      JStr s \<Rightarrow> odd (length s) \<and>
        (case strip0x (if startsWith s ''-'' then tl s else s) of
           Some h \<Rightarrow> list_all is_hex_char h | None \<Rightarrow> False)
    | _ \<Rightarrow> False)"

definition formatOddHexstrings :: "jsval \<Rightarrow> jsval" where
  "formatOddHexstrings param = (case param of
      JStr s \<Rightarrow> if isOddHexstring param then JStr (''0x0'' @ drop 2 s) else param
    | _ \<Rightarrow> param)"

text \<open>
  The copy of an object by a spread: the properties of \<^verbatim>\<open>null\<close> are none, those of a byte array its
  elements, and the copy is a plain object.
\<close>

definition spread_copy :: "jsval \<Rightarrow> jsval" where
  "spread_copy v = (case v of
      JNull \<Rightarrow> JObj []
    | JBytes bs \<Rightarrow> JObj (map (\<lambda>(i, b). (dec_str i, JNum (NInt (int (unat b))))) (enumerate 0 bs))
    | _ \<Rightarrow> v)"

definition not_a_function :: "string \<Rightarrow> js_error" where
  "not_a_function m = err_class ''TypeError'' (m @ '' is not a function'')"

text \<open>The text of a type before its digits, \<^verbatim>\<open>/^(u?int)([0-9]*)$/\<close> and \<^verbatim>\<open>/^bytes([0-9]*)$/\<close>.\<close>

definition number_type :: "string \<Rightarrow> string option" where
  "number_type t =
     (let s = (if startsWith t ''u'' then tl t else t) in
      if startsWith s ''int'' \<and> list_all is_dec_char (drop 3 s) then Some (drop 3 s) else None)"

definition bytes_type :: "string \<Rightarrow> string option" where
  "bytes_type t =
     (if startsWith t ''bytes'' \<and> list_all is_dec_char (drop 5 t) then Some (drop 5 t) else None)"

text \<open>\<^verbatim>\<open>param.length\<close> compared with a number of bytes; a value without a length gives false.\<close>

definition longer_than :: "nat \<Rightarrow> jsval \<Rightarrow> js_error + bool" where
  "longer_than bits v = (case v of
      JUndef \<Rightarrow> Inl (err_class ''TypeError'' ''Cannot read properties of undefined'')
    | JNull \<Rightarrow> Inl (err_class ''TypeError'' ''Cannot read properties of null'')
    | JStr s \<Rightarrow> Inr (bits < 8 * length s)
    | JObj kvs \<Rightarrow> Inr (case obj_get kvs ''length'' of
        JNum (NInt n) \<Rightarrow> int bits < 8 * n | JBig n \<Rightarrow> int bits < 8 * n | _ \<Rightarrow> False)
    | _ \<Rightarrow> Inr (case js_elems v of Some vs \<Rightarrow> bits < 8 * length vs | None \<Rightarrow> False))"

definition format_number_param :: "lib \<Rightarrow> string \<Rightarrow> jsval \<Rightarrow> js_error + jsval" where
  "format_number_param L ds param =
     (let size = (if ds = [] then 512 else digits_val 10 ds) in
      bindR (longer_than size param) (\<lambda>longer.
        if longer then map_sum id JStr (util_padLeft L param size ''0'') else Inr param))"

definition format_bytes_param :: "lib \<Rightarrow> string \<Rightarrow> jsval \<Rightarrow> js_error + jsval" where
  "format_bytes_param L ds param =
     (let size = (if ds = [] then 0 else digits_val 10 ds) in
      if size = 0 then Inr (formatOddHexstrings param)
      else case param of
          JStr s \<Rightarrow>
            (let maxSize = size * 2 + (if startsWith s ''0x'' then 2 else 0) in
             bindR (if length s < maxSize then padRight L param (size * 2) ''0'' else Inr s)
               (\<lambda>padded. Inr (formatOddHexstrings (JStr padded))))
        | JUndef \<Rightarrow> Inl (err_class ''TypeError'' ''Cannot read properties of undefined'')
        | JNull \<Rightarrow> Inl (err_class ''TypeError'' ''Cannot read properties of null'')
        | _ \<Rightarrow> Inl (not_a_function ''startsWith''))"

definition format_scalar_param :: "lib \<Rightarrow> string \<Rightarrow> jsval \<Rightarrow> js_error + jsval" where
  "format_scalar_param L t param = (case number_type t of
      Some ds \<Rightarrow> format_number_param L ds param
    | None \<Rightarrow> (case bytes_type t of
        Some ds \<Rightarrow> format_bytes_param L ds param
      | None \<Rightarrow> Inr param))"

text \<open>The elements of a spread \<^verbatim>\<open>[...value]\<close>.\<close>

definition iterated :: "jsval \<Rightarrow> js_error + jsval list" where
  "iterated v = (case v of
      JStr s \<Rightarrow> Inr (map (\<lambda>c. JStr [c]) s)
    | _ \<Rightarrow> (case js_elems v of
        Some vs \<Rightarrow> Inr vs | None \<Rightarrow> Inl (err_class ''TypeError'' ''value is not iterable'')))"

definition array_type :: "string \<Rightarrow> string option" where
  "array_type t =
     (if endsWith t ''[]'' \<and>
         (let s = take (length t - 2) t in number_type s \<noteq> None \<or> bytes_type s \<noteq> None)
      then Some (take (length t - 2) t) else None)"

definition formatParam :: "lib \<Rightarrow> string \<Rightarrow> jsval \<Rightarrow> js_error + jsval" where
  "formatParam L type param' =
     (let param = spread_copy param' in
      case array_type type of
        Some t \<Rightarrow>
          bindR (iterated param) (\<lambda>vs.
            map_sum id JArr (mapR (\<lambda>p. format_scalar_param L t (spread_copy p)) vs))
      | None \<Rightarrow> format_scalar_param L type param)"

section \<open>Parameters\<close>

text \<open>
  \<^verbatim>\<open>modifyParams\<close> writes into an array made for the call, so all it does is to fail where adjusting one
  of the values fails: every component but the first is adjusted from \<^verbatim>\<open>undefined\<close>. For an array the
  type loses its first pair of brackets and is read again; a type without one recurs until the stack
  is exhausted. The fuel is the length of the type: every step shortens it.
\<close>

fun modify_coder :: "lib \<Rightarrow> coder \<Rightarrow> jsval \<Rightarrow> js_error + unit"
  and modify_fields :: "lib \<Rightarrow> coder list \<Rightarrow> jsval \<Rightarrow> js_error + unit" where
  "modify_coder L (TupleCoder cs _) v = modify_fields L cs v"
| "modify_coder L c v = Inl (err_class ''TypeError'' ''Cannot read properties of undefined'')"
| "modify_fields L [] v = Inr ()"
| "modify_fields L (c # cs) v =
     bindR (if coder_name c = ''tuple'' then modify_coder L c v
            else map_sum id (\<lambda>_. ()) (formatParam L (coder_name c) v))
       (\<lambda>_. modify_fields L cs JUndef)"

definition stack_error :: js_error where
  "stack_error = err_class ''RangeError'' ''Maximum call stack size exceeded''"

fun modifyParams :: "nat \<Rightarrow> lib \<Rightarrow> coder \<Rightarrow> jsval \<Rightarrow> js_error + unit" where
  "modifyParams 0 L c v = Inl stack_error"
| "modifyParams (Suc n) L c v =
     (if coder_name c = ''array'' then
        (case find_sub ''[]'' (coder_type c) of
           None \<Rightarrow> Inl stack_error
         | Some (a, b) \<Rightarrow> bindR (coder_of_type (TypeText (a @ b))) (\<lambda>c'. modifyParams n L c' v))
      else modify_coder L c v)"

definition abi_error :: "string \<Rightarrow> js_error" where
  "abi_error m = err_class ''AbiError'' m"

definition as_abi_error :: "string \<Rightarrow> js_error + 'a \<Rightarrow> js_error + 'a" where
  "as_abi_error m r = (case r of Inl _ \<Rightarrow> Inl (abi_error m) | Inr v \<Rightarrow> Inr v)"

text \<open>The type a value is adjusted by: only a text and the type of a fragment adjust it.\<close>

definition type_of_item :: "jsval option \<Rightarrow> string option" where
  "type_of_item item = (case item of
      None \<Rightarrow> None
    | Some v \<Rightarrow> (case v of JStr s \<Rightarrow> Some s
        | _ \<Rightarrow> if isAbiFragment v then (case js_field v ''type'' of JStr t \<Rightarrow> Some t | _ \<Rightarrow> None) else None))"

definition modified_param :: "lib \<Rightarrow> jsval option \<Rightarrow> jsval \<Rightarrow> js_error + jsval" where
  "modified_param L item param = (case type_of_item item of
      None \<Rightarrow> Inr (spread_copy param)
    | Some type \<Rightarrow>
        bindR (formatParam L type param) (\<lambda>newParam.
        bindR (if includes_sub type ''tuple'' then
                 bindR (coder_of_type (TypeText type)) (\<lambda>c.
                   modifyParams (Suc (length (coder_type c))) L c newParam)
               else Inr ()) (\<lambda>_. Inr newParam)))"

fun modified_params :: "lib \<Rightarrow> jsval list \<Rightarrow> jsval list \<Rightarrow> js_error + jsval list" where
  "modified_params L types [] = Inr []"
| "modified_params L types (p # ps) =
     bindR (modified_param L (case types of [] \<Rightarrow> None | t # _ \<Rightarrow> Some t) p) (\<lambda>q.
     bindR (modified_params L (tl types) ps) (\<lambda>qs. Inr (q # qs)))"

definition encodeParameters :: "lib \<Rightarrow> jsval list \<Rightarrow> jsval list \<Rightarrow> js_error + string" where
  "encodeParameters L abi params =
     as_abi_error ''Parameter encoding error''
       (bindR (mapTypes abi) (\<lambda>modifiedTypes.
        bindR (modified_params L modifiedTypes params) (\<lambda>modifiedParams.
        bindR (mapR (\<lambda>p. ParamType_from (type_arg_of p) False) modifiedTypes) (\<lambda>ts.
          AbiCoder_encode L (map (\<lambda>t. TypeObject (JsonDone t)) ts) modifiedParams))))"

definition encodeParameter :: "lib \<Rightarrow> jsval \<Rightarrow> jsval \<Rightarrow> js_error + string" where
  "encodeParameter L abi param = encodeParameters L [abi] [param]"

text \<open>The coerce function of the shared coder turns a BigNumber into a bigint.\<close>

definition bigint_coerce :: coerce_func where
  "bigint_coerce name v = Inr (case v of JBN n \<Rightarrow> JBig n | _ \<Rightarrow> v)"

text \<open>\<^verbatim>\<open>Number.isInteger(+key)\<close> on the keys of a result.\<close>

definition integer_key :: "string \<Rightarrow> bool" where
  "integer_key k \<longleftrightarrow> list_all is_dec_char k"

definition isParamRequiredToConvert :: "jsval \<Rightarrow> bool" where
  "isParamRequiredToConvert v = (case v of
      JResult vs ns \<Rightarrow> list_ex (\<lambda>(k, _). \<not> integer_key k) ns | _ \<Rightarrow> False)"

definition result_entries :: "jsval list \<Rightarrow> (string \<times> jsval) list \<Rightarrow> (string \<times> jsval) list" where
  "result_entries vs ns = map (\<lambda>(i, x). (dec_str i, x)) (enumerate 0 vs) @ ns"

lemma result_entries_size:
  assumes "(k, v) \<in> set (result_entries vs ns)"
  shows "size v \<le> size_list size vs + size_list (size_prod (\<lambda>x. 0) size) ns"
proof (cases "(k, v) \<in> set ns")
  case True
  then have "size v \<le> size_list (size_prod (\<lambda>x. 0) size) ns" by (rule size_list_estimation') simp
  then show ?thesis by simp
next
  case False
  then have "v \<in> set vs" using assms by (auto simp: result_entries_def enumerate_eq_zip in_set_zip)
  then have "size v \<le> size_list size vs" by (rule size_list_estimation') simp
  then show ?thesis by simp
qed

text \<open>An entry that is an error is a getter that throws it.\<close>

function formatArrayResToObject :: "jsval list \<Rightarrow> (string \<times> jsval) list \<Rightarrow> js_error + jsval" where
  "formatArrayResToObject vs ns =
     bindR (mapR (\<lambda>(k, v). case v of
         JErr e \<Rightarrow> Inl e
       | JResult us ms \<Rightarrow>
           if isParamRequiredToConvert v
           then map_sum id (\<lambda>u. (k, u)) (formatArrayResToObject us ms) else Inr (k, v)
       | _ \<Rightarrow> Inr (k, v)) (result_entries vs ns)) (\<lambda>kvs.
       Inr (JObj ((''__length__'',
           JNum (NInt (int (length (filter (\<lambda>(k, _). integer_key k) (result_entries vs ns)))))) # kvs)))"
  by pat_completeness auto
termination
  by (relation "measure (\<lambda>(vs, ns). size_list size vs + size_list (size_prod (\<lambda>x. 0) size) ns)")
     (auto dest: result_entries_size)

text \<open>\<^verbatim>\<open>bytes.replace(/0x/i, '')\<close>: the first occurrence of the prefix, wherever it is.\<close>

fun remove_0x :: "string \<Rightarrow> string" where
  "remove_0x [] = []"
| "remove_0x (c # s) =
     (case s of x # t \<Rightarrow> if c = CHR ''0'' \<and> lower_char x = CHR ''x'' then t else c # remove_0x s
      | [] \<Rightarrow> [c])"

definition decodeParametersWith :: "lib \<Rightarrow> jsval list \<Rightarrow> jsval \<Rightarrow> bool \<Rightarrow> js_error + jsval" where
  "decodeParametersWith L abis bytes loose =
     as_abi_error ''Parameter decoding error''
       (if abis \<noteq> [] \<and> (\<not> js_truthy bytes \<or> bytes = JStr ''0x'' \<or> bytes = JStr ''0X'')
        then Inl (abi_error ''Returned values aren't valid, did it run Out of Gas?'')
        else
          bindR (mapTypes abis) (\<lambda>ts.
          bindR (mapR (\<lambda>p. ParamType_from (type_arg_of p) False) ts) (\<lambda>ps.
          bindR (case bytes of JStr s \<Rightarrow> Inr (''0x'' @ remove_0x s)
                 | _ \<Rightarrow> Inl (not_a_function ''replace'')) (\<lambda>data.
          bindR (AbiCoder_decode L (Some bigint_coerce) (map (\<lambda>t. TypeObject (JsonDone t)) ps)
                  (JStr data) loose) (\<lambda>res. case res of
              JResult vs ns \<Rightarrow> formatArrayResToObject vs ns
            | _ \<Rightarrow> Inr res)))))"

definition decodeParameters :: "lib \<Rightarrow> jsval list \<Rightarrow> jsval \<Rightarrow> js_error + jsval" where
  "decodeParameters L abi bytes = decodeParametersWith L abi bytes False"

definition decodeParameter :: "lib \<Rightarrow> jsval \<Rightarrow> jsval \<Rightarrow> js_error + jsval" where
  "decodeParameter L abi bytes =
     map_sum id (\<lambda>r. js_field r ''0'') (decodeParameters L [abi] bytes)"

section \<open>Signatures\<close>

definition element_texts :: "jsval list \<Rightarrow> string list" where
  "element_texts vs = map (\<lambda>v. case v of JStr s \<Rightarrow> s | _ \<Rightarrow> []) vs"

definition bracket_suffix :: "string \<Rightarrow> string" where
  "bracket_suffix t = dropWhile (\<lambda>c. c \<noteq> CHR ''['') t"

text \<open>
  \<^verbatim>\<open>flattenTypes\<close>: a type that is missing is written as nothing by \<^verbatim>\<open>join\<close>.
\<close>

function flattenTypes :: "bool \<Rightarrow> jsval \<Rightarrow> js_error + string list" where
  "flattenTypes includeTuple puts = (case puts of
      JArr ps \<Rightarrow> mapR (\<lambda>param.
        if isNullish param then Inl (err_class ''TypeError'' ''Cannot read properties of undefined'')
        else if typeof (js_field param ''components'') = TObject then
          (case js_field param ''type'' of
             JStr t \<Rightarrow>
               if \<not> startsWith t ''tuple''
               then Inl (abi_error ''components found but type is not tuple.'')
               else bindR (flattenTypes includeTuple (js_field param ''components'')) (\<lambda>result.
                 Inr ((if includeTuple then ''tuple'' else []) @ ''('' @ join_with '','' result @ '')'' @
                   bracket_suffix t))
           | _ \<Rightarrow> Inl (not_a_function ''startsWith''))
        else Inr (case js_field param ''type'' of JStr t \<Rightarrow> t | _ \<Rightarrow> [])) ps
    | _ \<Rightarrow> Inl (not_a_function ''forEach''))"
  by pat_completeness auto
termination
proof (relation "measure (\<lambda>(b, v). size v)")
  fix includeTuple puts ps param t
  assume a: "puts = JArr ps" "param \<in> set ps" "typeof (js_field param ''components'') = TObject"
  have "size (js_field param ''components'') \<le> size param"
  proof (cases "\<exists>kvs c. param = JObj kvs \<and> map_of kvs ''components'' = Some c")
    case True
    then obtain kvs c where k: "param = JObj kvs" "map_of kvs ''components'' = Some c" by blast
    then have "(''components'', c) \<in> set kvs" by (auto dest: map_of_SomeD)
    then have "size c \<le> size_list (size_prod (\<lambda>x. 0) size) kvs" by (rule size_list_estimation') simp
    then show ?thesis using k by (simp add: js_field_def obj_get_def)
  next
    case False
    then have "js_field param ''components'' = JUndef"
      by (auto simp: js_field_def obj_get_def split: jsval.split option.split)
    with a(3) show ?thesis by (simp add: typeof_def)
  qed
  moreover have "size param \<le> size_list size ps" using a(2) by (rule size_list_estimation') simp
  ultimately show "((includeTuple, js_field param ''components''), (includeTuple, puts)) \<in>
      measure (\<lambda>(b, v). size v)"
    using a(1) by simp
qed simp

declare flattenTypes.simps [simp del] formatArrayResToObject.simps [simp del]

text \<open>\<^verbatim>\<open>value ?? default\<close>\<close>

definition or_nullish :: "jsval \<Rightarrow> jsval \<Rightarrow> jsval" where
  "or_nullish v d = (if isNullish v then d else v)"

definition jsonInterfaceMethodToString :: "jsval \<Rightarrow> js_error + string" where
  "jsonInterfaceMethodToString json =
     (let args = bindR (flattenTypes False (or_nullish (js_field json ''inputs'') (JArr []))) (\<lambda>ts.
            Inr (''('' @ join_with '','' ts @ '')'')) in
      if isAbiErrorFragment json \<or> isAbiEventFragment json \<or> isAbiFunctionFragment json then
        (case js_field json ''name'' of
           JStr n \<Rightarrow> if includes_sub n ''('' then Inr n else map_sum id (\<lambda>a. n @ a) args
         | v \<Rightarrow> if isNullish v then args else Inl (not_a_function ''includes''))
      else args)"

definition signature_of :: "lib \<Rightarrow> (jsval \<Rightarrow> bool) \<Rightarrow> jsval \<Rightarrow> js_error + string" where
  "signature_of L accepted functionName = (case functionName of
      JStr name \<Rightarrow> sha3Raw L (JStr name)
    | _ \<Rightarrow>
        if \<not> accepted functionName then Inl (abi_error ''Invalid parameter value'')
        else bindR (jsonInterfaceMethodToString functionName) (\<lambda>name. sha3Raw L (JStr name)))"

definition encodeErrorSignature :: "lib \<Rightarrow> jsval \<Rightarrow> js_error + string" where
  "encodeErrorSignature L functionName = signature_of L isAbiErrorFragment functionName"

definition encodeEventSignature :: "lib \<Rightarrow> jsval \<Rightarrow> js_error + string" where
  "encodeEventSignature L functionName = signature_of L isAbiEventFragment functionName"

definition encodeFunctionSignature :: "lib \<Rightarrow> jsval \<Rightarrow> js_error + string" where
  "encodeFunctionSignature L functionName =
     map_sum id (take 10) (signature_of L isAbiFunctionFragment functionName)"

text \<open>\<^verbatim>\<open>encodeParameters(value ?? [], \<dots>)\<close>: a value that is no array is one type.\<close>

definition types_of_inputs :: "jsval \<Rightarrow> jsval list" where
  "types_of_inputs v = (case or_nullish v (JArr []) of JArr vs \<Rightarrow> vs | w \<Rightarrow> [w])"

definition encodeFunctionCall :: "lib \<Rightarrow> jsval \<Rightarrow> jsval list option \<Rightarrow> js_error + string" where
  "encodeFunctionCall L jsonInterface params =
     (if \<not> isAbiFunctionFragment jsonInterface then Inl (abi_error ''Invalid parameter value in encodeFunctionCall'')
      else
        bindR (encodeFunctionSignature L jsonInterface) (\<lambda>sig.
        bindR (encodeParameters L (types_of_inputs (js_field jsonInterface ''inputs''))
                (case params of Some ps \<Rightarrow> ps | None \<Rightarrow> [])) (\<lambda>args.
          Inr (sig @ (case find_sub ''0x'' args of Some (a, b) \<Rightarrow> a @ b | None \<Rightarrow> args)))))"

section \<open>Logs\<close>

definition isIndexedHash :: "string \<Rightarrow> bool" where
  "isIndexedHash inputType \<longleftrightarrow>
     inputType \<in> set [''string'', ''bytes'', ''function'', ''tuple''] \<or>
     (inputType \<noteq> [] \<and> last inputType = CHR '']'' \<and>
      (let r = dropWhile is_dec_char (tl (rev inputType)) in r \<noteq> [] \<and> hd r = CHR ''[''))"

text \<open>The topic at an index that may be out of range, on either side.\<close>

definition topic_at :: "jsval list \<Rightarrow> int \<Rightarrow> jsval" where
  "topic_at topics i = (if 0 \<le> i \<and> i < int (length topics) then topics ! nat i else JUndef)"

definition indexed_value :: "lib \<Rightarrow> jsval list \<Rightarrow> int \<Rightarrow> jsval \<Rightarrow> js_error + jsval" where
  "indexed_value L topics i input = (case js_field input ''type'' of
      JStr t \<Rightarrow>
        if isIndexedHash t then
          (case topic_at topics i of
             JStr s \<Rightarrow> Inr (JStr (take 66 s))
           | _ \<Rightarrow> Inl (err_class ''TypeError'' ''Cannot read properties of undefined''))
        else decodeParameter L (JStr t) (topic_at topics i)
    | v \<Rightarrow> decodeParameter L v (topic_at topics i))"

fun indexed_values :: "lib \<Rightarrow> jsval list \<Rightarrow> int \<Rightarrow> jsval list \<Rightarrow> js_error + jsval list" where
  "indexed_values L topics i [] = Inr []"
| "indexed_values L topics i (x # xs) =
     bindR (indexed_value L topics i x) (\<lambda>v.
     bindR (indexed_values L topics (i + 1) xs) (\<lambda>vs. Inr (v # vs)))"

definition is_indexed :: "jsval \<Rightarrow> bool" where
  "is_indexed input = js_truthy (js_field input ''indexed'')"

text \<open>
  The last loop: each input takes the next indexed or the next decoded value, under its position and,
  when it has one, its name; a count of the inputs is kept in \<^verbatim>\<open>__length__\<close>.
\<close>

definition log_entry ::
  "nat \<Rightarrow> jsval \<Rightarrow> jsval \<Rightarrow> (string \<times> jsval) list \<Rightarrow> (string \<times> jsval) list" where
  "log_entry i input v res =
     (let res1 = AList.update (dec_str i) v res;
          res2 = (case js_field input ''name'' of
              JStr n \<Rightarrow> if n \<noteq> [] then AList.update n v res1 else res1 | _ \<Rightarrow> res1) in
      AList.update ''__length__'' (JNum (NInt (int i + 1))) res2)"

fun log_values ::
  "nat \<Rightarrow> nat \<Rightarrow> jsval list \<Rightarrow> jsval \<Rightarrow> jsval list \<Rightarrow> (string \<times> jsval) list \<Rightarrow> (string \<times> jsval) list" where
  "log_values i plain [] decoded idx res = res"
| "log_values i plain (input # inputs) decoded idx res =
     (if is_indexed input
      then log_values (Suc i) plain inputs decoded (tl idx)
        (log_entry i input (case idx of w # _ \<Rightarrow> w | [] \<Rightarrow> JUndef) res)
      else log_values (Suc i) (Suc plain) inputs decoded idx
        (log_entry i input (js_field decoded (dec_str plain)) res))"

definition decodeLog ::
  "lib \<Rightarrow> jsval list \<Rightarrow> jsval \<Rightarrow> jsval \<Rightarrow> js_error + jsval" where
  "decodeLog L inputs data topics =
     (let clonedTopics = (case topics of JArr ts \<Rightarrow> ts | t \<Rightarrow> [t]);
          indexedInputs = filter is_indexed inputs;
          nonIndexedInputs = filter (\<lambda>x. \<not> is_indexed x) inputs;
          offset = int (length clonedTopics) - int (length indexedInputs) in
      bindR (if js_truthy data then decodeParametersWith L nonIndexedInputs data True
             else Inr (JObj [(''__length__'', JNum (NInt 0))])) (\<lambda>decoded.
      bindR (indexed_values L clonedTopics offset indexedInputs) (\<lambda>idx.
        Inr (JObj (log_values 0 0 inputs decoded idx [(''__length__'', JNum (NInt 0))])))))"

section \<open>The data of a reverted call\<close>

record error_properties =
  ep_errorName :: jsval
  ep_errorSignature :: "string option"
  ep_errorArgs :: "jsval option"

fun find_error :: "lib \<Rightarrow> string \<Rightarrow> jsval list \<Rightarrow> js_error + jsval option" where
  "find_error L errorSha [] = Inr None"
| "find_error L errorSha (a # as) =
     bindR (encodeErrorSignature L a) (\<lambda>s.
       if startsWith s errorSha then Inr (Some a) else find_error L errorSha as)"

text \<open>
  What \<^verbatim>\<open>setDecodedProperties\<close> is called with, if it is. Every exception is caught and logged; the name
  is known as soon as the error is found, the signature and the arguments only when they could be
  computed.
\<close>

definition decodeContractErrorData ::
  "lib \<Rightarrow> jsval list \<Rightarrow> jsval \<Rightarrow> error_properties option" where
  "decodeContractErrorData L errorsAbi data = (case data of
      JStr s \<Rightarrow>
        if s = [] then None
        else (case find_error L (take 10 s) errorsAbi of
            Inr (Some errorAbi) \<Rightarrow>
              if \<not> js_truthy (js_field errorAbi ''inputs'') \<or> \<not> js_truthy (js_field errorAbi ''name'')
              then None
              else Some (case jsonInterfaceMethodToString errorAbi of
                  Inl _ \<Rightarrow> \<lparr>ep_errorName = js_field errorAbi ''name'', ep_errorSignature = None,
                             ep_errorArgs = None\<rparr>
                | Inr sig \<Rightarrow> \<lparr>ep_errorName = js_field errorAbi ''name'', ep_errorSignature = Some sig,
                    ep_errorArgs = (case bindR (iterated (js_field errorAbi ''inputs'')) (\<lambda>ins.
                        decodeParameters L ins (JStr (drop 10 s))) of Inr r \<Rightarrow> Some r | Inl _ \<Rightarrow> None)\<rparr>)
          | _ \<Rightarrow> None)
    | _ \<Rightarrow> None)"

end
