(* ===== verification/AbiParamsProps.thy ===== *)
theory AbiParamsProps
  imports AbiParams AbiSafety
begin

text \<open>
  Parameters: decoding with the coerce function of the package is decoding without one, with every
  number a bigint, so what is encoded is decoded; calls are the selector and the encoded arguments.
\<close>

section \<open>Decoding to bigints\<close>

fun bigs :: "jsval \<Rightarrow> jsval" where
  "bigs (JNum (NInt i)) = JBig i"
| "bigs (JBN i) = JBig i"
| "bigs (JResult vs ns) = JResult (map (\<lambda>v. bigs v) vs) (map (\<lambda>(k, v). (k, bigs v)) ns)"
| "bigs v = v"

lemma bigs_nullish [simp]: "isNullish (bigs v) = isNullish v"
  by (cases v rule: bigs.cases) (simp_all add: isNullish_def)

lemma bigs_error [simp]: "bigs v = JErr e \<longleftrightarrow> v = JErr e"
  by (cases v rule: bigs.cases) simp_all

lemma bigs_undef: "bigs JUndef = JUndef"
  by simp

lemma bigs_coerced [simp]: "bigint_coerce name (bigs v) = Inr (bigs v)"
  by (cases v rule: bigs.cases) (simp_all add: bigint_coerce_def)

definition with_cf :: "reader \<Rightarrow> reader" where
  "with_cf r = r\<lparr>rd_coerceFunc := Some bigint_coerce\<rparr>"

lemma with_cf_sel [simp]:
  "rd_wordSize (with_cf r) = rd_wordSize r" "rd_data (with_cf r) = rd_data r"
  "rd_offset (with_cf r) = rd_offset r" "rd_allowLoose (with_cf r) = rd_allowLoose r"
  "rd_coerceFunc (with_cf r) = Some bigint_coerce"
  by (simp_all add: with_cf_def)

definition tracks :: "('a \<Rightarrow> 'b) \<Rightarrow> (reader, 'e, 'a) action \<Rightarrow> (reader, 'e, 'b) action \<Rightarrow> bool" where
  "tracks f m m' \<longleftrightarrow> (\<forall>r. rd_coerceFunc r = None \<longrightarrow>
     m' (with_cf r) = (map_sum id f (fst (m r)), with_cf (snd (m r))) \<and>
     rd_coerceFunc (snd (m r)) = None)"

lemma tracks_bind:
  assumes "tracks f m m'" and "\<And>v r. fst (m r) = Inr v \<Longrightarrow> tracks g (k v) (k' (f v))"
  shows "tracks g (bindS m k) (bindS m' k')"
  unfolding tracks_def
proof (intro allI impI)
  fix r :: reader
  assume r: "rd_coerceFunc r = None"
  obtain res r1 where m: "m r = (res, r1)" by (cases "m r")
  with assms(1) r have m': "m' (with_cf r) = (map_sum id f res, with_cf r1)" "rd_coerceFunc r1 = None"
    unfolding tracks_def by (metis fst_conv snd_conv)+
  show "bindS m' k' (with_cf r) = (map_sum id g (fst (bindS m k r)), with_cf (snd (bindS m k r))) \<and>
      rd_coerceFunc (snd (bindS m k r)) = None"
  proof (cases res)
    case (Inl e)
    then show ?thesis using m m' by (simp add: bindS_def)
  next
    case (Inr v)
    with m assms(2) [of r v] have "tracks g (k v) (k' (f v))" by simp
    then show ?thesis using m m' Inr by (simp add: bindS_def tracks_def)
  qed
qed

lemma tracks_lift: "x' = map_sum id f x \<Longrightarrow> tracks f (liftS x) (liftS x')"
  by (simp add: tracks_def liftS_def)

lemma tracks_return: "tracks f (returnS v) (returnS (f v))"
  by (simp add: tracks_def returnS_def)

lemma tracks_look:
  assumes "\<And>r. tracks f (m r) (m' (with_cf r))"
  shows "tracks f (\<lambda>r. m r r) (\<lambda>r. m' r r)"
  using assms by (simp add: tracks_def)

lemma map_sum_id [simp]: "map_sum id id x = x" "map_sum id (\<lambda>x. x) x = x"
  by (cases x; simp)+

lemma tracks_readBytes: "tracks id (readBytes n loose) (readBytes n loose)"
  by (auto simp: tracks_def readBytes_def bindS_def peekBytes_def Let_def with_cf_def)

lemma tracks_readValue: "tracks id (readValue L) (readValue L)"
proof -
  have "tracks id (bindS (readBytes w False) (\<lambda>bs. liftS (big_from L (JBytes bs))))
      (bindS (readBytes w False) (\<lambda>bs. liftS (big_from L (JBytes bs))))" for w
    by (rule tracks_bind [OF tracks_readBytes]) (simp add: tracks_lift)
  then show ?thesis by (simp add: tracks_def readValue_def)
qed

lemma tracks_readNumber: "tracks id (readNumber L) (readNumber L)"
  unfolding readNumber_def by (rule tracks_bind [OF tracks_readValue]) (simp add: tracks_lift)

lemma subReader_with_cf: "subReader (with_cf r) off = with_cf (subReader r off)"
  by (simp add: subReader_def new_reader_def with_cf_def)

lemma subReader_cf [simp]: "rd_coerceFunc (subReader r off) = rd_coerceFunc r"
  by (simp add: subReader_def new_reader_def)

lemma tracks_coerce:
  assumes "int_name_bits name = None"
  shows "tracks bigs (coerce L name v) (coerce L name (bigs v))"
  using assms by (simp add: tracks_def coerce_def default_coerce_def)

lemma keep_error_bigs: "keep_error c (map_sum id bigs res) = map_sum id bigs (keep_error c res)"
  by (cases res) (simp_all add: keep_error_def)

lemma tracks_unpack_one:
  assumes "tracks bigs (dec c) (dec c)" and "rd_coerceFunc b = None"
  shows "tracks bigs (unpack_one L dec b c) (unpack_one L dec (with_cf b) c)"
proof (cases "dynamic c")
  case True
  have "tracks bigs (\<lambda>r. (keep_error c (fst (dec c (subReader b offset))), r))
     (\<lambda>r. (keep_error c (fst (dec c (subReader (with_cf b) (id offset)))), r))" for offset
    using assms by (simp add: tracks_def subReader_with_cf keep_error_bigs)
  then show ?thesis
    unfolding unpack_one_def using True by (simp, intro tracks_bind [OF tracks_readNumber])
next
  case False
  with assms show ?thesis
    by (auto simp: unpack_one_def tracks_def case_prod_beta keep_error_bigs)
qed

lemma tracks_unpack_loop:
  assumes "\<And>c. c \<in> set cs \<Longrightarrow> tracks bigs (dec c) (dec c)" and "rd_coerceFunc b = None"
  shows "tracks (map bigs) (unpack_loop L dec b cs) (unpack_loop L dec (with_cf b) cs)"
  using assms(1)
proof (induction cs)
  case Nil
  then show ?case by (simp add: tracks_def)
next
  case (Cons c cs)
  have "tracks (map bigs)
     (bindS (unpack_one L dec b c) (\<lambda>v. bindS (unpack_loop L dec b cs) (\<lambda>vs.
       returnS (if isNullish v then vs else v # vs))))
     (bindS (unpack_one L dec (with_cf b) c) (\<lambda>v. bindS (unpack_loop L dec (with_cf b) cs) (\<lambda>vs.
       returnS (if isNullish v then vs else v # vs))))"
  proof (rule tracks_bind)
    show "tracks bigs (unpack_one L dec b c) (unpack_one L dec (with_cf b) c)"
      using Cons.prems assms(2) by (intro tracks_unpack_one) simp_all
    show "tracks (map bigs) (bindS (unpack_loop L dec b cs) (\<lambda>vs. returnS (if isNullish v then vs else v # vs)))
       (bindS (unpack_loop L dec (with_cf b) cs) (\<lambda>vs. returnS (if isNullish (bigs v) then vs else bigs v # vs)))" for v
    proof (rule tracks_bind)
      show "tracks (map bigs) (unpack_loop L dec b cs) (unpack_loop L dec (with_cf b) cs)"
        using Cons by simp
      show "tracks (map bigs) (returnS (if isNullish v then vs else v # vs))
        (returnS (if isNullish (bigs v) then map bigs vs else bigs v # map bigs vs))" for vs
        using tracks_return [of "map bigs" "if isNullish v then vs else v # vs"] by (simp split: if_splits)
    qed
  qed
  then show ?case by (simp add: tracks_def)
qed

lemma named_props_step:
  assumes "unique_name all (name_text c)"
    and "v = (if i < length vals then vals ! i else JUndef)" and "nm = property_name (name_text c)"
    and "blocked = (nm \<in> set arrayProtoNames \<or> nm \<in> set (map dec_str [0..<length vals]))"
  shows "named_props all vals i (c # cs) ns =
     (case map_of ns nm of
        None \<Rightarrow> if blocked then named_props all vals (Suc i) cs ns
          else named_props all vals (Suc i) cs (AList.update nm v ns)
      | Some u \<Rightarrow> (case u of JErr e \<Rightarrow> Inl e
        | _ \<Rightarrow> if blocked \<or> \<not> isNullish u then named_props all vals (Suc i) cs ns
          else named_props all vals (Suc i) cs (AList.update nm v ns)))"
  using assms by (auto simp: Let_def split: option.split jsval.split)

lemma named_props_bigs:
  "named_props all (map bigs vals) i cs (map (\<lambda>(k, v). (k, bigs v)) ns) =
     map_sum id (map (\<lambda>(k, v). (k, bigs v))) (named_props all vals i cs ns)"
proof (induction cs arbitrary: i ns)
  case Nil
  then show ?case by simp
next
  case (Cons c cs)
  let ?f = "\<lambda>(k :: string, v). (k, bigs v)"
  have get: "map_of (map ?f xs) k = map_option bigs (map_of xs k)" for xs k
    by (induction xs) auto
  have upd: "AList.update k (bigs v) (map ?f xs) = map ?f (AList.update k v xs)" for k v xs
    by (induction xs) auto
  define v where "v = (if i < length vals then vals ! i else JUndef)"
  define nm where "nm = property_name (name_text c)"
  define blocked where "blocked = (nm \<in> set arrayProtoNames \<or> nm \<in> set (map dec_str [0..<length vals]))"
  have v': "bigs v = (if i < length (map bigs vals) then map bigs vals ! i else JUndef)"
    and blocked': "blocked = (nm \<in> set arrayProtoNames \<or> nm \<in> set (map dec_str [0..<length (map bigs vals)]))"
    by (simp_all add: v_def blocked_def)
  show ?case
  proof (cases "unique_name all (name_text c)")
    case False
    then show ?thesis using Cons.IH by (simp add: Let_def)
  next
    case True
    note step = named_props_step [OF True v_def nm_def blocked_def]
      named_props_step [OF True v' nm_def blocked']
    show ?thesis
    proof (cases "map_of ns nm")
      case None
      then show ?thesis by (simp add: step get Cons.IH upd del: named_props.simps)
    next
      case (Some u)
      then show ?thesis
        by (cases u rule: bigs.cases) (simp_all add: step get Cons.IH upd del: named_props.simps)
    qed
  qed
qed

lemma assemble_bigs: "assemble cs (map bigs vals) = map_sum id bigs (assemble cs vals)"
proof -
  have "named_props cs (map bigs vals) 0 cs [] =
      map_sum id (map (\<lambda>(k, v). (k, bigs v))) (named_props cs vals 0 cs [])"
    using named_props_bigs [of cs vals 0 cs "[]"] by simp
  then show ?thesis by (cases "named_props cs vals 0 cs []") (simp_all add: assemble_def)
qed

lemma tracks_unpack:
  assumes "\<And>c. c \<in> set cs \<Longrightarrow> tracks bigs (dec c) (dec c)"
  shows "tracks bigs (unpack L dec cs) (unpack L dec cs)"
proof -
  have "tracks bigs (bindS (unpack_loop L dec b cs) (\<lambda>vals. liftS (assemble cs vals)))
      (bindS (unpack_loop L dec (with_cf b) cs) (\<lambda>vals. liftS (assemble cs vals)))"
    if "rd_coerceFunc b = None" for b
    by (rule tracks_bind [OF tracks_unpack_loop [OF assms that]]) (auto intro: tracks_lift assemble_bigs)
  then show ?thesis by (simp add: tracks_def unpack_def subReader_with_cf)
qed

lemma readValue_nonneg: "bignum_ok L \<Longrightarrow> fst (readValue L r) = Inr n \<Longrightarrow> 0 \<le> n"
  by (auto simp: readValue_def bindS_def liftS_def bignum_okD split: prod.splits sum.splits)

lemma tracks_number:
  assumes "bignum_ok L" and "0 < sz" and "sz \<le> 64"
  shows "tracks bigs (NumberCoder_decode L sz sg nm) (NumberCoder_decode L sz sg nm)"
proof -
  have "tracks bigs
     (\<lambda>r. bindS (readValue L) (\<lambda>n. let u = big_mask L n (sz * 8) in
        coerce L (coder_name (NumberCoder sz sg nm)) (JBN (if sg then big_fromTwos L u (sz * 8) else u))) r)
     (\<lambda>r. bindS (readValue L) (\<lambda>n. let u = big_mask L n (sz * 8) in
        coerce L (coder_name (NumberCoder sz sg nm)) (JBN (if sg then big_fromTwos L u (sz * 8) else u))) r)"
  proof (rule tracks_bind [OF tracks_readValue])
    fix n r
    assume "fst (readValue L r) = Inr n"
    then have n: "0 \<le> n" using assms(1) by (intro readValue_nonneg)
    define m where "m = (let u = big_mask L n (sz * 8) in if sg then big_fromTwos L u (sz * 8) else u)"
    have nm: "int_name_bits (coder_name (NumberCoder sz sg nm)) = Some (sz * 8)"
      using int_name_bits_number [of sg "sz * 8"] by simp
    have "big_toNumber L m = Inr m" if "sz \<le> 6"
    proof -
      obtain k where k: "n = int k" using n by (metis nat_0_le)
      define u where "u = big_mask L n (sz * 8)"
      have u: "0 \<le> u" "u < 2 ^ (sz * 8)" using assms(1) by (simp_all add: u_def k bignum_okD)
      have "(2 :: int) ^ (sz * 8) \<le> 2 ^ 48" using that by (intro power_increasing) simp_all
      moreover have "m = u \<or> m = u - 2 ^ (sz * 8)"
        using assms(1,2) u by (auto simp: m_def Let_def u_def [symmetric] bignum_okD(9))
      ultimately have "\<bar>m\<bar> \<le> MAX_SAFE_INTEGER" using u by (auto simp: MAX_SAFE_INTEGER_def)
      then show ?thesis using assms(1) by (simp add: bignum_okD)
    qed
    then have "tracks bigs (coerce L (coder_name (NumberCoder sz sg nm)) (JBN m))
        (coerce L (coder_name (NumberCoder sz sg nm)) (JBN m))"
      using nm by (simp add: tracks_def coerce_def default_coerce_def bigint_coerce_def del: coder_name.simps)
    then show "tracks bigs
      (let u = big_mask L n (sz * 8) in
        coerce L (coder_name (NumberCoder sz sg nm)) (JBN (if sg then big_fromTwos L u (sz * 8) else u)))
      (let u = big_mask L (id n) (sz * 8) in
        coerce L (coder_name (NumberCoder sz sg nm)) (JBN (if sg then big_fromTwos L u (sz * 8) else u)))"
      by (simp add: m_def Let_def del: coder_name.simps)
  qed
  then show ?thesis by (simp add: tracks_def)
qed

lemma tracks_cong: "tracks f m m' \<Longrightarrow> (\<And>r. k r = m r) \<Longrightarrow> (\<And>r. k' r = m' r) \<Longrightarrow> tracks f k k'"
  by (simp add: tracks_def)

lemma tracks_pure: "(\<And>r. fst (m r) = x \<and> snd (m r) = r) \<Longrightarrow> (\<And>r. fst (m' r) = map_sum id f x \<and> snd (m' r) = r) \<Longrightarrow> tracks f m m'"
  unfolding tracks_def by (metis prod.collapse)

lemma tracks_decode_bytes: "tracks id (decode_bytes L) (decode_bytes L)"
  unfolding decode_bytes_def
  by (rule tracks_bind [OF tracks_readNumber]) (simp add: tracks_readBytes)

lemma tracks_read_count: "tracks id (read_count L len) (read_count L len)"
proof (cases "len = - 1")
  case True
  have "tracks id (bindS (readNumber L) (\<lambda>count r.
      if count * rd_wordSize r > length (rd_data r)
      then (Inl (mk_err BUFFER_OVERRUN ''insufficient data length''), r) else (Inr count, r)))
    (bindS (readNumber L) (\<lambda>count r.
      if count * rd_wordSize r > length (rd_data r)
      then (Inl (mk_err BUFFER_OVERRUN ''insufficient data length''), r) else (Inr count, r)))"
    by (rule tracks_bind [OF tracks_readNumber]) (simp add: tracks_def)
  with True show ?thesis by (simp add: read_count_def)
next
  case False
  then show ?thesis using tracks_return [of id "nat len"] by (simp add: read_count_def)
qed

lemma decode_address_text: "decode_address L n = Inr v \<Longrightarrow> bigs v = v"
  by (cases v rule: bigs.cases)
     (auto simp: decode_address_def bindR_def map_sum_def split: sum.splits)

lemma tracks_decode:
  assumes "bignum_ok L"
  shows "wf_coder c \<Longrightarrow> tracks bigs (decode L c) (decode L c)"
proof (induction c)
  case (NumberCoder sz sg nm)
  then show ?case
    by (intro tracks_cong [OF tracks_number [OF assms, of sz sg nm]]) (simp_all del: NumberCoder_decode_def)
next
  case (AddressCoder nm)
  have "map_sum id bigs (decode_address L n) = decode_address L n" for n
    by (cases "decode_address L n") (simp_all add: decode_address_text)
  then have "tracks bigs (bindS (readValue L) (\<lambda>n. liftS (decode_address L n)))
      (bindS (readValue L) (\<lambda>n. liftS (decode_address L n)))"
    by (intro tracks_bind [OF tracks_readValue]) (simp add: tracks_lift)
  then show ?case by (simp add: tracks_def)
next
  case (BooleanCoder nm)
  have "tracks bigs (bindS (readValue L) (\<lambda>n. coerce L ''bool'' (JBool (n \<noteq> 0))))
      (bindS (readValue L) (\<lambda>n. coerce L ''bool'' (JBool (n \<noteq> 0))))"
    using tracks_coerce [OF int_name_bits_others(2), of L "JBool _"]
    by (intro tracks_bind [OF tracks_readValue]) simp
  then show ?case by (simp add: tracks_def)
next
  case (BytesCoder nm)
  have "tracks bigs (bindS (decode_bytes L) (\<lambda>bs. coerce L ''bytes'' (JStr (hexlify L bs))))
      (bindS (decode_bytes L) (\<lambda>bs. coerce L ''bytes'' (JStr (hexlify L bs))))"
    using tracks_coerce [of "''bytes''" L "JStr _"] int_name_bits_others(1) [of "[]"]
    by (intro tracks_bind [OF tracks_decode_bytes]) simp
  then show ?case by (simp add: tracks_def)
next
  case (FixedBytesCoder sz nm)
  have "tracks bigs (bindS (readBytes sz False) (\<lambda>bs.
       coerce L (coder_name (FixedBytesCoder sz nm)) (JStr (hexlify L bs))))
    (bindS (readBytes sz False) (\<lambda>bs.
       coerce L (coder_name (FixedBytesCoder sz nm)) (JStr (hexlify L bs))))"
    using tracks_coerce [OF int_name_bits_others(1), of L _ "JStr _"]
    by (intro tracks_bind [OF tracks_readBytes]) simp
  then show ?case by (simp add: tracks_def)
next
  case (StringCoder nm)
  have "tracks bigs (bindS (decode_bytes L) (\<lambda>bs. liftS (map_sum id JStr (bytesToUtf8 L bs))))
      (bindS (decode_bytes L) (\<lambda>bs. liftS (map_sum id JStr (bytesToUtf8 L bs))))"
  proof (rule tracks_bind [OF tracks_decode_bytes])
    show "tracks bigs (liftS (map_sum id JStr (bytesToUtf8 L bs)))
        (liftS (map_sum id JStr (bytesToUtf8 L (id bs))))" for bs
      by (rule tracks_lift) (cases "bytesToUtf8 L bs"; simp)
  qed
  then show ?case by (simp add: tracks_def)
next
  case (NullCoder nm)
  have "tracks bigs (bindS (readBytes 0 False) (\<lambda>_. coerce L ''null'' JNull))
      (bindS (readBytes 0 False) (\<lambda>_. coerce L ''null'' JNull))"
    using tracks_coerce [OF int_name_bits_others(3), of L JNull]
    by (intro tracks_bind [OF tracks_readBytes]) simp
  then show ?case by (simp add: tracks_def)
next
  case (ArrayCoder c len nm)
  have el: "tracks bigs (decode L (AnonymousCoder c)) (decode L (AnonymousCoder c))"
    using ArrayCoder by (simp add: tracks_def)
  have "tracks bigs (bindS (read_count L len) (\<lambda>count.
     bindS (unpack L (decode L) (replicate count (AnonymousCoder c))) (\<lambda>v. coerce L ''array'' v)))
    (bindS (read_count L len) (\<lambda>count.
     bindS (unpack L (decode L) (replicate count (AnonymousCoder c))) (\<lambda>v. coerce L ''array'' v)))"
    by (rule tracks_bind [OF tracks_read_count], unfold id_apply,
        rule tracks_bind [OF tracks_unpack]) (auto simp: el intro: tracks_coerce int_name_bits_others)
  then show ?case by (simp add: tracks_def)
next
  case (TupleCoder cs nm)
  have "tracks bigs (bindS (unpack L (decode L) cs) (\<lambda>v. coerce L ''tuple'' v))
     (bindS (unpack L (decode L) cs) (\<lambda>v. coerce L ''tuple'' v))"
    by (rule tracks_bind [OF tracks_unpack])
       (use TupleCoder in \<open>auto simp: list_all_iff intro: tracks_coerce int_name_bits_others\<close>)
  then show ?case by (simp add: tracks_def)
next
  case (AnonymousCoder c)
  then show ?case by (simp add: tracks_def)
qed

section \<open>Results as objects\<close>

text \<open>No entry of the value, at any depth, is an error.\<close>

fun readable_entries :: "jsval \<Rightarrow> bool" where
  "readable_entries (JErr _) \<longleftrightarrow> False"
| "readable_entries (JResult vs ns) \<longleftrightarrow>
     list_all (\<lambda>v. readable_entries v) vs \<and> list_all (\<lambda>(k, v). readable_entries v) ns"
| "readable_entries v \<longleftrightarrow> True"

text \<open>The object of a result with names, and of the results with names among its entries.\<close>

function as_object :: "jsval list \<Rightarrow> (string \<times> jsval) list \<Rightarrow> jsval" where
  "as_object vs ns =
     JObj ((''__length__'',
         JNum (NInt (int (length (filter (\<lambda>(k, _). integer_key k) (result_entries vs ns)))))) #
       map (\<lambda>(k, v). (k, case v of
           JResult us ms \<Rightarrow> if isParamRequiredToConvert v then as_object us ms else v
         | _ \<Rightarrow> v)) (result_entries vs ns))"
  by pat_completeness auto
termination
  by (relation "measure (\<lambda>(vs, ns). size_list size vs + size_list (size_prod (\<lambda>x. 0) size) ns)")
     (auto dest: result_entries_size)

declare as_object.simps [simp del]

lemma mapR_all: "(\<And>x. x \<in> set xs \<Longrightarrow> f x = Inr (g x)) \<Longrightarrow> mapR f xs = Inr (map g xs)"
  by (rule mapR_all_Inr)

lemma result_entries_mem:
  "(k, v) \<in> set (result_entries vs ns) \<Longrightarrow> v \<in> set vs \<or> (k, v) \<in> set ns"
  by (auto simp: result_entries_def enumerate_eq_zip in_set_zip)

lemma format_readable:
  "readable_entries (JResult vs ns) \<Longrightarrow> formatArrayResToObject vs ns = Inr (as_object vs ns)"
proof (induction vs ns rule: formatArrayResToObject.induct)
  case (1 vs ns)
  have el: "readable_entries v" if "(k, v) \<in> set (result_entries vs ns)" for k v
    using result_entries_mem [OF that] "1.prems" by (auto simp: list_all_iff)
  have "mapR (\<lambda>(k, v). case v of
         JErr e \<Rightarrow> Inl e
       | JResult us ms \<Rightarrow>
           if isParamRequiredToConvert v
           then map_sum id (\<lambda>u. (k, u)) (formatArrayResToObject us ms) else Inr (k, v)
       | _ \<Rightarrow> Inr (k, v)) (result_entries vs ns) =
     Inr (map (\<lambda>(k, v). (k, case v of
           JResult us ms \<Rightarrow> if isParamRequiredToConvert v then as_object us ms else v
         | _ \<Rightarrow> v)) (result_entries vs ns))"
  proof (rule mapR_all_Inr)
    fix x
    assume x: "x \<in> set (result_entries vs ns)"
    obtain k v where kv: "x = (k, v)" by (cases x)
    have ok: "readable_entries v" using el x kv by simp
    show "(case x of (k, v) \<Rightarrow> case v of
         JErr e \<Rightarrow> Inl e
       | JResult us ms \<Rightarrow>
           if isParamRequiredToConvert v
           then map_sum id (\<lambda>u. (k, u)) (formatArrayResToObject us ms) else Inr (k, v)
       | _ \<Rightarrow> Inr (k, v)) =
      Inr (case x of (k, v) \<Rightarrow> (k, case v of
           JResult us ms \<Rightarrow> if isParamRequiredToConvert v then as_object us ms else v
         | _ \<Rightarrow> v))"
    proof (cases v)
      case (JResult us ms)
      show ?thesis
      proof (cases "isParamRequiredToConvert v")
        case True
        then have "formatArrayResToObject us ms = Inr (as_object us ms)"
          using "1.IH" [OF x kv [symmetric] JResult] ok JResult by simp
        with True show ?thesis by (simp add: kv JResult)
      next
        case False
        then show ?thesis by (simp add: kv JResult)
      qed
    next
      case (JErr e)
      then show ?thesis using ok by simp
    qed (simp_all add: kv)
  qed
  then show ?case by (simp add: formatArrayResToObject.simps [of vs ns] as_object.simps [of vs ns])
qed

lemma readable_bigs: "readable_entries v \<Longrightarrow> readable_entries (bigs v)"
proof (induction v rule: bigs.induct)
  case (3 vs ns)
  then show ?case by (auto simp: list_all_iff)
qed simp_all

lemma named_props_readable:
  "named_props all vals i cs ns = Inr ns' \<Longrightarrow> list_all readable_entries vals \<Longrightarrow>
   list_all (\<lambda>(k, v). readable_entries v) ns \<Longrightarrow> list_all (\<lambda>(k, v). readable_entries v) ns'"
proof (induction cs arbitrary: i ns)
  case Nil
  then show ?case by simp
next
  case (Cons c cs)
  define v where "v = (if i < length vals then vals ! i else JUndef)"
  define nm where "nm = property_name (name_text c)"
  have v: "readable_entries v" using Cons.prems(2) by (simp add: v_def list_all_length)
  have upd: "list_all (\<lambda>(k, v). readable_entries v) (AList.update nm v ns)"
    using Cons.prems(3) v by (induction ns) auto
  show ?case
  proof (cases "unique_name all (name_text c)")
    case False
    with Cons show ?thesis by (simp add: Let_def)
  next
    case True
    note step = named_props_step [OF True v_def nm_def refl]
    from Cons.prems(1) have "named_props all vals (Suc i) cs ns = Inr ns' \<or>
        named_props all vals (Suc i) cs (AList.update nm v ns) = Inr ns'"
      unfolding step by (auto split: option.splits jsval.splits if_splits)
    then show ?thesis using Cons.IH Cons.prems(2,3) upd by blast
  qed
qed

lemma assembled_readable:
  assumes "list_all readable_entries vals"
  shows "readable_entries (assembled cs vals)"
proof -
  have ok: "list_all readable_entries (filter (\<lambda>v. \<not> isNullish v) vals)"
    using assms by (auto simp: list_all_iff)
  have "list_all no_error vals"
    using assms by (auto simp: list_all_iff no_error_def split: jsval.splits)
  from assembled_assemble(1) [OF this, of cs] obtain ns where
    "named_props cs (filter (\<lambda>v. \<not> isNullish v) vals) 0 cs [] = Inr ns"
    "assembled cs vals = JResult (filter (\<lambda>v. \<not> isNullish v) vals) ns"
    by (auto simp: assemble_def map_sum_def split: sum.splits)
  with named_props_readable [OF this(1) ok] ok show ?thesis by simp
qed

lemma abi_value_readable: "readable_entries (abi_value L c v)"
proof (induction L c v rule: abi_value.induct)
  case (8 L c n nm v)
  then show ?case by (simp add: assembled_readable list_all_iff)
next
  case (9 L cs nm v)
  then show ?case by (auto intro!: assembled_readable simp: list_all_iff)
qed simp_all

section \<open>Encoding and decoding parameters\<close>

text \<open>
  The values \<^verbatim>\<open>encodeParameters\<close> encodes for a list of types, and the coder of the types: the adjusted
  values are ones the coder accepts.
\<close>

definition parameters_ok :: "lib \<Rightarrow> jsval list \<Rightarrow> jsval list \<Rightarrow> coder \<Rightarrow> jsval list \<Rightarrow> bool" where
  "parameters_ok L types params c values \<longleftrightarrow>
     (\<exists>mapped ps. mapTypes types = Inr mapped \<and> modified_params L mapped params = Inr values \<and>
        mapR (\<lambda>p. ParamType_from (type_arg_of p) False) mapped = Inr ps \<and>
        encodable L (map (\<lambda>t. TypeObject (JsonDone t)) ps) c values)"

lemma encode_parameters:
  assumes "bignum_ok L" and "ethers_bytes_ok L" and "crypto_ok L" and "zod_ok L"
    and "parameters_ok L types params c values"
  shows "encodeParameters L types params = Inr (''0x'' @ hex_of_bytes (abi_bytes L c (JArr values)))"
  using assms(5) encode_bytes_of_types [OF assms(1-4)]
  by (auto simp: parameters_ok_def encodeParameters_def as_abi_error_def)

lemma abi_value_tuple:
  assumes "encodable L types c values"
  obtains vs ns where "bigs (abi_value L c (JArr values)) = JResult vs ns"
proof -
  from assms obtain cs where c: "c = TupleCoder cs ''_''"
    by (auto simp: encodable_def tuple_of_types_def bindR_Inr_iff)
  let ?vals = "map (\<lambda>(c, x). abi_value L c x) (zip cs (vals_of cs (JArr values)))"
  have "list_all no_error ?vals" by (auto simp: list_all_iff abi_value_no_error)
  from assembled_assemble(1) [OF this, of cs] obtain us ms where "JResult us ms = assembled cs ?vals"
    by (auto simp: assemble_def map_sum_def split: sum.splits)
  then have "bigs (abi_value L c (JArr values)) = bigs (JResult us ms)" by (simp only: c abi_value.simps)
  then show ?thesis by (intro that) simp
qed

lemma remove_0x_prefix [simp]: "remove_0x (''0x'' @ h) = h"
  by simp

lemma decode_bigints:
  assumes "bignum_ok L" and "wf_coder c"
  shows "fst (decode L c (new_reader bs 64 (Some bigint_coerce) loose)) =
    map_sum id bigs (fst (decode L c (new_reader bs 64 None loose)))"
proof -
  have "new_reader bs 64 (Some bigint_coerce) loose = with_cf (new_reader bs 64 None loose)"
    by (simp add: new_reader_def with_cf_def)
  moreover have "rd_coerceFunc (new_reader bs 64 None loose) = None" by (simp add: new_reader_def)
  ultimately show ?thesis using tracks_decode [OF assms] by (simp add: tracks_def)
qed

lemma decode_parameters:
  assumes "bignum_ok L" and "ethers_bytes_ok L" and "crypto_ok L" and "zod_ok L"
    and "parameters_ok L types params c values"
    and "bigs (abi_value L c (JArr values)) = JResult vs ns"
    and "types = [] \<or> abi_bytes L c (JArr values) \<noteq> []"
  shows "decodeParametersWith L types (JStr (''0x'' @ hex_of_bytes (abi_bytes L c (JArr values)))) loose =
    Inr (as_object vs ns)"
proof -
  let ?bs = "abi_bytes L c (JArr values)"
  from assms(5) obtain mapped ps where m: "mapTypes types = Inr mapped"
    "mapR (\<lambda>p. ParamType_from (type_arg_of p) False) mapped = Inr ps"
    and enc: "encodable L (map (\<lambda>t. TypeObject (JsonDone t)) ps) c values"
    by (auto simp: parameters_ok_def)
  let ?ts = "map (\<lambda>t. TypeObject (JsonDone t)) ps"
  have arr: "arrayify L (JStr (''0x'' @ hex_of_bytes ?bs)) = Inr (?bs @ [])"
    using assms(2) ethers_bytes_okD(2) [of L ?bs] by simp
  have "AbiCoder_decode L None ?ts (JStr (''0x'' @ hex_of_bytes ?bs)) loose = Inr (abi_value L c (JArr values))"
    using decode_types_value [OF assms(1-4) enc arr] .
  then have "AbiCoder_decode L (Some bigint_coerce) ?ts (JStr (''0x'' @ hex_of_bytes ?bs)) loose =
      Inr (JResult vs ns)"
    using arr enc assms(6) decode_bigints [OF assms(1) encodable_wf [OF enc]]
    by (simp add: AbiCoder_decode_def encodable_def)
  moreover have "readable_entries (JResult vs ns)"
    using readable_bigs [OF abi_value_readable, of L c "JArr values"] assms(6) by simp
  moreover have "hex_of_bytes ?bs \<noteq> [] \<or> types = []" 
    using assms(7) length_hex_of_bytes [of ?bs] by (cases ?bs) (auto simp del: length_hex_of_bytes)
  ultimately show ?thesis
    using m format_readable [of vs ns]
    by (auto simp: decodeParametersWith_def as_abi_error_def js_truthy_def)
qed

section \<open>The properties\<close>

text \<open>
  C35: what \<^verbatim>\<open>encodeParameters\<close> returns, \<^verbatim>\<open>decodeParameters\<close> decodes with the same types: the object of
  the encoded values, by position and by name, with every number a bigint.
\<close>

theorem parameters_roundtrip:
  assumes "bignum_ok L" and "ethers_bytes_ok L" and "crypto_ok L" and "zod_ok L"
    and "parameters_ok L types params c values"
    and "types = [] \<or> abi_bytes L c (JArr values) \<noteq> []"
  shows "\<exists>hex vs ns. bigs (abi_value L c (JArr values)) = JResult vs ns \<and>
    encodeParameters L types params = Inr hex \<and>
    decodeParameters L types (JStr hex) = Inr (as_object vs ns)"
proof -
  obtain vs ns where "bigs (abi_value L c (JArr values)) = JResult vs ns"
    using assms(5) by (auto simp: parameters_ok_def elim: abi_value_tuple)
  with encode_parameters [OF assms(1-5)] decode_parameters [OF assms(1-5) _ assms(6)] show ?thesis
    by (auto simp: decodeParameters_def)
qed

text \<open>Types as a text, as a parameter object and as a struct.\<close>

definition web3_types :: "jsval list" where
  "web3_types = [JStr ''uint8'', JObj [(''name'', JStr ''who''), (''type'', JStr ''string[]'')],
     JObj [(''Pair'', JObj [(''a'', JStr ''bool''), (''b'', JStr ''bytes2'')])]]"

definition web3_params :: "jsval list" where
  "web3_params = [JNum (NInt 5), JArr [JStr ''ab''], JObj [(''a'', JBool True), (''b'', JStr ''0x0102'')]]"

definition web3_coder :: coder where
  "web3_coder = TupleCoder
     [NumberCoder 1 False [], ArrayCoder (StringCoder []) (- 1) ''who'',
      TupleCoder [BooleanCoder ''a'', FixedBytesCoder 2 ''b''] ''Pair''] ''_''"

definition web3_param_types :: "param_type list" where
  "web3_param_types = (case bindR (mapTypes web3_types)
     (mapR (\<lambda>p. ParamType_from (type_arg_of p) False)) of Inr ps \<Rightarrow> ps | Inl _ \<Rightarrow> [])"

lemma web3_parsed:
  "bindR (mapTypes web3_types) (\<lambda>ts. bindR (modified_params lib_ref ts web3_params) (\<lambda>vs.
     bindR (mapR (\<lambda>p. ParamType_from (type_arg_of p) False) ts) (\<lambda>ps. Inr (vs, ps)))) =
   Inr (web3_params, web3_param_types)"
  "tuple_of_types (map (\<lambda>t. TypeObject (JsonDone t)) web3_param_types) = Inr web3_coder"
  "list_all lengths_ok web3_param_types"
  by code_simp+

lemma web3_accepted: "abi_ok lib_ref web3_coder (JArr web3_params)"
  by code_simp

lemma web3_length: "length (abi_bytes lib_ref web3_coder (JArr web3_params)) = 512"
  by code_simp

lemma web3_ok: "parameters_ok lib_ref web3_types web3_params web3_coder web3_params"
proof -
  have "encodable lib_ref (map (\<lambda>t. TypeObject (JsonDone t)) web3_param_types) web3_coder web3_params"
    unfolding encodable_def web3_length
    using web3_parsed(2,3) web3_accepted
    by (auto simp: MAX_SAFE_INTEGER_def list_all_iff) (simp add: web3_coder_def)
  then show ?thesis using web3_parsed(1) by (auto simp: parameters_ok_def bindR_Inr_iff)
qed

theorem parameters_roundtrip_witness:
  "\<exists>hex. encodeParameters lib_ref web3_types web3_params = Inr hex \<and>
     decodeParameters lib_ref web3_types (JStr hex) = Inr (JObj
       [(''__length__'', JNum (NInt 3)), (''0'', JBig 5), (''1'', JResult [JStr ''ab''] []),
        (''2'', JObj [(''__length__'', JNum (NInt 2)), (''0'', JBool True), (''1'', JStr ''0x0102''),
           (''a'', JBool True), (''b'', JStr ''0x0102'')]),
        (''who'', JResult [JStr ''ab''] []),
        (''Pair'', JObj [(''__length__'', JNum (NInt 2)), (''0'', JBool True), (''1'', JStr ''0x0102''),
           (''a'', JBool True), (''b'', JStr ''0x0102'')])])"
proof -
  let ?pair = "JResult [JBool True, JStr ''0x0102''] [(''a'', JBool True), (''b'', JStr ''0x0102'')]"
  have v: "bigs (abi_value lib_ref web3_coder (JArr web3_params)) =
      JResult [JBig 5, JResult [JStr ''ab''] [], ?pair] [(''who'', JResult [JStr ''ab''] []), (''Pair'', ?pair)]"
    by code_simp
  have o: "as_object [JBig 5, JResult [JStr ''ab''] [], ?pair] [(''who'', JResult [JStr ''ab''] []), (''Pair'', ?pair)] =
      JObj [(''__length__'', JNum (NInt 3)), (''0'', JBig 5), (''1'', JResult [JStr ''ab''] []),
        (''2'', JObj [(''__length__'', JNum (NInt 2)), (''0'', JBool True), (''1'', JStr ''0x0102''),
           (''a'', JBool True), (''b'', JStr ''0x0102'')]),
        (''who'', JResult [JStr ''ab''] []),
        (''Pair'', JObj [(''__length__'', JNum (NInt 2)), (''0'', JBool True), (''1'', JStr ''0x0102''),
           (''a'', JBool True), (''b'', JStr ''0x0102'')])]"
    by code_simp
  have "abi_bytes lib_ref web3_coder (JArr web3_params) \<noteq> []"
    using web3_length by (cases "abi_bytes lib_ref web3_coder (JArr web3_params)") auto
  then show ?thesis
    using parameters_roundtrip [OF lib_ref_ok web3_ok] v o by auto
qed

section \<open>Calls\<close>

lemma name_not_hex:
  assumes "CHR ''('' \<in> set s"
  shows "\<not> isHexStrict (JStr s)"
proof
  assume "isHexStrict (JStr s)"
  moreover have "\<not> is_hex_char (CHR ''('')" by code_simp
  moreover have "strip0x t = Some h \<Longrightarrow> CHR ''('' \<in> set t \<Longrightarrow> CHR ''('' \<in> set h" for t h
    by (auto dest!: strip0x_Some simp: lower_char_def char_code_def split: if_splits)
  ultimately show False
    using assms by (auto simp: isHexStrict_def hex_strict_text_def list_all_iff split: option.splits list.splits)
qed

lemma sha3Raw_name:
  assumes "zod_ok L" and "crypto_ok L" and "CHR ''('' \<in> set s"
  shows "sha3Raw L (JStr s) = Inr (''0x'' @ hex_of_bytes (keccak256 L (utf8_encode s)))"
  using assms name_not_hex [OF assms(3)]
  by (simp add: sha3Raw_def sha3_def keccak_of_def crypto_okD)

lemma take_hex_of_bytes: "take (2 * n) (hex_of_bytes bs) = hex_of_bytes (take n bs)"
proof (induction n arbitrary: bs)
  case (Suc n)
  then show ?case by (cases bs) (simp_all add: hex_of_bytes_def byte_hex_def)
qed (simp add: hex_of_bytes_def)

text \<open>
  C36: a call is the first four bytes of the hash of the signature, the name with the types of its
  inputs, followed by the encoded arguments.
\<close>

theorem function_call_data:
  assumes "bignum_ok L" and "ethers_bytes_ok L" and "crypto_ok L" and "zod_ok L"
    and "isAbiFunctionFragment f" and "js_field f ''name'' = JStr name" and "\<not> includes_sub name ''(''"
    and "js_field f ''inputs'' = JArr inputs" and "flattenTypes False (JArr inputs) = Inr ts"
    and "parameters_ok L inputs params c values"
  shows "encodeFunctionCall L f (Some params) =
    Inr (''0x'' @ hex_of_bytes
      (take 4 (keccak256 L (utf8_encode (name @ ''('' @ join_with '','' ts @ '')''))) @
       abi_bytes L c (JArr values)))"
proof -
  let ?sig = "name @ ''('' @ join_with '','' ts @ '')''"
  have "jsonInterfaceMethodToString f = Inr ?sig"
    using assms(5-9) by (simp add: jsonInterfaceMethodToString_def or_nullish_def)
  moreover have "\<nexists>s. f = JStr s" using assms(6) by (auto simp: js_field_def)
  ultimately have "signature_of L isAbiFunctionFragment f =
      Inr (''0x'' @ hex_of_bytes (keccak256 L (utf8_encode ?sig)))"
    using assms(5) sha3Raw_name [OF assms(4,3), of ?sig] by (cases f) (simp_all add: signature_of_def)
  moreover have "take 10 (''0x'' @ hex_of_bytes bs) = ''0x'' @ hex_of_bytes (take 4 bs)" for bs
    using take_hex_of_bytes [of 4 bs] by simp
  ultimately have "encodeFunctionSignature L f = Inr (''0x'' @ hex_of_bytes (take 4 (keccak256 L (utf8_encode ?sig))))"
    by (simp add: encodeFunctionSignature_def)
  then show ?thesis
    using assms(5,8) encode_parameters [OF assms(1-4,10)]
    by (simp add: encodeFunctionCall_def types_of_inputs_def or_nullish_def startsWith_def hex_of_bytes_def)
qed

definition pay_inputs :: "jsval list" where
  "pay_inputs = [JObj [(''name'', JStr ''amount''), (''type'', JStr ''uint8'')],
     JObj [(''name'', JStr ''memos''), (''type'', JStr ''string[]'')]]"

definition pay_fragment :: jsval where
  "pay_fragment = JObj [(''type'', JStr ''function''), (''name'', JStr ''pay''), (''inputs'', JArr pay_inputs)]"

definition pay_params :: "jsval list" where
  "pay_params = [JNum (NInt 5), JArr [JStr ''ab'']]"

definition pay_coder :: coder where
  "pay_coder = TupleCoder
     [NumberCoder 1 False ''amount'', ArrayCoder (StringCoder []) (- 1) ''memos''] ''_''"

definition pay_param_types :: "param_type list" where
  "pay_param_types = (case bindR (mapTypes pay_inputs)
     (mapR (\<lambda>p. ParamType_from (type_arg_of p) False)) of Inr ps \<Rightarrow> ps | Inl _ \<Rightarrow> [])"

lemma pay_parsed:
  "bindR (mapTypes pay_inputs) (\<lambda>ts. bindR (modified_params lib_ref ts pay_params) (\<lambda>vs.
     bindR (mapR (\<lambda>p. ParamType_from (type_arg_of p) False) ts) (\<lambda>ps. Inr (vs, ps)))) =
   Inr (pay_params, pay_param_types)"
  "tuple_of_types (map (\<lambda>t. TypeObject (JsonDone t)) pay_param_types) = Inr pay_coder"
  "list_all lengths_ok pay_param_types"
  "abi_ok lib_ref pay_coder (JArr pay_params)"
  "length (abi_bytes lib_ref pay_coder (JArr pay_params)) = 384"
  "flattenTypes False (JArr pay_inputs) = Inr [''uint8'', ''string[]'']"
  "isAbiFunctionFragment pay_fragment" "\<not> includes_sub ''pay'' ''(''"
  by code_simp+

lemma pay_ok: "parameters_ok lib_ref pay_inputs pay_params pay_coder pay_params"
proof -
  have "encodable lib_ref (map (\<lambda>t. TypeObject (JsonDone t)) pay_param_types) pay_coder pay_params"
    unfolding encodable_def pay_parsed(5)
    using pay_parsed(2-4)
    by (auto simp: MAX_SAFE_INTEGER_def list_all_iff) (simp add: pay_coder_def)
  then show ?thesis using pay_parsed(1) by (auto simp: parameters_ok_def bindR_Inr_iff)
qed

theorem function_call_data_witness:
  "encodeFunctionCall lib_ref pay_fragment (Some pay_params) =
    Inr (''0x'' @ hex_of_bytes
      (take 4 (keccak256 lib_ref (utf8_encode ''pay(uint8,string[])'')) @
       abi_bytes lib_ref pay_coder (JArr pay_params)))"
  using function_call_data [OF lib_ref_ok pay_parsed(7) _ pay_parsed(8) _ pay_parsed(6) pay_ok]
  by (simp add: pay_fragment_def js_field_def obj_get_def)

section \<open>Logs\<close>

lemma dec_str_inj: "dec_str i = dec_str j \<Longrightarrow> i = j"
proof -
  assume "dec_str i = dec_str j"
  then have "digits_val 10 (dec_str i) = digits_val 10 (dec_str j)" by (rule arg_cong)
  then show ?thesis by simp
qed

lemma integer_key_dec [simp]: "integer_key (dec_str i)"
  by (simp add: integer_key_def list_all_iff radix_str_digits)

lemma length_not_integer [simp]: "\<not> integer_key ''__length__''"
  by code_simp

definition plain_name :: "jsval \<Rightarrow> bool" where
  "plain_name x = (case js_field x ''name'' of JStr n \<Rightarrow> n = [] \<or> \<not> integer_key n | _ \<Rightarrow> True)"

lemma log_entry_get:
  assumes "integer_key k" and "plain_name x"
  shows "map_of (log_entry i x v res) k = (if k = dec_str i then Some v else map_of res k)"
proof -
  have "k \<noteq> ''__length__''" using assms(1) by auto
  moreover have "map_of (case js_field x ''name'' of
      JStr n \<Rightarrow> if n \<noteq> [] then AList.update n v res1 else res1 | _ \<Rightarrow> res1) k = map_of res1 k" for res1
    using assms by (cases "js_field x ''name''") (auto simp: plain_name_def update_conv')
  ultimately show ?thesis by (simp add: log_entry_def Let_def update_conv')
qed

lemma log_values_old:
  "integer_key k \<Longrightarrow> list_all plain_name inputs \<Longrightarrow> (\<And>m. m < length inputs \<Longrightarrow> k \<noteq> dec_str (i + m)) \<Longrightarrow>
   map_of (log_values i p inputs decoded idx res) k = map_of res k"
proof (induction i p inputs decoded idx res rule: log_values.induct)
  case (2 i p x xs decoded idx res)
  have k: "k \<noteq> dec_str i" using "2.prems"(3) [of 0] by simp
  have rest: "k \<noteq> dec_str (Suc i + m)" if "m < length xs" for m
    using "2.prems"(3) [of "Suc m"] that by simp
  show ?case
    using "2.IH" [OF _ "2.prems"(1) _ rest] "2.prems"(1,2) k by (simp add: log_entry_get)
qed simp

lemma log_values_get:
  "list_all plain_name inputs \<Longrightarrow> m < length inputs \<Longrightarrow>
   map_of (log_values i p inputs decoded idx res) (dec_str (i + m)) =
     Some (if is_indexed (inputs ! m)
       then (let n = length (filter is_indexed (take m inputs)) in if n < length idx then idx ! n else JUndef)
       else js_field decoded (dec_str (p + length (filter (\<lambda>x. \<not> is_indexed x) (take m inputs)))))"
proof (induction i p inputs decoded idx res arbitrary: m rule: log_values.induct)
  case (2 i p x xs decoded idx res)
  have old: "map_of (log_values (Suc i) q xs decoded js r) (dec_str i) = map_of r (dec_str i)" for q js r
    using "2.prems"(1) by (intro log_values_old) (auto dest: dec_str_inj)
  show ?case
  proof (cases m)
    case 0
    then show ?thesis
      using "2.prems"(1) old by (cases idx) (auto simp: log_entry_get Let_def)
  next
    case (Suc n)
    then show ?thesis
      using "2.IH"(1) [of n] "2.IH"(2) [of n] "2.prems"
      by (cases idx) (auto simp: Let_def)
  qed
qed simp

lemma indexed_values_get:
  "indexed_values L topics i xs = Inr vs \<Longrightarrow>
     length vs = length xs \<and> (\<forall>n < length xs. indexed_value L topics (i + int n) (xs ! n) = Inr (vs ! n))"
proof (induction xs arbitrary: i vs)
  case (Cons x xs)
  then obtain v us where v: "indexed_value L topics i x = Inr v" "indexed_values L topics (i + 1) xs = Inr us"
    "vs = v # us" by (auto simp: bindR_Inr_iff)
  from Cons.IH [OF v(2)] v(1,3) show ?case
    by (auto simp: nth_Cons algebra_simps split: nat.split)
qed simp

text \<open>
  C37: a decoded log has, at the position of each input, the value of its topic or of its place among
  the decoded data: the topics of the indexed inputs are the last ones, in order, so that a first
  topic with the signature of the event is skipped, and the data hold the others, in order.
\<close>

theorem log_by_position:
  assumes "decodeLog L inputs (JStr data) (JArr topics) = Inr r" and "data \<noteq> []"
    and "list_all plain_name inputs" and "m < length inputs"
  defines "before \<equiv> length (filter is_indexed (take m inputs))"
    and "from_here \<equiv> length (filter is_indexed (drop m inputs))"
  shows "if is_indexed (inputs ! m)
    then indexed_value L topics (int (length topics) - int from_here) (inputs ! m) =
      Inr (js_field r (dec_str m))
    else \<exists>decoded. decodeParametersWith L (filter (\<lambda>x. \<not> is_indexed x) inputs) (JStr data) True = Inr decoded \<and>
      js_field r (dec_str m) = js_field decoded (dec_str (m - before))"
proof -
  let ?ix = "filter is_indexed inputs"
  let ?off = "int (length topics) - int (length ?ix)"
  from assms(1,2) obtain decoded idx where
    d: "decodeParametersWith L (filter (\<lambda>x. \<not> is_indexed x) inputs) (JStr data) True = Inr decoded"
    and idx: "indexed_values L topics ?off ?ix = Inr idx"
    and r: "r = JObj (log_values 0 0 inputs decoded idx [(''__length__'', JNum (NInt 0))])"
    by (auto simp: decodeLog_def bindR_Inr_iff js_truthy_def Let_def)
  note g = log_values_get [OF assms(3,4), of 0 0 decoded idx "[(''__length__'', JNum (NInt 0))]"]
  have ix: "?ix = filter is_indexed (take m inputs) @ filter is_indexed (drop m inputs)"
    by (metis append_take_drop_id filter_append)
  have other: "length (filter (\<lambda>x. \<not> is_indexed x) (take m inputs)) = m - before"
    using sum_length_filter_compl [of is_indexed "take m inputs"] assms(4) by (simp add: before_def)
  show ?thesis
  proof (cases "is_indexed (inputs ! m)")
    case True
    have at: "drop m inputs = inputs ! m # drop (Suc m) inputs"
      using assms(4) by (simp add: Cons_nth_drop_Suc)
    then have "before < length ?ix" "?ix ! before = inputs ! m"
      using True by (simp_all add: ix before_def nth_append)
    moreover have "?off + int before = int (length topics) - int from_here"
      by (simp add: ix before_def from_here_def)
    moreover from calculation have "indexed_value L topics (int (length topics) - int from_here) (inputs ! m) = Inr (idx ! before)"
      using indexed_values_get [OF idx] by metis
    ultimately show ?thesis
      using True indexed_values_get [OF idx] g
      by (auto simp: r js_field_def obj_get_def before_def [symmetric] Let_def)
  next
    case False
    then show ?thesis using g d by (auto simp: r js_field_def obj_get_def other)
  qed
qed

definition log_inputs :: "jsval list" where
  "log_inputs = [JObj [(''name'', JStr ''who''), (''type'', JStr ''uint8''), (''indexed'', JBool True)],
     JObj [(''name'', JStr ''amount''), (''type'', JStr ''uint8'')]]"

definition log_word :: "nat \<Rightarrow> string" where
  "log_word n = ''0x'' @ hex_of_bytes (nat_be 64 n)"

lemma log_decoded:
  "decodeLog lib_ref log_inputs (JStr (log_word 7)) (JArr [JStr ''0xaa'', JStr (log_word 9)]) =
     Inr (JObj [(''__length__'', JNum (NInt 2)), (''0'', JBig 9), (''who'', JBig 9),
       (''1'', JBig 7), (''amount'', JBig 7)])"
  by code_simp

theorem log_by_position_witness:
  "indexed_value lib_ref [JStr ''0xaa'', JStr (log_word 9)] 1 (log_inputs ! 0) = Inr (JBig 9)"
proof -
  have "list_all plain_name log_inputs" "is_indexed (log_inputs ! 0)"
    "length (filter is_indexed (drop 0 log_inputs)) = 1" "length log_inputs = 2" "dec_str 0 = ''0''"
    by code_simp+
  moreover have "log_word 7 \<noteq> []" by (simp add: log_word_def)
  ultimately show ?thesis
    using log_by_position [OF log_decoded, of 0] by (simp add: js_field_def obj_get_def)
qed

section \<open>Tuples given as texts\<close>

text \<open>
  The values of a tuple type given as a text are adjusted one component at a time, but from an array
  that holds the whole tuple and nothing else: every component but the first is adjusted from
  \<^verbatim>\<open>undefined\<close>, which fails for numbers and sized bytes. Such a type is refused whatever the values.
\<close>

definition pair_coder :: coder where
  "pair_coder = TupleCoder [NumberCoder 32 False [], NumberCoder 32 False []] []"

lemma pair_parsed:
  "coder_of_type (TypeText ''tuple(uint256,uint256)'') = Inr pair_coder"
  "array_type ''tuple(uint256,uint256)'' = None" "number_type ''tuple(uint256,uint256)'' = None"
  "bytes_type ''tuple(uint256,uint256)'' = None" "includes_sub ''tuple(uint256,uint256)'' ''tuple''"
  "coder_name pair_coder = ''tuple''" "coder_name (NumberCoder 32 False []) = ''uint256''"
  "array_type ''uint256'' = None" "number_type ''uint256'' = Some ''256''" "digits_val 10 ''256'' = 256"
  by code_simp+

lemma tuple_text_refused:
  "encodeParameters L [JStr ''tuple(uint256,uint256)''] [JArr [a, b]] =
     Inl (abi_error ''Parameter encoding error'')"
proof -
  have undef: "formatParam L ''uint256'' JUndef = Inl (err_class ''TypeError'' ''Cannot read properties of undefined'')"
    using pair_parsed(8,9)
    by (simp add: formatParam_def format_scalar_param_def format_number_param_def longer_than_def spread_copy_def Let_def)
  have "\<exists>e. modify_fields L [NumberCoder 32 False [], NumberCoder 32 False []] (JArr [a, b]) = Inl e"
    using undef pair_parsed(7)
    by (cases "formatParam L ''uint256'' (JArr [a, b])") (simp_all del: coder_name.simps)
  then have "\<exists>e. modify_coder L pair_coder (JArr [a, b]) = Inl e" by (simp add: pair_coder_def)
  then have "\<exists>e. modified_param L (Some (JStr ''tuple(uint256,uint256)'')) (JArr [a, b]) = Inl e"
    using pair_parsed
    by (auto simp: modified_param_def type_of_item_def formatParam_def format_scalar_param_def
        spread_copy_def Let_def)
  then show ?thesis
    by (auto simp: encodeParameters_def mapTypes_def mapType_def isSimplifiedStructFormat_def typeof_def
        as_abi_error_def)
qed

end
