(* ===== verification/Errors.thy ===== *)
theory Errors
  imports Rpc Hash
begin

text \<open>
  The errors package, as far as the request manager and its callers use it: the table of codes, the
  texts of the RPC errors and the constructors of the errors of responses, RPC calls and contract
  executions. An error object is its class, its message, its code, its other own properties and its
  inner error; a thrown or rejected value is such an object or any other value.
\<close>

section \<open>Codes and texts\<close>

definition error_codes :: "(string \<times> int) list" where
  "error_codes =
     [(''ERR_RESPONSE'', 100), (''ERR_INVALID_RESPONSE'', 101),
      (''ERR_RESPONSE_TOO_LARGE'', 102), (''ERR_PARAM'', 200), (''ERR_FORMATTERS'', 201),
      (''ERR_METHOD_NOT_IMPLEMENTED'', 202), (''ERR_OPERATION_TIMEOUT'', 203),
      (''ERR_OPERATION_ABORT'', 204), (''ERR_ABI_ENCODING'', 205),
      (''ERR_EXISTING_PLUGIN_NAMESPACE'', 206), (''ERR_INVALID_METHOD_PARAMS'', 207),
      (''ERR_CONTRACT'', 300), (''ERR_CONTRACT_RESOLVER_MISSING'', 301),
      (''ERR_CONTRACT_ABI_MISSING'', 302), (''ERR_CONTRACT_REQUIRED_CALLBACK'', 303),
      (''ERR_CONTRACT_EVENT_NOT_EXISTS'', 304), (''ERR_CONTRACT_RESERVED_EVENT'', 305),
      (''ERR_CONTRACT_MISSING_DEPLOY_DATA'', 306), (''ERR_CONTRACT_MISSING_ADDRESS'', 307),
      (''ERR_CONTRACT_MISSING_FROM_ADDRESS'', 308), (''ERR_CONTRACT_INSTANTIATION'', 309),
      (''ERR_CONTRACT_EXECUTION_REVERTED'', 310), (''ERR_CONTRACT_TX_DATA_AND_INPUT'', 311),
      (''ERR_TX'', 400), (''ERR_TX_REVERT_INSTRUCTION'', 401),
      (''ERR_TX_REVERT_TRANSACTION'', 402), (''ERR_TX_NO_CONTRACT_ADDRESS'', 403),
      (''ERR_TX_CONTRACT_NOT_STORED'', 404), (''ERR_TX_REVERT_WITHOUT_REASON'', 405),
      (''ERR_TX_OUT_OF_GAS'', 406), (''ERR_RAW_TX_UNDEFINED'', 407),
      (''ERR_TX_INVALID_SENDER'', 408), (''ERR_TX_INVALID_CALL'', 409),
      (''ERR_TX_MISSING_CUSTOM_CHAIN'', 410), (''ERR_TX_MISSING_CUSTOM_CHAIN_ID'', 411),
      (''ERR_TX_CHAIN_ID_MISMATCH'', 412), (''ERR_TX_INVALID_CHAIN_INFO'', 413),
      (''ERR_TX_MISSING_CHAIN_INFO'', 414), (''ERR_TX_MISSING_GAS'', 415),
      (''ERR_TX_INVALID_LEGACY_GAS'', 416), (''ERR_TX_INVALID_FEE_MARKET_GAS'', 417),
      (''ERR_TX_INVALID_OBJECT'', 420), (''ERR_TX_INVALID_NONCE_OR_CHAIN_ID'', 421),
      (''ERR_TX_UNABLE_TO_POPULATE_NONCE'', 422), (''ERR_TX_UNSUPPORTED_TYPE'', 424),
      (''ERR_TX_DATA_AND_INPUT'', 425), (''ERR_TX_POLLING_TIMEOUT'', 426),
      (''ERR_TX_RECEIPT_MISSING_OR_BLOCKHASH_NULL'', 427),
      (''ERR_TX_RECEIPT_MISSING_BLOCK_NUMBER'', 428),
      (''ERR_TX_LOCAL_WALLET_NOT_AVAILABLE'', 429), (''ERR_TX_NOT_FOUND'', 430),
      (''ERR_TX_SEND_TIMEOUT'', 431), (''ERR_TX_BLOCK_TIMEOUT'', 432), (''ERR_TX_SIGNING'', 433),
      (''ERR_TX_CHAIN_MISMATCH'', 435), (''ERR_TX_HARDFORK_MISMATCH'', 436),
      (''ERR_TX_INVALID_RECEIVER'', 437), (''ERR_TX_REVERT_TRANSACTION_CUSTOM_ERROR'', 438),
      (''ERR_TX_INVALID_PROPERTIES_FOR_TYPE'', 439), (''ERR_TX_MISSING_GAS_INNER_ERROR'', 440),
      (''ERR_CONN'', 500), (''ERR_CONN_INVALID'', 501), (''ERR_CONN_TIMEOUT'', 502),
      (''ERR_CONN_NOT_OPEN'', 503), (''ERR_CONN_CLOSE'', 504), (''ERR_CONN_MAX_ATTEMPTS'', 505),
      (''ERR_CONN_PENDING_REQUESTS'', 506), (''ERR_REQ_ALREADY_SENT'', 507),
      (''ERR_PROVIDER'', 600), (''ERR_INVALID_PROVIDER'', 601), (''ERR_INVALID_CLIENT'', 602),
      (''ERR_SUBSCRIPTION'', 603), (''ERR_WS_PROVIDER'', 604), (''ERR_REQUEST_TIMEOUT'', 605),
      (''ERR_REQUEST_QUEUE_FULL'', 606), (''ERR_PROVIDER_CAPABILITY'', 607),
      (''ERR_UNSUPPORTED_KDF'', 703), (''ERR_KEY_VERSION_UNSUPPORTED'', 705),
      (''ERR_INVALID_PASSWORD'', 706), (''ERR_IV_LENGTH'', 707), (''ERR_INVALID_KEYSTORE'', 708),
      (''ERR_INVALID_SEED'', 710), (''ERR_PUBLIC_KEY_LENGTH'', 711),
      (''ERR_INVALID_PUBLIC_KEY'', 712), (''ERR_SEED_LENGTH'', 713),
      (''ERR_SIGNATURE_FAILED'', 801), (''ERR_INVALID_SIGNATURE'', 802),
      (''JSONRPC_ERR_REJECTED_REQUEST'', 4001), (''JSONRPC_ERR_UNAUTHORIZED'', 4100),
      (''JSONRPC_ERR_UNSUPPORTED_METHOD'', 4200), (''JSONRPC_ERR_DISCONNECTED'', 4900),
      (''JSONRPC_ERR_CHAIN_DISCONNECTED'', 4901), (''ERR_QRNS_CHECK_INTERFACE_SUPPORT'', 901),
      (''ERR_QRNS_UNSUPPORTED_NETWORK'', 902), (''ERR_QRNS_NETWORK_NOT_SYNCED'', 903),
      (''ERR_INVALID_STRING'', 1001), (''ERR_INVALID_BYTES'', 1002),
      (''ERR_INVALID_NUMBER'', 1003), (''ERR_INVALID_UNIT'', 1004),
      (''ERR_INVALID_ADDRESS'', 1005), (''ERR_INVALID_HEX'', 1006), (''ERR_INVALID_TYPE'', 1007),
      (''ERR_INVALID_BOOLEAN'', 1008), (''ERR_INVALID_UNSIGNED_INTEGER'', 1009),
      (''ERR_INVALID_SIZE'', 1010), (''ERR_INVALID_LARGE_VALUE'', 1011),
      (''ERR_INVALID_BLOCK'', 1012), (''ERR_INVALID_TYPE_ABI'', 1013),
      (''ERR_INVALID_NIBBLE_WIDTH'', 1014), (''ERR_VALIDATION'', 1100),
      (''ERR_CORE_HARDFORK_MISMATCH'', 1101), (''ERR_CORE_CHAIN_MISMATCH'', 1102),
      (''ERR_RPC_INVALID_JSON'', - 32700), (''ERR_RPC_INVALID_REQUEST'', - 32600),
      (''ERR_RPC_INVALID_METHOD'', - 32601), (''ERR_RPC_INVALID_PARAMS'', - 32602),
      (''ERR_RPC_INTERNAL_ERROR'', - 32603), (''ERR_RPC_INVALID_INPUT'', - 32000),
      (''ERR_RPC_MISSING_RESOURCE'', - 32001), (''ERR_RPC_UNAVAILABLE_RESOURCE'', - 32002),
      (''ERR_RPC_TRANSACTION_REJECTED'', - 32003), (''ERR_RPC_UNSUPPORTED_METHOD'', - 32004),
      (''ERR_RPC_LIMIT_EXCEEDED'', - 32005), (''ERR_RPC_NOT_SUPPORTED'', - 32006)]"

definition err :: "string \<Rightarrow> int" where
  "err name = (case map_of error_codes name of Some n \<Rightarrow> n | None \<Rightarrow> 0)"

definition genericRpcErrorMessageTemplate :: "string \<times> string" where
  "genericRpcErrorMessageTemplate = (''An Rpc error has occured with a code of '', [])"

definition RpcErrorMessages :: "(string \<times> string option \<times> string) list" where
  "RpcErrorMessages =
     [(''-32700'', None,
         ''Parse error''),
      (''-32600'', None,
         ''Invalid request''),
      (''-32601'', None,
         ''Method not found''),
      (''-32602'', None,
         ''Invalid params''),
      (''-32603'', None,
         ''Internal error''),
      (''-32000'', None,
         ''Invalid input''),
      (''-32001'', None,
         ''Resource not found''),
      (''-32002'', None,
         ''Resource unavailable''),
      (''-32003'', None,
         ''Transaction rejected''),
      (''-32004'', None,
         ''Method not supported''),
      (''-32005'', None,
         ''Limit exceeded''),
      (''-32006'', None,
         ''JSON-RPC version not supported''),
      (''4001'', Some ''User Rejected Request'',
         ''The user rejected the request.''),
      (''4100'', Some ''Unauthorized'',
         ''The requested method and/or account has not been authorized by the '' @
         ''user.''),
      (''4200'', Some ''Unsupported Method'',
         ''The Provider does not support the requested method.''),
      (''4900'', Some ''Disconnected'',
         ''The Provider is disconnected from all chains.''),
      (''4901'', Some ''Chain Disconnected'',
         ''The Provider is not connected to the requested chain.''),
      (''0-999'', Some '''',
         ''Not used.''),
      (''1000'', Some ''Normal Closure'',
         ''The connection successfully completed the purpose for which it was '' @
         ''created.''),
      (''1001'', Some ''Going Away'',
         ''The endpoint is going away, either because of a server failure or '' @
         ''because the browser is navigating away from the page that opened the '' @
         ''connection.''),
      (''1002'', Some ''Protocol error'',
         ''The endpoint is terminating the connection due to a protocol error.''),
      (''1003'', Some ''Unsupported Data'',
         ''The connection is being terminated because the endpoint received data '' @
         ''of a type it cannot accept. (For example, a text-only endpoint '' @
         ''received binary data.)''),
      (''1004'', Some ''Reserved'',
         ''Reserved. A meaning might be defined in the future.''),
      (''1005'', Some ''No Status Rcvd'',
         ''Reserved. Indicates that no status code was provided even though one '' @
         ''was expected.''),
      (''1006'', Some ''Abnormal Closure'',
         ''Reserved. Indicates that a connection was closed abnormally (that is, '' @
         ''with no close frame being sent) when a status code is expected.''),
      (''1007'', Some ''Invalid frame payload data'',
         ''The endpoint is terminating the connection because a message was '' @
         ''received that contained inconsistent data (e.g., non-UTF-8 data '' @
         ''within a text message).''),
      (''1008'', Some ''Policy Violation'',
         ''The endpoint is terminating the connection because it received a '' @
         ''message that violates its policy. This is a generic status code, used '' @
         ''when codes 1003 and 1009 are not suitable.''),
      (''1009'', Some ''Message Too Big'',
         ''The endpoint is terminating the connection because a data frame was '' @
         ''received that is too large.''),
      (''1010'', Some ''Mandatory Ext.'',
         ''The client is terminating the connection because it expected the '' @
         ''server to negotiate one or more extension, but the server didn'' @ [CHR 0x27] @ ''t.''),
      (''1011'', Some ''Internal Error'',
         ''The server is terminating the connection because it encountered an '' @
         ''unexpected condition that prevented it from fulfilling the request.''),
      (''1012'', Some ''Service Restart'',
         ''The server is terminating the connection because it is restarting.''),
      (''1013'', Some ''Try Again Later'',
         ''The server is terminating the connection due to a temporary '' @
         ''condition, e.g. it is overloaded and is casting off some of its '' @
         ''clients.''),
      (''1014'', Some ''Bad Gateway'',
         ''The server was acting as a gateway or proxy and received an invalid '' @
         ''response from the upstream server. This is similar to 502 HTTP Status '' @
         ''Code.''),
      (''1015'', Some ''TLS handshake'',
         ''Reserved. Indicates that the connection was closed due to a failure '' @
         ''to perform a TLS handshake (e.g., the server certificate can'' @ [CHR 0x27] @
         ''t be verified).''),
      (''1016-2999'', Some '''',
         ''For definition by future revisions of the WebSocket Protocol '' @
         ''specification, and for definition by extension specifications.''),
      (''3000-3999'', Some '''',
         ''For use by libraries, frameworks, and applications. These status '' @
         ''codes are registered directly with IANA. The interpretation of these '' @
         ''codes is undefined by the WebSocket protocol.''),
      (''4000-4999'', Some '''',
         ''For private use, and thus can'' @ [CHR 0x27] @
         ''t be registered. Such codes can be used by prior agreements between '' @
         ''WebSocket applications. The interpretation of these codes is '' @
         ''undefined by the WebSocket protocol.'')]"

section \<open>Error objects\<close>

datatype error_obj = ErrorObj (ob_class: string) (ob_message: string) (ob_code: jsval)
  (ob_props: "(string \<times> jsval) list") (ob_inner: "error_obj option")

datatype thrown = Val jsval | Err error_obj

definition simple_error :: "string \<Rightarrow> string \<Rightarrow> jsval \<Rightarrow> error_obj" where
  "simple_error cls m c = ErrorObj cls m c [] None"

definition native_error :: "js_error \<Rightarrow> thrown" where
  "native_error e =
     Err (simple_error (case ecode e of ErrClass c \<Rightarrow> c | _ \<Rightarrow> ''Error'') (emsg e) JUndef)"

definition liftE :: "js_error + 'a \<Rightarrow> thrown + 'a" where
  "liftE r = map_sum native_error id r"

definition type_error :: "string \<Rightarrow> thrown" where
  "type_error m = Err (simple_error ''TypeError'' m JUndef)"

lemma liftE_simps [simp]: "liftE (Inr x) = Inr x" "liftE (Inl e) = Inl (native_error e)"
  by (simp_all add: liftE_def)

text \<open>A value as an object whose properties are read: an error object has its own properties.\<close>

definition message_view :: "thrown \<Rightarrow> jsval" where
  "message_view t = (case t of
      Val v \<Rightarrow> (case v of
          JErr e \<Rightarrow> JObj [(''name'', JStr (case ecode e of ErrClass c \<Rightarrow> c | _ \<Rightarrow> ''Error'')),
                          (''message'', JStr (emsg e))]
        | _ \<Rightarrow> v)
    | Err e \<Rightarrow> JObj (ob_props e @ [(''name'', JStr (ob_class e)), (''message'', JStr (ob_message e)),
                                (''code'', ob_code e)]))"

definition is_error_obj :: "thrown \<Rightarrow> bool" where
  "is_error_obj t = (case t of Err _ \<Rightarrow> True | Val v \<Rightarrow> (case v of JErr _ \<Rightarrow> True | _ \<Rightarrow> False))"

text \<open>The text a value has in a template; optional reading of a property.\<close>

definition template_text :: "lib \<Rightarrow> jsval \<Rightarrow> string" where
  "template_text L v = (case js_toString L v of
      Some s \<Rightarrow> s | None \<Rightarrow> (if v = JUndef then ''undefined'' else ''null''))"

definition read_field :: "jsval \<Rightarrow> string \<Rightarrow> thrown + jsval" where
  "read_field v k =
     (if isNullish v then Inl (type_error ''Cannot read properties of undefined'')
      else Inr (msg_prop v k))"

definition has_field :: "jsval \<Rightarrow> string \<Rightarrow> thrown + bool" where
  "has_field v k =
     (if typeof v = TObject \<and> v \<noteq> JNull \<or> v = JFun then Inr (msg_has v k)
      else Inl (type_error ''Cannot use in operator to search for a property''))"

section \<open>Response errors\<close>

definition buildErrorMessage :: "jsval \<Rightarrow> thrown + jsval" where
  "buildErrorMessage r =
     bindR (liftE (isResponseWithError r)) (\<lambda>b.
       if b then read_field (msg_prop r ''error'') ''message'' else Inr (JStr []))"

definition data_of_error :: "jsval \<Rightarrow> jsval" where
  "data_of_error r =
     (let e = msg_prop r ''error'' in if isNullish e then JUndef else msg_prop e ''data'')"

fun mapR_msgs :: "jsval list \<Rightarrow> thrown + jsval list" where
  "mapR_msgs [] = Inr []"
| "mapR_msgs (r # rs) = bindR (buildErrorMessage r) (\<lambda>m. bindR (mapR_msgs rs) (\<lambda>ms. Inr (m # ms)))"

definition response_message :: "lib \<Rightarrow> jsval \<Rightarrow> thrown + string" where
  "response_message L response = (case js_elems response of
      Some rs \<Rightarrow> bindR (mapR_msgs rs) (\<lambda>ms. Inr (''Returned error: '' @ template_text L (JArr ms)))
    | None \<Rightarrow> bindR (buildErrorMessage response) (\<lambda>m. Inr (''Returned error: '' @ template_text L m)))"

text \<open>
  The inner error is the \<^verbatim>\<open>error\<close> of the response, or the list of those of a batch; it is kept with
  the other properties.
\<close>

definition inner_of :: "jsval \<Rightarrow> thrown + jsval" where
  "inner_of response =
     bindR (has_field response ''error'') (\<lambda>h. Inr (if h then msg_prop response ''error'' else (case js_elems response of
         Some rs \<Rightarrow> JArr (map (\<lambda>r. msg_prop r ''error'') rs) | None \<Rightarrow> JUndef)))"

definition ResponseError :: "lib \<Rightarrow> jsval \<Rightarrow> string option \<Rightarrow> jsval \<Rightarrow> thrown + error_obj" where
  "ResponseError L response message request =
     bindR (case message of Some m \<Rightarrow> Inr m | None \<Rightarrow> response_message L response) (\<lambda>m.
     let dat = (if message = None \<or> message = Some [] then
                  (case js_elems response of Some rs \<Rightarrow> JArr (map data_of_error rs)
                   | None \<Rightarrow> if isNullish response then JUndef else data_of_error response)
                else JUndef) in
     bindR (inner_of response) (\<lambda>inner.
       Inr (ErrorObj ''ResponseError'' m (JNum (NInt (err ''ERR_RESPONSE'')))
              [(''data'', dat), (''request'', request), (''innerError'', inner)] None)))"

definition InvalidResponseError :: "lib \<Rightarrow> jsval \<Rightarrow> jsval \<Rightarrow> thrown + error_obj" where
  "InvalidResponseError L response request =
     bindR (ResponseError L response None request) (\<lambda>e.
       Inr (ErrorObj ''InvalidResponseError'' (ob_message e)
              (JNum (NInt (err ''ERR_INVALID_RESPONSE''))) (ob_props e) (ob_inner e)))"

section \<open>RPC errors\<close>

definition rpc_text :: "string \<Rightarrow> string" where
  "rpc_text key = (case map_of RpcErrorMessages key of Some (_, m) \<Rightarrow> m | None \<Rightarrow> [])"

text \<open>The classes of the codes, with the name of their code.\<close>

definition rpcErrorsMap :: "(int \<times> string) list" where
  "rpcErrorsMap =
     [(err ''ERR_RPC_INVALID_JSON'', ''ParseError''),
      (err ''ERR_RPC_INVALID_REQUEST'', ''InvalidRequestError''),
      (err ''ERR_RPC_INVALID_METHOD'', ''MethodNotFoundError''),
      (err ''ERR_RPC_INVALID_PARAMS'', ''InvalidParamsError''),
      (err ''ERR_RPC_INTERNAL_ERROR'', ''InternalError''),
      (err ''ERR_RPC_INVALID_INPUT'', ''InvalidInputError''),
      (err ''ERR_RPC_UNSUPPORTED_METHOD'', ''MethodNotSupported''),
      (err ''ERR_RPC_UNAVAILABLE_RESOURCE'', ''ResourceUnavailableError''),
      (err ''ERR_RPC_TRANSACTION_REJECTED'', ''TransactionRejectedError''),
      (err ''ERR_RPC_MISSING_RESOURCE'', ''ResourcesNotFoundError''),
      (err ''ERR_RPC_NOT_SUPPORTED'', ''VersionNotSupportedError''),
      (err ''ERR_RPC_LIMIT_EXCEEDED'', ''LimitExceededError'')]"

definition RpcError :: "jsval \<Rightarrow> string \<Rightarrow> string \<Rightarrow> error_obj" where
  "RpcError response cls message =
     (let e = msg_prop response ''error'' in
      ErrorObj cls message (msg_prop e ''code'')
        [(''id'', msg_prop response ''id''), (''jsonrpc'', msg_prop response ''jsonrpc''),
         (''jsonRpcError'', e)] None)"

text \<open>
  The error for a code the caller has found to be one of the RPC codes: the class of the code with its
  text, or the general class.
\<close>

definition rpc_error :: "int \<Rightarrow> jsval \<Rightarrow> error_obj" where
  "rpc_error code response = (case map_of rpcErrorsMap code of
      Some cls \<Rightarrow> RpcError response cls (rpc_text (int_str 10 code))
    | None \<Rightarrow> RpcError response ''RpcError''
        (fst genericRpcErrorMessageTemplate @ int_str 10 code @ snd genericRpcErrorMessageTemplate))"

definition code_range :: "string \<Rightarrow> (nat \<times> nat) option" where
  "code_range key = (case split_on ''-'' key of
      [a, b] \<Rightarrow> if a \<noteq> [] \<and> b \<noteq> [] then Some (digits_val 10 a, digits_val 10 b) else None
    | _ \<Rightarrow> None)"

definition in_code_range :: "int \<Rightarrow> string \<Rightarrow> bool" where
  "in_code_range code key = (case code_range key of
      Some (a, b) \<Rightarrow> int a \<le> code \<and> code \<le> int b | None \<Rightarrow> False)"

definition EIP1193ProviderRpcError :: "int \<Rightarrow> jsval \<Rightarrow> error_obj" where
  "EIP1193ProviderRpcError code dat =
     (let m = (if code = 0 then []
               else if rpc_text (int_str 10 code) \<noteq> [] then rpc_text (int_str 10 code)
               else (case find (in_code_range code) (map fst RpcErrorMessages) of
                   Some key \<Rightarrow> rpc_text key
                 | None \<Rightarrow> fst genericRpcErrorMessageTemplate @ int_str 10 code @
                            snd genericRpcErrorMessageTemplate)) in
      ErrorObj ''EIP1193ProviderRpcError'' m (JNum (NInt code)) [(''data'', dat)] None)"

section \<open>Reverted executions\<close>

text \<open>
  The error a provider gives for a reverted execution, with the data the error itself, an object in it
  or the object \<^verbatim>\<open>originalError\<close> in that carries; each of these objects becomes an inner error.
\<close>

definition original_error :: "jsval \<Rightarrow> jsval" where
  "original_error dat = (case dat of
      JObj ds \<Rightarrow> if ''originalError'' \<in> set (map fst ds) then obj_get ds ''originalError'' else dat
    | _ \<Rightarrow> dat)"

definition error_text :: "lib \<Rightarrow> jsval \<Rightarrow> string" where
  "error_text L v = (if js_truthy (msg_prop v ''message'') then template_text L (msg_prop v ''message'')
                     else ''Error'')"

definition error_name :: "jsval \<Rightarrow> jsval" where
  "error_name v = (if js_truthy (msg_prop v ''name'') then msg_prop v ''name''
                   else JStr ''Eip838ExecutionError'')"

lemma obj_get_size: "obj_get kvs k = w \<Longrightarrow> w \<noteq> JUndef \<Longrightarrow> size w < size (JObj kvs)"
  by (induction kvs) (auto simp: obj_get_def split: if_splits option.splits)

lemma original_error_size: "size (original_error d) \<le> size d"
proof (cases d)
  case (JObj ds)
  then show ?thesis
    by (cases "obj_get ds ''originalError'' = JUndef")
      (auto simp: original_error_def dest!: obj_get_size [OF refl])
qed (simp_all add: original_error_def)

function Eip838ExecutionError :: "lib \<Rightarrow> jsval \<Rightarrow> thrown + error_obj" where
  "Eip838ExecutionError L error =
     (let dat = msg_prop error ''data'';
          make = ErrorObj ''Eip838ExecutionError'' (error_text L error) (msg_prop error ''code'') in
      if isNullish error then Inl (type_error ''Cannot read properties of undefined'')
      else if typeof error \<noteq> TObject \<and> error \<noteq> JFun
      then Inl (type_error ''Cannot use in operator to search for a property'')
      else if typeof dat = TObject then
        if dat = JNull then Inl (type_error ''Cannot use in operator to search for a property'')
        else if isNullish (original_error dat)
        then Inl (type_error ''Cannot read properties of undefined'')
        else
          bindR (Eip838ExecutionError L (original_error dat)) (\<lambda>inner.
            Inr (make [(''name'', error_name error), (''data'', msg_prop (original_error dat) ''data'')]
                   (Some inner)))
      else Inr (make [(''name'', error_name error), (''data'', dat)] None))"
  by pat_completeness auto
termination
proof (relation "measure (\<lambda>(L, v). size v)", goal_cases)
  case (2 L error dat)
  then have "msg_prop error ''data'' \<noteq> JUndef" by (auto simp: typeof_def)
  then obtain kvs where "error = JObj kvs" "obj_get kvs ''data'' \<noteq> JUndef"
    by (cases error) (simp_all add: msg_prop_def)
  with obj_get_size [OF refl this(2)] original_error_size [of "msg_prop error ''data''"] 2(1)
  show ?case by (simp add: msg_prop_def)
qed simp

declare Eip838ExecutionError.simps [simp del]

definition ContractExecutionError :: "lib \<Rightarrow> jsval \<Rightarrow> thrown + error_obj" where
  "ContractExecutionError L rpcError =
     bindR (Eip838ExecutionError L rpcError) (\<lambda>inner.
       Inr (ErrorObj ''ContractExecutionError''
              ''Error happened while trying to execute a function inside a smart contract''
              (JNum (NInt (err ''ERR_CONTRACT_EXECUTION_REVERTED''))) [] (Some inner)))"

section \<open>Properties of the tables\<close>

lemma error_codes_distinct: "distinct (map snd error_codes)"
  by (simp_all add: error_codes_def)

end
