(* ===== verification/Manager.thy ===== *)
theory Manager
  imports Errors
begin

text \<open>
  The request manager of the core package: the providers it accepts, the requests it sends through
  them and what it makes of their answers. What a provider does with a payload is an argument.
\<close>

section \<open>Providers\<close>

text \<open>
  A provider is a text, one of the two providers of the library, or an object of the caller, of which
  the manager sees whether it carries the symbol of the base class, the constructor name of its
  \<^verbatim>\<open>request\<close> function and which other methods it has.
\<close>

record provider_obj =
  po_id :: nat
  po_symbol :: bool
  po_request :: "string option"
  po_send :: bool
  po_sendAsync :: bool
  po_on :: bool
  po_supports :: "bool option"

datatype provider = PText string | PHttp string | PWs string | PObject provider_obj

definition isWeb3Provider :: "provider \<Rightarrow> bool" where
  "isWeb3Provider p = (case p of
      PText _ \<Rightarrow> False | PHttp _ \<Rightarrow> True | PWs _ \<Rightarrow> True | PObject q \<Rightarrow> po_symbol q)"

definition request_kind :: "provider \<Rightarrow> string option" where
  "request_kind p = (case p of
      PText _ \<Rightarrow> None | PHttp _ \<Rightarrow> Some ''AsyncFunction'' | PWs _ \<Rightarrow> Some ''AsyncFunction''
    | PObject q \<Rightarrow> po_request q)"

definition isLegacyRequestProvider :: "provider \<Rightarrow> bool" where
  "isLegacyRequestProvider p = (request_kind p = Some ''Function'')"

definition isEIP1193Provider :: "provider \<Rightarrow> bool" where
  "isEIP1193Provider p = (request_kind p = Some ''AsyncFunction'')"

definition isLegacySendProvider :: "provider \<Rightarrow> bool" where
  "isLegacySendProvider p = (case p of PText _ \<Rightarrow> False | PObject q \<Rightarrow> po_send q | _ \<Rightarrow> True)"

definition isLegacySendAsyncProvider :: "provider \<Rightarrow> bool" where
  "isLegacySendAsyncProvider p = (case p of PText _ \<Rightarrow> False | PObject q \<Rightarrow> po_sendAsync q | _ \<Rightarrow> True)"

definition isSupportedProvider :: "provider \<Rightarrow> bool" where
  "isSupportedProvider p =
     (p \<noteq> PText [] \<and>
      (isWeb3Provider p \<or> isEIP1193Provider p \<or> isLegacyRequestProvider p \<or>
       isLegacySendAsyncProvider p \<or> isLegacySendProvider p))"

definition isSupportSubscriptions :: "provider \<Rightarrow> bool" where
  "isSupportSubscriptions p = (case p of
      PText _ \<Rightarrow> False
    | PHttp _ \<Rightarrow> False
    | PWs _ \<Rightarrow> True
    | PObject q \<Rightarrow> (case po_supports q of Some b \<Rightarrow> b | None \<Rightarrow> po_on q))"

section \<open>The manager\<close>

record request_manager =
  rm_provider :: "provider option"
  useRpcCallSpecification :: bool

datatype provider_event = BEFORE_PROVIDER_CHANGE "provider option" | PROVIDER_CHANGED "provider option"

text \<open>\<^verbatim>\<open>/^http(s)?:\/\//i\<close> and \<^verbatim>\<open>/^ws(s)?:\/\//i\<close>.\<close>

definition url_of :: "string \<Rightarrow> string \<Rightarrow> bool" where
  "url_of scheme s =
     (startsWith (toLowerCase s) (scheme @ ''://'') \<or> startsWith (toLowerCase s) (scheme @ ''s://''))"

definition detect_provider :: "provider option \<Rightarrow> thrown + provider option" where
  "detect_provider given = (case given of
      Some (PText s) \<Rightarrow>
        if s = [] then Inr given
        else if url_of ''http'' s then Inr (Some (PHttp s))
        else if url_of ''ws'' s then Inr (Some (PWs s))
        else Inl (Err (simple_error ''ProviderError'' (''Cannot autodetect provider for '' @ s)
                         (JNum (NInt (err ''ERR_PROVIDER'')))))
    | _ \<Rightarrow> Inr given)"

definition setProvider ::
  "request_manager \<Rightarrow> provider option \<Rightarrow> thrown + (request_manager \<times> provider_event list)" where
  "setProvider m given =
     bindR (detect_provider given) (\<lambda>p.
       Inr (m\<lparr>rm_provider := p\<rparr>, [BEFORE_PROVIDER_CHANGE (rm_provider m), PROVIDER_CHANGED p]))"

definition new_request_manager ::
  "provider option \<Rightarrow> bool option \<Rightarrow> thrown + request_manager" where
  "new_request_manager given spec =
     (let m = \<lparr>rm_provider = None, useRpcCallSpecification = (spec = Some True)\<rparr> in
      case given of None \<Rightarrow> Inr m | Some p \<Rightarrow> map_sum id fst (setProvider m (Some p)))"

section \<open>Reading an answer\<close>

definition buildResponse :: "jsval \<Rightarrow> jsval \<Rightarrow> bool \<Rightarrow> jsval" where
  "buildResponse payload response error =
     JObj [(''jsonrpc'', JStr ''2.0''),
           (''id'', (if isBatchRequest payload
                     then (case js_elems payload of Some (p # _) \<Rightarrow> msg_prop p ''id'' | _ \<Rightarrow> JUndef)
                     else if msg_has payload ''id'' then msg_prop payload ''id'' else JNull)),
           (if error then ''error'' else ''result'', response)]"

definition reverted :: "lib \<Rightarrow> jsval \<Rightarrow> thrown + unit" where
  "reverted L error = (case msg_prop error ''message'' of
      JStr m \<Rightarrow> if includes_sub m ''revert''
                then bindR (ContractExecutionError L error) (\<lambda>e. Inl (Err e)) else Inr ()
    | _ \<Rightarrow> Inr ())"

definition isReverted :: "lib \<Rightarrow> thrown \<Rightarrow> thrown + unit" where
  "isReverted L response =
     bindR (liftE (isResponseWithError (message_view response))) (\<lambda>b.
       reverted L (if b then msg_prop (message_view response) ''error''
                   else if is_error_obj response then message_view response else JUndef))"

text \<open>The code of an error, when it is an integer.\<close>

definition rpc_code :: "jsval \<Rightarrow> thrown + int option" where
  "rpc_code response =
     bindR (read_field (msg_prop response ''error'') ''code'') (\<lambda>c.
       Inr (case c of JNum (NInt n) \<Rightarrow> Some n | _ \<Rightarrow> None))"

text \<open>What a response with an error is thrown as; nothing is returned for it.\<close>

definition error_response :: "lib \<Rightarrow> bool \<Rightarrow> jsval \<Rightarrow> jsval \<Rightarrow> thrown + jsval" where
  "error_response L spec payload r =
     bindR (if spec then rpc_code r else Inr None) (\<lambda>c. case c of
         Some n \<Rightarrow>
           if isResponseRpcError n then Inl (Err (rpc_error n r))
           else bindR (isReverted L (Val r)) (\<lambda>_. bindR (InvalidResponseError L r payload) (\<lambda>e. Inl (Err e)))
       | None \<Rightarrow>
           bindR (isReverted L (Val r)) (\<lambda>_. bindR (InvalidResponseError L r payload) (\<lambda>e. Inl (Err e))))"

definition throw_response :: "lib \<Rightarrow> jsval \<Rightarrow> string \<Rightarrow> thrown + jsval" where
  "throw_response L r m = bindR (ResponseError L r (Some m) JUndef) (\<lambda>e. Inl (Err e))"

definition other_response ::
  "lib \<Rightarrow> jsval \<Rightarrow> jsval \<Rightarrow> bool \<Rightarrow> bool \<Rightarrow> thrown + jsval" where
  "other_response L payload r legacy error =
     (let batch = isBatchRequest payload in
      bindR (if \<not> legacy \<and> batch then liftE (isBatchResponse r) else Inr False) (\<lambda>b.
        if b then Inr r
        else if legacy \<and> \<not> error \<and> batch then Inr r
        else if legacy \<and> error \<and> batch then Inl (Val r)
        else bindR (liftE (isResponseWithError r)) (\<lambda>we.
          let wr = isResponseWithResult r in
          if legacy \<and> \<not> we \<and> \<not> wr then Inr (buildResponse payload r error)
          else if batch \<and> \<not> isArray r
          then throw_response L r ''Got normal response for a batch request.''
          else if \<not> batch \<and> isArray r
          then throw_response L r ''Got batch response for a normal request.''
          else if (we \<or> wr) \<and> \<not> batch \<and> js_truthy (msg_prop r ''id'') \<and>
                  msg_prop payload ''id'' \<noteq> msg_prop r ''id''
          then bindR (InvalidResponseError L r JUndef) (\<lambda>e. Inl (Err e))
          else throw_response L r ''Invalid response'')))"

definition processJsonRpcResponse ::
  "lib \<Rightarrow> bool \<Rightarrow> jsval \<Rightarrow> thrown \<Rightarrow> bool \<Rightarrow> bool \<Rightarrow> thrown + jsval" where
  "processJsonRpcResponse L spec payload response legacy error =
     (let r = message_view response in
      if isNullish r then Inr (buildResponse payload JNull error)
      else bindR (liftE (isResponseWithError r)) (\<lambda>we.
        if we then error_response L spec payload r
        else if isResponseWithResult r then Inr r
        else if is_error_obj response then bindR (isReverted L response) (\<lambda>_. Inl response)
        else other_response L payload r legacy error))"

definition isJsonRpcResponse :: "thrown \<Rightarrow> thrown + bool" where
  "isJsonRpcResponse t =
     (let r = message_view t in
      if isNullish r then Inr True
      else bindR (liftE (isBatchResponse r)) (\<lambda>b.
        if b then Inr True
        else bindR (liftE (isResponseWithError r)) (\<lambda>we.
          Inr (we \<or> isResponseWithResult r))))"

definition buildNonJsonRpcError :: "lib \<Rightarrow> thrown \<Rightarrow> thrown" where
  "buildNonJsonRpcError L t =
     (if is_error_obj t then (case isReverted L t of Inl e \<Rightarrow> e | Inr _ \<Rightarrow> t)
      else Err (ErrorObj ''ProviderError''
                  ''Provider returned a value that is not a valid JSON-RPC response''
                  (JNum (NInt (err ''ERR_PROVIDER'')))
                  [(''innerError'', message_view t), (''cause'', message_view t)] None))"

section \<open>Sending a request\<close>

text \<open>
  What a provider does with a payload: its promise settles, it calls the callback it was given, at
  once or later, with an error and a response, it throws at once, or nothing ever comes.
\<close>

datatype reply = Resolved thrown | Rejected thrown | Called bool thrown thrown | ThrewSync thrown | Silent

text \<open>
  What becomes of the manager's promise: it settles, an exception leaves the callback the provider
  called and the promise stays open, or it waits.
\<close>

datatype sent = Settled "thrown + jsval" | Escaped thrown | Waiting

definition thrown_truthy :: "thrown \<Rightarrow> bool" where
  "thrown_truthy t = (case t of Err _ \<Rightarrow> True | Val v \<Rightarrow> js_truthy v)"

text \<open>The error handler of the web3 provider, and the one of the other kinds.\<close>

definition caught :: "lib \<Rightarrow> bool \<Rightarrow> jsval \<Rightarrow> bool \<Rightarrow> bool \<Rightarrow> thrown \<Rightarrow> thrown + jsval" where
  "caught L spec payload legacy error e =
     bindR (isJsonRpcResponse e) (\<lambda>b.
       if b then processJsonRpcResponse L spec payload e legacy error
       else Inl (buildNonJsonRpcError L e))"

definition send_web3 :: "lib \<Rightarrow> bool \<Rightarrow> jsval \<Rightarrow> reply \<Rightarrow> sent" where
  "send_web3 L spec payload r = (case r of
      Resolved t \<Rightarrow> Settled (processJsonRpcResponse L spec payload t False False)
    | Rejected e \<Rightarrow> Settled (caught L spec payload False False e)
    | ThrewSync e \<Rightarrow> Settled (caught L spec payload False False e)
    | _ \<Rightarrow> Waiting)"

definition then_catch :: "lib \<Rightarrow> bool \<Rightarrow> jsval \<Rightarrow> reply \<Rightarrow> sent" where
  "then_catch L spec payload r = (case r of
      Resolved t \<Rightarrow> Settled (case processJsonRpcResponse L spec payload t True False of
          Inr v \<Rightarrow> Inr v | Inl e \<Rightarrow> caught L spec payload True True e)
    | Rejected e \<Rightarrow> Settled (caught L spec payload True True e)
    | ThrewSync e \<Rightarrow> Settled (Inl e)
    | _ \<Rightarrow> Waiting)"

definition escape :: "bool \<Rightarrow> thrown \<Rightarrow> sent" where
  "escape sync e = (if sync then Settled (Inl e) else Escaped e)"

definition reject_callback :: "lib \<Rightarrow> bool \<Rightarrow> jsval \<Rightarrow> bool \<Rightarrow> thrown \<Rightarrow> sent" where
  "reject_callback L spec payload sync e = (case isJsonRpcResponse e of
      Inl x \<Rightarrow> escape sync x
    | Inr b \<Rightarrow>
        if \<not> b then Settled (Inl (buildNonJsonRpcError L e))
        else (case processJsonRpcResponse L spec payload e True True of
            Inr v \<Rightarrow> Settled (Inl (Val v)) | Inl x \<Rightarrow> escape sync x))"

definition resolve_callback :: "lib \<Rightarrow> bool \<Rightarrow> jsval \<Rightarrow> bool \<Rightarrow> thrown \<Rightarrow> sent" where
  "resolve_callback L spec payload sync t =
     (case processJsonRpcResponse L spec payload t True False of
        Inr v \<Rightarrow> Settled (Inr v) | Inl x \<Rightarrow> escape sync x)"

definition reject_promise :: "lib \<Rightarrow> bool \<Rightarrow> jsval \<Rightarrow> thrown \<Rightarrow> sent" where
  "reject_promise L spec payload e = (case isJsonRpcResponse e of
      Inl x \<Rightarrow> Escaped x
    | Inr b \<Rightarrow> Settled (Inl (if \<not> b then buildNonJsonRpcError L e
        else (case processJsonRpcResponse L spec payload e True True of Inr v \<Rightarrow> Val v | Inl x \<Rightarrow> x))))"

definition send_legacy_request :: "lib \<Rightarrow> bool \<Rightarrow> jsval \<Rightarrow> reply \<Rightarrow> sent" where
  "send_legacy_request L spec payload r = (case r of
      Called sync e t \<Rightarrow>
        if thrown_truthy e then reject_callback L spec payload sync e
        else resolve_callback L spec payload sync t
    | Resolved t \<Rightarrow> (case processJsonRpcResponse L spec payload t True False of
          Inr v \<Rightarrow> Settled (Inr v) | Inl e \<Rightarrow> reject_promise L spec payload e)
    | Rejected e \<Rightarrow> reject_promise L spec payload e
    | ThrewSync e \<Rightarrow> Settled (Inl e)
    | Silent \<Rightarrow> Waiting)"

definition nullish_response :: "lib \<Rightarrow> thrown" where
  "nullish_response L = (case ResponseError L (JObj []) (Some ''Got a nullish response from provider.'') JUndef of
      Inl e \<Rightarrow> e | Inr e \<Rightarrow> Err e)"

definition send_legacy_send :: "lib \<Rightarrow> bool \<Rightarrow> jsval \<Rightarrow> reply \<Rightarrow> sent" where
  "send_legacy_send L spec payload r = (case r of
      Called sync e t \<Rightarrow>
        if thrown_truthy e then reject_callback L spec payload sync e
        else if isNullish (message_view t) then Settled (Inl (nullish_response L))
        else resolve_callback L spec payload sync t
    | ThrewSync e \<Rightarrow> Settled (Inl e)
    | _ \<Rightarrow> Waiting)"

definition provider_error :: "string \<Rightarrow> thrown" where
  "provider_error m = Err (simple_error ''ProviderError'' m (JNum (NInt (err ''ERR_PROVIDER''))))"

definition sendRequest ::
  "lib \<Rightarrow> request_manager \<Rightarrow> (provider \<Rightarrow> jsval \<Rightarrow> reply) \<Rightarrow> jsval \<Rightarrow> sent" where
  "sendRequest L m node payload = (case rm_provider m of
      None \<Rightarrow> Settled (Inl (provider_error ''Provider not available''))
    | Some p \<Rightarrow>
        let spec = useRpcCallSpecification m; r = node p payload in
        if isWeb3Provider p then send_web3 L spec payload r
        else if isEIP1193Provider p then then_catch L spec payload r
        else if isLegacyRequestProvider p then send_legacy_request L spec payload r
        else if isLegacySendProvider p then send_legacy_send L spec payload r
        else if isLegacySendAsyncProvider p then then_catch L spec payload r
        else Settled (Inl (provider_error ''Provider does not have a request method to use.'')))"

text \<open>The result of a settled request: the \<^verbatim>\<open>result\<close> of the response or a response error.\<close>

definition result_of_response :: "lib \<Rightarrow> jsval \<Rightarrow> thrown + jsval" where
  "result_of_response L response =
     (if isResponseWithResult response then Inr (msg_prop response ''result'')
      else bindR (ResponseError L response None JUndef) (\<lambda>e. Inl (Err e)))"

definition send_payload ::
  "lib \<Rightarrow> request_manager \<Rightarrow> (provider \<Rightarrow> jsval \<Rightarrow> reply) \<Rightarrow> jsval \<Rightarrow> sent" where
  "send_payload L m node payload = (case sendRequest L m node payload of
      Settled (Inr response) \<Rightarrow> Settled (result_of_response L response)
    | s \<Rightarrow> s)"

definition send ::
  "lib \<Rightarrow> request_manager \<Rightarrow> (provider \<Rightarrow> jsval \<Rightarrow> reply) \<Rightarrow> string \<Rightarrow> int option \<Rightarrow> optional_request \<Rightarrow>
    sent \<times> int option" where
  "send L m node uuid seed request =
     (if rm_provider m = None
      then (Settled (Inl (provider_error ''Provider not available'')), seed)
      else (case toPayload uuid seed request of
          (payload, seed') \<Rightarrow> (send_payload L m node payload, seed')))"

definition request_of :: "jsval \<Rightarrow> optional_request" where
  "request_of p = \<lparr>or_jsonrpc = msg_prop p ''jsonrpc'', or_id = msg_prop p ''id'',
     or_method = msg_prop p ''method'', or_params = msg_prop p ''params''\<rparr>"

definition sendBatch ::
  "lib \<Rightarrow> request_manager \<Rightarrow> (provider \<Rightarrow> jsval \<Rightarrow> reply) \<Rightarrow> string list \<Rightarrow> int option \<Rightarrow> jsval list \<Rightarrow>
    sent \<times> int option" where
  "sendBatch L m node uuids seed requests =
     (if rm_provider m = None
      then (Settled (Inl (provider_error ''Provider not available'')), seed)
      else (case toBatchPayload uuids seed (map request_of requests) of
          (payloads, seed') \<Rightarrow> (sendRequest L m node (JArr payloads), seed')))"

end
