(* ===== verification/ManagerProps.thy ===== *)
theory ManagerProps
  imports Manager
begin

text \<open>
  What the manager makes of the answers of a provider: a response with a result gives that result
  whatever the kind of the provider, and a response with an error is thrown as one error that the
  later handlers leave as it is.
\<close>

section \<open>Responses with a result\<close>

text \<open>The provider answers with a value, in the way its kind answers.\<close>

definition delivers :: "provider \<Rightarrow> reply \<Rightarrow> jsval \<Rightarrow> bool" where
  "delivers p r w =
     (if isWeb3Provider p \<or> isEIP1193Provider p then r = Resolved (Val w)
      else if isLegacyRequestProvider p
      then r = Resolved (Val w) \<or> (\<exists>sync. r = Called sync (Val JNull) (Val w))
      else if isLegacySendProvider p then (\<exists>sync. r = Called sync (Val JNull) (Val w))
      else isLegacySendAsyncProvider p \<and> r = Resolved (Val w))"

lemma result_not_error: "isResponseWithResult w \<Longrightarrow> isResponseWithError w = Inr False \<or> msg_has w ''error''"
  using isNullish_def js_truthy_def
  by (auto simp: isResponseWithResult_def isResponseWithError_def isNullish_def js_truthy_def)

lemma result_not_nullish: "isResponseWithResult w \<Longrightarrow> \<not> isNullish w"
  by (auto simp: isResponseWithResult_def isNullish_def js_truthy_def)

lemma version_obj: "version_2 w \<Longrightarrow> \<exists>kvs. w = JObj kvs"
  by (cases w) (simp_all add: version_2_def msg_prop_def)

lemma view_of_result [simp]: "isResponseWithResult w \<Longrightarrow> message_view (Val w) = w"
  by (auto simp: isResponseWithResult_def message_view_def dest: version_obj)

lemma process_result:
  assumes "isResponseWithResult w" and "isResponseWithError w = Inr False"
  shows "processJsonRpcResponse L spec payload (Val w) legacy error = Inr w"
  using assms by (simp add: processJsonRpcResponse_def result_not_nullish)

text \<open>
  C14: a response with a result, and without a member \<^verbatim>\<open>error\<close>, gives its result, for a provider of every
  kind the manager knows, whether it answers by its promise or by the callback.
\<close>

theorem send_gives_result:
  assumes "rm_provider m = Some p" and "delivers p (node p payload) w"
    and "isResponseWithResult w" and "\<not> msg_has w ''error''"
  shows "send_payload L m node payload = Settled (Inr (msg_prop w ''result''))"
proof -
  have "isResponseWithError w = Inr False" using result_not_error [OF assms(3)] assms(4) by blast
  note process = process_result [OF assms(3) this]
  have "sendRequest L m node payload = Settled (Inr w)"
    using assms(1,2) result_not_nullish [OF assms(3)]
    by (auto simp: sendRequest_def Let_def delivers_def send_web3_def then_catch_def process
        send_legacy_request_def send_legacy_send_def resolve_callback_def thrown_truthy_def
        js_truthy_def assms(3) split: if_splits)
  then show ?thesis by (simp add: send_payload_def result_of_response_def assms(3))
qed

definition old_provider :: provider where
  "old_provider = PObject \<lparr>po_id = 0, po_symbol = False, po_request = Some ''Function'', po_send = True,
     po_sendAsync = False, po_on = False, po_supports = None\<rparr>"

definition block_number_response :: jsval where
  "block_number_response = JObj [(''jsonrpc'', JStr ''2.0''), (''id'', JNum (NInt 7)),
     (''result'', JStr ''0x10'')]"

theorem send_gives_result_witness:
  "send_payload lib_ref \<lparr>rm_provider = Some old_provider, useRpcCallSpecification = False\<rparr>
     (\<lambda>p payload. Called False (Val JNull) (Val block_number_response))
     (fst (toPayload ''u'' (Some 6) \<lparr>or_jsonrpc = JUndef, or_id = JUndef,
        or_method = JStr ''qrl_blockNumber'', or_params = JArr []\<rparr>)) =
   Settled (Inr (JStr ''0x10''))"
proof -
  let ?m = "\<lparr>rm_provider = Some old_provider, useRpcCallSpecification = False\<rparr>"
  let ?node = "\<lambda>(p :: provider) (payload :: jsval). Called False (Val JNull) (Val block_number_response)"
  have "delivers old_provider (?node old_provider pl) block_number_response" for pl
    by (auto simp: delivers_def old_provider_def isWeb3Provider_def isEIP1193Provider_def
        request_kind_def isLegacyRequestProvider_def)
  moreover have "isResponseWithResult block_number_response" "\<not> msg_has block_number_response ''error''"
    "msg_prop block_number_response ''result'' = JStr ''0x10''"
    by (simp_all add: block_number_response_def isResponseWithResult_def msg_prop_def msg_has_def
        obj_get_def version_2_def has_id_def typeof_def isArray_def js_truthy_def)
  ultimately show ?thesis using send_gives_result [of ?m old_provider ?node] by simp
qed

section \<open>Responses with an error\<close>

text \<open>What a response with an error stands for.\<close>

definition error_meaning :: "lib \<Rightarrow> bool \<Rightarrow> jsval \<Rightarrow> jsval \<Rightarrow> string \<Rightarrow> jsval \<Rightarrow> thrown" where
  "error_meaning L spec payload w s e =
     (case if spec then (case msg_prop e ''code'' of JNum (NInt n) \<Rightarrow> Some n | _ \<Rightarrow> None) else None of
        Some n \<Rightarrow>
          if isResponseRpcError n then Err (rpc_error n w)
          else if includes_sub s ''revert''
          then (case ContractExecutionError L e of Inr x \<Rightarrow> Err x | Inl t \<Rightarrow> t)
          else Err (ErrorObj ''InvalidResponseError'' (''Returned error: '' @ s) (JNum (NInt 101))
                 [(''data'', msg_prop e ''data''), (''request'', payload), (''innerError'', e)] None)
      | None \<Rightarrow>
          if includes_sub s ''revert''
          then (case ContractExecutionError L e of Inr x \<Rightarrow> Err x | Inl t \<Rightarrow> t)
          else Err (ErrorObj ''InvalidResponseError'' (''Returned error: '' @ s) (JNum (NInt 101))
                 [(''data'', msg_prop e ''data''), (''request'', payload), (''innerError'', e)] None))"

lemma err_values [simp]: "err ''ERR_RESPONSE'' = 100" "err ''ERR_INVALID_RESPONSE'' = 101"
  by (simp_all add: err_def error_codes_def)

lemma error_response_meaning:
  assumes "isResponseWithError w = Inr True" and "msg_prop w ''error'' = JObj kvs"
    and "obj_get kvs ''message'' = JStr s"
  shows "error_response L spec payload w = Inl (error_meaning L spec payload w s (JObj kvs))"
proof -
  obtain ws where w: "w = JObj ws" using assms(1) version_obj [of w]
    by (auto simp: isResponseWithError_def split: if_splits)
  have rev: "isReverted L (Val w) =
      (if includes_sub s ''revert'' then
         Inl (case ContractExecutionError L (JObj kvs) of Inr x \<Rightarrow> Err x | Inl t \<Rightarrow> t) else Inr ())"
    using assms w by (simp add: isReverted_def message_view_def reverted_def msg_prop_def
        bindR_def split: sum.split)
  have build: "buildErrorMessage w = Inr (JStr s)"
    using assms by (simp add: buildErrorMessage_def read_field_def msg_prop_def)
  have has: "msg_has w ''error''" using assms(1) by (auto simp: isResponseWithError_def split: if_splits)
  have inv: "InvalidResponseError L w payload = Inr (ErrorObj ''InvalidResponseError''
      (''Returned error: '' @ s) (JNum (NInt 101))
      [(''data'', msg_prop (JObj kvs) ''data''), (''request'', payload), (''innerError'', JObj kvs)] None)"
    using has by (simp add: InvalidResponseError_def ResponseError_def response_message_def w js_elems_def
        build [unfolded w] template_text_def inner_of_def has_field_def typeof_def data_of_error_def
        assms(2) [unfolded w] Let_def)
  show ?thesis
    by (auto simp: error_response_def rpc_code_def read_field_def assms(2) rev inv error_meaning_def
        split: jsval.splits jsnum.splits)
qed

text \<open>An error object with such a message goes through the handlers unchanged.\<close>

definition settled_error :: "thrown \<Rightarrow> bool" where
  "settled_error t = (case t of
      Err x \<Rightarrow> \<not> includes_sub (ob_message x) ''revert'' \<and>
        \<not> {''error'', ''result'', ''message''} \<inter> fst ` set (ob_props x) \<noteq> {}
    | Val _ \<Rightarrow> False)"

lemma find_sub_set: "find_sub p s = Some ab \<Longrightarrow> set p \<subseteq> set s"
proof (induction p s arbitrary: ab rule: find_sub.induct)
  case (2 p c cs)
  then show ?case
    by (auto simp: startsWith_def split: if_splits option.splits) (metis in_set_takeD set_ConsD)
qed (auto split: if_splits)

lemma not_includes: "c \<in> set p \<Longrightarrow> c \<notin> set s \<Longrightarrow> \<not> includes_sub s p"
  using find_sub_set [of p s] by (auto simp: includes_sub_def)

lemma returned_error_text: "includes_sub (''Returned error: '' @ s) ''revert'' = includes_sub s ''revert''"
  by (simp add: includes_sub_def startsWith_def split: option.split)

lemma caught_settled:
  assumes "settled_error t"
  shows "caught L spec payload legacy error t = Inl t" "isJsonRpcResponse t = Inr False"
    "buildNonJsonRpcError L t = t"
proof -
  obtain x where t: "t = Err x" and x: "\<not> includes_sub (ob_message x) ''revert''"
    "''error'' \<notin> fst ` set (ob_props x)" "''result'' \<notin> fst ` set (ob_props x)"
    "''message'' \<notin> fst ` set (ob_props x)"
    using assms by (cases t) (auto simp: settled_error_def)
  obtain kvs where v: "message_view t = JObj kvs" "\<not> msg_has (JObj kvs) ''error''"
    "\<not> msg_has (JObj kvs) ''result''" "msg_prop (JObj kvs) ''message'' = JStr (ob_message x)"
    using x by (auto simp: t message_view_def msg_has_def msg_prop_def obj_get_def map_add_def
        map_of_eq_None_iff [THEN iffD2])
  have not: "isResponseWithError (JObj kvs) = Inr False" "\<not> isResponseWithResult (JObj kvs)"
    using v(2,3) by (auto simp: isResponseWithError_def isResponseWithResult_def)
  then show json: "isJsonRpcResponse t = Inr False"
    by (simp add: isJsonRpcResponse_def v(1) isBatchResponse_def js_elems_def)
  show build: "buildNonJsonRpcError L t = t"
    using x(1) by (simp add: buildNonJsonRpcError_def isReverted_def v not reverted_def is_error_obj_def t
        v(1) [unfolded t])
  show "caught L spec payload legacy error t = Inl t"
    by (simp add: caught_def json build)
qed

lemma Eip838_error: "Eip838ExecutionError L v = Inl t \<Longrightarrow> settled_error t"
proof (induction L v arbitrary: t rule: Eip838ExecutionError.induct)
  case (1 L v)
  have ty: "settled_error (type_error ''Cannot read properties of undefined'')"
    "settled_error (type_error ''Cannot use in operator to search for a property'')"
    by (simp_all add: settled_error_def type_error_def simple_error_def includes_sub_def startsWith_def)
  have "msg_prop JFun k = JUndef" "typeof JUndef \<noteq> TObject" for k
    by (simp_all add: msg_prop_def typeof_def)
  with "1.prems" show ?case
    by (subst (asm) Eip838ExecutionError.simps)
      (auto simp: Let_def bindR_def ty split: if_splits sum.splits dest: "1.IH" [OF refl, rotated -1])
qed

lemma ContractExecution_settled:
  "settled_error (case ContractExecutionError L e of Inr x \<Rightarrow> Err x | Inl t \<Rightarrow> t)"
  using Eip838_error [of L e]
  by (auto simp: ContractExecutionError_def bindR_def settled_error_def [of "Err _"] includes_sub_def
      startsWith_def split: sum.splits)

lemma digits_no_v: "CHR ''v'' \<notin> set (int_str 10 n)"
proof
  have no: "\<not> is_digit_of 10 (CHR ''v'')" by (simp add: is_digit_of_def digit_val_def char_code_def)
  assume "CHR ''v'' \<in> set (int_str 10 n)"
  with no show False by (auto simp: int_str_def dest!: radix_str_digits [rotated -1] split: if_splits)
qed

text \<open>No text of an RPC code tells of a revert.\<close>

lemma rpc_texts: "list_all (\<lambda>(k, _, m). \<not> includes_sub m ''revert'') RpcErrorMessages"
  by (simp add: RpcErrorMessages_def includes_sub_def startsWith_def)

lemma rpc_text_no_revert: "\<not> includes_sub (rpc_text key) ''revert''"
proof (cases "map_of RpcErrorMessages key")
  case (Some nm)
  obtain a m where nm: "nm = (a, m)" by (cases nm)
  from map_of_SomeD [OF Some] rpc_texts have "\<not> includes_sub m ''revert''"
    by (auto simp: nm list_all_iff)
  then show ?thesis by (simp add: rpc_text_def Some nm)
qed (simp add: rpc_text_def includes_sub_def startsWith_def)

lemma rpc_error_settled: "settled_error (Err (rpc_error n w))"
proof (cases "map_of rpcErrorsMap n")
  case None
  have "CHR ''v'' \<notin> set (fst genericRpcErrorMessageTemplate @ int_str 10 n @ snd genericRpcErrorMessageTemplate)"
    using digits_no_v by (simp add: genericRpcErrorMessageTemplate_def)
  from not_includes [OF _ this, of "''revert''"] None show ?thesis
    by (simp add: rpc_error_def settled_error_def RpcError_def Let_def)
next
  case (Some cls)
  then show ?thesis using rpc_text_no_revert [of "int_str 10 n"] by (simp add: rpc_error_def Some settled_error_def RpcError_def Let_def)
qed

lemma error_meaning_settled: "settled_error (error_meaning L spec payload w s e)"
  using ContractExecution_settled rpc_error_settled
  by (auto simp: error_meaning_def settled_error_def [of "Err (ErrorObj _ _ _ _ _)"] returned_error_text
      simp del: append_Cons append_Nil split: option.split)

text \<open>
  C15: a response with an error is thrown as the one error it stands for: the class of its RPC code when
  that is asked for, a contract execution error with the decoded data when its text tells of a revert,
  an invalid response error otherwise. This holds for every kind of provider with promises, whether
  the promise resolves with the response or rejects with it, as no later handler wraps the error again.
\<close>

theorem send_throws_error:
  assumes "rm_provider m = Some p"
    and "isWeb3Provider p \<or> isEIP1193Provider p \<or> isLegacyRequestProvider p \<or>
         \<not> isLegacySendProvider p \<and> isLegacySendAsyncProvider p"
    and "node p payload = Resolved (Val w) \<or> node p payload = Rejected (Val w)"
    and "isResponseWithError w = Inr True" and "msg_prop w ''error'' = JObj kvs"
    and "obj_get kvs ''message'' = JStr s"
  shows "send_payload L m node payload =
    Settled (Inl (error_meaning L (useRpcCallSpecification m) payload w s (JObj kvs)))"
proof -
  let ?spec = "useRpcCallSpecification m"
  let ?t = "error_meaning L ?spec payload w s (JObj kvs)"
  obtain ws where w: "w = JObj ws" using assms(4) version_obj [of w]
    by (auto simp: isResponseWithError_def split: if_splits)
  then have view: "message_view (Val w) = w" by (simp add: message_view_def)
  have process: "processJsonRpcResponse L ?spec payload (Val w) legacy error = Inl ?t" for legacy error
    using assms(4) error_response_meaning [OF assms(4-6)]
    by (simp add: processJsonRpcResponse_def view) (simp add: w)
  have json: "isJsonRpcResponse (Val w) = Inr True"
    using assms(4) by (simp add: isJsonRpcResponse_def view) (simp add: w isBatchResponse_def js_elems_def)
  note settled = error_meaning_settled [of L ?spec payload w s "JObj kvs"]
  have "sendRequest L m node payload = Settled (Inl ?t)"
    using assms(1-3)
    by (auto simp: sendRequest_def Let_def send_web3_def then_catch_def send_legacy_request_def
        process json caught_settled [OF settled] reject_promise_def caught_def [of _ _ _ _ _ "Val w"])
  then show ?thesis by (simp add: send_payload_def)
qed

text \<open>A node that refuses a call since the code reverted, with the data of a custom error.\<close>

definition reverted_call :: jsval where
  "reverted_call = JObj [(''jsonrpc'', JStr ''2.0''), (''id'', JNum (NInt 7)),
     (''error'', JObj [(''code'', JNum (NInt 3)), (''message'', JStr ''execution reverted''),
                     (''data'', JStr ''0x12345678'')])]"

definition wallet_provider :: provider where
  "wallet_provider = PObject \<lparr>po_id = 0, po_symbol = False, po_request = Some ''AsyncFunction'',
     po_send = False, po_sendAsync = False, po_on = True, po_supports = None\<rparr>"

theorem send_throws_error_witness:
  "\<exists>x inner. send_payload lib_ref \<lparr>rm_provider = Some wallet_provider, useRpcCallSpecification = False\<rparr>
     (\<lambda>p payload. Rejected (Val reverted_call)) (JObj [(''id'', JNum (NInt 7))]) =
     Settled (Inl (Err x)) \<and> ob_class x = ''ContractExecutionError'' \<and> ob_inner x = Some inner \<and>
     ob_message inner = ''execution reverted'' \<and> map_of (ob_props inner) ''data'' = Some (JStr ''0x12345678'')"
proof -
  let ?kvs = "[(''code'', JNum (NInt 3)), (''message'', JStr ''execution reverted''),
     (''data'', JStr ''0x12345678'')]"
  have simps: "isEIP1193Provider wallet_provider" "isResponseWithError reverted_call = Inr True"
    "msg_prop reverted_call ''error'' = JObj ?kvs" "obj_get ?kvs ''message'' = JStr ''execution reverted''"
    by (simp_all add: wallet_provider_def isEIP1193Provider_def request_kind_def reverted_call_def
        isResponseWithError_def version_2_def msg_prop_def obj_get_def msg_has_def has_id_def typeof_def
        isArray_def js_truthy_def)
  have inner: "Eip838ExecutionError lib_ref (JObj ?kvs) = Inr (ErrorObj ''Eip838ExecutionError''
      ''execution reverted'' (JNum (NInt 3))
      [(''name'', JStr ''Eip838ExecutionError''), (''data'', JStr ''0x12345678'')] None)"
    by (subst Eip838ExecutionError.simps)
      (simp add: msg_prop_def obj_get_def typeof_def error_text_def error_name_def js_truthy_def
        template_text_def)
  have "includes_sub ''execution reverted'' ''revert''"
    by (simp add: includes_sub_def startsWith_def)
  then show ?thesis
    using send_throws_error [of "\<lparr>rm_provider = Some wallet_provider, useRpcCallSpecification = False\<rparr>"
        wallet_provider "\<lambda>p payload. Rejected (Val reverted_call)" "JObj [(''id'', JNum (NInt 7))]"
        reverted_call ?kvs "''execution reverted''" lib_ref] simps
    by (simp add: error_meaning_def ContractExecutionError_def inner)
qed

section \<open>Answers that are no messages\<close>

text \<open>
  A provider of the wallet kind may answer with the bare result: every value but null that is no
  JSON-RPC message is given as the result of the request that has an identifier.
\<close>

theorem bare_result:
  assumes "rm_provider m = Some p" and "\<not> isWeb3Provider p" and "isEIP1193Provider p"
    and "node p payload = Resolved (Val w)" and "\<not> is_error_obj (Val w)"
    and "\<not> isNullish w" and "isResponseWithError w = Inr False" and "\<not> isResponseWithResult w"
    and "\<not> isBatchRequest payload" and "has_id payload" and "msg_has payload ''id''"
  shows "send_payload L m node payload = Settled (Inr w)"
proof -
  have view: "message_view (Val w) = w" using assms(5)
    by (cases w) (simp_all add: message_view_def is_error_obj_def)
  have "processJsonRpcResponse L spec payload (Val w) True False = Inr (buildResponse payload w False)"
    for spec
    using assms(5-9) by (simp add: processJsonRpcResponse_def view other_response_def)
  then have "sendRequest L m node payload = Settled (Inr (buildResponse payload w False))"
    using assms(1-4) by (simp add: sendRequest_def Let_def then_catch_def)
  moreover have "isResponseWithResult (buildResponse payload w False)"
    "msg_prop (buildResponse payload w False) ''result'' = w"
    using assms(9-11) by (simp_all add: buildResponse_def isResponseWithResult_def version_2_def
        msg_prop_def obj_get_def msg_has_def has_id_def isArray_def js_truthy_def)
  ultimately show ?thesis by (simp add: send_payload_def result_of_response_def)
qed

theorem bare_result_witness:
  "send_payload lib_ref \<lparr>rm_provider = Some wallet_provider, useRpcCallSpecification = False\<rparr>
     (\<lambda>p payload. Resolved (Val (JArr [JStr ''Q1'', JStr ''Q2'']))) (JObj [(''id'', JStr ''u'')]) =
   Settled (Inr (JArr [JStr ''Q1'', JStr ''Q2'']))"
  by (rule bare_result [of _ wallet_provider])
    (simp_all add: wallet_provider_def isWeb3Provider_def isEIP1193Provider_def request_kind_def
      isResponseWithError_def isArray_def isResponseWithResult_def isBatchRequest_def js_elems_def
      has_id_def msg_prop_def obj_get_def typeof_def msg_has_def is_error_obj_def)

section \<open>Gaps\<close>

text \<open>
  A provider with callbacks that passes a response with an error, later, leaves the request open: the
  exception of the manager leaves the callback.
\<close>

lemma late_callback_error_open:
  assumes "rm_provider m = Some old_provider"
    and "node old_provider payload = Called False (Val JNull) (Val reverted_call)"
  shows "\<exists>e. send_payload L m node payload = Escaped e"
proof -
  have we: "isResponseWithError reverted_call = Inr True"
    by (simp add: reverted_call_def isResponseWithError_def version_2_def msg_prop_def obj_get_def
        msg_has_def has_id_def typeof_def isArray_def js_truthy_def)
  have "processJsonRpcResponse L spec payload (Val reverted_call) legacy error =
      Inl (error_meaning L spec payload reverted_call ''execution reverted''
        (JObj [(''code'', JNum (NInt 3)), (''message'', JStr ''execution reverted''),
               (''data'', JStr ''0x12345678'')]))" for spec legacy error
    using we error_response_meaning [OF we, of _ "''execution reverted''"]
    by (simp add: processJsonRpcResponse_def message_view_def)
      (simp add: reverted_call_def msg_prop_def obj_get_def)
  then show ?thesis using assms
    by (simp add: send_payload_def sendRequest_def old_provider_def isWeb3Provider_def
        isEIP1193Provider_def isLegacyRequestProvider_def request_kind_def send_legacy_request_def
        thrown_truthy_def js_truthy_def resolve_callback_def escape_def Let_def)
qed

text \<open>A response to a request with another identifier is taken for the response to this one.\<close>

lemma wrong_id_accepted:
  assumes "rm_provider m = Some (PHttp url)"
    and "node (PHttp url) payload = Resolved (Val block_number_response)"
  shows "send_payload L m node payload = Settled (Inr (JStr ''0x10''))"
  using assms
  by (simp add: send_payload_def sendRequest_def isWeb3Provider_def send_web3_def
      processJsonRpcResponse_def message_view_def block_number_response_def isResponseWithError_def
      result_of_response_def isResponseWithResult_def msg_prop_def msg_has_def obj_get_def version_2_def
      has_id_def typeof_def isArray_def js_truthy_def)

text \<open>A response with both members null is answered with a type error instead of a null result.\<close>

lemma null_error_member:
  assumes "rm_provider m = Some (PHttp url)" and "\<not> useRpcCallSpecification m"
    and "node (PHttp url) payload = Resolved (Val (JObj [(''jsonrpc'', JStr ''2.0''),
      (''id'', JNum (NInt 7)), (''result'', JNull), (''error'', JNull)]))"
  shows "send_payload L m node payload = Settled (Inl (type_error ''Cannot read properties of undefined''))"
  using assms
  by (simp add: send_payload_def sendRequest_def isWeb3Provider_def send_web3_def
      processJsonRpcResponse_def message_view_def isResponseWithError_def error_response_def
      isReverted_def reverted_def InvalidResponseError_def ResponseError_def response_message_def
      buildErrorMessage_def read_field_def msg_prop_def msg_has_def obj_get_def version_2_def
      has_id_def typeof_def isArray_def js_truthy_def js_elems_def Let_def)

end
