(* ===== verification/Batch.thy ===== *)
theory Batch
  imports ManagerProps "HOL-Library.Multiset"
begin

text \<open>
  Batches of requests: a map from the identifier of each request to its payload and promise, and the
  one run of it, which the answer of the provider and the timer of the batch promise settle.
\<close>

section \<open>Requests\<close>

definition DEFAULT_BATCH_REQUEST_TIMEOUT :: nat where "DEFAULT_BATCH_REQUEST_TIMEOUT = 1000"

type_synonym batch_requests = "(jsval, jsval \<times> deferred) jsmap"

definition batch_payloads :: "batch_requests \<Rightarrow> jsval list" where
  "batch_payloads rqs = map (\<lambda>(_, payload, _). payload) rqs"

definition batch_add ::
  "string \<Rightarrow> int option \<Rightarrow> optional_request \<Rightarrow> batch_requests \<Rightarrow> batch_requests \<times> int option" where
  "batch_add uuid seed request rqs =
     (case toPayload uuid seed request of
        (payload, seed') \<Rightarrow>
          (AList.update (msg_prop payload ''id'') (payload, new_deferred 0 False) rqs, seed'))"

text \<open>Settling the promise of a request, when there is one of that identifier.\<close>

definition settle_entry :: "jsval \<Rightarrow> outcome \<Rightarrow> batch_requests \<Rightarrow> batch_requests" where
  "settle_entry i oc rqs = (case map_of rqs i of
      Some (payload, d) \<Rightarrow> AList.update i (payload, df_settle oc d) rqs | None \<Rightarrow> rqs)"

definition abortAllRequests :: "string \<Rightarrow> batch_requests \<Rightarrow> batch_requests" where
  "abortAllRequests m rqs =
     map (\<lambda>(i, payload, d). (i, payload, df_settle (Reject (JErr (err_class ''OperationAbortError'' m))) d)) rqs"

section \<open>Comparing identifiers\<close>

text \<open>\<^verbatim>\<open>Number(v)\<close> of an identifier; the number of a text that is no decimal numeral is the runtime's.\<close>

definition id_number :: "lib \<Rightarrow> jsval \<Rightarrow> jsnum" where
  "id_number L v = (case v of
      JNum n \<Rightarrow> n
    | JStr s \<Rightarrow> if s \<noteq> [] \<and> list_all is_dec_char s then NInt (int (digits_val 10 s)) else num_parse L s
    | JNull \<Rightarrow> NInt 0
    | JBool b \<Rightarrow> NInt (if b then 1 else 0)
    | JBig i \<Rightarrow> NInt i
    | _ \<Rightarrow> NNaN)"

text \<open>\<^verbatim>\<open>a - b < 0\<close>.\<close>

fun num_less :: "jsnum \<Rightarrow> jsnum \<Rightarrow> bool" where
  "num_less (NInt a) (NInt b) = (a < b)"
| "num_less (NInt a) (NFrac q) = (of_int a < q)"
| "num_less (NFrac q) (NInt b) = (q < of_int b)"
| "num_less (NFrac q) (NFrac r) = (q < r)"
| "num_less (NInf neg) (NInf neg') = (neg \<and> \<not> neg')"
| "num_less (NInf neg) (NInt _) = neg"
| "num_less (NInf neg) (NFrac _) = neg"
| "num_less (NInt _) (NInf neg) = (\<not> neg)"
| "num_less (NFrac _) (NInf neg) = (\<not> neg)"
| "num_less NNaN _ = False"
| "num_less _ NNaN = False"

fun insert_num :: "jsnum \<Rightarrow> jsnum list \<Rightarrow> jsnum list" where
  "insert_num x [] = [x]"
| "insert_num x (y # ys) = (if num_less y x then y # insert_num x ys else x # y # ys)"

definition sort_nums :: "jsnum list \<Rightarrow> jsnum list" where
  "sort_nums xs = foldr insert_num xs []"

text \<open>What \<^verbatim>\<open>JSON.stringify\<close> shows of a number: nothing but \<^verbatim>\<open>null\<close> of those that are not finite.\<close>

definition shown_num :: "jsnum \<Rightarrow> jsnum option" where
  "shown_num n = (case n of NInf _ \<Rightarrow> None | NNaN \<Rightarrow> None | _ \<Rightarrow> Some n)"

definition same_ids :: "lib \<Rightarrow> jsval list \<Rightarrow> jsval list \<Rightarrow> bool" where
  "same_ids L is js \<longleftrightarrow>
     map shown_num (sort_nums (map (id_number L) is)) = map shown_num (sort_nums (map (id_number L) js))"

section \<open>The run of a batch\<close>

record batch_run =
  bx_requests :: batch_requests
  bx_result :: "(thrown + jsval) option"
  bx_timer :: bool

definition is_timeout :: "thrown + jsval \<Rightarrow> bool" where
  "is_timeout r = (case r of
      Inl (Err e) \<Rightarrow> ob_class e = ''OperationTimeoutError'' | _ \<Rightarrow> False)"

text \<open>The batch promise keeps its first outcome; its handler aborts the requests on a timeout.\<close>

definition settle_batch :: "thrown + jsval \<Rightarrow> batch_run \<Rightarrow> batch_run" where
  "settle_batch r s =
     (if bx_result s \<noteq> None then s\<lparr>bx_timer := False\<rparr>
      else s\<lparr>bx_result := Some r, bx_timer := False,
             bx_requests := (if is_timeout r then abortAllRequests ''Batch request timeout'' (bx_requests s)
                             else bx_requests s)\<rparr>)"

definition batch_execute :: "nat option \<Rightarrow> batch_requests \<Rightarrow> batch_run" where
  "batch_execute timeout rqs =
     (if rqs = [] then \<lparr>bx_requests = [], bx_result = Some (Inr (JArr [])), bx_timer = False\<rparr>
      else \<lparr>bx_requests = rqs, bx_result = None,
            bx_timer = (0 < (case timeout of Some t \<Rightarrow> t | None \<Rightarrow> DEFAULT_BATCH_REQUEST_TIMEOUT))\<rparr>)"

definition batch_timer :: "batch_run \<Rightarrow> batch_run" where
  "batch_timer s =
     (if bx_timer s
      then settle_batch (Inl (Err (simple_error ''OperationTimeoutError'' ''Batch request timeout''
             (JNum (NInt (err ''ERR_OPERATION_TIMEOUT'')))))) s
      else s)"

fun response_ids :: "jsval list \<Rightarrow> thrown + jsval list" where
  "response_ids [] = Inr []"
| "response_ids (r # rs) =
     bindR (read_field r ''id'') (\<lambda>i. bindR (response_ids rs) (\<lambda>is. Inr (i # is)))"

definition settle_response :: "jsval \<Rightarrow> batch_requests \<Rightarrow> batch_requests" where
  "settle_response r rqs =
     (if isResponseWithResult r then settle_entry (msg_prop r ''id'') (Resolve (msg_prop r ''result'')) rqs
      else if isResponseWithError r = Inr True
      then settle_entry (msg_prop r ''id'') (Reject (msg_prop r ''error'')) rqs
      else rqs)"

definition reject_responses :: "lib \<Rightarrow> jsval \<Rightarrow> string \<Rightarrow> batch_run \<Rightarrow> batch_run" where
  "reject_responses L response m s =
     settle_batch (Inl (case ResponseError L response (Some m) JUndef of Inl e \<Rightarrow> e | Inr e \<Rightarrow> Err e))
       (s\<lparr>bx_requests := abortAllRequests ''Invalid batch response'' (bx_requests s)\<rparr>)"

definition batch_response :: "lib \<Rightarrow> jsval \<Rightarrow> batch_run \<Rightarrow> batch_run" where
  "batch_response L response s = (case js_elems response of
      None \<Rightarrow> reject_responses L response ''Batch request size mismatch the results size.'' s
    | Some rs \<Rightarrow>
        if length rs \<noteq> length (bx_requests s)
        then reject_responses L response ''Batch request size mismatch the results size.'' s
        else (case response_ids rs of
            Inl e \<Rightarrow> settle_batch (Inl e) s
          | Inr is \<Rightarrow>
              if \<not> same_ids L (map (\<lambda>p. msg_prop p ''id'') (batch_payloads (bx_requests s))) is
              then reject_responses L response ''Batch request mismatch the results.'' s
              else settle_batch (Inr response) (s\<lparr>bx_requests := fold settle_response rs (bx_requests s)\<rparr>)))"

text \<open>\<^verbatim>\<open>_processBatchRequest\<close> with what the request manager made of the answer.\<close>

definition batch_answer :: "lib \<Rightarrow> sent \<Rightarrow> batch_run \<Rightarrow> batch_run" where
  "batch_answer L answer s = (case answer of
      Settled (Inr response) \<Rightarrow> batch_response L response s
    | Settled (Inl e) \<Rightarrow> settle_batch (Inl e) s
    | _ \<Rightarrow> s)"

end
