(* ===== verification/BatchProps.thy ===== *)
theory BatchProps
  imports Batch
begin

text \<open>What becomes of the requests of a batch.\<close>

section \<open>Sorting and comparing\<close>

lemma insert_num_ints: "insert_num (NInt x) (map NInt ys) = map NInt (insort x ys)"
  by (induction ys) auto

lemma sort_nums_ints: "sort_nums (map NInt xs) = map NInt (sort xs)"
proof (induction xs)
  case (Cons x xs)
  then show ?case by (simp add: sort_nums_def insert_num_ints sort_key_def)
qed (simp add: sort_nums_def)

lemma sort_eq_iff: "sort xs = sort ys \<longleftrightarrow> mset xs = mset (ys :: int list)"
  by (metis mset_sort properties_for_sort sorted_sort)

definition int_id :: "int \<Rightarrow> jsval" where "int_id n = JNum (NInt n)"

lemma mset_int_id: "mset (map int_id xs) = mset (map int_id ys) \<longleftrightarrow> mset xs = mset ys"
proof -
  define g where "g v = (case v of JNum (NInt n) \<Rightarrow> n | _ \<Rightarrow> 0)" for v
  have "image_mset g (mset (map int_id zs)) = mset zs" for zs
    by (induction zs) (simp_all add: g_def int_id_def)
  then show ?thesis by (metis mset_map)
qed

lemma same_ids_ints: "same_ids L (map int_id xs) (map int_id ys) \<longleftrightarrow> mset xs = mset ys"
proof -
  have n: "map (id_number L) (map int_id zs) = map NInt zs" for zs
    by (induction zs) (simp_all add: id_number_def int_id_def)
  have "inj (shown_num \<circ> NInt)" by (simp add: inj_def shown_num_def)
  then have "map shown_num (map NInt as) = map shown_num (map NInt bs) \<longleftrightarrow> as = bs" for as bs
    unfolding map_map by (rule inj_map_eq_map)
  then show ?thesis unfolding same_ids_def n sort_nums_ints by (simp add: sort_eq_iff)
qed

section \<open>Settling the requests\<close>

text \<open>A well-formed response, and what the promise of its request gets.\<close>

definition response_message_ok :: "jsval \<Rightarrow> bool" where
  "response_message_ok r \<longleftrightarrow> isResponseWithResult r \<or> isResponseWithError r = Inr True"

definition message_outcome :: "jsval \<Rightarrow> outcome" where
  "message_outcome r = (if isResponseWithResult r then Resolve (msg_prop r ''result'')
                        else Reject (msg_prop r ''error''))"

lemma settle_response_entry:
  "response_message_ok r \<Longrightarrow> settle_response r rqs = settle_entry (msg_prop r ''id'') (message_outcome r) rqs"
  by (auto simp: settle_response_def response_message_ok_def message_outcome_def)

lemma map_of_settle_entry:
  "map_of (settle_entry i oc rqs) j =
     (if i = j then map_option (\<lambda>(p, d). (p, df_settle oc d)) (map_of rqs j) else map_of rqs j)"
  by (auto simp: settle_entry_def update_conv split: option.split)

lemma map_of_settle_other:
  "list_all response_message_ok rs \<Longrightarrow> i \<notin> (\<lambda>r. msg_prop r ''id'') ` set rs \<Longrightarrow>
   map_of (fold settle_response rs rqs) i = map_of rqs i"
  by (induction rs arbitrary: rqs) (auto simp: settle_response_entry map_of_settle_entry)

lemma map_of_settled:
  assumes "list_all response_message_ok rs" and "distinct (map (\<lambda>r. msg_prop r ''id'') rs)"
    and "r \<in> set rs" and "map_of rqs (msg_prop r ''id'') = Some (p, d)"
  shows "map_of (fold settle_response rs rqs) (msg_prop r ''id'') = Some (p, df_settle (message_outcome r) d)"
  using assms
proof (induction rs arbitrary: rqs)
  case (Cons x rs)
  show ?case
  proof (cases "x = r")
    case True
    then show ?thesis using Cons.prems
      by (simp add: settle_response_entry map_of_settle_other map_of_settle_entry)
  next
    case False
    with Cons.prems have "msg_prop x ''id'' \<noteq> msg_prop r ''id''" by force
    with False Cons show ?thesis by (simp add: settle_response_entry map_of_settle_entry)
  qed
qed simp

lemma map_of_abort:
  "map_of (abortAllRequests m rqs) i = map_option (\<lambda>(p, d).
     (p, df_settle (Reject (JErr (err_class ''OperationAbortError'' m))) d)) (map_of rqs i)"
  by (induction rqs) (auto simp: abortAllRequests_def)

lemma abort_settles:
  assumes "map_of rqs i = Some (p, d)"
  shows "\<exists>d'. map_of (abortAllRequests m rqs) i = Some (p, d') \<and> df_promise d' \<noteq> None"
  using assms by (auto simp: map_of_abort df_settle_def split: option.split)

text \<open>A batch whose requests are pending and kept under the integers of their payloads.\<close>

definition fresh_batch :: "batch_requests \<Rightarrow> bool" where
  "fresh_batch rqs \<longleftrightarrow>
     rqs \<noteq> [] \<and> distinct (map fst rqs) \<and> (\<exists>ks. map fst rqs = map int_id ks) \<and>
     list_all (\<lambda>(i, p, d). msg_prop p ''id'' = i \<and> df_promise d = None) rqs"

lemma fresh_ids: "fresh_batch rqs \<Longrightarrow> map (\<lambda>p. msg_prop p ''id'') (batch_payloads rqs) = map fst rqs"
  by (auto simp: fresh_batch_def batch_payloads_def list_all_iff)

lemma read_ids: "list_all response_message_ok rs \<Longrightarrow> response_ids rs = Inr (map (\<lambda>r. msg_prop r ''id'') rs)"
proof (induction rs)
  case (Cons r rs)
  then have "\<not> isNullish r"
    by (auto simp: response_message_ok_def isResponseWithError_def result_not_nullish split: if_splits)
  with Cons show ?case by (simp add: read_field_def)
qed simp


definition sample_batch :: batch_requests where
  "sample_batch = fst (batch_add ''u'' (Some 1) \<lparr>or_jsonrpc = JUndef, or_id = JUndef,
       or_method = JStr ''qrl_chainId'', or_params = JArr []\<rparr>
     (fst (batch_add ''u'' (Some 0) \<lparr>or_jsonrpc = JUndef, or_id = JUndef,
       or_method = JStr ''qrl_blockNumber'', or_params = JArr []\<rparr> [])))"

definition answer_to :: "int \<Rightarrow> string \<Rightarrow> jsval" where
  "answer_to n r = JObj [(''jsonrpc'', JStr ''2.0''), (''id'', int_id n), (''result'', JStr r)]"

lemma answer_to_ok [simp]:
  "response_message_ok (answer_to n r)" "msg_prop (answer_to n r) ''id'' = int_id n"
  "message_outcome (answer_to n r) = Resolve (JStr r)"
  by (simp_all add: answer_to_def response_message_ok_def isResponseWithResult_def version_2_def
      msg_prop_def obj_get_def msg_has_def has_id_def typeof_def isArray_def js_truthy_def
      message_outcome_def int_id_def)

lemma sample_batch_eq: "sample_batch =
  [(int_id 1, JObj [(''jsonrpc'', JStr ''2.0''), (''id'', int_id 1), (''method'', JStr ''qrl_blockNumber''),
      (''params'', JArr [])], new_deferred 0 False),
   (int_id 2, JObj [(''jsonrpc'', JStr ''2.0''), (''id'', int_id 2), (''method'', JStr ''qrl_chainId''),
      (''params'', JArr [])], new_deferred 0 False)]"
  by (simp add: sample_batch_def batch_add_def toPayload_def nullish_or_def msg_prop_def obj_get_def
      Let_def int_id_def)

lemma sample_batch_fresh: "fresh_batch sample_batch"
proof -
  have "map fst sample_batch = map int_id [1, 2]" by (simp add: sample_batch_eq)
  then show ?thesis unfolding fresh_batch_def
    by (intro conjI exI [of _ "[1, 2]"])
      (simp_all add: sample_batch_eq int_id_def msg_prop_def obj_get_def new_deferred_def Let_def)
qed


section \<open>Timeouts and failures\<close>

text \<open>Nothing that happens to a batch changes a promise that is settled.\<close>

definition keeps_settled :: "batch_requests \<Rightarrow> batch_requests \<Rightarrow> bool" where
  "keeps_settled rqs rqs' \<longleftrightarrow> (\<forall>i p d oc. map_of rqs i = Some (p, d) \<and> df_promise d = Some oc \<longrightarrow>
     (\<exists>d'. map_of rqs' i = Some (p, d') \<and> df_promise d' = Some oc))"

lemma keeps_settled_refl [simp]: "keeps_settled rqs rqs"
  by (auto simp: keeps_settled_def)

lemma keeps_settled_trans: "keeps_settled a b \<Longrightarrow> keeps_settled b c \<Longrightarrow> keeps_settled a c"
  unfolding keeps_settled_def by blast

lemma keeps_settle_entry [simp]: "keeps_settled rqs (settle_entry i oc rqs)"
  by (auto simp: keeps_settled_def map_of_settle_entry df_settle_def)

lemma keeps_abort [simp]: "keeps_settled rqs (abortAllRequests m rqs)"
  by (auto simp: keeps_settled_def map_of_abort df_settle_def)

lemma keeps_settle_response [simp]: "keeps_settled rqs (settle_response r rqs)"
  by (simp add: settle_response_def)

lemma keeps_fold_responses: "keeps_settled rqs (fold settle_response rs rqs)"
proof (induction rs arbitrary: rqs)
  case (Cons r rs)
  then show ?case using keeps_settled_trans [OF keeps_settle_response Cons.IH] by simp
qed simp

lemma keeps_settle_batch: "keeps_settled (bx_requests s) (bx_requests (settle_batch r s))"
  by (simp add: settle_batch_def)

lemma keeps_reject: "keeps_settled (bx_requests s) (bx_requests (reject_responses L r m s))"
  unfolding reject_responses_def
  by (rule keeps_settled_trans [OF _ keeps_settle_batch]) simp

lemma keeps_answer: "keeps_settled (bx_requests s) (bx_requests (batch_answer L answer s))"
proof -
  have "keeps_settled (bx_requests s) (bx_requests (settle_batch r (s\<lparr>bx_requests := fold settle_response rs (bx_requests s)\<rparr>)))"
    for r rs
    by (rule keeps_settled_trans [OF _ keeps_settle_batch]) (simp add: keeps_fold_responses)
  then show ?thesis
    by (auto simp: batch_answer_def batch_response_def keeps_settle_batch keeps_reject
        split: sent.split sum.split option.split)
qed

lemma result_kept: "bx_result s = Some r \<Longrightarrow> bx_result (batch_answer L answer s) = Some r"
  by (auto simp: batch_answer_def batch_response_def reject_responses_def settle_batch_def
      split: sent.split sum.split option.split)

text \<open>
  When the timer of a running batch fires, the batch fails and every pending request with it, and
  no answer that still comes changes any of it.
\<close>

theorem batch_times_out:
  assumes "bx_timer s" and "bx_result s = None" and "map_of (bx_requests s) i = Some (p, d)"
  shows "\<exists>d' e. map_of (bx_requests (batch_answer L answer (batch_timer s))) i = Some (p, d') \<and>
      df_promise d' = (case df_promise d of
         None \<Rightarrow> Some (Reject (JErr (err_class ''OperationAbortError'' ''Batch request timeout'')))
       | Some oc \<Rightarrow> Some oc) \<and>
      bx_result (batch_answer L answer (batch_timer s)) = Some (Inl (Err e)) \<and>
      ob_class e = ''OperationTimeoutError''"
proof -
  let ?oc = "case df_promise d of
      None \<Rightarrow> Reject (JErr (err_class ''OperationAbortError'' ''Batch request timeout'')) | Some oc \<Rightarrow> oc"
  have fired: "map_of (bx_requests (batch_timer s)) i =
      Some (p, df_settle (Reject (JErr (err_class ''OperationAbortError'' ''Batch request timeout''))) d)"
    using assms by (simp add: batch_timer_def settle_batch_def is_timeout_def simple_error_def map_of_abort)
  have "df_promise (df_settle (Reject (JErr (err_class ''OperationAbortError'' ''Batch request timeout''))) d) =
      Some ?oc"
    by (simp add: df_settle_def split: option.split)
  with fired keeps_answer [of "batch_timer s" L answer]
  obtain d' where "map_of (bx_requests (batch_answer L answer (batch_timer s))) i = Some (p, d')"
    "df_promise d' = Some ?oc"
    unfolding keeps_settled_def by blast
  moreover obtain e where "bx_result (batch_timer s) = Some (Inl (Err e))" "ob_class e = ''OperationTimeoutError''"
    using assms by (simp add: batch_timer_def settle_batch_def simple_error_def)
  ultimately show ?thesis using result_kept by (force split: option.splits)
qed

theorem batch_times_out_witness:
  "\<exists>s' p d. s' = batch_answer lib_ref (Settled (Inr (JArr [answer_to 1 ''0x10'', answer_to 2 ''0x1''])))
       (batch_timer (batch_execute (Some 50) sample_batch)) \<and>
     map_of (bx_requests s') (int_id 1) = Some (p, d) \<and>
     df_promise d = Some (Reject (JErr (err_class ''OperationAbortError'' ''Batch request timeout'')))"
proof -
  let ?s = "batch_execute (Some 50) sample_batch"
  have "bx_timer ?s" "bx_result ?s = None" "bx_requests ?s = sample_batch"
    by (simp_all add: batch_execute_def sample_batch_eq)
  moreover have "\<exists>p. map_of sample_batch (int_id 1) = Some (p, new_deferred 0 False)"
    by (simp add: sample_batch_eq)
  moreover have "df_promise (new_deferred 0 False) = None" by (simp add: new_deferred_def Let_def)
  ultimately show ?thesis
    using batch_times_out [of ?s "int_id 1" _ _ lib_ref
        "Settled (Inr (JArr [answer_to 1 ''0x10'', answer_to 2 ''0x1'']))"] by fastforce
qed

text \<open>
  When the request of the batch itself fails, only the batch promise is rejected: the requests stay
  pending. So do, by default, requests whose responses have other identifiers, as the default ones are no
  numbers and all compare equal.
\<close>

lemma failed_batch_leaves_requests:
  assumes "bx_result s = None" and "\<not> is_timeout (Inl e)"
  shows "bx_requests (batch_answer L (Settled (Inl e)) s) = bx_requests s"
  using assms by (simp add: batch_answer_def settle_batch_def)

lemma foreign_ids_leave_requests:
  assumes "num_parse L ''a1'' = NNaN" and "num_parse L ''b2'' = NNaN"
    and "rqs = [(JStr ''a1'', JObj [(''id'', JStr ''a1'')], d)]"
  shows "bx_requests (batch_answer L (Settled (Inr (JArr [JObj [(''jsonrpc'', JStr ''2.0''),
      (''id'', JStr ''b2''), (''result'', JNull)]]))) (batch_execute None rqs)) = rqs"
  using assms
  by (simp add: batch_answer_def batch_execute_def DEFAULT_BATCH_REQUEST_TIMEOUT_def batch_response_def
      js_elems_def read_field_def msg_prop_def obj_get_def same_ids_def batch_payloads_def id_number_def
      list_all_iff is_digit_of_def digit_val_def char_code_def sort_nums_def settle_batch_def
      is_timeout_def settle_response_def settle_entry_def)

end
