(* ===== verification/Config.thy ===== *)
theory Config
  imports Manager Converters
begin

text \<open>
  The configuration of a context, the contexts that follow it and the constructor of a context. A
  configuration is the object of its options; the contexts are numbered, and a link says which one
  takes over the changes of which.
\<close>

section \<open>Options\<close>

type_synonym config = "(string \<times> jsval) list"

definition default_config :: config where
  "default_config =
     [(''handleRevert'', JBool False), (''defaultAccount'', JUndef), (''defaultBlock'', JStr ''latest''),
      (''transactionBlockTimeout'', JNum (NInt 50)), (''transactionConfirmationBlocks'', JNum (NInt 24)),
      (''transactionPollingInterval'', JNum (NInt 1000)),
      (''transactionPollingTimeout'', JNum (NInt (750 * 1000))),
      (''transactionReceiptPollingInterval'', JUndef),
      (''transactionSendTimeout'', JNum (NInt (750 * 1000))),
      (''transactionConfirmationPollingInterval'', JUndef), (''blockHeaderTimeout'', JNum (NInt 10)),
      (''maxListenersWarningThreshold'', JNum (NInt 100)), (''contractDataInputFill'', JStr ''input''),
      (''defaultNetworkId'', JUndef), (''defaultChain'', JStr ''mainnet''),
      (''defaultHardfork'', JStr ''zond''), (''defaultCommon'', JUndef),
      (''defaultTransactionType'', JStr ''0x2''),
      (''defaultMaxPriorityFeePerGas'', JStr ''0x9502f900''),
      (''enableExperimentalFeatures'',
        JObj [(''useSubscriptionWhenCheckingBlockTimeout'', JBool False),
              (''useRpcCallSpecification'', JBool False)]),
      (''transactionBuilder'', JUndef), (''transactionTypeParser'', JUndef)]"

definition option_of :: "config \<Rightarrow> string \<Rightarrow> jsval" where
  "option_of c name = obj_get c name"

text \<open>\<^verbatim>\<open>Object.assign(this.config, options)\<close>.\<close>

definition setConfig :: "(string \<times> jsval) list \<Rightarrow> config \<Rightarrow> config" where
  "setConfig options c = fold (\<lambda>(k, v). AList.update k v) options c"

section \<open>Linked contexts\<close>

record contexts =
  cx_config :: "nat \<Rightarrow> config"
  cx_links :: "(nat \<times> nat) list"
  cx_next :: nat
  cx_emitted :: "(nat \<times> string \<times> jsval \<times> jsval) list"
  cx_maxListeners :: "nat \<Rightarrow> jsval"

definition followers :: "contexts \<Rightarrow> nat \<Rightarrow> nat list" where
  "followers w p = map snd (filter (\<lambda>l. fst l = p) (cx_links w))"

definition assign_in :: "nat \<Rightarrow> (string \<times> jsval) list \<Rightarrow> contexts \<Rightarrow> contexts" where
  "assign_in c options w = w\<lparr>cx_config := (cx_config w)(c := setConfig options (cx_config w c))\<rparr>"

text \<open>
  The event of a change goes to the listeners in the order they came: the contexts that follow this
  one take over the new value.
\<close>

definition triggerConfigChange :: "nat \<Rightarrow> string \<Rightarrow> jsval \<Rightarrow> contexts \<Rightarrow> contexts" where
  "triggerConfigChange c name new w =
     fold (\<lambda>d. assign_in d [(name, new)]) (followers w c)
       (w\<lparr>cx_emitted := cx_emitted w @ [(c, name, option_of (cx_config w c) name, new)]\<rparr>)"

definition set_option :: "nat \<Rightarrow> string \<Rightarrow> jsval \<Rightarrow> contexts \<Rightarrow> contexts" where
  "set_option c name new w = assign_in c [(name, new)] (triggerConfigChange c name new w)"

text \<open>The setters, in the order of the class; those that only announce and store their value first.\<close>

definition call_options :: "string list" where
  "call_options =
     [''handleRevert'', ''contractDataInputFill'', ''defaultAccount'', ''defaultBlock'',
      ''transactionSendTimeout'', ''transactionBlockTimeout'', ''transactionConfirmationBlocks'']"

definition polling_options :: "string list" where
  "polling_options =
     [''transactionPollingTimeout'', ''transactionReceiptPollingInterval'',
      ''transactionConfirmationPollingInterval'', ''blockHeaderTimeout'', ''enableExperimentalFeatures'']"

definition transaction_options :: "string list" where
  "transaction_options =
     [''defaultNetworkId'', ''defaultTransactionType'', ''defaultMaxPriorityFeePerGas'',
      ''transactionBuilder'', ''transactionTypeParser'']"

definition set_transactionPollingInterval :: "nat \<Rightarrow> jsval \<Rightarrow> contexts \<Rightarrow> contexts" where
  "set_transactionPollingInterval c val w =
     set_option c ''transactionConfirmationPollingInterval'' val
       (set_option c ''transactionReceiptPollingInterval'' val
         (set_option c ''transactionPollingInterval'' val w))"

text \<open>The runtime's \<^verbatim>\<open>setMaxListeners\<close> refuses what is no number from zero up.\<close>

definition set_maxListeners :: "nat \<Rightarrow> jsval \<Rightarrow> (contexts, js_error, unit) action" where
  "set_maxListeners c val w =
     (let w1 = triggerConfigChange c ''maxListenersWarningThreshold'' val w in
      if (case val of JNum (NInt n) \<Rightarrow> 0 \<le> n | JNum (NFrac q) \<Rightarrow> 0 \<le> q | JNum (NInf neg) \<Rightarrow> \<not> neg
          | _ \<Rightarrow> False)
      then (Inr (), assign_in c [(''maxListenersWarningThreshold'', val)]
                      (w1\<lparr>cx_maxListeners := (cx_maxListeners w1)(c := val)\<rparr>))
      else (Inl (err_class ''RangeError'' ''The value of n is out of range''), w1))"

definition common_field :: "config \<Rightarrow> string \<Rightarrow> jsval" where
  "common_field c k = msg_prop (option_of c ''defaultCommon'') k"

definition set_defaultChain :: "nat \<Rightarrow> jsval \<Rightarrow> (contexts, js_error, unit) action" where
  "set_defaultChain c val w =
     (let b = common_field (cx_config w c) ''baseChain'' in
      if \<not> isNullish b \<and> val \<noteq> b
      then (Inl (err_class ''ConfigChainMismatchError'' ''Web3Config chain doesnt match''), w)
      else (Inr (), set_option c ''defaultChain'' val w))"

definition set_defaultHardfork :: "nat \<Rightarrow> jsval \<Rightarrow> (contexts, js_error, unit) action" where
  "set_defaultHardfork c val w =
     (let h = common_field (cx_config w c) ''hardfork'' in
      if \<not> isNullish h \<and> val \<noteq> h
      then (Inl (err_class ''ConfigHardforkMismatchError'' ''Web3Config hardfork doesnt match''), w)
      else (Inr (), set_option c ''defaultHardfork'' val w))"

definition set_defaultCommon :: "nat \<Rightarrow> jsval \<Rightarrow> (contexts, js_error, unit) action" where
  "set_defaultCommon c val w =
     (let hf = option_of (cx_config w c) ''defaultHardfork''; ch = option_of (cx_config w c) ''defaultChain'' in
      if \<not> isNullish hf \<and> \<not> isNullish (msg_prop val ''hardfork'') \<and> hf \<noteq> msg_prop val ''hardfork''
      then (Inl (err_class ''ConfigHardforkMismatchError'' ''Web3Config hardfork doesnt match''), w)
      else if \<not> isNullish ch \<and> \<not> isNullish (msg_prop val ''baseChain'') \<and> ch \<noteq> msg_prop val ''baseChain''
      then (Inl (err_class ''ConfigChainMismatchError'' ''Web3Config chain doesnt match''), w)
      else (Inr (), set_option c ''defaultCommon'' val w))"

definition setter :: "nat \<Rightarrow> string \<Rightarrow> jsval \<Rightarrow> (contexts, js_error, unit) action" where
  "setter c name val =
     (if name \<in> set (call_options @ polling_options @ transaction_options)
      then (\<lambda>w. (Inr (), set_option c name val w))
      else if name = ''transactionPollingInterval''
      then (\<lambda>w. (Inr (), set_transactionPollingInterval c val w))
      else if name = ''maxListenersWarningThreshold'' then set_maxListeners c val
      else if name = ''defaultChain'' then set_defaultChain c val
      else if name = ''defaultHardfork'' then set_defaultHardfork c val
      else if name = ''defaultCommon'' then set_defaultCommon c val
      else (\<lambda>w. (Inr (), w)))"

section \<open>Making contexts\<close>

definition new_context :: "(string \<times> jsval) list \<Rightarrow> contexts \<Rightarrow> nat \<times> contexts" where
  "new_context options w =
     (cx_next w, w\<lparr>cx_config := (cx_config w)(cx_next w := setConfig options default_config),
                   cx_next := Suc (cx_next w)\<rparr>)"

text \<open>\<^verbatim>\<open>use\<close>: a child made from the configuration of this context that follows it.\<close>

definition use_context :: "nat \<Rightarrow> contexts \<Rightarrow> nat \<times> contexts" where
  "use_context p w =
     (case new_context (cx_config w p) w of
        (c, w') \<Rightarrow> (c, w'\<lparr>cx_links := cx_links w' @ [(p, c)]\<rparr>))"

definition link_config :: "nat \<Rightarrow> nat \<Rightarrow> contexts \<Rightarrow> contexts" where
  "link_config c p w =
     (let w' = assign_in c (cx_config w p) w in w'\<lparr>cx_links := cx_links w' @ [(p, c)]\<rparr>)"

text \<open>The request manager the constructor makes from its options.\<close>

definition context_manager ::
  "config option \<Rightarrow> provider option \<Rightarrow> request_manager option \<Rightarrow> thrown + request_manager" where
  "context_manager conf given manager = (case manager of
      Some m \<Rightarrow> Inr m
    | None \<Rightarrow> new_request_manager given
        (case conf of None \<Rightarrow> None
         | Some c \<Rightarrow>
             (case msg_prop (option_of c ''enableExperimentalFeatures'')
                     ''useSubscriptionWhenCheckingBlockTimeout'' of
                JBool b \<Rightarrow> Some b | _ \<Rightarrow> None)))"

section \<open>Extending a context\<close>

definition forbidden_names :: "string list" where
  "forbidden_names = [''__proto__'', ''constructor'', ''prototype'']"

text \<open>
  The own properties of a context that are objects of functions, under their name, and its functions.
  A property that is there is kept, also when it is inherited; what it is then is an argument.
\<close>

record extensions =
  ex_objects :: "(string, (string, string) jsmap) jsmap"
  ex_functions :: "(string, string) jsmap"

fun extend_methods ::
  "string option \<Rightarrow> (string \<times> string) list \<Rightarrow> (extensions, js_error, unit) action" where
  "extend_methods prop [] = returnS ()"
| "extend_methods prop ((name, call) # ms) = (\<lambda>x.
     if name \<in> set forbidden_names
     then (Inl (err_class ''Error'' (''Forbidden extend method name: '' @ name)), x)
     else extend_methods prop ms
       (case prop of
          Some p \<Rightarrow> x\<lparr>ex_objects := AList.update p (AList.update name call (the (map_of (ex_objects x) p)))
                                    (ex_objects x)\<rparr>
        | None \<Rightarrow> x\<lparr>ex_functions := AList.update name call (ex_functions x)\<rparr>))"

definition extend :: "string option \<Rightarrow> (string \<times> string) list \<Rightarrow> (extensions, js_error, unit) action" where
  "extend prop methods x =
     (case prop of
        Some p \<Rightarrow>
          if p = [] then extend_methods None methods x
          else if p \<in> set forbidden_names
          then (Inl (err_class ''Error'' (''Forbidden extend property name: '' @ p)), x)
          else extend_methods prop methods
            (if map_of (ex_objects x) p = None then x\<lparr>ex_objects := AList.update p [] (ex_objects x)\<rparr> else x)
      | None \<Rightarrow> extend_methods None methods x)"

end
