(* ===== verification/ConfigProps.thy ===== *)
theory ConfigProps
  imports Config
begin

text \<open>Contexts that follow another keep its options, and the chain of a context chain_fits its common object.\<close>

section \<open>Options after changes\<close>

lemma option_of_assign:
  "option_of (setConfig [(k, v)] c) name = (if name = k then v else option_of c name)"
  by (simp add: setConfig_def option_of_def obj_get_def update_conv)

lemma option_of_setConfig:
  "distinct (map fst opts) \<Longrightarrow>
   option_of (setConfig opts c) name = (if name \<in> fst ` set opts then option_of opts name else option_of c name)"
proof (induction opts arbitrary: c)
  case (Cons p opts)
  obtain k v where p: "p = (k, v)" by (cases p)
  have "setConfig (p # opts) c = setConfig opts (setConfig [(k, v)] c)" by (simp add: setConfig_def p)
  moreover have "option_of (p # opts) n = (if n = k then v else option_of opts n)" for n
    by (simp add: p option_of_def obj_get_def)
  ultimately show ?case using Cons by (auto simp: p option_of_assign)
qed (simp add: setConfig_def)

lemma distinct_setConfig: "distinct (map fst c) \<Longrightarrow> distinct (map fst (setConfig opts c))"
proof (induction opts arbitrary: c)
  case (Cons x opts)
  then show ?case by (cases x) (simp add: setConfig_def distinct_update)
qed (simp add: setConfig_def)

lemma fold_assign_other:
  "c \<notin> set ds \<Longrightarrow> cx_config (fold (\<lambda>d. assign_in d opts) ds w) c = cx_config w c"
  by (induction ds arbitrary: w) (auto simp: assign_in_def)

lemma fold_assign_in:
  "option_of (cx_config (fold (\<lambda>d. assign_in d [(k, v)]) ds w) c) name =
     (if c \<in> set ds \<and> name = k then v else option_of (cx_config w c) name)"
  by (induction ds arbitrary: w) (auto simp: assign_in_def option_of_assign)

lemma assign_rest [simp]:
  "cx_links (assign_in d opts w) = cx_links w" "cx_next (assign_in d opts w) = cx_next w"
  by (simp_all add: assign_in_def)

lemma fold_assign_rest [simp]: "cx_links (fold (\<lambda>d. assign_in d opts) ds w) = cx_links w"
  by (induction ds arbitrary: w) simp_all

lemma trigger_links [simp]: "cx_links (triggerConfigChange c name new w) = cx_links w"
  by (simp add: triggerConfigChange_def)

lemma set_option_links [simp]: "cx_links (set_option c name new w) = cx_links w"
  by (simp add: set_option_def)

lemma option_of_trigger:
  "option_of (cx_config (triggerConfigChange p k v w) c) name =
     (if c \<in> set (followers w p) \<and> name = k then v else option_of (cx_config w c) name)"
  by (simp add: triggerConfigChange_def fold_assign_in)

lemma option_of_set:
  "option_of (cx_config (set_option p k v w) c) name =
     (if (c = p \<or> c \<in> set (followers w p)) \<and> name = k then v else option_of (cx_config w c) name)"
  by (simp add: set_option_def assign_in_def option_of_assign option_of_trigger)

lemma followers_links: "cx_links w = cx_links w' \<Longrightarrow> followers w = followers w'"
  by (simp add: followers_def fun_eq_iff)

lemma followers_set_option [simp]: "followers (set_option c k v w) = followers w"
  by (rule followers_links) simp

lemma if_action: "(b \<Longrightarrow> P (snd (x w))) \<Longrightarrow> P (snd (y w)) \<Longrightarrow> P (snd ((if b then x else y) w))"
  by simp

lemma setter_rule:
  assumes "name \<in> set (call_options @ polling_options @ transaction_options) \<Longrightarrow> P (set_option c name val w)"
    and "P (set_transactionPollingInterval c val w)"
    and "name = ''maxListenersWarningThreshold'' \<Longrightarrow> P (snd (set_maxListeners c val w))"
    and "P (snd (set_defaultChain c val w))" and "P (snd (set_defaultHardfork c val w))"
    and "P (snd (set_defaultCommon c val w))" and "P w"
  shows "P (snd (setter c name val w))"
  unfolding setter_def
  by (rule if_action [where P = P], simp only: snd_conv assms)+ (simp only: snd_conv assms)

section \<open>Following\<close>

definition agrees :: "contexts \<Rightarrow> nat \<Rightarrow> nat \<Rightarrow> bool" where
  "agrees w p c \<longleftrightarrow> c \<in> set (followers w p) \<and>
     (\<forall>name. option_of (cx_config w c) name = option_of (cx_config w p) name)"

text \<open>The runtime takes the value as a number of listeners.\<close>

definition listeners_ok :: "string \<Rightarrow> jsval \<Rightarrow> bool" where
  "listeners_ok name val \<longleftrightarrow> name = ''maxListenersWarningThreshold'' \<longrightarrow>
     (case val of JNum (NInt n) \<Rightarrow> 0 \<le> n | JNum (NFrac q) \<Rightarrow> 0 \<le> q | JNum (NInf neg) \<Rightarrow> \<not> neg | _ \<Rightarrow> False)"

lemma agrees_set_option: "agrees w p c \<Longrightarrow> agrees (set_option p k v w) p c"
  by (simp add: agrees_def option_of_set)

lemma agrees_setter:
  assumes "agrees w p c" and "listeners_ok name val"
  shows "agrees (snd (setter p name val w)) p c"
proof -
  have "agrees (snd (set_maxListeners p val w)) p c" if "name = ''maxListenersWarningThreshold''"
  proof -
    have "snd (set_maxListeners p val w) = (set_option p ''maxListenersWarningThreshold'' val w)
        \<lparr>cx_maxListeners := (cx_maxListeners (triggerConfigChange p ''maxListenersWarningThreshold'' val w))(p := val)\<rparr>"
      using assms(2) that
      by (simp add: set_maxListeners_def Let_def listeners_ok_def set_option_def assign_in_def)
    then show ?thesis using agrees_set_option [OF assms(1)] by (simp add: agrees_def followers_def)
  qed
  then show ?thesis
    by (rule_tac setter_rule)
      (simp_all add: agrees_set_option assms(1) set_transactionPollingInterval_def
        set_defaultChain_def set_defaultHardfork_def set_defaultCommon_def Let_def)
qed

definition run_setters :: "nat \<Rightarrow> (string \<times> jsval) list \<Rightarrow> contexts \<Rightarrow> contexts" where
  "run_setters c ops w = fold (\<lambda>(name, val) w. snd (setter c name val w)) ops w"

lemma agrees_run:
  "agrees w p c \<Longrightarrow> list_all (\<lambda>(name, val). listeners_ok name val) ops \<Longrightarrow> agrees (run_setters p ops w) p c"
proof (induction ops arbitrary: w)
  case (Cons x ops)
  then show ?case using agrees_setter by (cases x) (simp add: run_setters_def)
qed (simp add: run_setters_def)

definition config_ok :: "config \<Rightarrow> bool" where
  "config_ok c \<longleftrightarrow> distinct (map fst c) \<and> set (map fst default_config) \<subseteq> set (map fst c)"


definition one_context :: contexts where
  "one_context = \<lparr>cx_config = (\<lambda>_. default_config), cx_links = [], cx_next = 1, cx_emitted = [],
     cx_maxListeners = (\<lambda>_. JNum (NInt 10))\<rparr>"

lemma default_config_ok: "config_ok default_config"
  by (simp add: config_ok_def default_config_def)


text \<open>A context that follows a follower does not hear of the change.\<close>

lemma second_follower_stays:
  assumes "use_context 0 one_context = (c, w)" and "use_context c w = (d, w')"
  shows "option_of (cx_config (run_setters 0 [(''defaultBlock'', JStr ''safe'')] w') d) ''defaultBlock'' =
         JStr ''latest''"
  using assms
proof -
  have cd: "c = 1" "d = 2" "followers w' 0 = [1]" and conf: "cx_config w' 2 = setConfig (setConfig default_config default_config) default_config"
    using assms by (auto simp: use_context_def new_context_def one_context_def followers_def)
  have "option_of (setConfig (setConfig default_config default_config) default_config) ''defaultBlock'' = JStr ''latest''"
  proof -
    have "option_of default_config ''defaultBlock'' = JStr ''latest''"
      by (simp add: default_config_def option_of_def obj_get_def)
    then show ?thesis using default_config_ok
      by (simp add: option_of_setConfig distinct_setConfig config_ok_def)
  qed
  then show ?thesis
    by (simp add: run_setters_def setter_def call_options_def option_of_set cd conf)
qed

section \<open>Chains and hardforks\<close>

definition chain_fits :: "config \<Rightarrow> string \<Rightarrow> string \<Rightarrow> bool" where
  "chain_fits c field opt \<longleftrightarrow> isNullish (common_field c field) \<or> isNullish (option_of c opt) \<or>
     common_field c field = option_of c opt"

definition chain_consistent :: "config \<Rightarrow> bool" where
  "chain_consistent c \<longleftrightarrow> chain_fits c ''baseChain'' ''defaultChain'' \<and> chain_fits c ''hardfork'' ''defaultHardfork''"

lemma consistent_options:
  assumes "\<And>name. name \<in> {''defaultCommon'', ''defaultChain'', ''defaultHardfork''} \<Longrightarrow>
      option_of c' name = option_of c name" and "chain_consistent c"
  shows "chain_consistent c'"
  using assms by (simp add: chain_consistent_def chain_fits_def common_field_def)

lemma consistent_other:
  assumes "chain_consistent (cx_config w c)" and "k \<notin> {''defaultCommon'', ''defaultChain'', ''defaultHardfork''}"
  shows "chain_consistent (cx_config (set_option c k v w) c)"
  using assms by (intro consistent_options [OF _ assms(1)]) (auto simp: option_of_set)

lemma consistent_setter:
  assumes "chain_consistent (cx_config w c)" and "c \<notin> set (followers w c)"
  shows "chain_consistent (cx_config (snd (setter c name val w)) c)"
proof -
  have plain: "chain_consistent (cx_config (set_option c name val w) c)"
    if "name \<in> set (call_options @ polling_options @ transaction_options)"
    using that by (intro consistent_other [OF assms(1)])
      (auto simp: call_options_def polling_options_def transaction_options_def)
  have polling: "chain_consistent (cx_config (set_transactionPollingInterval c val w) c)"
    unfolding set_transactionPollingInterval_def by (intro consistent_other) (simp_all add: assms(1))
  have listeners: "chain_consistent (cx_config (snd (set_maxListeners c val w)) c)"
    using assms by (intro consistent_options [OF _ assms(1)])
      (auto simp: set_maxListeners_def Let_def assign_in_def option_of_assign option_of_trigger)
  have chain: "chain_consistent (cx_config (snd (set_defaultChain c val w)) c)"
    using assms by (auto simp: set_defaultChain_def Let_def chain_consistent_def chain_fits_def
        common_field_def option_of_set)
  have hardfork: "chain_consistent (cx_config (snd (set_defaultHardfork c val w)) c)"
    using assms by (auto simp: set_defaultHardfork_def Let_def chain_consistent_def chain_fits_def
        common_field_def option_of_set)
  have common: "chain_consistent (cx_config (snd (set_defaultCommon c val w)) c)"
    using assms by (auto simp: set_defaultCommon_def Let_def chain_consistent_def chain_fits_def
        common_field_def option_of_set)
  show ?thesis
    by (rule setter_rule [where P = "\<lambda>w. chain_consistent (cx_config w c)",
          OF plain polling listeners chain hardfork common assms(1)])
qed

lemma setter_links [simp]: "cx_links (snd (setter c name val w)) = cx_links w"
  by (rule setter_rule) (simp_all add: set_transactionPollingInterval_def set_maxListeners_def
      set_defaultChain_def set_defaultHardfork_def set_defaultCommon_def Let_def)

text \<open>
  After any sequence of settings, refused ones included, the chain and the hardfork of a context
  are those its common object names.
\<close>

theorem chain_stays_consistent:
  assumes "chain_consistent (cx_config w c)" and "c \<notin> set (followers w c)"
  shows "chain_consistent (cx_config (run_setters c ops w) c)"
  using assms
proof (induction ops arbitrary: w)
  case (Cons x ops)
  obtain name val where x: "x = (name, val)" by (cases x)
  have "followers (snd (setter c name val w)) = followers w" by (rule followers_links) simp
  with Cons.IH [of "snd (setter c name val w)"] consistent_setter [OF Cons.prems] Cons.prems(2)
  show ?case by (simp add: run_setters_def x)
qed (simp add: run_setters_def)

theorem chain_stays_consistent_witness:
  "chain_consistent (cx_config (run_setters 0
     [(''defaultCommon'', JObj [(''baseChain'', JStr ''devnet'')]), (''defaultChain'', JStr ''devnet''),
      (''defaultCommon'', JObj [(''baseChain'', JStr ''devnet'')]), (''defaultChain'', JStr ''mainnet'')]
     one_context) 0)"
  by (rule chain_stays_consistent)
    (simp_all add: one_context_def followers_def chain_consistent_def chain_fits_def common_field_def
      option_of_def obj_get_def default_config_def msg_prop_def)

text \<open>The switch for RPC errors is not what the constructor of a context hands to its manager.\<close>

lemma rpc_switch_ignored:
  "context_manager (Some [(''enableExperimentalFeatures'',
      JObj [(''useSubscriptionWhenCheckingBlockTimeout'', JBool False),
            (''useRpcCallSpecification'', JBool True)])]) None None =
   Inr \<lparr>rm_provider = None, useRpcCallSpecification = False\<rparr>"
  by (simp add: context_manager_def option_of_def obj_get_def msg_prop_def new_request_manager_def)

end
