(* ===== verification/QrlRpc.thy ===== *)
theory QrlRpc
  imports Errors ValSchema
begin

text \<open>
  The methods of the JSON-RPC interface of a node (\<^verbatim>\<open>qrl_rpc_methods.ts\<close> and \<^verbatim>\<open>net_rpc_methods.ts\<close>): each
  validates its arguments and sends one request. The state is the list of the requests sent so far;
  the node answers a request, and may answer differently each time, as the function of that list.
\<close>

type_synonym request = "string \<times> jsval list"

type_synonym 'a rpc = "(request list, thrown, 'a) action"

record rpc_node =
  nd_lib :: lib
  nd_answer :: "request list \<Rightarrow> request \<Rightarrow> thrown + jsval"

definition rpc_send :: "rpc_node \<Rightarrow> string \<Rightarrow> jsval list \<Rightarrow> jsval rpc" where
  "rpc_send N name params tr = (nd_answer N tr (name, params), tr @ [(name, params)])"

definition rpc_validate :: "rpc_node \<Rightarrow> string list \<Rightarrow> jsval list \<Rightarrow> unit rpc" where
  "rpc_validate N types args =
     liftS (liftE (bindR (validate (nd_lib N) (map AbiShort types) args False) (\<lambda>_. Inr ())))"

text \<open>The loop over the reward percentiles, which may be any array.\<close>

fun validate_each :: "rpc_node \<Rightarrow> jsval list \<Rightarrow> unit rpc" where
  "validate_each N [] = returnS ()"
| "validate_each N (v # vs) = bindS (rpc_validate N [''number''] [v]) (\<lambda>_. validate_each N vs)"

definition validate_numbers :: "rpc_node \<Rightarrow> jsval \<Rightarrow> unit rpc" where
  "validate_numbers N v = (case js_elems v of
      Some vs \<Rightarrow> validate_each N vs
    | None \<Rightarrow> throwS (type_error ''object is not iterable''))"

section \<open>The methods\<close>

definition rpc_getProtocolVersion :: "rpc_node \<Rightarrow> jsval rpc" where
  "rpc_getProtocolVersion N =
     rpc_send N ''qrl_protocolVersion'' []"

definition rpc_getSyncing :: "rpc_node \<Rightarrow> jsval rpc" where
  "rpc_getSyncing N =
     rpc_send N ''qrl_syncing'' []"

definition rpc_getGasPrice :: "rpc_node \<Rightarrow> jsval rpc" where
  "rpc_getGasPrice N =
     rpc_send N ''qrl_gasPrice'' []"

definition rpc_getMaxPriorityFeePerGas :: "rpc_node \<Rightarrow> jsval rpc" where
  "rpc_getMaxPriorityFeePerGas N =
     rpc_send N ''qrl_maxPriorityFeePerGas'' []"

definition rpc_getAccounts :: "rpc_node \<Rightarrow> jsval rpc" where
  "rpc_getAccounts N =
     rpc_send N ''qrl_accounts'' []"

definition rpc_getBlockNumber :: "rpc_node \<Rightarrow> jsval rpc" where
  "rpc_getBlockNumber N =
     rpc_send N ''qrl_blockNumber'' []"

definition rpc_getBalance :: "rpc_node \<Rightarrow> jsval \<Rightarrow> jsval \<Rightarrow> jsval rpc" where
  "rpc_getBalance N address blockNumber =
     bindS (rpc_validate N [''address'', ''blockNumberOrTag'']
       [address, blockNumber]) (\<lambda>_.
     rpc_send N ''qrl_getBalance'' [address, blockNumber])"

definition rpc_getStorageAt :: "rpc_node \<Rightarrow> jsval \<Rightarrow> jsval \<Rightarrow> jsval \<Rightarrow> jsval rpc" where
  "rpc_getStorageAt N address storageSlot blockNumber =
     bindS (rpc_validate N [''address'', ''hex'', ''blockNumberOrTag'']
       [address, storageSlot, blockNumber]) (\<lambda>_.
     rpc_send N ''qrl_getStorageAt'' [address, storageSlot, blockNumber])"

definition rpc_getTransactionCount :: "rpc_node \<Rightarrow> jsval \<Rightarrow> jsval \<Rightarrow> jsval rpc" where
  "rpc_getTransactionCount N address blockNumber =
     bindS (rpc_validate N [''address'', ''blockNumberOrTag'']
       [address, blockNumber]) (\<lambda>_.
     rpc_send N ''qrl_getTransactionCount'' [address, blockNumber])"

definition rpc_getBlockTransactionCountByHash :: "rpc_node \<Rightarrow> jsval \<Rightarrow> jsval rpc" where
  "rpc_getBlockTransactionCountByHash N blockHash =
     bindS (rpc_validate N [''bytes32'']
       [blockHash]) (\<lambda>_.
     rpc_send N ''qrl_getBlockTransactionCountByHash'' [blockHash])"

definition rpc_getBlockTransactionCountByNumber :: "rpc_node \<Rightarrow> jsval \<Rightarrow> jsval rpc" where
  "rpc_getBlockTransactionCountByNumber N blockNumber =
     bindS (rpc_validate N [''blockNumberOrTag'']
       [blockNumber]) (\<lambda>_.
     rpc_send N ''qrl_getBlockTransactionCountByNumber'' [blockNumber])"

definition rpc_getCode :: "rpc_node \<Rightarrow> jsval \<Rightarrow> jsval \<Rightarrow> jsval rpc" where
  "rpc_getCode N address blockNumber =
     bindS (rpc_validate N [''address'', ''blockNumberOrTag'']
       [address, blockNumber]) (\<lambda>_.
     rpc_send N ''qrl_getCode'' [address, blockNumber])"

definition rpc_sign :: "rpc_node \<Rightarrow> jsval \<Rightarrow> jsval \<Rightarrow> jsval rpc" where
  "rpc_sign N address message =
     bindS (rpc_validate N [''address'', ''hex'']
       [address, message]) (\<lambda>_.
     rpc_send N ''qrl_sign'' [address, message])"

definition rpc_signTransaction :: "rpc_node \<Rightarrow> jsval \<Rightarrow> jsval rpc" where
  "rpc_signTransaction N transaction =
     rpc_send N ''qrl_signTransaction'' [transaction]"

definition rpc_sendTransaction :: "rpc_node \<Rightarrow> jsval \<Rightarrow> jsval rpc" where
  "rpc_sendTransaction N transaction =
     rpc_send N ''qrl_sendTransaction'' [transaction]"

definition rpc_sendRawTransaction :: "rpc_node \<Rightarrow> jsval \<Rightarrow> jsval rpc" where
  "rpc_sendRawTransaction N transaction =
     bindS (rpc_validate N [''hex'']
       [transaction]) (\<lambda>_.
     rpc_send N ''qrl_sendRawTransaction'' [transaction])"

definition rpc_call :: "rpc_node \<Rightarrow> jsval \<Rightarrow> jsval \<Rightarrow> jsval rpc" where
  "rpc_call N transaction blockNumber =
     bindS (rpc_validate N [''blockNumberOrTag'']
       [blockNumber]) (\<lambda>_.
     rpc_send N ''qrl_call'' [transaction, blockNumber])"

definition rpc_estimateGas :: "rpc_node \<Rightarrow> jsval \<Rightarrow> jsval \<Rightarrow> jsval rpc" where
  "rpc_estimateGas N transaction blockNumber =
     bindS (rpc_validate N [''blockNumberOrTag'']
       [blockNumber]) (\<lambda>_.
     rpc_send N ''qrl_estimateGas'' [transaction, blockNumber])"

definition rpc_getBlockByHash :: "rpc_node \<Rightarrow> jsval \<Rightarrow> jsval \<Rightarrow> jsval rpc" where
  "rpc_getBlockByHash N blockHash hydrated =
     bindS (rpc_validate N [''bytes32'', ''bool'']
       [blockHash, hydrated]) (\<lambda>_.
     rpc_send N ''qrl_getBlockByHash'' [blockHash, hydrated])"

definition rpc_getBlockByNumber :: "rpc_node \<Rightarrow> jsval \<Rightarrow> jsval \<Rightarrow> jsval rpc" where
  "rpc_getBlockByNumber N blockNumber hydrated =
     bindS (rpc_validate N [''blockNumberOrTag'', ''bool'']
       [blockNumber, hydrated]) (\<lambda>_.
     rpc_send N ''qrl_getBlockByNumber'' [blockNumber, hydrated])"

definition rpc_getTransactionByHash :: "rpc_node \<Rightarrow> jsval \<Rightarrow> jsval rpc" where
  "rpc_getTransactionByHash N transactionHash =
     bindS (rpc_validate N [''bytes32'']
       [transactionHash]) (\<lambda>_.
     rpc_send N ''qrl_getTransactionByHash'' [transactionHash])"

definition rpc_getTransactionByBlockHashAndIndex :: "rpc_node \<Rightarrow> jsval \<Rightarrow> jsval \<Rightarrow> jsval rpc" where
  "rpc_getTransactionByBlockHashAndIndex N blockHash transactionIndex =
     bindS (rpc_validate N [''bytes32'', ''hex'']
       [blockHash, transactionIndex]) (\<lambda>_.
     rpc_send N ''qrl_getTransactionByBlockHashAndIndex'' [blockHash, transactionIndex])"

definition rpc_getTransactionByBlockNumberAndIndex :: "rpc_node \<Rightarrow> jsval \<Rightarrow> jsval \<Rightarrow> jsval rpc" where
  "rpc_getTransactionByBlockNumberAndIndex N blockNumber transactionIndex =
     bindS (rpc_validate N [''blockNumberOrTag'', ''hex'']
       [blockNumber, transactionIndex]) (\<lambda>_.
     rpc_send N ''qrl_getTransactionByBlockNumberAndIndex'' [blockNumber, transactionIndex])"

definition rpc_getTransactionReceipt :: "rpc_node \<Rightarrow> jsval \<Rightarrow> jsval rpc" where
  "rpc_getTransactionReceipt N transactionHash =
     bindS (rpc_validate N [''bytes32'']
       [transactionHash]) (\<lambda>_.
     rpc_send N ''qrl_getTransactionReceipt'' [transactionHash])"

definition rpc_getCompilers :: "rpc_node \<Rightarrow> jsval rpc" where
  "rpc_getCompilers N =
     rpc_send N ''qrl_getCompilers'' []"

definition rpc_compileHyperion :: "rpc_node \<Rightarrow> jsval \<Rightarrow> jsval rpc" where
  "rpc_compileHyperion N code =
     bindS (rpc_validate N [''string'']
       [code]) (\<lambda>_.
     rpc_send N ''qrl_compileHyperion'' [code])"

definition rpc_newFilter :: "rpc_node \<Rightarrow> jsval \<Rightarrow> jsval rpc" where
  "rpc_newFilter N filterObject =
     bindS (rpc_validate N [''filter'']
       [filterObject]) (\<lambda>_.
     rpc_send N ''qrl_newFilter'' [filterObject])"

definition rpc_newBlockFilter :: "rpc_node \<Rightarrow> jsval rpc" where
  "rpc_newBlockFilter N =
     rpc_send N ''qrl_newBlockFilter'' []"

definition rpc_newPendingTransactionFilter :: "rpc_node \<Rightarrow> jsval rpc" where
  "rpc_newPendingTransactionFilter N =
     rpc_send N ''qrl_newPendingTransactionFilter'' []"

definition rpc_uninstallFilter :: "rpc_node \<Rightarrow> jsval \<Rightarrow> jsval rpc" where
  "rpc_uninstallFilter N filterIdentifier =
     bindS (rpc_validate N [''hex'']
       [filterIdentifier]) (\<lambda>_.
     rpc_send N ''qrl_uninstallFilter'' [filterIdentifier])"

definition rpc_getFilterChanges :: "rpc_node \<Rightarrow> jsval \<Rightarrow> jsval rpc" where
  "rpc_getFilterChanges N filterIdentifier =
     bindS (rpc_validate N [''hex'']
       [filterIdentifier]) (\<lambda>_.
     rpc_send N ''qrl_getFilterChanges'' [filterIdentifier])"

definition rpc_getFilterLogs :: "rpc_node \<Rightarrow> jsval \<Rightarrow> jsval rpc" where
  "rpc_getFilterLogs N filterIdentifier =
     bindS (rpc_validate N [''hex'']
       [filterIdentifier]) (\<lambda>_.
     rpc_send N ''qrl_getFilterLogs'' [filterIdentifier])"

definition rpc_getLogs :: "rpc_node \<Rightarrow> jsval \<Rightarrow> jsval rpc" where
  "rpc_getLogs N filterObject =
     bindS (rpc_validate N [''filter'']
       [filterObject]) (\<lambda>_.
     rpc_send N ''qrl_getLogs'' [filterObject])"

definition rpc_getFeeHistory :: "rpc_node \<Rightarrow> jsval \<Rightarrow> jsval \<Rightarrow> jsval \<Rightarrow> jsval rpc" where
  "rpc_getFeeHistory N blockCount newestBlock rewardPercentiles =
     bindS (rpc_validate N [''hex'', ''blockNumberOrTag'']
       [blockCount, newestBlock]) (\<lambda>_.
     bindS (validate_numbers N rewardPercentiles) (\<lambda>_.
     rpc_send N ''qrl_feeHistory'' [blockCount, newestBlock, rewardPercentiles]))"

definition rpc_getPendingTransactions :: "rpc_node \<Rightarrow> jsval rpc" where
  "rpc_getPendingTransactions N =
     rpc_send N ''qrl_pendingTransactions'' []"

definition rpc_requestAccounts :: "rpc_node \<Rightarrow> jsval rpc" where
  "rpc_requestAccounts N =
     rpc_send N ''qrl_requestAccounts'' []"

definition rpc_getChainId :: "rpc_node \<Rightarrow> jsval rpc" where
  "rpc_getChainId N =
     rpc_send N ''qrl_chainId'' []"

definition rpc_getProof :: "rpc_node \<Rightarrow> jsval \<Rightarrow> jsval \<Rightarrow> jsval \<Rightarrow> jsval rpc" where
  "rpc_getProof N address storageKeys blockNumber =
     bindS (rpc_validate N [''address'', ''bytes32[]'', ''blockNumberOrTag'']
       [address, storageKeys, blockNumber]) (\<lambda>_.
     rpc_send N ''qrl_getProof'' [address, storageKeys, blockNumber])"

definition rpc_getNodeInfo :: "rpc_node \<Rightarrow> jsval rpc" where
  "rpc_getNodeInfo N =
     rpc_send N ''web3_clientVersion'' []"

definition rpc_createAccessList :: "rpc_node \<Rightarrow> jsval \<Rightarrow> jsval \<Rightarrow> jsval rpc" where
  "rpc_createAccessList N transaction blockNumber =
     bindS (rpc_validate N [''blockNumberOrTag'']
       [blockNumber]) (\<lambda>_.
     rpc_send N ''qrl_createAccessList'' [transaction, blockNumber])"

definition rpc_signTypedData :: "rpc_node \<Rightarrow> jsval \<Rightarrow> jsval \<Rightarrow> jsval rpc" where
  "rpc_signTypedData N address typedData =
     bindS (rpc_validate N [''address'', ''qrlTypedData'']
       [address, typedData]) (\<lambda>_.
     rpc_send N ''qrl_signTypedData_v4'' [address, typedData])"

definition rpc_getId :: "rpc_node \<Rightarrow> jsval rpc" where
  "rpc_getId N =
     rpc_send N ''net_version'' []"

definition rpc_getPeerCount :: "rpc_node \<Rightarrow> jsval rpc" where
  "rpc_getPeerCount N =
     rpc_send N ''net_peerCount'' []"

definition rpc_isListening :: "rpc_node \<Rightarrow> jsval rpc" where
  "rpc_isListening N =
     rpc_send N ''net_listening'' []"

section \<open>All methods\<close>

text \<open>A call of one of the methods, with its arguments.\<close>

datatype rpc_op =
    Op_getProtocolVersion
  | Op_getSyncing
  | Op_getGasPrice
  | Op_getMaxPriorityFeePerGas
  | Op_getAccounts
  | Op_getBlockNumber
  | Op_getBalance jsval jsval
  | Op_getStorageAt jsval jsval jsval
  | Op_getTransactionCount jsval jsval
  | Op_getBlockTransactionCountByHash jsval
  | Op_getBlockTransactionCountByNumber jsval
  | Op_getCode jsval jsval
  | Op_sign jsval jsval
  | Op_signTransaction jsval
  | Op_sendTransaction jsval
  | Op_sendRawTransaction jsval
  | Op_call jsval jsval
  | Op_estimateGas jsval jsval
  | Op_getBlockByHash jsval jsval
  | Op_getBlockByNumber jsval jsval
  | Op_getTransactionByHash jsval
  | Op_getTransactionByBlockHashAndIndex jsval jsval
  | Op_getTransactionByBlockNumberAndIndex jsval jsval
  | Op_getTransactionReceipt jsval
  | Op_getCompilers
  | Op_compileHyperion jsval
  | Op_newFilter jsval
  | Op_newBlockFilter
  | Op_newPendingTransactionFilter
  | Op_uninstallFilter jsval
  | Op_getFilterChanges jsval
  | Op_getFilterLogs jsval
  | Op_getLogs jsval
  | Op_getFeeHistory jsval jsval jsval
  | Op_getPendingTransactions
  | Op_requestAccounts
  | Op_getChainId
  | Op_getProof jsval jsval jsval
  | Op_getNodeInfo
  | Op_createAccessList jsval jsval
  | Op_signTypedData jsval jsval
  | Op_getId
  | Op_getPeerCount
  | Op_isListening

primrec run_op :: "rpc_node \<Rightarrow> rpc_op \<Rightarrow> jsval rpc" where
  "run_op N Op_getProtocolVersion = rpc_getProtocolVersion N"
| "run_op N Op_getSyncing = rpc_getSyncing N"
| "run_op N Op_getGasPrice = rpc_getGasPrice N"
| "run_op N Op_getMaxPriorityFeePerGas = rpc_getMaxPriorityFeePerGas N"
| "run_op N Op_getAccounts = rpc_getAccounts N"
| "run_op N Op_getBlockNumber = rpc_getBlockNumber N"
| "run_op N (Op_getBalance address blockNumber) = rpc_getBalance N address blockNumber"
| "run_op N (Op_getStorageAt address storageSlot blockNumber) = rpc_getStorageAt N address storageSlot blockNumber"
| "run_op N (Op_getTransactionCount address blockNumber) = rpc_getTransactionCount N address blockNumber"
| "run_op N (Op_getBlockTransactionCountByHash blockHash) = rpc_getBlockTransactionCountByHash N blockHash"
| "run_op N (Op_getBlockTransactionCountByNumber blockNumber) = rpc_getBlockTransactionCountByNumber N blockNumber"
| "run_op N (Op_getCode address blockNumber) = rpc_getCode N address blockNumber"
| "run_op N (Op_sign address message) = rpc_sign N address message"
| "run_op N (Op_signTransaction transaction) = rpc_signTransaction N transaction"
| "run_op N (Op_sendTransaction transaction) = rpc_sendTransaction N transaction"
| "run_op N (Op_sendRawTransaction transaction) = rpc_sendRawTransaction N transaction"
| "run_op N (Op_call transaction blockNumber) = rpc_call N transaction blockNumber"
| "run_op N (Op_estimateGas transaction blockNumber) = rpc_estimateGas N transaction blockNumber"
| "run_op N (Op_getBlockByHash blockHash hydrated) = rpc_getBlockByHash N blockHash hydrated"
| "run_op N (Op_getBlockByNumber blockNumber hydrated) = rpc_getBlockByNumber N blockNumber hydrated"
| "run_op N (Op_getTransactionByHash transactionHash) = rpc_getTransactionByHash N transactionHash"
| "run_op N (Op_getTransactionByBlockHashAndIndex blockHash transactionIndex) = rpc_getTransactionByBlockHashAndIndex N blockHash transactionIndex"
| "run_op N (Op_getTransactionByBlockNumberAndIndex blockNumber transactionIndex) = rpc_getTransactionByBlockNumberAndIndex N blockNumber transactionIndex"
| "run_op N (Op_getTransactionReceipt transactionHash) = rpc_getTransactionReceipt N transactionHash"
| "run_op N Op_getCompilers = rpc_getCompilers N"
| "run_op N (Op_compileHyperion code) = rpc_compileHyperion N code"
| "run_op N (Op_newFilter filterObject) = rpc_newFilter N filterObject"
| "run_op N Op_newBlockFilter = rpc_newBlockFilter N"
| "run_op N Op_newPendingTransactionFilter = rpc_newPendingTransactionFilter N"
| "run_op N (Op_uninstallFilter filterIdentifier) = rpc_uninstallFilter N filterIdentifier"
| "run_op N (Op_getFilterChanges filterIdentifier) = rpc_getFilterChanges N filterIdentifier"
| "run_op N (Op_getFilterLogs filterIdentifier) = rpc_getFilterLogs N filterIdentifier"
| "run_op N (Op_getLogs filterObject) = rpc_getLogs N filterObject"
| "run_op N (Op_getFeeHistory blockCount newestBlock rewardPercentiles) = rpc_getFeeHistory N blockCount newestBlock rewardPercentiles"
| "run_op N Op_getPendingTransactions = rpc_getPendingTransactions N"
| "run_op N Op_requestAccounts = rpc_requestAccounts N"
| "run_op N Op_getChainId = rpc_getChainId N"
| "run_op N (Op_getProof address storageKeys blockNumber) = rpc_getProof N address storageKeys blockNumber"
| "run_op N Op_getNodeInfo = rpc_getNodeInfo N"
| "run_op N (Op_createAccessList transaction blockNumber) = rpc_createAccessList N transaction blockNumber"
| "run_op N (Op_signTypedData address typedData) = rpc_signTypedData N address typedData"
| "run_op N Op_getId = rpc_getId N"
| "run_op N Op_getPeerCount = rpc_getPeerCount N"
| "run_op N Op_isListening = rpc_isListening N"

end
