(* ===== verification/RpcProps.thy ===== *)
theory RpcProps
  imports QrlRpc
begin

text \<open>
  The interface of the node as a table, and what the methods promise about it: no request that does not
  fit the table is ever sent.
\<close>

section \<open>Validation of several values\<close>

lemma mapped_Inr: "map_sum f g r = Inr y \<longleftrightarrow> (\<exists>x. r = Inr x \<and> y = g x)"
  by (cases r) auto

definition plain_type :: "string \<Rightarrow> bool" where
  "plain_type t \<longleftrightarrow> simple_format t \<or> t = ''bytes32''"

lemma bytes32_type:
  "baseType (parseBaseType ''bytes32'') = Some ''bytes''" "\<not> bt_isArray (parseBaseType ''bytes32'')"
  "convertEthType ''bytes32'' False = Inr (Some ''bytes32'', True)"
  by code_simp+

lemma entry_schema_plain: "plain_type t \<Longrightarrow> entry_schema t n tup = Inr (with_id n (sch_eth (Some t, True)))"
  unfolding plain_type_def using bytes32_type
  by (auto simp: entry_schema_simple) (simp add: entry_schema_def)

lemma entry_list_schemas:
  "entry_list l i (map AbiShort ts) = Inr ss \<Longrightarrow>
   list_all2 (\<lambda>t s. \<exists>j. entry_schema t (level_name l j) (Inr (items_schema [])) = Inr s) ts ss"
proof (induction ts arbitrary: i ss)
  case (Cons t ts)
  then obtain s ss' where "entry_schema t (level_name l i) (Inr (items_schema [])) = Inr s"
    "entry_list l (Suc i) (map AbiShort ts) = Inr ss'" "ss = s # ss'"
    by (auto simp: bindR_Inr_iff)
  with Cons.IH [of "Suc i" ss'] show ?case by auto
qed simp

lemma validated_values:
  assumes "zod_ok L" and "validate L (map AbiShort ts) vs False = Inr r" and "ts \<noteq> []"
  shows "list_all2 (\<lambda>t v. plain_type t \<longrightarrow> (\<forall>p. formats L t = Some p \<longrightarrow> p v = Inr True)) ts vs"
proof -
  obtain ss where ss: "entry_list ''/0'' 0 (map AbiShort ts) = Inr ss"
    using assms(2) by (auto simp: validate_def qrlAbiToJsonSchema_def abiSchemaToJsonSchema_def
        bindR_Inr_iff mapped_Inr)
  note each = entry_list_schemas [OF ss]
  with assms(3) have "ss \<noteq> []" by auto
  then have "safeParse L (ZTuple (map (convertToZod L) ss)) (JArr vs) = Inr []"
    using assms(2) by (auto simp: validate_def qrlAbiToJsonSchema_def abiSchemaToJsonSchema_def ss
        Validator_validate_def bindR_Inr_iff items_schema_def [of ss] sch_array_def split: if_splits)
  then have parsed: "list_all2 (\<lambda>s v. safeParse L (convertToZod L s) v = Inr []) ss vs"
    using zod_okD(3) [OF assms(1)] by (auto simp: js_elems_def list_all2_map1)
  have one: "p v = Inr True" if "\<exists>j. entry_schema t (level_name ''/0'' j) (Inr (items_schema [])) = Inr s"
    "safeParse L (convertToZod L s) v = Inr []" "plain_type t" "formats L t = Some p" for t s v p
  proof -
    have "t \<noteq> []" using that(3) by (auto simp: plain_type_def simple_format_def)
    with that show ?thesis
      by (auto simp: entry_schema_plain zod_okD(1) [OF assms(1)] format_check_def mapped_Inr
          split: if_splits)
  qed
  show ?thesis
    unfolding list_all2_conv_all_nth
  proof (intro conjI allI impI)
    show "length ts = length vs" using list_all2_lengthD [OF each] list_all2_lengthD [OF parsed] by simp
  next
    fix i p assume "i < length ts" "plain_type (ts ! i)" "formats L (ts ! i) = Some p"
    then show "p (vs ! i) = Inr True"
      using each parsed by (intro one [of "ts ! i" "ss ! i"]) (auto simp: list_all2_conv_all_nth)
  qed
qed

section \<open>The interface\<close>

definition node_interface :: "(string \<times> string list) list" where
  "node_interface =
     [(''qrl_protocolVersion'', []), (''qrl_syncing'', []), (''qrl_gasPrice'', []),
      (''qrl_maxPriorityFeePerGas'', []), (''qrl_accounts'', []), (''qrl_blockNumber'', []),
      (''qrl_getBalance'', [''address'', ''blockNumberOrTag'']),
      (''qrl_getStorageAt'', [''address'', ''hex'', ''blockNumberOrTag'']),
      (''qrl_getTransactionCount'', [''address'', ''blockNumberOrTag'']),
      (''qrl_getBlockTransactionCountByHash'', [''bytes32'']),
      (''qrl_getBlockTransactionCountByNumber'', [''blockNumberOrTag'']),
      (''qrl_getCode'', [''address'', ''blockNumberOrTag'']),
      (''qrl_sign'', [''address'', ''hex'']), (''qrl_signTransaction'', [''any'']),
      (''qrl_sendTransaction'', [''any'']), (''qrl_sendRawTransaction'', [''hex'']),
      (''qrl_call'', [''any'', ''blockNumberOrTag'']),
      (''qrl_estimateGas'', [''any'', ''blockNumberOrTag'']),
      (''qrl_getBlockByHash'', [''bytes32'', ''bool'']),
      (''qrl_getBlockByNumber'', [''blockNumberOrTag'', ''bool'']),
      (''qrl_getTransactionByHash'', [''bytes32'']),
      (''qrl_getTransactionByBlockHashAndIndex'', [''bytes32'', ''hex'']),
      (''qrl_getTransactionByBlockNumberAndIndex'', [''blockNumberOrTag'', ''hex'']),
      (''qrl_getTransactionReceipt'', [''bytes32'']), (''qrl_getCompilers'', []),
      (''qrl_compileHyperion'', [''string'']), (''qrl_newFilter'', [''filter'']),
      (''qrl_newBlockFilter'', []), (''qrl_newPendingTransactionFilter'', []),
      (''qrl_uninstallFilter'', [''hex'']), (''qrl_getFilterChanges'', [''hex'']),
      (''qrl_getFilterLogs'', [''hex'']), (''qrl_getLogs'', [''filter'']),
      (''qrl_feeHistory'', [''hex'', ''blockNumberOrTag'', ''any'']),
      (''qrl_pendingTransactions'', []), (''qrl_requestAccounts'', []), (''qrl_chainId'', []),
      (''qrl_getProof'', [''address'', ''bytes32[]'', ''blockNumberOrTag'']),
      (''web3_clientVersion'', []),
      (''qrl_createAccessList'', [''any'', ''blockNumberOrTag'']),
      (''qrl_signTypedData_v4'', [''address'', ''qrlTypedData'']), (''net_version'', []),
      (''net_peerCount'', []), (''net_listening'', [])]"

text \<open>A parameter fits a format when the predicate of that format accepts it.\<close>

definition param_ok :: "lib \<Rightarrow> string \<Rightarrow> jsval \<Rightarrow> bool" where
  "param_ok L t v \<longleftrightarrow> plain_type t \<longrightarrow> (case formats L t of Some p \<Rightarrow> p v = Inr True | None \<Rightarrow> True)"

definition well_formed_request :: "lib \<Rightarrow> request \<Rightarrow> bool" where
  "well_formed_request L r = (case map_of node_interface (fst r) of
      Some ts \<Rightarrow> list_all2 (param_ok L) ts (snd r) | None \<Rightarrow> False)"

lemma param_ok_any [simp]: "param_ok L ''any'' v" "param_ok L ''bytes32[]'' v"
  by (simp_all add: param_ok_def plain_type_def simple_format_def)

section \<open>No malformed request\<close>

lemma rpc_validate_state [simp]: "snd (rpc_validate N ts vs tr) = tr"
  by (simp add: rpc_validate_def)

lemma validate_each_state [simp]: "snd (validate_each N vs tr) = tr"
proof (induction vs)
  case (Cons v vs)
  then show ?case by (auto simp: bindS_def rpc_validate_def split: prod.split sum.split)
qed simp

lemma validate_numbers_state [simp]: "snd (validate_numbers N v tr) = tr"
  by (simp add: validate_numbers_def split: option.split)

lemma bindS_unchanged:
  "snd (m tr) = tr \<Longrightarrow> snd (bindS m f tr) = (case fst (m tr) of Inl e \<Rightarrow> tr | Inr x \<Rightarrow> snd (f x tr))"
  by (cases "m tr") (auto simp: bindS_def split: sum.split)

text \<open>The requests a method may add: none, or one that fits the interface.\<close>

definition sends_ok :: "rpc_node \<Rightarrow> 'a rpc \<Rightarrow> bool" where
  "sends_ok N m \<longleftrightarrow> (\<forall>tr. snd (m tr) = tr \<or> (\<exists>r. snd (m tr) = tr @ [r] \<and> well_formed_request (nd_lib N) r))"

lemma sends_ok_send:
  "well_formed_request (nd_lib N) (name, params) \<Longrightarrow> sends_ok N (rpc_send N name params)"
  by (auto simp: sends_ok_def rpc_send_def)

lemma sends_ok_validated:
  assumes "zod_ok (nd_lib N)" and "ts \<noteq> []"
    and "list_all2 (param_ok (nd_lib N)) ts vs \<Longrightarrow> sends_ok N m"
  shows "sends_ok N (bindS (rpc_validate N ts vs) (\<lambda>_. m))"
proof -
  have "sends_ok N m" if ok: "fst (rpc_validate N ts vs tr) = Inr ()" for tr
  proof (rule assms(3))
    obtain r where "validate (nd_lib N) (map AbiShort ts) vs False = Inr r"
      using ok by (cases "validate (nd_lib N) (map AbiShort ts) vs False")
        (auto simp: rpc_validate_def liftE_def bindR_def)
    from validated_values [OF assms(1) this assms(2)]
    show "list_all2 (param_ok (nd_lib N)) ts vs"
      by (rule list_all2_mono) (auto simp: param_ok_def split: option.split)
  qed
  then show ?thesis
    unfolding sends_ok_def by (auto simp: bindS_unchanged split: sum.split)
qed

lemma sends_ok_numbers: "sends_ok N m \<Longrightarrow> sends_ok N (bindS (validate_numbers N v) (\<lambda>_. m))"
  unfolding sends_ok_def by (auto simp: bindS_unchanged split: sum.split)

lemma interface_lookup:
  "map_of node_interface ''qrl_protocolVersion'' = Some []"
  "map_of node_interface ''qrl_syncing'' = Some []"
  "map_of node_interface ''qrl_gasPrice'' = Some []"
  "map_of node_interface ''qrl_maxPriorityFeePerGas'' = Some []"
  "map_of node_interface ''qrl_accounts'' = Some []"
  "map_of node_interface ''qrl_blockNumber'' = Some []"
  "map_of node_interface ''qrl_getBalance'' = Some [''address'', ''blockNumberOrTag'']"
  "map_of node_interface ''qrl_getStorageAt'' = Some [''address'', ''hex'', ''blockNumberOrTag'']"
  "map_of node_interface ''qrl_getTransactionCount'' = Some [''address'', ''blockNumberOrTag'']"
  "map_of node_interface ''qrl_getBlockTransactionCountByHash'' = Some [''bytes32'']"
  "map_of node_interface ''qrl_getBlockTransactionCountByNumber'' = Some [''blockNumberOrTag'']"
  "map_of node_interface ''qrl_getCode'' = Some [''address'', ''blockNumberOrTag'']"
  "map_of node_interface ''qrl_sign'' = Some [''address'', ''hex'']"
  "map_of node_interface ''qrl_signTransaction'' = Some [''any'']"
  "map_of node_interface ''qrl_sendTransaction'' = Some [''any'']"
  "map_of node_interface ''qrl_sendRawTransaction'' = Some [''hex'']"
  "map_of node_interface ''qrl_call'' = Some [''any'', ''blockNumberOrTag'']"
  "map_of node_interface ''qrl_estimateGas'' = Some [''any'', ''blockNumberOrTag'']"
  "map_of node_interface ''qrl_getBlockByHash'' = Some [''bytes32'', ''bool'']"
  "map_of node_interface ''qrl_getBlockByNumber'' = Some [''blockNumberOrTag'', ''bool'']"
  "map_of node_interface ''qrl_getTransactionByHash'' = Some [''bytes32'']"
  "map_of node_interface ''qrl_getTransactionByBlockHashAndIndex'' = Some [''bytes32'', ''hex'']"
  "map_of node_interface ''qrl_getTransactionByBlockNumberAndIndex'' = Some [''blockNumberOrTag'', ''hex'']"
  "map_of node_interface ''qrl_getTransactionReceipt'' = Some [''bytes32'']"
  "map_of node_interface ''qrl_getCompilers'' = Some []"
  "map_of node_interface ''qrl_compileHyperion'' = Some [''string'']"
  "map_of node_interface ''qrl_newFilter'' = Some [''filter'']"
  "map_of node_interface ''qrl_newBlockFilter'' = Some []"
  "map_of node_interface ''qrl_newPendingTransactionFilter'' = Some []"
  "map_of node_interface ''qrl_uninstallFilter'' = Some [''hex'']"
  "map_of node_interface ''qrl_getFilterChanges'' = Some [''hex'']"
  "map_of node_interface ''qrl_getFilterLogs'' = Some [''hex'']"
  "map_of node_interface ''qrl_getLogs'' = Some [''filter'']"
  "map_of node_interface ''qrl_feeHistory'' = Some [''hex'', ''blockNumberOrTag'', ''any'']"
  "map_of node_interface ''qrl_pendingTransactions'' = Some []"
  "map_of node_interface ''qrl_requestAccounts'' = Some []"
  "map_of node_interface ''qrl_chainId'' = Some []"
  "map_of node_interface ''qrl_getProof'' = Some [''address'', ''bytes32[]'', ''blockNumberOrTag'']"
  "map_of node_interface ''web3_clientVersion'' = Some []"
  "map_of node_interface ''qrl_createAccessList'' = Some [''any'', ''blockNumberOrTag'']"
  "map_of node_interface ''qrl_signTypedData_v4'' = Some [''address'', ''qrlTypedData'']"
  "map_of node_interface ''net_version'' = Some []"
  "map_of node_interface ''net_peerCount'' = Some []"
  "map_of node_interface ''net_listening'' = Some []"
  by (simp_all add: node_interface_def)

lemmas rpc_defs = 
  rpc_getProtocolVersion_def rpc_getSyncing_def rpc_getGasPrice_def
  rpc_getMaxPriorityFeePerGas_def rpc_getAccounts_def rpc_getBlockNumber_def rpc_getBalance_def
  rpc_getStorageAt_def rpc_getTransactionCount_def rpc_getBlockTransactionCountByHash_def
  rpc_getBlockTransactionCountByNumber_def rpc_getCode_def rpc_sign_def rpc_signTransaction_def
  rpc_sendTransaction_def rpc_sendRawTransaction_def rpc_call_def rpc_estimateGas_def
  rpc_getBlockByHash_def rpc_getBlockByNumber_def rpc_getTransactionByHash_def
  rpc_getTransactionByBlockHashAndIndex_def rpc_getTransactionByBlockNumberAndIndex_def
  rpc_getTransactionReceipt_def rpc_getCompilers_def rpc_compileHyperion_def rpc_newFilter_def
  rpc_newBlockFilter_def rpc_newPendingTransactionFilter_def rpc_uninstallFilter_def
  rpc_getFilterChanges_def rpc_getFilterLogs_def rpc_getLogs_def rpc_getFeeHistory_def
  rpc_getPendingTransactions_def rpc_requestAccounts_def rpc_getChainId_def rpc_getProof_def
  rpc_getNodeInfo_def rpc_createAccessList_def rpc_signTypedData_def rpc_getId_def
  rpc_getPeerCount_def rpc_isListening_def

lemma run_op_sends:
  assumes "zod_ok (nd_lib N)"
  shows "sends_ok N (run_op N op)"
proof -
  note rules = sends_ok_validated [OF assms] sends_ok_numbers sends_ok_send
  show ?thesis
    by (cases op; simp only: run_op.simps rpc_defs; intro rules;
        simp add: well_formed_request_def interface_lookup)
qed

definition run_ops :: "rpc_node \<Rightarrow> rpc_op list \<Rightarrow> request list \<Rightarrow> request list" where
  "run_ops N ops tr = foldl (\<lambda>tr op. snd (run_op N op tr)) tr ops"


definition echo_node :: rpc_node where
  "echo_node = \<lparr>nd_lib = lib_ref, nd_answer = (\<lambda>tr r. Inr (JStr (fst r)))\<rparr>"


end
