(* ===== verification/QrlRead.thy ===== *)
theory QrlRead
  imports Config QrlRpc Format Wallet
begin

text \<open>
  The readers of \<^verbatim>\<open>web3-qrl\<close> (\<^verbatim>\<open>rpc_method_wrappers.ts\<close> and \<^verbatim>\<open>rpc_method_wrappers_readers.ts\<close>): each puts
  its arguments in the form of the interface of the node, calls the method and puts the answer in the
  form the caller asks for. A transaction goes through \<^verbatim>\<open>format_transaction.ts\<close>. A block that is not
  given is the default block of the context.
\<close>

record qrl_context =
  qc_node :: rpc_node
  qc_config :: config
  qc_wallet :: "wallet option"
  qc_accounts :: acc_lib

abbreviation qc_lib :: "qrl_context \<Rightarrow> lib" where "qc_lib C \<equiv> nd_lib (qc_node C)"

section \<open>Transactions\<close>

text \<open>The own fields of a value, as a spread copies them.\<close>

definition spread_fields :: "jsval \<Rightarrow> (string \<times> jsval) list" where
  "spread_fields v = (case v of
      JObj kvs \<Rightarrow> kvs
    | JArr vs \<Rightarrow> map (\<lambda>(i, x). (dec_str i, x)) (enumerate 0 vs)
    | JResult vs ns \<Rightarrow> map (\<lambda>(i, x). (dec_str i, x)) (enumerate 0 vs) @ ns
    | JStr s \<Rightarrow> map (\<lambda>(i, c). (dec_str i, JStr [c])) (enumerate 0 s)
    | JBytes bs \<Rightarrow> map (\<lambda>(i, b). (dec_str i, JNum (NInt (int (unat b))))) (enumerate 0 bs)
    | _ \<Rightarrow> [])"

definition set_field :: "string \<Rightarrow> jsval \<Rightarrow> jsval \<Rightarrow> jsval" where
  "set_field k v t = (case t of JObj kvs \<Rightarrow> JObj (AList.update k v kvs) | _ \<Rightarrow> t)"

definition delete_field :: "string \<Rightarrow> jsval \<Rightarrow> jsval" where
  "delete_field k t = (case t of JObj kvs \<Rightarrow> JObj (AList.delete k kvs) | _ \<Rightarrow> t)"

definition copied_common :: "jsval \<Rightarrow> jsval \<Rightarrow> jsval" where
  "copied_common common t =
     (let c = JObj (spread_fields common) in
      set_field ''common''
        (if isNullish (msg_prop common ''customChain'') then c
         else set_field ''customChain'' (JObj (spread_fields (msg_prop common ''customChain''))) c) t)"

definition compare_data :: "lib \<Rightarrow> jsval \<Rightarrow> js_error + unit" where
  "compare_data L t =
     (let dat = msg_prop t ''data''; inp = msg_prop t ''input'' in
      if isNullish dat \<or> isNullish inp then Inr ()
      else bindR (toHex L dat False) (\<lambda>a. bindR (toHex L inp False) (\<lambda>b.
        if a = b then Inr ()
        else bindR (bytesToHex L dat) (\<lambda>_. bindR (bytesToHex L inp) (\<lambda>_.
          Inl (err_class ''TransactionDataAndInputError''
                 ''data and input are different, please use one of them''))))))"

definition fill_data :: "bool \<Rightarrow> jsval \<Rightarrow> jsval" where
  "fill_data fill t =
     (let dat = msg_prop t ''data''; inp = msg_prop t ''input'' in
      if \<not> fill then t
      else if \<not> isNullish dat then set_field ''input'' dat t
      else if \<not> isNullish inp then set_field ''data'' inp t
      else t)"

definition gas_limit_to_gas :: "jsval \<Rightarrow> jsval" where
  "gas_limit_to_gas t =
     (let g = msg_prop t ''gasLimit'' in
      if isNullish g then t else delete_field ''gasLimit'' (set_field ''gas'' g t))"

definition formatTransaction ::
  "lib \<Rightarrow> jsval \<Rightarrow> data_format \<Rightarrow> json_schema option \<Rightarrow> bool \<Rightarrow> js_error + jsval" where
  "formatTransaction L transaction fmt schema fill =
     (let merged = mergeDeep (JObj []) [spread_fields transaction];
          common = msg_prop transaction ''common'';
          copy = (if isNullish common then merged else copied_common common merged) in
      bindR (format L (Inl (case schema of Some s \<Rightarrow> s | None \<Rightarrow> transactionInfoSchema)) copy fmt) (\<lambda>t.
      bindR (compare_data L t) (\<lambda>_.
        Inr (gas_limit_to_gas (fill_data fill t)))))"

section \<open>Arguments and answers\<close>

definition format_as :: "lib \<Rightarrow> string \<Rightarrow> jsval \<Rightarrow> data_format \<Rightarrow> js_error + jsval" where
  "format_as L f v fmt = format L (Inl (sf f)) v fmt"

definition given_block :: "qrl_context \<Rightarrow> jsval \<Rightarrow> jsval" where
  "given_block C block = (if block = JUndef then option_of (qc_config C) ''defaultBlock'' else block)"

definition block_number :: "lib \<Rightarrow> jsval \<Rightarrow> js_error + jsval" where
  "block_number L b = (if isBlockTag b then Inr b else format_as L ''uint'' b QRL_DATA_FORMAT)"

definition block_param :: "qrl_context \<Rightarrow> jsval \<Rightarrow> js_error + jsval" where
  "block_param C block = block_number (qc_lib C) (given_block C block)"

definition pureR :: "js_error + 'a \<Rightarrow> 'a rpc" where "pureR r = liftS (liftE r)"

text \<open>A block by its hash when the argument is bytes, by its number or tag otherwise.\<close>

definition by_block ::
  "qrl_context \<Rightarrow> jsval \<Rightarrow> (jsval \<Rightarrow> jsval rpc) \<Rightarrow> (jsval \<Rightarrow> jsval rpc) \<Rightarrow> jsval rpc" where
  "by_block C block by_hash by_number =
     (let b = given_block C block in
      bindS (pureR (isBytes b (OptBits 0))) (\<lambda>hash.
        if hash then bindS (pureR (format_as (qc_lib C) ''bytes32'' b QRL_DATA_FORMAT)) by_hash
        else bindS (pureR (block_number (qc_lib C) b)) by_number))"

definition answer_as :: "qrl_context \<Rightarrow> string \<Rightarrow> data_format \<Rightarrow> jsval \<Rightarrow> jsval rpc" where
  "answer_as C f fmt response = pureR (format_as (qc_lib C) f response fmt)"

definition answer_by :: "qrl_context \<Rightarrow> json_schema \<Rightarrow> data_format \<Rightarrow> jsval \<Rightarrow> jsval rpc" where
  "answer_by C s fmt response = pureR (format (qc_lib C) (Inl s) response fmt)"

definition answer_transaction :: "qrl_context \<Rightarrow> data_format \<Rightarrow> jsval \<Rightarrow> jsval rpc" where
  "answer_transaction C fmt response =
     (if isNullish response then returnS response
      else pureR (formatTransaction (qc_lib C) response fmt None True))"

section \<open>The state of the chain\<close>

definition getBlockNumber :: "qrl_context \<Rightarrow> data_format \<Rightarrow> jsval rpc" where
  "getBlockNumber C fmt = bindS (rpc_getBlockNumber (qc_node C)) (answer_as C ''uint'' fmt)"

definition getChainId :: "qrl_context \<Rightarrow> data_format \<Rightarrow> jsval rpc" where
  "getChainId C fmt = bindS (rpc_getChainId (qc_node C)) (answer_as C ''uint'' fmt)"

definition getProtocolVersion :: "qrl_context \<Rightarrow> jsval rpc" where
  "getProtocolVersion C = rpc_getProtocolVersion (qc_node C)"

definition isSyncing :: "qrl_context \<Rightarrow> jsval rpc" where
  "isSyncing C = rpc_getSyncing (qc_node C)"

definition getGasPrice :: "qrl_context \<Rightarrow> data_format \<Rightarrow> jsval rpc" where
  "getGasPrice C fmt = bindS (rpc_getGasPrice (qc_node C)) (answer_as C ''uint'' fmt)"

definition getMaxPriorityFeePerGas :: "qrl_context \<Rightarrow> data_format \<Rightarrow> jsval rpc" where
  "getMaxPriorityFeePerGas C fmt =
     bindS (rpc_getMaxPriorityFeePerGas (qc_node C)) (answer_as C ''uint'' fmt)"

definition getBlock :: "qrl_context \<Rightarrow> jsval \<Rightarrow> jsval \<Rightarrow> data_format \<Rightarrow> jsval rpc" where
  "getBlock C block hydrated fmt =
     (let h = (if hydrated = JUndef then JBool False else hydrated) in
      bindS (by_block C block
        (\<lambda>b. rpc_getBlockByHash (qc_node C) b h)
        (\<lambda>b. rpc_getBlockByNumber (qc_node C) b h)) (answer_by C blockSchema fmt))"

definition getBlockTransactionCount :: "qrl_context \<Rightarrow> jsval \<Rightarrow> data_format \<Rightarrow> jsval rpc" where
  "getBlockTransactionCount C block fmt =
     bindS (by_block C block
       (rpc_getBlockTransactionCountByHash (qc_node C))
       (rpc_getBlockTransactionCountByNumber (qc_node C))) (answer_as C ''uint'' fmt)"

section \<open>The state of an account\<close>

definition getBalance :: "qrl_context \<Rightarrow> jsval \<Rightarrow> jsval \<Rightarrow> data_format \<Rightarrow> jsval rpc" where
  "getBalance C address block fmt =
     bindS (pureR (block_param C block)) (\<lambda>b.
     bindS (rpc_getBalance (qc_node C) address b) (answer_as C ''uint'' fmt))"

definition getStorageAt ::
  "qrl_context \<Rightarrow> jsval \<Rightarrow> jsval \<Rightarrow> jsval \<Rightarrow> data_format \<Rightarrow> jsval rpc" where
  "getStorageAt C address slot block fmt =
     bindS (pureR (format_as (qc_lib C) ''uint'' slot QRL_DATA_FORMAT)) (\<lambda>s.
     bindS (pureR (block_param C block)) (\<lambda>b.
     bindS (rpc_getStorageAt (qc_node C) address s b) (answer_as C ''bytes'' fmt)))"

definition getCode :: "qrl_context \<Rightarrow> jsval \<Rightarrow> jsval \<Rightarrow> data_format \<Rightarrow> jsval rpc" where
  "getCode C address block fmt =
     bindS (pureR (block_param C block)) (\<lambda>b.
     bindS (rpc_getCode (qc_node C) address b) (answer_as C ''bytes'' fmt))"

definition getTransactionCount :: "qrl_context \<Rightarrow> jsval \<Rightarrow> jsval \<Rightarrow> data_format \<Rightarrow> jsval rpc" where
  "getTransactionCount C address block fmt =
     bindS (pureR (block_param C block)) (\<lambda>b.
     bindS (rpc_getTransactionCount (qc_node C) address b) (answer_as C ''uint'' fmt))"

text \<open>\<^verbatim>\<open>storageKeys.map\<close> of an array.\<close>

fun format_keys :: "lib \<Rightarrow> jsval list \<Rightarrow> js_error + jsval list" where
  "format_keys L [] = Inr []"
| "format_keys L (k # ks) = bindR (format_as L ''bytes'' k QRL_DATA_FORMAT) (\<lambda>v.
     bindR (format_keys L ks) (\<lambda>vs. Inr (v # vs)))"

definition getProof :: "qrl_context \<Rightarrow> jsval \<Rightarrow> jsval list \<Rightarrow> jsval \<Rightarrow> data_format \<Rightarrow> jsval rpc" where
  "getProof C address storageKeys block fmt =
     bindS (pureR (format_keys (qc_lib C) storageKeys)) (\<lambda>ks.
     bindS (pureR (block_param C block)) (\<lambda>b.
     bindS (rpc_getProof (qc_node C) address (JArr ks) b) (answer_by C accountSchema fmt)))"

section \<open>Reading transactions\<close>

definition getTransactionReceipt :: "qrl_context \<Rightarrow> jsval \<Rightarrow> data_format \<Rightarrow> jsval rpc" where
  "getTransactionReceipt C transactionHash fmt =
     bindS (pureR (format_as (qc_lib C) ''bytes32'' transactionHash DEFAULT_RETURN_FORMAT)) (\<lambda>h.
     bindS (rpc_getTransactionReceipt (qc_node C) h) (\<lambda>response.
       if isNullish response then returnS response
       else answer_by C transactionReceiptSchema fmt response))"

definition getTransaction :: "qrl_context \<Rightarrow> jsval \<Rightarrow> data_format \<Rightarrow> jsval rpc" where
  "getTransaction C transactionHash fmt =
     bindS (pureR (format_as (qc_lib C) ''bytes32'' transactionHash DEFAULT_RETURN_FORMAT)) (\<lambda>h.
     bindS (rpc_getTransactionByHash (qc_node C) h) (answer_transaction C fmt))"

fun format_transactions :: "lib \<Rightarrow> jsval list \<Rightarrow> data_format \<Rightarrow> js_error + jsval list" where
  "format_transactions L [] fmt = Inr []"
| "format_transactions L (t # ts) fmt = bindR (formatTransaction L t fmt None True) (\<lambda>v.
     bindR (format_transactions L ts fmt) (\<lambda>vs. Inr (v # vs)))"

definition not_mappable :: thrown where "not_mappable = type_error ''map is not a function''"

definition getPendingTransactions :: "qrl_context \<Rightarrow> data_format \<Rightarrow> jsval rpc" where
  "getPendingTransactions C fmt =
     bindS (rpc_getPendingTransactions (qc_node C)) (\<lambda>response. case js_elems response of
         Some ts \<Rightarrow> pureR (map_sum id JArr (format_transactions (qc_lib C) ts fmt))
       | None \<Rightarrow> throwS not_mappable)"

definition getTransactionFromBlock ::
  "qrl_context \<Rightarrow> jsval \<Rightarrow> jsval \<Rightarrow> data_format \<Rightarrow> jsval rpc" where
  "getTransactionFromBlock C block transactionIndex fmt =
     bindS (pureR (format_as (qc_lib C) ''uint'' transactionIndex QRL_DATA_FORMAT)) (\<lambda>i.
     bindS (by_block C block
       (\<lambda>b. rpc_getTransactionByBlockHashAndIndex (qc_node C) b i)
       (\<lambda>b. rpc_getTransactionByBlockNumberAndIndex (qc_node C) b i)) (answer_transaction C fmt))"

section \<open>Calls\<close>

definition request_transaction :: "qrl_context \<Rightarrow> jsval \<Rightarrow> jsval rpc" where
  "request_transaction C t = pureR (formatTransaction (qc_lib C) t QRL_DATA_FORMAT None False)"

definition estimateGas :: "qrl_context \<Rightarrow> jsval \<Rightarrow> jsval \<Rightarrow> data_format \<Rightarrow> jsval rpc" where
  "estimateGas C transaction block fmt =
     bindS (request_transaction C transaction) (\<lambda>t.
     bindS (pureR (block_param C block)) (\<lambda>b.
     bindS (rpc_estimateGas (qc_node C) t b) (answer_as C ''uint'' fmt)))"

definition qrl_call :: "qrl_context \<Rightarrow> jsval \<Rightarrow> jsval \<Rightarrow> data_format \<Rightarrow> jsval rpc" where
  "qrl_call C transaction block fmt =
     bindS (pureR (block_param C block)) (\<lambda>b.
     bindS (request_transaction C transaction) (\<lambda>t.
     bindS (rpc_call (qc_node C) t b) (answer_as C ''bytes'' fmt)))"

definition createAccessList :: "qrl_context \<Rightarrow> jsval \<Rightarrow> jsval \<Rightarrow> data_format \<Rightarrow> jsval rpc" where
  "createAccessList C transaction block fmt =
     bindS (pureR (block_param C block)) (\<lambda>b.
     bindS (request_transaction C transaction) (\<lambda>t.
     bindS (rpc_createAccessList (qc_node C) t b) (answer_by C accessListResultSchema fmt)))"

section \<open>Logs and fees\<close>

text \<open>\<^verbatim>\<open>numberToHex\<close> of a block that is a number or a bigint.\<close>

definition block_to_hex :: "lib \<Rightarrow> jsval \<Rightarrow> js_error + jsval" where
  "block_to_hex L v =
     (if typeof v = TNumber \<or> typeof v = TBigint then map_sum id JStr (util_numberToHex L v False)
      else Inr v)"

definition format_log :: "lib \<Rightarrow> data_format \<Rightarrow> jsval \<Rightarrow> js_error + jsval" where
  "format_log L fmt v = (case v of JStr s \<Rightarrow> Inr v | _ \<Rightarrow> format L (Inl logSchema) v fmt)"

fun format_logs :: "lib \<Rightarrow> data_format \<Rightarrow> jsval list \<Rightarrow> js_error + jsval list" where
  "format_logs L fmt [] = Inr []"
| "format_logs L fmt (v # vs) = bindR (format_log L fmt v) (\<lambda>r.
     bindR (format_logs L fmt vs) (\<lambda>rs. Inr (r # rs)))"

definition getLogs :: "qrl_context \<Rightarrow> jsval \<Rightarrow> data_format \<Rightarrow> jsval rpc" where
  "getLogs C filt fmt =
     bindS (liftS (if isNullish filt then Inl (type_error ''Cannot destructure a property'') else Inr ())) (\<lambda>_.
     bindS (pureR (block_to_hex (qc_lib C) (msg_prop filt ''toBlock''))) (\<lambda>toBlock.
     bindS (pureR (block_to_hex (qc_lib C) (msg_prop filt ''fromBlock''))) (\<lambda>fromBlock.
     bindS (rpc_getLogs (qc_node C) (JObj (AList.update ''toBlock'' toBlock
              (AList.update ''fromBlock'' fromBlock (spread_fields filt))))) (\<lambda>response.
       case js_elems response of
         Some vs \<Rightarrow> pureR (map_sum id JArr (format_logs (qc_lib C) fmt vs))
       | None \<Rightarrow> throwS not_mappable))))"

definition NUMBER_DATA_FORMAT :: data_format where
  "NUMBER_DATA_FORMAT = \<lparr>dnumber = NUMBER_NUMBER, dbytes = BYTES_HEX\<rparr>"

definition getFeeHistory ::
  "qrl_context \<Rightarrow> jsval \<Rightarrow> jsval \<Rightarrow> jsval \<Rightarrow> data_format \<Rightarrow> jsval rpc" where
  "getFeeHistory C blockCount newestBlock rewardPercentiles fmt =
     bindS (pureR (format_as (qc_lib C) ''uint'' blockCount QRL_DATA_FORMAT)) (\<lambda>n.
     bindS (pureR (block_param C newestBlock)) (\<lambda>b.
     bindS (pureR (format (qc_lib C) (Inl (sa (sf ''uint''))) rewardPercentiles NUMBER_DATA_FORMAT)) (\<lambda>r.
     bindS (rpc_getFeeHistory (qc_node C) n b r) (answer_by C feeHistorySchema fmt))))"

section \<open>Signing\<close>

definition signature_object :: "sign_result \<Rightarrow> jsval" where
  "signature_object s = JObj [(''message'', JStr (sr_message s)),
     (''messageHash'', JStr (sr_messageHash s)), (''signature'', JStr (sr_signature s))]"

text \<open>The account of an address or an index; of an index that is no integer there is none.\<close>

definition context_account :: "qrl_context \<Rightarrow> jsval \<Rightarrow> account option" where
  "context_account C v = (case qc_wallet C of
      None \<Rightarrow> None
    | Some w \<Rightarrow> (case v of
        JStr s \<Rightarrow> wallet_get (Inl s) w | JNum (NInt i) \<Rightarrow> wallet_get (Inr i) w | _ \<Rightarrow> None))"

definition qrl_sign :: "qrl_context \<Rightarrow> jsval \<Rightarrow> jsval \<Rightarrow> data_format \<Rightarrow> jsval rpc" where
  "qrl_sign C message addressOrIndex fmt =
     bindS (pureR (format_as (qc_lib C) ''bytes'' message DEFAULT_RETURN_FORMAT)) (\<lambda>m.
       case context_account C addressOrIndex of
         Some a \<Rightarrow> bindS (pureR (account_sign (qc_lib C) (qc_accounts C) a m)) (\<lambda>s.
           answer_by C SignatureObjectSchema fmt (signature_object s))
       | None \<Rightarrow>
           if typeof addressOrIndex = TNumber
           then throwS (Err (simple_error ''SignatureError''
                  ''RPC method qrl_sign does not support index signatures'' JUndef))
           else bindS (rpc_sign (qc_node C) addressOrIndex m) (answer_as C ''bytes'' fmt))"

definition signTypedData :: "qrl_context \<Rightarrow> jsval \<Rightarrow> jsval \<Rightarrow> data_format \<Rightarrow> jsval rpc" where
  "signTypedData C address typedData fmt =
     bindS (rpc_signTypedData (qc_node C) address typedData) (answer_as C ''bytes'' fmt)"

end
