(* ===== verification/QrlTx.thy ===== *)
theory QrlTx
  imports QrlRead
begin

text \<open>
  The transactions of \<^verbatim>\<open>web3-qrl\<close> before they are sent: their validation (\<^verbatim>\<open>validation.ts\<close>), the type
  (\<^verbatim>\<open>detect_transaction_type.ts\<close>, \<^verbatim>\<open>get_transaction_type.ts\<close>), the gas price
  (\<^verbatim>\<open>get_transaction_gas_pricing.ts\<close>), the fields that are filled in (\<^verbatim>\<open>transaction_builder.ts\<close>), and the
  transaction object that is signed (\<^verbatim>\<open>prepare_transaction_for_signing.ts\<close>). Objects are compared with
  \<^verbatim>\<open>!==\<close> by their value here. Error messages are not reproduced.
\<close>

section \<open>Checks of transaction objects\<close>

definition field_of :: "jsval \<Rightarrow> string \<Rightarrow> js_error + jsval" where
  "field_of v k = (if isNullish v then Inl (no_property k) else Inr (msg_prop v k))"

definition given_and_not :: "(jsval \<Rightarrow> bool) \<Rightarrow> jsval \<Rightarrow> bool" where
  "given_and_not p v \<longleftrightarrow> \<not> isNullish v \<and> \<not> p v"

definition length_is_2 :: "jsval \<Rightarrow> bool" where
  "length_is_2 v = (case v of
      JStr s \<Rightarrow> length s = 2
    | JBytes bs \<Rightarrow> length bs = 2
    | JObj kvs \<Rightarrow> obj_get kvs ''length'' = JNum (NInt 2)
    | _ \<Rightarrow> (case js_elems v of Some vs \<Rightarrow> length vs = 2 | None \<Rightarrow> False))"

definition isBaseTransaction :: "lib \<Rightarrow> jsval \<Rightarrow> js_error + bool" where
  "isBaseTransaction L v = bindR (field_of v ''to'') (\<lambda>to. Inr (
     \<not> given_and_not (\<lambda>a. isAddressString L a True) to \<and>
     \<not> (given_and_not isHexStrict (msg_prop v ''type'') \<and> \<not> length_is_2 (msg_prop v ''type'')) \<and>
     isHexStrict (msg_prop v ''nonce'') \<and> isHexStrict (msg_prop v ''gas'') \<and>
     isHexStrict (msg_prop v ''value'') \<and> isHexStrict (msg_prop v ''input'') \<and>
     \<not> (js_truthy (msg_prop v ''chainId'') \<and> \<not> isHexStrict (msg_prop v ''chainId''))))"

definition is_key_32 :: "jsval \<Rightarrow> bool" where
  "is_key_32 v = (case v of JStr s \<Rightarrow> isHexString32Bytes s True | _ \<Rightarrow> False)"

definition isAccessListEntry :: "lib \<Rightarrow> jsval \<Rightarrow> js_error + bool" where
  "isAccessListEntry L v = bindR (field_of v ''address'') (\<lambda>address.
     if given_and_not (\<lambda>a. isAddressString L a True) address then Inr False
     else if isNullish (msg_prop v ''storageKeys'') then Inr True
     else js_every is_key_32 (msg_prop v ''storageKeys''))"

fun every_entry :: "lib \<Rightarrow> jsval list \<Rightarrow> js_error + bool" where
  "every_entry L [] = Inr True"
| "every_entry L (v # vs) = bindR (isAccessListEntry L v) (\<lambda>ok. if ok then every_entry L vs else Inr False)"

definition qrl_isAccessList :: "lib \<Rightarrow> jsval \<Rightarrow> js_error + bool" where
  "qrl_isAccessList L v = (case js_elems v of None \<Rightarrow> Inr False | Some vs \<Rightarrow> every_entry L vs)"

definition andR :: "js_error + bool \<Rightarrow> js_error + bool \<Rightarrow> js_error + bool" where
  "andR a b = bindR a (\<lambda>ok. if ok then b else Inr False)"

definition isTransaction1559Unsigned :: "lib \<Rightarrow> jsval \<Rightarrow> js_error + bool" where
  "isTransaction1559Unsigned L v =
     andR (isBaseTransaction L v)
     (andR (Inr (isHexStrict (msg_prop v ''maxFeePerGas'')))
     (andR (Inr (isHexStrict (msg_prop v ''maxPriorityFeePerGas'')))
       (qrl_isAccessList L (msg_prop v ''accessList''))))"

definition isTransactionWithSender :: "lib \<Rightarrow> jsval \<Rightarrow> js_error + bool" where
  "isTransactionWithSender L v =
     andR (map_sum id (\<lambda>a. isAddressString L a True) (field_of v ''from''))
     (andR (isBaseTransaction L v) (isTransaction1559Unsigned L v))"

definition validateTransactionWithSender :: "lib \<Rightarrow> jsval \<Rightarrow> js_error + unit" where
  "validateTransactionWithSender L v = bindR (isTransactionWithSender L v) (\<lambda>ok.
     if ok then Inr () else Inl (err_class ''InvalidTransactionWithSender'' ''invalid transaction with sender''))"

definition isTransactionCall :: "lib \<Rightarrow> jsval \<Rightarrow> js_error + bool" where
  "isTransactionCall L v = bindR (field_of v ''from'') (\<lambda>sender.
     if given_and_not (\<lambda>a. isAddressString L a True) sender \<or>
        \<not> isAddressString L (msg_prop v ''to'') True \<or>
        given_and_not isHexStrict (msg_prop v ''gas'') \<or>
        given_and_not isHexStrict (msg_prop v ''value'') \<or>
        given_and_not isHexStrict (msg_prop v ''data'') \<or>
        given_and_not isHexStrict (msg_prop v ''input'') \<or>
        \<not> isNullish (msg_prop v ''type'')
     then Inr False
     else map_sum id Not (isTransaction1559Unsigned L v))"

definition validateTransactionCall :: "lib \<Rightarrow> jsval \<Rightarrow> js_error + unit" where
  "validateTransactionCall L v = bindR (isTransactionCall L v) (\<lambda>ok.
     if ok then Inr () else Inl (err_class ''InvalidTransactionCall'' ''invalid transaction call''))"

section \<open>Validation before signing\<close>

definition refuse :: "string \<Rightarrow> js_error + unit" where
  "refuse cls = Inl (err_class cls ''invalid transaction'')"

definition validateCustomChainInfo :: "jsval \<Rightarrow> js_error + unit" where
  "validateCustomChainInfo t =
     (let common = msg_prop t ''common''; cust = msg_prop common ''customChain'' in
      if isNullish common then Inr ()
      else if isNullish cust then refuse ''MissingCustomChainError''
      else if isNullish (msg_prop cust ''chainId'') then refuse ''MissingCustomChainIdError''
      else if given_and_not (\<lambda>c. c = msg_prop cust ''chainId'') (msg_prop t ''chainId'')
      then refuse ''ChainIdMismatchError'' else Inr ())"

definition validateChainInfo :: "jsval \<Rightarrow> js_error + unit" where
  "validateChainInfo t =
     (let chain = msg_prop t ''chain''; hf = msg_prop t ''hardfork'' in
      if \<not> isNullish (msg_prop t ''common'') \<and> \<not> isNullish chain \<and> \<not> isNullish hf
      then refuse ''CommonOrChainAndHardforkError''
      else if isNullish chain \<noteq> isNullish hf then refuse ''MissingChainOrHardforkError''
      else Inr ())"

definition validateBaseChain :: "jsval \<Rightarrow> js_error + unit" where
  "validateBaseChain t =
     (let base = msg_prop (msg_prop t ''common'') ''baseChain'' in
      if \<not> isNullish base \<and> given_and_not (\<lambda>c. c = base) (msg_prop t ''chain'')
      then refuse ''ChainMismatchError'' else Inr ())"

definition validateHardfork :: "jsval \<Rightarrow> js_error + unit" where
  "validateHardfork t =
     (let hf = msg_prop (msg_prop t ''common'') ''hardfork'' in
      if \<not> isNullish hf \<and> given_and_not (\<lambda>h. h = hf) (msg_prop t ''hardfork'')
      then refuse ''HardforkMismatchError'' else Inr ())"

text \<open>\<^verbatim>\<open>isNullish(v) || !isUInt(v)\<close>\<close>

definition not_uint :: "jsval \<Rightarrow> js_error + bool" where
  "not_uint v = (if isNullish v then Inr True else map_sum id Not (isUInt v (OptAbi ''uint'')))"

definition validateFeeMarketGas :: "jsval \<Rightarrow> js_error + unit" where
  "validateFeeMarketGas t =
     bindR (not_uint (msg_prop t ''gas'')) (\<lambda>bad.
       if bad then refuse ''InvalidGas''
       else bindR (not_uint (msg_prop t ''maxFeePerGas'')) (\<lambda>bad.
         if bad then refuse ''InvalidMaxPriorityFeePerGasOrMaxFeePerGas''
         else bindR (not_uint (msg_prop t ''maxPriorityFeePerGas'')) (\<lambda>bad.
           if bad then refuse ''InvalidMaxPriorityFeePerGasOrMaxFeePerGas'' else Inr ())))"

definition validateGas :: "jsval \<Rightarrow> js_error + unit" where
  "validateGas t =
     (let gasPresent = (\<not> isNullish (msg_prop t ''gas'') \<or> \<not> isNullish (msg_prop t ''gasLimit'')) in
      if gasPresent \<and> \<not> isNullish (msg_prop t ''maxPriorityFeePerGas'') \<and>
         \<not> isNullish (msg_prop t ''maxFeePerGas'')
      then validateFeeMarketGas t else refuse ''MissingGasError'')"

definition starts_minus :: "jsval \<Rightarrow> js_error + bool" where
  "starts_minus v = (case v of
      JStr s \<Rightarrow> Inr (startsWith s ''-'')
    | _ \<Rightarrow> Inl (err_class ''TypeError'' ''startsWith is not a function''))"

definition nonce_or_chain_bad :: "jsval \<Rightarrow> js_error + bool" where
  "nonce_or_chain_bad t =
     (let nonce = msg_prop t ''nonce''; chainId = msg_prop t ''chainId'' in
      if isNullish nonce \<or> isNullish chainId then Inr True
      else bindR (starts_minus nonce) (\<lambda>neg. if neg then Inr True else starts_minus chainId))"

definition validateTransactionForSigning ::
  "lib \<Rightarrow> (jsval \<Rightarrow> js_error + unit) option \<Rightarrow> jsval \<Rightarrow> js_error + unit" where
  "validateTransactionForSigning L overrideMethod t = (case overrideMethod of
      Some check \<Rightarrow> check t
    | None \<Rightarrow>
        if typeof t \<noteq> TObject \<or> isNullish t then refuse ''InvalidTransactionObjectError''
        else bindR (validateCustomChainInfo t) (\<lambda>_. bindR (validateChainInfo t) (\<lambda>_.
          bindR (validateBaseChain t) (\<lambda>_. bindR (validateHardfork t) (\<lambda>_.
          bindR (formatTransaction L t QRL_DATA_FORMAT None False) (\<lambda>f.
          bindR (validateGas f) (\<lambda>_.
          bindR (nonce_or_chain_bad f) (\<lambda>bad.
            if bad then refuse ''InvalidNonceOrChainIdError'' else Inr ()))))))))"

section \<open>The type of a transaction\<close>

definition validateTxTypeAndHandleErrors :: "lib \<Rightarrow> jsval \<Rightarrow> js_error + unit" where
  "validateTxTypeAndHandleErrors L t =
     (case validateJSONSchema L (st ''object'') t False of
        Inr _ \<Rightarrow> Inr ()
      | Inl e \<Rightarrow>
          if ecode e = ErrClass ''Web3ValidatorError''
          then Inl (err_class ''InvalidPropertiesForTransactionTypeError'' (emsg e)) else Inl e)"

definition format_hex :: "lib \<Rightarrow> jsval \<Rightarrow> js_error + jsval" where
  "format_hex L v = format_as L ''uint'' v QRL_DATA_FORMAT"

definition defaultTransactionTypeParser :: "lib \<Rightarrow> jsval \<Rightarrow> js_error + jsval" where
  "defaultTransactionTypeParser L t =
     (let type = msg_prop t ''type'' in
      if \<not> isNullish type then
        bindR (if type = JStr ''0x2'' then validateTxTypeAndHandleErrors L t else Inr ()) (\<lambda>_.
          format_hex L type)
      else if \<not> isNullish (msg_prop t ''maxFeePerGas'') \<or> \<not> isNullish (msg_prop t ''maxPriorityFeePerGas'')
      then bindR (validateTxTypeAndHandleErrors L t) (\<lambda>_. Inr (JStr ''0x2''))
      else
        let common = msg_prop t ''common'';
            givenHardfork = nullish_or (msg_prop t ''hardfork'') (msg_prop common ''hardfork'') in
        if givenHardfork = JUndef then Inr JUndef else Inr (JStr ''0x2''))"

text \<open>The functions of the user that the options \<^verbatim>\<open>transactionTypeParser\<close> and \<^verbatim>\<open>transactionBuilder\<close> hold.\<close>

record user_functions =
  uf_typeParser :: "(jsval \<Rightarrow> js_error + jsval) option"
  uf_builder :: "(jsval \<Rightarrow> jsval \<Rightarrow> bool \<Rightarrow> bool \<Rightarrow> jsval rpc) option"

definition detectTransactionType :: "qrl_context \<Rightarrow> user_functions \<Rightarrow> jsval \<Rightarrow> js_error + jsval" where
  "detectTransactionType C U t = (case uf_typeParser U of
      Some f \<Rightarrow> f t | None \<Rightarrow> defaultTransactionTypeParser (qc_lib C) t)"

definition detectRawTransactionType :: "lib \<Rightarrow> bytes \<Rightarrow> js_error + string" where
  "detectRawTransactionType L bs =
     toHex L (case bs of [] \<Rightarrow> JUndef | b # _ \<Rightarrow> JNum (NInt (int (unat b)))) False"

definition getTransactionType :: "qrl_context \<Rightarrow> user_functions \<Rightarrow> jsval \<Rightarrow> js_error + jsval" where
  "getTransactionType C U t = bindR (detectTransactionType C U t) (\<lambda>inferred.
     let default = option_of (qc_config C) ''defaultTransactionType'' in
     if \<not> isNullish inferred then Inr inferred
     else if \<not> isNullish default then format_hex (qc_lib C) default
     else Inr JUndef)"

section \<open>The gas price\<close>

definition MAX_UINT256 :: int where "MAX_UINT256 = 2 ^ 256 - 1"

definition safeBigInt :: "jsval \<Rightarrow> js_error + int" where
  "safeBigInt v =
     (if isNullish v then Inl (js_Error ''Expected numeric'')
      else if (case v of JStr s \<Rightarrow> startsWith s ''-'' | _ \<Rightarrow> False) then Inl (js_Error ''Negative value from RPC'')
      else bindR (js_BigInt v) (\<lambda>i.
        if i < 0 \<or> i > MAX_UINT256 then Inl (js_Error ''out of uint256 range'') else Inr i))"

definition getEip1559GasPricing :: "qrl_context \<Rightarrow> jsval \<Rightarrow> data_format \<Rightarrow> jsval rpc" where
  "getEip1559GasPricing C t fmt =
     bindS (getBlock C (option_of (qc_config C) ''defaultBlock'') (JBool False) fmt) (\<lambda>block.
     bindS (pureR (bindR (field_of block ''baseFeePerGas'') safeBigInt)) (\<lambda>baseFee.
     bindS (pureR (safeBigInt (nullish_or (msg_prop t ''maxPriorityFeePerGas'')
       (option_of (qc_config C) ''defaultMaxPriorityFeePerGas'')))) (\<lambda>priority.
     bindS (pureR (format_as (qc_lib C) ''uint'' (JBig priority) fmt)) (\<lambda>p.
     bindS (pureR (format_as (qc_lib C) ''uint''
       (nullish_or (msg_prop t ''maxFeePerGas'') (JBig (baseFee * 2 + priority))) fmt)) (\<lambda>m.
       returnS (JObj [(''maxPriorityFeePerGas'', p), (''maxFeePerGas'', m)]))))))"

definition unsupported_type :: "js_error" where
  "unsupported_type = err_class ''UnsupportedTransactionTypeError'' ''unsupported transaction type''"

definition getTransactionGasPricing ::
  "qrl_context \<Rightarrow> user_functions \<Rightarrow> jsval \<Rightarrow> data_format \<Rightarrow> jsval rpc" where
  "getTransactionGasPricing C U t fmt =
     bindS (pureR (getTransactionType C U t)) (\<lambda>type.
       if isNullish type then returnS JUndef
       else bindS (pureR (starts_minus type)) (\<lambda>neg.
         if neg \<or> type \<noteq> JStr ''0x2'' then throwS (native_error unsupported_type)
         else getEip1559GasPricing C t fmt))"

section \<open>Sender, receiver and nonce\<close>

text \<open>The attribute is \<^verbatim>\<open>from\<close> or \<^verbatim>\<open>to\<close>; the seed is \<^const>\<open>JUndef\<close> when there is none.\<close>

definition getTransactionFromOrToAttr ::
  "string \<Rightarrow> qrl_context \<Rightarrow> jsval \<Rightarrow> jsval \<Rightarrow> js_error + jsval" where
  "getTransactionFromOrToAttr attr C t seed =
     (let v = msg_prop t attr in
      if v \<noteq> JUndef then
        (if isAddressString (qc_lib C) v True then Inr v
         else bindR (isNumber v) (\<lambda>num.
           if num then
             bindR (format_as (qc_lib C) ''uint'' v NUMBER_DATA_FORMAT) (\<lambda>i.
               case context_account C i of
                 Some a \<Rightarrow> Inr (JStr (ac_address a))
               | None \<Rightarrow> Inl (err_class ''LocalWalletNotAvailableError'' ''Attempted to index account in local wallet''))
           else Inl (err_class (if attr = ''from'' then ''InvalidTransactionWithSender''
                                else ''InvalidTransactionWithReceiver'') ''invalid transaction'')))
      else if attr = ''from'' then
        if \<not> isNullish seed then
          bindR (seedToAccount (qc_lib C) (qc_accounts C) seed) (\<lambda>a.
            map_sum id JStr (util_toChecksumAddress (qc_lib C) (JStr (ac_address a))))
        else
          let d = option_of (qc_config C) ''defaultAccount'' in Inr (if isNullish d then JUndef else d)
      else Inr JUndef)"

definition getTransactionNonce :: "qrl_context \<Rightarrow> jsval \<Rightarrow> data_format \<Rightarrow> jsval rpc" where
  "getTransactionNonce C address fmt =
     (if isNullish address
      then throwS (native_error (err_class ''UnableToPopulateNonceError'' ''unable to populate nonce''))
      else getTransactionCount C address (option_of (qc_config C) ''defaultBlock'') fmt)"

section \<open>Filling in a transaction\<close>

definition getId :: "qrl_context \<Rightarrow> data_format \<Rightarrow> jsval rpc" where
  "getId C fmt = bindS (rpc_getId (qc_node C)) (answer_as C ''uint'' fmt)"

definition getPeerCount :: "qrl_context \<Rightarrow> data_format \<Rightarrow> jsval rpc" where
  "getPeerCount C fmt = bindS (rpc_getPeerCount (qc_node C)) (answer_as C ''uint'' fmt)"

definition isListening :: "qrl_context \<Rightarrow> jsval rpc" where
  "isListening C = rpc_isListening (qc_node C)"

definition fill_from :: "qrl_context \<Rightarrow> jsval \<Rightarrow> jsval \<Rightarrow> js_error + jsval" where
  "fill_from C seed t =
     (if isNullish (msg_prop t ''from'') then
        map_sum id (\<lambda>a. set_field ''from'' a t) (getTransactionFromOrToAttr ''from'' C JUndef seed)
      else Inr t)"

definition fill_nonce :: "qrl_context \<Rightarrow> jsval \<Rightarrow> jsval rpc" where
  "fill_nonce C t =
     (if isNullish (msg_prop t ''nonce'') then
        bindS (getTransactionNonce C (msg_prop t ''from'') QRL_DATA_FORMAT) (\<lambda>n.
          returnS (set_field ''nonce'' n t))
      else returnS t)"

definition with_prefix :: "jsval \<Rightarrow> js_error + jsval" where
  "with_prefix v = (case v of
      JStr s \<Rightarrow> Inr (if startsWith s ''0x'' then v else JStr (''0x'' @ s))
    | _ \<Rightarrow> Inl (err_class ''TypeError'' ''startsWith is not a function''))"

definition fill_value :: "jsval \<Rightarrow> jsval" where
  "fill_value t = (if isNullish (msg_prop t ''value'') then set_field ''value'' (JStr ''0x'') t else t)"

definition fill_payload :: "lib \<Rightarrow> jsval \<Rightarrow> js_error + jsval" where
  "fill_payload L t =
     (let dat = msg_prop t ''data''; inp = msg_prop t ''input'' in
      if \<not> isNullish dat then
        if given_and_not (\<lambda>i. i = dat) inp then
          bindR (bytesToHex L dat) (\<lambda>_. bindR (bytesToHex L inp) (\<lambda>_.
            Inl (err_class ''TransactionDataAndInputError'' ''data and input are different'')))
        else map_sum id (\<lambda>d. set_field ''data'' d t) (with_prefix dat)
      else if \<not> isNullish inp then map_sum id (\<lambda>i. set_field ''input'' i t) (with_prefix inp)
      else Inr (set_field ''input'' (JStr ''0x'') t))"

definition default_common :: "jsval \<Rightarrow> js_error + jsval" where
  "default_common common =
     (let cust = msg_prop common ''customChain'' in
      if isNullish cust then Inl (no_property ''chainId'')
      else Inr (JObj (AList.update ''customChain'' (JObj [(''chainId'', msg_prop cust ''chainId''),
              (''networkId'', msg_prop cust ''networkId''), (''name'', msg_prop cust ''name'')])
             (spread_fields common))))"

definition fill_default :: "qrl_context \<Rightarrow> string \<Rightarrow> string \<Rightarrow> jsval \<Rightarrow> jsval" where
  "fill_default C k opt t =
     (if isNullish (msg_prop t k) then set_field k (option_of (qc_config C) opt) t else t)"

definition fill_common :: "qrl_context \<Rightarrow> jsval \<Rightarrow> js_error + jsval" where
  "fill_common C t =
     (let d = option_of (qc_config C) ''defaultCommon'' in
      if \<not> isNullish (msg_prop t ''common'') then Inr t
      else bindR (if js_truthy d then map_sum id (\<lambda>c. set_field ''common'' c t) (default_common d) else Inr t)
        (\<lambda>t. Inr (fill_default C ''hardfork'' ''defaultHardfork'' (fill_default C ''chain'' ''defaultChain'' t))))"

definition custom_chain_id :: "jsval \<Rightarrow> js_error + jsval" where
  "custom_chain_id t =
     (let common = msg_prop t ''common'' in
      if isNullish common then Inr JUndef
      else field_of (msg_prop common ''customChain'') ''chainId'')"

definition fill_chainId :: "qrl_context \<Rightarrow> jsval \<Rightarrow> jsval rpc" where
  "fill_chainId C t =
     (if isNullish (msg_prop t ''chainId'') then
        bindS (pureR (custom_chain_id t)) (\<lambda>c.
          if isNullish c then
            bindS (getChainId C QRL_DATA_FORMAT) (\<lambda>i. returnS (set_field ''chainId'' i t))
          else returnS t)
      else returnS t)"

definition fill_networkId :: "qrl_context \<Rightarrow> jsval \<Rightarrow> jsval rpc" where
  "fill_networkId C t =
     (let d = option_of (qc_config C) ''defaultNetworkId'' in
      if isNullish (msg_prop t ''networkId'') then
        bindS (if isNullish d then getId C QRL_DATA_FORMAT else returnS d) (\<lambda>i.
          returnS (set_field ''networkId'' i t))
      else returnS t)"

definition fill_gasLimit :: "jsval \<Rightarrow> jsval" where
  "fill_gasLimit t =
     (if isNullish (msg_prop t ''gasLimit'') \<and> \<not> isNullish (msg_prop t ''gas'')
      then set_field ''gasLimit'' (msg_prop t ''gas'') t else t)"

definition fill_type :: "qrl_context \<Rightarrow> user_functions \<Rightarrow> jsval \<Rightarrow> js_error + jsval" where
  "fill_type C U t = bindR (getTransactionType C U t) (\<lambda>type.
     let t = set_field ''type'' type t in
     Inr (if isNullish (msg_prop t ''accessList'') \<and> (type = JStr ''0x1'' \<or> type = JStr ''0x2'')
          then set_field ''accessList'' (JArr []) t else t))"

definition spread_over :: "jsval \<Rightarrow> jsval \<Rightarrow> jsval" where
  "spread_over t u = fold (\<lambda>(k, v). set_field k v) (spread_fields u) t"

definition fill_price :: "qrl_context \<Rightarrow> user_functions \<Rightarrow> bool \<Rightarrow> jsval \<Rightarrow> jsval rpc" where
  "fill_price C U fillGasPrice t =
     (if fillGasPrice then
        bindS (getTransactionGasPricing C U t QRL_DATA_FORMAT) (\<lambda>p. returnS (spread_over t p))
      else returnS t)"

definition fill_gas :: "qrl_context \<Rightarrow> bool \<Rightarrow> jsval \<Rightarrow> jsval rpc" where
  "fill_gas C fillGasLimit t =
     (if isNullish (msg_prop t ''gas'') \<and> isNullish (msg_prop t ''gasLimit'') \<and> fillGasLimit then
        bindS (estimateGas C t (JStr ''latest'') QRL_DATA_FORMAT) (\<lambda>g.
        bindS (pureR (format_hex (qc_lib C) g)) (\<lambda>g. returnS (set_field ''gas'' g t)))
      else returnS t)"

definition defaultTransactionBuilder ::
  "qrl_context \<Rightarrow> user_functions \<Rightarrow> jsval \<Rightarrow> jsval \<Rightarrow> bool \<Rightarrow> bool \<Rightarrow> jsval rpc" where
  "defaultTransactionBuilder C U transaction seed fillGasPrice fillGasLimit =
     bindS (pureR (format (qc_lib C) (Inl transactionSchema) transaction DEFAULT_RETURN_FORMAT)) (\<lambda>t.
     bindS (pureR (fill_from C seed t)) (\<lambda>t.
     bindS (fill_nonce C t) (\<lambda>t.
     bindS (pureR (fill_payload (qc_lib C) (fill_value t))) (\<lambda>t.
     bindS (pureR (fill_common C t)) (\<lambda>t.
     bindS (fill_chainId C t) (\<lambda>t.
     bindS (fill_networkId C t) (\<lambda>t.
     bindS (pureR (fill_type C U (fill_gasLimit t))) (\<lambda>t.
     bindS (fill_price C U fillGasPrice t) (\<lambda>t.
       fill_gas C fillGasLimit t)))))))))"

definition transactionBuilder ::
  "qrl_context \<Rightarrow> user_functions \<Rightarrow> jsval \<Rightarrow> jsval \<Rightarrow> bool \<Rightarrow> bool \<Rightarrow> jsval rpc" where
  "transactionBuilder C U = (case uf_builder U of
      Some f \<Rightarrow> f | None \<Rightarrow> defaultTransactionBuilder C U)"

section \<open>The transaction that is signed\<close>

definition getQRLjsTxDataFromTransaction :: "jsval \<Rightarrow> tx_data" where
  "getQRLjsTxDataFromTransaction t =
     \<lparr>td_chainId = msg_prop t ''chainId'', td_nonce = msg_prop t ''nonce'',
      td_gasLimit = nullish_or (msg_prop t ''gasLimit'') (msg_prop t ''gas''), td_to = msg_prop t ''to'',
      td_value = msg_prop t ''value'', td_data = nullish_or (msg_prop t ''data'') (msg_prop t ''input''),
      td_accessList = msg_prop t ''accessList'',
      td_maxPriorityFeePerGas = msg_prop t ''maxPriorityFeePerGas'',
      td_maxFeePerGas = msg_prop t ''maxFeePerGas'', td_descriptor = JUndef, td_extraParams = JUndef,
      td_signature = JUndef, td_publicKey = JUndef, td_type = msg_prop t ''type''\<rparr>"

definition chain_of :: "jsval \<Rightarrow> chain_id option" where
  "chain_of v = (case v of
      JStr s \<Rightarrow> Some (ChainName s)
    | _ \<Rightarrow> if isNullish v then None
           else (case as_int v of Some i \<Rightarrow> Some (ChainNum i) | None \<Rightarrow> Some (ChainName [])))"

definition name_of_value :: "jsval \<Rightarrow> string option" where
  "name_of_value v = (case v of JStr s \<Rightarrow> Some s | _ \<Rightarrow> None)"

text \<open>\<^verbatim>\<open>Common.custom\<close> with the name and the ids of a chain; the network id replaces that of the base chain even when there is none.\<close>

definition custom_common ::
  "string option \<Rightarrow> jsval \<Rightarrow> jsval \<Rightarrow> jsval \<Rightarrow> jsval \<Rightarrow> js_error + common" where
  "custom_common name cid nid hf baseChain =
     map_sum id (\<lambda>c. c\<lparr>cm_chainParams := (cm_chainParams c)\<lparr>ch_networkId := as_int nid\<rparr>\<rparr>)
       (custom (CustomDict \<lparr>ch_name = name, ch_chainId = as_int cid, ch_networkId = as_int nid,
            ch_defaultHardfork = name_of_value hf, ch_genesis = None, ch_hardforks = None,
            ch_bootstrapNodes = None, ch_dnsNetworks = None, ch_consensus = None\<rparr>)
          (chain_of baseChain) None None)"

definition unsigned_options :: "qrl_context \<Rightarrow> jsval \<Rightarrow> js_error + common option" where
  "unsigned_options C t =
     (if js_truthy (option_of (qc_config C) ''defaultCommon'')
      then Inl (err_class ''TypeError'' ''common.chainId is not a function'')
      else bindR (toNumber (qc_lib C) (msg_prop t ''chainId'')) (\<lambda>chainId.
        bindR (if isNullish (msg_prop t ''networkId'') then Inr JUndef
               else toNumber (qc_lib C) (msg_prop t ''networkId'')) (\<lambda>networkId.
          map_sum id Some (custom_common (Some ''custom-network'') chainId networkId
            (nullish_or (msg_prop t ''hardfork'') (option_of (qc_config C) ''defaultHardfork''))
            (option_of (qc_config C) ''defaultChain'')))))"

text \<open>
  The options of the transaction. A default common of the context is a plain object, which has none of
  the methods the transaction calls.
\<close>

definition getQRLjsTransactionOptions :: "qrl_context \<Rightarrow> jsval \<Rightarrow> js_error + tx_options" where
  "getQRLjsTransactionOptions C t =
     (let common = msg_prop t ''common''; cust = msg_prop common ''customChain'';
          chain = msg_prop t ''chain''; hf = msg_prop t ''hardfork'';
          options = (\<lambda>c. default_opts\<lparr>to_common := c\<rparr>) in
      if \<not> ((\<not> isNullish chain \<and> \<not> isNullish hf) \<or> \<not> isNullish common)
      then map_sum id options (unsigned_options C t)
      else
        let name = nullish_or (msg_prop cust ''name'') (nullish_or chain (JStr ''custom-network'')) in
        bindR (toNumber (qc_lib C) (nullish_or (msg_prop cust ''chainId'') (msg_prop t ''chainId''))) (\<lambda>chainId.
        bindR (toNumber (qc_lib C) (nullish_or (msg_prop cust ''networkId'') (msg_prop t ''networkId''))) (\<lambda>networkId.
          if js_truthy chainId \<and> js_truthy networkId \<and> js_truthy name then
            map_sum id (\<lambda>c. options (Some c)) (custom_common (name_of_value name) chainId networkId
              (nullish_or (msg_prop common ''hardfork'')
                (nullish_or hf (option_of (qc_config C) ''defaultHardfork'')))
              (nullish_or (msg_prop common ''baseChain'')
                (nullish_or chain (option_of (qc_config C) ''defaultChain''))))
          else Inr (options None))))"

text \<open>A sender given with a seed must be the address of the seed.\<close>

definition check_sender :: "qrl_context \<Rightarrow> jsval \<Rightarrow> jsval \<Rightarrow> js_error + unit" where
  "check_sender C t seed =
     (let sender = msg_prop t ''from''; L = qc_lib C in
      if isNullish sender \<or> isNullish seed then Inr ()
      else bindR (seedToAccount L (qc_accounts C) seed) (\<lambda>a.
        bindR (util_toChecksumAddress L (JStr (template_text L sender))) (\<lambda>x.
        bindR (util_toChecksumAddress L (JStr (ac_address a))) (\<lambda>y.
          if x \<noteq> y then Inl (TransactionSigningError ''from does not match the address derived from the signing seed'')
          else Inr ()))))"

definition prepareTransactionForSigning ::
  "qrl_context \<Rightarrow> user_functions \<Rightarrow> jsval \<Rightarrow> jsval \<Rightarrow> bool \<Rightarrow> bool \<Rightarrow> tx rpc" where
  "prepareTransactionForSigning C U transaction seed fillGasPrice fillGasLimit =
     bindS (pureR (check_sender C transaction seed)) (\<lambda>_.
     bindS (transactionBuilder C U transaction seed fillGasPrice fillGasLimit) (\<lambda>populated.
     bindS (pureR (formatTransaction (qc_lib C) populated QRL_DATA_FORMAT None False)) (\<lambda>f.
     bindS (pureR (validateTransactionForSigning (qc_lib C) None f)) (\<lambda>_.
     bindS (pureR (getQRLjsTransactionOptions C f)) (\<lambda>options.
       pureR (Factory_fromTxData (qc_lib C) (getQRLjsTxDataFromTransaction f) options))))))"

section \<open>Accounts of a context\<close>

text \<open>The signing of an account made for a context (\<^verbatim>\<open>accounts.ts\<close> of \<^verbatim>\<open>web3\<close>).\<close>

definition signTransactionWithContext ::
  "qrl_context \<Rightarrow> user_functions \<Rightarrow> jsval \<Rightarrow> jsval \<Rightarrow> sign_tx_result rpc" where
  "signTransactionWithContext C U transaction seed =
     bindS (prepareTransactionForSigning C U transaction JUndef False True) (\<lambda>t.
     bindS (pureR (format_as (qc_lib C) ''bytes'' seed QRL_DATA_FORMAT)) (\<lambda>seedBytes.
       pureR (signTransaction (qc_lib C) (qc_accounts C) t seedBytes)))"

section \<open>Signed transactions\<close>

definition decodeSignedTransaction ::
  "lib \<Rightarrow> acc_lib \<Rightarrow> jsval \<Rightarrow> data_format \<Rightarrow> bool \<Rightarrow> js_error + jsval" where
  "decodeSignedTransaction L A encoded fmt fill =
     bindR (format_as L ''bytes'' encoded fmt) (\<lambda>rawT.
     bindR (hexToBytes L encoded) (\<lambda>bs.
     bindR (fromSerializedData L (tx_lib.truncate A) bs default_opts) (\<lambda>t.
     bindR (tx_toJSON L t) (\<lambda>json.
     bindR (bytesToHex L (JBytes (keccak256 L bs))) (\<lambda>h.
     bindR (detectRawTransactionType L bs) (\<lambda>type.
     bindR (formatTransaction L (set_field ''type'' (JStr type) (set_field ''hash'' (JStr h) json)) fmt None fill)
       (\<lambda>tx. Inr (JObj [(''raw'', rawT), (''tx'', tx)]))))))))"

definition qrl_signTransaction :: "qrl_context \<Rightarrow> jsval \<Rightarrow> data_format \<Rightarrow> jsval rpc" where
  "qrl_signTransaction C transaction fmt =
     bindS (request_transaction C transaction) (\<lambda>t.
     bindS (rpc_signTransaction (qc_node C) t) (\<lambda>response.
       if isString response
       then pureR (decodeSignedTransaction (qc_lib C) (qc_accounts C) response fmt True)
       else bindS (liftS (read_field response ''raw'')) (\<lambda>r.
         bindS (pureR (format_as (qc_lib C) ''bytes'' r fmt)) (\<lambda>rawT.
         bindS (pureR (formatTransaction (qc_lib C) (msg_prop response ''tx'') fmt None True)) (\<lambda>tx.
           returnS (JObj [(''raw'', rawT), (''tx'', tx)]))))))"

end
