(* ===== verification/QrlReadProps.thy ===== *)
theory QrlReadProps
  imports QrlRead RpcProps FormatProps
begin

text \<open>
  What the readers promise: they send at most one request, which fits the interface of the node; a
  quantity is read for the block asked for and shown in the form asked for; a formatted transaction has
  one gas field and one call data.
\<close>

section \<open>Requests of the readers\<close>

definition quiet :: "'a rpc \<Rightarrow> bool" where "quiet m \<longleftrightarrow> (\<forall>tr. snd (m tr) = tr)"

named_theorems quiet_intros

lemma quiet_pure [quiet_intros]: "quiet (pureR r)" "quiet (returnS x)" "quiet (throwS e)" "quiet (liftS q)"
  by (simp_all add: quiet_def pureR_def)

lemma quiet_bind [quiet_intros]: "quiet m \<Longrightarrow> (\<And>x. quiet (f x)) \<Longrightarrow> quiet (bindS m f)"
  by (auto simp: quiet_def bindS_unchanged split: sum.split)

lemma quiet_answers [quiet_intros]:
  "quiet (answer_as C f fmt v)" "quiet (answer_by C s fmt v)" "quiet (answer_transaction C fmt v)"
  "quiet (request_transaction C t)"
  by (auto simp: answer_as_def answer_by_def answer_transaction_def request_transaction_def
      intro: quiet_intros)

lemma sends_ok_quiet: "quiet m \<Longrightarrow> sends_ok N m"
  by (simp add: quiet_def sends_ok_def)

lemma sends_ok_before: "quiet m \<Longrightarrow> (\<And>x. sends_ok N (f x)) \<Longrightarrow> sends_ok N (bindS m f)"
  by (auto simp: quiet_def sends_ok_def bindS_unchanged split: sum.split)

lemma sends_ok_after:
  assumes "sends_ok N m" and "\<And>x. quiet (f x)"
  shows "sends_ok N (bindS m f)"
proof -
  have "snd (bindS m f tr) = snd (m tr)" for tr
    using assms(2) by (auto simp: bindS_def quiet_def split: prod.split sum.split)
  with assms(1) show ?thesis by (simp add: sends_ok_def)
qed

lemma sends_ok_by_block:
  "(\<And>b. sends_ok N (f b)) \<Longrightarrow> (\<And>b. sends_ok N (g b)) \<Longrightarrow> sends_ok N (by_block C block f g)"
  unfolding by_block_def Let_def by (intro sends_ok_before quiet_intros) (auto intro: sends_ok_before quiet_intros)

lemma rpc_sends:
  assumes "zod_ok (nd_lib N)"
  shows "sends_ok N (run_op N op)"
  by (rule run_op_sends [OF assms])

datatype read_op =
    Read_blockNumber
  | Read_chainId
  | Read_gasPrice
  | Read_priorityFee
  | Read_block jsval jsval
  | Read_blockTransactionCount jsval
  | Read_balance jsval jsval
  | Read_storage jsval jsval jsval
  | Read_code jsval jsval
  | Read_transactionCount jsval jsval
  | Read_proof jsval "jsval list" jsval
  | Read_receipt jsval
  | Read_transaction jsval
  | Read_pendingTransactions
  | Read_transactionFromBlock jsval jsval
  | Read_estimateGas jsval jsval
  | Read_call jsval jsval
  | Read_accessList jsval jsval
  | Read_logs jsval
  | Read_feeHistory jsval jsval jsval
  | Read_sign jsval jsval
  | Read_signTypedData jsval jsval

primrec run_read :: "qrl_context \<Rightarrow> data_format \<Rightarrow> read_op \<Rightarrow> jsval rpc" where
  "run_read C fmt Read_blockNumber = getBlockNumber C fmt"
| "run_read C fmt Read_chainId = getChainId C fmt"
| "run_read C fmt Read_gasPrice = getGasPrice C fmt"
| "run_read C fmt Read_priorityFee = getMaxPriorityFeePerGas C fmt"
| "run_read C fmt (Read_block b h) = getBlock C b h fmt"
| "run_read C fmt (Read_blockTransactionCount b) = getBlockTransactionCount C b fmt"
| "run_read C fmt (Read_balance a b) = getBalance C a b fmt"
| "run_read C fmt (Read_storage a s b) = getStorageAt C a s b fmt"
| "run_read C fmt (Read_code a b) = getCode C a b fmt"
| "run_read C fmt (Read_transactionCount a b) = getTransactionCount C a b fmt"
| "run_read C fmt (Read_proof a ks b) = getProof C a ks b fmt"
| "run_read C fmt (Read_receipt h) = getTransactionReceipt C h fmt"
| "run_read C fmt (Read_transaction h) = getTransaction C h fmt"
| "run_read C fmt Read_pendingTransactions = getPendingTransactions C fmt"
| "run_read C fmt (Read_transactionFromBlock b i) = getTransactionFromBlock C b i fmt"
| "run_read C fmt (Read_estimateGas t b) = estimateGas C t b fmt"
| "run_read C fmt (Read_call t b) = qrl_call C t b fmt"
| "run_read C fmt (Read_accessList t b) = createAccessList C t b fmt"
| "run_read C fmt (Read_logs f) = getLogs C f fmt"
| "run_read C fmt (Read_feeHistory n b r) = getFeeHistory C n b r fmt"
| "run_read C fmt (Read_sign m a) = qrl_sign C m a fmt"
| "run_read C fmt (Read_signTypedData a d) = signTypedData C a d fmt"

lemmas read_defs = getBlockNumber_def getChainId_def getGasPrice_def getMaxPriorityFeePerGas_def
  getBlock_def getBlockTransactionCount_def getBalance_def getStorageAt_def getCode_def
  getTransactionCount_def getProof_def getTransactionReceipt_def getTransaction_def
  getPendingTransactions_def getTransactionFromBlock_def estimateGas_def qrl_call_def
  createAccessList_def getLogs_def getFeeHistory_def qrl_sign_def signTypedData_def

lemmas each_sends = run_op_sends [where op = Op_getBlockNumber, simplified]
  run_op_sends [where op = Op_getChainId, simplified] run_op_sends [where op = Op_getGasPrice, simplified]
  run_op_sends [where op = Op_getMaxPriorityFeePerGas, simplified]
  run_op_sends [where op = "Op_getBlockByHash b h" for b h, simplified]
  run_op_sends [where op = "Op_getBlockByNumber b h" for b h, simplified]
  run_op_sends [where op = "Op_getBlockTransactionCountByHash b" for b, simplified]
  run_op_sends [where op = "Op_getBlockTransactionCountByNumber b" for b, simplified]
  run_op_sends [where op = "Op_getBalance a b" for a b, simplified]
  run_op_sends [where op = "Op_getStorageAt a s b" for a s b, simplified]
  run_op_sends [where op = "Op_getCode a b" for a b, simplified]
  run_op_sends [where op = "Op_getTransactionCount a b" for a b, simplified]
  run_op_sends [where op = "Op_getProof a k b" for a k b, simplified]
  run_op_sends [where op = "Op_getTransactionReceipt h" for h, simplified]
  run_op_sends [where op = "Op_getTransactionByHash h" for h, simplified]
  run_op_sends [where op = Op_getPendingTransactions, simplified]
  run_op_sends [where op = "Op_getTransactionByBlockHashAndIndex b i" for b i, simplified]
  run_op_sends [where op = "Op_getTransactionByBlockNumberAndIndex b i" for b i, simplified]
  run_op_sends [where op = "Op_estimateGas t b" for t b, simplified]
  run_op_sends [where op = "Op_call t b" for t b, simplified]
  run_op_sends [where op = "Op_createAccessList t b" for t b, simplified]
  run_op_sends [where op = "Op_getLogs f" for f, simplified]
  run_op_sends [where op = "Op_getFeeHistory n b r" for n b r, simplified]
  run_op_sends [where op = "Op_sign a m" for a m, simplified]
  run_op_sends [where op = "Op_signTypedData a d" for a d, simplified]

lemma quiet_lists [quiet_intros]:
  "quiet (case js_elems v of None \<Rightarrow> throwS e | Some xs \<Rightarrow> pureR (f xs))"
  "quiet (if isNullish v then returnS v else answer_by C s fmt v)"
  by (auto intro: quiet_intros split: option.split)

text \<open>
  C32: whatever a reader is called with, and whatever the node answers, it sends at most one request, of a
  method of the interface with parameters the interface accepts.
\<close>

theorem readers_send_one_request:
  assumes "zod_ok (qc_lib C)"
  shows "snd (run_read C fmt op tr) = tr \<or>
    (\<exists>r. snd (run_read C fmt op tr) = tr @ [r] \<and> well_formed_request (qc_lib C) r)"
proof -
  have "sends_ok (qc_node C) (run_read C fmt op)"
  proof (cases op)
    case (Read_sign m a)
    have asked: "sends_ok (qc_node C) (bindS (rpc_sign (qc_node C) a v) (answer_as C f fmt))" for v f
      by (intro sends_ok_after each_sends assms quiet_intros)
    show ?thesis unfolding Read_sign run_read.simps qrl_sign_def
    proof (rule sends_ok_before, goal_cases)
      case (2 v)
      show ?case
        by (cases "context_account C a")
          (auto simp: asked intro!: sends_ok_quiet quiet_intros)
    qed (rule quiet_intros)
  qed (simp only: run_read.simps read_defs Let_def;
      intro sends_ok_before sends_ok_after sends_ok_by_block each_sends assms quiet_intros)+
  then show ?thesis by (simp add: sends_ok_def)
qed

definition echo_context :: qrl_context where
  "echo_context = \<lparr>qc_node = echo_node, qc_config = default_config, qc_wallet = None,
     qc_accounts = undefined\<rparr>"

theorem readers_send_one_request_witness:
  "snd (getBalance echo_context (JStr ''Q0'') JUndef DEFAULT_RETURN_FORMAT []) = [] \<or>
   (\<exists>r. snd (getBalance echo_context (JStr ''Q0'') JUndef DEFAULT_RETURN_FORMAT []) = [r] \<and>
        well_formed_request lib_ref r)"
  using readers_send_one_request [of echo_context DEFAULT_RETURN_FORMAT
      "Read_balance (JStr ''Q0'') JUndef" "[]"] lib_ref_zod
  by (simp add: echo_context_def echo_node_def)

section \<open>Quantities\<close>

lemma parse_uint_base: "baseType (parseBaseType ''uint'') = Some ''uint''"
  by (simp add: parse_uint)

lemma format_uint:
  assumes "toBigInt v = Inr n"
  shows "format_as L ''uint'' v fmt = Inr (case convert_number L v (dnumber fmt) of Inr r \<Rightarrow> r | Inl _ \<Rightarrow> v)"
  using assms
  by (cases v) (simp_all add: format_as_def format_def sf_def schema_of_input_def convert.simps
      convertScalarValue_def parse_uint toBigInt_def Let_def split: sum.split)

lemma block_number_hex:
  assumes "toBigInt b = Inr n"
  shows "block_number L b = Inr (JStr (signed_hex n))"
proof -
  have "list_all (\<lambda>t. \<not> isHex (JStr t)) block_tags" by code_simp
  then have "\<not> isBlockTag b" using assms
    by (auto simp: isBlockTag_def toBigInt_def list_all_iff split: jsval.splits if_splits)
  with assms show ?thesis
    by (simp add: block_number_def format_uint QRL_DATA_FORMAT_def convert_number_def)
qed

lemma accepted_values:
  assumes "zod_ok L" and "ts \<noteq> []"
    and "list_all2 (\<lambda>t v. simple_format t \<and> (\<exists>p. formats L t = Some p \<and> p v = Inr True)) ts vs"
  shows "validate L (map AbiShort ts) vs False = Inr None"
proof -
  have "\<exists>ss. entry_list l i (map AbiShort us) = Inr ss \<and>
      list_all2 (\<lambda>s v. safeParse L (convertToZod L s) v = Inr []) ss ws"
    if "list_all2 (\<lambda>t v. simple_format t \<and> (\<exists>p. formats L t = Some p \<and> p v = Inr True)) us ws"
    for l i us ws
    using that
  proof (induction us ws arbitrary: i rule: list_all2_induct)
    case (Cons t us v ws)
    obtain ss where "entry_list l (Suc i) (map AbiShort us) = Inr ss"
      "list_all2 (\<lambda>s v. safeParse L (convertToZod L s) v = Inr []) ss ws"
      using Cons.IH by blast
    moreover have "t \<noteq> []" using Cons.hyps(1) by (auto simp: simple_format_def)
    ultimately show ?case using Cons.hyps(1)
      by (auto simp: entry_schema_simple zod_okD(1) [OF assms(1)] format_check_def)
  qed simp
  from this [OF assms(3)] obtain ss where ss: "entry_list ''/0'' 0 (map AbiShort ts) = Inr ss"
    "list_all2 (\<lambda>s v. safeParse L (convertToZod L s) v = Inr []) ss vs" by blast
  have "length ts = length vs" "length ss = length vs"
    using assms(3) ss(2) by (auto dest: list_all2_lengthD)
  with assms(2) have "ss \<noteq> []" by auto
  then have "safeParse L (convertToZod L (items_schema ss)) (JArr vs) = Inr []"
    using ss(2) by (simp add: zod_okD(3) [OF assms(1)] js_elems_def list_all2_map1)
  with \<open>ss \<noteq> []\<close> show ?thesis
    by (simp add: validate_def qrlAbiToJsonSchema_def abiSchemaToJsonSchema_def ss(1)
        Validator_validate_def items_schema_def [of ss] sch_array_def)
qed

lemma block_number_accepted:
  assumes "0 \<le> n" and "n < 2 ^ 512"
  shows "isBlockNumberOrTag (JStr (signed_hex n)) = Inr True"
proof -
  have "hex_str (nat n) \<noteq> []" "list_all is_hex_char (hex_str (nat n))" by (simp_all add: hex_str_hex)
  then have "value_to_check (JStr (signed_hex n)) = Inr n"
    using assms(1) value_to_check_hex [of "CHR ''x''" "hex_str (nat n)"] by (simp add: signed_hex_def)
  with assms show ?thesis
    by (simp add: isBlockNumberOrTag_def isBlockNumber_def isUInt_default in_range_def is_numeric_def
        typeof_def signed_hex_def)
qed

text \<open>A number in the form asked for.\<close>

definition shown_quantity :: "lib \<Rightarrow> data_format \<Rightarrow> jsval \<Rightarrow> int \<Rightarrow> jsval" where
  "shown_quantity L fmt v m = (case dnumber fmt of
      NUMBER_BIGINT \<Rightarrow> JBig m
    | NUMBER_HEX \<Rightarrow> JStr (signed_hex m)
    | NUMBER_STR \<Rightarrow> JStr (int_str 10 m)
    | NUMBER_NUMBER \<Rightarrow> number_of_big L m
    | NUMBER_OTHER f \<Rightarrow> v)"

lemma format_quantity:
  "toBigInt v = Inr m \<Longrightarrow> format_as L ''uint'' v fmt = Inr (shown_quantity L fmt v m)"
  by (simp add: format_uint convert_number_def shown_quantity_def split: fmt_number.split)

text \<open>
  The balance of an address at a block, the block given as a number, a bigint or a hexadecimal text,
  is asked for with one request that has the address and the block as a hexadecimal number, and the
  quantity the node answers is returned in the representation of numbers asked for.
\<close>

theorem balance_of_block:
  assumes "zod_ok (qc_lib C)" and "isAddressString (qc_lib C) (JStr a) True"
    and "toBigInt b = Inr n" and "0 \<le> n" and "n < 2 ^ 512"
    and "nd_answer (qc_node C) tr (''qrl_getBalance'', [JStr a, JStr (signed_hex n)]) = Inr v"
    and "toBigInt v = Inr m"
  shows "getBalance C (JStr a) b fmt tr =
    (Inr (shown_quantity (qc_lib C) fmt v m), tr @ [(''qrl_getBalance'', [JStr a, JStr (signed_hex n)])])"
proof -
  have "b \<noteq> JUndef" using assms(3) by (auto simp: toBigInt_def)
  then have "block_param C b = Inr (JStr (signed_hex n))"
    by (simp add: block_param_def given_block_def block_number_hex [OF assms(3)])
  moreover have "rpc_validate (qc_node C) [''address'', ''blockNumberOrTag''] [JStr a, JStr (signed_hex n)] tr
      = (Inr (), tr)"
    using accepted_values [OF assms(1), of "[''address'', ''blockNumberOrTag'']" "[JStr a, JStr (signed_hex n)]"]
      assms(2) block_number_accepted [OF assms(4,5)]
    by (simp add: rpc_validate_def formats_base)
  ultimately show ?thesis
    using assms(6) format_quantity [OF assms(7)]
    by (simp add: getBalance_def pureR_def bindS_def rpc_getBalance_def rpc_send_def answer_as_def)
qed

definition zero_address :: string where "zero_address = CHR ''Q'' # replicate 128 (CHR ''0'')"

lemma zero_address_ok: "isAddressString lib_ref (JStr zero_address) True"
proof -
  have "qrl_address_regex zero_address" "tl zero_address = toLowerCase (tl zero_address)"
    by (code_simp, code_simp)
  then show ?thesis by (simp add: isAddressString_def checkAddressCheckSum_def)
qed

theorem balance_of_block_witness:
  "getBalance (echo_context\<lparr>qc_node := \<lparr>nd_lib = lib_ref, nd_answer = (\<lambda>tr r. Inr (JStr ''0x64''))\<rparr>\<rparr>)
     (JStr zero_address) (JNum (NInt 255)) DEFAULT_RETURN_FORMAT [] =
   (Inr (JBig 100), [(''qrl_getBalance'', [JStr zero_address, JStr ''0xff''])])"
proof -
  have "toBigInt (JStr ''0x64'') = Inr 100" "signed_hex 255 = ''0xff''" "toBigInt (JNum (NInt 255)) = Inr 255"
    by code_simp+
  then show ?thesis
    using balance_of_block [of "echo_context\<lparr>qc_node := \<lparr>nd_lib = lib_ref,
          nd_answer = (\<lambda>tr r. Inr (JStr ''0x64''))\<rparr>\<rparr>" zero_address "JNum (NInt 255)" 255 "[]"
        "JStr ''0x64''" 100 DEFAULT_RETURN_FORMAT] zero_address_ok lib_ref_zod
    by (simp add: shown_quantity_def DEFAULT_RETURN_FORMAT_def)
qed

section \<open>Formatted transactions\<close>

lemma msg_prop_set_field:
  "msg_prop (set_field k v t) j = (if j = k \<and> (\<exists>kvs. t = JObj kvs) then v else msg_prop t j)"
  by (cases t) (auto simp: set_field_def msg_prop_def obj_get_def update_conv')

lemma set_field_obj [simp]: "(\<exists>kvs. set_field k v t = JObj kvs) \<longleftrightarrow> (\<exists>kvs. t = JObj kvs)"
  by (cases t) (auto simp: set_field_def)

lemma msg_prop_delete_field: "msg_prop (delete_field k t) j = (if j = k then JUndef else msg_prop t j)"
  by (cases t) (auto simp: delete_field_def msg_prop_def obj_get_def delete_conv')

lemma msg_prop_obj: "msg_prop t k \<noteq> JUndef \<Longrightarrow> \<exists>kvs. t = JObj kvs"
  by (cases t) (simp_all add: msg_prop_def)

text \<open>
  A formatted transaction has no gas limit left, which is its gas; its data and its input, when both
  are given, are the same bytes, and when they are filled in each is the other.
\<close>

theorem formatted_transaction:
  assumes "formatTransaction L transaction fmt schema fill = Inr t"
  shows "isNullish (msg_prop t ''gasLimit'') \<and>
    (fill \<longrightarrow> msg_prop t ''input'' = msg_prop t ''data'' \<or>
       isNullish (msg_prop t ''input'') \<and> isNullish (msg_prop t ''data'')) \<and>
    (\<not> fill \<longrightarrow> compare_data L t = Inr ())"
proof -
  obtain f where f: "compare_data L f = Inr ()" "t = gas_limit_to_gas (fill_data fill f)"
    using assms by (auto simp: formatTransaction_def Let_def bindR_Inr_iff)
  have gas: "isNullish (msg_prop (gas_limit_to_gas u) ''gasLimit'')" for u
    by (simp add: gas_limit_to_gas_def Let_def msg_prop_delete_field)
  have kept: "k \<notin> {''gas'', ''gasLimit''} \<Longrightarrow> msg_prop (gas_limit_to_gas u) k = msg_prop u k" for u k
    by (auto simp: gas_limit_to_gas_def Let_def msg_prop_delete_field msg_prop_set_field)
  have same: "compare_data L (gas_limit_to_gas u) = compare_data L u" for u
    by (simp add: compare_data_def kept)
  have "msg_prop (fill_data True f) ''input'' = msg_prop (fill_data True f) ''data'' \<or>
      isNullish (msg_prop f ''input'') \<and> isNullish (msg_prop f ''data'')"
    using msg_prop_obj [of f "''data''"] msg_prop_obj [of f "''input''"]
    by (auto simp: fill_data_def Let_def msg_prop_set_field isNullish_def)
  then show ?thesis
    using f gas kept same by (auto simp: fill_data_def Let_def)
qed

definition gas_limit_call :: jsval where
  "gas_limit_call = JObj [(''gasLimit'', JBig 100), (''to'', JNull)]"

lemma sample_formatted:
  "formatTransaction lib_ref gas_limit_call QRL_DATA_FORMAT None True = Inr (JObj [(''gas'', JStr ''0x64'')])"
proof -
  have limit: "schema_at transactionInfoSchema ''gasLimit'' = Some (sf ''uint'')"
    "sch_properties transactionInfoSchema \<noteq> None" "signed_hex 100 = ''0x64''" by code_simp+
  have merged: "mergeDeep (JObj []) [spread_fields gas_limit_call] = JObj [(''gasLimit'', JBig 100)]"
    by code_simp
  have "format lib_ref (Inl transactionInfoSchema) (JObj [(''gasLimit'', JBig 100)]) QRL_DATA_FORMAT =
      Inr (JObj [(''gasLimit'', JStr ''0x64'')])"
    using limit by (subst format_reference [where ps = "the (sch_properties transactionInfoSchema)"])
      (auto simp: objectProtoNames_def FORBIDDEN_KEYS_def pruned_obj sf_def convertScalarValue_def parse_uint convert_number_def toBigInt_def
        QRL_DATA_FORMAT_def)
  then show ?thesis
    by (simp add: formatTransaction_def merged)
      (simp add: gas_limit_call_def compare_data_def fill_data_def gas_limit_to_gas_def Let_def msg_prop_def
        obj_get_def set_field_def delete_field_def)
qed

theorem formatted_transaction_witness:
  "isNullish (msg_prop (JObj [(''gas'', JStr ''0x64'')]) ''gasLimit'')"
  using formatted_transaction [OF sample_formatted] by blast

end
