(* ===== verification/QrlTxProps.thy ===== *)
theory QrlTxProps
  imports QrlTx QrlReadProps
begin

text \<open>
  What holds of the transactions made for signing: a sender is never mixed up with another account's seed,
  the fields that are given survive the filling in, a fee that is filled in covers the base fee, and what
  passes the validation is complete.
\<close>

section \<open>The sender\<close>

lemma pureR_state [simp]: "pureR r tr = (liftE r, tr)"
  by (simp add: pureR_def)

lemma liftE_Inr_iff [simp]: "liftE r = Inr x \<longleftrightarrow> r = Inr x"
  by (cases r) (simp_all add: liftE_def)

text \<open>
  C28: when a sender is given with a seed, a transaction is made, and the node is asked for anything, only if
  the sender has the checksummed address of the account of that seed.
\<close>

theorem sender_matches_seed:
  assumes "prepareTransactionForSigning C U transaction seed price gas tr = (r, tr')"
    and "\<not> isNullish (msg_prop transaction ''from'')" and "\<not> isNullish seed"
    and "tr' \<noteq> tr \<or> (\<exists>t. r = Inr t)"
  shows "\<exists>a x. seedToAccount (qc_lib C) (qc_accounts C) seed = Inr a \<and>
    util_toChecksumAddress (qc_lib C) (JStr (template_text (qc_lib C) (msg_prop transaction ''from''))) = Inr x \<and>
    util_toChecksumAddress (qc_lib C) (JStr (ac_address a)) = Inr x"
proof -
  have "check_sender C transaction seed = Inr ()"
  proof (cases "check_sender C transaction seed")
    case (Inl e)
    then have "r = Inl (native_error e)" "tr' = tr"
      using assms(1) by (auto simp: prepareTransactionForSigning_def bindS_def)
    with assms(4) show ?thesis by simp
  qed simp
  with assms(2,3) show ?thesis
    by (auto simp: check_sender_def bindR_Inr_iff Let_def split: if_splits)
qed

section \<open>Filling in\<close>

definition kept :: "string \<Rightarrow> jsval \<Rightarrow> jsval \<Rightarrow> bool" where
  "kept k t u \<longleftrightarrow> \<not> isNullish (msg_prop t k) \<longrightarrow> msg_prop u k = msg_prop t k"

lemma kept_refl [simp]: "kept k t t" by (simp add: kept_def)

lemma kept_trans: "kept k t u \<Longrightarrow> kept k u v \<Longrightarrow> kept k t v" by (simp add: kept_def)

lemma kept_set: "k \<noteq> j \<or> isNullish (msg_prop t j) \<Longrightarrow> kept k t (set_field j v t)"
  by (auto simp: kept_def msg_prop_set_field)

text \<open>An action that returns its argument with more fields.\<close>

definition keeps_field :: "string \<Rightarrow> (jsval \<Rightarrow> jsval rpc) \<Rightarrow> bool" where
  "keeps_field k f \<longleftrightarrow> (\<forall>t tr u tr'. f t tr = (Inr u, tr') \<longrightarrow> kept k t u)"

lemma keeps_bind: "keeps_field k f \<Longrightarrow> keeps_field k g \<Longrightarrow> keeps_field k (\<lambda>t. bindS (f t) g)"
  unfolding keeps_field_def by (blast elim: bindS_cases intro: kept_trans)

lemma keeps_pure: "(\<And>t u. r t = Inr u \<Longrightarrow> kept k t u) \<Longrightarrow> keeps_field k (\<lambda>t. pureR (r t))"
  by (auto simp: keeps_field_def)

lemma bindS_Inr_iff: "bindS m f s = (Inr y, s') \<longleftrightarrow> (\<exists>x s1. m s = (Inr x, s1) \<and> f x s1 = (Inr y, s'))"
  by (auto simp: bindS_def split: prod.split sum.split)

lemmas fill_defs = fill_from_def fill_nonce_def fill_value_def fill_common_def
  fill_default_def fill_chainId_def fill_networkId_def fill_gasLimit_def fill_gas_def

lemma fill_default_kept: "kept k t (fill_default C j opt t)"
  by (simp add: fill_default_def kept_set)

lemma keeps_fills:
  "fill_from C seed t = Inr u \<Longrightarrow> kept k t u" "keeps_field k (fill_nonce C)" "kept k t (fill_value t)"
  "fill_common C t = Inr u \<Longrightarrow> kept k t u" "keeps_field k (fill_chainId C)" "keeps_field k (fill_networkId C)"
  "kept k t (fill_gasLimit t)" "keeps_field k (fill_gas C b)"
proof -
  show "fill_from C seed t = Inr u \<Longrightarrow> kept k t u"
    by (auto simp: fill_from_def mapped_Inr kept_set split: if_splits)
  show "keeps_field k (fill_nonce C)"
    by (auto simp: keeps_field_def fill_nonce_def bindS_Inr_iff kept_set split: if_splits)
  show "kept k t (fill_value t)" by (simp add: fill_value_def kept_set)
  show "keeps_field k (fill_chainId C)"
    by (auto simp: keeps_field_def fill_chainId_def bindS_Inr_iff kept_set split: if_splits)
  show "keeps_field k (fill_networkId C)"
    by (auto simp: keeps_field_def fill_networkId_def Let_def bindS_Inr_iff kept_set split: if_splits)
  show "kept k t (fill_gasLimit t)" by (simp add: fill_gasLimit_def kept_set)
  show "keeps_field k (fill_gas C b)"
    by (auto simp: keeps_field_def fill_gas_def bindS_Inr_iff kept_set split: if_splits)
  have default: "kept k v (fill_default C ''hardfork'' ''defaultHardfork''
      (fill_default C ''chain'' ''defaultChain'' v))" for v
    by (rule kept_trans) (rule fill_default_kept)+
  show "kept k t u" if "fill_common C t = Inr u"
  proof (cases "isNullish (msg_prop t ''common'')")
    case True
    then have "kept k t (set_field ''common'' c t)" for c by (simp add: kept_set)
    with that True show ?thesis
      by (auto simp: fill_common_def Let_def bindR_Inr_iff mapped_Inr intro: default
          kept_trans [OF _ default] split: if_splits)
  qed (use that in \<open>simp add: fill_common_def\<close>)
qed

lemma keeps_type: "k \<noteq> ''type'' \<Longrightarrow> fill_type C U t = Inr u \<Longrightarrow> kept k t u"
  by (auto simp: fill_type_def bindR_Inr_iff Let_def kept_def msg_prop_set_field split: if_splits)

lemma keeps_payload: "k \<notin> {''data'', ''input''} \<Longrightarrow> fill_payload L t = Inr u \<Longrightarrow> kept k t u"
  by (auto simp: fill_payload_def Let_def bindR_Inr_iff mapped_Inr kept_set split: if_splits)

lemma priced_fields:
  "getTransactionGasPricing C U t fmt tr = (Inr p, tr') \<Longrightarrow>
   p = JUndef \<or> (\<exists>a b. p = JObj [(''maxPriorityFeePerGas'', a), (''maxFeePerGas'', b)])"
  by (auto simp: getTransactionGasPricing_def getEip1559GasPricing_def bindS_Inr_iff split: if_splits)

lemma keeps_price: "k \<notin> {''maxPriorityFeePerGas'', ''maxFeePerGas''} \<Longrightarrow> keeps_field k (fill_price C U b)"
  by (auto simp: keeps_field_def fill_price_def bindS_Inr_iff spread_over_def spread_fields_def kept_def
      msg_prop_set_field dest!: priced_fields split: if_splits)


section \<open>Fees\<close>

lemma safeBigInt_range: "safeBigInt v = Inr i \<Longrightarrow> 0 \<le> i \<and> i \<le> MAX_UINT256"
  by (auto simp: safeBigInt_def bindR_Inr_iff split: if_splits)

text \<open>
  C30: when no fee is given, the maximal fee that is filled in is twice the base fee of the default block
  plus the priority fee, so it covers the priority fee on every base fee up to twice that one and fits
  in 258 bits.
\<close>

theorem priced_fee_covers:
  assumes "getEip1559GasPricing C t QRL_DATA_FORMAT tr = (Inr p, tr')"
    and "isNullish (msg_prop t ''maxFeePerGas'')"
  shows "\<exists>block base priority m.
    getBlock C (option_of (qc_config C) ''defaultBlock'') (JBool False) QRL_DATA_FORMAT tr = (Inr block, tr') \<and>
    safeBigInt (msg_prop block ''baseFeePerGas'') = Inr base \<and>
    toBigInt (msg_prop p ''maxPriorityFeePerGas'') = Inr priority \<and>
    toBigInt (msg_prop p ''maxFeePerGas'') = Inr m \<and>
    m = 2 * base + priority \<and> 0 \<le> priority \<and> m < 2 ^ 258 \<and>
    (\<forall>b. b \<le> 2 * base \<longrightarrow> b + priority \<le> m)"
proof -
  obtain block base priority where run:
    "getBlock C (option_of (qc_config C) ''defaultBlock'') (JBool False) QRL_DATA_FORMAT tr = (Inr block, tr')"
    "field_of block ''baseFeePerGas'' = Inr (msg_prop block ''baseFeePerGas'')"
    "safeBigInt (msg_prop block ''baseFeePerGas'') = Inr base"
    "safeBigInt (nullish_or (msg_prop t ''maxPriorityFeePerGas'')
       (option_of (qc_config C) ''defaultMaxPriorityFeePerGas'')) = Inr priority"
    and p: "p = JObj [(''maxPriorityFeePerGas'', shown_quantity (qc_lib C) QRL_DATA_FORMAT (JBig priority) priority),
      (''maxFeePerGas'', shown_quantity (qc_lib C) QRL_DATA_FORMAT (JBig (base * 2 + priority)) (base * 2 + priority))]"
    using assms
    by (auto simp: getEip1559GasPricing_def bindS_Inr_iff bindR_Inr_iff field_of_def nullish_or_def
        format_quantity toBigInt_def split: if_splits)
  have "0 \<le> base" "base \<le> 2 ^ 256 - 1" "0 \<le> priority" "priority \<le> 2 ^ 256 - 1"
    using safeBigInt_range [OF run(3)] safeBigInt_range [OF run(4)] by (simp_all add: MAX_UINT256_def)
  with run p show ?thesis
    by (intro exI [of _ block] exI [of _ base] exI [of _ priority] exI [of _ "2 * base + priority"])
      (simp add: msg_prop_def obj_get_def shown_quantity_def QRL_DATA_FORMAT_def toBigInt_hex mult.commute)
qed

section \<open>Validation\<close>

lemma not_uint_False: "not_uint v = Inr False \<longleftrightarrow> \<not> isNullish v \<and> isUInt v (OptAbi ''uint'') = Inr True"
  by (auto simp: not_uint_def mapped_Inr)

text \<open>
  C31: what is accepted for signing has, once formatted, a gas and both fees that are unsigned integers, a
  nonce and a chain id that are not negative, and no contradiction between the ways its chain is given.
\<close>

theorem accepted_transaction_complete:
  assumes "validateTransactionForSigning L None t = Inr ()"
  shows "\<exists>f. formatTransaction L t QRL_DATA_FORMAT None False = Inr f \<and>
    (\<forall>k \<in> {''gas'', ''maxFeePerGas'', ''maxPriorityFeePerGas''}. isUInt (msg_prop f k) (OptAbi ''uint'') = Inr True) \<and>
    (\<forall>k \<in> {''nonce'', ''chainId''}. \<exists>s. msg_prop f k = JStr s \<and> \<not> startsWith s ''-'') \<and>
    (isNullish (msg_prop t ''chain'') \<longleftrightarrow> isNullish (msg_prop t ''hardfork'')) \<and>
    (\<not> isNullish (msg_prop t ''common'') \<longrightarrow> isNullish (msg_prop t ''chain'') \<and>
       \<not> isNullish (msg_prop (msg_prop (msg_prop t ''common'') ''customChain'') ''chainId'') \<and>
       (isNullish (msg_prop t ''chainId'') \<or>
        msg_prop t ''chainId'' = msg_prop (msg_prop (msg_prop t ''common'') ''customChain'') ''chainId''))"
proof -
  obtain f where ok: "validateCustomChainInfo t = Inr ()" "validateChainInfo t = Inr ()"
    "formatTransaction L t QRL_DATA_FORMAT None False = Inr f" "validateGas f = Inr ()"
    "nonce_or_chain_bad f = Inr False"
    using assms by (auto simp: validateTransactionForSigning_def refuse_def bindR_Inr_iff split: if_splits)
  have "\<forall>k \<in> {''gas'', ''maxFeePerGas'', ''maxPriorityFeePerGas''}. isUInt (msg_prop f k) (OptAbi ''uint'') = Inr True"
    using ok(4) by (auto simp: validateGas_def validateFeeMarketGas_def Let_def refuse_def bindR_Inr_iff
        not_uint_def mapped_Inr split: if_splits)
  moreover have "\<forall>k \<in> {''nonce'', ''chainId''}. \<exists>s. msg_prop f k = JStr s \<and> \<not> startsWith s ''-''"
    using ok(5) by (auto simp: nonce_or_chain_bad_def Let_def bindR_Inr_iff starts_minus_def
        split: if_splits jsval.splits)
  moreover have "isNullish (msg_prop t ''chain'') \<longleftrightarrow> isNullish (msg_prop t ''hardfork'')"
    "\<not> isNullish (msg_prop t ''common'') \<Longrightarrow> isNullish (msg_prop t ''chain'')"
    using ok(2) by (auto simp: validateChainInfo_def Let_def refuse_def split: if_splits)
  moreover have "\<not> isNullish (msg_prop t ''common'') \<longrightarrow>
      \<not> isNullish (msg_prop (msg_prop (msg_prop t ''common'') ''customChain'') ''chainId'') \<and>
      (isNullish (msg_prop t ''chainId'') \<or>
       msg_prop t ''chainId'' = msg_prop (msg_prop (msg_prop t ''common'') ''customChain'') ''chainId'')"
    using ok(1) by (auto simp: validateCustomChainInfo_def Let_def refuse_def given_and_not_def split: if_splits)
  ultimately show ?thesis using ok(3) by blast
qed

section \<open>Concrete transactions\<close>

lemma echo_lib [simp]: "qc_lib echo_context = lib_ref"
  by (simp add: echo_context_def echo_node_def)

definition given_address :: "account \<Rightarrow> jsval" where
  "given_address a = JObj [(''from'', JStr (ac_address a))]"

definition asking_builder :: user_functions where
  "asking_builder = \<lparr>uf_typeParser = None, uf_builder = Some (\<lambda>_ _ _ _. rpc_getBlockNumber echo_node)\<rparr>"

theorem sender_matches_seed_witness:
  "\<exists>a x. seedToAccount lib_ref acc_ref (JBytes (replicate 51 9)) = Inr a \<and>
     util_toChecksumAddress lib_ref (JStr (ac_address a)) = Inr x"
proof -
  let ?C = "echo_context\<lparr>qc_accounts := acc_ref\<rparr>"
  let ?seed = "JBytes (replicate 51 9)"
  have wl: "wl_open acc_ref (replicate 51 9) = Inr ()" by (simp add: acc_ref_sel tx_ref_def)
  obtain c where a: "seedToAccount lib_ref acc_ref ?seed = Inr \<lparr>ac_address = CHR ''Q'' # c,
      ac_seed = ''0x'' @ hex_of_bytes (replicate 51 9), ac_given = ?seed, ac_wallet = replicate 51 9\<rparr>"
      (is "_ = Inr ?a")
    and c: "util_toChecksumAddress lib_ref (JStr (CHR ''Q'' # hex_of_bytes (addressFromPublicKeyAndDescriptor
      lib_ref (wl_pk acc_ref (replicate 51 9)) (wl_descriptor acc_ref (replicate 51 9))))) = Inr (CHR ''Q'' # c)"
    by (rule seedToAccount_bytes [OF lib_ref_zod lib_ref_crypto acc_ref_ok wl])
  have "isAddressString lib_ref (JStr (CHR ''Q'' # c)) True"
    using c lib_ref_crypto by (auto simp: util_toChecksumAddress_def intro: isAddressString_checksum split: if_splits)
  then obtain x where x: "util_toChecksumAddress lib_ref (JStr (CHR ''Q'' # c)) = Inr x"
    by (auto simp: util_toChecksumAddress_def isAddressString_def toChecksumAddress_def split: if_splits)
  have lib: "qc_lib ?C = lib_ref" "qc_accounts ?C = acc_ref" by (simp_all add: echo_context_def echo_node_def)
  have "check_sender ?C (given_address ?a) ?seed = Inr ()"
    using a x by (simp add: check_sender_def lib given_address_def msg_prop_def obj_get_def Let_def
        template_text_def)
  then have "snd (prepareTransactionForSigning ?C asking_builder (given_address ?a) ?seed False True []) =
      [(''qrl_blockNumber'', [])]"
    by (simp add: prepareTransactionForSigning_def transactionBuilder_def asking_builder_def
        rpc_getBlockNumber_def rpc_send_def echo_node_def bindS_def split: sum.split)
  then obtain r tr' where "prepareTransactionForSigning ?C asking_builder (given_address ?a) ?seed False True [] = (r, tr')"
      "tr' \<noteq> []"
    by (cases "prepareTransactionForSigning ?C asking_builder (given_address ?a) ?seed False True []") simp
  then show ?thesis
    using sender_matches_seed [of ?C asking_builder "given_address ?a" ?seed False True "[]" r tr']
    by (auto simp: lib given_address_def msg_prop_def obj_get_def)
qed

lemma schema_fields:
  "list_all (\<lambda>k. schema_at transactionSchema k = Some (sf ''uint''))
     [''nonce'', ''chainId'', ''networkId'', ''gas'']"
  "list_all (\<lambda>k. schema_at transactionInfoSchema k = Some (sf ''uint''))
     [''nonce'', ''chainId'', ''gas'', ''maxFeePerGas'', ''maxPriorityFeePerGas'']"
  "sch_properties transactionSchema \<noteq> None" "sch_properties transactionInfoSchema \<noteq> None"
  "schema_at transactionSchema ''from'' = Some (sf ''address'')"
  "schema_at blockSchema ''baseFeePerGas'' = Some (sf ''uint'')" "sch_properties blockSchema \<noteq> None"
  by code_simp+

definition full_transaction :: jsval where
  "full_transaction = JObj [(''from'', JStr zero_address), (''nonce'', JBig 1), (''chainId'', JBig 1),
     (''networkId'', JBig 1), (''gas'', JBig 100)]"

lemma full_transaction_read:
  "format lib_ref (Inl transactionSchema) full_transaction DEFAULT_RETURN_FORMAT = Inr full_transaction"
  unfolding full_transaction_def
  by (subst format_reference [where ps = "the (sch_properties transactionSchema)"])
    (use schema_fields in \<open>auto simp: objectProtoNames_def FORBIDDEN_KEYS_def pruned_obj sf_def
       convertScalarValue_def parse_uint convert_number_def toBigInt_def DEFAULT_RETURN_FORMAT_def
       parseBaseType_def VALID_QRL_BASE_TYPES_def startsWith_def\<close>)

definition no_type_parser :: user_functions where
  "no_type_parser = \<lparr>uf_typeParser = Some (\<lambda>t. Inr JUndef), uf_builder = None\<rparr>"

lemma full_transaction_filled:
  "\<exists>u. defaultTransactionBuilder echo_context no_type_parser full_transaction JUndef False True [] = (Inr u, [])"
proof -
  let ?C = "echo_context" and ?t = "full_transaction"
  let ?t1 = "set_field ''input'' (JStr ''0x'') (set_field ''value'' (JStr ''0x'') ?t)"
  let ?t2 = "set_field ''hardfork'' (JStr ''zond'') (set_field ''chain'' (JStr ''mainnet'') ?t1)"
  let ?t3 = "set_field ''gasLimit'' (JBig 100) ?t2"
  have "toBigInt (JStr ''0x2'') = Inr 2" by code_simp
  then have type: "format_hex lib_ref (JStr ''0x2'') = Inr (JStr (signed_hex 2))"
    by (simp add: format_hex_def format_quantity shown_quantity_def QRL_DATA_FORMAT_def)
  have lib: "qc_lib ?C = lib_ref" "option_of (qc_config ?C) ''defaultTransactionType'' = JStr ''0x2''"
    "option_of (qc_config ?C) ''defaultCommon'' = JUndef"
    "option_of (qc_config ?C) ''defaultChain'' = JStr ''mainnet''"
    "option_of (qc_config ?C) ''defaultHardfork'' = JStr ''zond''"
    by (simp_all add: echo_context_def echo_node_def option_of_def default_config_def obj_get_def)
  have obj: "\<exists>kvs. ?t = JObj kvs" by (simp add: full_transaction_def)
  have field: "msg_prop ?t k = (case k of _ \<Rightarrow> obj_get [(''from'', JStr zero_address), (''nonce'', JBig 1),
      (''chainId'', JBig 1), (''networkId'', JBig 1), (''gas'', JBig 100)] k)" for k
    by (simp add: full_transaction_def msg_prop_def)
  note fields = msg_prop_set_field obj field obj_get_def
  have from0: "fill_from ?C JUndef ?t = Inr ?t" by (simp add: fill_from_def fields)
  have nonce: "fill_nonce ?C ?t [] = (Inr ?t, [])" by (simp add: fill_nonce_def fields)
  have payload: "fill_payload lib_ref (fill_value ?t) = Inr ?t1"
    by (simp add: fill_payload_def fill_value_def fields)
  have common: "fill_common ?C ?t1 = Inr ?t2"
    by (simp add: fill_common_def fill_default_def fields lib js_truthy_def)
  have chain: "fill_chainId ?C ?t2 [] = (Inr ?t2, [])" by (simp add: fill_chainId_def fields)
  have network: "fill_networkId ?C ?t2 [] = (Inr ?t2, [])" by (simp add: fill_networkId_def fields Let_def)
  have limit: "fill_gasLimit ?t2 = ?t3" by (simp add: fill_gasLimit_def fields)
  have typed: "\<exists>a. fill_type ?C no_type_parser ?t3 = Inr (set_field ''accessList'' a (set_field ''type'' (JStr (signed_hex 2)) ?t3)) \<or>
      fill_type ?C no_type_parser ?t3 = Inr (set_field ''type'' (JStr (signed_hex 2)) ?t3)"
    by (simp add: fill_type_def getTransactionType_def detectTransactionType_def no_type_parser_def lib type Let_def)
      blast
  have gassed: "fill_gas ?C True (set_field ''type'' v ?t3) [] = (Inr (set_field ''type'' v ?t3), [])"
    "fill_gas ?C True (set_field ''accessList'' a (set_field ''type'' v ?t3)) [] =
      (Inr (set_field ''accessList'' a (set_field ''type'' v ?t3)), [])" for v a
    by (simp_all add: fill_gas_def fields)
  show ?thesis
    using typed
    by (auto simp: defaultTransactionBuilder_def bindS_Inr lib full_transaction_read from0 nonce payload common
        chain network limit fill_price_def gassed)
qed


text \<open>A node with the base fee 100 in every block.\<close>

definition fee_context :: qrl_context where
  "fee_context = echo_context\<lparr>qc_node := \<lparr>nd_lib = lib_ref,
     nd_answer = (\<lambda>tr r. Inr (JObj [(''baseFeePerGas'', JStr ''0x64'')]))\<rparr>\<rparr>"

lemma fee_block:
  "getBlock fee_context (option_of (qc_config fee_context) ''defaultBlock'') (JBool False) QRL_DATA_FORMAT [] =
   (Inr (JObj [(''baseFeePerGas'', JStr ''0x64'')]), [(''qrl_getBlockByNumber'', [JStr ''latest'', JBool False])])"
proof -
  have hexes: "toBigInt (JStr ''0x64'') = Inr 100" "signed_hex 100 = ''0x64''" "isBlockTag (JStr ''latest'')"
    "isBytes (JStr ''latest'') (OptBits 0) = Inr False" by code_simp+
  have lib: "qc_lib fee_context = lib_ref"
    "option_of (qc_config fee_context) ''defaultBlock'' = JStr ''latest''"
    by (simp_all add: fee_context_def echo_context_def option_of_def default_config_def obj_get_def)
  have "validate lib_ref (map AbiShort [''blockNumberOrTag'', ''bool'']) [JStr ''latest'', JBool False] False = Inr None"
    by (rule accepted_values [OF lib_ref_zod])
      (simp_all add: formats_base isBlockNumberOrTag_def hexes isBoolean_def typeof_def simple_format_def)
  then have valid: "rpc_validate (qc_node fee_context) [''blockNumberOrTag'', ''bool''] [JStr ''latest'', JBool False] tr
      = (Inr (), tr)" for tr
    by (simp add: rpc_validate_def lib)
  have "format lib_ref (Inl blockSchema) (JObj [(''baseFeePerGas'', JStr ''0x64'')]) QRL_DATA_FORMAT =
      Inr (JObj [(''baseFeePerGas'', JStr ''0x64'')])"
    by (subst format_reference [where ps = "the (sch_properties blockSchema)"])
      (use schema_fields hexes in \<open>auto simp: objectProtoNames_def FORBIDDEN_KEYS_def pruned_obj sf_def
         convertScalarValue_def parse_uint convert_number_def QRL_DATA_FORMAT_def\<close>)
  moreover have "nd_answer (qc_node fee_context) tr r = Inr (JObj [(''baseFeePerGas'', JStr ''0x64'')])" for tr r
    by (simp add: fee_context_def)
  ultimately show ?thesis
    by (simp add: getBlock_def by_block_def lib given_block_def Let_def hexes bindS_def block_number_def
        rpc_getBlockByNumber_def valid rpc_send_def answer_by_def)
qed

theorem priced_fee_covers_witness:
  "\<exists>p. getEip1559GasPricing fee_context (JObj [(''maxPriorityFeePerGas'', JBig 2)]) QRL_DATA_FORMAT [] =
      (Inr p, [(''qrl_getBlockByNumber'', [JStr ''latest'', JBool False])]) \<and>
    (\<exists>m. toBigInt (msg_prop p ''maxFeePerGas'') = Inr m \<and> m = 202)"
proof -
  have "js_BigInt (JStr ''0x64'') = Inr 100" by code_simp
  then have base: "safeBigInt (JStr ''0x64'') = Inr 100" "safeBigInt (JBig 2) = Inr 2"
    by (simp_all add: safeBigInt_def js_BigInt_def MAX_UINT256_def startsWith_def)
  have hex: "dnumber QRL_DATA_FORMAT = NUMBER_HEX" by (simp add: QRL_DATA_FORMAT_def)
  let ?p = "JObj [(''maxPriorityFeePerGas'', JStr (signed_hex 2)), (''maxFeePerGas'', JStr (signed_hex 202))]"
  have p: "getEip1559GasPricing fee_context (JObj [(''maxPriorityFeePerGas'', JBig 2)]) QRL_DATA_FORMAT [] =
      (Inr ?p, [(''qrl_getBlockByNumber'', [JStr ''latest'', JBool False])])"
    by (simp add: getEip1559GasPricing_def bindS_def fee_block field_of_def msg_prop_def obj_get_def base
        nullish_or_def format_quantity toBigInt_def shown_quantity_def hex)
  then have "isNullish (msg_prop (JObj [(''maxPriorityFeePerGas'', JBig 2)]) ''maxFeePerGas'')"
    by (simp add: msg_prop_def obj_get_def)
  from priced_fee_covers [OF p this] p show ?thesis
    by (auto simp: fee_block msg_prop_def obj_get_def base toBigInt_hex)
qed

definition priced_transaction :: jsval where
  "priced_transaction = JObj [(''nonce'', JStr ''0x1''), (''chainId'', JStr ''0x1''), (''gas'', JStr ''0x64''),
     (''maxFeePerGas'', JStr ''0x64''), (''maxPriorityFeePerGas'', JStr ''0x1'')]"

lemma priced_transaction_formatted:
  "formatTransaction lib_ref priced_transaction QRL_DATA_FORMAT None False = Inr priced_transaction"
proof -
  have hexes: "toBigInt (JStr ''0x64'') = Inr 100" "signed_hex 100 = ''0x64''"
    "toBigInt (JStr ''0x1'') = Inr 1" "signed_hex 1 = ''0x1''" by code_simp+
  have merged: "mergeDeep (JObj []) [spread_fields priced_transaction] = priced_transaction" by code_simp
  have "format lib_ref (Inl transactionInfoSchema) priced_transaction QRL_DATA_FORMAT = Inr priced_transaction"
    unfolding priced_transaction_def
    by (subst format_reference [where ps = "the (sch_properties transactionInfoSchema)"])
      (use schema_fields hexes in \<open>auto simp: objectProtoNames_def FORBIDDEN_KEYS_def pruned_obj sf_def
         convertScalarValue_def parse_uint convert_number_def QRL_DATA_FORMAT_def\<close>)
  then show ?thesis
    by (simp add: formatTransaction_def merged)
      (simp add: priced_transaction_def compare_data_def fill_data_def gas_limit_to_gas_def Let_def msg_prop_def
        obj_get_def)
qed

theorem accepted_transaction_complete_witness:
  "validateTransactionForSigning lib_ref None priced_transaction = Inr () \<and>
   isUInt (msg_prop priced_transaction ''gas'') (OptAbi ''uint'') = Inr True"
proof -
  have "isUInt (JStr ''0x64'') (OptAbi ''uint'') = Inr True" "isUInt (JStr ''0x1'') (OptAbi ''uint'') = Inr True"
    by (simp only: isUInt_default; code_simp)+
  moreover have "msg_prop priced_transaction k = obj_get [(''nonce'', JStr ''0x1''), (''chainId'', JStr ''0x1''),
     (''gas'', JStr ''0x64''), (''maxFeePerGas'', JStr ''0x64''), (''maxPriorityFeePerGas'', JStr ''0x1'')] k" for k
    by (simp add: priced_transaction_def msg_prop_def)
  moreover have "msg_prop JUndef k = JUndef" for k by (simp add: msg_prop_def)
  moreover have "typeof priced_transaction = TObject" "priced_transaction \<noteq> JUndef" "priced_transaction \<noteq> JNull"
    by (simp_all add: priced_transaction_def typeof_def)
  ultimately have ok: "validateTransactionForSigning lib_ref None priced_transaction = Inr ()"
    by (simp add: validateTransactionForSigning_def priced_transaction_formatted validateCustomChainInfo_def
        validateChainInfo_def validateBaseChain_def validateHardfork_def validateGas_def validateFeeMarketGas_def
        not_uint_def nonce_or_chain_bad_def starts_minus_def given_and_not_def obj_get_def Let_def startsWith_def
        isNullish_def [of priced_transaction])
  with accepted_transaction_complete [OF ok] show ?thesis by (auto simp: priced_transaction_formatted)
qed

end
