(* ===== verification/ErrorClasses.thy ===== *)
theory ErrorClasses
  imports Errors Hash
begin

text \<open>
  The error classes of \<^verbatim>\<open>web3-errors\<close> that are not in \<^verbatim>\<open>Errors\<close>, each as the function of its constructor's
  arguments: the class with its code, its message and the properties it adds. \<^verbatim>\<open>error_json\<close> is what
  \<^verbatim>\<open>JSON.stringify\<close> is given for an error by its \<^verbatim>\<open>toJSON\<close>. The error of a transaction that ran out of gas,
  which prints its receipt with indentation, is left out.
\<close>

section \<open>The base classes\<close>

fun without_bigints :: "jsval \<Rightarrow> jsval" where
  "without_bigints (JBig i) = JStr (int_str 10 i)"
| "without_bigints (JArr vs) = JArr (map without_bigints vs)"
| "without_bigints (JObj kvs) = JObj (map (\<lambda>(k, v). (k, without_bigints v)) kvs)"
| "without_bigints (JResult vs ns) = JArr (map without_bigints vs)"
| "without_bigints v = v"

definition unquoted :: "string \<Rightarrow> string" where
  "unquoted s = filter (\<lambda>c. c \<noteq> CHR 0x27 \<and> c \<noteq> CHR 0x5C \<and> c \<noteq> CHR 0x22) s"

definition convertToString :: "lib \<Rightarrow> jsval \<Rightarrow> bool \<Rightarrow> string" where
  "convertToString L value unquotValue =
     (if isNullish value then ''undefined''
      else let result = (case js_json L (without_bigints value) of
             Inr (Some t) \<Rightarrow> t | _ \<Rightarrow> ''undefined'') in
           if unquotValue \<and> (typeof value = TBigint \<or> typeof value = TString)
           then unquoted result else result)"

definition base_error :: "string \<Rightarrow> string \<Rightarrow> string \<Rightarrow> (string \<times> jsval) list \<Rightarrow> error_obj" where
  "base_error cls code message props = ErrorObj cls message (JNum (NInt (err code))) props None"

definition invalid_value :: "lib \<Rightarrow> string \<Rightarrow> string \<Rightarrow> jsval \<Rightarrow> string \<Rightarrow> error_obj" where
  "invalid_value L cls code value msg =
     base_error cls code (''Invalid value given '' @ [CHR 0x22] @ convertToString L value True @
       [CHR 0x22] @ ''. Error: '' @ msg @ ''.'') []"

definition quoted :: "string \<Rightarrow> string" where
  "quoted s = CHR 0x22 # s @ [CHR 0x22]"

definition or_text :: "lib \<Rightarrow> jsval \<Rightarrow> string \<Rightarrow> string" where
  "or_text L v d = (if isNullish v then d else template_text L v)"

section \<open>Transactions\<close>

definition newline :: string where "newline = [CHR 0x0A]"

definition reverted_text :: "lib \<Rightarrow> jsval \<Rightarrow> string" where
  "reverted_text L receipt = ''Transaction has been reverted by the QRVM'' @
     (if receipt = JUndef then [] else '':'' @ newline @ '' '' @ convertToString L receipt False)"

definition new_TransactionError :: "string \<Rightarrow> jsval \<Rightarrow> error_obj" where
  "new_TransactionError message receipt =
     base_error ''TransactionError'' ''ERR_TX'' message [(''receipt'', receipt)]"

definition transaction_error :: "string \<Rightarrow> string \<Rightarrow> string \<Rightarrow> jsval \<Rightarrow> error_obj" where
  "transaction_error cls code message receipt = base_error cls code message [(''receipt'', receipt)]"

definition new_RevertInstructionError :: "lib \<Rightarrow> jsval \<Rightarrow> jsval \<Rightarrow> error_obj" where
  "new_RevertInstructionError L reason signature =
     base_error ''RevertInstructionError'' ''ERR_TX_REVERT_INSTRUCTION''
       (''Your request got reverted with the following reason string: '' @ template_text L reason)
       [(''reason'', reason), (''signature'', signature)]"

definition new_TransactionRevertInstructionError ::
  "lib \<Rightarrow> jsval \<Rightarrow> jsval \<Rightarrow> jsval \<Rightarrow> jsval \<Rightarrow> error_obj" where
  "new_TransactionRevertInstructionError L reason signature receipt dat =
     base_error ''TransactionRevertInstructionError'' ''ERR_TX_REVERT_TRANSACTION''
       (reverted_text L receipt)
       [(''reason'', reason), (''signature'', signature), (''receipt'', receipt), (''data'', dat)]"

definition new_TransactionRevertWithCustomError ::
  "lib \<Rightarrow> jsval \<Rightarrow> jsval \<Rightarrow> jsval \<Rightarrow> jsval \<Rightarrow> jsval \<Rightarrow> jsval \<Rightarrow> jsval \<Rightarrow> error_obj" where
  "new_TransactionRevertWithCustomError L reason errorName decodedSignature arguments signature receipt dat =
     base_error ''TransactionRevertWithCustomError'' ''ERR_TX_REVERT_TRANSACTION_CUSTOM_ERROR''
       (reverted_text L JUndef)
       [(''reason'', reason), (''customErrorName'', errorName),
        (''customErrorDecodedSignature'', decodedSignature), (''customErrorArguments'', arguments),
        (''signature'', signature), (''receipt'', receipt), (''data'', dat)]"

definition new_NoContractAddressFoundError :: "jsval \<Rightarrow> error_obj" where
  "new_NoContractAddressFoundError receipt =
     transaction_error ''NoContractAddressFoundError'' ''ERR_TX_NO_CONTRACT_ADDRESS''
       (''The transaction receipt didn'' @ [CHR 0x27] @ ''t contain a contract address.'') receipt"

definition new_ContractCodeNotStoredError :: "jsval \<Rightarrow> error_obj" where
  "new_ContractCodeNotStoredError receipt =
     transaction_error ''ContractCodeNotStoredError'' ''ERR_TX_CONTRACT_NOT_STORED''
       (''The contract code couldn'' @ [CHR 0x27] @ ''t be stored, please check your gas limit.'') receipt"

definition new_TransactionRevertedWithoutReasonError :: "lib \<Rightarrow> jsval \<Rightarrow> error_obj" where
  "new_TransactionRevertedWithoutReasonError L receipt =
     transaction_error ''TransactionRevertedWithoutReasonError'' ''ERR_TX_REVERT_WITHOUT_REASON''
       (reverted_text L receipt) receipt"

definition new_UndefinedRawTransactionError :: error_obj where
  "new_UndefinedRawTransactionError =
     transaction_error ''UndefinedRawTransactionError'' ''ERR_RAW_TX_UNDEFINED''
       ''Raw transaction undefined'' JUndef"

definition new_TransactionNotFound :: error_obj where
  "new_TransactionNotFound =
     transaction_error ''TransactionNotFound'' ''ERR_TX_NOT_FOUND'' ''Transaction not found'' JUndef"

definition new_InvalidTransactionWithSender :: "lib \<Rightarrow> jsval \<Rightarrow> error_obj" where
  "new_InvalidTransactionWithSender L v =
     invalid_value L ''InvalidTransactionWithSender'' ''ERR_TX_INVALID_SENDER'' v
       ''invalid transaction with invalid sender''"

definition new_InvalidTransactionWithReceiver :: "lib \<Rightarrow> jsval \<Rightarrow> error_obj" where
  "new_InvalidTransactionWithReceiver L v =
     invalid_value L ''InvalidTransactionWithReceiver'' ''ERR_TX_INVALID_RECEIVER'' v
       ''invalid transaction with invalid receiver''"

definition new_InvalidTransactionCall :: "lib \<Rightarrow> jsval \<Rightarrow> error_obj" where
  "new_InvalidTransactionCall L v =
     invalid_value L ''InvalidTransactionCall'' ''ERR_TX_INVALID_CALL'' v ''invalid transaction call''"

definition new_MissingCustomChainError :: "lib \<Rightarrow> error_obj" where
  "new_MissingCustomChainError L =
     invalid_value L ''MissingCustomChainError'' ''ERR_TX_MISSING_CUSTOM_CHAIN''
       (JStr ''MissingCustomChainError'')
       ''If tx.common is provided it must have tx.common.customChain''"

definition new_MissingCustomChainIdError :: "lib \<Rightarrow> error_obj" where
  "new_MissingCustomChainIdError L =
     invalid_value L ''MissingCustomChainIdError'' ''ERR_TX_MISSING_CUSTOM_CHAIN_ID''
       (JStr ''MissingCustomChainIdError'')
       (''If tx.common is provided it must have tx.common.customChain and '' @
        ''tx.common.customChain.chainId'')"

definition json_pair :: "lib \<Rightarrow> string \<Rightarrow> jsval \<Rightarrow> string \<Rightarrow> jsval \<Rightarrow> js_error + jsval" where
  "json_pair L k v l w = bindR (js_json L (JObj [(k, v), (l, w)])) (\<lambda>t.
     Inr (case t of Some s \<Rightarrow> JStr s | None \<Rightarrow> JUndef))"

definition new_ChainIdMismatchError :: "lib \<Rightarrow> jsval \<Rightarrow> jsval \<Rightarrow> js_error + error_obj" where
  "new_ChainIdMismatchError L txChainId customChainId =
     bindR (json_pair L ''txChainId'' txChainId ''customChainId'' customChainId) (\<lambda>v.
       Inr (invalid_value L ''ChainIdMismatchError'' ''ERR_TX_CHAIN_ID_MISMATCH'' v
         ''Chain Id doesnt match in tx.chainId tx.common.customChain.chainId''))"

definition new_ChainMismatchError :: "lib \<Rightarrow> jsval \<Rightarrow> jsval \<Rightarrow> js_error + error_obj" where
  "new_ChainMismatchError L txChain baseChain =
     bindR (json_pair L ''txChain'' txChain ''baseChain'' baseChain) (\<lambda>v.
       Inr (invalid_value L ''ChainMismatchError'' ''ERR_TX_CHAIN_MISMATCH'' v
         ''Chain doesnt match in tx.chain tx.common.basechain''))"

definition new_HardforkMismatchError :: "lib \<Rightarrow> jsval \<Rightarrow> jsval \<Rightarrow> js_error + error_obj" where
  "new_HardforkMismatchError L txHardfork commonHardfork =
     bindR (json_pair L ''txHardfork'' txHardfork ''commonHardfork'' commonHardfork) (\<lambda>v.
       Inr (invalid_value L ''HardforkMismatchError'' ''ERR_TX_HARDFORK_MISMATCH'' v
         ''hardfork doesnt match in tx.hardfork tx.common.hardfork''))"

definition new_CommonOrChainAndHardforkError :: "lib \<Rightarrow> error_obj" where
  "new_CommonOrChainAndHardforkError L =
     invalid_value L ''CommonOrChainAndHardforkError'' ''ERR_TX_INVALID_CHAIN_INFO''
       (JStr ''CommonOrChainAndHardforkError'')
       ''Please provide the common object or the chain and hardfork property but not all together.''"

definition new_MissingChainOrHardforkError :: "lib \<Rightarrow> jsval \<Rightarrow> jsval \<Rightarrow> error_obj" where
  "new_MissingChainOrHardforkError L ch hardfork =
     invalid_value L ''MissingChainOrHardforkError'' ''ERR_TX_MISSING_CHAIN_INFO''
       (JStr ''MissingChainOrHardforkError'')
       (''When specifying chain and hardfork, both values must be defined. Received '' @ quoted ''chain'' @
        '': '' @ or_text L ch ''undefined'' @ '', '' @ quoted ''hardfork'' @ '': '' @
        or_text L hardfork ''undefined'')"

definition new_MissingGasInnerError :: error_obj where
  "new_MissingGasInnerError =
     base_error ''MissingGasInnerError'' ''ERR_TX_MISSING_GAS_INNER_ERROR''
       (''Missing properties in transaction: define '' @ quoted ''gas'' @ '', '' @
        quoted ''maxPriorityFeePerGas'' @ '' and '' @ quoted ''maxFeePerGas'' @
        '' for type 2 transactions'') []"

definition new_MissingGasError :: "lib \<Rightarrow> jsval \<Rightarrow> jsval \<Rightarrow> jsval \<Rightarrow> error_obj" where
  "new_MissingGasError L gas maxPriorityFeePerGas maxFeePerGas =
     (case invalid_value L ''MissingGasError'' ''ERR_TX_MISSING_GAS''
         (JStr (''gas: '' @ or_text L gas ''undefined'' @ '', maxPriorityFeePerGas: '' @
           or_text L maxPriorityFeePerGas ''undefined'' @ '', maxFeePerGas: '' @
           or_text L maxFeePerGas ''undefined''))
         (quoted ''gas'' @ '' is missing'') of
       ErrorObj c m d ps _ \<Rightarrow> ErrorObj c m d ps (Some new_MissingGasInnerError))"

definition new_InvalidGas :: "lib \<Rightarrow> jsval \<Rightarrow> error_obj" where
  "new_InvalidGas L gas =
     invalid_value L ''InvalidGas'' ''ERR_TX_INVALID_LEGACY_GAS''
       (JStr (''gas: '' @ or_text L gas ''undefined'')) ''Gas is lower than 0''"

definition new_InvalidMaxPriorityFeePerGasOrMaxFeePerGas :: "lib \<Rightarrow> jsval \<Rightarrow> jsval \<Rightarrow> error_obj" where
  "new_InvalidMaxPriorityFeePerGasOrMaxFeePerGas L maxPriorityFeePerGas maxFeePerGas =
     invalid_value L ''InvalidMaxPriorityFeePerGasOrMaxFeePerGas'' ''ERR_TX_INVALID_FEE_MARKET_GAS''
       (JStr (''maxPriorityFeePerGas: '' @ or_text L maxPriorityFeePerGas ''undefined'' @
         '', maxFeePerGas: '' @ or_text L maxFeePerGas ''undefined''))
       ''maxPriorityFeePerGas or maxFeePerGas is lower than 0''"

definition new_InvalidTransactionObjectError :: "lib \<Rightarrow> jsval \<Rightarrow> error_obj" where
  "new_InvalidTransactionObjectError L v =
     invalid_value L ''InvalidTransactionObjectError'' ''ERR_TX_INVALID_OBJECT'' v
       ''invalid transaction object''"

definition new_InvalidNonceOrChainIdError :: "lib \<Rightarrow> jsval \<Rightarrow> jsval \<Rightarrow> error_obj" where
  "new_InvalidNonceOrChainIdError L nonce cid =
     invalid_value L ''InvalidNonceOrChainIdError'' ''ERR_TX_INVALID_NONCE_OR_CHAIN_ID''
       (JStr (''nonce: '' @ or_text L nonce ''undefined'' @ '', chainId: '' @ or_text L cid ''undefined''))
       ''Nonce or chainId is lower than 0''"

definition new_UnableToPopulateNonceError :: "lib \<Rightarrow> error_obj" where
  "new_UnableToPopulateNonceError L =
     invalid_value L ''UnableToPopulateNonceError'' ''ERR_TX_UNABLE_TO_POPULATE_NONCE''
       (JStr ''UnableToPopulateNonceError'') ''unable to populate nonce, no from address available''"

definition new_UnsupportedTransactionTypeError :: "lib \<Rightarrow> jsval \<Rightarrow> error_obj" where
  "new_UnsupportedTransactionTypeError L v =
     invalid_value L ''UnsupportedTransactionTypeError'' ''ERR_TX_UNSUPPORTED_TYPE'' v
       ''unsupported transaction type''"

definition data_and_input_text :: "lib \<Rightarrow> jsval \<Rightarrow> jsval \<Rightarrow> jsval" where
  "data_and_input_text L dat inp =
     JStr (''data: '' @ or_text L dat ''undefined'' @ '', input: '' @ or_text L inp ''undefined'')"

definition data_and_input_hint :: "string \<Rightarrow> string" where
  "data_and_input_hint what = ''You can'' @ [CHR 0x27] @ ''t have '' @ quoted ''data'' @ '' and '' @
     quoted ''input'' @ '' as properties of '' @ what @ '' at the same time, please use either '' @
     quoted ''data'' @ '' or '' @ quoted ''input'' @ '' instead.''"

definition new_TransactionDataAndInputError :: "lib \<Rightarrow> jsval \<Rightarrow> jsval \<Rightarrow> error_obj" where
  "new_TransactionDataAndInputError L dat inp =
     invalid_value L ''TransactionDataAndInputError'' ''ERR_TX_DATA_AND_INPUT''
       (data_and_input_text L dat inp) (data_and_input_hint ''transactions'')"

definition hash_hint :: "lib \<Rightarrow> jsval \<Rightarrow> string" where
  "hash_hint L h = newline @ [CHR 0x09] @ ''Transaction Hash: '' @
     (if js_truthy h then template_text L h else ''not available'')"

definition new_TransactionSendTimeoutError :: "lib \<Rightarrow> jsval \<Rightarrow> jsval \<Rightarrow> error_obj" where
  "new_TransactionSendTimeoutError L numberOfSeconds transactionHash =
     base_error ''TransactionSendTimeoutError'' ''ERR_TX_SEND_TIMEOUT''
       (''The connected QRL Node did not respond within '' @ template_text L numberOfSeconds @
        '' seconds, please make sure your transaction was properly sent and you are connected to a '' @
        ''healthy Node. Be aware that transaction might still be pending or mined!'' @
        hash_hint L transactionHash) []"

definition transactionTimeoutHint :: "lib \<Rightarrow> jsval \<Rightarrow> string" where
  "transactionTimeoutHint L transactionHash =
     ''Please make sure your transaction was properly sent and there no pervious pending transaction '' @
     ''for the same account. However, be aware that it might still be mined!'' @ hash_hint L transactionHash"

definition new_TransactionPollingTimeoutError :: "lib \<Rightarrow> jsval \<Rightarrow> jsval \<Rightarrow> error_obj" where
  "new_TransactionPollingTimeoutError L numberOfSeconds transactionHash =
     base_error ''TransactionPollingTimeoutError'' ''ERR_TX_POLLING_TIMEOUT''
       (''Transaction was not mined within '' @ template_text L numberOfSeconds @ '' seconds. '' @
        transactionTimeoutHint L transactionHash) []"

definition new_TransactionBlockTimeoutError :: "lib \<Rightarrow> jsval \<Rightarrow> jsval \<Rightarrow> jsval \<Rightarrow> error_obj" where
  "new_TransactionBlockTimeoutError L starterBlockNumber numberOfBlocks transactionHash =
     base_error ''TransactionBlockTimeoutError'' ''ERR_TX_BLOCK_TIMEOUT''
       (''Transaction started at '' @ template_text L starterBlockNumber @ '' but was not mined within '' @
        template_text L numberOfBlocks @ '' blocks. '' @ transactionTimeoutHint L transactionHash) []"

definition new_TransactionMissingReceiptOrBlockHashError ::
  "lib \<Rightarrow> jsval \<Rightarrow> jsval \<Rightarrow> jsval \<Rightarrow> js_error + error_obj" where
  "new_TransactionMissingReceiptOrBlockHashError L receipt blockHash transactionHash =
     bindR (js_json L receipt) (\<lambda>t.
       Inr (invalid_value L ''TransactionMissingReceiptOrBlockHashError''
         ''ERR_TX_RECEIPT_MISSING_OR_BLOCKHASH_NULL''
         (JStr (''receipt: '' @ (case t of Some s \<Rightarrow> s | None \<Rightarrow> ''undefined'') @ '', blockHash: '' @
           or_text L blockHash ''undefined'' @ '', transactionHash: '' @
           or_text L transactionHash ''undefined''))
         ''Receipt missing or blockHash null''))"

definition new_TransactionReceiptMissingBlockNumberError :: "lib \<Rightarrow> jsval \<Rightarrow> js_error + error_obj" where
  "new_TransactionReceiptMissingBlockNumberError L receipt =
     bindR (js_json L receipt) (\<lambda>t.
       Inr (invalid_value L ''TransactionReceiptMissingBlockNumberError''
         ''ERR_TX_RECEIPT_MISSING_BLOCK_NUMBER''
         (JStr (''receipt: '' @ (case t of Some s \<Rightarrow> s | None \<Rightarrow> ''undefined'')))
         ''Receipt missing block number''))"

definition new_TransactionSigningError :: "string \<Rightarrow> error_obj" where
  "new_TransactionSigningError errorDetails =
     base_error ''TransactionSigningError'' ''ERR_TX_SIGNING''
       (''Invalid signature. '' @ quoted errorDetails) []"

definition new_LocalWalletNotAvailableError :: "lib \<Rightarrow> error_obj" where
  "new_LocalWalletNotAvailableError L =
     invalid_value L ''LocalWalletNotAvailableError'' ''ERR_TX_LOCAL_WALLET_NOT_AVAILABLE''
       (JStr ''LocalWalletNotAvailableError'')
       ''Attempted to index account in local wallet, but no wallet is available''"

definition new_InvalidPropertiesForTransactionTypeError :: "string list \<Rightarrow> string \<Rightarrow> error_obj" where
  "new_InvalidPropertiesForTransactionTypeError keywords txType =
     base_error ''InvalidPropertiesForTransactionTypeError'' ''ERR_TX_INVALID_PROPERTIES_FOR_TYPE''
       (''The following properties are invalid for the transaction type '' @ txType @ '': '' @
        join_with '', '' keywords) []"

section \<open>Conversions\<close>

definition new_InvalidBytesError :: "lib \<Rightarrow> jsval \<Rightarrow> error_obj" where
  "new_InvalidBytesError L v = invalid_value L ''InvalidBytesError'' ''ERR_INVALID_BYTES'' v ''can not parse as byte data''"

definition new_InvalidNumberError :: "lib \<Rightarrow> jsval \<Rightarrow> error_obj" where
  "new_InvalidNumberError L v = invalid_value L ''InvalidNumberError'' ''ERR_INVALID_NUMBER'' v ''can not parse as number data''"

definition new_InvalidAddressError :: "lib \<Rightarrow> jsval \<Rightarrow> error_obj" where
  "new_InvalidAddressError L v = invalid_value L ''InvalidAddressError'' ''ERR_INVALID_ADDRESS'' v ''invalid qrl address''"

definition new_InvalidStringError :: "lib \<Rightarrow> jsval \<Rightarrow> error_obj" where
  "new_InvalidStringError L v = invalid_value L ''InvalidStringError'' ''ERR_INVALID_STRING'' v ''not a valid string''"

definition new_InvalidUnitError :: "lib \<Rightarrow> jsval \<Rightarrow> error_obj" where
  "new_InvalidUnitError L v = invalid_value L ''InvalidUnitError'' ''ERR_INVALID_UNIT'' v ''invalid unit''"

definition new_HexProcessingError :: "lib \<Rightarrow> jsval \<Rightarrow> error_obj" where
  "new_HexProcessingError L v = invalid_value L ''HexProcessingError'' ''ERR_INVALID_HEX'' v ''can not be converted to hex''"

definition new_NibbleWidthError :: "lib \<Rightarrow> jsval \<Rightarrow> error_obj" where
  "new_NibbleWidthError L v = invalid_value L ''NibbleWidthError'' ''ERR_INVALID_NIBBLE_WIDTH'' v ''value greater than the nibble width''"

definition new_InvalidTypeError :: "lib \<Rightarrow> jsval \<Rightarrow> error_obj" where
  "new_InvalidTypeError L v = invalid_value L ''InvalidTypeError'' ''ERR_INVALID_TYPE'' v ''invalid type, type not supported''"

definition new_InvalidBooleanError :: "lib \<Rightarrow> jsval \<Rightarrow> error_obj" where
  "new_InvalidBooleanError L v = invalid_value L ''InvalidBooleanError'' ''ERR_INVALID_BOOLEAN'' v ''not a valid boolean.''"

definition new_InvalidUnsignedIntegerError :: "lib \<Rightarrow> jsval \<Rightarrow> error_obj" where
  "new_InvalidUnsignedIntegerError L v = invalid_value L ''InvalidUnsignedIntegerError'' ''ERR_INVALID_UNSIGNED_INTEGER'' v ''not a valid unsigned integer.''"

definition new_InvalidSizeError :: "lib \<Rightarrow> jsval \<Rightarrow> error_obj" where
  "new_InvalidSizeError L v = invalid_value L ''InvalidSizeError'' ''ERR_INVALID_SIZE'' v ''invalid size given.''"

definition new_InvalidLargeValueError :: "lib \<Rightarrow> jsval \<Rightarrow> error_obj" where
  "new_InvalidLargeValueError L v = invalid_value L ''InvalidLargeValueError'' ''ERR_INVALID_LARGE_VALUE'' v ''value is larger than size.''"

definition new_InvalidBlockError :: "lib \<Rightarrow> jsval \<Rightarrow> error_obj" where
  "new_InvalidBlockError L v = invalid_value L ''InvalidBlockError'' ''ERR_INVALID_BLOCK'' v ''invalid string given''"

definition new_InvalidTypeAbiInputError :: "lib \<Rightarrow> jsval \<Rightarrow> error_obj" where
  "new_InvalidTypeAbiInputError L v = invalid_value L ''InvalidTypeAbiInputError'' ''ERR_INVALID_TYPE_ABI'' v ''components found but type is not tuple''"

section \<open>Accounts\<close>

definition new_PublicKeyLengthError :: error_obj where
  "new_PublicKeyLengthError =
     base_error ''PublicKeyLengthError'' ''ERR_PUBLIC_KEY_LENGTH'' (''Public key must be 2592 bytes.'') []"

definition new_SeedLengthError :: error_obj where
  "new_SeedLengthError =
     base_error ''SeedLengthError'' ''ERR_SEED_LENGTH'' (''Seed must be 51 bytes.'') []"

definition new_InvalidSeedError :: error_obj where
  "new_InvalidSeedError =
     base_error ''InvalidSeedError'' ''ERR_INVALID_SEED'' (''Invalid Seed, Not a valid string or uint8Array'') []"

definition new_InvalidSignatureError :: "string \<Rightarrow> error_obj" where
  "new_InvalidSignatureError errorDetails =
     base_error ''InvalidSignatureError'' ''ERR_INVALID_SIGNATURE''
       (quoted errorDetails) []"

definition new_InvalidKdfError :: error_obj where
  "new_InvalidKdfError =
     base_error ''InvalidKdfError'' ''ERR_UNSUPPORTED_KDF'' (''Invalid key derivation function'') []"

definition new_KeyStoreVersionError :: error_obj where
  "new_KeyStoreVersionError =
     base_error ''KeyStoreVersionError'' ''ERR_KEY_VERSION_UNSUPPORTED'' (''Unsupported key store version'') []"

definition new_InvalidPasswordError :: error_obj where
  "new_InvalidPasswordError =
     base_error ''InvalidPasswordError'' ''ERR_INVALID_PASSWORD'' (''Password cannot be empty'') []"

definition new_IVLengthError :: error_obj where
  "new_IVLengthError =
     base_error ''IVLengthError'' ''ERR_IV_LENGTH'' (''Initialization vector must be 12 bytes'') []"

definition new_InvalidPublicKeyError :: error_obj where
  "new_InvalidPublicKeyError =
     base_error ''InvalidPublicKeyError'' ''ERR_INVALID_PUBLIC_KEY'' (''Invalid Public Key, Not a valid string or uint8Array'') []"

definition new_KeyStoreMismatchError :: "string \<Rightarrow> string \<Rightarrow> error_obj" where
  "new_KeyStoreMismatchError expected actual =
     base_error ''KeyStoreMismatchError'' ''ERR_INVALID_KEYSTORE''
       (''Keystore address does not match the decrypted key. Expected '' @ quoted expected @ '', derived '' @
        quoted actual @ ''. The keystore may be corrupt or tampered.'') []"

definition new_SignatureError :: "lib \<Rightarrow> jsval \<Rightarrow> string \<Rightarrow> error_obj" where
  "new_SignatureError L v msg = invalid_value L ''SignatureError'' ''ERR_SIGNATURE_FAILED'' v msg"

section \<open>Connections\<close>

text \<open>A closing event is an object with a code and a reason, or absent.\<close>

definition event_props :: "jsval \<Rightarrow> (string \<times> jsval) list" where
  "event_props event = (if js_truthy event
     then [(''errorCode'', msg_prop event ''code''), (''errorReason'', msg_prop event ''reason'')] else [])"

definition new_ConnectionError :: "string \<Rightarrow> jsval \<Rightarrow> error_obj" where
  "new_ConnectionError message event = base_error ''ConnectionError'' ''ERR_CONN'' message (event_props event)"

definition new_InvalidConnectionError :: "lib \<Rightarrow> jsval \<Rightarrow> jsval \<Rightarrow> error_obj" where
  "new_InvalidConnectionError L host event =
     base_error ''InvalidConnectionError'' ''ERR_CONN_INVALID''
       (''CONNECTION ERROR: Couldn'' @ [CHR 0x27] @ ''t connect to node '' @ template_text L host @ ''.'')
       (event_props event @ [(''host'', host)])"

definition new_ConnectionTimeoutError :: "lib \<Rightarrow> jsval \<Rightarrow> error_obj" where
  "new_ConnectionTimeoutError L duration =
     base_error ''ConnectionTimeoutError'' ''ERR_CONN_TIMEOUT''
       (''CONNECTION TIMEOUT: timeout of '' @ template_text L duration @ ''ms achieved'')
       [(''duration'', duration)]"

definition new_ConnectionNotOpenError :: "jsval \<Rightarrow> error_obj" where
  "new_ConnectionNotOpenError event =
     base_error ''ConnectionNotOpenError'' ''ERR_CONN_NOT_OPEN'' ''Connection not open'' (event_props event)"

definition new_ConnectionCloseError :: "lib \<Rightarrow> jsval \<Rightarrow> error_obj" where
  "new_ConnectionCloseError L event =
     base_error ''ConnectionCloseError'' ''ERR_CONN_CLOSE''
       (''CONNECTION ERROR: The connection got closed with the close code '' @
        or_text L (msg_prop event ''code'') [] @ '' and the following reason string '' @
        or_text L (msg_prop event ''reason'') []) (event_props event)"

definition new_MaxAttemptsReachedOnReconnectingError :: "lib \<Rightarrow> jsval \<Rightarrow> error_obj" where
  "new_MaxAttemptsReachedOnReconnectingError L numberOfAttempts =
     base_error ''MaxAttemptsReachedOnReconnectingError'' ''ERR_CONN_MAX_ATTEMPTS''
       (''Maximum number of reconnect attempts reached! ('' @ template_text L numberOfAttempts @ '')'') []"

definition new_PendingRequestsOnReconnectingError :: error_obj where
  "new_PendingRequestsOnReconnectingError =
     base_error ''PendingRequestsOnReconnectingError'' ''ERR_CONN_PENDING_REQUESTS'' (''CONNECTION ERROR: Provider started to reconnect before the response got received!'') []"

definition new_RequestAlreadySentError :: "lib \<Rightarrow> jsval \<Rightarrow> error_obj" where
  "new_RequestAlreadySentError L i =
     base_error ''RequestAlreadySentError'' ''ERR_REQ_ALREADY_SENT''
       (''Request already sent with following id: '' @ template_text L i) []"

section \<open>Providers\<close>

definition new_ProviderError :: "string \<Rightarrow> error_obj" where
  "new_ProviderError message =
     base_error ''ProviderError'' ''ERR_PROVIDER''
       (message) []"

definition new_InvalidProviderError :: "lib \<Rightarrow> jsval \<Rightarrow> error_obj" where
  "new_InvalidProviderError L clientUrl =
     base_error ''InvalidProviderError'' ''ERR_INVALID_PROVIDER''
       (''Provider with url '' @ quoted (template_text L clientUrl) @ '' is not set or invalid'') [(''clientUrl'', clientUrl)]"

definition new_InvalidClientError :: "lib \<Rightarrow> jsval \<Rightarrow> error_obj" where
  "new_InvalidClientError L clientUrl =
     base_error ''InvalidClientError'' ''ERR_INVALID_CLIENT''
       (''Client URL '' @ quoted (template_text L clientUrl) @ '' is invalid.'') []"

definition new_SubscriptionError :: "string \<Rightarrow> error_obj" where
  "new_SubscriptionError message =
     base_error ''SubscriptionError'' ''ERR_SUBSCRIPTION''
       (message) []"

definition new_Web3WSProviderError :: "string \<Rightarrow> error_obj" where
  "new_Web3WSProviderError message =
     base_error ''Web3WSProviderError'' ''ERR_WS_PROVIDER''
       (message) []"

definition new_RequestTimeoutError :: "lib \<Rightarrow> jsval \<Rightarrow> jsval \<Rightarrow> error_obj" where
  "new_RequestTimeoutError L duration meth =
     base_error ''RequestTimeoutError'' ''ERR_REQUEST_TIMEOUT''
       (''REQUEST TIMEOUT: request'' @ (if js_truthy meth then '' '' @ quoted (template_text L meth) else []) @
        '' exceeded the '' @ template_text L duration @ ''ms deadline'') [(''duration'', duration), (''method'', meth)]"

definition new_RequestQueueFullError :: "lib \<Rightarrow> jsval \<Rightarrow> error_obj" where
  "new_RequestQueueFullError L most =
     base_error ''RequestQueueFullError'' ''ERR_REQUEST_QUEUE_FULL''
       (''REQUEST QUEUE FULL: provider already has '' @ template_text L most @
        '' in-flight requests (maxInFlightRequests). Retry after pending requests settle.'') [(''maxInFlightRequests'', most), (''retryable'', JBool True)]"

definition new_ProviderCapabilityError :: "lib \<Rightarrow> string \<Rightarrow> jsval \<Rightarrow> error_obj" where
  "new_ProviderCapabilityError L capability reason =
     base_error ''ProviderCapabilityError'' ''ERR_PROVIDER_CAPABILITY''
       (''PROVIDER CAPABILITY MISSING: '' @ quoted capability @ '' is required but unavailable'' @
        (if js_truthy reason then '': '' @ template_text L reason else []) @
        ''. Refusing to continue without it.'') [(''capability'', JStr capability)]"

definition new_ResponseTooLargeError :: "lib \<Rightarrow> jsval \<Rightarrow> jsval \<Rightarrow> error_obj" where
  "new_ResponseTooLargeError L most receivedBytes =
     base_error ''ResponseTooLargeError'' ''ERR_RESPONSE_TOO_LARGE''
       (''RESPONSE TOO LARGE: response '' @ (if receivedBytes = JUndef then [] else ''of '' @
        template_text L receivedBytes @ '' bytes '') @ ''exceeds maxResponseBytes ('' @
        template_text L most @ '')'') [(''maxResponseBytes'', most), (''receivedBytes'', receivedBytes)]"

section \<open>Contracts\<close>

definition new_Web3ContractError :: "string \<Rightarrow> jsval \<Rightarrow> error_obj" where
  "new_Web3ContractError message receipt =
     base_error ''Web3ContractError'' ''ERR_CONTRACT''
       (message) [(''receipt'', receipt)]"

definition new_ResolverMethodMissingError :: "string \<Rightarrow> string \<Rightarrow> error_obj" where
  "new_ResolverMethodMissingError address name =
     base_error ''ResolverMethodMissingError'' ''ERR_CONTRACT_RESOLVER_MISSING''
       (''The resolver at '' @ address @ '' does not implement requested method: '' @ quoted name @ ''.'') [(''address'', JStr address), (''name'', JStr name)]"

definition new_ContractMissingABIError :: error_obj where
  "new_ContractMissingABIError =
     base_error ''ContractMissingABIError'' ''ERR_CONTRACT_ABI_MISSING'' (''You must provide the json interface of the contract when instantiating a contract object.'') []"

definition new_ContractOnceRequiresCallbackError :: error_obj where
  "new_ContractOnceRequiresCallbackError =
     base_error ''ContractOnceRequiresCallbackError'' ''ERR_CONTRACT_REQUIRED_CALLBACK'' (''Once requires a callback as the second parameter.'') []"

definition new_ContractEventDoesNotExistError :: "string \<Rightarrow> error_obj" where
  "new_ContractEventDoesNotExistError eventName =
     base_error ''ContractEventDoesNotExistError'' ''ERR_CONTRACT_EVENT_NOT_EXISTS''
       (''Event '' @ quoted eventName @ '' doesn'' @ [CHR 0x27] @ ''t exist in this contract.'') [(''eventName'', JStr eventName)]"

definition new_ContractReservedEventError :: "string \<Rightarrow> error_obj" where
  "new_ContractReservedEventError type =
     base_error ''ContractReservedEventError'' ''ERR_CONTRACT_RESERVED_EVENT''
       (''Event '' @ quoted type @ '' doesn'' @ [CHR 0x27] @ ''t exist in this contract.'') [(''type'', JStr type)]"

definition new_ContractMissingDeployDataError :: error_obj where
  "new_ContractMissingDeployDataError =
     base_error ''ContractMissingDeployDataError'' ''ERR_CONTRACT_MISSING_DEPLOY_DATA'' (''No '' @ quoted ''data'' @ '' specified in neither the given options, nor the default options.'') []"

definition new_ContractNoAddressDefinedError :: error_obj where
  "new_ContractNoAddressDefinedError =
     base_error ''ContractNoAddressDefinedError'' ''ERR_CONTRACT_MISSING_ADDRESS'' (''This contract object doesn'' @ [CHR 0x27] @ ''t have address set yet, please set an address first.'') []"

definition new_ContractNoFromAddressDefinedError :: error_obj where
  "new_ContractNoFromAddressDefinedError =
     base_error ''ContractNoFromAddressDefinedError'' ''ERR_CONTRACT_MISSING_FROM_ADDRESS'' (''No '' @ quoted ''from'' @ '' address specified in neither the given options, nor the default options.'') []"

definition new_ContractInstantiationError :: "string \<Rightarrow> error_obj" where
  "new_ContractInstantiationError message =
     base_error ''ContractInstantiationError'' ''ERR_CONTRACT_INSTANTIATION''
       (message) []"

definition new_ContractTransactionDataAndInputError :: "lib \<Rightarrow> jsval \<Rightarrow> jsval \<Rightarrow> error_obj" where
  "new_ContractTransactionDataAndInputError L dat inp =
     invalid_value L ''ContractTransactionDataAndInputError'' ''ERR_CONTRACT_TX_DATA_AND_INPUT''
       (data_and_input_text L dat inp) (data_and_input_hint ''a contract'')"

section \<open>Other classes\<close>

definition new_InvalidNumberOfParamsError :: "lib \<Rightarrow> jsval \<Rightarrow> jsval \<Rightarrow> string \<Rightarrow> error_obj" where
  "new_InvalidNumberOfParamsError L got expected meth =
     base_error ''InvalidNumberOfParamsError'' ''ERR_PARAM''
       (''Invalid number of parameters for '' @ quoted meth @ ''. Got '' @ quoted (template_text L got) @
        '' expected '' @ quoted (template_text L expected) @ ''!'') [(''got'', got), (''expected'', expected), (''method'', JStr meth)]"

definition new_InvalidMethodParamsError :: "lib \<Rightarrow> jsval \<Rightarrow> error_obj" where
  "new_InvalidMethodParamsError L hint =
     base_error ''InvalidMethodParamsError'' ''ERR_INVALID_METHOD_PARAMS''
       (''Invalid parameters passed. '' @
        quoted (if hint = JUndef then [] else template_text L hint)) [(''hint'', hint)]"

definition new_FormatterError :: "string \<Rightarrow> error_obj" where
  "new_FormatterError message =
     base_error ''FormatterError'' ''ERR_FORMATTERS''
       (message) []"

definition new_OperationTimeoutError :: "string \<Rightarrow> error_obj" where
  "new_OperationTimeoutError message =
     base_error ''OperationTimeoutError'' ''ERR_OPERATION_TIMEOUT''
       (message) []"

definition new_OperationAbortError :: "string \<Rightarrow> error_obj" where
  "new_OperationAbortError message =
     base_error ''OperationAbortError'' ''ERR_OPERATION_ABORT''
       (message) []"

definition new_AbiError :: "string \<Rightarrow> error_obj" where
  "new_AbiError message =
     base_error ''AbiError'' ''ERR_ABI_ENCODING''
       (message) []"

definition new_MethodNotImplementedError :: error_obj where
  "new_MethodNotImplementedError =
     base_error ''MethodNotImplementedError'' ''ERR_METHOD_NOT_IMPLEMENTED'' (''The method you'' @ [CHR 0x27] @ ''re trying to call is not implemented.'') []"

definition new_ExistingPluginNamespaceError :: "string \<Rightarrow> error_obj" where
  "new_ExistingPluginNamespaceError pluginNamespace =
     base_error ''ExistingPluginNamespaceError'' ''ERR_EXISTING_PLUGIN_NAMESPACE''
       (''A plugin with the namespace: '' @ pluginNamespace @ '' has already been registered.'') []"

definition new_ConfigHardforkMismatchError :: "string \<Rightarrow> string \<Rightarrow> error_obj" where
  "new_ConfigHardforkMismatchError defaultHardfork commonHardFork =
     base_error ''ConfigHardforkMismatchError'' ''ERR_CORE_HARDFORK_MISMATCH''
       (''Web3Config hardfork doesnt match in defaultHardfork '' @ defaultHardfork @
        '' and common.hardfork '' @ commonHardFork) []"

definition new_ConfigChainMismatchError :: "string \<Rightarrow> string \<Rightarrow> error_obj" where
  "new_ConfigChainMismatchError defaultHardfork commonHardFork =
     base_error ''ConfigChainMismatchError'' ''ERR_CORE_HARDFORK_MISMATCH''
       (''Web3Config chain doesnt match in defaultHardfork '' @ defaultHardfork @
        '' and common.hardfork '' @ commonHardFork) []"

definition new_QRNSCheckInterfaceSupportError :: "string \<Rightarrow> error_obj" where
  "new_QRNSCheckInterfaceSupportError errorDetails =
     base_error ''QRNSCheckInterfaceSupportError'' ''ERR_QRNS_CHECK_INTERFACE_SUPPORT''
       (''QRNS resolver check interface support error. '' @ quoted errorDetails) []"

definition new_QRNSUnsupportedNetworkError :: "string \<Rightarrow> error_obj" where
  "new_QRNSUnsupportedNetworkError networkType =
     base_error ''QRNSUnsupportedNetworkError'' ''ERR_QRNS_UNSUPPORTED_NETWORK''
       (''QRNS is not supported on network '' @ networkType) []"

definition new_QRNSNetworkNotSyncedError :: error_obj where
  "new_QRNSNetworkNotSyncedError =
     base_error ''QRNSNetworkNotSyncedError'' ''ERR_QRNS_NETWORK_NOT_SYNCED'' (''Network not synced'') []"

section \<open>Errors as JSON\<close>

text \<open>
  The properties \<^verbatim>\<open>toJSON\<close> of a class adds to the name, the code, the message and the inner error. An
  error of a reverted execution lists its decoded properties when it has a name.
\<close>

definition json_fields :: "(string \<times> string list) list" where
  "json_fields =
     (let revert = [''reason'', ''signature'', ''receipt'', ''data''];
          connection = [''errorCode'', ''errorReason''] in
      map (\<lambda>c. (c, [''receipt''])) [''TransactionError'', ''NoContractAddressFoundError'',
        ''ContractCodeNotStoredError'', ''TransactionRevertedWithoutReasonError'',
        ''UndefinedRawTransactionError'', ''TransactionNotFound''] @
      [(''RevertInstructionError'', [''reason'', ''signature'']),
       (''TransactionRevertInstructionError'', revert),
       (''TransactionRevertWithCustomError'', revert @
          [''customErrorName'', ''customErrorDecodedSignature'', ''customErrorArguments'']),
       (''InvalidConnectionError'', connection @ [''host'']),
       (''ConnectionTimeoutError'', connection @ [''duration''])] @
      map (\<lambda>c. (c, connection)) [''ConnectionError'', ''ConnectionNotOpenError'', ''ConnectionCloseError'',
        ''MaxAttemptsReachedOnReconnectingError'', ''PendingRequestsOnReconnectingError'',
        ''RequestAlreadySentError''] @
      [(''RequestTimeoutError'', [''duration'', ''method'']),
       (''RequestQueueFullError'', [''maxInFlightRequests'', ''retryable'']),
       (''ProviderCapabilityError'', [''capability'']),
       (''ResponseError'', [''data'', ''request'']), (''InvalidResponseError'', [''data'', ''request'']),
       (''ResponseTooLargeError'', [''maxResponseBytes'', ''receivedBytes'']),
       (''ResolverMethodMissingError'', [''address'', ''name'']),
       (''ContractEventDoesNotExistError'', [''eventName'']), (''ContractReservedEventError'', [''type'']),
       (''Eip838ExecutionError'', [''data'']),
       (''InvalidNumberOfParamsError'', [''got'', ''expected'', ''method'']),
       (''InvalidMethodParamsError'', [''hint''])])"

definition prop_of :: "error_obj \<Rightarrow> string \<Rightarrow> jsval" where
  "prop_of e k = obj_get (ob_props e) k"

definition fields_of :: "error_obj \<Rightarrow> string list" where
  "fields_of e = (case map_of json_fields (ob_class e) of None \<Rightarrow> [] | Some fs \<Rightarrow> fs) @
     (if ob_class e = ''Eip838ExecutionError'' \<and> js_truthy (prop_of e ''errorName'')
      then [''errorName'', ''errorSignature'', ''errorArgs''] else [])"

fun error_json :: "error_obj \<Rightarrow> jsval" where
  "error_json (ErrorObj cls m code props inner) =
     (let e = ErrorObj cls m code props inner in
      JObj (fold (\<lambda>k. AList.update k (prop_of e k)) (fields_of e)
        [(''name'', (case map_of props ''name'' of Some n \<Rightarrow> n | None \<Rightarrow> JStr cls)), (''code'', code),
         (''message'', JStr m),
         (''innerError'', (case inner of Some i \<Rightarrow> error_json i | None \<Rightarrow> obj_get props ''innerError''))]))"

end
