(* ===== verification/Actions.thy ===== *)
theory Actions
  imports Prelude
begin

text \<open>
  Actions that may throw and the relations between their states: catching, and the interface
  \<^verbatim>\<open>state_relation\<close> of a reflexive and transitive relation, for which what every step of a composed
  action keeps is kept by the whole.
\<close>

definition catchS :: "('s, 'e, 'a) action \<Rightarrow> ('e \<Rightarrow> ('s, 'e, 'a) action) \<Rightarrow> ('s, 'e, 'a) action" where
  "catchS m h s = (case m s of (Inl e, s') \<Rightarrow> h e s' | r \<Rightarrow> r)"

definition stays_in :: "('s \<Rightarrow> 's \<Rightarrow> bool) \<Rightarrow> ('s, 'e, 'a) action \<Rightarrow> bool" where
  "stays_in R m \<longleftrightarrow> (\<forall>s. R s (snd (m s)))"

lemma stays_inD: "stays_in R m \<Longrightarrow> m s = (r, s') \<Longrightarrow> R s s'"
  by (metis snd_conv stays_in_def)

lemma stays_in_if: "stays_in R a \<Longrightarrow> stays_in R b \<Longrightarrow> stays_in R (if c then a else b)"
  by simp

lemma stays_in_state: "(\<And>x. stays_in R (f x)) \<Longrightarrow> stays_in R (\<lambda>s. f (g s) s)"
  by (simp add: stays_in_def)

locale state_relation =
  fixes R :: "'s \<Rightarrow> 's \<Rightarrow> bool"
  assumes same: "R s s"
    and step: "R s t \<Longrightarrow> R t u \<Longrightarrow> R s u"
begin

lemma stays_return: "stays_in R (returnS x)"
  by (simp add: stays_in_def same)

lemma stays_throw: "stays_in R (throwS e)"
  by (simp add: stays_in_def same)

lemma stays_lift: "stays_in R (liftS r)"
  by (simp add: stays_in_def same)

lemma stays_bind:
  assumes "stays_in R m" "\<And>x. stays_in R (f x)"
  shows "stays_in R (bindS m f)"
  unfolding stays_in_def
proof
  fix s
  obtain r t where m: "m s = (r, t)" by (cases "m s")
  have "R s t" using assms(1) m by (rule stays_inD)
  then show "R s (snd (bindS m f s))"
    using assms(2) m by (cases r) (auto simp: bindS_def stays_in_def intro: step)
qed

lemma stays_catch:
  assumes "stays_in R m" "\<And>x. stays_in R (h x)"
  shows "stays_in R (catchS m h)"
  unfolding stays_in_def
proof
  fix s
  obtain r t where m: "m s = (r, t)" by (cases "m s")
  have "R s t" using assms(1) m by (rule stays_inD)
  then show "R s (snd (catchS m h s))"
    using assms(2) m by (cases r) (auto simp: catchS_def stays_in_def intro: step)
qed

lemmas stays_composed = stays_return stays_throw stays_lift stays_bind stays_catch stays_in_if

end

end
