(* ===== verification/QrlSend.thy ===== *)
theory QrlSend
  imports QrlTx ErrorClasses Batch AbiParams Actions
begin

text \<open>
  Sending transactions (\<^verbatim>\<open>sendTransaction\<close> and \<^verbatim>\<open>sendSignedTransaction\<close> of \<^verbatim>\<open>rpc_method_wrappers.ts\<close> with
  the files of \<^verbatim>\<open>utils\<close> they use): the check for a revert, the sending with its timeout, the wait for the
  receipt, the events of the returned \<^verbatim>\<open>PromiEvent\<close> and the one outcome of its promise. The listeners,
  what wins a race and the user's functions are arguments. A timer fires when the list of the events
  that come before it has been used up.
\<close>

section \<open>Reasons of a revert\<close>

definition class_of :: "thrown \<Rightarrow> string" where
  "class_of t = (case t of Err e \<Rightarrow> ob_class e | Val _ \<Rightarrow> [])"

definition option_text :: "string option \<Rightarrow> jsval" where
  "option_text s = (case s of Some t \<Rightarrow> JStr t | None \<Rightarrow> JUndef)"

definition option_value :: "jsval option \<Rightarrow> jsval" where
  "option_value v = (case v of Some w \<Rightarrow> w | None \<Rightarrow> JUndef)"

definition custom_fields :: "error_properties option \<Rightarrow> (string \<times> jsval) list" where
  "custom_fields d = (case d of
      Some p \<Rightarrow> [(''customErrorName'', ep_errorName p),
                (''customErrorDecodedSignature'', option_text (ep_errorSignature p)),
                (''customErrorArguments'', option_value (ep_errorArgs p))]
    | None \<Rightarrow> [(''customErrorName'', JUndef), (''customErrorDecodedSignature'', JUndef),
               (''customErrorArguments'', JUndef)])"

definition parseTransactionError :: "lib \<Rightarrow> thrown \<Rightarrow> jsval list option \<Rightarrow> thrown + jsval" where
  "parseTransactionError L error contractAbi = (case error of
      Val _ \<Rightarrow> Inl error
    | Err e \<Rightarrow>
        if ob_class e = ''ContractExecutionError'' \<and> ob_inner e \<noteq> None then
          (let i = the (ob_inner e);
               d = prop_of i ''data'';
               reason = [(''reason'', JStr (ob_message i)),
                 (''signature'', case d of JStr s \<Rightarrow> JStr (take 10 s) | _ \<Rightarrow> JUndef),
                 (''data'', case d of JStr s \<Rightarrow> JStr (drop 10 s) | _ \<Rightarrow> JUndef)] in
           Inr (JObj (case contractAbi of
               Some abi \<Rightarrow> reason @ custom_fields (decodeContractErrorData L (filter isAbiErrorFragment abi) d)
             | None \<Rightarrow> reason)))
        else if ob_class e = ''InvalidResponseError'' \<and> js_elems (prop_of e ''innerError'') = None \<and>
                prop_of e ''innerError'' \<noteq> JUndef
        then read_field (prop_of e ''innerError'') ''message''
        else Inl error)"

definition getRevertReason ::
  "qrl_context \<Rightarrow> jsval \<Rightarrow> jsval list option \<Rightarrow> data_format \<Rightarrow> jsval rpc" where
  "getRevertReason C transaction contractAbi fmt =
     catchS (bindS (qrl_call C transaction (option_of (qc_config C) ''defaultBlock'') fmt) (\<lambda>_. returnS JUndef))
       (\<lambda>e. liftS (parseTransactionError (qc_lib C) e contractAbi))"

text \<open>The reason that is known, that of the error received, or the one a call gives.\<close>

definition revert_reason ::
  "qrl_context \<Rightarrow> jsval \<Rightarrow> thrown option \<Rightarrow> jsval list option \<Rightarrow> jsval \<Rightarrow> jsval rpc" where
  "revert_reason C transaction receivedError contractAbi knownReason =
     (if knownReason \<noteq> JUndef then returnS knownReason
      else case receivedError of
        Some e \<Rightarrow> liftS (parseTransactionError (qc_lib C) e None)
      | None \<Rightarrow>
          if js_truthy (option_of (qc_config C) ''handleRevert'') \<and> transaction \<noteq> JUndef
          then getRevertReason C transaction contractAbi DEFAULT_RETURN_FORMAT
          else returnS JUndef)"

definition revert_error :: "lib \<Rightarrow> jsval \<Rightarrow> jsval \<Rightarrow> thrown + error_obj" where
  "revert_error L receipt reason = (case reason of
      JUndef \<Rightarrow> Inr (new_TransactionRevertedWithoutReasonError L receipt)
    | JStr s \<Rightarrow> Inr (new_TransactionRevertInstructionError L reason JUndef receipt JUndef)
    | JNull \<Rightarrow> Inl (type_error ''Cannot read properties of null'')
    | _ \<Rightarrow>
        let f = msg_prop reason in
        Inr (if f ''customErrorName'' \<noteq> JUndef \<and> f ''customErrorDecodedSignature'' \<noteq> JUndef \<and>
                f ''customErrorArguments'' \<noteq> JUndef
             then new_TransactionRevertWithCustomError L (f ''reason'') (f ''customErrorName'')
               (f ''customErrorDecodedSignature'') (f ''customErrorArguments'') (f ''signature'') receipt (f ''data'')
             else new_TransactionRevertInstructionError L (f ''reason'') (f ''signature'') receipt (f ''data'')))"

definition getTransactionError ::
  "qrl_context \<Rightarrow> jsval \<Rightarrow> jsval \<Rightarrow> thrown option \<Rightarrow> jsval list option \<Rightarrow> jsval \<Rightarrow> error_obj rpc" where
  "getTransactionError C transaction receipt receivedError contractAbi knownReason =
     bindS (revert_reason C transaction receivedError contractAbi knownReason) (\<lambda>reason.
       liftS (revert_error (qc_lib C) receipt reason))"

section \<open>The number of blocks that have passed\<close>

definition number_value :: "jsval \<Rightarrow> jsnum option" where
  "number_value v = (case v of JNum n \<Rightarrow> Some n | JBig i \<Rightarrow> Some (NInt i) | _ \<Rightarrow> None)"

definition js_at_least :: "jsval \<Rightarrow> jsval \<Rightarrow> bool" where
  "js_at_least a b = (case (number_value a, number_value b) of
      (Some x, Some y) \<Rightarrow> x \<noteq> NNaN \<and> y \<noteq> NNaN \<and> \<not> num_less x y | _ \<Rightarrow> False)"

definition js_minus :: "jsval \<Rightarrow> jsval \<Rightarrow> js_error + jsval" where
  "js_minus a b = (case (a, b) of
      (JNum (NInt x), JNum (NInt y)) \<Rightarrow> Inr (JNum (NInt (x - y)))
    | (JBig x, JBig y) \<Rightarrow> Inr (JBig (x - y))
    | _ \<Rightarrow> if typeof a = TBigint \<or> typeof b = TBigint
           then Inl (err_class ''TypeError'' ''Cannot mix BigInt and other types'')
           else Inr (JNum NNaN))"

text \<open>The state of the watch for a block timeout: polling, subscribed, or waiting for the first header.\<close>

record block_watch =
  bw_start :: jsval
  bw_polling :: bool
  bw_heads :: bool
  bw_later :: bool

datatype race_event = Own | Own_late | Block_poll | Head jsval | Sub_error | Header_timeout

definition blocks_error :: "qrl_context \<Rightarrow> jsval \<Rightarrow> jsval \<Rightarrow> jsval \<Rightarrow> thrown option" where
  "blocks_error C h start n =
     (if js_at_least n (option_of (qc_config C) ''transactionBlockTimeout'')
      then Some (Err (new_TransactionBlockTimeoutError (qc_lib C) start n h)) else None)"

definition poll_blocks :: "qrl_context \<Rightarrow> jsval \<Rightarrow> jsval \<Rightarrow> thrown option rpc" where
  "poll_blocks C h start tr = (case getBlockNumber C NUMBER_DATA_FORMAT tr of
      (Inl _, tr') \<Rightarrow> (Inr None, tr')
    | (Inr lastBlock, tr') \<Rightarrow>
        (Inr (case js_minus lastBlock start of Inl _ \<Rightarrow> None | Inr n \<Rightarrow> blocks_error C h start n), tr'))"

definition head_error :: "qrl_context \<Rightarrow> jsval \<Rightarrow> jsval \<Rightarrow> jsval \<Rightarrow> thrown option" where
  "head_error C h start header =
     (if \<not> js_truthy (msg_prop header ''number'') then None
      else case (toBigInt (msg_prop header ''number''), toBigInt start) of
        (Inr a, Inr b) \<Rightarrow> blocks_error C h start (JNum (NInt (a - b)))
      | _ \<Rightarrow> None)"

definition revertToPolling :: "block_watch \<Rightarrow> block_watch" where
  "revertToPolling w = w\<lparr>bw_polling := True, bw_heads := False, bw_later := False\<rparr>"

definition watch_step ::
  "qrl_context \<Rightarrow> jsval \<Rightarrow> race_event \<Rightarrow> block_watch \<Rightarrow> (thrown option \<times> block_watch) rpc" where
  "watch_step C h ev w = (case ev of
      Block_poll \<Rightarrow>
        if bw_polling w then bindS (poll_blocks C h (bw_start w)) (\<lambda>e. returnS (e, w)) else returnS (None, w)
    | Head header \<Rightarrow>
        if bw_heads w then returnS (head_error C h (bw_start w) header, w\<lparr>bw_later := False\<rparr>)
        else returnS (None, w)
    | Sub_error \<Rightarrow> returnS (None, if bw_heads w then revertToPolling w else w)
    | Header_timeout \<Rightarrow> returnS (None, if bw_later w then revertToPolling w else w)
    | _ \<Rightarrow> returnS (None, w))"

section \<open>Races\<close>

text \<open>
  What the program is run with: the context, the functions of the user, the listeners, which may
  throw, the events of the two races, and whether the provider has subscriptions (absent when it has no
  such method) and accepts this one.
\<close>

type_synonym event = "string \<times> thrown"

record send_world =
  sw_context :: qrl_context
  sw_user :: user_functions
  sw_listens :: "event list \<Rightarrow> string \<Rightarrow> bool"
  sw_throws :: "event list \<Rightarrow> string \<Rightarrow> thrown option"
  sw_send_race :: "race_event list"
  sw_wait_race :: "race_event list"
  sw_subscriptions :: "bool option"
  sw_subscribed :: bool

definition rejectIfBlockTimeout :: "send_world \<Rightarrow> block_watch rpc" where
  "rejectIfBlockTimeout W =
     (let C = sw_context W;
          features = option_of (qc_config C) ''enableExperimentalFeatures'';
          heads = (sw_subscriptions W = Some True \<and>
                   js_truthy (msg_prop features ''useSubscriptionWhenCheckingBlockTimeout'') \<and>
                   sw_subscribed W) in
      bindS (getBlockNumber C NUMBER_DATA_FORMAT) (\<lambda>start.
        returnS \<lparr>bw_start = start, bw_polling = \<not> heads, bw_heads = heads, bw_later = heads\<rparr>))"

text \<open>
  The race of the own work, the timer and the watch for blocks. The outcome of the own work that has
  been asked for is pending; when there is none, the own work is done again, and its answer counts when
  it comes in time.
\<close>

fun race ::
  "qrl_context \<Rightarrow> jsval \<Rightarrow> jsval option rpc \<Rightarrow> thrown \<Rightarrow> (thrown + jsval option) option \<Rightarrow> block_watch \<Rightarrow>
   race_event list \<Rightarrow> jsval rpc" where
  "race C h work late pending w [] = throwS late"
| "race C h work late pending w (ev # evs) =
     (if ev = Own \<or> ev = Own_late then
        (\<lambda>tr. case (case pending of Some r \<Rightarrow> (r, tr) | None \<Rightarrow> work tr) of
           (r, tr') \<Rightarrow>
             if ev = Own_late then race C h work late None w evs tr'
             else (case r of
                 Inl e \<Rightarrow> (Inl e, tr')
               | Inr (Some v) \<Rightarrow> (Inr v, tr')
               | Inr None \<Rightarrow> race C h work late None w evs tr'))
      else bindS (watch_step C h ev w) (\<lambda>(e, w').
        case e of Some x \<Rightarrow> throwS x | None \<Rightarrow> race C h work late pending w' evs))"

definition in_seconds :: "jsval \<Rightarrow> jsval" where
  "in_seconds v = (case v of
      JNum (NInt i) \<Rightarrow> if i mod 1000 = 0 then JNum (NInt (i div 1000)) else JNum (NFrac (of_int i / 1000))
    | JNum (NFrac q) \<Rightarrow> JNum (NFrac (q / 1000))
    | JNum (NInf b) \<Rightarrow> v
    | _ \<Rightarrow> JNum NNaN)"

text \<open>A call that is refused before it sends a request settles at once.\<close>

definition trySendTransaction :: "send_world \<Rightarrow> jsval rpc \<Rightarrow> jsval \<Rightarrow> jsval rpc" where
  "trySendTransaction W sendTransactionFunc h =
     (let C = sw_context W;
          late = Err (new_TransactionSendTimeoutError (qc_lib C)
                   (in_seconds (option_of (qc_config C) ''transactionSendTimeout'')) h) in
      bindS (rejectIfBlockTimeout W) (\<lambda>w tr.
        case sendTransactionFunc tr of
          (r, tr') \<Rightarrow>
            if tr' = tr then (r, tr')
            else race C h (returnS None) late (Some (map_sum id Some r)) w
                   (filter (\<lambda>ev. ev \<noteq> Own_late) (sw_send_race W)) tr'))"

definition poll_receipt :: "qrl_context \<Rightarrow> jsval \<Rightarrow> data_format \<Rightarrow> jsval option rpc" where
  "poll_receipt C h fmt =
     bindS (getTransactionReceipt C h fmt) (\<lambda>r. returnS (if isNullish r then None else Some r))"

definition waitForTransactionReceipt :: "send_world \<Rightarrow> jsval \<Rightarrow> data_format \<Rightarrow> jsval rpc" where
  "waitForTransactionReceipt W h fmt tr =
     (let C = sw_context W;
          late = Err (new_TransactionPollingTimeoutError (qc_lib C)
                   (in_seconds (option_of (qc_config C) ''transactionPollingTimeout'')) h) in
      case poll_receipt C h fmt tr of
        (r, tr') \<Rightarrow> bindS (rejectIfBlockTimeout W) (\<lambda>w.
          if tr' = tr then (case r of Inl e \<Rightarrow> throwS e | Inr v \<Rightarrow> returnS (option_value v))
          else race C h (poll_receipt C h fmt) late (Some r) w (sw_wait_race W)) tr')"

section \<open>The promise and its events\<close>

record send_state =
  ss_requests :: "request list"
  ss_events :: "event list"
  ss_settled :: bool
  ss_promise :: "(thrown + jsval) option"
  ss_transaction :: jsval
  ss_watching :: "(jsval \<times> bool) option"

type_synonym 'a sending = "(send_state, thrown, 'a) action"

definition asks :: "'a rpc \<Rightarrow> 'a sending" where
  "asks m s = (case m (ss_requests s) of (r, tr) \<Rightarrow> (r, s\<lparr>ss_requests := tr\<rparr>))"

definition emit_event :: "send_world \<Rightarrow> string \<Rightarrow> thrown \<Rightarrow> unit sending" where
  "emit_event W name x s =
     (case sw_throws W (ss_events s) name of None \<Rightarrow> Inr () | Some e \<Rightarrow> Inl e,
      s\<lparr>ss_events := ss_events s @ [(name, x)]\<rparr>)"

definition notify :: "send_world \<Rightarrow> string \<Rightarrow> jsval \<Rightarrow> unit sending" where
  "notify W name v s =
     (if sw_listens W (ss_events s) name then emit_event W name (Val v) s else (Inr (), s))"

definition settle_promise :: "thrown + jsval \<Rightarrow> send_state \<Rightarrow> send_state" where
  "settle_promise r s = (if ss_promise s = None then s\<lparr>ss_promise := Some r\<rparr> else s)"

definition succeedOnce :: "jsval \<Rightarrow> unit sending" where
  "succeedOnce v s =
     (Inr (), if ss_settled s then s else settle_promise (Inr v) (s\<lparr>ss_settled := True\<rparr>))"

definition failOnce :: "send_world \<Rightarrow> thrown \<Rightarrow> thrown option \<Rightarrow> unit sending" where
  "failOnce W error errorEvent s =
     (if ss_settled s then (Inr (), s)
      else bindS (\<lambda>s. case errorEvent of
               Some x \<Rightarrow> if sw_listens W (ss_events s) ''error'' then emit_event W ''error'' x s else (Inr (), s)
             | None \<Rightarrow> (Inr (), s))
             (\<lambda>_ s. (Inr (), settle_promise (Inl error) s)) (s\<lparr>ss_settled := True\<rparr>))"

definition remember :: "jsval \<Rightarrow> unit sending" where
  "remember t s = (Inr (), s\<lparr>ss_transaction := t\<rparr>)"

section \<open>Confirmations\<close>

text \<open>
  The receipt is the first confirmation; the rest is watched for by a subscription or by polling
  (see \<^verbatim>\<open>QrlConfirm\<close>).
\<close>

definition confirmation :: "lib \<Rightarrow> data_format \<Rightarrow> jsval \<Rightarrow> jsval \<Rightarrow> jsval \<Rightarrow> js_error + jsval" where
  "confirmation L fmt n receipt blockHash =
     bindR (format_as L ''uint'' n fmt) (\<lambda>c.
     bindR (format L (Inl transactionReceiptSchema) receipt fmt) (\<lambda>r.
     bindR (format_as L ''bytes32'' blockHash fmt) (\<lambda>h.
       Inr (JObj [(''confirmations'', c), (''receipt'', r), (''latestBlockHash'', h)]))))"

definition watchTransactionForConfirmations ::
  "send_world \<Rightarrow> jsval \<Rightarrow> jsval \<Rightarrow> data_format \<Rightarrow> unit sending" where
  "watchTransactionForConfirmations W receipt h fmt =
     (let L = qc_lib (sw_context W); blockHash = msg_prop receipt ''blockHash'' in
      if isNullish receipt \<or> isNullish blockHash then
        bindS (asks (pureR (bindR (format_as L ''bytes32'' blockHash fmt) (\<lambda>b.
          bindR (format_as L ''bytes32'' h fmt) (\<lambda>t.
            new_TransactionMissingReceiptOrBlockHashError L receipt b t))))) (\<lambda>e. throwS (Err e))
      else if \<not> js_truthy (msg_prop receipt ''blockNumber'') then
        bindS (asks (pureR (new_TransactionReceiptMissingBlockNumberError L receipt))) (\<lambda>e. throwS (Err e))
      else
        bindS (asks (pureR (confirmation L fmt (JNum (NInt 1)) receipt blockHash))) (\<lambda>c.
        bindS (emit_event W ''confirmation'' (Val c)) (\<lambda>_ s.
          case sw_subscriptions W of
            None \<Rightarrow> (Inl (type_error ''supportsSubscriptions is not a function''), s)
          | Some b \<Rightarrow> (Inr (), s\<lparr>ss_watching := Some (receipt, b)\<rparr>))))"

section \<open>The steps both functions share\<close>

record send_options =
  so_checkRevert :: bool
  so_ignoreGasPricing :: bool
  so_abi :: "jsval list option"
  so_resolver :: "(jsval \<Rightarrow> thrown + jsval) option"

text \<open>Whether the transaction would be reverted; then the promise has failed.\<close>

definition check_revert :: "send_world \<Rightarrow> send_options \<Rightarrow> jsval \<Rightarrow> bool sending" where
  "check_revert W opts t =
     (if \<not> so_checkRevert opts then returnS False
      else bindS (asks (getRevertReason (sw_context W) t (so_abi opts) DEFAULT_RETURN_FORMAT)) (\<lambda>reason.
        if reason = JUndef then returnS False
        else bindS (asks (getTransactionError (sw_context W) t JUndef None (so_abi opts) reason)) (\<lambda>e.
          bindS (failOnce W (Err e) (Some (Err e))) (\<lambda>_. returnS True))))"

definition settle_by_receipt :: "send_world \<Rightarrow> send_options \<Rightarrow> jsval \<Rightarrow> jsval \<Rightarrow> unit sending" where
  "settle_by_receipt W opts receipt formatted s =
     (case so_resolver opts of
        Some f \<Rightarrow> bindS (liftS (f formatted)) succeedOnce s
      | None \<Rightarrow>
          if msg_prop receipt ''status'' = JBig 0 then
            bindS (asks (getTransactionError (sw_context W) (ss_transaction s) formatted None (so_abi opts) JUndef))
              (\<lambda>e. failOnce W (Err e) (Some (Err e))) s
          else succeedOnce formatted s)"

definition confirm_if_listening :: "send_world \<Rightarrow> jsval \<Rightarrow> jsval \<Rightarrow> data_format \<Rightarrow> unit sending" where
  "confirm_if_listening W receipt h fmt s =
     (if sw_listens W (ss_events s) ''confirmation''
      then watchTransactionForConfirmations W receipt h fmt s else (Inr (), s))"

definition finish_sending :: "send_world \<Rightarrow> send_options \<Rightarrow> data_format \<Rightarrow> jsval \<Rightarrow> unit sending" where
  "finish_sending W opts fmt h =
     bindS (asks (waitForTransactionReceipt W h fmt)) (\<lambda>receipt.
     bindS (asks (pureR (format (qc_lib (sw_context W)) (Inl transactionReceiptSchema) receipt fmt))) (\<lambda>formatted.
     bindS (notify W ''receipt'' formatted) (\<lambda>_.
     bindS (settle_by_receipt W opts receipt formatted) (\<lambda>_.
       confirm_if_listening W formatted h fmt))))"

definition terminal_classes :: "string list" where
  "terminal_classes = [''InvalidResponseError'', ''ContractExecutionError'', ''TransactionRevertWithCustomError'',
     ''TransactionRevertedWithoutReasonError'', ''TransactionRevertInstructionError'']"

definition handle_failure :: "send_world \<Rightarrow> send_options \<Rightarrow> thrown \<Rightarrow> unit sending" where
  "handle_failure W opts error =
     bindS (if class_of error = ''ContractExecutionError'' \<and>
               js_truthy (option_of (qc_config (sw_context W)) ''handleRevert'')
            then (\<lambda>s. bindS (asks (getTransactionError (sw_context W) (ss_transaction s) JUndef None (so_abi opts) JUndef))
                        (\<lambda>e. returnS (Err e)) s)
            else returnS error) (\<lambda>e.
       failOnce W e (if class_of e \<in> set terminal_classes then Some e else None))"

text \<open>The last guard: when the handling of an error throws, the promise fails with that.\<close>

definition guarded :: "send_world \<Rightarrow> send_options \<Rightarrow> unit sending \<Rightarrow> unit sending" where
  "guarded W opts execute =
     catchS (catchS execute (handle_failure W opts)) (\<lambda>e. failOnce W e None)"

definition unsent_state :: "request list \<Rightarrow> send_state" where
  "unsent_state tr = \<lparr>ss_requests = tr, ss_events = [], ss_settled = False, ss_promise = None,
     ss_transaction = JUndef, ss_watching = None\<rparr>"

section \<open>sendTransaction\<close>

definition formatInputTransaction :: "send_world \<Rightarrow> jsval \<Rightarrow> js_error + jsval" where
  "formatInputTransaction W t =
     (let C = sw_context W in
      bindR (getTransactionFromOrToAttr ''from'' C t JUndef) (\<lambda>sender.
      bindR (getTransactionFromOrToAttr ''to'' C t JUndef) (\<lambda>receiver.
        formatTransaction (qc_lib C)
          (JObj (AList.update ''to'' receiver (AList.update ''from'' sender (spread_fields t))))
          QRL_DATA_FORMAT None False)))"

definition prepare_sending :: "send_world \<Rightarrow> send_options \<Rightarrow> jsval \<Rightarrow> jsval sending" where
  "prepare_sending W opts t =
     bindS (asks (pureR (formatInputTransaction W t))) (\<lambda>f.
     bindS (remember f) (\<lambda>_.
       if \<not> so_ignoreGasPricing opts \<and>
          (isNullish (msg_prop t ''maxPriorityFeePerGas'') \<or> isNullish (msg_prop t ''maxFeePerGas''))
       then bindS (asks (getTransactionGasPricing (sw_context W) (sw_user W) f QRL_DATA_FORMAT)) (\<lambda>p.
         bindS (remember (spread_over f p)) (\<lambda>_. returnS (spread_over f p)))
       else returnS f))"

definition send_prepared :: "send_world \<Rightarrow> jsval \<Rightarrow> jsval rpc" where
  "send_prepared W t =
     (let C = sw_context W; sender = msg_prop t ''from'' in
      case (if isNullish sender then None else context_account C sender) of
        Some a \<Rightarrow>
          bindS (signTransactionWithContext C (sw_user W) t (JStr (ac_seed a))) (\<lambda>signed.
            trySendTransaction W (rpc_sendRawTransaction (qc_node C) (JStr (st_rawTransaction signed)))
              (JStr (st_transactionHash signed)))
      | None \<Rightarrow> trySendTransaction W (rpc_sendTransaction (qc_node C) t) JUndef)"

definition execute_send :: "send_world \<Rightarrow> send_options \<Rightarrow> data_format \<Rightarrow> jsval \<Rightarrow> unit sending" where
  "execute_send W opts fmt transaction =
     bindS (prepare_sending W opts transaction) (\<lambda>t.
     bindS (check_revert W opts t) (\<lambda>reverted.
       if reverted then returnS ()
       else
         bindS (notify W ''sending'' t) (\<lambda>_.
         bindS (asks (send_prepared W t)) (\<lambda>h.
         bindS (asks (pureR (format_as (qc_lib (sw_context W)) ''bytes32'' h fmt))) (\<lambda>shown.
         bindS (notify W ''sent'' t) (\<lambda>_.
         bindS (notify W ''transactionHash'' shown) (\<lambda>_.
           finish_sending W opts fmt h)))))))"

definition sendTransaction ::
  "send_world \<Rightarrow> send_options \<Rightarrow> data_format \<Rightarrow> jsval \<Rightarrow> request list \<Rightarrow> send_state" where
  "sendTransaction W opts fmt transaction tr =
     snd (guarded W opts (execute_send W opts fmt transaction) (unsent_state tr))"

section \<open>sendSignedTransaction\<close>

definition deserializeTransaction :: "send_world \<Rightarrow> jsval \<Rightarrow> js_error + jsval \<times> jsval" where
  "deserializeTransaction W signedTransaction =
     (let L = qc_lib (sw_context W); A = qc_accounts (sw_context W) in
      bindR (format_as L ''bytes'' signedTransaction QRL_DATA_FORMAT) (\<lambda>hex.
      bindR (hexToBytes L hex) (\<lambda>bs.
      bindR (fromSerializedData L (tx_lib.truncate A) bs default_opts) (\<lambda>t.
      bindR (tx_toJSON L t) (\<lambda>json.
      bindR (bindR (getSenderAddress L (tx_lib.truncate A) t) (Address_toString L)) (\<lambda>sender.
        Inr (hex, set_field ''from'' (JStr sender) json)))))))"

definition execute_send_signed :: "send_world \<Rightarrow> send_options \<Rightarrow> data_format \<Rightarrow> jsval \<Rightarrow> unit sending" where
  "execute_send_signed W opts fmt signedTransaction =
     bindS (asks (pureR (deserializeTransaction W signedTransaction))) (\<lambda>(hex, t).
     bindS (remember t) (\<lambda>_.
     bindS (check_revert W opts t) (\<lambda>reverted.
       if reverted then returnS ()
       else
         bindS (notify W ''sending'' hex) (\<lambda>_.
         bindS (asks (trySendTransaction W (rpc_sendRawTransaction (qc_node (sw_context W)) hex) JUndef)) (\<lambda>h.
         bindS (notify W ''sent'' hex) (\<lambda>_.
         bindS (asks (pureR (format_as (qc_lib (sw_context W)) ''bytes32'' h fmt))) (\<lambda>shown.
         bindS (notify W ''transactionHash'' shown) (\<lambda>_.
           finish_sending W opts fmt h))))))))"

definition sendSignedTransaction ::
  "send_world \<Rightarrow> send_options \<Rightarrow> data_format \<Rightarrow> jsval \<Rightarrow> request list \<Rightarrow> send_state" where
  "sendSignedTransaction W opts fmt signedTransaction tr =
     snd (guarded W opts (execute_send_signed W opts fmt signedTransaction) (unsent_state tr))"

end
