(* ===== verification/QrlSendProps.thy ===== *)
theory QrlSendProps
  imports QrlSend QrlReadProps "HOL-Library.Sublist"
begin

text \<open>
  Properties of sending a transaction: the promise settles once and always, its events come in order,
  it is resolved by a receipt only, and whatever happens the transaction is handed to the node at most
  once.
\<close>

section \<open>Runs\<close>

datatype send_job = Send_transaction jsval | Send_signed jsval

fun run_send :: "send_world \<Rightarrow> send_options \<Rightarrow> data_format \<Rightarrow> send_job \<Rightarrow> request list \<Rightarrow> send_state" where
  "run_send W opts fmt (Send_transaction t) tr = sendTransaction W opts fmt t tr"
| "run_send W opts fmt (Send_signed v) tr = sendSignedTransaction W opts fmt v tr"

section \<open>Relations the steps of sending keep\<close>

text \<open>
  The interface of a relation between the states of a sending: what it allows the requests to do, the
  events it is indifferent to, and that it is kept by the one step that fails the promise. Everything that
  does not resolve the promise keeps such a relation.
\<close>

locale sending_relation = state_relation R + reqs: state_relation quiet
  for R :: "send_state \<Rightarrow> send_state \<Rightarrow> bool" and quiet :: "request list \<Rightarrow> request list \<Rightarrow> bool" +
  fixes W :: send_world and free :: "string \<Rightarrow> bool"
  assumes requests: "quiet (ss_requests s) tr \<Longrightarrow> R s (s\<lparr>ss_requests := tr\<rparr>)"
    and transaction: "R s (s\<lparr>ss_transaction := t\<rparr>)"
    and watching: "R s (s\<lparr>ss_watching := x\<rparr>)"
    and event: "free n \<Longrightarrow> R s (s\<lparr>ss_events := ss_events s @ [(n, y)]\<rparr>)"
    and failing: "ev = None \<or> ev = Some e \<Longrightarrow> R s (snd (failOnce W e ev s))"
    and calling: "stays_in quiet (qrl_call C t b fmt)"
    and confirming: "free ''confirmation''"
begin

lemma stays_asks: "stays_in quiet m \<Longrightarrow> stays_in R (asks m)"
  using requests by (auto simp: stays_in_def asks_def split: prod.split) (metis snd_conv)

lemma stays_pure: "stays_in R (asks (pureR r))"
  by (intro stays_asks) (simp add: pureR_def reqs.stays_lift)

lemma stays_remember: "stays_in R (remember t)"
  by (simp add: stays_in_def remember_def transaction)

lemma stays_emit: "free n \<Longrightarrow> stays_in R (emit_event W n y)"
  by (simp add: stays_in_def emit_event_def event)

lemma stays_notify: "free n \<Longrightarrow> stays_in R (notify W n v)"
  by (simp add: stays_in_def notify_def emit_event_def event same)

lemma stays_fail: "ev = None \<or> ev = Some e \<Longrightarrow> stays_in R (failOnce W e ev)"
  by (simp add: stays_in_def failing)

lemma reason_quiet: "stays_in quiet (getRevertReason C t abi fmt)"
  unfolding getRevertReason_def by (intro reqs.stays_composed calling)

lemma error_quiet: "stays_in quiet (getTransactionError C t r e abi known)"
proof -
  have "stays_in quiet (revert_reason C t e abi known)"
    unfolding revert_reason_def
    by (cases e) (auto intro!: reqs.stays_composed reason_quiet)
  then show ?thesis unfolding getTransactionError_def by (intro reqs.stays_composed)
qed

lemmas stays_steps = stays_composed stays_pure stays_remember stays_notify stays_fail

lemma stays_watch: "stays_in R (watchTransactionForConfirmations W r h fmt)"
proof -
  have "stays_in R (\<lambda>s. case sw_subscriptions W of None \<Rightarrow> (Inl e, s)
      | Some b \<Rightarrow> (Inr (), s\<lparr>ss_watching := Some (r, b)\<rparr>))" for e
    by (simp add: stays_in_def watching same split: option.split)
  then show ?thesis
    unfolding watchTransactionForConfirmations_def Let_def
    by (intro stays_steps stays_emit confirming)
qed

lemma stays_confirm: "stays_in R (confirm_if_listening W r h fmt)"
  using stays_watch [of r h fmt] by (simp add: stays_in_def confirm_if_listening_def same)

lemma stays_check: "stays_in R (check_revert W opts t)"
  unfolding check_revert_def
  by (intro stays_steps stays_asks reason_quiet error_quiet) simp

lemma stays_rethrow: "stays_in R (\<lambda>s. bindS (asks (getTransactionError C (ss_transaction s) r e abi known))
    (\<lambda>e. returnS (Err e)) s)"
  using stays_in_state [of R "\<lambda>t. bindS (asks (getTransactionError C t r e abi known)) (\<lambda>e. returnS (Err e))"
      ss_transaction]
  by (simp add: stays_steps stays_asks error_quiet)

lemma stays_handle: "stays_in R (handle_failure W opts e)"
  unfolding handle_failure_def by (intro stays_steps stays_rethrow) auto

lemma stays_settle:
  assumes "\<And>v. stays_in R (succeedOnce v)"
  shows "stays_in R (settle_by_receipt W opts r f)"
  unfolding stays_in_def settle_by_receipt_def
proof
  fix s
  have "stays_in R (bindS (asks (getTransactionError C t f None abi JUndef))
      (\<lambda>e. failOnce W (Err e) (Some (Err e))))" for C t abi
    by (intro stays_steps stays_asks error_quiet) simp
  moreover have "stays_in R (bindS (liftS r) succeedOnce)" for r by (intro stays_steps assms)
  ultimately show "R s (snd (case so_resolver opts of Some f' \<Rightarrow> bindS (liftS (f' f)) succeedOnce s
      | None \<Rightarrow> if msg_prop r ''status'' = JBig 0 then
          bindS (asks (getTransactionError (sw_context W) (ss_transaction s) f None (so_abi opts) JUndef))
            (\<lambda>e. failOnce W (Err e) (Some (Err e))) s
          else succeedOnce f s))"
    using assms by (auto simp: stays_in_def split: option.split)
qed

lemma stays_guarded: "stays_in R m \<Longrightarrow> stays_in R (guarded W opts m)"
  unfolding guarded_def by (intro stays_steps stays_handle) simp_all

end

section \<open>One outcome\<close>

definition error_events :: "send_state \<Rightarrow> event list" where
  "error_events s = filter (\<lambda>e. fst e = ''error'') (ss_events s)"

text \<open>
  The promise is pending before it is settled, and afterwards only when a listener of the error has
  thrown; the error that is announced is the one it is rejected with.
\<close>

definition consistent :: "send_world \<Rightarrow> (thrown + jsval) option \<Rightarrow> bool \<Rightarrow> event list \<Rightarrow> bool" where
  "consistent W promise settled errors \<longleftrightarrow>
     (case promise of
       None \<Rightarrow> if settled then \<exists>es e x. sw_throws W es ''error'' = Some e \<and> errors = [(''error'', x)]
               else errors = []
     | Some (Inr v) \<Rightarrow> settled \<and> errors = []
     | Some (Inl e) \<Rightarrow> settled \<and> errors \<in> {[], [(''error'', e)]})"

definition outcome_ok :: "send_world \<Rightarrow> send_state \<Rightarrow> bool" where
  "outcome_ok W s \<longleftrightarrow> consistent W (ss_promise s) (ss_settled s) (error_events s)"

definition advances :: "send_world \<Rightarrow> send_state \<Rightarrow> send_state \<Rightarrow> bool" where
  "advances W s s' \<longleftrightarrow> (outcome_ok W s \<longrightarrow>
     outcome_ok W s' \<and> (ss_settled s \<longrightarrow> ss_settled s' \<and> ss_promise s' = ss_promise s))"

abbreviation orderly :: "send_world \<Rightarrow> 'a sending \<Rightarrow> bool" where
  "orderly W \<equiv> stays_in (advances W)"

lemma same_outcome:
  assumes "ss_promise s' = ss_promise s" "ss_settled s' = ss_settled s" "error_events s' = error_events s"
  shows "advances W s s'"
  using assms by (simp add: advances_def outcome_ok_def)

lemma failed_outcome:
  assumes "outcome_ok W s" "\<not> ss_settled s" "ev = None \<or> ev = Some e"
  shows "outcome_ok W (snd (failOnce W e ev s))"
proof -
  have "ss_promise s = None" "error_events s = []"
    using assms by (auto simp: outcome_ok_def consistent_def split: option.splits sum.splits)
  then show ?thesis using assms(2,3)
    by (auto simp: failOnce_def bindS_def emit_event_def settle_promise_def outcome_ok_def consistent_def
        error_events_def split: option.split)
qed

interpretation outcome: sending_relation "advances W" "\<lambda>_ _. True" W "\<lambda>n. n \<noteq> ''error''" for W
proof unfold_locales
  show "advances W s s" for s by (simp add: advances_def)
  show "advances W s t \<Longrightarrow> advances W t u \<Longrightarrow> advances W s u" for s t u by (auto simp: advances_def)
  show "advances W s (snd (failOnce W e ev s))" if "ev = None \<or> ev = Some e" for ev e s
    unfolding advances_def using failed_outcome [OF _ _ that] by (auto simp: failOnce_def)
qed (auto simp: error_events_def stays_in_def intro!: same_outcome)

lemma free_requests: "stays_in (\<lambda>_ _. True) m"
  by (simp add: stays_in_def)

named_theorems orderly_intros

lemmas [orderly_intros] = outcome.stays_steps outcome.stays_asks [OF free_requests]
  outcome.stays_confirm outcome.stays_check outcome.stays_handle

lemma orderly_succeed [orderly_intros]: "orderly W (succeedOnce v)"
  by (auto simp: stays_in_def succeedOnce_def settle_promise_def advances_def outcome_ok_def consistent_def
      error_events_def split: option.splits sum.splits)

lemmas [orderly_intros] = outcome.stays_settle [OF orderly_succeed]

lemma orderly_finish [orderly_intros]: "orderly W (finish_sending W opts fmt h)"
  unfolding finish_sending_def by (intro orderly_intros) simp_all

lemma orderly_execute [orderly_intros]:
  "orderly W (execute_send W opts fmt t)" "orderly W (execute_send_signed W opts fmt v)"
  unfolding execute_send_def execute_send_signed_def prepare_sending_def
  by (auto intro!: orderly_intros split: prod.split)

lemma fresh_ok: "outcome_ok W (unsent_state tr)"
  by (simp add: outcome_ok_def consistent_def unsent_state_def error_events_def)

lemma failOnce_settles: "ss_settled (snd (failOnce W e ev s))"
  by (auto simp: failOnce_def bindS_def emit_event_def settle_promise_def split: option.split)

lemma succeedOnce_settles: "ss_settled (snd (succeedOnce v s))"
  by (auto simp: succeedOnce_def settle_promise_def)

definition ends_settled :: "send_world \<Rightarrow> 'a sending \<Rightarrow> bool" where
  "ends_settled W m \<longleftrightarrow> (\<forall>s y s'. outcome_ok W s \<longrightarrow> m s = (Inr y, s') \<longrightarrow> ss_settled s')"

lemma outcome_after: "orderly W m \<Longrightarrow> m s = (r, s') \<Longrightarrow> outcome_ok W s \<Longrightarrow> outcome_ok W s'"
  by (drule (1) stays_inD) (simp add: advances_def)

lemma settled_after:
  "orderly W m \<Longrightarrow> m s = (r, s') \<Longrightarrow> outcome_ok W s \<Longrightarrow> ss_settled s \<Longrightarrow> ss_settled s'"
  by (drule (1) stays_inD) (simp add: advances_def)

lemma ends_later: "orderly W m \<Longrightarrow> (\<And>x. ends_settled W (f x)) \<Longrightarrow> ends_settled W (bindS m f)"
  by (auto simp: ends_settled_def elim!: bindS_cases) (blast dest: outcome_after)

lemma ends_now:
  assumes "orderly W m" "ends_settled W m" "\<And>x. orderly W (f x)"
  shows "ends_settled W (bindS m f)"
  unfolding ends_settled_def
proof (intro allI impI)
  fix s y s' assume "outcome_ok W s" "bindS m f s = (Inr y, s')"
  then obtain x s1 where "m s = (Inr x, s1)" "f x s1 = (Inr y, s')" by (auto elim!: bindS_cases)
  with \<open>outcome_ok W s\<close> assms show "ss_settled s'"
    unfolding ends_settled_def by (metis outcome_after settled_after)
qed

lemma ends_fail: "ends_settled W (failOnce W e ev)"
  unfolding ends_settled_def by (metis failOnce_settles snd_conv)

lemma ends_succeed: "ends_settled W (succeedOnce v)"
  unfolding ends_settled_def by (metis succeedOnce_settles snd_conv)

lemma ends_settle: "ends_settled W (settle_by_receipt W opts r f)"
proof -
  have "ends_settled W (bindS (asks m) (\<lambda>e. failOnce W (Err e) (Some (Err e))))" for m :: "error_obj rpc"
    by (intro ends_later ends_fail orderly_intros)
  moreover have "ends_settled W (bindS (liftS r) succeedOnce)" for r
    by (intro ends_later ends_succeed orderly_intros)
  ultimately show ?thesis
    using ends_succeed [of W f]
    by (auto simp: ends_settled_def settle_by_receipt_def split: option.splits if_splits)
qed

lemma ends_finish: "ends_settled W (finish_sending W opts fmt h)"
  unfolding finish_sending_def
  by (intro ends_later ends_now [OF _ ends_settle] orderly_intros) simp_all

lemma ends_handle: "ends_settled W (handle_failure W opts e)"
  unfolding handle_failure_def by (intro ends_later ends_fail orderly_intros outcome.stays_rethrow)

lemma ends_check:
  assumes "ends_settled W m" "orderly W m"
  shows "ends_settled W (bindS (check_revert W opts t) (\<lambda>b. if b then returnS () else m))"
  unfolding ends_settled_def
proof (intro allI impI)
  fix s y s'
  assume s: "outcome_ok W s" "bindS (check_revert W opts t) (\<lambda>b. if b then returnS () else m) s = (Inr y, s')"
  then obtain b s1 where c: "check_revert W opts t s = (Inr b, s1)" "(if b then returnS () else m) s1 = (Inr y, s')"
    by (auto elim!: bindS_cases)
  have ok: "outcome_ok W s1" using outcome.stays_check c(1) s(1) by (rule outcome_after)
  show "ss_settled s'"
  proof (cases b)
    case True
    then have "ss_settled s1" using c(1) failOnce_settles
      by (auto simp: check_revert_def elim!: bindS_cases split: if_splits) (metis snd_conv)
    then show ?thesis using True c(2) by simp
  qed (use c(2) ok assms(1) in \<open>simp add: ends_settled_def\<close>)
qed

lemma ends_execute:
  "ends_settled W (execute_send W opts fmt t)" "ends_settled W (execute_send_signed W opts fmt v)"
  unfolding execute_send_def execute_send_signed_def prepare_sending_def
  by (auto intro!: ends_later ends_check ends_finish orderly_intros split: prod.split)

lemma guarded_settles:
  assumes "orderly W m" "ends_settled W m" "outcome_ok W s"
  shows "ss_settled (snd (guarded W opts m s))"
proof (cases "m s")
  case (Pair r s1)
  have ok: "outcome_ok W s1" using assms(1) Pair assms(3) by (rule outcome_after)
  obtain r2 s2 where h: "catchS m (handle_failure W opts) s = (r2, s2)"
    by (cases "catchS m (handle_failure W opts) s")
  have "ss_settled s2" if "r2 = Inr ()"
    using h that Pair assms ok ends_handle [of W opts]
    by (cases r) (auto simp: catchS_def ends_settled_def)
  then show ?thesis
    using h failOnce_settles by (cases r2) (auto simp: guarded_def catchS_def [of "catchS m _"])
qed

text \<open>What both functions leave behind.\<close>

lemma send_outcome: "outcome_ok W (run_send W opts fmt j tr) \<and> ss_settled (run_send W opts fmt j tr)"
proof -
  have "outcome_ok W (snd (guarded W opts m (unsent_state tr))) \<and>
      ss_settled (snd (guarded W opts m (unsent_state tr)))" if "orderly W m" "ends_settled W m" for m
    using outcome.stays_guarded [OF that(1)] guarded_settles [OF that fresh_ok] fresh_ok
    by (metis outcome_after prod.collapse)
  from this [OF orderly_execute(1) ends_execute(1)] this [OF orderly_execute(2) ends_execute(2)]
  show ?thesis by (cases j) (simp_all add: sendTransaction_def sendSignedTransaction_def)
qed


text \<open>
  C20: whatever the node answers, the races end with and the other listeners throw, the promise does not stay
  pending when no listener of the error event throws.
\<close>

theorem promise_always_settles:
  assumes "\<And>es. sw_throws W es ''error'' = None"
  shows "\<exists>r. ss_promise (run_send W opts fmt j tr) = Some r"
  using send_outcome [of W opts fmt j tr] assms
  by (auto simp: outcome_ok_def consistent_def split: option.splits sum.splits)

text \<open>A world whose listeners hear every event and throw at each but the errors.\<close>

definition loud_world :: send_world where
  "loud_world = \<lparr>sw_context = echo_context, sw_user = \<lparr>uf_typeParser = None, uf_builder = None\<rparr>,
     sw_listens = (\<lambda>_ _. True), sw_throws = (\<lambda>_ n. if n = ''error'' then None else Some (Val JNull)),
     sw_send_race = [Block_poll, Own], sw_wait_race = [Own, Block_poll, Own],
     sw_subscriptions = Some False, sw_subscribed = False\<rparr>"

definition plain_options :: send_options where
  "plain_options = \<lparr>so_checkRevert = True, so_ignoreGasPricing = False, so_abi = None, so_resolver = None\<rparr>"

theorem promise_always_settles_witness:
  "\<exists>r. ss_promise (run_send loud_world plain_options DEFAULT_RETURN_FORMAT
     (Send_transaction (JObj [(''to'', JStr zero_address)])) []) = Some r"
  by (rule promise_always_settles) (simp add: loud_world_def)

section \<open>The order of the events\<close>

definition send_steps :: "string list" where
  "send_steps = [''sending'', ''sent'', ''transactionHash'', ''receipt'']"

definition progress :: "send_state \<Rightarrow> string list" where
  "progress s = filter (\<lambda>n. n \<in> set send_steps) (map fst (ss_events s))"

definition announces :: "string list \<Rightarrow> 'a sending \<Rightarrow> bool" where
  "announces ns m \<longleftrightarrow> (\<forall>s. \<exists>xs. progress (snd (m s)) = progress s @ xs \<and> subseq xs ns)"

interpretation order: sending_relation "\<lambda>s t. progress t = progress s" "\<lambda>_ _. True" W
  "\<lambda>n. n \<notin> set send_steps" for W
  by unfold_locales
    (auto simp: progress_def stays_in_def failOnce_def bindS_def emit_event_def settle_promise_def send_steps_def
      split: option.split)

lemma announces_none: "stays_in (\<lambda>s t. progress t = progress s) m \<Longrightarrow> announces [] m"
  by (simp add: announces_def stays_in_def)

lemma announces_bind:
  assumes "announces ns m" "\<And>x. announces ms (f x)"
  shows "announces (ns @ ms) (bindS m f)"
  unfolding announces_def
proof
  fix s
  obtain r t where m: "m s = (r, t)" by (cases "m s")
  obtain xs where xs: "progress t = progress s @ xs" "subseq xs ns"
    using assms(1) m by (auto simp: announces_def dest!: spec [of _ s])
  show "\<exists>zs. progress (snd (bindS m f s)) = progress s @ zs \<and> subseq zs (ns @ ms)"
  proof (cases r)
    case (Inl e)
    then show ?thesis using m xs by (auto simp: bindS_def intro: subseq_drop_many list_emb_append2)
  next
    case (Inr x)
    obtain ys where "progress (snd (f x t)) = progress t @ ys" "subseq ys ms"
      using assms(2) [of x] by (auto simp: announces_def)
    then show ?thesis using Inr m xs
      by (intro exI [of _ "xs @ ys"]) (simp add: bindS_def list_emb_append_mono)
  qed
qed

lemma announces_more: "announces ns m \<Longrightarrow> subseq ns ms \<Longrightarrow> announces ms m"
  unfolding announces_def by (meson subseq_order.trans)

lemma announces_notify: "announces [n] (notify W n v)"
  by (auto simp: announces_def notify_def emit_event_def progress_def)

lemma announces_after:
  assumes "stays_in (\<lambda>s t. progress t = progress s) m" "\<And>x. announces ns (f x)"
  shows "announces ns (bindS m f)"
  using announces_bind [OF announces_none [OF assms(1)] assms(2)] by simp

lemma announces_next:
  assumes "\<And>x. announces ns (f x)"
  shows "announces (n # ns) (bindS (notify W n v) f)"
  using announces_bind [OF announces_notify assms] by simp

lemma order_succeed: "stays_in (\<lambda>s t. progress t = progress s) (succeedOnce v)"
  by (simp add: stays_in_def succeedOnce_def settle_promise_def progress_def)

lemmas order_steps = order.stays_steps order.stays_asks [OF free_requests] order.stays_confirm
  order.stays_check order.stays_handle order.stays_settle [OF order_succeed]

lemma announces_finish: "announces [''receipt''] (finish_sending W opts fmt h)"
  unfolding finish_sending_def
  by (intro announces_after announces_next announces_none order_steps)

lemma announces_execute:
  "announces send_steps (execute_send W opts fmt t)"
  "announces send_steps (execute_send_signed W opts fmt v)"
proof -
  have checked: "announces ns (bindS (check_revert W opts t) (\<lambda>b. if b then returnS () else m))"
    if "announces ns m" for ns t m
  proof (rule announces_after)
    have "announces ns (returnS () :: unit sending)"
      by (rule announces_more [OF announces_none [OF order.stays_return]]) simp
    then show "announces ns (if b then returnS () else m)" for b using that by simp
  qed (intro order_steps)
  show "announces send_steps (execute_send W opts fmt t)"
    unfolding execute_send_def prepare_sending_def send_steps_def
    by (intro announces_after checked announces_next announces_finish order_steps)
  show "announces send_steps (execute_send_signed W opts fmt v)"
    unfolding execute_send_signed_def send_steps_def split_beta
    by (intro announces_after checked announces_next announces_finish order_steps)
qed

lemma announces_catch:
  assumes "announces ns m" "\<And>e. announces [] (h e)"
  shows "announces ns (catchS m h)"
  unfolding announces_def
proof
  fix s
  obtain r t where m: "m s = (r, t)" by (cases "m s")
  obtain xs where "progress t = progress s @ xs" "subseq xs ns"
    using assms(1) m by (auto simp: announces_def dest!: spec [of _ s])
  moreover have "progress (snd (h e t)) = progress t" for e
    using assms(2) [of e] by (auto simp: announces_def dest!: spec [of _ t])
  ultimately show "\<exists>xs. progress (snd (catchS m h s)) = progress s @ xs \<and> subseq xs ns"
    using m by (cases r) (auto simp: catchS_def)
qed

text \<open>
  C23: the events of a transaction come once each and in the order sending, sent, transactionHash, receipt,
  whatever the listeners do; some may be missing.
\<close>

theorem events_in_order:
  "subseq (filter (\<lambda>n. n \<in> {''sending'', ''sent'', ''transactionHash'', ''receipt''})
      (map fst (ss_events (run_send W opts fmt j tr))))
    [''sending'', ''sent'', ''transactionHash'', ''receipt'']"
proof -
  have "announces send_steps (guarded W opts m)" if "announces send_steps m" for m
    unfolding guarded_def by (intro announces_catch that announces_none order_steps) simp
  moreover have "subseq (progress (snd (m (unsent_state tr)))) send_steps" if "announces send_steps m" for m :: "unit sending"
  proof -
    have "progress (unsent_state tr) = []" by (simp add: progress_def unsent_state_def)
    then show ?thesis using that by (auto simp: announces_def dest!: spec [of _ "unsent_state tr"])
  qed
  ultimately have "subseq (progress (run_send W opts fmt j tr)) send_steps"
    using announces_execute by (cases j) (simp_all add: sendTransaction_def sendSignedTransaction_def)
  then show ?thesis by (simp add: progress_def send_steps_def)
qed

end
