(* ===== verification/QrlSendSafety.thy ===== *)
theory QrlSendSafety
  imports QrlSendProps
begin

text \<open>
  What sending never does: it hands a transaction to the node at most once, and it resolves its promise
  only with the receipt it waited for.
\<close>

section \<open>Actions that send nothing\<close>

definition sending_methods :: "string list" where
  "sending_methods = [''qrl_sendTransaction'', ''qrl_sendRawTransaction'']"

definition sendings :: "request list \<Rightarrow> request list" where
  "sendings tr = filter (\<lambda>r. fst r \<in> set sending_methods) tr"

definition silent :: "request list \<Rightarrow> request list \<Rightarrow> bool" where
  "silent tr tr' \<longleftrightarrow> sendings tr' = sendings tr"

interpretation silence: state_relation silent
  by unfold_locales (simp_all add: silent_def)

named_theorems silent_intros

lemmas [silent_intros] = silence.stays_composed

lemma silent_pure [silent_intros]: "stays_in silent (pureR r)"
  by (simp add: pureR_def silence.stays_lift)

lemma silent_ask: "n \<notin> set sending_methods \<Longrightarrow> stays_in silent (rpc_send N n ps)"
  by (simp add: stays_in_def rpc_send_def silent_def sendings_def)

lemma silent_validate [silent_intros]: "stays_in silent (rpc_validate N ts vs)"
  by (simp add: rpc_validate_def silence.stays_lift)

lemma silent_methods [silent_intros]:
  "stays_in silent (rpc_getBlockNumber N)" "stays_in silent (rpc_getChainId N)" "stays_in silent (rpc_getId N)"
  "stays_in silent (rpc_call N t b)" "stays_in silent (rpc_estimateGas N t b)"
  "stays_in silent (rpc_getTransactionReceipt N h)" "stays_in silent (rpc_getTransactionCount N a b)"
  "stays_in silent (rpc_getBlockByHash N h y)" "stays_in silent (rpc_getBlockByNumber N b y)"
  unfolding rpc_getBlockNumber_def rpc_getChainId_def rpc_getId_def rpc_call_def rpc_estimateGas_def
    rpc_getTransactionReceipt_def rpc_getTransactionCount_def rpc_getBlockByHash_def rpc_getBlockByNumber_def
  by (intro silent_intros silent_ask; simp add: sending_methods_def)+

lemma silent_answers [silent_intros]:
  "stays_in silent (answer_as C f fmt r)" "stays_in silent (answer_by C s fmt r)"
  "stays_in silent (request_transaction C t)"
  unfolding answer_as_def answer_by_def request_transaction_def by (intro silent_intros)+

lemma silent_readers [silent_intros]:
  "stays_in silent (getBlockNumber C fmt)" "stays_in silent (getChainId C fmt)" "stays_in silent (getId C fmt)"
  "stays_in silent (qrl_call C t b fmt)" "stays_in silent (estimateGas C t b fmt)"
  "stays_in silent (getTransactionReceipt C h fmt)" "stays_in silent (getTransactionCount C a b fmt)"
  "stays_in silent (getBlock C b y fmt)"
  unfolding getBlockNumber_def getChainId_def getId_def qrl_call_def estimateGas_def getTransactionReceipt_def
    getTransactionCount_def getBlock_def by_block_def Let_def
  by (intro silent_intros)+

lemma silent_pricing [silent_intros]:
  "stays_in silent (getTransactionGasPricing C U t fmt)" "stays_in silent (getTransactionNonce C a fmt)"
  unfolding getTransactionGasPricing_def getEip1559GasPricing_def getTransactionNonce_def
  by (intro silent_intros)+

lemma silent_builder [silent_intros]: "stays_in silent (defaultTransactionBuilder C U t seed price gas)"
  unfolding defaultTransactionBuilder_def fill_nonce_def fill_chainId_def fill_networkId_def fill_price_def
    fill_gas_def Let_def
  by (intro silent_intros)

lemma silent_signing:
  assumes "uf_builder U = None"
  shows "stays_in silent (signTransactionWithContext C U t seed)"
  unfolding signTransactionWithContext_def prepareTransactionForSigning_def transactionBuilder_def
  using assms by (auto intro!: silent_intros split: option.split)

section \<open>Waiting sends nothing\<close>

lemma silent_watch [silent_intros]: "stays_in silent (watch_step C h ev w)"
proof -
  have "stays_in silent (poll_blocks C h start)" for start
    using silent_readers(1) [of C NUMBER_DATA_FORMAT]
    by (auto simp: stays_in_def poll_blocks_def split: prod.split sum.split) (metis snd_conv)+
  then show ?thesis unfolding watch_step_def by (cases ev) (auto intro!: silent_intros)
qed

lemma silent_race:
  assumes "stays_in silent work"
  shows "stays_in silent (race C h work late pending w evs)"
proof (induction evs arbitrary: pending w)
  case (Cons ev evs)
  have own: "stays_in silent (\<lambda>tr. case (case pending of Some r \<Rightarrow> (r, tr) | None \<Rightarrow> work tr) of
      (r, tr') \<Rightarrow> if ev = Own_late then race C h work late None w evs tr'
        else (case r of Inl e \<Rightarrow> (Inl e, tr') | Inr (Some v) \<Rightarrow> (Inr v, tr')
              | Inr None \<Rightarrow> race C h work late None w evs tr'))"
    unfolding stays_in_def
  proof
    fix tr
    obtain r tr' where r: "(case pending of Some r \<Rightarrow> (r, tr) | None \<Rightarrow> work tr) = (r, tr')" by (metis surj_pair)
    then have "silent tr tr'" using assms stays_inD by (auto split: option.splits simp: silence.same)
    moreover have "silent tr' (snd (race C h work late None w evs tr'))"
      using Cons.IH by (simp add: stays_in_def)
    ultimately show "silent tr (snd (case (case pending of Some r \<Rightarrow> (r, tr) | None \<Rightarrow> work tr) of
      (r, tr') \<Rightarrow> if ev = Own_late then race C h work late None w evs tr'
        else (case r of Inl e \<Rightarrow> (Inl e, tr') | Inr (Some v) \<Rightarrow> (Inr v, tr')
              | Inr None \<Rightarrow> race C h work late None w evs tr')))"
      using r silence.step by (auto split: sum.split option.split)
  qed
  have "stays_in silent (bindS (watch_step C h ev w) (\<lambda>(e, w'). case e of Some x \<Rightarrow> throwS x
      | None \<Rightarrow> race C h work late pending w' evs))"
    using Cons.IH by (auto intro!: silent_intros split: prod.split option.split)
  with own show ?case by (simp add: silence.stays_composed)
qed (simp add: silent_intros)

lemma silent_wait [silent_intros]: "stays_in silent (waitForTransactionReceipt W h fmt)"
proof -
  have poll: "stays_in silent (poll_receipt C h fmt)" for C
    unfolding poll_receipt_def by (intro silent_intros)
  have start: "stays_in silent (rejectIfBlockTimeout W)"
    unfolding rejectIfBlockTimeout_def Let_def by (intro silent_intros)
  show ?thesis unfolding stays_in_def
  proof
    fix tr
    obtain r tr' where r: "poll_receipt (sw_context W) h fmt tr = (r, tr')" by (metis surj_pair)
    let ?rest = "bindS (rejectIfBlockTimeout W) (\<lambda>w.
      if tr' = tr then (case r of Inl e \<Rightarrow> throwS e | Inr v \<Rightarrow> returnS (option_value v))
      else race (sw_context W) h (poll_receipt (sw_context W) h fmt)
        (Err (new_TransactionPollingTimeoutError (qc_lib (sw_context W))
          (in_seconds (option_of (qc_config (sw_context W)) ''transactionPollingTimeout'')) h))
        (Some r) w (sw_wait_race W))"
    have "stays_in silent ?rest"
      using silent_race [OF poll] start by (auto intro!: silent_intros split: sum.split)
    then have "silent tr' (snd (?rest tr'))" by (simp add: stays_in_def)
    moreover have "silent tr tr'" using poll r by (rule stays_inD)
    ultimately show "silent tr (snd (waitForTransactionReceipt W h fmt tr))"
      using r silence.step by (simp add: waitForTransactionReceipt_def Let_def)
  qed
qed

section \<open>At most one sending\<close>

definition sends_at_most :: "nat \<Rightarrow> 'a rpc \<Rightarrow> bool" where
  "sends_at_most n m \<longleftrightarrow> (\<forall>tr. length (sendings (snd (m tr))) \<le> length (sendings tr) + n)"

definition hands_over :: "nat \<Rightarrow> 'a sending \<Rightarrow> bool" where
  "hands_over n m \<longleftrightarrow>
     (\<forall>s. length (sendings (ss_requests (snd (m s)))) \<le> length (sendings (ss_requests s)) + n)"

abbreviation still :: "'a sending \<Rightarrow> bool" where
  "still \<equiv> stays_in (\<lambda>s t. silent (ss_requests s) (ss_requests t))"

interpretation still: sending_relation "\<lambda>s t. silent (ss_requests s) (ss_requests t)" silent W "\<lambda>_. True" for W
  by unfold_locales
    (auto simp: silent_readers failOnce_def bindS_def emit_event_def settle_promise_def silence.same
      intro: silence.step split: option.split)

lemma sends_at_mostD: "sends_at_most n m \<Longrightarrow> length (sendings (snd (m tr))) \<le> length (sendings tr) + n"
  by (simp add: sends_at_most_def)

lemma hands_overD:
  "hands_over n m \<Longrightarrow> length (sendings (ss_requests (snd (m s)))) \<le> length (sendings (ss_requests s)) + n"
  by (simp add: hands_over_def)

lemma sends_once_methods: "sends_at_most 1 (rpc_sendTransaction N t)" "sends_at_most 1 (rpc_sendRawTransaction N v)"
proof -
  have ask: "sends_at_most 1 (rpc_send N n ps)" for n ps
    by (simp add: sends_at_most_def rpc_send_def sendings_def)
  then show "sends_at_most 1 (rpc_sendTransaction N t)" by (simp add: rpc_sendTransaction_def)
  show "sends_at_most 1 (rpc_sendRawTransaction N v)"
    unfolding sends_at_most_def
  proof
    fix tr
    obtain r tr' where v: "rpc_validate N [''hex''] [v] tr = (r, tr')" by (metis surj_pair)
    have "silent tr tr'" using silent_validate v by (rule stays_inD)
    then show "length (sendings (snd (rpc_sendRawTransaction N v tr))) \<le> length (sendings tr) + 1"
      using v ask [of "''qrl_sendRawTransaction''" "[v]"]
      by (cases r) (auto simp: rpc_sendRawTransaction_def bindS_def sends_at_most_def silent_def
          dest!: spec [of _ tr'])
  qed
qed

lemma sends_after_silent:
  assumes "stays_in silent m" "\<And>x. sends_at_most n (f x)"
  shows "sends_at_most n (bindS m f)"
  unfolding sends_at_most_def
proof
  fix tr
  obtain r tr' where m: "m tr = (r, tr')" by (metis surj_pair)
  have "silent tr tr'" using assms(1) m by (rule stays_inD)
  then show "length (sendings (snd (bindS m f tr))) \<le> length (sendings tr) + n"
    using m sends_at_mostD [OF assms(2), of _ tr'] by (cases r) (auto simp: bindS_def silent_def)
qed

lemma silent_after_sends:
  assumes "sends_at_most n m" "\<And>tr. silent (snd (m tr)) (snd (f tr))"
  shows "sends_at_most n f"
  using assms by (simp add: sends_at_most_def silent_def)

lemma try_sends_once:
  assumes "sends_at_most n f"
  shows "sends_at_most n (trySendTransaction W f h)"
proof -
  have start: "stays_in silent (rejectIfBlockTimeout W)"
    unfolding rejectIfBlockTimeout_def Let_def by (intro silent_intros)
  have raced: "silent tr' (snd (race C h (returnS None) late p w evs tr'))" for C late p w evs tr'
    using silent_race [OF silence.stays_return] by (simp add: stays_in_def)
  show ?thesis
    unfolding trySendTransaction_def Let_def
    by (intro sends_after_silent [OF start] silent_after_sends [OF assms])
      (auto simp: silence.same raced split: prod.split)
qed

lemma prepared_sent_once:
  assumes "uf_builder (sw_user W) = None"
  shows "sends_at_most 1 (send_prepared W t)"
  unfolding send_prepared_def Let_def
  by (auto split: option.split
      intro!: sends_after_silent silent_signing assms try_sends_once sends_once_methods
      simp del: One_nat_def)

lemma hands_asks: "sends_at_most n m \<Longrightarrow> hands_over n (asks m)"
  by (auto simp: sends_at_most_def hands_over_def asks_def split: prod.split) (metis snd_conv)

lemma hands_after_still:
  assumes "still m" "\<And>x. hands_over n (f x)"
  shows "hands_over n (bindS m f)"
  unfolding hands_over_def
proof
  fix s
  obtain r t where m: "m s = (r, t)" by (metis surj_pair)
  have "silent (ss_requests s) (ss_requests t)" using assms(1) m by (rule stays_inD)
  then show "length (sendings (ss_requests (snd (bindS m f s)))) \<le> length (sendings (ss_requests s)) + n"
    using m hands_overD [OF assms(2), of _ t] by (cases r) (auto simp: bindS_def silent_def)
qed

lemma still_after_hands:
  assumes "hands_over n m" "\<And>x. still (f x)"
  shows "hands_over n (bindS m f)"
  unfolding hands_over_def
proof
  fix s
  obtain r t where "m s = (r, t)" by (metis surj_pair)
  then show "length (sendings (ss_requests (snd (bindS m f s)))) \<le> length (sendings (ss_requests s)) + n"
    using assms by (cases r) (auto simp: bindS_def hands_over_def stays_in_def silent_def dest!: spec [of _ s])
qed

lemma still_catches:
  assumes "hands_over n m" "\<And>x. still (g x)"
  shows "hands_over n (catchS m g)"
  unfolding hands_over_def
proof
  fix s
  obtain r t where "m s = (r, t)" by (metis surj_pair)
  then show "length (sendings (ss_requests (snd (catchS m g s)))) \<le> length (sendings (ss_requests s)) + n"
    using assms by (cases r) (auto simp: catchS_def hands_over_def stays_in_def silent_def dest!: spec [of _ s])
qed

lemma still_succeed: "still (succeedOnce v)"
  by (simp add: stays_in_def succeedOnce_def settle_promise_def silence.same)

lemma still_remember_pricing:
  "still (prepare_sending W opts t)"
  unfolding prepare_sending_def
  by (intro still.stays_steps still.stays_asks silent_intros)

lemma still_finish: "still (finish_sending W opts fmt h)"
  unfolding finish_sending_def
  by (intro still.stays_steps still.stays_asks silent_intros still.stays_confirm
      still.stays_settle [OF still_succeed]) simp_all

lemma hands_checked:
  assumes "hands_over n m"
  shows "hands_over n (bindS (check_revert W opts t) (\<lambda>b. if b then returnS () else m))"
proof (rule hands_after_still)
  show "hands_over n (if b then returnS () else m)" for b
    using assms by (simp add: hands_over_def)
qed (rule still.stays_check)

lemma hands_execute:
  "uf_builder (sw_user W) = None \<Longrightarrow> hands_over 1 (execute_send W opts fmt t)"
  "hands_over 1 (execute_send_signed W opts fmt v)"
  unfolding execute_send_def execute_send_signed_def split_beta
  by (intro hands_after_still [OF still_remember_pricing] hands_after_still [OF still.stays_pure]
      hands_after_still [OF still.stays_remember] hands_after_still [OF still.stays_notify] hands_checked
      still_after_hands [OF hands_asks] prepared_sent_once try_sends_once sends_once_methods
      still.stays_steps still_finish; simp)+

text \<open>
  C21: whatever the node answers and however the races end, a transaction is handed to the node at most once.
\<close>

theorem transaction_sent_at_most_once:
  assumes "uf_builder (sw_user W) = None"
  shows "length (sendings (ss_requests (run_send W opts fmt j tr))) \<le> length (sendings tr) + 1"
proof -
  have "hands_over 1 (guarded W opts m)" if "hands_over 1 m" for m
    unfolding guarded_def by (intro still_catches that still.stays_handle still.stays_fail) simp
  from hands_overD [where s = "unsent_state tr", OF this [OF hands_execute(1) [OF assms]]]
    hands_overD [where s = "unsent_state tr", OF this [OF hands_execute(2)]]
  have "length (sendings (ss_requests (run_send W opts fmt j tr))) \<le>
      length (sendings (ss_requests (unsent_state tr))) + 1"
    by (cases j) (simp_all add: sendTransaction_def sendSignedTransaction_def)
  then show ?thesis by (simp add: unsent_state_def)
qed

theorem transaction_sent_at_most_once_witness:
  "length (sendings (ss_requests (run_send loud_world plain_options DEFAULT_RETURN_FORMAT
     (Send_transaction (JObj [(''to'', JStr zero_address)])) []))) \<le> length (sendings []) + 1"
  by (rule transaction_sent_at_most_once) (simp add: loud_world_def)

section \<open>A transaction that would be reverted\<close>

definition same_promise :: "send_state \<Rightarrow> send_state \<Rightarrow> bool" where
  "same_promise s t \<longleftrightarrow> ss_settled t = ss_settled s \<and> ss_promise t = ss_promise s"

interpretation pending: state_relation same_promise
  by unfold_locales (simp_all add: same_promise_def)

lemma pending_asks: "stays_in same_promise (asks m)"
  by (auto simp: stays_in_def asks_def same_promise_def split: prod.split)

lemma pending_prepare: "stays_in same_promise (prepare_sending W opts t)"
proof -
  have "stays_in same_promise (remember f)" for f
    by (simp add: stays_in_def remember_def same_promise_def)
  then show ?thesis unfolding prepare_sending_def by (intro pending.stays_composed pending_asks)
qed

lemma known_reason:
  assumes "reason \<noteq> JUndef" "reason \<noteq> JNull"
  obtains e where "getTransactionError C t receipt d abi reason tr = (Inr e, tr)"
proof -
  obtain e where "revert_error (qc_lib C) receipt reason = Inr e"
    using assms by (cases reason) (auto simp: revert_error_def Let_def)
  then show thesis using assms that by (simp add: getTransactionError_def revert_reason_def bindS_def)
qed

lemma failed_now:
  assumes "\<not> ss_settled s" "ss_promise s = None" "\<And>es. sw_throws W es ''error'' = None"
  shows "\<exists>s'. failOnce W e ev s = (Inr (), s') \<and> ss_promise s' = Some (Inl e) \<and> ss_requests s' = ss_requests s"
  using assms by (cases ev; cases "sw_listens W (ss_events s) ''error''")
    (simp_all add: failOnce_def bindS_def emit_event_def settle_promise_def)


text \<open>A node on which every call is reverted.\<close>

definition reverting_context :: qrl_context where
  "reverting_context = echo_context\<lparr>qc_node := \<lparr>nd_lib = lib_ref, nd_answer = (\<lambda>tr r.
     Inl (Err (ErrorObj ''ContractExecutionError'' [] JUndef []
       (Some (ErrorObj ''Eip838ExecutionError'' ''execution reverted'' JUndef [] None)))))\<rparr>\<rparr>"

definition reverting_world :: send_world where
  "reverting_world = loud_world\<lparr>sw_context := reverting_context\<rparr>"

definition unpriced_options :: send_options where
  "unpriced_options = plain_options\<lparr>so_ignoreGasPricing := True\<rparr>"

lemma gas_formatted:
  "formatTransaction lib_ref (JObj [(''gas'', JStr ''0x64''), (''from'', JUndef), (''to'', JUndef)])
     QRL_DATA_FORMAT None False = Inr (JObj [(''gas'', JStr ''0x64'')])"
  "formatTransaction lib_ref (JObj [(''gas'', JStr ''0x64'')]) QRL_DATA_FORMAT None False =
     Inr (JObj [(''gas'', JStr ''0x64'')])"
proof -
  have limit: "schema_at transactionInfoSchema ''gas'' = Some (sf ''uint'')"
    "sch_properties transactionInfoSchema \<noteq> None" "signed_hex 100 = ''0x64''"
    "toBigInt (JStr ''0x64'') = Inr 100" by code_simp+
  have merged: "mergeDeep (JObj []) [spread_fields (JObj [(''gas'', JStr ''0x64''), (''from'', JUndef),
      (''to'', JUndef)])] = JObj [(''gas'', JStr ''0x64'')]"
    "mergeDeep (JObj []) [spread_fields (JObj [(''gas'', JStr ''0x64'')])] = JObj [(''gas'', JStr ''0x64'')]"
    by code_simp+
  have "format lib_ref (Inl transactionInfoSchema) (JObj [(''gas'', JStr ''0x64'')]) QRL_DATA_FORMAT =
      Inr (JObj [(''gas'', JStr ''0x64'')])"
    using limit by (subst format_reference [where ps = "the (sch_properties transactionInfoSchema)"])
      (auto simp: objectProtoNames_def FORBIDDEN_KEYS_def pruned_obj sf_def convertScalarValue_def parse_uint
        convert_number_def QRL_DATA_FORMAT_def)
  then show
    "formatTransaction lib_ref (JObj [(''gas'', JStr ''0x64''), (''from'', JUndef), (''to'', JUndef)])
       QRL_DATA_FORMAT None False = Inr (JObj [(''gas'', JStr ''0x64'')])"
    "formatTransaction lib_ref (JObj [(''gas'', JStr ''0x64'')]) QRL_DATA_FORMAT None False =
       Inr (JObj [(''gas'', JStr ''0x64'')])"
    by (simp_all add: formatTransaction_def merged compare_data_def fill_data_def gas_limit_to_gas_def Let_def
        msg_prop_def obj_get_def)
qed

lemma reverting_call:
  "\<exists>tr'. getRevertReason reverting_context (JObj [(''gas'', JStr ''0x64'')]) None DEFAULT_RETURN_FORMAT tr =
     (Inr (JObj [(''reason'', JStr ''execution reverted''), (''signature'', JUndef), (''data'', JUndef)]), tr')"
proof -
  have lib: "qc_lib reverting_context = lib_ref"
    "option_of (qc_config reverting_context) ''defaultBlock'' = JStr ''latest''"
    by (simp_all add: reverting_context_def echo_context_def option_of_def default_config_def obj_get_def)
  have tag: "isBlockTag (JStr ''latest'')" by code_simp
  have "validate lib_ref (map AbiShort [''blockNumberOrTag'']) [JStr ''latest''] False = Inr None"
    by (rule accepted_values [OF lib_ref_zod])
      (simp_all add: formats_base isBlockNumberOrTag_def tag simple_format_def)
  then have valid: "rpc_validate (qc_node reverting_context) [''blockNumberOrTag''] [JStr ''latest''] tr
      = (Inr (), tr)" for tr
    by (simp add: rpc_validate_def lib)
  show ?thesis
    by (simp add: getRevertReason_def catchS_def qrl_call_def bindS_def block_param_def given_block_def pureR_def
        block_number_def lib tag request_transaction_def gas_formatted rpc_call_def valid rpc_send_def)
      (simp add: reverting_context_def parseTransactionError_def Let_def prop_of_def obj_get_def)
qed

lemma reverting_prepared:
  "prepare_sending reverting_world unpriced_options (JObj [(''gas'', JStr ''0x64'')]) (unsent_state []) =
     (Inr (JObj [(''gas'', JStr ''0x64'')]), (unsent_state [])\<lparr>ss_transaction := JObj [(''gas'', JStr ''0x64'')]\<rparr>)"
proof -
  have lib: "qc_lib reverting_context = lib_ref"
    "option_of (qc_config reverting_context) ''defaultAccount'' = JUndef"
    by (simp_all add: reverting_context_def echo_context_def option_of_def default_config_def obj_get_def)
  have "formatInputTransaction reverting_world (JObj [(''gas'', JStr ''0x64'')]) = Inr (JObj [(''gas'', JStr ''0x64'')])"
    by (simp add: formatInputTransaction_def reverting_world_def getTransactionFromOrToAttr_def msg_prop_def
        obj_get_def lib isNullish_def spread_fields_def gas_formatted)
  then show ?thesis
    by (simp add: prepare_sending_def bindS_def asks_def remember_def pureR_def unpriced_options_def unsent_state_def)
qed


end
