(* ===== verification/HttpProvider.thy ===== *)
theory HttpProvider
  imports Actions ErrorClasses Batch QrlRead
begin

text \<open>
  The HTTP provider of \<^verbatim>\<open>web3-providers-http\<close>: its construction, the two deadlines of a request with the
  caller's own signal, the bounded reading of the body and the errors. What \<^verbatim>\<open>fetch\<close> and the stream of a
  body give, and the deadlines and aborts that come while they are waited for, are arguments; a stream
  is the list of its reads, and ends after the last of them.
\<close>

section \<open>The provider\<close>

text \<open>
  The options of a request without its signal. A signal is the reason it was aborted with, if it was.
\<close>

type_synonym fields = "(string \<times> jsval) list"
type_synonym signal = "jsval option"

record http_options =
  ho_bounds :: bounds_options
  ho_init :: fields
  ho_signal :: "signal option"

record http_request_options =
  hr_timeout :: jsval
  hr_init :: fields
  hr_signal :: "signal option option"

record http_provider =
  clientUrl :: string
  httpProviderOptions :: "http_options option"
  bounds :: resolved_bounds

definition validateClientUrl :: "jsval \<Rightarrow> bool" where
  "validateClientUrl v = (case v of JStr s \<Rightarrow> url_of ''http'' s | _ \<Rightarrow> False)"

definition loopbacks :: "string list" where
  "loopbacks = [''localhost'', ''127.0.0.1'', ''::1'', ''0.0.0.0'']"

definition warnIfCleartext :: "string \<Rightarrow> string option" where
  "warnIfCleartext url =
     (if \<not> startsWith (toLowerCase url) ''http://'' then None
      else let host = takeWhile (\<lambda>c. c \<notin> {CHR ''/'', CHR ''?'', CHR ''#'', CHR '':''}) (drop 7 url) in
           if toLowerCase host \<in> set loopbacks then None
           else Some (''web3-providers-http: cleartext http:// URL to non-loopback host '' @ quoted host @
                      ''. Use https:// for production.''))"

definition new_HttpProvider ::
  "lib \<Rightarrow> jsval \<Rightarrow> http_options option \<Rightarrow> thrown + http_provider \<times> string option" where
  "new_HttpProvider L url opts =
     (if \<not> validateClientUrl url then Inl (Err (new_InvalidClientError L url))
      else let u = (case url of JStr s \<Rightarrow> s | _ \<Rightarrow> []) in
        bindR (liftE (resolveProviderBounds (map_option ho_bounds opts))) (\<lambda>b.
          Inr (\<lparr>clientUrl = u, httpProviderOptions = opts, bounds = b\<rparr>, warnIfCleartext u)))"

text \<open>The operations of a provider that need a connection.\<close>

datatype http_operation =
    HttpGetStatus | HttpOn | HttpRemoveListener | HttpOnce | HttpRemoveAllListeners | HttpConnect
  | HttpDisconnect | HttpReset | HttpReconnect

definition http_operate :: "http_operation \<Rightarrow> thrown + jsval" where
  "http_operate operation = Inl (Err new_MethodNotImplementedError)"

definition http_supportsSubscriptions :: bool where
  "http_supportsSubscriptions = False"

section \<open>Responses\<close>

datatype http_event = ConnectionDeadline | RequestDeadline | CallerAborts jsval

datatype read_result = ReadDone | ReadValue jsval | ReadThrows thrown

type_synonym stream_reads = "(http_event list \<times> read_result) list"

text \<open>
  A body that is missing, already in memory, a stream of the web with what its cancelling does, a stream
  of Node, or anything else.
\<close>

datatype http_body =
    NoBody
  | Materialised bytes
  | WebStream stream_reads "http_event list \<times> thrown option"
  | NodeStream stream_reads
  | OtherBody string

record http_response =
  rp_status :: int
  rp_contentLength :: "string option"
  rp_body :: http_body

definition response_ok :: "http_response \<Rightarrow> bool" where
  "response_ok r = (200 \<le> rp_status r \<and> rp_status r \<le> 299)"

definition EMPTY_BODY_STATUSES :: "int list" where
  "EMPTY_BODY_STATUSES = [204, 205, 304]"

definition declaredContentLength :: "lib \<Rightarrow> http_response \<Rightarrow> nat option" where
  "declaredContentLength L r = (case rp_contentLength r of
      None \<Rightarrow> None
    | Some given \<Rightarrow> if given = [] then None else (case id_number L (JStr given) of
          NInt n \<Rightarrow> if 0 \<le> n then Some (nat n) else None
        | _ \<Rightarrow> None))"

fun merge_chunks :: "bytes \<Rightarrow> nat \<Rightarrow> bytes list \<Rightarrow> thrown + bytes" where
  "merge_chunks merged offset [] = Inr merged"
| "merge_chunks merged offset (c # cs) =
     (if offset + length c > length merged then Inl (Err (simple_error ''RangeError'' ''offset is out of bounds'' JUndef))
      else merge_chunks (take offset merged @ c @ drop (offset + length c) merged) (offset + length c) cs)"

definition decodeChunks :: "lib \<Rightarrow> bytes list \<Rightarrow> nat \<Rightarrow> thrown + string" where
  "decodeChunks L chunks totalBytes =
     map_sum id (bytesToUtf8_lossy L) (merge_chunks (replicate totalBytes 0) 0 chunks)"

section \<open>The state of a request\<close>

text \<open>
  The caller's signal, the two compositions, whether a listener of the body's reading is attached to the
  request's signal, whether the body was told to stop, the chunks kept, for each wait whether it was under
  an armed deadline or an aborted signal, and the calls of \<^verbatim>\<open>fetch\<close>.
\<close>

record http_state =
  ht_caller :: "signal option"
  ht_request :: abort_comp
  ht_header :: abort_comp
  ht_reading :: bool
  ht_cancelled :: bool
  ht_chunks :: "bytes list"
  ht_waits :: "bool list"
  ht_fetches :: "(string \<times> fields) list"

type_synonym 'a http = "(http_state, thrown, 'a) action"

definition no_composition :: abort_comp where
  "no_composition = \<lparr>ab_timer = False, ab_listening = False, ab_reason = None, ab_timedOut = False,
     ab_disposed = False\<rparr>"

definition started :: "signal option \<Rightarrow> http_state" where
  "started caller = \<lparr>ht_caller = caller, ht_request = no_composition, ht_header = no_composition,
     ht_reading = False, ht_cancelled = False, ht_chunks = [], ht_waits = [], ht_fetches = []\<rparr>"

text \<open>The deadlines of a request and its method, as the error objects name them.\<close>

record http_limits =
  lm_connection :: jsval
  lm_request :: jsval
  lm_method :: jsval

definition connection_timeout :: "lib \<Rightarrow> http_limits \<Rightarrow> error_obj" where
  "connection_timeout L T = new_ConnectionTimeoutError L (lm_connection T)"

definition request_timeout :: "lib \<Rightarrow> http_limits \<Rightarrow> error_obj" where
  "request_timeout L T = new_RequestTimeoutError L (lm_request T) (lm_method T)"

definition as_reason :: "error_obj \<Rightarrow> jsval" where
  "as_reason e = JErr (err_class (ob_class e) (ob_message e))"

text \<open>When the request's signal aborts, the header's composition and the reading of the body follow.\<close>

definition request_aborts :: "jsval \<Rightarrow> http_state \<Rightarrow> http_state" where
  "request_aborts reason s =
     (let s1 = (if ab_listening (ht_header s)
                then s\<lparr>ht_header := ab_fire_signal reason (ht_header s)\<rparr> else s) in
      if ht_reading s1 then s1\<lparr>ht_reading := False, ht_cancelled := True\<rparr> else s1)"

fun http_event_step :: "lib \<Rightarrow> http_limits \<Rightarrow> http_event \<Rightarrow> http_state \<Rightarrow> http_state" where
  "http_event_step L T ConnectionDeadline s =
     (if ab_timer (ht_header s)
      then s\<lparr>ht_header := ab_fire_timer (as_reason (connection_timeout L T)) (ht_header s)\<rparr> else s)"
| "http_event_step L T RequestDeadline s =
     (if ab_timer (ht_request s)
      then request_aborts (as_reason (request_timeout L T))
             (s\<lparr>ht_request := ab_fire_timer (as_reason (request_timeout L T)) (ht_request s)\<rparr>)
      else s)"
| "http_event_step L T (CallerAborts reason) s =
     (if ht_caller s \<noteq> Some None then s
      else let s1 = s\<lparr>ht_caller := Some (Some reason)\<rparr> in
           if ab_listening (ht_request s1)
           then request_aborts reason (s1\<lparr>ht_request := ab_fire_signal reason (ht_request s1)\<rparr>)
           else s1)"

definition http_wait :: "lib \<Rightarrow> http_limits \<Rightarrow> http_event list \<Rightarrow> http_state \<Rightarrow> http_state" where
  "http_wait L T es s =
     fold (http_event_step L T) es
       (s\<lparr>ht_waits := ht_waits s @ [ab_timer (ht_request s) \<or> ab_reason (ht_request s) \<noteq> None]\<rparr>)"

definition waits :: "lib \<Rightarrow> http_limits \<Rightarrow> http_event list \<Rightarrow> unit http" where
  "waits L T es s = (Inr (), http_wait L T es s)"

definition throw_if_aborted :: "unit http" where
  "throw_if_aborted s = (case ab_reason (ht_request s) of
      Some reason \<Rightarrow> throwS (Val reason) s | None \<Rightarrow> returnS () s)"

definition finallyS :: "('s, 'e, 'a) action \<Rightarrow> ('s \<Rightarrow> 's) \<Rightarrow> ('s, 'e, 'a) action" where
  "finallyS m f s = (case m s of (r, s') \<Rightarrow> (r, f s'))"

section \<open>Reading the body\<close>

definition too_large :: "lib \<Rightarrow> http_provider \<Rightarrow> nat \<Rightarrow> thrown" where
  "too_large L P received =
     Err (new_ResponseTooLargeError L (JNum (NInt (int (maxResponseBytes (bounds P))))) (JNum (NInt (int received))))"

definition type_name :: "jsval \<Rightarrow> string" where
  "type_name v = (case typeof v of
      TUndefined \<Rightarrow> ''undefined'' | TObject \<Rightarrow> ''object'' | TBoolean \<Rightarrow> ''boolean'' | TNumber \<Rightarrow> ''number''
    | TBigint \<Rightarrow> ''bigint'' | TString \<Rightarrow> ''string'' | TFunction \<Rightarrow> ''function'')"

definition assertBinaryChunk :: "lib \<Rightarrow> jsval \<Rightarrow> thrown + bytes" where
  "assertBinaryChunk L chunk = (case chunk of
      JBytes bs \<Rightarrow> Inr bs
    | _ \<Rightarrow> Inl (Err (new_ProviderCapabilityError L ''binary response chunks''
        (JStr (''the response body yielded a non-binary chunk ('' @ type_name chunk @
               ''), so response bytes cannot be counted'')))))"

definition keep_chunk :: "bytes \<Rightarrow> unit http" where
  "keep_chunk c s = (Inr (), s\<lparr>ht_chunks := ht_chunks s @ [c]\<rparr>)"

definition stop_body :: "unit http" where
  "stop_body s = (Inr (), s\<lparr>ht_cancelled := True\<rparr>)"

definition cancel_reader :: "lib \<Rightarrow> http_limits \<Rightarrow> http_event list \<times> thrown option \<Rightarrow> unit http" where
  "cancel_reader L T cancelling =
     bindS stop_body (\<lambda>_. bindS (waits L T (fst cancelling)) (\<lambda>_.
       case snd cancelling of None \<Rightarrow> returnS () | Some t \<Rightarrow> throwS t))"

fun reader_loop ::
  "lib \<Rightarrow> http_provider \<Rightarrow> http_limits \<Rightarrow> http_event list \<times> thrown option \<Rightarrow> nat \<Rightarrow> stream_reads \<Rightarrow>
   nat http" where
  "reader_loop L P T cancelling totalBytes [] =
     bindS throw_if_aborted (\<lambda>_. bindS (waits L T []) (\<lambda>_. returnS totalBytes))"
| "reader_loop L P T cancelling totalBytes ((es, result) # rest) =
     bindS throw_if_aborted (\<lambda>_. bindS (waits L T es) (\<lambda>_.
       case result of
         ReadDone \<Rightarrow> returnS totalBytes
       | ReadThrows t \<Rightarrow> throwS t
       | ReadValue v \<Rightarrow>
           if v = JUndef then reader_loop L P T cancelling totalBytes rest
           else bindS (liftS (assertBinaryChunk L v)) (\<lambda>chunk.
             if maxResponseBytes (bounds P) < totalBytes + length chunk
             then bindS (cancel_reader L T cancelling) (\<lambda>_.
               throwS (too_large L P (totalBytes + length chunk)))
             else bindS (keep_chunk chunk) (\<lambda>_.
               reader_loop L P T cancelling (totalBytes + length chunk) rest))))"

fun iterable_loop :: "lib \<Rightarrow> http_provider \<Rightarrow> http_limits \<Rightarrow> nat \<Rightarrow> stream_reads \<Rightarrow> nat http" where
  "iterable_loop L P T totalBytes [] = bindS (waits L T []) (\<lambda>_. returnS totalBytes)"
| "iterable_loop L P T totalBytes ((es, result) # rest) =
     bindS (waits L T es) (\<lambda>_.
       case result of
         ReadDone \<Rightarrow> returnS totalBytes
       | ReadThrows t \<Rightarrow> throwS t
       | ReadValue v \<Rightarrow> bindS throw_if_aborted (\<lambda>_.
           bindS (liftS (assertBinaryChunk L v)) (\<lambda>chunk.
             if maxResponseBytes (bounds P) < totalBytes + length chunk
             then bindS stop_body (\<lambda>_. throwS (too_large L P (totalBytes + length chunk)))
             else bindS (keep_chunk chunk) (\<lambda>_.
               iterable_loop L P T (totalBytes + length chunk) rest))))"

definition listen_to_abort :: "unit http" where
  "listen_to_abort s = (Inr (), s\<lparr>ht_reading := True\<rparr>)"

definition stop_listening :: "http_state \<Rightarrow> http_state" where
  "stop_listening s = s\<lparr>ht_reading := False\<rparr>"

definition decode_kept :: "lib \<Rightarrow> nat \<Rightarrow> string http" where
  "decode_kept L totalBytes s = liftS (decodeChunks L (ht_chunks s) totalBytes) s"

definition bounded_read :: "lib \<Rightarrow> nat http \<Rightarrow> string http" where
  "bounded_read L loop =
     bindS (finallyS (bindS listen_to_abort (\<lambda>_. bindS loop (\<lambda>total.
              bindS throw_if_aborted (\<lambda>_. returnS total)))) stop_listening) (decode_kept L)"

definition readFromReader ::
  "lib \<Rightarrow> http_provider \<Rightarrow> http_limits \<Rightarrow> stream_reads \<Rightarrow> http_event list \<times> thrown option \<Rightarrow> string http" where
  "readFromReader L P T rest cancelling = bounded_read L (reader_loop L P T cancelling 0 rest)"

definition readFromAsyncIterable :: "lib \<Rightarrow> http_provider \<Rightarrow> http_limits \<Rightarrow> stream_reads \<Rightarrow> string http" where
  "readFromAsyncIterable L P T rest = bounded_read L (iterable_loop L P T 0 rest)"

definition unreadable_body :: "lib \<Rightarrow> string \<Rightarrow> thrown" where
  "unreadable_body L reason = Err (new_ProviderCapabilityError L ''readable response body'' (JStr reason))"

definition readBoundedText :: "lib \<Rightarrow> http_provider \<Rightarrow> http_limits \<Rightarrow> http_response \<Rightarrow> string http" where
  "readBoundedText L P T r =
     (let declared = declaredContentLength L r; most = maxResponseBytes (bounds P) in
      if (case declared of Some n \<Rightarrow> most < n | None \<Rightarrow> False)
      then throwS (too_large L P (the declared))
      else case rp_body r of
          NoBody \<Rightarrow>
            if declared = Some 0 \<or> rp_status r \<in> set EMPTY_BODY_STATUSES then returnS []
            else throwS (unreadable_body L (''the fetch implementation returned a non-empty response with '' @
                   ''no readable body, so maxResponseBytes cannot be enforced''))
        | Materialised bs \<Rightarrow>
            if most < length bs then throwS (too_large L P (length bs))
            else liftS (decodeChunks L [bs] (length bs))
        | WebStream rest cancelling \<Rightarrow> readFromReader L P T rest cancelling
        | NodeStream rest \<Rightarrow> readFromAsyncIterable L P T rest
        | OtherBody t \<Rightarrow> throwS (unreadable_body L (''the fetch implementation returned a response body of an '' @
            ''unsupported type ('' @ t @ ''), so maxResponseBytes cannot be enforced'')))"

definition throw_made :: "thrown + error_obj \<Rightarrow> 'a http" where
  "throw_made r = (case r of Inl t \<Rightarrow> throwS t | Inr e \<Rightarrow> throwS (Err e))"

definition parse_failure :: "lib \<Rightarrow> js_error \<Rightarrow> thrown + error_obj" where
  "parse_failure L e =
     ResponseError L (JObj []) (Some (''Failed to parse HTTP response: SyntaxError: '' @ emsg e)) JUndef"

definition parseBoundedJson :: "lib \<Rightarrow> http_provider \<Rightarrow> http_limits \<Rightarrow> http_response \<Rightarrow> jsval http" where
  "parseBoundedJson L P T r =
     bindS (readBoundedText L P T r) (\<lambda>text. case json_parse L text of
         Inr v \<Rightarrow> returnS v
       | Inl e \<Rightarrow> throw_made (parse_failure L e))"

section \<open>A request\<close>

definition put_fields :: "fields \<Rightarrow> fields \<Rightarrow> fields" where
  "put_fields kvs news = fold (\<lambda>(k, v). AList.update k v) news kvs"

definition combined_init :: "http_provider \<Rightarrow> http_request_options option \<Rightarrow> fields" where
  "combined_init P opts =
     put_fields (put_fields [] (case httpProviderOptions P of Some h \<Rightarrow> ho_init h | None \<Rightarrow> []))
       (case opts of Some h \<Rightarrow> hr_init h | None \<Rightarrow> [])"

definition caller_signal :: "http_provider \<Rightarrow> http_request_options option \<Rightarrow> signal option" where
  "caller_signal P opts = (case Option.bind opts hr_signal of
      Some given \<Rightarrow> given
    | None \<Rightarrow> Option.bind (httpProviderOptions P) ho_signal)"

definition fetch_init :: "fields \<Rightarrow> string option \<Rightarrow> fields" where
  "fetch_init init body =
     put_fields init
       [(''method'', JStr ''POST''),
        (''headers'', JObj (put_fields (spread_fields (obj_get init ''headers''))
           [(''Content-Type'', JStr ''application/json'')])),
        (''body'', case body of Some t \<Rightarrow> JStr t | None \<Rightarrow> JUndef)]"

definition call_fetch :: "string \<Rightarrow> fields \<Rightarrow> unit http" where
  "call_fetch url init s = (Inr (), s\<lparr>ht_fetches := ht_fetches s @ [(url, init)]\<rparr>)"

definition dispose_header :: "http_state \<Rightarrow> http_state" where
  "dispose_header s = s\<lparr>ht_header := ab_dispose (ht_header s)\<rparr>"

definition dispose_both :: "http_state \<Rightarrow> http_state" where
  "dispose_both s = (dispose_header s)\<lparr>ht_request := ab_dispose (ht_request s)\<rparr>"

definition http_exchange ::
  "lib \<Rightarrow> http_provider \<Rightarrow> http_limits \<Rightarrow> fields \<Rightarrow> jsval \<Rightarrow> http_event list \<times> (thrown + http_response) \<Rightarrow>
   jsval http" where
  "http_exchange L P T init content world =
     bindS (liftS (liftE (js_json L content))) (\<lambda>body.
     bindS (call_fetch (clientUrl P) (fetch_init init body)) (\<lambda>_.
     bindS (waits L T (fst world)) (\<lambda>_.
     bindS (liftS (snd world)) (\<lambda>response.
     bindS (\<lambda>s. (Inr (), dispose_header s)) (\<lambda>_.
       if \<not> response_ok response
       then bindS (parseBoundedJson L P T response) (\<lambda>v. throw_made (ResponseError L v None JUndef))
       else parseBoundedJson L P T response)))))"

definition bound_violation :: "thrown \<Rightarrow> bool" where
  "bound_violation t = (case t of
      Err e \<Rightarrow> ob_class e \<in> {''ResponseTooLargeError'', ''ProviderCapabilityError''} | Val v \<Rightarrow> False)"

definition relabel :: "lib \<Rightarrow> http_limits \<Rightarrow> thrown \<Rightarrow> jsval http" where
  "relabel L T error s =
     (if bound_violation error then throwS error s
      else if ab_timedOut (ht_header s) then throwS (Err (connection_timeout L T)) s
      else if ab_timedOut (ht_request s) then throwS (Err (request_timeout L T)) s
      else throwS error s)"

definition http_guarded ::
  "lib \<Rightarrow> http_provider \<Rightarrow> http_limits \<Rightarrow> fields \<Rightarrow> jsval \<Rightarrow> http_event list \<times> (thrown + http_response) \<Rightarrow>
   jsval http" where
  "http_guarded L P T init content world =
     finallyS (catchS (http_exchange L P T init content world) (relabel L T)) dispose_both"

definition requested_timeout :: "http_provider \<Rightarrow> http_request_options option \<Rightarrow> js_error + jsval" where
  "requested_timeout P opts = (case opts of
      None \<Rightarrow> Inr (requestTimeout (bounds P))
    | Some h \<Rightarrow> if hr_timeout h = JUndef then Inr (requestTimeout (bounds P))
                else validateTimeout (hr_timeout h) ''requestTimeout'')"

definition compose_both :: "http_limits \<Rightarrow> unit http" where
  "compose_both T s =
     (case composeAbortSignal (Some (lm_request T)) (ht_caller s) of
        Inl e \<Rightarrow> throwS (native_error e) s
      | Inr request \<Rightarrow>
          (case composeAbortSignal (Some (lm_connection T)) (Some (ab_reason request)) of
             Inl e \<Rightarrow> throwS (native_error e) (s\<lparr>ht_request := request\<rparr>)
           | Inr header \<Rightarrow> returnS () (s\<lparr>ht_request := request, ht_header := header\<rparr>)))"

definition http_request ::
  "lib \<Rightarrow> http_provider \<Rightarrow> jsval \<Rightarrow> http_request_options option \<Rightarrow>
   http_event list \<times> (thrown + http_response) \<Rightarrow> (thrown + jsval) \<times> http_state" where
  "http_request L P content opts world =
     bindS (liftS (liftE (requested_timeout P opts))) (\<lambda>rt.
     bindS (liftS (read_field content ''method'')) (\<lambda>meth.
     let T = \<lparr>lm_connection = connectionTimeout (bounds P), lm_request = rt, lm_method = meth\<rparr> in
     bindS (compose_both T) (\<lambda>_. http_guarded L P T (combined_init P opts) content world)))
       (started (caller_signal P opts))"

end
