(* ===== verification/HttpProps.thy ===== *)
theory HttpProps
  imports HttpProvider
begin

text \<open>
  What a request of the HTTP provider keeps, whatever the node, the deadlines and the caller do: it leaves
  no timer and no listener, holds no more bytes than its bound, waits under a deadline only, and gives a
  result only for a body that was read to its end.
\<close>

section \<open>What the parts of a request keep\<close>

text \<open>
  A relation of states that a wait, its events and the end of the header's deadline respect is respected by
  the parts that do not read; one that the reading respects as well, by the reading of any body; and one
  that also allows a call of \<^verbatim>\<open>fetch\<close>, by the whole exchange.
\<close>

locale request_relation = state_relation R for R :: "http_state \<Rightarrow> http_state \<Rightarrow> bool" +
  assumes waited: "R s (s\<lparr>ht_waits := ht_waits s @ [ab_timer (ht_request s) \<or> ab_reason (ht_request s) \<noteq> None]\<rparr>)"
    and event: "R s (http_event_step L T e s)"
    and header_over: "R s (dispose_header s)"
begin

lemma events: "R s (fold (http_event_step L T) es s)"
proof (induction es arbitrary: s)
  case (Cons e es)
  show ?case using step [OF event Cons.IH] by simp
qed (simp add: same)

lemma stays_waits: "stays_in R (waits L T es)"
  using step [OF waited events] by (simp add: stays_in_def waits_def http_wait_def)

lemma stays_parts:
  "stays_in R throw_if_aborted" "stays_in R (decode_kept L n)" "stays_in R (throw_made r)"
  "stays_in R (relabel L T e)" "stays_in R (\<lambda>s. (Inr (), dispose_header s))"
  by (auto simp: stays_in_def throw_if_aborted_def decode_kept_def throw_made_def relabel_def same
      header_over split: option.splits sum.splits)

lemma stays_finally:
  assumes m: "stays_in R m" and f: "\<And>s. R s (f s)"
  shows "stays_in R (finallyS m f)"
  unfolding stays_in_def
proof
  fix s
  obtain r t where t: "m s = (r, t)" by (cases "m s")
  then have "R s (f t)" using stays_inD [OF m t] f step by blast
  with t show "R s (snd (finallyS m f s))" by (simp add: finallyS_def)
qed

lemmas stays_request = stays_composed stays_waits stays_parts

end

locale reading_relation = request_relation +
  assumes kept: "R s (s\<lparr>ht_chunks := ht_chunks s @ [c]\<rparr>)"
    and stopped: "R s (s\<lparr>ht_cancelled := True\<rparr>)"
    and listening: "R s (s\<lparr>ht_reading := b\<rparr>)"
begin

lemma stays_reading:
  "stays_in R (keep_chunk c)" "stays_in R stop_body" "stays_in R listen_to_abort"
  by (simp_all add: stays_in_def keep_chunk_def stop_body_def listen_to_abort_def kept stopped listening)

lemma stays_cancel: "stays_in R (cancel_reader L T c)"
  unfolding cancel_reader_def
  by (intro stays_request stays_reading) (auto split: option.splits intro: stays_request)

lemma stays_reader: "stays_in R (reader_loop L P T c n rest)"
  by (induction rest arbitrary: n)
    (auto intro!: stays_request stays_reading stays_cancel split: read_result.splits)

lemma stays_iterable: "stays_in R (iterable_loop L P T n rest)"
  by (induction rest arbitrary: n) (auto intro!: stays_request stays_reading split: read_result.splits)

lemma stays_bounded: "stays_in R loop \<Longrightarrow> stays_in R (bounded_read L loop)"
  unfolding bounded_read_def
  by (intro stays_request stays_reading stays_finally) (simp_all add: stop_listening_def listening)

lemma stays_json: "stays_in R (parseBoundedJson L P T r)"
  unfolding parseBoundedJson_def readBoundedText_def Let_def readFromReader_def readFromAsyncIterable_def
  by (auto intro!: stays_request stays_bounded stays_reader stays_iterable
      split: sum.splits http_body.splits)

end

locale exchange_relation = reading_relation +
  assumes fetched: "R s (s\<lparr>ht_fetches := ht_fetches s @ [f]\<rparr>)"
begin

lemma stays_fetch: "stays_in R (call_fetch url init)"
  by (simp add: stays_in_def call_fetch_def fetched)

lemma stays_exchange: "stays_in R (http_exchange L P T init content world)"
  unfolding http_exchange_def by (intro stays_request stays_fetch stays_json)

lemma stays_caught: "stays_in R (catchS (http_exchange L P T init content world) (relabel L T))"
  by (intro stays_request stays_exchange)

end

section \<open>The relations\<close>

definition tidy :: "http_state \<Rightarrow> bool" where
  "tidy s \<longleftrightarrow> ab_wf (ht_request s) \<and> ab_wf (ht_header s)"

definition under_deadline :: "http_state \<Rightarrow> bool" where
  "under_deadline s \<longleftrightarrow>
     (ab_timer (ht_request s) \<or> ab_reason (ht_request s) \<noteq> None) \<and> list_all id (ht_waits s)"

definition goes_on :: "http_state \<Rightarrow> http_state \<Rightarrow> bool" where
  "goes_on s t \<longleftrightarrow> (tidy s \<longrightarrow> tidy t) \<and> (under_deadline s \<longrightarrow> under_deadline t)"

definition stays_quiet :: "http_state \<Rightarrow> http_state \<Rightarrow> bool" where
  "stays_quiet s t \<longleftrightarrow> (\<not> ht_reading s \<longrightarrow> \<not> ht_reading t)"

definition same_fetches :: "http_state \<Rightarrow> http_state \<Rightarrow> bool" where
  "same_fetches s t \<longleftrightarrow> ht_fetches t = ht_fetches s"

lemma compositions_kept [simp]:
  "ab_reason (ab_dispose a) = ab_reason a" "ab_timedOut (ab_dispose a) = ab_timedOut a"
  "\<exists>x. ab_reason (ab_fire_timer r a) = Some x" "\<exists>x. ab_reason (ab_fire_signal r a) = Some x"
  by (auto simp: ab_dispose_def ab_fire_timer_def ab_fire_signal_def ab_abort_def)

lemma request_aborts_fields [simp]:
  "ht_request (request_aborts r s) = ht_request s" "ht_chunks (request_aborts r s) = ht_chunks s"
  "ht_waits (request_aborts r s) = ht_waits s" "ht_fetches (request_aborts r s) = ht_fetches s"
  "ab_wf (ht_header s) \<Longrightarrow> ab_wf (ht_header (request_aborts r s))"
  "\<not> ht_reading s \<Longrightarrow> \<not> ht_reading (request_aborts r s)"
  by (simp_all add: request_aborts_def Let_def)

lemma event_fields [simp]:
  "ht_chunks (http_event_step L T e s) = ht_chunks s" "ht_fetches (http_event_step L T e s) = ht_fetches s"
  by (cases e; simp add: Let_def)+

lemma goes_on_event: "goes_on s (http_event_step L T e s)"
  by (cases e) (auto simp: goes_on_def tidy_def under_deadline_def Let_def)

interpretation going: exchange_relation goes_on
proof unfold_locales
  show "goes_on s (http_event_step L T e s)" for s L T e by (rule goes_on_event)
qed (auto simp: goes_on_def tidy_def under_deadline_def dispose_header_def)

lemma quiet_event: "stays_quiet s (http_event_step L T e s)"
  by (cases e) (simp_all add: stays_quiet_def Let_def)

interpretation quiet: request_relation stays_quiet
  by unfold_locales (use quiet_event in \<open>auto simp: stays_quiet_def dispose_header_def\<close>)

interpretation fetching: reading_relation same_fetches
  by unfold_locales (simp_all add: same_fetches_def dispose_header_def)

section \<open>The run of a request\<close>

lemma guarded_run:
  obtains r t where "catchS (http_exchange L P T init content world) (relabel L T) s = (r, t)"
    and "http_guarded L P T init content world s = (r, dispose_both t)" and "goes_on s t"
proof -
  let ?m = "catchS (http_exchange L P T init content world) (relabel L T)"
  obtain r t where t: "?m s = (r, t)" by (cases "?m s")
  have "stays_in goes_on ?m" by (rule going.stays_caught)
  then show thesis using t that stays_inD by (fastforce simp: http_guarded_def finallyS_def)
qed

lemma composed_armed:
  assumes "positive_finite t"
  obtains a where "composeAbortSignal (Some t) c = Inr a" "ab_wf a" "ab_timer a \<or> ab_reason a \<noteq> None"
    "\<not> ab_timedOut a"
proof -
  obtain a where a: "composeAbortSignal (Some t) c = Inr a"
    using assms by (auto simp: composeAbortSignal_def validateTimeout_def Let_def)
  moreover have "(ab_timer a \<or> ab_reason a \<noteq> None) \<and> \<not> ab_timedOut a"
    using a assms by (auto simp: composeAbortSignal_def validateTimeout_def Let_def ab_abort_def
        split: option.splits)
  ultimately show thesis using composeAbortSignal_wf that by blast
qed

definition valid_provider :: "lib \<Rightarrow> http_provider \<Rightarrow> bool" where
  "valid_provider L P \<longleftrightarrow>
     (\<exists>url opts warning. new_HttpProvider L url opts = Inr (P, warning))"

lemma valid_provider_bounds:
  assumes "valid_provider L P"
  shows "positive_finite (connectionTimeout (bounds P))" "positive_finite (requestTimeout (bounds P))"
    "0 < maxResponseBytes (bounds P)"
proof -
  obtain url opts w where P: "new_HttpProvider L url opts = Inr (P, w)"
    using assms by (auto simp: valid_provider_def)
  have "resolveProviderBounds (map_option ho_bounds opts) = Inr (bounds P)"
    using P by (cases "resolveProviderBounds (map_option ho_bounds opts)")
      (auto simp: new_HttpProvider_def Let_def split: if_splits)
  from resolved_positive [OF this] show "positive_finite (connectionTimeout (bounds P))"
    "positive_finite (requestTimeout (bounds P))" "0 < maxResponseBytes (bounds P)" by simp_all
qed

lemma requested_positive:
  "requested_timeout P opts = Inr t \<Longrightarrow> positive_finite (requestTimeout (bounds P)) \<Longrightarrow> positive_finite t"
  by (auto simp: requested_timeout_def validateTimeout_def split: option.splits if_splits)

definition limits_of :: "http_provider \<Rightarrow> jsval \<Rightarrow> jsval \<Rightarrow> http_limits" where
  "limits_of P rt meth = \<lparr>lm_connection = connectionTimeout (bounds P), lm_request = rt, lm_method = meth\<rparr>"

text \<open>A request fails before its start or runs its guarded exchange under both deadlines.\<close>

lemma request_run:
  assumes "valid_provider L P"
  obtains (refused) e where "http_request L P content opts world = (Inl e, started (caller_signal P opts))"
  | (running) rt meth s where "requested_timeout P opts = Inr rt" "read_field content ''method'' = Inr meth"
      "tidy s" "under_deadline s" "ht_chunks s = []" "ht_fetches s = []" "\<not> ht_reading s" "\<not> ab_timedOut (ht_request s)"
      "http_request L P content opts world =
         http_guarded L P (limits_of P rt meth) (combined_init P opts) content world s"
proof (cases "requested_timeout P opts")
  case (Inl e)
  then show thesis using refused by (simp add: http_request_def bindS_def)
next
  case rt: (Inr rt)
  show thesis
  proof (cases "read_field content ''method''")
    case (Inl e)
    then show thesis using rt refused by (simp add: http_request_def bindS_def)
  next
    case (Inr meth)
    let ?c = "caller_signal P opts" and ?T = "limits_of P rt meth"
    obtain a where a: "composeAbortSignal (Some rt) ?c = Inr a" "ab_wf a" "ab_timer a \<or> ab_reason a \<noteq> None"
      "\<not> ab_timedOut a"
      using composed_armed requested_positive [OF rt valid_provider_bounds(2) [OF assms]] by blast
    obtain b where b: "composeAbortSignal (Some (connectionTimeout (bounds P))) (Some (ab_reason a)) = Inr b"
      "ab_wf b" using composed_armed valid_provider_bounds(1) [OF assms] by blast
    let ?s = "(started ?c)\<lparr>ht_request := a, ht_header := b\<rparr>"
    have "compose_both ?T (started ?c) = (Inr (), ?s)"
      using a(1) b(1) by (simp add: compose_both_def limits_of_def started_def)
    then have "http_request L P content opts world =
        http_guarded L P ?T (combined_init P opts) content world ?s"
      using rt Inr by (simp add: http_request_def bindS_def limits_of_def Let_def)
    then show thesis
      using running [OF rt Inr, of ?s] a b by (simp add: tidy_def under_deadline_def started_def)
  qed
qed

section \<open>No request leaves anything behind\<close>

definition at_rest :: "http_state \<Rightarrow> bool" where
  "at_rest s \<longleftrightarrow> ab_released (ht_request s) \<and> ab_released (ht_header s) \<and> \<not> ht_reading s"

lemma quiet_parts:
  "stays_in stays_quiet (call_fetch url init)" "stays_in stays_quiet (finallyS m stop_listening)"
  by (auto simp: stays_in_def stays_quiet_def call_fetch_def finallyS_def stop_listening_def split: prod.splits)

lemmas quiet_rules = quiet.stays_request quiet_parts

lemma quiet_json: "stays_in stays_quiet (parseBoundedJson L P T r)"
  unfolding parseBoundedJson_def readBoundedText_def Let_def readFromReader_def readFromAsyncIterable_def
    bounded_read_def
  by (auto intro!: quiet_rules split: sum.splits http_body.splits)

lemma quiet_exchange: "stays_in stays_quiet (catchS (http_exchange L P T init content world) (relabel L T))"
  unfolding http_exchange_def by (intro quiet_rules quiet_json)

text \<open>C25: Whatever the node, the stream, the deadlines and the caller's signal do, when a request of a provider is
  over its deadlines are disarmed and its listeners are removed.\<close>

theorem http_request_cleans_up:
  assumes "valid_provider L P"
  shows "at_rest (snd (http_request L P content opts world))"
  using assms
proof (cases rule: request_run [where content = content and opts = opts and world = world])
  case (refused e)
  then show ?thesis by (simp add: at_rest_def started_def no_composition_def ab_released_def)
next
  case (running rt meth s)
  obtain r t where t: "catchS (http_exchange L P (limits_of P rt meth) (combined_init P opts) content world)
      (relabel L (limits_of P rt meth)) s = (r, t)"
    and run: "http_guarded L P (limits_of P rt meth) (combined_init P opts) content world s = (r, dispose_both t)"
    and "goes_on s t"
    by (rule guarded_run)
  then have "tidy t" "\<not> ht_reading t"
    using running stays_inD [OF quiet_exchange t] by (simp_all add: goes_on_def stays_quiet_def)
  then show ?thesis
    by (simp add: running run at_rest_def dispose_both_def dispose_header_def tidy_def)
qed

section \<open>The bytes that are kept\<close>

definition kept_bytes :: "http_state \<Rightarrow> nat" where
  "kept_bytes s = length (concat (ht_chunks s))"

text \<open>The bytes of a stream up to its end, and whether it ends with binary chunks only and no failure.\<close>

fun stream_bytes :: "stream_reads \<Rightarrow> bytes" where
  "stream_bytes ((es, ReadValue v) # rest) = (case v of JBytes c \<Rightarrow> c | _ \<Rightarrow> []) @ stream_bytes rest"
| "stream_bytes _ = []"

fun stream_ends :: "stream_reads \<Rightarrow> bool" where
  "stream_ends ((es, ReadValue v) # rest) \<longleftrightarrow> (v = JUndef \<or> (\<exists>c. v = JBytes c)) \<and> stream_ends rest"
| "stream_ends ((es, ReadThrows t) # rest) \<longleftrightarrow> False"
| "stream_ends ((es, ReadDone) # rest) \<longleftrightarrow> True"
| "stream_ends [] \<longleftrightarrow> True"

fun body_bytes :: "http_body \<Rightarrow> bytes" where
  "body_bytes (Materialised bs) = bs"
| "body_bytes (WebStream rest c) = stream_bytes rest"
| "body_bytes (NodeStream rest) = stream_bytes rest"
| "body_bytes _ = []"

fun body_ends :: "http_body \<Rightarrow> bool" where
  "body_ends (Materialised bs) \<longleftrightarrow> True"
| "body_ends (WebStream rest c) \<longleftrightarrow> stream_ends rest"
| "body_ends (NodeStream rest) \<longleftrightarrow> stream_ends rest"
| "body_ends _ \<longleftrightarrow> False"

definition streamed :: "http_body \<Rightarrow> bool" where
  "streamed b = (case b of WebStream _ _ \<Rightarrow> True | NodeStream _ \<Rightarrow> True | _ \<Rightarrow> False)"

lemma wait_chunks [simp]: "ht_chunks (http_wait L T es s) = ht_chunks s"
proof -
  have "ht_chunks (fold (http_event_step L T) es u) = ht_chunks u" for u
    by (induction es arbitrary: u) simp_all
  then show ?thesis by (simp add: http_wait_def)
qed

text \<open>
  What a loop of reads has done: the bytes it adds are within the bound on every outcome, and when it comes
  to its end they are all the bytes of the stream.
\<close>

definition reads_within :: "nat \<Rightarrow> stream_reads \<Rightarrow> nat http \<Rightarrow> http_state \<Rightarrow> bool" where
  "reads_within bound rest loop s \<longleftrightarrow> (let (r, t) = loop s in
     kept_bytes t \<le> bound \<and>
     (\<forall>n. r = Inr n \<longrightarrow> n = kept_bytes t \<and> stream_ends rest \<and>
        concat (ht_chunks t) = concat (ht_chunks s) @ stream_bytes rest))"

lemmas loop_steps = bindS_def returnS_def throwS_def liftS_def throw_if_aborted_def waits_def keep_chunk_def
  stop_body_def cancel_reader_def assertBinaryChunk_def reads_within_def kept_bytes_def

lemma reader_within:
  assumes "kept_bytes s \<le> maxResponseBytes (bounds P)"
  shows "reads_within (maxResponseBytes (bounds P)) rest (reader_loop L P T c (kept_bytes s) rest) s"
  using assms
proof (induction rest arbitrary: s)
  case Nil
  then show ?case by (simp add: loop_steps split: option.splits)
next
  case (Cons x rest)
  obtain es result where x: "x = (es, result)" by (cases x)
  show ?case
  proof (cases "ab_reason (ht_request s)")
    case (Some r)
    then show ?thesis using Cons.prems x by (simp add: loop_steps)
  next
    case None
    note step = None x
    let ?w = "http_wait L T es s"
    show ?thesis
    proof (cases result)
      case ReadDone
      then show ?thesis using Cons.prems step by (simp add: loop_steps)
    next
      case (ReadThrows t)
      then show ?thesis using Cons.prems step by (simp add: loop_steps)
    next
      case (ReadValue v)
      show ?thesis
      proof (cases "\<exists>b. v = JBytes b")
        case True
        then obtain b where b: "v = JBytes b" by blast
        let ?u = "?w\<lparr>ht_chunks := ht_chunks s @ [b]\<rparr>"
        have "kept_bytes ?u = kept_bytes s + length b" by (simp add: kept_bytes_def)
        with Cons.IH [of ?u] Cons.prems show ?thesis
          using step ReadValue b by (auto simp: loop_steps split: option.splits)
      next
        case False
        with Cons.IH [of ?w] Cons.prems show ?thesis
          using step ReadValue by (cases v) (auto simp: loop_steps)
      qed
    qed
  qed
qed

lemma iterable_within:
  assumes "kept_bytes s \<le> maxResponseBytes (bounds P)"
  shows "reads_within (maxResponseBytes (bounds P)) rest (iterable_loop L P T (kept_bytes s) rest) s"
  using assms
proof (induction rest arbitrary: s)
  case Nil
  then show ?case by (simp add: loop_steps)
next
  case (Cons x rest)
  obtain es result where x: "x = (es, result)" by (cases x)
  let ?w = "http_wait L T es s"
  show ?case
  proof (cases "\<exists>b. result = ReadValue (JBytes b)")
    case True
    then obtain b where b: "result = ReadValue (JBytes b)" by blast
    let ?u = "?w\<lparr>ht_chunks := ht_chunks s @ [b]\<rparr>"
    have "kept_bytes ?u = kept_bytes s + length b" by (simp add: kept_bytes_def)
    with Cons.IH [of ?u] Cons.prems show ?thesis
      using x b by (auto simp: loop_steps split: option.splits)
  next
    case False
    with Cons.prems x show ?thesis
      by (cases result) (auto simp: loop_steps split: option.splits jsval.splits)
  qed
qed

lemma merge_chunks_concat:
  assumes "length merged = offset + length (concat cs)"
  shows "merge_chunks merged offset cs = Inr (take offset merged @ concat cs)"
  using assms by (induction cs arbitrary: merged offset) simp_all

lemma decodeChunks_concat:
  "n = length (concat cs) \<Longrightarrow> decodeChunks L cs n = Inr (bytesToUtf8_lossy L (concat cs))"
  by (simp add: decodeChunks_def merge_chunks_concat)

text \<open>The text of a whole body: it ends, is within the bound, and its request was not aborted while it streamed.\<close>

definition whole_body :: "lib \<Rightarrow> nat \<Rightarrow> http_body \<Rightarrow> string \<Rightarrow> http_state \<Rightarrow> bool" where
  "whole_body L bound b text t \<longleftrightarrow>
     body_ends b \<and> length (body_bytes b) \<le> bound \<and> text = bytesToUtf8_lossy L (body_bytes b) \<and>
     (streamed b \<longrightarrow> ab_reason (ht_request t) = None)"

lemma bounded_within:
  assumes "ht_chunks s = []" and "reads_within bound rest loop (s\<lparr>ht_reading := True\<rparr>)"
    and "bounded_read L loop s = (r, t)"
  shows "kept_bytes t \<le> bound \<and> (\<forall>text. r = Inr text \<longrightarrow> stream_ends rest \<and>
    length (stream_bytes rest) \<le> bound \<and> text = bytesToUtf8_lossy L (stream_bytes rest) \<and>
    ab_reason (ht_request t) = None)"
proof -
  obtain q u where u: "loop (s\<lparr>ht_reading := True\<rparr>) = (q, u)" by (cases "loop (s\<lparr>ht_reading := True\<rparr>)")
  show ?thesis
    using assms u decodeChunks_concat [of _ "ht_chunks u" L]
    by (cases q) (auto simp: bounded_read_def finallyS_def loop_steps listen_to_abort_def stop_listening_def
        decode_kept_def split: option.splits)
qed

lemma text_within:
  assumes "ht_chunks s = []" and t: "readBoundedText L P T x s = (r, t)"
  shows "kept_bytes t \<le> maxResponseBytes (bounds P) \<and>
    (\<forall>text. r = Inr text \<longrightarrow> text = [] \<or> whole_body L (maxResponseBytes (bounds P)) (rp_body x) text t)"
proof -
  let ?s = "s\<lparr>ht_reading := True\<rparr>"
  have none: "kept_bytes s = 0" "kept_bytes ?s = 0" using assms(1) by (simp_all add: kept_bytes_def)
  then have loops: "reads_within (maxResponseBytes (bounds P)) rest (reader_loop L P T c 0 rest) ?s"
    "reads_within (maxResponseBytes (bounds P)) rest (iterable_loop L P T 0 rest) ?s" for rest c
    using reader_within [of ?s P rest L T c] iterable_within [of ?s P rest L T] by simp_all
  show ?thesis
  proof (cases "case declaredContentLength L x of Some n \<Rightarrow> maxResponseBytes (bounds P) < n | None \<Rightarrow> False")
    case True
    then show ?thesis using t none by (auto simp: readBoundedText_def throwS_def)
  next
    case False
    show ?thesis
    proof (cases "rp_body x")
      case NoBody
      then show ?thesis using t none False
        by (auto simp: readBoundedText_def Let_def throwS_def returnS_def split: if_splits)
    next
      case (Materialised bs)
      then show ?thesis using t none False decodeChunks_concat [of _ "[bs]" L]
        by (auto simp: readBoundedText_def Let_def throwS_def liftS_def whole_body_def streamed_def split: if_splits)
    next
      case (WebStream rest c)
      then have "bounded_read L (reader_loop L P T c 0 rest) s = (r, t)"
        using t False by (simp add: readBoundedText_def Let_def readFromReader_def)
      from bounded_within [OF assms(1) loops(1) this] WebStream show ?thesis by (simp add: whole_body_def)
    next
      case (NodeStream rest)
      then have "bounded_read L (iterable_loop L P T 0 rest) s = (r, t)"
        using t False by (simp add: readBoundedText_def Let_def readFromAsyncIterable_def)
      from bounded_within [OF assms(1) loops(2) this] NodeStream show ?thesis by (simp add: whole_body_def)
    next
      case (OtherBody n)
      then show ?thesis using t none False by (auto simp: readBoundedText_def Let_def throwS_def)
    qed
  qed
qed

lemma throw_made_throws: "throw_made m s = (r, t) \<Longrightarrow> t = s \<and> (\<exists>e. r = Inl e)"
  by (auto simp: throw_made_def throwS_def split: sum.splits)

lemma json_within:
  assumes "ht_chunks s = []" and "parseBoundedJson L P T x s = (r, t)"
  shows "kept_bytes t \<le> maxResponseBytes (bounds P) \<and>
    (\<forall>v. r = Inr v \<longrightarrow> (\<exists>text. whole_body L (maxResponseBytes (bounds P)) (rp_body x) text t \<and>
       json_parse L text = Inr v))"
proof -
  obtain q u where u: "readBoundedText L P T x s = (q, u)" by (cases "readBoundedText L P T x s")
  have empty: "\<exists>e. json_parse L [] = Inl e" by (simp add: json_parse_def startsWith_def json_numeral_def take_digits_def)
  show ?thesis
    using assms(2) text_within [OF assms(1) u] u empty
    by (cases q) (auto simp: parseBoundedJson_def bindS_def returnS_def dest: throw_made_throws split: sum.splits)
qed

text \<open>What an exchange has done when it is over: a result comes from the response to its one request.\<close>

lemma exchange_within:
  assumes "ht_chunks s = []" and "http_exchange L P T init content (es, answer) s = (r, t)"
  shows "kept_bytes t \<le> maxResponseBytes (bounds P) \<and>
    (\<forall>v. r = Inr v \<longrightarrow> (\<exists>x body text. answer = Inr x \<and> response_ok x \<and> js_json L content = Inr body \<and>
       whole_body L (maxResponseBytes (bounds P)) (rp_body x) text t \<and> json_parse L text = Inr v \<and>
       ht_fetches t = ht_fetches s @ [(clientUrl P, fetch_init init body)]))"
proof (cases "js_json L content")
  case (Inl e)
  then show ?thesis using assms by (auto simp: http_exchange_def bindS_def liftS_def kept_bytes_def)
next
  case (Inr body)
  let ?u = "http_wait L T es (s\<lparr>ht_fetches := ht_fetches s @ [(clientUrl P, fetch_init init body)]\<rparr>)"
  have u: "ht_chunks ?u = []" "ht_chunks (dispose_header ?u) = []"
    using assms(1) by (simp_all add: dispose_header_def)
  show ?thesis
  proof (cases answer)
    case (Inl e)
    then show ?thesis using assms(2) Inr u(1)
      by (auto simp: http_exchange_def bindS_def liftS_def call_fetch_def waits_def kept_bytes_def)
  next
    case x: (Inr x)
    obtain q w where w: "parseBoundedJson L P T x (dispose_header ?u) = (q, w)"
      by (cases "parseBoundedJson L P T x (dispose_header ?u)")
    have "same_fetches (dispose_header ?u) w" by (rule stays_inD [OF fetching.stays_json w])
    moreover have "same_fetches (s\<lparr>ht_fetches := ht_fetches s @ [(clientUrl P, fetch_init init body)]\<rparr>) ?u"
      using stays_inD [OF fetching.stays_waits] by (simp add: waits_def)
    ultimately have "ht_fetches w = ht_fetches s @ [(clientUrl P, fetch_init init body)]"
      by (simp add: same_fetches_def dispose_header_def)
    with json_within [OF u(2) w] show ?thesis using assms(2) Inr x w
      by (cases q) (auto simp: http_exchange_def bindS_def liftS_def call_fetch_def waits_def
          dest: throw_made_throws split: if_splits)
  qed
qed

lemma relabel_throws:
  "relabel L T e s = (Inl (if bound_violation e then e
     else if ab_timedOut (ht_header s) then Err (connection_timeout L T)
     else if ab_timedOut (ht_request s) then Err (request_timeout L T) else e), s)"
  by (simp add: relabel_def)

lemma guarded_within:
  assumes "ht_chunks s = []" "http_guarded L P T init content (es, answer) s = (r, t)"
  shows "kept_bytes t \<le> maxResponseBytes (bounds P) \<and>
    (\<forall>v. r = Inr v \<longrightarrow> (\<exists>x body text. answer = Inr x \<and> response_ok x \<and> js_json L content = Inr body \<and>
       whole_body L (maxResponseBytes (bounds P)) (rp_body x) text t \<and> json_parse L text = Inr v \<and>
       ht_fetches t = ht_fetches s @ [(clientUrl P, fetch_init init body)]))"
proof -
  obtain q u where u: "http_exchange L P T init content (es, answer) s = (q, u)"
    by (cases "http_exchange L P T init content (es, answer) s")
  have t: "t = dispose_both u" "r = Inr v \<Longrightarrow> q = Inr v" for v
    using assms(2) u
    by (cases q; simp add: http_guarded_def finallyS_def catchS_def relabel_throws)+
  have kept: "kept_bytes (dispose_both u) = kept_bytes u" "ht_fetches (dispose_both u) = ht_fetches u"
    "whole_body L n b w (dispose_both u) = whole_body L n b w u" for n b w
    by (simp_all add: dispose_both_def dispose_header_def kept_bytes_def whole_body_def)
  show ?thesis using exchange_within [OF assms(1) u] t kept by auto
qed

text \<open>C26: Whatever the node sends, a request never keeps more bytes of a body than the bound of its provider.\<close>

theorem http_memory_bounded:
  assumes "valid_provider L P"
  shows "kept_bytes (snd (http_request L P content opts (es, answer))) \<le> maxResponseBytes (bounds P)"
  using assms
proof (cases rule: request_run [where content = content and opts = opts and world = "(es, answer)"])
  case (running rt meth s)
  then show ?thesis
    using guarded_within [of s L P "limits_of P rt meth" "combined_init P opts" content es answer]
    by (auto simp: prod_eq_iff)
qed (simp add: kept_bytes_def started_def)

text \<open>C24: A result of a request is the JSON value of the whole body of the successful response to its one POST; the
  body is within the bound, and when it was streamed neither the deadline nor the caller cut it short.\<close>

theorem http_response_complete:
  assumes "valid_provider L P" and "http_request L P content opts (es, answer) = (Inr v, t)"
  shows "\<exists>x body text. answer = Inr x \<and> response_ok x \<and> js_json L content = Inr body \<and>
    ht_fetches t = [(clientUrl P, fetch_init (combined_init P opts) body)] \<and>
    body_ends (rp_body x) \<and> length (body_bytes (rp_body x)) \<le> maxResponseBytes (bounds P) \<and>
    json_parse L (bytesToUtf8_lossy L (body_bytes (rp_body x))) = Inr v \<and>
    (streamed (rp_body x) \<longrightarrow> ab_reason (ht_request t) = None)"
  using assms(1)
proof (cases rule: request_run [where content = content and opts = opts and world = "(es, answer)"])
  case (refused e)
  then show ?thesis using assms(2) by simp
next
  case (running rt meth s)
  then show ?thesis
    using guarded_within [of s L P "limits_of P rt meth" "combined_init P opts" content es answer "Inr v" t]
      assms(2) by (fastforce simp: whole_body_def)
qed

section \<open>Deadlines\<close>

text \<open>A composition that timed out has a reason; the deadline of a request is only ever met under its guard.\<close>

definition timeouts_show :: "http_state \<Rightarrow> bool" where
  "timeouts_show s \<longleftrightarrow> (ab_timedOut (ht_request s) \<longrightarrow> ab_reason (ht_request s) \<noteq> None)"

definition shows_on :: "http_state \<Rightarrow> http_state \<Rightarrow> bool" where
  "shows_on s t \<longleftrightarrow> (timeouts_show s \<longrightarrow> timeouts_show t)"

lemma shows_on_event: "shows_on s (http_event_step L T e s)"
  by (cases e) (auto simp: shows_on_def timeouts_show_def Let_def)

interpretation showing: exchange_relation shows_on
proof unfold_locales
  show "shows_on s (http_event_step L T e s)" for s L T e by (rule shows_on_event)
qed (auto simp: shows_on_def timeouts_show_def dispose_header_def)

lemma exchange_late:
  assumes "ht_chunks s = []" "\<not> ab_timedOut (ht_request s)"
    and run: "http_exchange L P T init content (es, answer) s = (Inr v, t)"
    and "ab_timedOut (ht_request t)"
  shows "\<exists>x. answer = Inr x \<and> \<not> streamed (rp_body x)"
proof -
  have "shows_on s t" by (rule stays_inD [OF showing.stays_exchange run])
  then have "ab_reason (ht_request t) \<noteq> None" using assms by (simp add: shows_on_def timeouts_show_def)
  then show ?thesis using exchange_within [OF assms(1) run] by (auto simp: whole_body_def)
qed

definition deadline_error :: "thrown \<Rightarrow> bool" where
  "deadline_error e \<longleftrightarrow> bound_violation e \<or>
     (\<exists>L T. e = Err (connection_timeout L T) \<or> e = Err (request_timeout L T))"


section \<open>Witnesses\<close>

definition demo_http :: http_provider where
  "demo_http = \<lparr>clientUrl = ''http://localhost:8545'', httpProviderOptions = None,
     bounds = \<lparr>connectionTimeout = DEFAULT_CONNECTION_TIMEOUT, requestTimeout = DEFAULT_REQUEST_TIMEOUT,
       maxResponseBytes = 10485760, maxInFlightRequests = 256\<rparr>\<rparr>"

lemma demo_http_valid: "valid_provider lib_ref demo_http"
proof -
  have "validateClientUrl (JStr ''http://localhost:8545'')"
    by (simp add: validateClientUrl_def url_of_def startsWith_def toLowerCase_def lower_char_def Let_def char_code_def)
  then have "new_HttpProvider lib_ref (JStr ''http://localhost:8545'') None =
      Inr (demo_http, warnIfCleartext ''http://localhost:8545'')"
    by (simp add: new_HttpProvider_def demo_http_def resolveProviderBounds_def validateTimeout_def
        validatePositiveInteger_def positive_finite_def Let_def DEFAULT_CONNECTION_TIMEOUT_def
        DEFAULT_REQUEST_TIMEOUT_def DEFAULT_MAX_RESPONSE_BYTES_def DEFAULT_MAX_IN_FLIGHT_REQUESTS_def)
  then show ?thesis by (auto simp: valid_provider_def)
qed

definition demo_call :: jsval where
  "demo_call = JObj [(''method'', JStr ''qrl_chainId'')]"

definition demo_stream :: "http_event list \<Rightarrow> http_response" where
  "demo_stream es = \<lparr>rp_status = 200, rp_contentLength = None,
     rp_body = WebStream [([], ReadValue (JBytes (utf8_encode ''tr''))), (es, ReadValue (JBytes (utf8_encode ''ue'')))]
       ([], None)\<rparr>"

lemma demo_call_text: "\<exists>body. js_json lib_ref demo_call = Inr (Some body)"
  by (simp add: demo_call_def)

lemma demo_parsed: "json_parse lib_ref ''true'' = Inr (JBool True)"
  by (rule json_roundtrip [of "JBool True"]) simp_all

lemmas demo_steps = bindS_def returnS_def throwS_def liftS_def throw_if_aborted_def waits_def http_wait_def
  keep_chunk_def assertBinaryChunk_def listen_to_abort_def stop_listening_def finallyS_def catchS_def

lemma demo_run:
  fixes es
  defines "s \<equiv> (started None)\<lparr>ht_request := no_composition\<lparr>ab_timer := True\<rparr>,
    ht_header := no_composition\<lparr>ab_timer := True, ab_listening := True\<rparr>\<rparr>"
  shows "http_request lib_ref demo_http demo_call None (es, answer) =
    http_guarded lib_ref demo_http (limits_of demo_http DEFAULT_REQUEST_TIMEOUT (JStr ''qrl_chainId''))
      [] demo_call (es, answer) s"
  by (simp add: http_request_def requested_timeout_def demo_http_def demo_call_def read_field_def msg_prop_def
      obj_get_def caller_signal_def compose_both_def composeAbortSignal_def validateTimeout_def
      positive_finite_def DEFAULT_REQUEST_TIMEOUT_def DEFAULT_CONNECTION_TIMEOUT_def started_def
      combined_init_def put_fields_def no_composition_def limits_of_def bindS_def liftS_def returnS_def
      Let_def s_def)

theorem http_request_cleans_up_witness:
  "at_rest (snd (http_request lib_ref demo_http demo_call None ([RequestDeadline], Inr (demo_stream []))))"
  by (rule http_request_cleans_up [OF demo_http_valid])

theorem http_memory_bounded_witness:
  "kept_bytes (snd (http_request lib_ref demo_http demo_call None ([], Inr (demo_stream [])))) \<le> 10485760"
  using http_memory_bounded [OF demo_http_valid, of demo_call None "[]" "Inr (demo_stream [])"]
  by (simp add: demo_http_def)

lemma demo_bytes:
  "utf8_encode ''tr'' @ utf8_encode ''ue'' = utf8_encode ''true''"
  "length (utf8_encode ''tr'') = 2" "length (utf8_encode ''ue'') = 2"
  "length (utf8_encode ''true'') = 4"
  by (simp_all add: utf8_encode_def utf8_char_def char_code_def Let_def)

lemma demo_text:
  "decodeChunks lib_ref [utf8_encode ''tr'', utf8_encode ''ue''] (Suc (Suc (Suc (Suc 0)))) = Inr ''true''"
  using decodeChunks_concat [of 4 "[utf8_encode ''tr'', utf8_encode ''ue'']" lib_ref]
    crypto_okD(3) [OF lib_ref_crypto, of "''true''"] demo_bytes
  by (simp add: numeral_eq_Suc)

lemmas demo_reading = http_guarded_def http_exchange_def call_fetch_def response_ok_def
  demo_stream_def demo_http_def dispose_header_def dispose_both_def parseBoundedJson_def readBoundedText_def
  declaredContentLength_def readFromReader_def bounded_read_def decode_kept_def
  demo_bytes demo_text demo_parsed started_def no_composition_def

lemma demo_result:
  "fst (http_request lib_ref demo_http demo_call None ([], Inr (demo_stream []))) = Inr (JBool True)"
proof -
  obtain body where "js_json lib_ref demo_call = Inr body" using demo_call_text by blast
  then show ?thesis unfolding demo_run by (simp add: demo_reading demo_steps)
qed

theorem http_response_complete_witness:
  "json_parse lib_ref (bytesToUtf8_lossy lib_ref (body_bytes (rp_body (demo_stream [])))) = Inr (JBool True)"
proof -
  obtain t where "http_request lib_ref demo_http demo_call None ([], Inr (demo_stream [])) = (Inr (JBool True), t)"
    using demo_result by (cases "http_request lib_ref demo_http demo_call None ([], Inr (demo_stream []))") simp
  from http_response_complete [OF demo_http_valid this] show ?thesis by auto
qed

lemma demo_late:
  "ab_timedOut (ht_request (snd (http_request lib_ref demo_http demo_call None
     ([], Inr (demo_stream [RequestDeadline])))))"
proof -
  obtain body where "js_json lib_ref demo_call = Inr body" using demo_call_text by blast
  then show ?thesis unfolding demo_run
    by (simp add: demo_reading demo_steps relabel_throws ab_fire_timer_def ab_dispose_def ab_abort_def
        request_aborts_def Let_def)
qed


end
