(* ===== verification/Spec2Isabelle.thy ===== *)
theory Spec2Isabelle
  imports UtilProps AbiSafety AbiTypes SocketProps WalletProps FormatProps AbiParamsProps BatchProps ConfigProps RpcProps QrlTxProps QrlSendSafety HttpProps
begin

text \<open>
  This development models the core of web3.js for the QRL network: the packages under
  \<^verbatim>\<open>src/packages/\<close> that encode and decode contract data, check and convert values, keep accounts,
  chains and transactions, talk to a node over a request manager, an HTTP provider or a socket, and
  read from and send to the chain. Every definition is a translation of the functions and classes it is
  mapped to, with their guards, their order and their errors; the theorems are about these definitions.

  \<^bold>\<open>How the parts work together.\<close> A user calls a function of \<^verbatim>\<open>web3-qrl\<close> with a context. The function puts
  its arguments in the form of the node (formatter, validator, converters), calls a method of
  \<^verbatim>\<open>web3-rpc-methods\<close>, which validates them and hands a JSON-RPC request to the request manager of
  \<^verbatim>\<open>web3-core\<close>; that sends it through a provider, for instance the socket provider of \<^verbatim>\<open>web3-utils\<close>, and
  turns the answer into a result or an error of \<^verbatim>\<open>web3-errors\<close>; the result is formatted by a schema. A
  transaction is filled in, checked, made into a transaction object of \<^verbatim>\<open>web3-qrl-accounts\<close>, signed and
  sent. The data of a contract call are encoded and decoded by \<^verbatim>\<open>web3-qrl-abi\<close> over the coders of
  \<^verbatim>\<open>packages/abi\<close>.

  \<^bold>\<open>Conventions.\<close> A value of the language is a \<^verbatim>\<open>jsval\<close> (theory JsValue): numbers are integers, fractions,
  infinities or NaN, bigints are integers, texts are lists of 8-bit characters, byte arrays are lists of
  8-bit words, objects are association lists in the order of their keys. A function that may throw returns
  a sum with the error on the left; \<^verbatim>\<open>bindR\<close> is sequencing. A method that changes its receiver and may
  throw is an \<^verbatim>\<open>action\<close>, whose state is kept on both outcomes. An asynchronous function is the action it
  runs to its end, with what a provider, a node, a timer or a user's function does as an argument; where
  several of them interleave (socket provider, batches, confirmations) the model is a machine whose steps
  are the events. Code of other packages (cryptography, RLP, wallets, ciphers, Zod) is a field of one of
  the records \<^verbatim>\<open>lib\<close>, \<^verbatim>\<open>tx_lib\<close> and \<^verbatim>\<open>acc_lib\<close> (theories Externals, Tx, Account); what the code relies on is a
  named hypothesis (such as \<^verbatim>\<open>zod_ok\<close>), and \<^verbatim>\<open>lib_ref\<close>, \<^verbatim>\<open>tx_ref\<close> and \<^verbatim>\<open>acc_ref\<close> are concrete functions that
  satisfy them, used by the witnesses.

  \<^bold>\<open>The theories and the code they model.\<close>

  \<^item> Prelude, Actions: results, actions, digits, big-endian bytes, ordered maps; the interfaces
    \<^verbatim>\<open>js_map\<close> and \<^verbatim>\<open>state_relation\<close>. JsText, JsValue, Externals, Json: the texts, values and library functions
    of the language and \<^verbatim>\<open>JSON.parse\<close> with \<^verbatim>\<open>JSON.stringify\<close> read back.
  \<^item> ValText, ValUtils, ValFormats, ValSchema: \<^verbatim>\<open>web3-validator/src\<close>: the predicates of
    \<^verbatim>\<open>validation/*.ts\<close>, \<^verbatim>\<open>utils.ts\<close>, \<^verbatim>\<open>formats.ts\<close>, and the conversion of a schema to Zod checks with
    \<^verbatim>\<open>validator.ts\<close> and \<^verbatim>\<open>web3_validator.ts\<close>.
  \<^item> Converters, Units, Hash, Rpc, Format: \<^verbatim>\<open>web3-utils/src\<close>: \<^verbatim>\<open>converters.ts\<close>, \<^verbatim>\<open>string_manipulation.ts\<close>,
    \<^verbatim>\<open>hash.ts\<close>, \<^verbatim>\<open>json_rpc.ts\<close> with the bounds, abort signals and deferred promises of the providers, and
    \<^verbatim>\<open>formatter.ts\<close>. UtilProps, HashProps, FormatProps: their properties; FormatProps relates the path-based
    search of the formatter to a structural descent.
  \<^item> Socket, SocketInv, SocketProps: \<^verbatim>\<open>web3-utils/src/socket_provider.ts\<close> as a machine over the calls, socket
    events and timers; a state is a store of request items, two queues, counters and a connection status.
    SocketInv has the invariant by induction over steps, SocketProps its consequences for every run.
  \<^item> AbiCoder, AbiApi, Fragments: \<^verbatim>\<open>packages/abi/src\<close>: reader, writer and coders, \<^verbatim>\<open>abi-coder.ts\<close>,
    \<^verbatim>\<open>fragments.ts\<close>. AbiSpec is the head and tail construction they implement; AbiEncode and AbiDecode the
    refinement and the round trip; AbiSafety and AbiTypes what the reader and the types keep.
  \<^item> AbiParams, AbiParamsProps: \<^verbatim>\<open>web3-qrl-abi/src\<close>: parameters, function calls, events, logs and errors.
  \<^item> AccUtils, Common, Tx, TxInv, TxWire, TxRead, TxProps, TxFees: \<^verbatim>\<open>web3-qrl-accounts/src\<close>: \<^verbatim>\<open>common/\<close> (chains
    and hardforks), \<^verbatim>\<open>tx/\<close> (transactions, their constructor, wire format, signing, caches and fees).
    Account, AccountProps, Wallet, WalletProps: \<^verbatim>\<open>account.ts\<close> and \<^verbatim>\<open>wallet.ts\<close>; the wallet refines an ordered
    list of accounts.
  \<^item> Errors, ErrorClasses: \<^verbatim>\<open>web3-errors/src\<close>. Manager, Batch, Config with their Props: \<^verbatim>\<open>web3-core/src\<close>: the
    request manager, batches, the options of a context and the contexts that follow it.
  \<^item> HttpProvider, HttpProps: \<^verbatim>\<open>web3-providers-http/src\<close>: a request under its two deadlines, the bounded
    reading of the body and the release of timers and listeners, by relations that every part respects.
  \<^item> QrlRpc, RpcProps: \<^verbatim>\<open>web3-rpc-methods/src\<close>. QrlSchemas, QrlRead, QrlTx, QrlSend with their Props:
    \<^verbatim>\<open>web3-qrl/src\<close>: \<^verbatim>\<open>schemas.ts\<close>, the readers, \<^verbatim>\<open>validation.ts\<close>, the building of a transaction and its
    preparation for signing, \<^verbatim>\<open>sendTransaction\<close> and \<^verbatim>\<open>sendSignedTransaction\<close>. QrlSendSafety: a transaction is
    handed to the node at most once.

  \<^bold>\<open>Bounds and fuel.\<close> Recursion is structural or has a measure, but for \<^verbatim>\<open>JSON.parse\<close>, whose fuel is the
  length of the text (each call consumes a character), and \<^verbatim>\<open>modifyParams\<close>, whose fuel is the length of the
  type text (each call drops a dimension). Integers that overflow in the code are words or have their
  bound written out; bigints are unbounded as in the language.

  \<^bold>\<open>Simplifications.\<close> Callbacks of the user do not call back into the same object while they run. The
  jitter of a reconnection delay is a rational number in place of a float. Events of a socket that has been
  replaced are still allowed. The identifiers of requests are compared as values. Objects are compared by
  value, so an object shared by two owners is only modelled where the code mutates it (items of the socket
  provider, hardforks, default common). Options of types the code does not declare are not modelled. Where
  an error carries a message that repeats its input, the model may keep the class and a shortened message;
  the classes with their full messages are in ErrorClasses. The formatter is its returned value; that it
  changes nested arrays of its argument is not part of the model.

  \<^bold>\<open>Not modelled.\<close> \<^verbatim>\<open>web3-types\<close> (types only), the index files and version files, the classes of \<^verbatim>\<open>web3\<close> and
  \<^verbatim>\<open>web3_qrl.ts\<close>, \<^verbatim>\<open>net.ts\<close> and \<^verbatim>\<open>qrns.ts\<close> as far as they only forward to functions that are modelled, the
  contract objects that are made from an interface at run time, the transports that only wrap a socket
  (\<^verbatim>\<open>web3-providers-ipc\<close>, \<^verbatim>\<open>web3-providers-ws\<close>), sources of randomness, the plugin registry, and the tools, tests
  and documentation of the repository. The manifest lists each with its reason.
\<close>

end
